(* ===== verification/Prelude.thy ===== *)
theory Prelude
  imports Complex_Main "HOL-Library.Sublist" "HOL-Library.Char_ord" "HOL-Library.List_Lexorder"
begin

text \<open>
  The shared ground of the development: Python values as they reach the code from JSON and YAML,
  the exceptions the code can raise as values of a sum type, the few operations of the language
  that the sources use on such values (truthiness, \<open>or\<close>, \<open>get\<close>, iteration, \<open>int\<close>, \<open>float\<close>,
  \<open>str\<close>), and the generic lemmas on lists, options and results that the component theories use.

  Text is a \<open>string\<close> of UTF-8 bytes, so that equality and substring search agree with Python's
  on code points; the one operation that counts code points (slicing) is \<open>utf8_take\<close>.
  Floating-point numbers are \<open>real\<close>: rounding, infinities and NaN are outside the model.
\<close>

named_theorems res_simps \<open>evaluation of the error monad\<close>
named_theorems pyval_simps \<open>evaluation of operations on Python values\<close>

section \<open>Errors as values\<close>

datatype py_error = AttributeError | TypeError | ValueError | KeyError | IndexError
  | OtherError string

type_synonym 'a res = "py_error + 'a"

fun exc_name :: "py_error \<Rightarrow> string" where
  \<comment> \<open>\<open>type(e).__name__\<close>\<close>
  "exc_name AttributeError = ''AttributeError''"
| "exc_name TypeError = ''TypeError''"
| "exc_name ValueError = ''ValueError''"
| "exc_name KeyError = ''KeyError''"
| "exc_name IndexError = ''IndexError''"
| "exc_name (OtherError n) = n"

fun bind_res :: "'a res \<Rightarrow> ('a \<Rightarrow> 'b res) \<Rightarrow> 'b res" where
  "bind_res (Inl e) f = Inl e"
| "bind_res (Inr x) f = f x"

text \<open>Steps that change a world and may fail; what was changed before a failure stays changed.\<close>

definition bind_st :: "('e + 'a) \<times> 'w \<Rightarrow> ('a \<Rightarrow> 'w \<Rightarrow> ('e + 'b) \<times> 'w) \<Rightarrow> ('e + 'b) \<times> 'w" where
  "bind_st m f = (case m of (Inl e, w) \<Rightarrow> (Inl e, w) | (Inr x, w) \<Rightarrow> f x w)"

definition st_wp :: "('e + 'a) \<times> 'w \<Rightarrow> ('a \<Rightarrow> 'w \<Rightarrow> bool) \<Rightarrow> ('e \<Rightarrow> 'w \<Rightarrow> bool) \<Rightarrow> bool" where
  \<comment> \<open>how a step may end: with a value or with an error, and the world it leaves\<close>
  "st_wp m Q E = (case m of (Inr x, w) \<Rightarrow> Q x w | (Inl e, w) \<Rightarrow> E e w)"

lemma st_wp_bind: "st_wp (bind_st m f) Q E = st_wp m (\<lambda>x w. st_wp (f x w) Q E) E"
  by (auto simp: st_wp_def bind_st_def split: prod.splits sum.splits)

lemma st_wp_ret [simp]: "st_wp (Inr x, w) Q E = Q x w" "st_wp (Inl e, w) Q E = E e w"
  by (simp_all add: st_wp_def)

lemma st_wp_pure: "(\<And>x. m = Inr x \<Longrightarrow> Q x w) \<Longrightarrow> (\<And>e. m = Inl e \<Longrightarrow> E e w) \<Longrightarrow> st_wp (m, w) Q E"
  by (cases m) simp_all

lemma st_wp_mono:
  "st_wp m Q E \<Longrightarrow> (\<And>x w. Q x w \<Longrightarrow> Q' x w) \<Longrightarrow> (\<And>e w. E e w \<Longrightarrow> E' e w) \<Longrightarrow> st_wp m Q' E'"
  by (auto simp: st_wp_def split: prod.splits sum.splits)

lemma st_wp_Inr: "st_wp m Q E \<Longrightarrow> m = (Inr x, w) \<Longrightarrow> Q x w"
  and st_wp_Inl: "st_wp m Q E \<Longrightarrow> m = (Inl e, w) \<Longrightarrow> E e w"
  by simp_all

lemma bind_res_eq_Inr [simp, res_simps]:
  "bind_res m f = Inr y \<longleftrightarrow> (\<exists>x. m = Inr x \<and> f x = Inr y)"
  by (cases m) auto

lemma bind_res_InrE:
  assumes "bind_res m f = Inr y"
  obtains x where "m = Inr x" and "f x = Inr y"
  using assms by auto

lemma if_InrE:
  assumes "(if c then x else y) = Inr z"
  obtains "c" "x = Inr z" | "\<not> c" "y = Inr z"
  using assms by (cases c) auto

lemma bind_res_eq_Inl:
  "bind_res m f = Inl e \<longleftrightarrow> m = Inl e \<or> (\<exists>x. m = Inr x \<and> f x = Inl e)"
  by (cases m) auto

text \<open>A comprehension or loop whose body may raise: the first exception ends it.\<close>

fun map_res :: "('a \<Rightarrow> 'b res) \<Rightarrow> 'a list \<Rightarrow> 'b list res" where
  "map_res f [] = Inr []"
| "map_res f (x # xs) =
     bind_res (f x) (\<lambda>y. bind_res (map_res f xs) (\<lambda>ys. Inr (y # ys)))"

text \<open>Python's \<open>all\<close> over a generator: it stops at the first false element.\<close>

fun all_res :: "('a \<Rightarrow> bool res) \<Rightarrow> 'a list \<Rightarrow> bool res" where
  "all_res p [] = Inr True"
| "all_res p (x # xs) = bind_res (p x) (\<lambda>b. if b then all_res p xs else Inr False)"

fun fold_res :: "('a \<Rightarrow> 's \<Rightarrow> 's res) \<Rightarrow> 'a list \<Rightarrow> 's \<Rightarrow> 's res" where
  "fold_res f [] s = Inr s"
| "fold_res f (x # xs) s = bind_res (f x s) (fold_res f xs)"

lemma map_res_Inr_iff:
  "map_res f xs = Inr ys \<longleftrightarrow> list_all2 (\<lambda>x y. f x = Inr y) xs ys"
  by (induction xs arbitrary: ys) (auto simp: list_all2_Cons1)

lemma map_res_length: "map_res f xs = Inr ys \<Longrightarrow> length ys = length xs"
  by (simp add: map_res_Inr_iff list_all2_lengthD)

lemma map_res_nth:
  assumes "map_res f xs = Inr ys" and "i < length xs"
  shows "f (xs ! i) = Inr (ys ! i)"
  using assms by (auto simp: map_res_Inr_iff list_all2_conv_all_nth)

lemma map_res_in_set:
  assumes "map_res f xs = Inr ys" and "y \<in> set ys"
  shows "\<exists>x \<in> set xs. f x = Inr y"
  using assms
  by (metis in_set_conv_nth map_res_length map_res_nth)

lemma map_res_total: "(\<And>x. x \<in> set xs \<Longrightarrow> f x = Inr (g x)) \<Longrightarrow> map_res f xs = Inr (map g xs)"
  by (induction xs) auto

lemma all_res_True: "all_res p xs = Inr True \<longleftrightarrow> (\<forall>x \<in> set xs. p x = Inr True)"
  by (induction xs) (auto split: if_splits)

lemma all_res_total:
  "(\<And>x. x \<in> set xs \<Longrightarrow> p x = Inr (q x)) \<Longrightarrow> all_res p xs = Inr (list_all q xs)"
  by (induction xs) auto

section \<open>Python values\<close>

datatype pyval =
    PNone
  | PBool bool
  | PInt int
  | PFloat real
  | PStr string
  | PList "pyval list"
  | PDict "(string \<times> pyval) list"

type_synonym pydict = "(string \<times> pyval) list"

text \<open>
  Library functions whose behaviour is a table or a parser of its own are parameters of the model:
  number parsing, the text form of floats and containers, Unicode lower-casing, the JSON parser
  (\<open>Inl\<close> carries the message of the decode error), regular-expression search (\<open>None\<close> is
  \<open>re.error\<close>, a malformed pattern) and the message of an exception (\<open>str(e)\<close>).
\<close>

record pylib =
  float_of_text :: "string \<Rightarrow> real option"
  int_of_text :: "string \<Rightarrow> int option"
  repr_of :: "pyval \<Rightarrow> string"
  lower_of :: "string \<Rightarrow> string"
  json_loads :: "string \<Rightarrow> string + pyval"
  re_search :: "string \<Rightarrow> string \<Rightarrow> bool option"
  exc_text :: "py_error \<Rightarrow> string"

fun truthy :: "pyval \<Rightarrow> bool" where
  "truthy PNone = False"
| "truthy (PBool b) = b"
| "truthy (PInt i) = (i \<noteq> 0)"
| "truthy (PFloat r) = (r \<noteq> 0)"
| "truthy (PStr s) = (s \<noteq> [])"
| "truthy (PList xs) = (xs \<noteq> [])"
| "truthy (PDict d) = (d \<noteq> [])"

definition py_or :: "pyval \<Rightarrow> pyval \<Rightarrow> pyval" where
  "py_or a b = (if truthy a then a else b)"

definition dget :: "pydict \<Rightarrow> string \<Rightarrow> pyval \<Rightarrow> pyval" where
  \<comment> \<open>\<open>d.get(k, default)\<close>\<close>
  "dget d k dflt = (case map_of d k of None \<Rightarrow> dflt | Some v \<Rightarrow> v)"

fun as_dict :: "pyval \<Rightarrow> pydict res" where
  \<comment> \<open>what \<open>v.get(...)\<close> needs \<open>v\<close> to be\<close>
  "as_dict (PDict d) = Inr d"
| "as_dict v = Inl AttributeError"

definition get_dict :: "pydict \<Rightarrow> string \<Rightarrow> pydict res" where
  \<comment> \<open>\<open>d.get(k) or {}\<close>, used as a dictionary\<close>
  "get_dict d k = as_dict (py_or (dget d k PNone) (PDict []))"

definition opt_dict :: "pyval \<Rightarrow> pydict res" where
  \<comment> \<open>\<open>v or {}\<close>, used as a dictionary\<close>
  "opt_dict v = as_dict (py_or v (PDict []))"

fun py_float :: "pylib \<Rightarrow> pyval \<Rightarrow> real res" where
  "py_float L (PFloat r) = Inr r"
| "py_float L (PInt i) = Inr (of_int i)"
| "py_float L (PBool b) = Inr (if b then 1 else 0)"
| "py_float L (PStr s) = (case float_of_text L s of None \<Rightarrow> Inl ValueError | Some r \<Rightarrow> Inr r)"
| "py_float L v = Inl TypeError"

fun py_int :: "pylib \<Rightarrow> pyval \<Rightarrow> int res" where
  "py_int L (PInt i) = Inr i"
| "py_int L (PBool b) = Inr (if b then 1 else 0)"
| "py_int L (PFloat r) = Inr (if r < 0 then \<lceil>r\<rceil> else \<lfloor>r\<rfloor>)"
| "py_int L (PStr s) = (case int_of_text L s of None \<Rightarrow> Inl ValueError | Some i \<Rightarrow> Inr i)"
| "py_int L v = Inl TypeError"

text \<open>Decimal digits of a natural number, as \<open>str\<close> and f-strings print them.\<close>

fun digits_of :: "nat \<Rightarrow> string" where
  "digits_of n =
     (if n < 10 then [char_of (48 + n)] else digits_of (n div 10) @ [char_of (48 + n mod 10)])"

declare digits_of.simps [simp del]

definition int_str :: "int \<Rightarrow> string" where
  "int_str i = (if i < 0 then CHR ''-'' # digits_of (nat (- i)) else digits_of (nat i))"

fun py_str :: "pylib \<Rightarrow> pyval \<Rightarrow> string" where
  "py_str L (PStr s) = s"
| "py_str L PNone = ''None''"
| "py_str L (PBool b) = (if b then ''True'' else ''False'')"
| "py_str L (PInt i) = int_str i"
| "py_str L v = repr_of L v"

text \<open>The code points of a UTF-8 byte string, each as the string of its bytes.\<close>

definition utf8_cont :: "char \<Rightarrow> bool" where
  \<comment> \<open>a continuation byte 10xxxxxx\<close>
  "utf8_cont c = ((of_char c :: nat) div 64 = 2)"

function utf8_chars :: "string \<Rightarrow> string list" where
  "utf8_chars [] = []"
| "utf8_chars (c # cs) =
     (c # takeWhile utf8_cont cs) # utf8_chars (dropWhile utf8_cont cs)"
  by pat_completeness auto
termination
  by (relation "measure length") (auto simp: le_imp_less_Suc length_dropWhile_le)

definition utf8_take :: "nat \<Rightarrow> string \<Rightarrow> string" where
  \<comment> \<open>\<open>s[:n]\<close> on code points\<close>
  "utf8_take n s = concat (take n (utf8_chars s))"

fun py_iter :: "pyval \<Rightarrow> pyval list res" where
  \<comment> \<open>what \<open>list(v)\<close> or \<open>for x in v\<close> sees\<close>
  "py_iter (PList xs) = Inr xs"
| "py_iter (PStr s) = Inr (map PStr (utf8_chars s))"
| "py_iter (PDict d) = Inr (map (PStr \<circ> fst) d)"
| "py_iter v = Inl TypeError"

fun int_key :: "pyval \<Rightarrow> int option res" where
  \<comment> \<open>a value used to look up a dictionary with integer keys: the key it equals, if any;
      lists and dictionaries are unhashable\<close>
  "int_key (PInt i) = Inr (Some i)"
| "int_key (PBool b) = Inr (Some (if b then 1 else 0))"
| "int_key (PFloat r) = Inr (if r = of_int \<lfloor>r\<rfloor> then Some \<lfloor>r\<rfloor> else None)"
| "int_key (PStr s) = Inr None"
| "int_key PNone = Inr None"
| "int_key v = Inl TypeError"

text \<open>Assignment to a dictionary entry keeps its place, or appends a new one at the end.\<close>

fun dict_put :: "string \<Rightarrow> pyval \<Rightarrow> pydict \<Rightarrow> pydict" where
  "dict_put k v [] = [(k, v)]"
| "dict_put k v ((k', v') # d) = (if k' = k then (k, v) # d else (k', v') # dict_put k v d)"

definition dict_update :: "pydict \<Rightarrow> pydict \<Rightarrow> pydict" where
  "dict_update d e = fold (\<lambda>(k, v). dict_put k v) e d"

fun py_pair :: "pyval \<Rightarrow> (string \<times> pyval) res" where
  "py_pair (PList [PStr k, v]) = Inr (k, v)"
| "py_pair v = Inl TypeError"

fun py_dict :: "pyval \<Rightarrow> pydict res" where
  \<comment> \<open>\<open>dict(v)\<close>: a copy of a dictionary, or the dictionary of a list of pairs\<close>
  "py_dict (PDict d) = Inr d"
| "py_dict (PList xs) = bind_res (map_res py_pair xs) (\<lambda>kvs. Inr (dict_update [] kvs))"
| "py_dict v = Inl TypeError"

lemmas pyval_defs [pyval_simps] = py_or_def dget_def get_dict_def opt_dict_def

lemma as_dict_eq_Inr: "as_dict v = Inr d \<longleftrightarrow> v = PDict d"
  by (cases v) auto

lemma truthy_py_or: "truthy (py_or a b) \<longleftrightarrow> truthy a \<or> truthy b"
  by (simp add: py_or_def)

lemma get_dict_missing [simp]: "map_of d k = None \<Longrightarrow> get_dict d k = Inr []"
  by (simp add: pyval_simps)

lemma get_dict_present:
  "map_of d k = Some (PDict e) \<Longrightarrow> get_dict d k = Inr e"
  by (auto simp: pyval_simps)

lemma map_of_dict_put: "map_of (dict_put k v d) = (map_of d)(k \<mapsto> v)"
  by (induction k v d rule: dict_put.induct) (auto simp: fun_upd_twist)

lemma keys_dict_put: "fst ` set (dict_put k v d) = insert k (fst ` set d)"
  by (induction k v d rule: dict_put.induct) auto

lemma map_of_dict_update: "map_of (dict_update d e) = map_of d ++ map_of (rev e)"
proof (induction e arbitrary: d)
  case (Cons kv e)
  then show ?case
    by (cases kv) (auto simp: dict_update_def map_of_dict_put map_add_def fun_eq_iff split: option.splits)
qed (simp add: dict_update_def)

lemma concat_utf8_chars: "concat (utf8_chars s) = s"
  by (induction s rule: utf8_chars.induct) auto

lemma utf8_take_prefix: "prefix (utf8_take n s) s"
  unfolding utf8_take_def
  by (metis append_take_drop_id concat_append concat_utf8_chars prefixI)

lemma digits_of_nonempty [simp]: "digits_of n \<noteq> []"
  by (subst digits_of.simps) simp

lemma digits_of_inj [simp]: "digits_of m = digits_of n \<longleftrightarrow> m = n"
proof
  show "digits_of m = digits_of n \<Longrightarrow> m = n"
  proof (induction m arbitrary: n rule: less_induct)
    case (less m)
    have inj: "char_of (48 + a) = (char_of (48 + b) :: char) \<longleftrightarrow> a = b" if "a < 10" "b < 10" for a b :: nat
      using that by (simp add: char_of_eq_iff take_bit_nat_eq_self)
    show ?case
    proof (cases "m < 10"; cases "n < 10")
      assume "\<not> m < 10" "\<not> n < 10"
      then have "digits_of (m div 10) = digits_of (n div 10)" "m mod 10 = n mod 10"
        using less.prems inj [of "m mod 10" "n mod 10"] by (auto simp: digits_of.simps [of m] digits_of.simps [of n])
      with less.IH [of "m div 10" "n div 10"] \<open>\<not> m < 10\<close> show ?thesis
        by (metis div_less_dividend div_mult_mod_eq less_numeral_extra(1) linorder_not_le not_less_zero one_less_numeral_iff semiring_norm(76) less_nat_zero_code gr0I)
    qed (use less.prems inj in \<open>auto simp: digits_of.simps [of m] digits_of.simps [of n] eq_commute [of "[]"]\<close>)
  qed
qed simp

section \<open>Lists\<close>

text \<open>Removal of later duplicates, as a loop with a \<open>seen\<close> set does it.\<close>

fun dedup_from :: "'a set \<Rightarrow> 'a list \<Rightarrow> 'a list" where
  "dedup_from seen [] = []"
| "dedup_from seen (x # xs) =
     (if x \<in> seen then dedup_from seen xs else x # dedup_from (insert x seen) xs)"

lemma set_dedup_from: "set (dedup_from seen xs) = set xs - seen"
  by (induction xs arbitrary: seen) auto

lemma distinct_dedup_from: "distinct (dedup_from seen xs)"
  by (induction xs arbitrary: seen) (auto simp: set_dedup_from)

lemma subseq_dedup_from: "subseq (dedup_from seen xs) xs"
  by (induction xs arbitrary: seen) auto

text \<open>Python's \<open>sum(1 for x in xs if p x)\<close>.\<close>

definition count_if :: "('a \<Rightarrow> bool) \<Rightarrow> 'a list \<Rightarrow> nat" where
  "count_if p xs = length (filter p xs)"

lemma count_if_le: "count_if p xs \<le> length xs"
  by (simp add: count_if_def)

lemma count_if_Cons [simp]:
  "count_if p [] = 0" "count_if p (x # xs) = (if p x then 1 else 0) + count_if p xs"
  by (simp_all add: count_if_def)

lemma count_if_pos: "0 < count_if p xs \<longleftrightarrow> (\<exists>x \<in> set xs. p x)"
  by (auto simp: count_if_def filter_empty_conv)

lemma list_all2_map_eq:
  assumes "list_all2 P xs ys" and "\<And>x y. P x y \<Longrightarrow> f y = g x"
  shows "map f ys = map g xs"
  using assms by (induction rule: list_all2_induct) auto

lemma list_all2_in_right:
  assumes "list_all2 P xs ys" and "y \<in> set ys"
  shows "\<exists>x \<in> set xs. P x y"
  using assms by (induction rule: list_all2_induct) auto

text \<open>Python's slice \<open>xs[:k]\<close>, where a negative \<open>k\<close> counts from the end.\<close>

definition slice_to :: "int \<Rightarrow> 'a list \<Rightarrow> 'a list" where
  "slice_to k xs = (if 0 \<le> k then take (nat k) xs else take (length xs - nat (- k)) xs)"

lemma set_slice_to: "set (slice_to k xs) \<subseteq> set xs"
  by (auto simp: slice_to_def dest: in_set_takeD)

lemma length_slice_to: "0 \<le> k \<Longrightarrow> length (slice_to k xs) = min (nat k) (length xs)"
  by (simp add: slice_to_def)

lemma prefix_slice_to: "prefix (slice_to k xs) xs"
  by (simp add: slice_to_def take_is_prefix)

text \<open>Stable sorting by a key in descending order, \<open>sorted(xs, key=f, reverse=True)\<close>.\<close>

definition sort_desc :: "('a \<Rightarrow> real) \<Rightarrow> 'a list \<Rightarrow> 'a list" where
  "sort_desc f xs = sort_key (\<lambda>x. - f x) xs"

lemma set_sort_desc [simp]: "set (sort_desc f xs) = set xs"
  and length_sort_desc [simp]: "length (sort_desc f xs) = length xs"
  by (simp_all add: sort_desc_def)

lemma sorted_sort_desc: "sorted_wrt (\<lambda>x y. f y \<le> f x) (sort_desc f xs)"
proof -
  have "sorted (map (\<lambda>x. - f x) (sort_desc f xs))"
    by (simp add: sort_desc_def)
  then show ?thesis
    by (simp add: sorted_wrt_map)
qed

text \<open>Python's \<open>any\<close> over a generator: it stops at the first true element.\<close>

fun any_res :: "('a \<Rightarrow> bool res) \<Rightarrow> 'a list \<Rightarrow> bool res" where
  "any_res p [] = Inr False"
| "any_res p (x # xs) = bind_res (p x) (\<lambda>b. if b then Inr True else any_res p xs)"

lemma any_res_total:
  "(\<And>x. x \<in> set xs \<Longrightarrow> p x = Inr (q x)) \<Longrightarrow> any_res p xs = Inr (list_ex q xs)"
  by (induction xs) auto

lemma all_res_cong [fundef_cong]:
  "xs = ys \<Longrightarrow> (\<And>x. x \<in> set ys \<Longrightarrow> p x = q x) \<Longrightarrow> all_res p xs = all_res q ys"
  by (induction ys arbitrary: xs) (simp_all cong: if_cong)

lemma any_res_cong [fundef_cong]:
  "xs = ys \<Longrightarrow> (\<And>x. x \<in> set ys \<Longrightarrow> p x = q x) \<Longrightarrow> any_res p xs = any_res q ys"
  by (induction ys arbitrary: xs) (simp_all cong: if_cong)

text \<open>\<open>max(lo, min(hi, x))\<close>, the clamp the scores go through.\<close>

definition clamp01 :: "real \<Rightarrow> real" where
  "clamp01 x = max 0 (min 1 x)"

lemma clamp01_bounds [simp]: "0 \<le> clamp01 x" "clamp01 x \<le> 1"
  by (auto simp: clamp01_def)

lemma clamp01_id: "0 \<le> x \<Longrightarrow> x \<le> 1 \<Longrightarrow> clamp01 x = x"
  by (simp add: clamp01_def)

lemma clamp01_mono: "x \<le> y \<Longrightarrow> clamp01 x \<le> clamp01 y"
  by (auto simp: clamp01_def)

lemma ratio_bounds:
  assumes "m \<le> n"
  shows "0 \<le> real m / real n" "real m / real n \<le> 1"
  using assms by (auto simp: divide_le_eq_1)

end
