(* ===== verification/Py_Text.thy ===== *)
theory Py_Text
  imports Prelude
begin

text \<open>
  The string methods of Python that the services use, on UTF-8 text: \<open>split\<close>, \<open>strip\<close>, \<open>join\<close>,
  \<open>replace\<close>, \<open>splitlines\<close> and \<open>split(sep)\<close> work on code points (the elements of \<open>utf8_chars\<close>).
\<close>

definition byte :: "nat \<Rightarrow> char" where
  "byte n = char_of n"

text \<open>The code points that \<open>str.isspace\<close> accepts, which \<open>split()\<close> and \<open>strip()\<close> use.\<close>

definition is_space :: "string \<Rightarrow> bool" where
  "is_space cp = (case map (of_char :: char \<Rightarrow> nat) cp of
       [a] \<Rightarrow> 9 \<le> a \<and> a \<le> 13 \<or> 28 \<le> a \<and> a \<le> 32
     | [a, b] \<Rightarrow> a = 194 \<and> (b = 133 \<or> b = 160)
     | [a, b, c] \<Rightarrow>
         a = 225 \<and> b = 154 \<and> c = 128
         \<or> a = 226 \<and> b = 128 \<and> (128 \<le> c \<and> c \<le> 138 \<or> c = 168 \<or> c = 169 \<or> c = 175)
         \<or> a = 226 \<and> b = 129 \<and> c = 159
         \<or> a = 227 \<and> b = 128 \<and> c = 128
     | _ \<Rightarrow> False)"

text \<open>The code points that end a line for \<open>splitlines\<close>; \<open>\\r\\n\<close> counts as one.\<close>

definition is_linebreak :: "string \<Rightarrow> bool" where
  "is_linebreak cp = (case map (of_char :: char \<Rightarrow> nat) cp of
       [a] \<Rightarrow> 10 \<le> a \<and> a \<le> 13 \<or> 28 \<le> a \<and> a \<le> 30
     | [a, b] \<Rightarrow> a = 194 \<and> b = 133
     | [a, b, c] \<Rightarrow> a = 226 \<and> b = 128 \<and> (c = 168 \<or> c = 169)
     | _ \<Rightarrow> False)"

fun split_ws :: "string list \<Rightarrow> string list \<Rightarrow> string list list" where
  \<comment> \<open>the current word, the code points left\<close>
  "split_ws w [] = (if w = [] then [] else [w])"
| "split_ws w (c # cs) =
     (if is_space c then (if w = [] then split_ws [] cs else w # split_ws [] cs)
      else split_ws (w @ [c]) cs)"

definition py_split :: "string \<Rightarrow> string list" where
  "py_split s = map concat (split_ws [] (utf8_chars s))"

definition strip_with :: "(string \<Rightarrow> bool) \<Rightarrow> string list \<Rightarrow> string list" where
  "strip_with p cps = rev (dropWhile p (rev (dropWhile p cps)))"

definition py_strip :: "string \<Rightarrow> string" where
  "py_strip s = concat (strip_with is_space (utf8_chars s))"

definition py_strip_chars :: "string list \<Rightarrow> string \<Rightarrow> string" where
  \<comment> \<open>\<open>s.strip(chars)\<close>\<close>
  "py_strip_chars cs s = concat (strip_with (\<lambda>c. c \<in> set cs) (utf8_chars s))"

fun py_join :: "string \<Rightarrow> string list \<Rightarrow> string" where
  "py_join sep [] = []"
| "py_join sep [x] = x"
| "py_join sep (x # y # ys) = x @ sep @ py_join sep (y # ys)"

text \<open>\<open>s.split(c)\<close> for a one-byte separator: always at least one part.\<close>

fun split_char :: "char \<Rightarrow> string \<Rightarrow> string list" where
  "split_char c [] = [[]]"
| "split_char c (x # xs) =
     (if x = c then [] # split_char c xs
      else case split_char c xs of [] \<Rightarrow> [[x]] | p # ps \<Rightarrow> (x # p) # ps)"

fun lines_of :: "string list \<Rightarrow> string list \<Rightarrow> string list" where
  \<comment> \<open>the current line, the code points left\<close>
  "lines_of w [] = (if w = [] then [] else [concat w])"
| "lines_of w [c] = (if is_linebreak c then [concat w] else [concat (w @ [c])])"
| "lines_of w (c # d # cs) =
     (if c = [CHR 0x0D] \<and> d = [CHR 0x0A] then concat w # lines_of [] cs
      else if is_linebreak c then concat w # lines_of [] (d # cs)
      else lines_of (w @ [c]) (d # cs))"

definition py_splitlines :: "string \<Rightarrow> string list" where
  "py_splitlines s = lines_of [] (utf8_chars s)"

definition replace_char :: "char \<Rightarrow> char \<Rightarrow> string \<Rightarrow> string" where
  "replace_char a b s = map (\<lambda>x. if x = a then b else x) s"

definition contains :: "string \<Rightarrow> string \<Rightarrow> bool" where
  \<comment> \<open>\<open>needle in text\<close>\<close>
  "contains needle hay = sublist needle hay"

section \<open>Facts\<close>

lemma split_char_nonempty [simp]: "split_char c s \<noteq> []"
  by (cases s) (auto split: list.splits)

lemma split_char_join: "py_join [c] (split_char c s) = s"
proof (induction s)
  case (Cons x s)
  obtain p ps where "split_char c s = p # ps"
    by (cases "split_char c s") auto
  with Cons show ?case by (cases ps) auto
qed simp

lemma split_char_no_sep: "part \<in> set (split_char c s) \<Longrightarrow> c \<notin> set part"
proof (induction s arbitrary: part)
  case (Cons x s)
  obtain p ps where "split_char c s = p # ps"
    by (cases "split_char c s") auto
  with Cons show ?case by (auto split: if_splits)
qed simp

lemma strip_with_set: "set (strip_with p cs) \<subseteq> set cs"
  unfolding strip_with_def by (metis set_dropWhileD set_rev subsetI)

lemma split_ws_words:
  assumes "\<forall>c \<in> set w. \<not> is_space c"
  shows "\<forall>w' \<in> set (split_ws w cs). w' \<noteq> [] \<and> (\<forall>c \<in> set w'. \<not> is_space c)"
  using assms
proof (induction cs arbitrary: w)
  case (Cons c cs)
  have "\<forall>w' \<in> set (split_ws [] cs). w' \<noteq> [] \<and> (\<forall>c \<in> set w'. \<not> is_space c)"
    by (rule Cons.IH) simp
  moreover have "\<not> is_space c \<Longrightarrow>
      \<forall>w' \<in> set (split_ws (w @ [c]) cs). w' \<noteq> [] \<and> (\<forall>c \<in> set w'. \<not> is_space c)"
    by (rule Cons.IH) (use Cons.prems in auto)
  ultimately show ?case using Cons.prems by simp
qed simp

text \<open>Splitting a text into words and joining them with spaces gives the words back.\<close>

lemma utf8_chars_append:
  "ys = [] \<or> \<not> utf8_cont (hd ys) \<Longrightarrow> utf8_chars (xs @ ys) = utf8_chars xs @ utf8_chars ys"
proof (induction xs rule: utf8_chars.induct)
  case (2 c cs)
  show ?case
  proof (cases "\<forall>x \<in> set cs. utf8_cont x")
    case True
    then show ?thesis
      using "2.prems" by (cases ys) (auto simp: takeWhile_append2 dropWhile_append2 takeWhile_eq_all_conv [THEN iffD2] dropWhile_eq_Nil_conv [THEN iffD2])
  next
    case False
    then show ?thesis
      using 2 by (auto simp: takeWhile_append dropWhile_append)
  qed
qed simp

definition is_word :: "string \<Rightarrow> bool" where
  \<comment> \<open>a is_word that begins with a whole code point and has no white space\<close>
  "is_word w \<longleftrightarrow> w \<noteq> [] \<and> \<not> utf8_cont (hd w) \<and> (\<forall>c \<in> set (utf8_chars w). \<not> is_space c)"

lemma split_ws_word: "\<forall>c \<in> set cs. \<not> is_space c \<Longrightarrow> split_ws w (cs @ ds) = split_ws (w @ cs) ds"
  by (induction cs arbitrary: w) auto

lemma utf8_chars_nonempty: "c \<in> set (utf8_chars s) \<Longrightarrow> c \<noteq> []"
  by (induction s rule: utf8_chars.induct) auto

lemma utf8_chars_tail: "c \<in> set (tl (utf8_chars s)) \<Longrightarrow> \<not> utf8_cont (hd c)"
proof (induction s rule: utf8_chars.induct)
  case (2 b cs)
  show ?case
  proof (cases "dropWhile utf8_cont cs")
    case (Cons d ds)
    with 2 hd_dropWhile [of utf8_cont cs] show ?thesis by auto
  next
    case Nil
    with "2.prems" show ?thesis by (simp add: Nil)
  qed
qed simp

lemma utf8_chars_concat:
  assumes "\<forall>c \<in> set cs. c \<noteq> [] \<and> (\<forall>b \<in> set (tl c). utf8_cont b) \<and> \<not> utf8_cont (hd c)"
  shows "utf8_chars (concat cs) = cs"
  using assms
proof (induction cs)
  case (Cons c cs)
  have one: "utf8_chars c = [c]" using Cons.prems by (cases c) (auto simp: takeWhile_eq_all_conv dropWhile_eq_Nil_conv [THEN iffD2])
  have "concat cs = [] \<or> \<not> utf8_cont (hd (concat cs))"
    using Cons.prems by (cases cs) (auto simp: hd_append)
  with Cons one show ?case by (simp add: utf8_chars_append)
qed simp

lemma utf8_chars_cont: "c \<in> set (utf8_chars s) \<Longrightarrow> b \<in> set (tl c) \<Longrightarrow> utf8_cont b"
  by (induction s rule: utf8_chars.induct) (auto dest: set_takeWhileD)

lemma split_ws_set: "w' \<in> set (split_ws w cs) \<Longrightarrow> set w' \<subseteq> set w \<union> set cs"
  by (induction cs arbitrary: w) (fastforce split: if_splits)+

lemma py_split_words:
  assumes "s = [] \<or> \<not> utf8_cont (hd s)"
  shows "\<forall>w \<in> set (py_split s). is_word w"
proof
  fix w assume "w \<in> set (py_split s)"
  then obtain cs where cs: "w = concat cs" "cs \<in> set (split_ws [] (utf8_chars s))" by (auto simp: py_split_def)
  have sub: "set cs \<subseteq> set (utf8_chars s)" using split_ws_set [OF cs(2)] by simp
  have ns: "cs \<noteq> []" "\<forall>c \<in> set cs. \<not> is_space c" using split_ws_words [of "[]"] cs(2) by auto
  have "\<not> utf8_cont (hd c)" if "c \<in> set (utf8_chars s)" for c
    using that assms utf8_chars_tail [of c s] by (cases s) auto
  then have ok: "\<forall>c \<in> set cs. c \<noteq> [] \<and> (\<forall>b \<in> set (tl c). utf8_cont b) \<and> \<not> utf8_cont (hd c)"
    using sub utf8_chars_nonempty utf8_chars_cont by blast
  have "w \<noteq> [] \<and> \<not> utf8_cont (hd w)"
    using ns(1) ok cs(1) by (cases cs) (auto simp: hd_append)
  then show "is_word w" using ns(2) utf8_chars_concat [OF ok] cs(1) by (simp add: is_word_def)
qed

lemma word_chars: "is_word w \<Longrightarrow> utf8_chars w \<noteq> [] \<and> split_ws [] (utf8_chars w @ ds) = split_ws (utf8_chars w) ds"
  by (cases w) (auto simp: is_word_def split_ws_word)

lemma py_join_words: "\<forall>w \<in> set ws. is_word w \<Longrightarrow> py_join sep ws = [] \<or> \<not> utf8_cont (hd (py_join sep ws))"
  by (induction sep ws rule: py_join.induct) (auto simp: is_word_def hd_append)

lemma split_join_words:
  assumes "\<forall>w \<in> set ws. is_word w"
  shows "py_split (py_join '' '' ws) = ws"
  using assms
proof (induction "'' ''" ws rule: py_join.induct)
  case (3 x y ys)
  let ?r = "py_join '' '' (y # ys)"
  have sp: "is_space '' ''" "\<not> utf8_cont CHR '' ''" by (simp_all add: is_space_def utf8_cont_def)
  have r: "?r = [] \<or> \<not> utf8_cont (hd ?r)" using 3(2) by (intro py_join_words) simp
  have "utf8_chars ('' '' @ ?r) = '' '' # utf8_chars ?r"
    using utf8_chars_append [OF r, of "'' ''"] by simp
  then have "utf8_chars (x @ '' '' @ ?r) = utf8_chars x @ '' '' # utf8_chars ?r"
    using utf8_chars_append [of "'' '' @ ?r" x] sp(2) by simp
  with 3 sp(1) word_chars [of x] show ?case
    by (simp add: py_split_def concat_utf8_chars)
qed (use word_chars [where ds = "[]"] in \<open>auto simp: py_split_def concat_utf8_chars\<close>)

end
