(* ===== verification/Py_Data.thy ===== *)
theory Py_Data
  imports Prelude Py_Text
begin

text \<open>
  Python dictionaries with arbitrary keys as insertion-ordered association lists, general slices,
  and the two monadic loops over a dictionary's values that the repositories use.
\<close>

named_theorems dict_simps \<open>lookup after an update of an ordered dictionary\<close>

fun assoc_put :: "'k \<Rightarrow> 'v \<Rightarrow> ('k \<times> 'v) list \<Rightarrow> ('k \<times> 'v) list" where
  \<comment> \<open>\<open>d[k] = v\<close>: an existing key keeps its place\<close>
  "assoc_put k v [] = [(k, v)]"
| "assoc_put k v ((k', v') # d) = (if k' = k then (k, v) # d else (k', v') # assoc_put k v d)"

definition assoc_del :: "'k \<Rightarrow> ('k \<times> 'v) list \<Rightarrow> ('k \<times> 'v) list" where
  \<comment> \<open>\<open>d.pop(k, None)\<close>\<close>
  "assoc_del k d = filter (\<lambda>(k', _). k' \<noteq> k) d"

definition assoc_modify :: "'k \<Rightarrow> ('v \<Rightarrow> 'v) \<Rightarrow> ('k \<times> 'v) list \<Rightarrow> ('k \<times> 'v) list" where
  \<comment> \<open>mutation of the object stored under \<open>k\<close>, if there is one\<close>
  "assoc_modify k f d = map (\<lambda>(k', v). (k', if k' = k then f v else v)) d"

definition assoc_map :: "('k \<Rightarrow> 'v \<Rightarrow> 'v) \<Rightarrow> ('k \<times> 'v) list \<Rightarrow> ('k \<times> 'v) list" where
  \<comment> \<open>a loop over \<open>d.items()\<close> that mutates the stored objects\<close>
  "assoc_map f d = map (\<lambda>(k, v). (k, f k v)) d"

fun filter_res :: "('a \<Rightarrow> bool res) \<Rightarrow> 'a list \<Rightarrow> 'a list res" where
  "filter_res p [] = Inr []"
| "filter_res p (x # xs) =
     bind_res (p x) (\<lambda>ok. bind_res (filter_res p xs) (\<lambda>ys. Inr (if ok then x # ys else ys)))"

definition py_index :: "int \<Rightarrow> nat \<Rightarrow> nat" where
  \<comment> \<open>a slice bound: negative bounds count from the end, and both ends are clipped\<close>
  "py_index i n = (if 0 \<le> i then min (nat i) n else n - nat (- i))"

definition py_slice :: "int \<Rightarrow> int \<Rightarrow> 'a list \<Rightarrow> 'a list" where
  \<comment> \<open>\<open>xs[a:b]\<close>\<close>
  "py_slice a b xs = drop (py_index a (length xs)) (take (py_index b (length xs)) xs)"

definition page_of :: "int \<Rightarrow> int \<Rightarrow> 'a list \<Rightarrow> 'a list" where
  \<comment> \<open>\<open>start = (page - 1) * page_size; rows[start : start + page_size]\<close>\<close>
  "page_of page page_size xs = (let start = (page - 1) * page_size in py_slice start (start + page_size) xs)"

section \<open>Facts\<close>

lemma map_of_assoc_put [dict_simps]: "map_of (assoc_put k v d) = (map_of d)(k \<mapsto> v)"
  by (induction k v d rule: assoc_put.induct) (auto simp: fun_upd_twist)

lemma keys_assoc_put: "fst ` set (assoc_put k v d) = insert k (fst ` set d)"
  by (induction k v d rule: assoc_put.induct) auto

lemma distinct_assoc_put: "distinct (map fst d) \<Longrightarrow> distinct (map fst (assoc_put k v d))"
proof (induction k v d rule: assoc_put.induct)
  case (2 k v k' v' d)
  then show ?case using keys_assoc_put [of k v d] by (auto simp flip: set_map)
qed simp

lemma map_of_assoc_del [dict_simps]: "map_of (assoc_del k d) = (map_of d)(k := None)"
  by (induction d) (auto simp: assoc_del_def)

lemma distinct_assoc_del: "distinct (map fst d) \<Longrightarrow> distinct (map fst (assoc_del k d))"
  by (induction d) (auto simp: assoc_del_def)

lemma map_of_assoc_map [dict_simps]: "map_of (assoc_map f d) k = map_option (f k) (map_of d k)"
  by (induction d) (auto simp: assoc_map_def)

lemma keys_assoc_map [simp]: "map fst (assoc_map f d) = map fst d"
  by (induction d) (auto simp: assoc_map_def)

lemma assoc_modify_map: "assoc_modify k f = assoc_map (\<lambda>k' v. if k' = k then f v else v)"
  by (simp add: fun_eq_iff assoc_modify_def assoc_map_def)

lemma map_of_assoc_modify [dict_simps]:
  "map_of (assoc_modify k f d) = (case map_of d k of None \<Rightarrow> map_of d | Some v \<Rightarrow> (map_of d)(k \<mapsto> f v))"
proof
  fix x
  show "map_of (assoc_modify k f d) x
      = (case map_of d k of None \<Rightarrow> map_of d | Some v \<Rightarrow> (map_of d)(k \<mapsto> f v)) x"
    by (cases "x = k"; cases "map_of d k") (simp_all add: assoc_modify_map map_of_assoc_map option.map_ident)
qed

lemma keys_assoc_modify [simp]: "map fst (assoc_modify k f d) = map fst d"
  by (simp add: assoc_modify_map)

lemma set_py_slice: "set (py_slice a b xs) \<subseteq> set xs"
  unfolding py_slice_def by (meson in_set_dropD in_set_takeD subsetI)

lemma set_page_of: "set (page_of p n xs) \<subseteq> set xs"
  unfolding page_of_def Let_def by (rule set_py_slice)

lemma length_page_of: "1 \<le> p \<Longrightarrow> 0 \<le> n \<Longrightarrow> length (page_of p n xs) \<le> nat n"
  by (auto simp: page_of_def py_slice_def py_index_def Let_def nat_add_distrib)

lemma page_of_eq:
  assumes "1 \<le> p" and "0 \<le> n"
  shows "page_of p n xs = take (nat n) (drop (nat (p - 1) * nat n) xs)"
proof -
  have "nat ((p - 1) * n + n) = nat (p - 1) * nat n + nat n" "nat ((p - 1) * n) = nat (p - 1) * nat n"
    using assms by (simp_all add: nat_add_distrib nat_mult_distrib)
  moreover have "drop (min i l) (take (min (i + j) l) xs) = take j (drop i xs)" if "l = length xs" for i j l
    using that by (cases "i \<le> l") (simp_all add: drop_take min_def)
  ultimately show ?thesis
    using assms by (simp add: page_of_def py_slice_def py_index_def Let_def)
qed

text \<open>Consecutive pages cut a list into pieces without loss or overlap.\<close>

lemma pages_cover:
  assumes "0 < n" and "length xs \<le> k * nat n"
  shows "concat (map (\<lambda>i. page_of (int i + 1) n xs) [0..<k]) = xs"
proof -
  have "concat (map (\<lambda>i. page_of (int i + 1) n xs) [0..<k]) = take (k * nat n) xs" for k
  proof (induction k)
    case (Suc k)
    moreover have "take (Suc k * nat n) xs = take (k * nat n) xs @ take (nat n) (drop (k * nat n) xs)"
      using take_add [of "k * nat n" "nat n" xs] by (simp add: add.commute)
    ultimately show ?case using assms(1) by (simp add: page_of_eq)
  qed simp
  then show ?thesis using assms(2) by simp
qed

end
