(* ===== verification/Item_Bank.thy ===== *)
theory Item_Bank
  imports Py_Data
begin

text \<open>
  The bank of assessment items (\<open>interfaces/assessment_item_repository.py\<close>): the item record, the
  extraction criteria and every operation of \<open>InMemoryAssessmentItemRepository\<close>. The state is the
  dictionary \<open>_records\<close> in insertion order; a time is the number of seconds since \<open>datetime.min\<close>,
  and the clock reading of an operation is its argument \<open>now\<close>.

  The facts: keys stay unique and agree with the stored records, no operation touches another
  tenant, and an item becomes approved only by an explicit approval.
\<close>

section \<open>Items\<close>

record item =
  it_item_id :: string
  it_domain_id :: string
  it_subject :: "string option"
  it_chapter :: "string option"
  it_difficulty :: "string option"
  it_question_type :: "string option"
  it_question_text :: string
  it_choices :: "pyval list"
  it_answer :: string
  it_explanation :: "string option"
  it_tags :: "pyval list"
  it_quality_status :: string
  it_quality_score :: "real option"
  it_validator_results :: pydict
  it_used_count :: int
  it_last_used_at :: "real option"
  it_source :: "string option"
  it_reference_item_ids :: "string list"
  it_assets :: "pyval list"
  it_figure_dependent :: bool
  it_embedding_model :: "string option"
  it_vector_id :: "string option"
  it_predicted_difficulty :: "string option"
  it_created_at :: "real option"
  it_updated_at :: "real option"

definition new_item :: "string \<Rightarrow> string \<Rightarrow> item" where
  \<comment> \<open>the defaults of the record\<close>
  "new_item item_id domain_id =
     \<lparr>it_item_id = item_id, it_domain_id = domain_id, it_subject = None, it_chapter = None,
      it_difficulty = None, it_question_type = None, it_question_text = [], it_choices = [],
      it_answer = [], it_explanation = None, it_tags = [], it_quality_status = ''draft'',
      it_quality_score = None, it_validator_results = [], it_used_count = 0, it_last_used_at = None,
      it_source = None, it_reference_item_ids = [], it_assets = [], it_figure_dependent = False,
      it_embedding_model = None, it_vector_id = None, it_predicted_difficulty = None,
      it_created_at = None, it_updated_at = None\<rparr>"

record extract_criteria =
  ec_subject :: "string option"
  ec_chapter :: "string option"
  ec_difficulty :: "string option"
  ec_difficulty_distribution :: "(string \<times> int) list"
  ec_quality_status :: "string list"
  ec_exclude_recent_days :: "int option"
  ec_tags_any :: "string list"

definition default_criteria :: extract_criteria where
  "default_criteria = \<lparr>ec_subject = None, ec_chapter = None, ec_difficulty = None,
     ec_difficulty_distribution = [], ec_quality_status = [''approved''], ec_exclude_recent_days = None,
     ec_tags_any = []\<rparr>"

type_synonym item_key = "string \<times> string"
type_synonym bank = "(item_key \<times> item) list"

section \<open>Operations\<close>

definition bank_get :: "bank \<Rightarrow> string \<Rightarrow> string \<Rightarrow> item option" where
  "bank_get b domain_id item_id = map_of b (domain_id, item_id)"

definition stamped :: "real \<Rightarrow> item option \<Rightarrow> item \<Rightarrow> item" where
  \<comment> \<open>the time stamps of an upsert: a known creation time is kept\<close>
  "stamped now existing r = r\<lparr>it_created_at :=
       Some (case Option.bind existing it_created_at of
               Some t \<Rightarrow> t
             | None \<Rightarrow> (case it_created_at r of None \<Rightarrow> now | Some t \<Rightarrow> t)),
     it_updated_at := Some now\<rparr>"

definition bank_upsert :: "real \<Rightarrow> item \<Rightarrow> bank \<Rightarrow> item \<times> bank" where
  "bank_upsert now r b =
     (let key = (it_domain_id r, it_item_id r);
          r' = stamped now (map_of b key) r
      in (r', assoc_put key r' b))"

definition rows_of :: "bank \<Rightarrow> string \<Rightarrow> item list" where
  \<comment> \<open>\<open>[r for (tid, _iid), r in self._records.items() if tid == domain_id]\<close>\<close>
  "rows_of b domain_id = map snd (filter (\<lambda>((tid, _), _). tid = domain_id) b)"

definition if_given :: "'a option \<Rightarrow> ('r \<Rightarrow> 'a option) \<Rightarrow> 'r \<Rightarrow> bool" where
  \<comment> \<open>\<open>wanted is None or r.field == wanted\<close>\<close>
  "if_given wanted sel r = (wanted = None \<or> sel r = wanted)"

definition keyword_hit :: "pylib \<Rightarrow> string option \<Rightarrow> item \<Rightarrow> bool" where
  "keyword_hit L kw r =
     (case kw of None \<Rightarrow> True
      | Some k \<Rightarrow> k = [] \<or> contains (lower_of L k) (lower_of L (it_question_text r))
                       \<or> contains (lower_of L k) (lower_of L (it_item_id r)))"

definition list_by_tenant ::
  "pylib \<Rightarrow> bank \<Rightarrow> string \<Rightarrow> string option \<Rightarrow> string option \<Rightarrow> string option \<Rightarrow> string option
   \<Rightarrow> string option \<Rightarrow> int \<Rightarrow> int \<Rightarrow> item list \<times> int" where
  "list_by_tenant L b domain_id kw subject chapter difficulty status page page_size =
     (let rows = filter (\<lambda>r. if_given subject it_subject r \<and> if_given chapter it_chapter r
                   \<and> if_given difficulty it_difficulty r
                   \<and> if_given status (\<lambda>r. Some (it_quality_status r)) r
                   \<and> keyword_hit L kw r) (rows_of b domain_id)
      in (page_of page page_size (sort_desc (\<lambda>r. case it_updated_at r of None \<Rightarrow> 0 | Some t \<Rightarrow> t) rows),
          int (length rows)))"

definition unhashable :: "pyval \<Rightarrow> bool" where
  "unhashable v = (case v of PList _ \<Rightarrow> True | PDict _ \<Rightarrow> True | _ \<Rightarrow> False)"

definition tags_meet :: "string list \<Rightarrow> item \<Rightarrow> bool res" where
  \<comment> \<open>\<open>wanted & set(r.tags or [])\<close>\<close>
  "tags_meet wanted r =
     (if list_ex unhashable (it_tags r) then Inl TypeError
      else Inr (list_ex (\<lambda>t. PStr t \<in> set (it_tags r)) wanted))"

definition recently_used :: "real \<Rightarrow> int option \<Rightarrow> item \<Rightarrow> bool" where
  "recently_used now days r =
     (case days of None \<Rightarrow> False
      | Some n \<Rightarrow> (case it_last_used_at r of None \<Rightarrow> False
                  | Some t \<Rightarrow> \<not> t < now - of_int n * 86400))"

definition list_candidates_for_extract ::
  "real \<Rightarrow> bank \<Rightarrow> string \<Rightarrow> extract_criteria \<Rightarrow> int \<Rightarrow> item list res" where
  "list_candidates_for_extract now b domain_id c max_rows =
     (let rows = filter (\<lambda>r. if_given (ec_subject c) it_subject r \<and> if_given (ec_chapter c) it_chapter r
                   \<and> if_given (ec_difficulty c) it_difficulty r
                   \<and> (ec_quality_status c = [] \<or> it_quality_status r \<in> set (ec_quality_status c))
                   \<and> \<not> recently_used now (ec_exclude_recent_days c) r) (rows_of b domain_id)
      in bind_res (if ec_tags_any c = [] then Inr rows else filter_res (tags_meet (ec_tags_any c)) rows)
           (\<lambda>rows'. Inr (slice_to max_rows rows')))"

definition list_active_dedup_pairs :: "bank \<Rightarrow> string \<Rightarrow> (string \<times> pyval list) list" where
  "list_active_dedup_pairs b domain_id =
     map (\<lambda>r. (it_question_text r, it_choices r))
       (filter (\<lambda>r. it_quality_status r \<noteq> ''retired'') (rows_of b domain_id))"

definition apply_quality ::
  "real \<Rightarrow> string option \<Rightarrow> real option \<Rightarrow> pydict option \<Rightarrow> item \<Rightarrow> item" where
  "apply_quality now status score results r =
     r\<lparr>it_quality_status := (case status of None \<Rightarrow> it_quality_status r | Some s \<Rightarrow> s),
       it_quality_score := (case score of None \<Rightarrow> it_quality_score r | Some x \<Rightarrow> Some x),
       it_validator_results := (case results of None \<Rightarrow> it_validator_results r | Some d \<Rightarrow> d),
       it_updated_at := Some now\<rparr>"

definition update_quality ::
  "real \<Rightarrow> string \<Rightarrow> string \<Rightarrow> string option \<Rightarrow> real option \<Rightarrow> pydict option \<Rightarrow> bank \<Rightarrow> item option \<times> bank" where
  "update_quality now domain_id item_id status score results b =
     (let b' = assoc_modify (domain_id, item_id) (apply_quality now status score results) b
      in (map_of b' (domain_id, item_id), b'))"

definition mark_used :: "real \<Rightarrow> item \<Rightarrow> item" where
  "mark_used now r = r\<lparr>it_used_count := it_used_count r + 1, it_last_used_at := Some now\<rparr>"

fun touch_used :: "real \<Rightarrow> string \<Rightarrow> string list \<Rightarrow> bank \<Rightarrow> nat \<times> bank" where
  "touch_used now domain_id [] b = (0, b)"
| "touch_used now domain_id (iid # iids) b =
     (case map_of b (domain_id, iid) of
        None \<Rightarrow> touch_used now domain_id iids b
      | Some _ \<Rightarrow>
          (let (n, b') = touch_used now domain_id iids (assoc_modify (domain_id, iid) (mark_used now) b)
           in (n + 1, b')))"

definition approvable ::
  "pylib \<Rightarrow> string \<Rightarrow> string option \<Rightarrow> string option \<Rightarrow> string option \<Rightarrow> string option \<Rightarrow> item_key \<Rightarrow> item \<Rightarrow> bool" where
  \<comment> \<open>the \<open>continue\<close> tests of \<open>bulk_approve\<close>\<close>
  "approvable L domain_id subject chapter difficulty kw k r =
     (fst k = domain_id \<and> it_quality_status r \<in> {''draft'', ''reviewed''}
      \<and> if_given subject it_subject r \<and> if_given chapter it_chapter r \<and> if_given difficulty it_difficulty r
      \<and> keyword_hit L kw r)"

definition bulk_approve ::
  "pylib \<Rightarrow> real \<Rightarrow> string \<Rightarrow> string option \<Rightarrow> string option \<Rightarrow> string option \<Rightarrow> string option \<Rightarrow> bank \<Rightarrow> nat \<times> bank" where
  "bulk_approve L now domain_id subject chapter difficulty kw b =
     (let ok = approvable L domain_id subject chapter difficulty kw
      in (count_if (\<lambda>(k, r). ok k r) b,
          assoc_map (\<lambda>k r. if ok k r then r\<lparr>it_quality_status := ''approved'', it_updated_at := Some now\<rparr> else r) b))"

definition list_review_queue :: "bank \<Rightarrow> string \<Rightarrow> int \<Rightarrow> int \<Rightarrow> item list \<times> int" where
  "list_review_queue b domain_id page page_size =
     (let rows = filter (\<lambda>r. it_quality_status r \<in> {''draft'', ''reviewed''}) (rows_of b domain_id)
      in (page_of page page_size (sort_key (\<lambda>r. case it_created_at r of None \<Rightarrow> 0 | Some t \<Rightarrow> t) rows),
          int (length rows)))"

definition tally :: "'k \<Rightarrow> ('k \<times> int) list \<Rightarrow> ('k \<times> int) list" where
  \<comment> \<open>\<open>d[k] = d.get(k, 0) + 1\<close>\<close>
  "tally k d = assoc_put k ((case map_of d k of None \<Rightarrow> 0 | Some n \<Rightarrow> n) + 1) d"

record bank_summary =
  bs_total_items :: int
  bs_by_quality_status :: "(string \<times> int) list"
  bs_by_difficulty :: "(string \<times> int) list"
  bs_by_subject :: "(string \<times> int) list"
  bs_unused_count :: int
  bs_figure_dependent :: int

definition tally_opt :: "string option \<Rightarrow> (string \<times> int) list \<Rightarrow> (string \<times> int) list" where
  "tally_opt v d = (case v of None \<Rightarrow> d | Some s \<Rightarrow> if s = [] then d else tally s d)"

definition count_row :: "item \<Rightarrow> bank_summary \<Rightarrow> bank_summary" where
  "count_row r s =
     s\<lparr>bs_by_quality_status := tally (it_quality_status r) (bs_by_quality_status s),
       bs_by_difficulty := tally_opt (it_difficulty r) (bs_by_difficulty s),
       bs_by_subject := tally_opt (it_subject r) (bs_by_subject s),
       bs_unused_count := bs_unused_count s + (if it_used_count r = 0 then 1 else 0),
       bs_figure_dependent := bs_figure_dependent s + (if it_figure_dependent r then 1 else 0)\<rparr>"

definition analytics_summary :: "bank \<Rightarrow> string \<Rightarrow> bank_summary" where
  "analytics_summary b domain_id =
     (let rows = rows_of b domain_id
      in fold count_row rows \<lparr>bs_total_items = int (length rows), bs_by_quality_status = [],
           bs_by_difficulty = [], bs_by_subject = [], bs_unused_count = 0, bs_figure_dependent = 0\<rparr>)"

section \<open>The bank as a state machine\<close>

datatype bank_event =
    Upserted item
  | QualitySet string string "string option"
  | Used string "string list"
  | BulkApproved string

inductive bank_step :: "pylib \<Rightarrow> bank \<Rightarrow> bank_event \<Rightarrow> bank \<Rightarrow> bool" for L where
  step_upsert: "bank_step L b (Upserted r) (snd (bank_upsert now r b))"
| step_quality:
    "bank_step L b (QualitySet d i status) (snd (update_quality now d i status score results b))"
| step_used: "bank_step L b (Used d ids) (snd (touch_used now d ids b))"
| step_bulk: "bank_step L b (BulkApproved d) (snd (bulk_approve L now d subject chapter difficulty kw b))"

inductive_cases bank_stepE: "bank_step L b e b'"

inductive bank_run :: "pylib \<Rightarrow> bank \<Rightarrow> bank_event list \<Rightarrow> bank \<Rightarrow> bool" for L b where
  run_nil: "bank_run L b [] b"
| run_snoc: "bank_run L b es b' \<Longrightarrow> bank_step L b' e b'' \<Longrightarrow> bank_run L b (es @ [e]) b''"

definition bank_wf :: "bank \<Rightarrow> bool" where
  "bank_wf b \<longleftrightarrow> distinct (map fst b) \<and>
     (\<forall>k r. map_of b k = Some r \<longrightarrow> k = (it_domain_id r, it_item_id r) \<and> it_created_at r \<noteq> None)"

definition status_of :: "bank \<Rightarrow> item_key \<Rightarrow> string option" where
  "status_of b k = map_option it_quality_status (map_of b k)"

fun concerns :: "bank_event \<Rightarrow> string" where
  \<comment> \<open>the tenant an event belongs to\<close>
  "concerns (Upserted r) = it_domain_id r"
| "concerns (QualitySet d i s) = d"
| "concerns (Used d ids) = d"
| "concerns (BulkApproved d) = d"

fun approves :: "bank_event \<Rightarrow> item_key \<Rightarrow> bool" where
  \<comment> \<open>the events that may turn an item into an approved one\<close>
  "approves (Upserted r) k = (k = (it_domain_id r, it_item_id r) \<and> it_quality_status r = ''approved'')"
| "approves (QualitySet d i s) k = (k = (d, i) \<and> s = Some ''approved'')"
| "approves (Used d ids) k = False"
| "approves (BulkApproved d) k = (fst k = d)"

section \<open>Facts: the parts of each operation\<close>

lemma bank_upsert_map:
  "map_of (snd (bank_upsert now r b)) = (map_of b)((it_domain_id r, it_item_id r) \<mapsto>
     stamped now (map_of b (it_domain_id r, it_item_id r)) r)"
  by (simp add: bank_upsert_def Let_def dict_simps)

lemma update_quality_map:
  "map_of (snd (update_quality now d i status score results b)) =
     (case map_of b (d, i) of None \<Rightarrow> map_of b
      | Some r \<Rightarrow> (map_of b)((d, i) \<mapsto> apply_quality now status score results r))"
  by (simp add: update_quality_def Let_def dict_simps)

lemma bulk_approve_map:
  "map_of (snd (bulk_approve L now d s c f kw b)) k = map_option (\<lambda>r.
     if approvable L d s c f kw k r then r\<lparr>it_quality_status := ''approved'', it_updated_at := Some now\<rparr> else r)
     (map_of b k)"
  by (simp add: bulk_approve_def Let_def dict_simps)

text \<open>What marking an item used keeps.\<close>

definition same_but_use :: "item \<Rightarrow> item \<Rightarrow> bool" where
  "same_but_use r r' \<longleftrightarrow> (\<exists>n t. r' = r\<lparr>it_used_count := it_used_count r + int n, it_last_used_at := t\<rparr>)"

lemma same_but_use_fields:
  assumes "same_but_use r r'"
  shows "it_quality_status r' = it_quality_status r" "it_domain_id r' = it_domain_id r"
    "it_item_id r' = it_item_id r" "it_created_at r' = it_created_at r"
  using assms by (auto simp: same_but_use_def)

lemma same_but_use_refl: "same_but_use r r"
  unfolding same_but_use_def by (rule exI [of _ 0], rule exI [of _ "it_last_used_at r"]) simp

lemma same_but_use_mark: "same_but_use (mark_used now r) r' \<Longrightarrow> same_but_use r r'"
  unfolding same_but_use_def mark_used_def
proof (elim exE)
  fix n t
  assume "r' = r\<lparr>it_used_count := it_used_count r + 1, it_last_used_at := Some now\<rparr>
      \<lparr>it_used_count := it_used_count (r\<lparr>it_used_count := it_used_count r + 1, it_last_used_at := Some now\<rparr>) + int n,
       it_last_used_at := t\<rparr>"
  then show "\<exists>n t. r' = r\<lparr>it_used_count := it_used_count r + int n, it_last_used_at := t\<rparr>"
    by (intro exI [of _ "Suc n"] exI [of _ t]) simp
qed

lemma touch_used_map:
  "rel_option same_but_use (map_of b k) (map_of (snd (touch_used now d ids b)) k)"
proof (induction now d ids b rule: touch_used.induct)
  case (1 now d b)
  then show ?case by (simp add: option.rel_refl same_but_use_refl)
next
  case (2 now d iid iids b)
  show ?case
  proof (cases "map_of b (d, iid)")
    case (Some r)
    with 2(2) [OF Some] show ?thesis
      by (cases "k = (d, iid)")
        (auto simp: dict_simps split: prod.splits elim!: option.rel_cases dest: same_but_use_mark)
  qed (use 2(1) in auto)
qed

lemma touch_used_keys: "map fst (snd (touch_used now d ids b)) = map fst b"
  by (induction now d ids b rule: touch_used.induct) (auto split: option.splits prod.splits)

lemma touch_used_other:
  "fst k \<noteq> d \<Longrightarrow> map_of (snd (touch_used now d ids b)) k = map_of b k"
  by (induction now d ids b rule: touch_used.induct) (auto simp: dict_simps split: option.splits prod.splits)

section \<open>Facts: steps\<close>

lemma status_upsert:
  "status_of (snd (bank_upsert now r b)) = (status_of b)((it_domain_id r, it_item_id r) \<mapsto> it_quality_status r)"
  by (simp add: status_of_def bank_upsert_map stamped_def fun_eq_iff)

lemma status_quality:
  "status_of (snd (update_quality now d i status score results b)) =
     (if map_of b (d, i) = None \<or> status = None then status_of b else (status_of b)((d, i) := status))"
  by (auto simp: status_of_def update_quality_map apply_quality_def fun_eq_iff split: option.splits)

lemma status_used: "status_of (snd (touch_used now d ids b)) = status_of b"
proof
  fix k
  show "status_of (snd (touch_used now d ids b)) k = status_of b k"
    using touch_used_map [of b k now d ids]
    by (auto simp: status_of_def same_but_use_fields elim: option.rel_cases)
qed

lemma status_bulk:
  "status_of (snd (bulk_approve L now d s c f kw b)) k =
     (if \<exists>r. map_of b k = Some r \<and> approvable L d s c f kw k r then Some ''approved'' else status_of b k)"
  by (cases "map_of b k") (auto simp: status_of_def bulk_approve_map)

lemma step_wf: "bank_step L b e b' \<Longrightarrow> bank_wf b \<Longrightarrow> bank_wf b'"
proof (induction rule: bank_step.induct)
  case (step_upsert b r now)
  then show ?case
    by (auto simp: bank_wf_def bank_upsert_map stamped_def)
      (auto simp: bank_upsert_def Let_def intro: distinct_assoc_put)
next
  case (step_quality b d i status now score results)
  then show ?case
    by (auto simp: bank_wf_def update_quality_map apply_quality_def split: option.splits)
      (auto simp: update_quality_def Let_def)
next
  case (step_used b d ids now)
  have "k = (it_domain_id r, it_item_id r) \<and> it_created_at r \<noteq> None"
    if h: "map_of (snd (touch_used now d ids b)) k = Some r" for k r
  proof -
    obtain r0 where "map_of b k = Some r0" "same_but_use r0 r"
      using touch_used_map [of b k now d ids] h by (cases "map_of b k") auto
    moreover from this step_used have "k = (it_domain_id r0, it_item_id r0) \<and> it_created_at r0 \<noteq> None"
      unfolding bank_wf_def by blast
    ultimately show ?thesis by (simp add: same_but_use_fields)
  qed
  then show ?case using step_used by (simp add: bank_wf_def touch_used_keys)
next
  case (step_bulk b d now subject chap difficulty kw)
  then show ?case
    by (auto simp: bank_wf_def bulk_approve_map split: if_splits) (auto simp: bulk_approve_def Let_def)
qed

lemma run_wf: "bank_run L b es b' \<Longrightarrow> bank_wf b \<Longrightarrow> bank_wf b'"
  by (induction rule: bank_run.induct) (auto intro: step_wf)

lemma empty_wf [simp]: "bank_wf []"
  by (simp add: bank_wf_def)

lemma step_frame: "bank_step L b e b' \<Longrightarrow> fst k \<noteq> concerns e \<Longrightarrow> map_of b' k = map_of b k"
proof (induction rule: bank_step.induct)
  case (step_bulk b d now subject chap difficulty kw)
  then show ?case by (cases "map_of b k") (auto simp: bulk_approve_map approvable_def)
qed (auto simp: bank_upsert_map update_quality_map touch_used_other split: option.splits)

lemma step_approves:
  assumes "bank_step L b e b'" and "status_of b' k = Some ''approved''"
  shows "status_of b k = Some ''approved'' \<or> approves e k"
  using assms
proof (induction rule: bank_step.induct)
  case (step_bulk b d now subject chap difficulty kw)
  then show ?case by (auto simp: status_bulk approvable_def split: if_splits)
qed (auto simp: status_upsert status_quality status_used split: if_splits)

lemma step_keeps_retired:
  assumes "bank_step L b e b'" and "status_of b k = Some ''retired''"
    and "\<And>r. e \<noteq> Upserted r" and "\<And>d i s. e \<noteq> QualitySet d i s"
  shows "status_of b' k = Some ''retired''"
  using assms
proof (induction rule: bank_step.induct)
  case (step_bulk b d now subject chap difficulty kw)
  then have "\<not> approvable L d subject chap difficulty kw k r" if "map_of b k = Some r" for r
    using that by (simp add: approvable_def status_of_def)
  with step_bulk show ?case by (auto simp: status_bulk)
qed (auto simp: status_used)

section \<open>The interface the assessment services rely on\<close>

text \<open>
  What the services that draw on the bank may assume of a repository: every candidate belongs to the
  tenant that asked, and has the subject and one of the quality states that were asked for.
\<close>

locale item_repository =
  fixes invar :: "'b \<Rightarrow> bool"
    and candidates :: "'b \<Rightarrow> string \<Rightarrow> extract_criteria \<Rightarrow> int \<Rightarrow> item list res"
  assumes candidates_sound:
    "invar b \<Longrightarrow> candidates b d c n = Inr rows \<Longrightarrow> r \<in> set rows \<Longrightarrow>
       it_domain_id r = d \<and> (ec_subject c = None \<or> it_subject r = ec_subject c)
       \<and> (ec_quality_status c = [] \<or> it_quality_status r \<in> set (ec_quality_status c))"
begin

lemma approved_only:
  assumes "invar b" and "candidates b d c n = Inr rows" and "ec_quality_status c = [''approved'']"
    and "r \<in> set rows"
  shows "it_domain_id r = d" and "it_quality_status r = ''approved''"
  using candidates_sound [OF assms(1,2,4)] assms(3) by auto

end

lemma rows_of_domain: "bank_wf b \<Longrightarrow> r \<in> set (rows_of b d) \<Longrightarrow> it_domain_id r = d"
  by (force simp: bank_wf_def rows_of_def map_of_eq_Some_iff)

lemma filter_res_set: "filter_res p xs = Inr ys \<Longrightarrow> set ys \<subseteq> set xs"
  by (induction xs arbitrary: ys) (fastforce split: if_splits)+

lemma candidates_rows:
  assumes "list_candidates_for_extract now b d c n = Inr rows" and "r \<in> set rows"
  shows "r \<in> set (rows_of b d) \<and> if_given (ec_subject c) it_subject r
    \<and> (ec_quality_status c = [] \<or> it_quality_status r \<in> set (ec_quality_status c))
    \<and> \<not> recently_used now (ec_exclude_recent_days c) r"
proof -
  let ?p = "\<lambda>r. if_given (ec_subject c) it_subject r \<and> if_given (ec_chapter c) it_chapter r
    \<and> if_given (ec_difficulty c) it_difficulty r
    \<and> (ec_quality_status c = [] \<or> it_quality_status r \<in> set (ec_quality_status c))
    \<and> \<not> recently_used now (ec_exclude_recent_days c) r"
  obtain rows' where rows': "rows = slice_to n rows'" "set rows' \<subseteq> set (filter ?p (rows_of b d))"
  proof (cases "ec_tags_any c = []")
    case False
    then obtain rows' where "rows = slice_to n rows'"
        "filter_res (tags_meet (ec_tags_any c)) (filter ?p (rows_of b d)) = Inr rows'"
      using assms(1) by (auto simp: list_candidates_for_extract_def Let_def)
    then show ?thesis using that [of rows'] filter_res_set [of _ _ rows'] by blast
  qed (use assms(1) in \<open>auto simp: list_candidates_for_extract_def Let_def\<close>)
  moreover have "r \<in> set rows'" using assms(2) rows'(1) set_slice_to by fastforce
  ultimately show ?thesis by auto
qed

interpretation mem_bank: item_repository bank_wf "list_candidates_for_extract now" for now
  by unfold_locales (auto dest!: candidates_rows intro: rows_of_domain simp: if_given_def)

section \<open>Facts: the summary\<close>

lemma map_of_tally: "map_of (tally k d) = (map_of d)(k \<mapsto> (case map_of d k of None \<Rightarrow> 0 | Some n \<Rightarrow> n) + 1)"
  by (simp add: tally_def dict_simps)

definition count_at :: "('k \<times> int) list \<Rightarrow> 'k \<Rightarrow> int" where
  "count_at d k = (case map_of d k of None \<Rightarrow> 0 | Some n \<Rightarrow> n)"

lemma count_at_tally: "count_at (tally k d) k' = count_at d k' + (if k' = k then 1 else 0)"
  by (simp add: count_at_def map_of_tally)

lemma count_at_tally_opt:
  "k' \<noteq> [] \<Longrightarrow> count_at (tally_opt v d) k' = count_at d k' + (if v = Some k' then 1 else 0)"
  by (auto simp: tally_opt_def count_at_tally split: option.splits)

lemma summary_fold:
  "count_at (bs_by_quality_status (fold count_row rows s)) q
     = count_at (bs_by_quality_status s) q + int (count_if (\<lambda>r. it_quality_status r = q) rows)"
  "bs_total_items (fold count_row rows s) = bs_total_items s"
  "k \<noteq> [] \<Longrightarrow> count_at (bs_by_subject (fold count_row rows s)) k
     = count_at (bs_by_subject s) k + int (count_if (\<lambda>r. it_subject r = Some k) rows)"
  by (induction rows arbitrary: s) (auto simp: count_row_def count_at_tally count_at_tally_opt)

section \<open>Properties\<close>

text \<open>
  (C11) Approval is always explicit: along any sequence of bank operations, an item that ends up
  approved and was not approved at the start was approved by an event that says so: an upsert of that
  item as approved, a quality update of that item to approved, or a bulk approval of its own tenant.
  In particular use counting and the operations of other tenants never approve anything.
\<close>

theorem approval_is_explicit:
  assumes "bank_run L b es b'" and "status_of b' k = Some ''approved''"
    and "status_of b k \<noteq> Some ''approved''"
  shows "\<exists>e \<in> set es. approves e k \<and> concerns e = fst k"
  using assms
proof (induction rule: bank_run.induct)
  case (run_snoc es b' e b'')
  show ?case
  proof (cases "status_of b' k = Some ''approved''")
    case False
    then have "approves e k"
      using step_approves [OF run_snoc.hyps(2) run_snoc.prems(1)] by simp
    then have "approves e k \<and> concerns e = fst k"
      by (cases e) auto
    then show ?thesis by auto
  qed (use run_snoc in auto)
qed simp

text \<open>
  Bulk approval approves exactly the waiting items it was asked for: in a well-formed bank the
  returned count is the number of items whose state changed; an item changes only from draft or
  reviewed to approved, only in the given tenant, and only if it matches the given subject; retired
  and already approved items keep their state.
\<close>

theorem bulk_approve_exact:
  assumes "bank_wf b" and "bulk_approve L now d subject chap difficulty kw b = (n, b')"
  shows "n = card {k. status_of b' k \<noteq> status_of b k} \<and>
    (\<forall>k. status_of b' k \<noteq> status_of b k \<longrightarrow>
       fst k = d \<and> status_of b k \<in> {Some ''draft'', Some ''reviewed''} \<and> status_of b' k = Some ''approved''
       \<and> (\<forall>s. subject = Some s \<longrightarrow> (\<exists>r. map_of b k = Some r \<and> it_subject r = Some s)))"
proof -
  let ?ok = "approvable L d subject chap difficulty kw"
  have b': "b' = snd (bulk_approve L now d subject chap difficulty kw b)"
    and n: "n = length (filter (\<lambda>(k, r). ?ok k r) b)"
    using assms(2) by (auto simp: bulk_approve_def Let_def count_if_def)
  have changed: "status_of b' k \<noteq> status_of b k \<longleftrightarrow> (\<exists>r. map_of b k = Some r \<and> ?ok k r)" for k
  proof (cases "\<exists>r. map_of b k = Some r \<and> ?ok k r")
    case True
    then have "status_of b k \<noteq> Some ''approved''" by (auto simp: status_of_def approvable_def)
    with True show ?thesis by (auto simp: b' status_bulk)
  qed (auto simp: b' status_bulk)
  have dist: "distinct (map fst b)" using assms(1) by (simp add: bank_wf_def)
  then have "{k. status_of b' k \<noteq> status_of b k} = fst ` set (filter (\<lambda>(k, r). ?ok k r) b)"
    by (force simp: changed)
  moreover have "distinct (map fst (filter (\<lambda>(k, r). ?ok k r) b))"
    using dist by (rule distinct_map_filter)
  ultimately have "n = card {k. status_of b' k \<noteq> status_of b k}"
    using distinct_card [of "map fst (filter (\<lambda>(k, r). ?ok k r) b)"] unfolding n set_map by simp
  then show ?thesis
    unfolding changed
    by (auto simp: b' status_bulk) (auto simp: status_of_def approvable_def if_given_def)
qed

text \<open>
  (C18) The bank invariant: along every sequence of operations from the empty bank the keys are unique,
  every record is stored under its own tenant and identifier and has a creation time, and an operation
  of one tenant leaves the records of every other tenant untouched.
\<close>

theorem bank_invariant:
  assumes "bank_run L [] es b"
  shows "bank_wf b \<and> (\<forall>e b' k. bank_step L b e b' \<and> fst k \<noteq> concerns e \<longrightarrow> map_of b' k = map_of b k)"
  using run_wf [OF assms] step_frame by auto

text \<open>
  The analytics agree with the bank: the total is the number of the tenant's items, and the count
  under a quality state or a subject is the number of the tenant's items with that state or subject.
\<close>

theorem analytics_count_items:
  shows "bs_total_items (analytics_summary b d) = int (length (rows_of b d)) \<and>
    count_at (bs_by_quality_status (analytics_summary b d)) q
      = int (count_if (\<lambda>r. it_quality_status r = q) (rows_of b d)) \<and>
    (s \<noteq> [] \<longrightarrow> count_at (bs_by_subject (analytics_summary b d)) s
      = int (count_if (\<lambda>r. it_subject r = Some s) (rows_of b d)))"
  by (auto simp: analytics_summary_def Let_def summary_fold) (simp_all add: count_at_def)

section \<open>Examples\<close>

definition ex_plain_lib :: pylib where
  "ex_plain_lib = \<lparr>float_of_text = \<lambda>_. None, int_of_text = \<lambda>_. None, repr_of = \<lambda>_. [], lower_of = \<lambda>s. s,
     json_loads = \<lambda>_. Inl [], re_search = \<lambda>_ _. None, exc_text = \<lambda>_. []\<rparr>"

definition ex_item :: "string \<Rightarrow> string \<Rightarrow> item" where
  "ex_item i s = (new_item i ''a'')\<lparr>it_subject := Some ''os'', it_quality_status := s\<rparr>"

definition ex_bank :: bank where
  "ex_bank = snd (bank_upsert 5 (ex_item ''i2'' ''retired'') (snd (bank_upsert 4 (ex_item ''i1'' ''draft'') [])))"

lemma ex_bank_run: "bank_run L [] [Upserted (ex_item ''i1'' ''draft''), Upserted (ex_item ''i2'' ''retired'')] ex_bank"
  unfolding ex_bank_def
  using run_snoc [OF run_snoc [OF run_nil step_upsert] step_upsert] by simp

lemmas ex_bank_eval = ex_bank_def ex_item_def new_item_def bank_upsert_def stamped_def Let_def

theorem bank_invariant_witness: "bank_wf ex_bank"
  using bank_invariant [OF ex_bank_run] by blast

theorem approval_is_explicit_witness:
  "\<exists>e \<in> {Upserted (ex_item ''i1'' ''draft''), Upserted (ex_item ''i2'' ''retired''), BulkApproved ''a''}.
     approves e (''a'', ''i1'') \<and> concerns e = ''a''"
proof -
  let ?b = "snd (bulk_approve ex_plain_lib 9 ''a'' (Some ''os'') None None None ex_bank)"
  have "bank_run ex_plain_lib [] ([Upserted (ex_item ''i1'' ''draft''), Upserted (ex_item ''i2'' ''retired'')] @ [BulkApproved ''a'']) ?b"
    by (rule run_snoc [OF ex_bank_run step_bulk])
  moreover have "status_of ?b (''a'', ''i1'') = Some ''approved''"
    by (simp add: status_bulk ex_bank_eval approvable_def if_given_def keyword_hit_def)
  moreover have "status_of [] (''a'', ''i1'') \<noteq> Some ''approved''" by (simp add: status_of_def)
  ultimately show ?thesis using approval_is_explicit by fastforce
qed

theorem bulk_approve_exact_witness:
  "\<exists>b'. bulk_approve ex_plain_lib 9 ''a'' (Some ''os'') None None None ex_bank = (1, b')
     \<and> card {k. status_of b' k \<noteq> status_of ex_bank k} = 1"
proof -
  obtain n b' where nb: "bulk_approve ex_plain_lib 9 ''a'' (Some ''os'') None None None ex_bank = (n, b')"
    by (meson surj_pair)
  have wf: "bank_wf ex_bank" by (rule run_wf [OF ex_bank_run empty_wf])
  have "n = 1"
    using nb by (simp add: bulk_approve_def ex_bank_eval approvable_def if_given_def keyword_hit_def)
  with bulk_approve_exact [OF wf nb] nb show ?thesis by auto
qed

theorem analytics_count_items_witness:
  "count_at (bs_by_subject (analytics_summary ex_bank ''a'')) ''os'' = 2"
  using analytics_count_items [of ex_bank "''a''" "[]" "''os''"]
  by (simp add: rows_of_def ex_bank_eval)

end
