(* ===== verification/Enums.thy ===== *)
theory Enums
  imports Prelude
begin

text \<open>
  The closed vocabularies of \<open>packages/rag_core/rag_core/enums.py\<close>: each Python enumeration is
  a datatype, its serialised values are given by a \<open>value\<close> function, and the frozen sets used for
  validation are the ranges of those functions.
\<close>

section \<open>Enumerations and their values\<close>

datatype query_type_enum = DOCUMENT_QA | ASSESSMENT_EXTRACT | ASSESSMENT_GENERATE
  | ASSESSMENT_HYBRID | FREE_CHAT | META

datatype complexity_enum = LOW | MEDIUM_COMPLEXITY | HIGH

datatype support_type_enum = DIRECT | SYNTHESIS | INFERENCE | CONFLICT

datatype support_level = Strong | Medium | Weak

datatype ui_mode_enum = CHAT_STRUCTURED | CHAT_STREAMING

fun query_type_value :: "query_type_enum \<Rightarrow> string" where
  "query_type_value DOCUMENT_QA = ''document_qa''"
| "query_type_value ASSESSMENT_EXTRACT = ''assessment_extract''"
| "query_type_value ASSESSMENT_GENERATE = ''assessment_generate''"
| "query_type_value ASSESSMENT_HYBRID = ''assessment_hybrid''"
| "query_type_value FREE_CHAT = ''free_chat''"
| "query_type_value META = ''meta''"

fun complexity_value :: "complexity_enum \<Rightarrow> string" where
  "complexity_value LOW = ''low''"
| "complexity_value MEDIUM_COMPLEXITY = ''medium''"
| "complexity_value HIGH = ''high''"

fun support_type_value :: "support_type_enum \<Rightarrow> string" where
  "support_type_value DIRECT = ''direct''"
| "support_type_value SYNTHESIS = ''synthesis''"
| "support_type_value INFERENCE = ''inference''"
| "support_type_value CONFLICT = ''conflict''"

fun support_level_value :: "support_level \<Rightarrow> string" where
  "support_level_value Strong = ''strong''"
| "support_level_value Medium = ''medium''"
| "support_level_value Weak = ''weak''"

fun ui_mode_value :: "ui_mode_enum \<Rightarrow> string" where
  "ui_mode_value CHAT_STRUCTURED = ''chat_structured''"
| "ui_mode_value CHAT_STREAMING = ''chat_streaming''"

definition QUERY_TYPES :: "string list" where
  "QUERY_TYPES = map query_type_value
     [DOCUMENT_QA, ASSESSMENT_EXTRACT, ASSESSMENT_GENERATE, ASSESSMENT_HYBRID, FREE_CHAT, META]"

definition COMPLEXITY_LEVELS :: "string list" where
  "COMPLEXITY_LEVELS = map complexity_value [LOW, MEDIUM_COMPLEXITY, HIGH]"

definition SUPPORT_TYPES :: "string list" where
  "SUPPORT_TYPES = map support_type_value [DIRECT, SYNTHESIS, INFERENCE, CONFLICT]"

definition SUPPORT_LEVELS :: "string list" where
  "SUPPORT_LEVELS = map support_level_value [Strong, Medium, Weak]"

definition UI_MODES :: "string list" where
  "UI_MODES = map ui_mode_value [CHAT_STRUCTURED, CHAT_STREAMING]"

definition is_valid_query_type :: "string \<Rightarrow> bool" where
  "is_valid_query_type v = (v \<in> set QUERY_TYPES)"

definition is_valid_support_type :: "string \<Rightarrow> bool" where
  "is_valid_support_type v = (v \<in> set SUPPORT_TYPES)"

definition is_valid_support_level :: "string \<Rightarrow> bool" where
  "is_valid_support_level v = (v \<in> set SUPPORT_LEVELS)"

definition is_valid_ui_mode :: "string \<Rightarrow> bool" where
  "is_valid_ui_mode v = (v \<in> set UI_MODES)"

definition is_valid_complexity :: "string \<Rightarrow> bool" where
  "is_valid_complexity v = (v \<in> set COMPLEXITY_LEVELS)"

lemmas enum_defs = QUERY_TYPES_def COMPLEXITY_LEVELS_def SUPPORT_TYPES_def SUPPORT_LEVELS_def
  UI_MODES_def is_valid_query_type_def is_valid_support_type_def is_valid_support_level_def
  is_valid_ui_mode_def is_valid_complexity_def

section \<open>One interface for the five vocabularies\<close>

text \<open>
  An enumeration is an injective coding into strings with a validator that accepts exactly the
  codes; decoding is then unique.
\<close>

locale enum_coding =
  fixes code :: "'e \<Rightarrow> string" and valid :: "string \<Rightarrow> bool"
  assumes valid_iff: "valid v \<longleftrightarrow> (\<exists>e. code e = v)"
    and code_inj: "code a = code b \<Longrightarrow> a = b"
begin

lemma valid_code: "valid (code e)"
  by (auto simp: valid_iff)

lemma unique_decoding: "valid v \<Longrightarrow> \<exists>!e. code e = v"
  by (auto simp: valid_iff dest: code_inj)

end

interpretation support_types: enum_coding support_type_value is_valid_support_type
proof
  show "is_valid_support_type v \<longleftrightarrow> (\<exists>e. support_type_value e = v)" for v
    by (auto simp: enum_defs; metis support_type_enum.exhaust support_type_value.simps)
  show "support_type_value a = support_type_value b \<Longrightarrow> a = b" for a b
    by (cases a; cases b) auto
qed

interpretation support_levels: enum_coding support_level_value is_valid_support_level
proof
  show "is_valid_support_level v \<longleftrightarrow> (\<exists>e. support_level_value e = v)" for v
    by (auto simp: enum_defs; metis support_level.exhaust support_level_value.simps)
  show "support_level_value a = support_level_value b \<Longrightarrow> a = b" for a b
    by (cases a; cases b) auto
qed

interpretation query_types: enum_coding query_type_value is_valid_query_type
proof
  show "is_valid_query_type v \<longleftrightarrow> (\<exists>e. query_type_value e = v)" for v
    by (auto simp: enum_defs; metis query_type_enum.exhaust query_type_value.simps)
  show "query_type_value a = query_type_value b \<Longrightarrow> a = b" for a b
    by (cases a; cases b) auto
qed

interpretation complexities: enum_coding complexity_value is_valid_complexity
proof
  show "is_valid_complexity v \<longleftrightarrow> (\<exists>e. complexity_value e = v)" for v
    by (auto simp: enum_defs; metis complexity_enum.exhaust complexity_value.simps)
  show "complexity_value a = complexity_value b \<Longrightarrow> a = b" for a b
    by (cases a; cases b) auto
qed

interpretation ui_modes: enum_coding ui_mode_value is_valid_ui_mode
proof
  show "is_valid_ui_mode v \<longleftrightarrow> (\<exists>e. ui_mode_value e = v)" for v
    by (auto simp: enum_defs; metis ui_mode_enum.exhaust ui_mode_value.simps)
  show "ui_mode_value a = ui_mode_value b \<Longrightarrow> a = b" for a b
    by (cases a; cases b) auto
qed

end
