(* ===== verification/Verifier.thy ===== *)
theory Verifier
  imports Enums
begin

text \<open>
  The citation verifier, \<open>packages/rag_core/rag_core/services/verifier_service.py\<close>: thresholds
  read from \<open>citation.yaml\<close>, normalisation of the model's raw answer segments, Tier 1 (marker
  range), Tier 2 (claim/chunk similarity with the per-type rules for direct, synthesis, inference
  and conflict claims), the judge's verdict on inference claims, Tier 3 (unsupported segments),
  assembly of the citation objects, the confidence score and Gate 2; and the three stand-alone
  tiers of \<open>packages/rag_core/rag_core/citation/verifier.py\<close>.

  A segment dictionary is a record: the keys the code may leave out are options, \<open>False\<close> or an
  empty map, which is what the code's \<open>get\<close> calls see. The embedder is a parameter.
\<close>

section \<open>Data\<close>

record retrieved_chunk =
  ck_chunk_id :: string
  ck_doc_id :: string
  ck_title :: string
  ck_content :: string
  ck_page_number :: pyval
  ck_section_title :: pyval
  ck_dense_score :: real
  ck_sparse_score :: real
  ck_fused_score :: real
  ck_payload :: pydict
  ck_rerank_score :: "real option"

record verifier_thresholds =
  strong_threshold :: real
  medium_threshold :: real
  min_verified_count :: int
  max_unsupported_ratio :: real
  min_confidence :: real
  weight_retrieval :: real
  weight_verified :: real
  weight_supported :: real
  weight_coverage :: real
  inference_judge_enabled :: bool

definition default_thresholds :: verifier_thresholds where
  "default_thresholds = \<lparr>strong_threshold = 0.75, medium_threshold = 0.55,
     min_verified_count = 1, max_unsupported_ratio = 0.5, min_confidence = 0.5,
     weight_retrieval = 0.30, weight_verified = 0.30, weight_supported = 0.20,
     weight_coverage = 0.20, inference_judge_enabled = False\<rparr>"

record verified_citation =
  vc_segment_index :: nat
  vc_chunk_index :: int
  vc_similarity :: real
  vc_support_level :: support_level
  vc_verified :: bool

record segment =
  seg_index :: nat
  seg_text :: string
  seg_citations :: "int list"
  seg_support_type :: pyval
  seg_inference_chain :: pyval
  seg_conflict_groups :: pyval
  seg_citation_meta :: "int \<rightharpoonup> verified_citation"
  seg_downgraded :: bool
  seg_downgrade_reason :: "string option"
  seg_pending_judge :: bool
  seg_judge_reasoning :: "string option"
  seg_judge_caveat :: pyval
  seg_conflict_signal :: "string option"

record citation =
  cit_citation_id :: string
  cit_marker :: string
  cit_domain_id :: string
  cit_support_type :: pyval
  cit_support_level :: "support_level option"
  cit_verified :: "bool option"
  cit_claim_text :: string
  cit_doc_id :: pyval
  cit_chunk_id :: string
  cit_title :: string
  cit_page_number :: pyval
  cit_section_title :: pyval
  cit_excerpt :: string
  cit_score :: real
  cit_rerank_score :: "real option"
  cit_similarity :: "real option"

record verification_result =
  vr_segments :: "segment list"
  vr_citations :: "citation list"
  vr_citation_types :: "pyval list"
  vr_unsupported_segment_indices :: "nat list"
  vr_unsupported_ratio :: real
  vr_tier1_markers_removed :: nat
  vr_tier2_avg_similarity :: real
  vr_confidence :: real
  vr_gate2_passed :: bool
  vr_gate2_reason :: "string option"
  vr_final_answer :: string
  vr_limitations :: pyval

type_synonym embedder = "string list \<Rightarrow> (real list \<times> (int \<times> real) list) list res"

section \<open>Thresholds from the configuration\<close>

definition from_config :: "pylib \<Rightarrow> pyval \<Rightarrow> verifier_thresholds res" where
  "from_config L citation_config =
     bind_res (opt_dict citation_config) (\<lambda>cfg.
     bind_res (get_dict cfg ''verification'') (\<lambda>verification.
     bind_res (get_dict verification ''tier2'') (\<lambda>tier2.
     bind_res (get_dict tier2 ''thresholds'') (\<lambda>thresholds.
     bind_res (get_dict cfg ''gates'') (\<lambda>all_gates.
     bind_res (get_dict all_gates ''generation'') (\<lambda>gates.
     bind_res (get_dict cfg ''confidence_weights'') (\<lambda>weights.
     bind_res (get_dict verification ''inference_judge'') (\<lambda>judge.
     bind_res (py_float L (dget thresholds ''strong'' (PFloat 0.75))) (\<lambda>strong.
     bind_res (py_float L (dget thresholds ''medium'' (PFloat 0.55))) (\<lambda>medium.
     bind_res (py_int L (dget gates ''min_verified_count'' (PInt 1))) (\<lambda>mvc.
     bind_res (py_float L (dget gates ''max_unsupported_ratio'' (PFloat 0.5))) (\<lambda>mur.
     bind_res (py_float L (dget gates ''min_confidence'' (PFloat 0.5))) (\<lambda>mc.
     bind_res (py_float L (dget weights ''retrieval'' (PFloat 0.30))) (\<lambda>wr.
     bind_res (py_float L (dget weights ''verified'' (PFloat 0.30))) (\<lambda>wv.
     bind_res (py_float L (dget weights ''supported'' (PFloat 0.20))) (\<lambda>ws.
     bind_res (py_float L (dget weights ''coverage'' (PFloat 0.20))) (\<lambda>wc.
     Inr \<lparr>strong_threshold = strong, medium_threshold = medium, min_verified_count = mvc,
       max_unsupported_ratio = mur, min_confidence = mc, weight_retrieval = wr,
       weight_verified = wv, weight_supported = ws, weight_coverage = wc,
       inference_judge_enabled = truthy (dget judge ''enable'' (PBool False))\<rparr>)))))))))))))))))"

section \<open>Helpers\<close>

definition dot_product :: "real list \<Rightarrow> real list \<Rightarrow> real" where
  "dot_product a b = sum_list (map (\<lambda>(x, y). x * y) (zip a b))"

definition norm_or_one :: "real list \<Rightarrow> real" where
  \<comment> \<open>\<open>math.sqrt(sum(x * x for x in a)) or 1.0\<close>\<close>
  "norm_or_one a = (let n = sqrt (sum_list (map (\<lambda>x. x * x) a)) in if n = 0 then 1 else n)"

definition cosine :: "real list \<Rightarrow> real list \<Rightarrow> real" where
  "cosine a b =
     (if a = [] \<or> b = [] then 0 else dot_product a b / (norm_or_one a * norm_or_one b))"

definition classify :: "real \<Rightarrow> verifier_thresholds \<Rightarrow> support_level \<times> bool" where
  "classify similarity t =
     (if similarity \<ge> strong_threshold t then (Strong, True)
      else if similarity \<ge> medium_threshold t then (Medium, True)
      else (Weak, False))"

definition normalize_support_type :: "pydict \<Rightarrow> pyval" where
  "normalize_support_type seg =
     (let raw = py_or (py_or (dget seg ''support_type'' PNone) (dget seg ''citation_type'' PNone))
                  (PStr ''direct'')
      in if raw = PStr ''none'' then PStr ''direct'' else raw)"

section \<open>Normalisation of raw segments\<close>

fun int_instance :: "pyval \<Rightarrow> int option" where
  \<comment> \<open>\<open>int(c)\<close> where \<open>isinstance(c, int)\<close>, booleans included\<close>
  "int_instance (PInt i) = Some i"
| "int_instance (PBool b) = Some (if b then 1 else 0)"
| "int_instance _ = None"

definition parse_segment :: "pylib \<Rightarrow> nat \<Rightarrow> pyval \<Rightarrow> segment res" where
  "parse_segment L i raw =
     bind_res (as_dict raw) (\<lambda>seg.
     bind_res (py_iter (py_or (dget seg ''citations'' PNone) (PList []))) (\<lambda>citations.
     Inr \<lparr>seg_index = i,
       seg_text = py_str L (dget seg ''text'' (PStr '''')),
       seg_citations = List.map_filter int_instance citations,
       seg_support_type = normalize_support_type seg,
       seg_inference_chain = dget seg ''inference_chain'' PNone,
       seg_conflict_groups = dget seg ''conflict_groups'' PNone,
       seg_citation_meta = Map.empty, seg_downgraded = False, seg_downgrade_reason = None,
       seg_pending_judge = False, seg_judge_reasoning = None, seg_judge_caveat = PNone,
       seg_conflict_signal = None\<rparr>))"

definition parse_segments :: "pylib \<Rightarrow> pyval list \<Rightarrow> segment list res" where
  "parse_segments L raw_segments =
     map_res (\<lambda>(i, raw). parse_segment L i raw) (enumerate 0 raw_segments)"

section \<open>Tier 1\<close>

definition in_context :: "nat \<Rightarrow> int \<Rightarrow> bool" where
  \<comment> \<open>\<open>1 <= c <= num_contexts\<close>\<close>
  "in_context n c = (1 \<le> c \<and> c \<le> int n)"

definition tier1_filter :: "segment list \<Rightarrow> nat \<Rightarrow> segment list \<times> nat" where
  "tier1_filter segments num_contexts =
     foldl (\<lambda>(out, removed) seg.
        let valid = filter (in_context num_contexts) (seg_citations seg)
        in (out @ [seg\<lparr>seg_citations := valid\<rparr>],
            removed + (length (seg_citations seg) - length valid)))
       ([], 0) segments"

section \<open>Tier 2\<close>

subsection \<open>Interning the texts to embed\<close>

record intern_state =
  unique_texts :: "string list"
  text_to_pos :: "string \<rightharpoonup> nat"

definition intern :: "string \<Rightarrow> intern_state \<Rightarrow> nat \<times> intern_state" where
  "intern t s =
     (case text_to_pos s t of
        Some p \<Rightarrow> (p, s)
      | None \<Rightarrow> (length (unique_texts s),
          s\<lparr>text_to_pos := (text_to_pos s)(t \<mapsto> length (unique_texts s)),
            unique_texts := unique_texts s @ [t]\<rparr>))"

type_synonym vpair = "nat \<times> int \<times> nat \<times> nat"

definition tier2_skips :: "verifier_thresholds \<Rightarrow> segment \<Rightarrow> bool" where
  \<comment> \<open>the two \<open>continue\<close> guards of the pair-collecting loop\<close>
  "tier2_skips t seg =
     (seg_support_type seg = PStr ''conflict'' \<and> \<not> truthy (seg_conflict_groups seg)
      \<or> seg_support_type seg = PStr ''inference'' \<and> \<not> inference_judge_enabled t)"

fun collect_citation ::
  "retrieved_chunk list \<Rightarrow> segment \<Rightarrow> int \<Rightarrow> intern_state \<times> vpair list \<Rightarrow> intern_state \<times> vpair list" where
  "collect_citation contexts seg cidx (st, pairs) =
     (if \<not> in_context (length contexts) cidx then (st, pairs)
      else let (claim_pos, st1) = intern (seg_text seg) st;
               (chunk_pos, st2) = intern (ck_content (contexts ! nat (cidx - 1))) st1
           in (st2, pairs @ [(seg_index seg, cidx, claim_pos, chunk_pos)]))"

definition collect_segment ::
  "verifier_thresholds \<Rightarrow> retrieved_chunk list \<Rightarrow> segment \<Rightarrow> intern_state \<times> vpair list
     \<Rightarrow> intern_state \<times> vpair list" where
  "collect_segment t contexts seg acc =
     (if tier2_skips t seg then acc
      else fold (collect_citation contexts seg) (seg_citations seg) acc)"

definition collect_pairs ::
  "verifier_thresholds \<Rightarrow> retrieved_chunk list \<Rightarrow> segment list \<Rightarrow> intern_state \<times> vpair list" where
  "collect_pairs t contexts segments =
     fold (collect_segment t contexts) segments
       (\<lparr>unique_texts = [], text_to_pos = Map.empty\<rparr>, [])"

subsection \<open>Assessing the pairs\<close>

definition nth_res :: "'a list \<Rightarrow> nat \<Rightarrow> 'a res" where
  "nth_res xs i = (if i < length xs then Inr (xs ! i) else Inl IndexError)"

fun assess_pair ::
  "verifier_thresholds \<Rightarrow> real list list \<Rightarrow> vpair \<Rightarrow> verified_citation res" where
  "assess_pair t embeddings (seg_idx, cidx, cp, kp) =
     bind_res (nth_res embeddings cp) (\<lambda>a.
     bind_res (nth_res embeddings kp) (\<lambda>b.
     let sim = cosine a b; (level, verified) = classify sim t
     in Inr \<lparr>vc_segment_index = seg_idx, vc_chunk_index = cidx, vc_similarity = sim,
              vc_support_level = level, vc_verified = verified\<rparr>))"

type_synonym assess_map = "int \<rightharpoonup> verified_citation"

definition seg_assessments :: "verified_citation list \<Rightarrow> nat \<Rightarrow> assess_map" where
  \<comment> \<open>\<open>seg_assessments.get(i, {})\<close>: the last assessment of a citation index wins\<close>
  "seg_assessments as i =
     fold (\<lambda>a m. if vc_segment_index a = i then m(vc_chunk_index a \<mapsto> a) else m) as Map.empty"

definition verified_in :: "assess_map \<Rightarrow> int \<Rightarrow> bool" where
  \<comment> \<open>\<open>assess_map.get(c) and assess_map[c].verified\<close>\<close>
  "verified_in m c = (case m c of None \<Rightarrow> False | Some a \<Rightarrow> vc_verified a)"

definition verified_key :: "assess_map \<Rightarrow> pyval \<Rightarrow> bool res" where
  \<comment> \<open>the same test where \<open>c\<close> comes from the model's conflict groups\<close>
  "verified_key m c =
     bind_res (int_key c) (\<lambda>k. Inr (case k of None \<Rightarrow> False | Some i \<Rightarrow> verified_in m i))"

definition group_ok :: "assess_map \<Rightarrow> pyval \<Rightarrow> bool res" where
  "group_ok m grp =
     (if \<not> truthy grp then Inr False
      else bind_res (py_iter grp) (all_res (verified_key m)))"

definition cap_medium :: "support_level \<Rightarrow> support_level" where
  "cap_medium l = (if l = Strong then Medium else l)"

definition capped :: "verified_citation \<Rightarrow> verified_citation" where
  "capped m = m\<lparr>vc_support_level := cap_medium (vc_support_level m), vc_verified := True\<rparr>"

definition downgrade :: "segment \<Rightarrow> assess_map \<Rightarrow> string \<Rightarrow> segment" where
  \<comment> \<open>the shape shared by every downgrade branch\<close>
  "downgrade seg meta reason =
     seg\<lparr>seg_citations := [], seg_citation_meta := meta, seg_downgraded := True,
         seg_downgrade_reason := Some reason\<rparr>"

definition tier2_conflict :: "segment \<Rightarrow> assess_map \<Rightarrow> segment res" where
  "tier2_conflict seg m =
     bind_res (py_iter (py_or (seg_conflict_groups seg) (PList []))) (\<lambda>groups.
       if length groups < 2 then Inr (downgrade seg Map.empty ''conflict_groups_missing'')
       else bind_res (all_res (group_ok m) groups) (\<lambda>ok.
         if \<not> ok then Inr (downgrade seg m ''conflict_group_weak'')
         else Inr (seg\<lparr>seg_citation_meta :=
                (map_option capped \<circ> m) |` set (seg_citations seg)\<rparr>)))"

definition all_cited_verified :: "segment \<Rightarrow> assess_map \<Rightarrow> bool" where
  "all_cited_verified seg m =
     (seg_citations seg \<noteq> [] \<and> list_all (verified_in m) (seg_citations seg))"

definition tier2_inference :: "verifier_thresholds \<Rightarrow> segment \<Rightarrow> assess_map \<Rightarrow> segment" where
  "tier2_inference t seg m =
     (if \<not> inference_judge_enabled t then downgrade seg Map.empty ''judge_not_enabled''
      else if \<not> all_cited_verified seg m then downgrade seg m ''tier2_chunk_weak''
      else seg\<lparr>seg_citation_meta := m |` set (seg_citations seg), seg_pending_judge := True\<rparr>)"

definition tier2_direct :: "segment \<Rightarrow> assess_map \<Rightarrow> segment" where
  "tier2_direct seg m =
     (let kept = filter (verified_in m) (seg_citations seg)
      in seg\<lparr>seg_citations := kept, seg_citation_meta := m |` set kept\<rparr>)"

definition tier2_segment :: "verifier_thresholds \<Rightarrow> assess_map \<Rightarrow> segment \<Rightarrow> segment res" where
  "tier2_segment t m seg =
     (if seg_support_type seg = PStr ''conflict'' then tier2_conflict seg m
      else if seg_support_type seg = PStr ''inference'' then Inr (tier2_inference t seg m)
      else if seg_support_type seg = PStr ''synthesis'' \<and> \<not> all_cited_verified seg m
        then Inr (downgrade seg m ''synthesis_chunk_weak'')
      else Inr (tier2_direct seg m))"

definition average :: "real list \<Rightarrow> real" where
  "average xs = (if xs = [] then 0 else sum_list xs / real (length xs))"

definition tier2_classify ::
  "embedder \<Rightarrow> segment list \<Rightarrow> retrieved_chunk list \<Rightarrow> verifier_thresholds
     \<Rightarrow> (segment list \<times> verified_citation list \<times> real) res" where
  "tier2_classify embed_batch segments contexts t =
     (let (st, pairs) = collect_pairs t contexts segments in
      bind_res (if unique_texts st = [] then Inr []
                else bind_res (embed_batch (unique_texts st)) (\<lambda>es. Inr (map fst es)))
        (\<lambda>embeddings.
      bind_res (map_res (assess_pair t embeddings) pairs) (\<lambda>assessments.
      bind_res (map_res (\<lambda>seg. tier2_segment t (seg_assessments assessments (seg_index seg)) seg)
                  segments) (\<lambda>new_segments.
      Inr (new_segments, assessments, average (map vc_similarity assessments))))))"

section \<open>The judge's verdict on an inference segment\<close>

definition truthy_str :: "string option \<Rightarrow> bool" where
  "truthy_str s = (case s of None \<Rightarrow> False | Some x \<Rightarrow> x \<noteq> [])"

definition apply_judge_result ::
  "segment \<Rightarrow> bool \<Rightarrow> string option \<Rightarrow> pyval \<Rightarrow> segment" where
  "apply_judge_result seg judge_passes reasoning caveat =
     (let ns = seg\<lparr>seg_pending_judge := False\<rparr>;
          reasoned = (\<lambda>s. if truthy_str reasoning then s\<lparr>seg_judge_reasoning := reasoning\<rparr> else s)
      in if judge_passes
         then (let ns1 = reasoned (ns\<lparr>seg_citation_meta := map_option capped \<circ> seg_citation_meta ns\<rparr>)
               in if truthy caveat then ns1\<lparr>seg_judge_caveat := caveat\<rparr> else ns1)
         else reasoned (downgrade ns Map.empty ''judge_rejected''))"

section \<open>Tier 3\<close>

definition tier3_unsupported :: "segment list \<Rightarrow> nat list \<times> real" where
  "tier3_unsupported segments =
     (let idx = map seg_index (filter (\<lambda>seg. seg_citations seg = []) segments)
      in (idx, if segments = [] then 0 else real (length idx) / real (length segments)))"

section \<open>Assembly, confidence, Gate 2\<close>

definition marker_of :: "int \<Rightarrow> string" where
  "marker_of c = ''['' @ int_str c @ '']''"

definition make_citation ::
  "string \<Rightarrow> string \<Rightarrow> segment \<Rightarrow> int \<Rightarrow> retrieved_chunk \<Rightarrow> citation" where
  "make_citation uid domain_id seg cidx ctx =
     (let meta = seg_citation_meta seg cidx in
      \<lparr>cit_citation_id = ''cite-'' @ uid, cit_marker = marker_of cidx, cit_domain_id = domain_id,
       cit_support_type = seg_support_type seg,
       cit_support_level = map_option vc_support_level meta,
       cit_verified = map_option vc_verified meta,
       cit_claim_text = seg_text seg,
       cit_doc_id = dget (ck_payload ctx) ''doc_id'' PNone,
       cit_chunk_id = ck_chunk_id ctx, cit_title = ck_title ctx,
       cit_page_number = ck_page_number ctx, cit_section_title = ck_section_title ctx,
       cit_excerpt = utf8_take 200 (ck_content ctx),
       cit_score = ck_fused_score ctx, cit_rerank_score = ck_rerank_score ctx,
       cit_similarity = map_option vc_similarity meta\<rparr>)"

text \<open>The identifiers come from \<open>uuid4\<close>: the \<open>k\<close>-th citation made takes the \<open>k\<close>-th of a supply.\<close>

definition assemble_slots ::
  "segment list \<Rightarrow> retrieved_chunk list \<Rightarrow> (segment \<times> int) list" where
  \<comment> \<open>the (segment, citation index) pairs that survive the two \<open>continue\<close> guards, in order\<close>
  "assemble_slots segments contexts =
     concat (map (\<lambda>seg. map (\<lambda>c. (seg, c))
       (filter (in_context (length contexts)) (seg_citations seg))) segments)"

definition assemble_citations ::
  "(nat \<Rightarrow> string) \<Rightarrow> segment list \<Rightarrow> retrieved_chunk list \<Rightarrow> string
     \<Rightarrow> citation list \<times> pyval list" where
  "assemble_citations uuid segments contexts domain_id =
     (let slots = assemble_slots segments contexts in
      (map (\<lambda>(k, seg, c). make_citation (uuid k) domain_id seg c (contexts ! nat (c - 1)))
         (enumerate 0 slots),
       map (\<lambda>(seg, c). seg_support_type seg) slots))"

definition chunk_score :: "retrieved_chunk \<Rightarrow> real" where
  "chunk_score c = (case ck_rerank_score c of Some r \<Rightarrow> r | None \<Rightarrow> ck_fused_score c)"

definition max_list0 :: "real list \<Rightarrow> real" where
  "max_list0 xs = (case xs of [] \<Rightarrow> 0 | y # ys \<Rightarrow> fold max ys y)"

definition verified_citations :: "citation list \<Rightarrow> nat" where
  "verified_citations citations = count_if (\<lambda>c. cit_verified c = Some True) citations"

definition compute_confidence ::
  "segment list \<Rightarrow> citation list \<Rightarrow> retrieved_chunk list \<Rightarrow> real \<Rightarrow> verifier_thresholds \<Rightarrow> real" where
  "compute_confidence segments citations contexts unsupported_ratio t =
     (let retrieval = clamp01 (max_list0 (map chunk_score contexts));
          marker_count = sum_list (map (length \<circ> seg_citations) segments);
          verified_count = verified_citations citations;
          verified = (if marker_count \<noteq> 0 then real verified_count / real marker_count else 0);
          supported = max 0 (1 - unsupported_ratio);
          seg_with_cite = count_if (\<lambda>seg. seg_citations seg \<noteq> []) segments;
          coverage = (if segments \<noteq> [] then real seg_with_cite / real (length segments) else 0);
          score = retrieval * weight_retrieval t + verified * weight_verified t
            + supported * weight_supported t + coverage * weight_coverage t
      in clamp01 score)"

definition evaluate_gate_2 ::
  "citation list \<Rightarrow> real \<Rightarrow> real \<Rightarrow> verifier_thresholds \<Rightarrow> bool \<times> string option" where
  "evaluate_gate_2 citations unsupported_ratio confidence t =
     (if int (verified_citations citations) < min_verified_count t
        then (False, Some ''below_min_verified_count'')
      else if unsupported_ratio > max_unsupported_ratio t
        then (False, Some ''above_max_unsupported_ratio'')
      else if confidence < min_confidence t then (False, Some ''below_min_confidence'')
      else (True, None))"

section \<open>The whole verification\<close>

text \<open>
  The caveat appended to the limitations when a segment lost its citations (Korean, as UTF-8
  bytes): some answers had their citations removed because the inference or conflict check was
  not wired; ask the responsible department.
\<close>

definition downgrade_caveat :: string where
  "downgrade_caveat =
     [CHR 0xEC, CHR 0x9D, CHR 0xBC, CHR 0xEB, CHR 0xB6, CHR 0x80, CHR 0x20, CHR 0xEB, CHR 0x8B,
     CHR 0xB5, CHR 0xEB, CHR 0xB3, CHR 0x80, CHR 0xEC, CHR 0x9D, CHR 0x80, CHR 0x20, CHR 0xEC,
     CHR 0xB6, CHR 0x94, CHR 0xEB, CHR 0xA1, CHR 0xA0, CHR 0xC2, CHR 0xB7, CHR 0xEC, CHR 0xB6,
     CHR 0xA9, CHR 0xEB, CHR 0x8F, CHR 0x8C, CHR 0x20, CHR 0xEA, CHR 0xB2, CHR 0x80, CHR 0xEC,
     CHR 0xA6, CHR 0x9D, CHR 0xEC, CHR 0x9D, CHR 0xB4, CHR 0x20, CHR 0xEA, CHR 0xB2, CHR 0xB0,
     CHR 0xEC, CHR 0x84, CHR 0xA0, CHR 0xEB, CHR 0x90, CHR 0x98, CHR 0xEC, CHR 0xA7, CHR 0x80,
     CHR 0x20, CHR 0xEC, CHR 0x95, CHR 0x8A, CHR 0xEC, CHR 0x95, CHR 0x84, CHR 0x20, CHR 0xEC,
     CHR 0x9D, CHR 0xB8, CHR 0xEC, CHR 0x9A, CHR 0xA9, CHR 0xEC, CHR 0x9D, CHR 0x84, CHR 0x20,
     CHR 0xEC, CHR 0xA0, CHR 0x9C, CHR 0xEA, CHR 0xB1, CHR 0xB0, CHR 0xED, CHR 0x96, CHR 0x88,
     CHR 0xEC, CHR 0x8A, CHR 0xB5, CHR 0xEB, CHR 0x8B, CHR 0x88, CHR 0xEB, CHR 0x8B, CHR 0xA4,
     CHR 0x2E, CHR 0x20, CHR 0xEB, CHR 0x8B, CHR 0xB4, CHR 0xEB, CHR 0x8B, CHR 0xB9, CHR 0x20,
     CHR 0xEB, CHR 0xB6, CHR 0x80, CHR 0xEC, CHR 0x84, CHR 0x9C, CHR 0x20, CHR 0xED, CHR 0x99,
     CHR 0x95, CHR 0xEC, CHR 0x9D, CHR 0xB8, CHR 0xEC, CHR 0x9D, CHR 0x84, CHR 0x20, CHR 0xEA,
     CHR 0xB6, CHR 0x8C, CHR 0xEC, CHR 0x9E, CHR 0xA5, CHR 0xED, CHR 0x95, CHR 0xA9, CHR 0xEB,
     CHR 0x8B, CHR 0x88, CHR 0xEB, CHR 0x8B, CHR 0xA4, CHR 0x2E]"

definition merge_limitations :: "pylib \<Rightarrow> pyval \<Rightarrow> segment list \<Rightarrow> pyval" where
  "merge_limitations L limitations segments =
     (if filter seg_downgraded segments = [] then limitations
      else if truthy limitations
        then PStr (py_str L limitations @ [CHR 0x0A] @ downgrade_caveat)
      else PStr downgrade_caveat)"

definition verifier_run ::
  "pylib \<Rightarrow> embedder \<Rightarrow> (nat \<Rightarrow> string) \<Rightarrow> pyval list \<Rightarrow> retrieved_chunk list \<Rightarrow> string
     \<Rightarrow> verifier_thresholds \<Rightarrow> pyval \<Rightarrow> verification_result res" where
  "verifier_run L embed_batch uuid raw_segments contexts domain_id t limitations =
     bind_res (parse_segments L raw_segments) (\<lambda>parsed.
     let (segments1, t1_removed) = tier1_filter parsed (length contexts) in
     bind_res (tier2_classify embed_batch segments1 contexts t) (\<lambda>(segments, _, avg_sim).
     let (unsupported_idx, ratio) = tier3_unsupported segments;
         (citations, types) = assemble_citations uuid segments contexts domain_id;
         confidence = compute_confidence segments citations contexts ratio t;
         (passed, reason) = evaluate_gate_2 citations ratio confidence t
     in Inr \<lparr>vr_segments = segments, vr_citations = citations, vr_citation_types = types,
          vr_unsupported_segment_indices = unsupported_idx, vr_unsupported_ratio = ratio,
          vr_tier1_markers_removed = t1_removed, vr_tier2_avg_similarity = avg_sim,
          vr_confidence = confidence, vr_gate2_passed = passed, vr_gate2_reason = reason,
          vr_final_answer = concat (map seg_text segments),
          vr_limitations = merge_limitations L limitations segments\<rparr>))"

section \<open>The stand-alone tiers of the citation package\<close>

record citation_candidate =
  cand_marker :: string
  cand_citation_indices :: "int list"
  cand_claim_text :: string
  cand_support_type :: string
  cand_cited_chunks :: "pydict list"

definition tier1_marker_verify :: "citation_candidate list \<Rightarrow> nat \<Rightarrow> citation_candidate list" where
  "tier1_marker_verify candidates max_context_index =
     filter (\<lambda>c. list_all (in_context max_context_index) (cand_citation_indices c)) candidates"

record tier2_thresholds =
  t2_strong :: real
  t2_medium :: real

definition tier2_similarity_init :: "tier2_thresholds option \<Rightarrow> tier2_thresholds" where
  "tier2_similarity_init thresholds =
     (case thresholds of Some t \<Rightarrow> t | None \<Rightarrow> \<lparr>t2_strong = 0.75, t2_medium = 0.55\<rparr>)"

definition tier2_similarity_classify :: "tier2_thresholds \<Rightarrow> real \<Rightarrow> support_level \<times> bool" where
  "tier2_similarity_classify t similarity =
     (if similarity \<ge> t2_strong t then (Strong, True)
      else if similarity \<ge> t2_medium t then (Medium, True)
      else (Weak, False))"

definition tier2_similarity_cosine :: "real list \<Rightarrow> real list \<Rightarrow> real res" where
  \<comment> \<open>numpy's \<open>dot\<close> refuses vectors of different lengths, but only after the zero test\<close>
  "tier2_similarity_cosine a b =
     (let denom = sqrt (sum_list (map (\<lambda>x. x * x) a)) * sqrt (sum_list (map (\<lambda>x. x * x) b))
      in if denom = 0 then Inr 0
         else if length a \<noteq> length b then Inl ValueError
         else Inr (dot_product a b / denom))"

definition tier3_detect :: "pydict list \<Rightarrow> string \<Rightarrow> nat list \<times> real" where
  "tier3_detect answer_segments mode =
     (let unsupported =
        (if mode = ''structured''
         then map fst (filter (\<lambda>(i, seg). \<not> truthy (dget seg ''citations'' PNone))
                (enumerate 0 answer_segments))
         else [])
      in (unsupported, real (length unsupported) / real (max (length answer_segments) 1)))"

section \<open>Facts: normalisation and Tier 1\<close>

lemma parse_segment_fields:
  assumes "parse_segment L i raw = Inr seg"
  shows "seg_index seg = i" and "seg_citation_meta seg = Map.empty"
    and "\<not> seg_downgraded seg" and "\<not> seg_pending_judge seg"
  using assms by (auto simp: parse_segment_def)

lemma parse_segments_indices:
  assumes "parse_segments L raws = Inr segs"
  shows "map seg_index segs = [0..<length raws]" and "length segs = length raws"
proof -
  have l: "list_all2 (\<lambda>(i, raw) seg. parse_segment L i raw = Inr seg) (enumerate 0 raws) segs"
    using assms by (simp add: parse_segments_def map_res_Inr_iff case_prod_unfold)
  then show len: "length segs = length raws"
    by (auto dest: list_all2_lengthD)
  have "seg_index (segs ! i) = i" if "i < length raws" for i
    using l that
    by (auto simp: list_all2_conv_all_nth nth_enumerate_eq dest: parse_segment_fields(1))
  then show "map seg_index segs = [0..<length raws]"
    using len by (auto intro!: nth_equalityI)
qed

lemma parse_segments_distinct:
  "parse_segments L raws = Inr segs \<Longrightarrow> distinct (map seg_index segs)"
  by (simp add: parse_segments_indices)

definition keep_in_context :: "nat \<Rightarrow> segment \<Rightarrow> segment" where
  "keep_in_context n seg = seg\<lparr>seg_citations := filter (in_context n) (seg_citations seg)\<rparr>"

definition citation_total :: "segment list \<Rightarrow> nat" where
  "citation_total segs = sum_list (map (length \<circ> seg_citations) segs)"

lemma citation_total_simps [simp]:
  "citation_total [] = 0"
  "citation_total (s # ss) = length (seg_citations s) + citation_total ss"
  by (simp_all add: citation_total_def)

lemma citation_total_keep: "citation_total (map (keep_in_context n) segs) \<le> citation_total segs"
  by (induction segs) (auto simp: keep_in_context_def intro: add_mono)

lemma tier1_filter_eq:
  "tier1_filter segs n =
     (map (keep_in_context n) segs,
      citation_total segs - citation_total (map (keep_in_context n) segs))"
proof -
  let ?step = "\<lambda>(out, removed) seg. let valid = filter (in_context n) (seg_citations seg)
      in (out @ [seg\<lparr>seg_citations := valid\<rparr>], removed + (length (seg_citations seg) - length valid))"
  have "foldl ?step (out, r) segs =
      (out @ map (keep_in_context n) segs,
       r + (citation_total segs - citation_total (map (keep_in_context n) segs)))" for out r
  proof (induction segs arbitrary: out r)
    case (Cons seg segs)
    have len: "length (filter (in_context n) (seg_citations seg)) \<le> length (seg_citations seg)"
      by (rule length_filter_le)
    have k: "length (seg_citations (keep_in_context n seg)) =
        length (filter (in_context n) (seg_citations seg))"
      by (simp add: keep_in_context_def)
    from Cons.IH [of "out @ [keep_in_context n seg]"] citation_total_keep [of n segs] len show ?case
      by (simp add: keep_in_context_def [symmetric] Let_def k del: length_filter_le)
  qed simp
  from this [of "[]" 0] show ?thesis
    by (simp add: tier1_filter_def)
qed

lemma keep_in_context_simps [simp]:
  "seg_index (keep_in_context n seg) = seg_index seg"
  "seg_text (keep_in_context n seg) = seg_text seg"
  "seg_support_type (keep_in_context n seg) = seg_support_type seg"
  "set (seg_citations (keep_in_context n seg)) = {c \<in> set (seg_citations seg). in_context n c}"
  by (auto simp: keep_in_context_def)

section \<open>Facts: interning\<close>

definition intern_ok :: "intern_state \<Rightarrow> bool" where
  "intern_ok s \<longleftrightarrow>
     distinct (unique_texts s) \<and>
     (\<forall>t i. text_to_pos s t = Some i \<longleftrightarrow> i < length (unique_texts s) \<and> unique_texts s ! i = t)"

lemma intern_ok_empty: "intern_ok \<lparr>unique_texts = [], text_to_pos = Map.empty\<rparr>"
  by (simp add: intern_ok_def)

lemma intern_fresh: "intern_ok s \<Longrightarrow> text_to_pos s t = None \<Longrightarrow> t \<notin> set (unique_texts s)"
  by (metis in_set_conv_nth intern_ok_def option.distinct(1))

lemma intern_correct:
  assumes ok: "intern_ok s" and i: "intern t s = (p, s')"
  shows "intern_ok s' \<and> p < length (unique_texts s') \<and> unique_texts s' ! p = t
    \<and> prefix (unique_texts s) (unique_texts s')"
proof (cases "text_to_pos s t")
  case None
  with i have s': "s' = s\<lparr>text_to_pos := (text_to_pos s)(t \<mapsto> length (unique_texts s)),
      unique_texts := unique_texts s @ [t]\<rparr>" and p: "p = length (unique_texts s)"
    by (auto simp: intern_def)
  have "t \<notin> set (unique_texts s)"
    by (rule intern_fresh [OF ok None])
  then have "intern_ok s'"
    using ok s' by (auto simp: intern_ok_def nth_append in_set_conv_nth less_Suc_eq)
  then show ?thesis
    using s' p by simp
next
  case (Some q)
  with i ok show ?thesis
    by (auto simp: intern_def intern_ok_def)
qed

text \<open>A pair denotes a (segment, citation) slot when its positions hold the slot's two texts.\<close>

definition chunk_text :: "retrieved_chunk list \<Rightarrow> int \<Rightarrow> string" where
  "chunk_text contexts c = ck_content (contexts ! nat (c - 1))"

definition denotes :: "retrieved_chunk list \<Rightarrow> string list \<Rightarrow> segment \<times> int \<Rightarrow> vpair \<Rightarrow> bool" where
  "denotes contexts texts slot pair \<longleftrightarrow>
     (case (slot, pair) of ((seg, c), (i, c', cp, kp)) \<Rightarrow>
        i = seg_index seg \<and> c' = c \<and> cp < length texts \<and> texts ! cp = seg_text seg
        \<and> kp < length texts \<and> texts ! kp = chunk_text contexts c)"

lemma denotes_prefix: "denotes cs ts slot pair \<Longrightarrow> prefix ts us \<Longrightarrow> denotes cs us slot pair"
  by (auto simp: denotes_def prefix_def nth_append split: prod.splits)

definition tier2_slots ::
  "verifier_thresholds \<Rightarrow> retrieved_chunk list \<Rightarrow> segment list \<Rightarrow> (segment \<times> int) list" where
  "tier2_slots t contexts segments =
     concat (map (\<lambda>seg. if tier2_skips t seg then []
       else map (\<lambda>c. (seg, c)) (filter (in_context (length contexts)) (seg_citations seg))) segments)"

definition collected :: "retrieved_chunk list \<Rightarrow> (segment \<times> int) list \<Rightarrow> intern_state \<times> vpair list \<Rightarrow> bool" where
  "collected contexts slots acc \<longleftrightarrow>
     intern_ok (fst acc) \<and> list_all2 (denotes contexts (unique_texts (fst acc))) slots (snd acc)"

lemma collected_citation:
  assumes "collected contexts slots acc"
  shows "collected contexts
    (slots @ (if in_context (length contexts) c then [(seg, c)] else []))
    (collect_citation contexts seg c acc)"
proof (cases "in_context (length contexts) c")
  case False
  with assms show ?thesis by (cases acc) simp
next
  case True
  obtain st pairs where acc: "acc = (st, pairs)" by (cases acc)
  obtain cp st1 where i1: "intern (seg_text seg) st = (cp, st1)" by (cases "intern (seg_text seg) st")
  obtain kp st2 where i2: "intern (chunk_text contexts c) st1 = (kp, st2)"
    by (cases "intern (chunk_text contexts c) st1")
  from assms acc have ok: "intern_ok st"
    and l: "list_all2 (denotes contexts (unique_texts st)) slots pairs"
    by (auto simp: collected_def)
  note c1 = intern_correct [OF ok i1]
  note c2 = intern_correct [OF conjunct1 [OF c1] i2]
  have pre: "prefix (unique_texts st) (unique_texts st2)"
    using c1 c2 by (auto intro: prefix_order.trans)
  have "list_all2 (denotes contexts (unique_texts st2)) slots pairs"
    using l by (rule list_all2_mono) (rule denotes_prefix [OF _ pre])
  moreover have "denotes contexts (unique_texts st2) (seg, c) (seg_index seg, c, cp, kp)"
    using c1 c2 by (auto simp: denotes_def prefix_def nth_append)
  ultimately show ?thesis
    using True acc i1 i2 c2
    by (simp add: collected_def chunk_text_def list_all2_appendI)
qed

lemma collected_citations:
  assumes "collected contexts slots acc"
  shows "collected contexts
    (slots @ map (\<lambda>c. (seg, c)) (filter (in_context (length contexts)) cs))
    (fold (collect_citation contexts seg) cs acc)"
  using assms
proof (induction cs arbitrary: slots acc)
  case (Cons c cs)
  from Cons.IH [OF collected_citation [OF Cons.prems, where c = c and seg = seg]] show ?case
    by (cases "in_context (length contexts) c") simp_all
qed simp

lemma collected_segments:
  assumes "collected contexts slots acc"
  shows "collected contexts (slots @ tier2_slots t contexts segs)
    (fold (collect_segment t contexts) segs acc)"
  using assms
proof (induction segs arbitrary: slots acc)
  case (Cons seg segs)
  have "collected contexts (slots @ tier2_slots t contexts [seg]) (collect_segment t contexts seg acc)"
    using Cons.prems collected_citations [OF Cons.prems]
    by (auto simp: collect_segment_def tier2_slots_def)
  from Cons.IH [OF this] show ?case
    by (simp add: tier2_slots_def)
qed (simp add: tier2_slots_def)

lemma collect_pairs_denote:
  "collected contexts (tier2_slots t contexts segs) (collect_pairs t contexts segs)"
  using collected_segments [where slots = "[]" and acc = "(\<lparr>unique_texts = [], text_to_pos = Map.empty\<rparr>, [])"]
  by (simp add: collect_pairs_def collected_def intern_ok_empty)

section \<open>Facts: Tier 2\<close>

text \<open>
  The reference: every claim is compared with its own chunk directly, without the shared batch of
  interned texts.
\<close>

definition assess_slot ::
  "verifier_thresholds \<Rightarrow> (string \<Rightarrow> real list) \<Rightarrow> retrieved_chunk list \<Rightarrow> segment \<times> int
     \<Rightarrow> verified_citation" where
  "assess_slot t e contexts slot =
     (let (seg, c) = slot; sim = cosine (e (seg_text seg)) (e (chunk_text contexts c))
      in \<lparr>vc_segment_index = seg_index seg, vc_chunk_index = c, vc_similarity = sim,
          vc_support_level = fst (classify sim t), vc_verified = snd (classify sim t)\<rparr>)"

definition tier2_reference ::
  "(string \<Rightarrow> real list) \<Rightarrow> segment list \<Rightarrow> retrieved_chunk list \<Rightarrow> verifier_thresholds
     \<Rightarrow> (segment list \<times> verified_citation list \<times> real) res" where
  "tier2_reference e segments contexts t =
     (let as = map (assess_slot t e contexts) (tier2_slots t contexts segments) in
      bind_res (map_res (\<lambda>seg. tier2_segment t (seg_assessments as (seg_index seg)) seg) segments)
        (\<lambda>new_segments. Inr (new_segments, as, average (map vc_similarity as))))"

lemma assess_pair_denotes:
  assumes "denotes contexts texts slot pair"
  shows "assess_pair t (map e texts) pair = Inr (assess_slot t e contexts slot)"
  using assms
  by (auto simp: denotes_def assess_slot_def nth_res_def Let_def split: prod.splits)

lemma assess_pairs_denote:
  assumes "list_all2 (denotes contexts texts) slots pairs"
  shows "map_res (assess_pair t (map e texts)) pairs = Inr (map (assess_slot t e contexts) slots)"
  using assms
  by (induction slots pairs rule: list_all2_induct) (simp_all add: assess_pair_denotes)

lemma tier2_reference_eq:
  assumes "\<And>ts. embed_batch ts = Inr (map (\<lambda>s. (e s, sp s)) ts)"
  shows "tier2_classify embed_batch segments contexts t = tier2_reference e segments contexts t"
proof -
  obtain st pairs where p: "collect_pairs t contexts segments = (st, pairs)"
    by (cases "collect_pairs t contexts segments")
  have l: "list_all2 (denotes contexts (unique_texts st)) (tier2_slots t contexts segments) pairs"
    using collect_pairs_denote [of contexts t segments] p by (simp add: collected_def)
  have "(if unique_texts st = [] then Inr []
         else bind_res (embed_batch (unique_texts st)) (\<lambda>es. Inr (map fst es))) =
      Inr (map e (unique_texts st))"
    by (simp add: assms o_def)
  with assess_pairs_denote [OF l, of t e] show ?thesis
    by (simp add: tier2_classify_def tier2_reference_def p Let_def)
qed

lemma classify_verified_iff:
  "snd (classify s t) \<longleftrightarrow> min (strong_threshold t) (medium_threshold t) \<le> s"
  by (auto simp: classify_def min_def)

lemma classify_level: "snd (classify s t) \<longleftrightarrow> fst (classify s t) \<noteq> Weak"
  by (auto simp: classify_def)

text \<open>What an assessment made by Tier 2 says about itself.\<close>

definition vc_wf :: "verifier_thresholds \<Rightarrow> verified_citation \<Rightarrow> bool" where
  "vc_wf t a \<longleftrightarrow> (vc_support_level a, vc_verified a) = classify (vc_similarity a) t"

lemma assess_pair_wf: "assess_pair t es pair = Inr a \<Longrightarrow> vc_wf t a"
  by (cases pair) (auto simp: vc_wf_def Let_def case_prod_unfold)

lemma assess_slot_wf: "vc_wf t (assess_slot t e contexts slot)"
  by (simp add: assess_slot_def vc_wf_def Let_def split: prod.splits)

lemma vc_wf_verified:
  "vc_wf t a \<Longrightarrow> vc_verified a \<longleftrightarrow> min (strong_threshold t) (medium_threshold t) \<le> vc_similarity a"
  by (metis classify_verified_iff snd_conv vc_wf_def)

lemma seg_assessments_snoc:
  "seg_assessments (as @ [a]) i =
     (if vc_segment_index a = i then (seg_assessments as i)(vc_chunk_index a \<mapsto> a)
      else seg_assessments as i)"
  by (simp add: seg_assessments_def)

lemma seg_assessments_member:
  "seg_assessments as i c = Some a \<Longrightarrow>
     a \<in> set as \<and> vc_segment_index a = i \<and> vc_chunk_index a = c"
  by (induction as rule: rev_induct)
    (auto simp: seg_assessments_snoc seg_assessments_def [of "[]"] split: if_splits)

lemma seg_assessments_dom:
  "a \<in> set as \<Longrightarrow> seg_assessments as (vc_segment_index a) (vc_chunk_index a) \<noteq> None"
  by (induction as rule: rev_induct) (auto simp: seg_assessments_snoc)

lemma downgrade_simps [simp]:
  "seg_citations (downgrade seg m r) = []" "seg_index (downgrade seg m r) = seg_index seg"
  "seg_text (downgrade seg m r) = seg_text seg"
  "seg_support_type (downgrade seg m r) = seg_support_type seg"
  "seg_downgraded (downgrade seg m r)" "seg_citation_meta (downgrade seg m r) = m"
  "seg_pending_judge (downgrade seg m r) = seg_pending_judge seg"
  by (simp_all add: downgrade_def)

lemma verified_in_iff: "verified_in m c \<longleftrightarrow> (\<exists>a. m c = Some a \<and> vc_verified a)"
  by (auto simp: verified_in_def split: option.splits)

lemma tier2_conflict_frame:
  assumes "tier2_conflict seg m = Inr seg'"
  shows "seg_index seg' = seg_index seg" "seg_text seg' = seg_text seg"
    "seg_support_type seg' = seg_support_type seg"
    "seg_citations seg' = [] \<or> seg_citations seg' = seg_citations seg"
  using assms by (auto simp: tier2_conflict_def split: if_splits)

lemma tier2_segment_frame:
  assumes "tier2_segment t m seg = Inr seg'"
  shows "seg_index seg' = seg_index seg" and "seg_text seg' = seg_text seg"
    and "seg_support_type seg' = seg_support_type seg"
    and "subseq (seg_citations seg') (seg_citations seg)"
  using assms
  by (auto simp: tier2_segment_def tier2_inference_def tier2_direct_def Let_def
      dest: tier2_conflict_frame split: if_splits)

lemma tier2_segment_sound:
  assumes "tier2_segment t m seg = Inr seg'" and "c \<in> set (seg_citations seg')"
    and "seg_support_type seg \<noteq> PStr ''conflict''"
  shows "\<exists>a. m c = Some a \<and> vc_verified a \<and> seg_citation_meta seg' c = Some a"
  using assms
  by (auto simp: tier2_segment_def tier2_inference_def tier2_direct_def Let_def verified_in_iff
      all_cited_verified_def list_all_iff restrict_map_def split: if_splits; blast)

lemma capped_simps [simp]:
  "vc_support_level (capped a) = cap_medium (vc_support_level a)" "vc_verified (capped a)"
  "vc_similarity (capped a) = vc_similarity a" "vc_chunk_index (capped a) = vc_chunk_index a"
  "vc_segment_index (capped a) = vc_segment_index a"
  by (simp_all add: capped_def)

lemma cap_medium_not_Strong [simp]: "cap_medium l \<noteq> Strong" "cap_medium (cap_medium l) = cap_medium l"
  by (auto simp: cap_medium_def)

lemma tier2_conflict_capped:
  assumes "tier2_conflict seg m = Inr seg'" and "c \<in> set (seg_citations seg')"
    and "seg_citation_meta seg' c = Some a"
  shows "vc_support_level a \<noteq> Strong \<and> vc_verified a"
  using assms
  by (auto simp: tier2_conflict_def restrict_map_def split: if_splits)

lemma tier2_classify_segments:
  assumes "tier2_classify embed_batch segs contexts t = Inr (segs', as, avg)"
  shows "list_all2 (\<lambda>seg seg'. tier2_segment t (seg_assessments as (seg_index seg)) seg = Inr seg')
           segs segs'"
    and "\<And>a. a \<in> set as \<Longrightarrow> vc_wf t a"
    and "avg = average (map vc_similarity as)"
  using assms
  by (auto simp: tier2_classify_def map_res_Inr_iff split: prod.splits
      dest: assess_pair_wf map_res_in_set [OF iffD2 [OF map_res_Inr_iff]])

section \<open>Facts: assembly, confidence and Gate 2\<close>

lemma assemble_slots_iff:
  "(seg, c) \<in> set (assemble_slots segs contexts) \<longleftrightarrow>
     seg \<in> set segs \<and> c \<in> set (seg_citations seg) \<and> in_context (length contexts) c"
  by (auto simp: assemble_slots_def)

lemma assemble_citations_member:
  assumes "cit \<in> set (fst (assemble_citations uuid segs contexts d))"
  shows "\<exists>k seg c. seg \<in> set segs \<and> c \<in> set (seg_citations seg) \<and> in_context (length contexts) c
    \<and> cit = make_citation (uuid k) d seg c (contexts ! nat (c - 1))"
proof -
  from assms obtain k seg c where
    "(k, seg, c) \<in> set (enumerate 0 (assemble_slots segs contexts))"
    and cit: "cit = make_citation (uuid k) d seg c (contexts ! nat (c - 1))"
    by (auto simp: assemble_citations_def Let_def)
  then have "(seg, c) \<in> set (assemble_slots segs contexts)"
    by (auto simp: in_set_enumerate_eq) (metis nth_mem)
  with cit show ?thesis
    by (auto simp: assemble_slots_iff)
qed

lemma assemble_lengths:
  "length (fst (assemble_citations uuid segs contexts d)) = length (assemble_slots segs contexts)"
  "length (snd (assemble_citations uuid segs contexts d)) = length (assemble_slots segs contexts)"
  by (simp_all add: assemble_citations_def Let_def)

lemma assemble_slots_total: "length (assemble_slots segs contexts) \<le> citation_total segs"
  by (induction segs) (auto simp: assemble_slots_def citation_total_def intro: add_mono)

lemma verified_le_markers:
  "verified_citations (fst (assemble_citations uuid segs contexts d)) \<le> citation_total segs"
  using count_if_le assemble_lengths(1) assemble_slots_total order_trans
  unfolding verified_citations_def by metis

lemma context_nth:
  "in_context (length contexts) c \<Longrightarrow> contexts ! nat (c - 1) \<in> set contexts"
  by (auto simp: in_context_def)

lemma tier3_ratio_bounds: "0 \<le> snd (tier3_unsupported segs)" "snd (tier3_unsupported segs) \<le> 1"
  by (auto simp: tier3_unsupported_def Let_def divide_le_eq_1 length_filter_le)

lemma tier3_ratio_zero: "snd (tier3_unsupported segs) = 0 \<longleftrightarrow> (\<forall>seg \<in> set segs. seg_citations seg \<noteq> [])"
  by (auto simp: tier3_unsupported_def Let_def filter_empty_conv)

definition raw_confidence ::
  "segment list \<Rightarrow> citation list \<Rightarrow> retrieved_chunk list \<Rightarrow> real \<Rightarrow> verifier_thresholds \<Rightarrow> real" where
  \<comment> \<open>the weighted sum before the last clamp\<close>
  "raw_confidence segs cits contexts ratio t =
     clamp01 (max_list0 (map chunk_score contexts)) * weight_retrieval t
     + (if citation_total segs = 0 then 0
        else real (verified_citations cits) / real (citation_total segs)) * weight_verified t
     + max 0 (1 - ratio) * weight_supported t
     + (if segs = [] then 0
        else real (count_if (\<lambda>seg. seg_citations seg \<noteq> []) segs) / real (length segs))
       * weight_coverage t"

lemma compute_confidence_eq:
  "compute_confidence segs cits contexts ratio t = clamp01 (raw_confidence segs cits contexts ratio t)"
  by (simp add: compute_confidence_def raw_confidence_def citation_total_def [symmetric] Let_def)

lemma mult_weight_bounds:
  fixes x w :: real
  assumes "0 \<le> x" "x \<le> 1" "0 \<le> w"
  shows "0 \<le> x * w" "x * w \<le> w"
  using assms by (simp_all add: mult_left_le_one_le)

lemma raw_confidence_bounds:
  assumes w: "0 \<le> weight_retrieval t" "0 \<le> weight_verified t"
      "0 \<le> weight_supported t" "0 \<le> weight_coverage t"
    and total: "weight_retrieval t + weight_verified t + weight_supported t + weight_coverage t \<le> 1"
    and ratio: "0 \<le> ratio" "ratio \<le> 1"
    and vc: "verified_citations cits \<le> citation_total segs"
  shows "0 \<le> raw_confidence segs cits contexts ratio t" "raw_confidence segs cits contexts ratio t \<le> 1"
proof -
  let ?v = "if citation_total segs = 0 then 0
      else real (verified_citations cits) / real (citation_total segs)"
  let ?c = "if segs = [] then 0
      else real (count_if (\<lambda>seg. seg_citations seg \<noteq> []) segs) / real (length segs)"
  have v: "0 \<le> ?v" "?v \<le> 1"
    using vc by (auto simp: divide_le_eq_1)
  have c: "0 \<le> ?c" "?c \<le> 1"
    using count_if_le [of "\<lambda>seg. seg_citations seg \<noteq> []" segs] by (auto simp: divide_le_eq_1)
  have s: "0 \<le> max 0 (1 - ratio)" "max 0 (1 - ratio) \<le> 1"
    using ratio by auto
  note b = mult_weight_bounds [OF clamp01_bounds w(1), of "max_list0 (map chunk_score contexts)"]
    mult_weight_bounds [OF v w(2)] mult_weight_bounds [OF s w(3)] mult_weight_bounds [OF c w(4)]
  show "0 \<le> raw_confidence segs cits contexts ratio t"
    unfolding raw_confidence_def using b(1,3,5,7) by linarith
  show "raw_confidence segs cits contexts ratio t \<le> 1"
    unfolding raw_confidence_def using b(2,4,6,8) total by linarith
qed

lemma gate_2_iff:
  "fst (evaluate_gate_2 cits ratio conf t) \<longleftrightarrow>
     min_verified_count t \<le> int (verified_citations cits) \<and> ratio \<le> max_unsupported_ratio t
     \<and> min_confidence t \<le> conf"
  by (auto simp: evaluate_gate_2_def)

lemma gate_2_reason_iff:
  "snd (evaluate_gate_2 cits ratio conf t) = None \<longleftrightarrow> fst (evaluate_gate_2 cits ratio conf t)"
  by (auto simp: evaluate_gate_2_def)

section \<open>Facts: the whole verification\<close>

lemma verifier_run_cases:
  assumes "verifier_run L embed_batch uuid raws contexts d t limits = Inr r"
  obtains parsed segs1 as where
    "parse_segments L raws = Inr parsed"
    "segs1 = map (keep_in_context (length contexts)) parsed"
    "tier2_classify embed_batch segs1 contexts t = Inr (vr_segments r, as, vr_tier2_avg_similarity r)"
    "vr_citations r = fst (assemble_citations uuid (vr_segments r) contexts d)"
    "vr_unsupported_ratio r = snd (tier3_unsupported (vr_segments r))"
    "vr_confidence r = compute_confidence (vr_segments r) (vr_citations r) contexts
        (vr_unsupported_ratio r) t"
    "(vr_gate2_passed r, vr_gate2_reason r) =
        evaluate_gate_2 (vr_citations r) (vr_unsupported_ratio r) (vr_confidence r) t"
    "vr_final_answer r = concat (map seg_text (vr_segments r))"
  using assms
  by (auto simp: verifier_run_def tier1_filter_eq Let_def case_prod_unfold)

lemma verifier_run_facts:
  assumes "verifier_run L embed_batch uuid raws contexts d t limits = Inr r"
  shows "vr_citations r = fst (assemble_citations uuid (vr_segments r) contexts d)"
    and "vr_unsupported_ratio r = snd (tier3_unsupported (vr_segments r))"
    and "vr_confidence r = compute_confidence (vr_segments r) (vr_citations r) contexts
        (vr_unsupported_ratio r) t"
    and "(vr_gate2_passed r, vr_gate2_reason r) =
        evaluate_gate_2 (vr_citations r) (vr_unsupported_ratio r) (vr_confidence r) t"
  by (rule verifier_run_cases [OF assms], assumption)+

lemma run_segment_origin:
  assumes t2: "tier2_classify embed_batch segs contexts t = Inr (segs', as, avg)"
    and "seg' \<in> set segs'"
  obtains seg where "seg \<in> set segs"
    "tier2_segment t (seg_assessments as (seg_index seg)) seg = Inr seg'"
  using list_all2_in_right [OF tier2_classify_segments(1) [OF t2] assms(2)] by blast

lemma tier2_texts:
  assumes "tier2_classify embed_batch segs contexts t = Inr (segs', as, avg)"
  shows "map seg_text segs' = map seg_text segs" and "map seg_index segs' = map seg_index segs"
  using tier2_classify_segments(1) [OF assms]
  by (auto intro: list_all2_map_eq dest: tier2_segment_frame)

lemma assessment_of_slot:
  assumes t2: "tier2_reference e segs contexts t = Inr (segs', as, avg)"
    and d: "distinct (map seg_index segs)" and seg: "seg \<in> set segs"
    and a: "seg_assessments as (seg_index seg) c = Some a"
  shows "a = assess_slot t e contexts (seg, c)"
proof -
  from t2 have "as = map (assess_slot t e contexts) (tier2_slots t contexts segs)"
    by (auto simp: tier2_reference_def Let_def)
  moreover from a have a': "a \<in> set as" "vc_segment_index a = seg_index seg" "vc_chunk_index a = c"
    by (auto dest: seg_assessments_member)
  ultimately obtain seg2 where "seg2 \<in> set segs" "a = assess_slot t e contexts (seg2, c)"
    "seg_index seg2 = seg_index seg"
    by (auto simp: assess_slot_def Let_def tier2_slots_def split: if_splits)
  with d seg show ?thesis
    by (auto simp: distinct_map dest: inj_onD)
qed

section \<open>Properties\<close>

text \<open>Concrete data for the witnesses: one chunk, and an embedder that sends every text to \<open>[1]\<close>.\<close>

definition ex_lib :: pylib where
  "ex_lib = \<lparr>float_of_text = \<lambda>_. None, int_of_text = \<lambda>_. None, repr_of = \<lambda>_. [],
     lower_of = \<lambda>s. s, json_loads = \<lambda>_. Inl [], re_search = \<lambda>_ _. Some False,
     exc_text = exc_name\<rparr>"

definition ex_chunk :: "string \<Rightarrow> string \<Rightarrow> retrieved_chunk" where
  "ex_chunk cid body = \<lparr>ck_chunk_id = cid, ck_doc_id = ''d'', ck_title = ''t'', ck_content = body,
     ck_page_number = PNone, ck_section_title = PNone, ck_dense_score = 0, ck_sparse_score = 0,
     ck_fused_score = 0.9, ck_payload = [], ck_rerank_score = Some 0.9\<rparr>"

definition ex_embed :: "(string \<Rightarrow> real list) \<Rightarrow> embedder" where
  "ex_embed e ts = Inr (map (\<lambda>s. (e s, [])) ts)"

definition ex_seg :: "nat \<Rightarrow> string \<Rightarrow> int list \<Rightarrow> segment" where
  "ex_seg i kind cs = \<lparr>seg_index = i, seg_text = ''claim'', seg_citations = cs,
     seg_support_type = PStr kind, seg_inference_chain = PNone, seg_conflict_groups = PNone,
     seg_citation_meta = Map.empty, seg_downgraded = False, seg_downgrade_reason = None,
     seg_pending_judge = False, seg_judge_reasoning = None, seg_judge_caveat = PNone,
     seg_conflict_signal = None\<rparr>"

lemmas ex_defs = ex_lib_def ex_chunk_def ex_embed_def ex_seg_def

lemmas verifier_eval = tier2_reference_def tier2_slots_def tier2_skips_def assess_slot_def
  chunk_text_def cosine_def dot_product_def norm_or_one_def classify_def default_thresholds_def
  seg_assessments_def tier2_segment_def tier2_direct_def tier2_conflict_def verified_in_def
  in_context_def Let_def average_def all_cited_verified_def

text \<open>
  (C14) Tier 2 embeds all distinct texts in one batch and looks vectors up by interned position.
  If the embedder embeds a batch text by text, the result is that of comparing every cited chunk
  with its claim directly: interning, batching and position bookkeeping change nothing.
\<close>

theorem tier2_batch_equivalence:
  assumes "\<And>ts. embed_batch ts = Inr (map (\<lambda>s. (e s, sp s)) ts)"
  shows "tier2_classify embed_batch segments contexts t = tier2_reference e segments contexts t"
  using assms by (rule tier2_reference_eq)

theorem tier2_batch_equivalence_witness:
  "tier2_classify (ex_embed (\<lambda>_. [1])) [ex_seg 0 ''direct'' [1, 1]] [ex_chunk ''c'' ''claim'']
     default_thresholds =
   tier2_reference (\<lambda>_. [1]) [ex_seg 0 ''direct'' [1, 1]] [ex_chunk ''c'' ''claim'']
     default_thresholds"
  by (rule tier2_batch_equivalence [where sp = "\<lambda>_. []"]) (simp add: ex_embed_def)

text \<open>
  (C5) What a verified citation means. In the result of a verification run, every citation object
  of a claim that is not a conflict points at a chunk of the retrieved context, is marked verified,
  and carries the cosine similarity of its claim and that chunk, which reaches the lower of the two
  thresholds.
\<close>

theorem verified_citations_are_similar:
  assumes emb: "\<And>ts. embed_batch ts = Inr (map (\<lambda>s. (e s, sp s)) ts)"
    and run: "verifier_run L embed_batch uuid raws contexts d t limits = Inr r"
    and cit: "cit \<in> set (vr_citations r)"
    and nc: "cit_support_type cit \<noteq> PStr ''conflict''"
  shows "\<exists>ctx \<in> set contexts. \<exists>sim. cit_chunk_id cit = ck_chunk_id ctx
    \<and> sim = cosine (e (cit_claim_text cit)) (e (ck_content ctx))
    \<and> cit_similarity cit = Some sim \<and> cit_verified cit = Some True
    \<and> min (strong_threshold t) (medium_threshold t) \<le> sim"
proof -
  from run obtain parsed segs1 as where parsed: "parse_segments L raws = Inr parsed"
    and segs1: "segs1 = map (keep_in_context (length contexts)) parsed"
    and t2: "tier2_classify embed_batch segs1 contexts t = Inr (vr_segments r, as, vr_tier2_avg_similarity r)"
    and cits: "vr_citations r = fst (assemble_citations uuid (vr_segments r) contexts d)"
    by (rule verifier_run_cases)
  have d: "distinct (map seg_index segs1)"
    using parse_segments_distinct [OF parsed] segs1 by (simp add: o_def)
  from cit cits obtain k seg' c where seg': "seg' \<in> set (vr_segments r)" "c \<in> set (seg_citations seg')"
    and c: "in_context (length contexts) c"
    and mk: "cit = make_citation (uuid k) d seg' c (contexts ! nat (c - 1))"
    using assemble_citations_member by metis
  from run_segment_origin [OF t2 seg'(1)] obtain seg where seg: "seg \<in> set segs1"
    "tier2_segment t (seg_assessments as (seg_index seg)) seg = Inr seg'" .
  note frame = tier2_segment_frame [OF seg(2)]
  have "seg_support_type seg \<noteq> PStr ''conflict''"
    using nc mk frame by (simp add: make_citation_def Let_def)
  from tier2_segment_sound [OF seg(2) seg'(2) this] obtain a where
    a: "seg_assessments as (seg_index seg) c = Some a" "vc_verified a" "seg_citation_meta seg' c = Some a"
    by blast
  have "a = assess_slot t e contexts (seg, c)"
    using assessment_of_slot [OF _ d seg(1) a(1)] t2 tier2_reference_eq [OF emb] by metis
  then have "vc_similarity a = cosine (e (cit_claim_text cit)) (e (ck_content (contexts ! nat (c - 1))))"
    "min (strong_threshold t) (medium_threshold t) \<le> vc_similarity a"
    using a(2) mk frame vc_wf_verified [OF assess_slot_wf]
    by (auto simp: assess_slot_def Let_def make_citation_def chunk_text_def)
  then show ?thesis
    using context_nth [OF c] mk a by (auto simp: make_citation_def Let_def)
qed

lemma tier2_ex: "tier2_classify (ex_embed e) ss cs t = tier2_reference e ss cs t"
  by (rule tier2_reference_eq [where sp = "\<lambda>_. []"]) (simp add: ex_embed_def)

definition ex_raws :: "pyval list" where
  "ex_raws = [PDict [(''text'', PStr ''claim''), (''citations'', PList [PInt 1, PInt 7])]]"

lemma ex_run_ok:
  "\<exists>r. verifier_run ex_lib (ex_embed (\<lambda>_. [1])) (\<lambda>_. ''id'') ex_raws [ex_chunk ''c'' ''claim'']
     ''dom'' default_thresholds PNone = Inr r \<and> vr_gate2_passed r
     \<and> (\<exists>cit \<in> set (vr_citations r). cit_support_type cit = PStr ''direct'')"
  unfolding verifier_run_def tier2_ex
  by (simp add: parse_segments_def parse_segment_def ex_raws_def pyval_simps
      normalize_support_type_def tier1_filter_def verifier_eval List.map_filter_def
      assemble_citations_def assemble_slots_def tier3_unsupported_def make_citation_def
      compute_confidence_def verified_citations_def evaluate_gate_2_def
      max_list0_def chunk_score_def clamp01_def ex_chunk_def)

theorem verified_citations_are_similar_witness:
  "\<exists>r. verifier_run ex_lib (ex_embed (\<lambda>_. [1])) (\<lambda>_. ''id'') ex_raws [ex_chunk ''c'' ''claim'']
     ''dom'' default_thresholds PNone = Inr r
     \<and> (\<exists>cit \<in> set (vr_citations r). cit_verified cit = Some True)"
proof -
  obtain r cit where r: "verifier_run ex_lib (ex_embed (\<lambda>_. [1])) (\<lambda>_. ''id'') ex_raws
      [ex_chunk ''c'' ''claim''] ''dom'' default_thresholds PNone = Inr r"
    and cit: "cit \<in> set (vr_citations r)" "cit_support_type cit = PStr ''direct''"
    using ex_run_ok by blast
  have "cit_verified cit = Some True"
    using verified_citations_are_similar [where e = "\<lambda>_. [1]" and sp = "\<lambda>_. []", OF _ r cit(1)] cit(2)
    by (auto simp: ex_embed_def)
  with r cit show ?thesis by blast
qed

text \<open>
  Tier 1 keeps exactly the citation markers that name a context: every marker kept is in
  \<open>1..n\<close>, every marker in range is kept in its place, and the reported number of removed markers
  is the number that went missing.
\<close>

theorem tier1_keeps_exactly_in_range:
  "case tier1_filter segs n of (out, removed) \<Rightarrow>
     map seg_citations out = map (filter (in_context n) \<circ> seg_citations) segs
     \<and> map seg_text out = map seg_text segs
     \<and> removed + citation_total out = citation_total segs"
  using citation_total_keep [of n segs]
  by (simp add: tier1_filter_eq keep_in_context_def o_def)

text \<open>
  Tier 2 never invents support: it returns one segment per input segment, with the same index,
  text and claim type, and the citations of each are a subsequence of those it had.
\<close>

theorem tier2_only_removes:
  assumes "tier2_classify embed_batch segs contexts t = Inr (segs', as, avg)"
  shows "list_all2 (\<lambda>seg seg'. seg_index seg' = seg_index seg \<and> seg_text seg' = seg_text seg
           \<and> seg_support_type seg' = seg_support_type seg
           \<and> subseq (seg_citations seg') (seg_citations seg)) segs segs'"
  using tier2_classify_segments(1) [OF assms]
  by (rule list_all2_mono) (simp add: tier2_segment_frame)

theorem tier2_only_removes_witness:
  "\<exists>seg' as avg. tier2_classify (ex_embed (\<lambda>_. [1])) [ex_seg 0 ''direct'' [1, 2]]
      [ex_chunk ''c'' ''claim''] default_thresholds = Inr ([seg'], as, avg)
    \<and> seg_citations seg' = [1] \<and> subseq (seg_citations seg') [1, 2]"
proof -
  have "\<exists>seg' as avg. tier2_classify (ex_embed (\<lambda>_. [1])) [ex_seg 0 ''direct'' [1, 2]]
      [ex_chunk ''c'' ''claim''] default_thresholds = Inr ([seg'], as, avg) \<and> seg_citations seg' = [1]"
    unfolding tier2_ex by (simp add: verifier_eval ex_seg_def)
  then obtain seg' as avg where t2: "tier2_classify (ex_embed (\<lambda>_. [1])) [ex_seg 0 ''direct'' [1, 2]]
      [ex_chunk ''c'' ''claim''] default_thresholds = Inr ([seg'], as, avg)"
    and c: "seg_citations seg' = [1]"
    by blast
  from tier2_only_removes [OF t2] have "subseq (seg_citations seg') [1, 2]"
    by (simp add: ex_seg_def)
  with t2 c show ?thesis by blast
qed

text \<open>
  (C15) The confidence of a run is a score: when the configured weights are non-negative and sum to
  at most one (the defaults sum to one), the weighted sum itself lies between 0 and 1, so the final
  clamp of the code changes nothing.
\<close>

theorem confidence_is_weighted_sum:
  assumes "verifier_run L embed_batch uuid raws contexts d t limits = Inr r"
    and "0 \<le> weight_retrieval t" "0 \<le> weight_verified t" "0 \<le> weight_supported t"
      "0 \<le> weight_coverage t"
    and "weight_retrieval t + weight_verified t + weight_supported t + weight_coverage t \<le> 1"
  shows "vr_confidence r =
      raw_confidence (vr_segments r) (vr_citations r) contexts (vr_unsupported_ratio r) t
    \<and> 0 \<le> vr_confidence r \<and> vr_confidence r \<le> 1"
proof -
  note facts = verifier_run_facts [OF assms(1)]
  have ratio: "0 \<le> vr_unsupported_ratio r" "vr_unsupported_ratio r \<le> 1"
    by (simp_all add: facts(2) tier3_ratio_bounds)
  have "verified_citations (vr_citations r) \<le> citation_total (vr_segments r)"
    by (simp add: facts(1) verified_le_markers)
  from raw_confidence_bounds [OF assms(2-6) ratio this] show ?thesis
    by (simp add: facts(3) compute_confidence_eq clamp01_id)
qed

theorem confidence_is_weighted_sum_witness:
  "\<exists>r. verifier_run ex_lib (ex_embed (\<lambda>_. [1])) (\<lambda>_. ''id'') ex_raws [ex_chunk ''c'' ''claim'']
     ''dom'' default_thresholds PNone = Inr r \<and> 0 \<le> vr_confidence r \<and> vr_confidence r \<le> 1"
proof -
  obtain r where r: "verifier_run ex_lib (ex_embed (\<lambda>_. [1])) (\<lambda>_. ''id'') ex_raws
      [ex_chunk ''c'' ''claim''] ''dom'' default_thresholds PNone = Inr r"
    using ex_run_ok by blast
  then show ?thesis
    using confidence_is_weighted_sum [OF r] by (simp add: default_thresholds_def)
qed

text \<open>
  What Gate 2 promises of an accepted answer: with a positive minimum, an accepted run has a
  verified citation whose chunk is in the context, its share of unsupported segments is within the
  limit, its confidence reaches the minimum, and no failure reason is reported.
\<close>

theorem gate_2_accepts_supported_answers:
  assumes run: "verifier_run L embed_batch uuid raws contexts d t limits = Inr r"
    and pass: "vr_gate2_passed r" and pos: "0 < min_verified_count t"
  shows "(\<exists>cit \<in> set (vr_citations r). cit_verified cit = Some True
      \<and> (\<exists>ctx \<in> set contexts. cit_chunk_id cit = ck_chunk_id ctx))
    \<and> vr_unsupported_ratio r \<le> max_unsupported_ratio t \<and> min_confidence t \<le> vr_confidence r
    \<and> vr_gate2_reason r = None"
proof -
  note cits = verifier_run_facts(1) [OF run] and g = verifier_run_facts(4) [OF run]
  from g pass have f: "fst (evaluate_gate_2 (vr_citations r) (vr_unsupported_ratio r) (vr_confidence r) t)"
    by (metis fst_conv)
  then have "0 < verified_citations (vr_citations r)"
    using pos by (simp add: gate_2_iff)
  then obtain cit where cit: "cit \<in> set (vr_citations r)" "cit_verified cit = Some True"
    by (auto simp: verified_citations_def count_if_pos)
  then have "\<exists>ctx \<in> set contexts. cit_chunk_id cit = ck_chunk_id ctx"
    using cits assemble_citations_member [of cit uuid "vr_segments r" contexts d]
    by (auto simp: make_citation_def Let_def intro: context_nth)
  with cit f g gate_2_reason_iff show ?thesis
    by (metis gate_2_iff snd_conv)
qed

theorem gate_2_accepts_supported_answers_witness:
  "\<exists>r. verifier_run ex_lib (ex_embed (\<lambda>_. [1])) (\<lambda>_. ''id'') ex_raws [ex_chunk ''c'' ''claim'']
     ''dom'' default_thresholds PNone = Inr r \<and> vr_gate2_passed r
     \<and> (\<exists>cit \<in> set (vr_citations r). cit_verified cit = Some True)"
proof -
  obtain r where r: "verifier_run ex_lib (ex_embed (\<lambda>_. [1])) (\<lambda>_. ''id'') ex_raws
      [ex_chunk ''c'' ''claim''] ''dom'' default_thresholds PNone = Inr r" "vr_gate2_passed r"
    using ex_run_ok by blast
  then show ?thesis
    using gate_2_accepts_supported_answers [OF r] by (auto simp: default_thresholds_def)
qed

text \<open>
  The judge's verdict is final: an accepted inference segment keeps its citations with their
  support level capped below strong and all marked verified, a rejected one loses every citation
  and is marked as downgraded, and neither is left pending.
\<close>

theorem judge_verdict:
  "let ns = apply_judge_result seg passes reasoning caveat in
     \<not> seg_pending_judge ns \<and> seg_text ns = seg_text seg
     \<and> (if passes then seg_citations ns = seg_citations seg
          \<and> (\<forall>c. seg_citation_meta ns c = map_option capped (seg_citation_meta seg c))
        else seg_citations ns = [] \<and> seg_citation_meta ns = Map.empty \<and> seg_downgraded ns
          \<and> seg_downgrade_reason ns = Some ''judge_rejected'')"
  by (simp add: apply_judge_result_def Let_def downgrade_def)

definition ex_conflict_embed :: "string \<Rightarrow> real list" where
  "ex_conflict_embed s = (if s = ''other'' then [0, 1] else [1, 0])"

definition ex_conflict_seg :: segment where
  "ex_conflict_seg = (ex_seg 0 ''conflict'' [1, 2, 3])
     \<lparr>seg_conflict_groups := PList [PList [PInt 1], PList [PInt 2]]\<rparr>"

text \<open>
  A gap in the conflict rule: only the chunks inside the conflict groups are required to pass
  Tier 2, but every citation of an accepted conflict segment is then marked verified. A chunk that
  is cited outside the groups and whose similarity is 0, below every threshold, ends up with support
  level weak and \<open>verified\<close> set.
\<close>

theorem conflict_marks_weak_citation_verified:
  "\<exists>seg' as avg m. tier2_classify (ex_embed ex_conflict_embed) [ex_conflict_seg]
       [ex_chunk ''a'' ''claim'', ex_chunk ''b'' ''claim'', ex_chunk ''c'' ''other'']
       default_thresholds = Inr ([seg'], as, avg)
     \<and> 3 \<in> set (seg_citations seg') \<and> seg_citation_meta seg' 3 = Some m
     \<and> vc_verified m \<and> vc_similarity m = 0 \<and> vc_support_level m = Weak"
  unfolding tier2_ex
  by (simp add: verifier_eval ex_conflict_seg_def ex_conflict_embed_def ex_seg_def ex_chunk_def
      py_or_def group_ok_def verified_key_def capped_def cap_medium_def)
    (rule exI [of _ "2 / 3"], simp)

end
