(* ===== verification/Llm_Services.thy ===== *)
theory Llm_Services
  imports Verifier Py_Text
begin

text \<open>
  The services around the language model: structured and conversational answer generation
  (\<open>services/generation_service.py\<close>), the inference judge (\<open>services/judge_service.py\<close>) and query
  rewriting (\<open>services/query_rewriter.py\<close>). The model is a function from the arguments of a call to
  its answer or exception, and template rendering (Jinja2) is a function of the template and its
  variables; both are parameters.
\<close>

section \<open>Calls\<close>

record llm_call =
  lc_prompt :: string
  lc_model :: pyval
  lc_max_tokens :: int
  lc_temperature :: real
  lc_guided_json_schema :: pyval
  lc_lora_adapter :: pyval

type_synonym llm = "llm_call \<Rightarrow> string res"
type_synonym jinja = "string \<Rightarrow> pydict \<Rightarrow> string res"

definition nl :: string where
  "nl = [CHR 0x0A]"

definition str_or :: "string option \<Rightarrow> string \<Rightarrow> string" where
  \<comment> \<open>\<open>s or t\<close> on an optional string\<close>
  "str_or s t = (case s of None \<Rightarrow> t | Some x \<Rightarrow> if x = [] then t else x)"

section \<open>Generation\<close>

record generation_result =
  gr_raw_response :: string
  gr_answer_segments :: "pyval list"
  gr_limitations :: pyval
  gr_parse_ok :: bool
  gr_parse_error :: "string option"

record generation_prompt =
  gp_system :: string
  gp_user :: string
  gp_response_schema :: pyval

record generation_service =
  gs_llm :: llm
  gs_prompt :: generation_prompt
  gs_model :: string
  gs_max_tokens :: int
  gs_temperature :: real
  gs_prompt_provider :: "(string option \<Rightarrow> generation_prompt option res) option"
  gs_conversational_system :: string

definition DEFAULT_CONVERSATIONAL_SYSTEM :: string where
  "DEFAULT_CONVERSATIONAL_SYSTEM =
     [CHR 0xEB, CHR 0x8B, CHR 0xB9, CHR 0xEC, CHR 0x8B, CHR 0xA0, CHR 0xEC, CHR 0x9D, CHR 0x80,
     CHR 0x20, CHR 0xEB, CHR 0x8F, CHR 0x84, CHR 0xEB, CHR 0xA9, CHR 0x94, CHR 0xEC, CHR 0x9D,
     CHR 0xB8, CHR 0x20, CHR 0xEC, CHR 0xA7, CHR 0x80, CHR 0xEC, CHR 0x8B, CHR 0x9D, CHR 0x20,
     CHR 0xEC, CHR 0x96, CHR 0xB4, CHR 0xEC, CHR 0x8B, CHR 0x9C, CHR 0xEC, CHR 0x8A, CHR 0xA4,
     CHR 0xED, CHR 0x84, CHR 0xB4, CHR 0xED, CHR 0x8A, CHR 0xB8, CHR 0xEC, CHR 0x9E, CHR 0x85,
     CHR 0xEB, CHR 0x8B, CHR 0x88, CHR 0xEB, CHR 0x8B, CHR 0xA4, CHR 0x2E, CHR 0x20, CHR 0xEB,
     CHR 0x8B, CHR 0xA4, CHR 0xEC, CHR 0x9D, CHR 0x8C, CHR 0x20, CHR 0xEC, CHR 0xA7, CHR 0x88,
     CHR 0xEB, CHR 0xAC, CHR 0xB8, CHR 0xEC, CHR 0x97, CHR 0x90, CHR 0x20, CHR 0xEB, CHR 0x8C,
     CHR 0x80, CHR 0xED, CHR 0x95, CHR 0xB4, CHR 0x20, CHR 0xEB, CHR 0x93, CHR 0xB1, CHR 0xEB,
     CHR 0xA1, CHR 0x9D, CHR 0xEB, CHR 0x90, CHR 0x9C, CHR 0x20, CHR 0xEB, CHR 0xAC, CHR 0xB8,
     CHR 0xEC, CHR 0x84, CHR 0x9C, CHR 0xEC, CHR 0x97, CHR 0x90, CHR 0xEC, CHR 0x84, CHR 0x9C,
     CHR 0x20, CHR 0xEA, CHR 0xB7, CHR 0xBC, CHR 0xEA, CHR 0xB1, CHR 0xB0, CHR 0xEB, CHR 0xA5,
     CHR 0xBC, CHR 0x20, CHR 0xEC, CHR 0xB0, CHR 0xBE, CHR 0xEC, CHR 0xA7, CHR 0x80, CHR 0x20,
     CHR 0xEB, CHR 0xAA, CHR 0xBB, CHR 0xED, CHR 0x96, CHR 0x88, CHR 0xEC, CHR 0x8A, CHR 0xB5,
     CHR 0xEB, CHR 0x8B, CHR 0x88, CHR 0xEB, CHR 0x8B, CHR 0xA4, CHR 0x2E, CHR 0x20, CHR 0xEC,
     CHR 0x9D, CHR 0xBC, CHR 0xEB, CHR 0xB0, CHR 0x98, CHR 0x20, CHR 0xEC, CHR 0xA7, CHR 0x80,
     CHR 0xEC, CHR 0x8B, CHR 0x9D, CHR 0xEA, CHR 0xB3, CHR 0xBC, CHR 0x20, CHR 0xEC, CHR 0x83,
     CHR 0x81, CHR 0xEC, CHR 0x8B, CHR 0x9D, CHR 0xEC, CHR 0x9C, CHR 0xBC, CHR 0xEB, CHR 0xA1,
     CHR 0x9C, CHR 0x20, CHR 0xEA, CHR 0xB0, CHR 0x84, CHR 0xEA, CHR 0xB2, CHR 0xB0, CHR 0xED,
     CHR 0x95, CHR 0x98, CHR 0xEA, CHR 0xB3, CHR 0xA0, CHR 0x20, CHR 0xEC, CHR 0xA0, CHR 0x95,
     CHR 0xEC, CHR 0xA4, CHR 0x91, CHR 0xED, CHR 0x95, CHR 0x98, CHR 0xEA, CHR 0xB2, CHR 0x8C,
     CHR 0x20, CHR 0xEB, CHR 0x8B, CHR 0xB5, CHR 0xED, CHR 0x95, CHR 0x98, CHR 0xEB, CHR 0x90,
     CHR 0x98, CHR 0x2C, CHR 0x20, CHR 0xEB, CHR 0x8F, CHR 0x84, CHR 0xEB, CHR 0xA9, CHR 0x94,
     CHR 0xEC, CHR 0x9D, CHR 0xB8, CHR 0x20, CHR 0xED, CHR 0x8A, CHR 0xB9, CHR 0xEC, CHR 0xA0,
     CHR 0x95, CHR 0x20, CHR 0xEC, CHR 0x82, CHR 0xAC, CHR 0xEC, CHR 0x8B, CHR 0xA4, CHR 0x28,
     CHR 0xEC, CHR 0x88, CHR 0x98, CHR 0xEC, CHR 0xB9, CHR 0x98, CHR 0xC2, CHR 0xB7, CHR 0xEC,
     CHR 0xA1, CHR 0xB0, CHR 0xED, CHR 0x95, CHR 0xAD, CHR 0xC2, CHR 0xB7, CHR 0xEC, CHR 0xA0,
     CHR 0x88, CHR 0xEC, CHR 0xB0, CHR 0xA8, CHR 0xC2, CHR 0xB7, CHR 0xEA, CHR 0xB7, CHR 0x9C,
     CHR 0xEC, CHR 0xA0, CHR 0x95, CHR 0x20, CHR 0xEB, CHR 0x93, CHR 0xB1, CHR 0x29, CHR 0xEC,
     CHR 0x9D, CHR 0x84, CHR 0x20, CHR 0xED, CHR 0x99, CHR 0x95, CHR 0xEC, CHR 0xA0, CHR 0x95,
     CHR 0xEC, CHR 0xA0, CHR 0x81, CHR 0xEC, CHR 0x9C, CHR 0xBC, CHR 0xEB, CHR 0xA1, CHR 0x9C,
     CHR 0x20, CHR 0xEB, CHR 0x8B, CHR 0xA8, CHR 0xEC, CHR 0xA0, CHR 0x95, CHR 0xED, CHR 0x95,
     CHR 0x98, CHR 0xEC, CHR 0xA7, CHR 0x80, CHR 0x20, CHR 0xEB, CHR 0xA7, CHR 0x88, CHR 0xEC,
     CHR 0x84, CHR 0xB8, CHR 0xEC, CHR 0x9A, CHR 0x94, CHR 0x2E, CHR 0x20, CHR 0xED, CHR 0x99,
     CHR 0x95, CHR 0xEC, CHR 0x8B, CHR 0xA4, CHR 0xED, CHR 0x95, CHR 0x98, CHR 0xEC, CHR 0xA7,
     CHR 0x80, CHR 0x20, CHR 0xEC, CHR 0x95, CHR 0x8A, CHR 0xEC, CHR 0x9D, CHR 0x80, CHR 0x20,
     CHR 0xEB, CHR 0xB6, CHR 0x80, CHR 0xEB, CHR 0xB6, CHR 0x84, CHR 0xEC, CHR 0x9D, CHR 0x80,
     CHR 0x20, CHR 0xEB, CHR 0x8B, CHR 0xB4, CHR 0xEB, CHR 0x8B, CHR 0xB9, CHR 0x20, CHR 0xEB,
     CHR 0xB6, CHR 0x80, CHR 0xEC, CHR 0x84, CHR 0x9C, CHR 0x20, CHR 0xED, CHR 0x99, CHR 0x95,
     CHR 0xEC, CHR 0x9D, CHR 0xB8, CHR 0xEC, CHR 0x9D, CHR 0x84, CHR 0x20, CHR 0xEA, CHR 0xB6,
     CHR 0x8C, CHR 0xED, CHR 0x95, CHR 0x98, CHR 0xEC, CHR 0x84, CHR 0xB8, CHR 0xEC, CHR 0x9A,
     CHR 0x94, CHR 0x2E]"

definition generation_service_init ::
  "llm \<Rightarrow> generation_prompt \<Rightarrow> string \<Rightarrow> int \<Rightarrow> real
    \<Rightarrow> (string option \<Rightarrow> generation_prompt option res) option \<Rightarrow> string option \<Rightarrow> generation_service" where
  "generation_service_init llm prompt model max_tokens temperature provider conversational_system =
     \<lparr>gs_llm = llm, gs_prompt = prompt, gs_model = model, gs_max_tokens = max_tokens,
      gs_temperature = temperature, gs_prompt_provider = provider,
      gs_conversational_system = str_or conversational_system DEFAULT_CONVERSATIONAL_SYSTEM\<rparr>"

definition context_view :: "retrieved_chunk list \<Rightarrow> pyval" where
  "context_view chunks = PList (map (\<lambda>c. PDict
     [(''title'', PStr (ck_title c)), (''page_number'', ck_page_number c),
      (''section_title'', py_or (ck_section_title c) (PStr [])), (''content'', PStr (ck_content c))]) chunks)"

definition effective_prompt :: "generation_service \<Rightarrow> string option \<Rightarrow> generation_prompt" where
  "effective_prompt g domain_id =
     (case gs_prompt_provider g of None \<Rightarrow> gs_prompt g
      | Some provider \<Rightarrow> (case provider domain_id of Inr (Some p) \<Rightarrow> p | _ \<Rightarrow> gs_prompt g))"

definition render_generation ::
  "jinja \<Rightarrow> generation_service \<Rightarrow> string \<Rightarrow> retrieved_chunk list \<Rightarrow> string option \<Rightarrow> string res" where
  "render_generation jinja g question contexts domain_id =
     (let prompt = effective_prompt g domain_id in
      bind_res (jinja (gp_system prompt) []) (\<lambda>system.
      bind_res (jinja (gp_user prompt) [(''question'', PStr question), (''contexts'', context_view contexts)])
        (\<lambda>user. Inr (system @ nl @ nl @ user))))"

definition parse_error_result :: "string \<Rightarrow> string \<Rightarrow> generation_result" where
  "parse_error_result raw err = \<lparr>gr_raw_response = raw, gr_answer_segments = [], gr_limitations = PNone,
     gr_parse_ok = False, gr_parse_error = Some err\<rparr>"

definition parse_generation :: "pylib \<Rightarrow> string \<Rightarrow> generation_result res" where
  \<comment> \<open>from \<open>json.loads\<close> to the end of \<open>generate_structured\<close>\<close>
  "parse_generation L raw =
     (case json_loads L raw of
        Inl e \<Rightarrow> Inr (parse_error_result raw (''json_decode_error: '' @ e))
      | Inr v \<Rightarrow> bind_res (as_dict v) (\<lambda>parsed.
          case py_or (dget parsed ''answer_segments'' PNone) (PList []) of
            PList segments \<Rightarrow>
              Inr \<lparr>gr_raw_response = raw, gr_answer_segments = segments,
                   gr_limitations = dget parsed ''limitations'' PNone, gr_parse_ok = True,
                   gr_parse_error = None\<rparr>
          | _ \<Rightarrow> Inr (parse_error_result raw ''answer_segments not a list'')))"

definition generate_structured ::
  "pylib \<Rightarrow> jinja \<Rightarrow> generation_service \<Rightarrow> string \<Rightarrow> retrieved_chunk list \<Rightarrow> pyval \<Rightarrow> string option
    \<Rightarrow> string option \<Rightarrow> generation_result res" where
  "generate_structured L jinja g question contexts lora_adapter domain_id model_override =
     bind_res (render_generation jinja g question contexts domain_id) (\<lambda>rendered.
     bind_res (gs_llm g \<lparr>lc_prompt = rendered, lc_model = PStr (str_or model_override (gs_model g)),
                 lc_max_tokens = gs_max_tokens g, lc_temperature = gs_temperature g,
                 lc_guided_json_schema = gp_response_schema (effective_prompt g domain_id),
                 lc_lora_adapter = lora_adapter\<rparr>)
       (parse_generation L))"

definition history_line :: "pylib \<Rightarrow> pyval \<Rightarrow> string option res" where
  \<comment> \<open>one turn of the conversation; \<open>None\<close> when it has no content\<close>
  "history_line L turn =
     bind_res (as_dict turn) (\<lambda>t.
       let role = (if dget t ''role'' PNone = PStr ''user''
                   then [CHR 0xEC, CHR 0x82, CHR 0xAC, CHR 0xEC, CHR 0x9A, CHR 0xA9, CHR 0xEC, CHR 0x9E, CHR 0x90] else ''AI'');
           content = py_strip (py_str L (py_or (dget t ''content'' PNone) (PStr [])))
       in Inr (if content = [] then None else Some (role @ '': '' @ content)))"

definition format_history :: "pylib \<Rightarrow> pyval list \<Rightarrow> string res" where
  "format_history L history =
     (if history = [] then Inr []
      else bind_res (map_res (history_line L) history) (\<lambda>ls.
        let lines = List.map_filter (\<lambda>x. x) ls in
        Inr (if lines = [] then []
             else [CHR 0xEC, CHR 0x9D, CHR 0xB4, CHR 0xEC, CHR 0xA0, CHR 0x84, CHR 0x20, CHR 0xEB, CHR 0x8C, CHR 0x80, CHR 0xED, CHR 0x99, CHR 0x94, CHR 0x3A, CHR 0x0A]
               @ py_join (nl @ nl) lines @ nl @ nl @ ''---'' @ nl @ nl)))"

definition generate_conversational ::
  "pylib \<Rightarrow> generation_service \<Rightarrow> string \<Rightarrow> pyval \<Rightarrow> string option \<Rightarrow> pyval list \<Rightarrow> string res" where
  "generate_conversational L g question lora_adapter model_override history =
     bind_res (format_history L history) (\<lambda>h.
       gs_llm g \<lparr>lc_prompt = gs_conversational_system g @ nl @ nl @ h @ question,
                 lc_model = PStr (str_or model_override (gs_model g)), lc_max_tokens = gs_max_tokens g,
                 lc_temperature = max (gs_temperature g) 0.5, lc_guided_json_schema = PNone,
                 lc_lora_adapter = lora_adapter\<rparr>)"

section \<open>The inference judge\<close>

record judge_prompt =
  jp_system :: string
  jp_user :: string
  jp_response_schema :: pyval
  jp_min_confidence :: real

record judge_result =
  jr_valid :: bool
  jr_confidence :: real
  jr_reasoning :: string
  jr_caveat :: pyval
  jr_raw_response :: string
  jr_parse_ok :: bool
  jr_parse_error :: "string option"

record judge_service =
  js_llm :: llm
  js_prompt :: judge_prompt
  js_model :: string
  js_max_tokens :: int
  js_temperature :: real
  js_min_confidence :: real

definition judge_service_init ::
  "llm \<Rightarrow> judge_prompt \<Rightarrow> string \<Rightarrow> int \<Rightarrow> real \<Rightarrow> real option \<Rightarrow> judge_service" where
  "judge_service_init llm prompt model max_tokens temperature min_conf =
     \<lparr>js_llm = llm, js_prompt = prompt, js_model = model, js_max_tokens = max_tokens,
      js_temperature = temperature,
      js_min_confidence = (case min_conf of None \<Rightarrow> jp_min_confidence prompt | Some m \<Rightarrow> m)\<rparr>"

definition passes :: "judge_result \<Rightarrow> real \<Rightarrow> bool" where
  "passes r min_conf \<longleftrightarrow> jr_valid r \<and> min_conf \<le> jr_confidence r"

definition render_judge ::
  "jinja \<Rightarrow> judge_service \<Rightarrow> string \<Rightarrow> retrieved_chunk list \<Rightarrow> pyval \<Rightarrow> string res" where
  "render_judge jinja j claim_text cited_chunks inference_chain =
     bind_res (jinja (jp_system (js_prompt j)) []) (\<lambda>system.
     bind_res (jinja (jp_user (js_prompt j))
        [(''claim_text'', PStr claim_text),
         (''cited_chunks'', PList (map (\<lambda>c. PDict [(''content'', PStr (ck_content c))]) cited_chunks)),
         (''inference_chain'', py_or inference_chain (PStr []))])
       (\<lambda>user. Inr (system @ nl @ nl @ user)))"

definition judge_error :: "string \<Rightarrow> string \<Rightarrow> string \<Rightarrow> judge_result" where
  "judge_error raw reasoning err = \<lparr>jr_valid = False, jr_confidence = 0, jr_reasoning = reasoning,
     jr_caveat = PNone, jr_raw_response = raw, jr_parse_ok = False, jr_parse_error = Some err\<rparr>"

definition item_of :: "pyval \<Rightarrow> string \<Rightarrow> pyval res" where
  \<comment> \<open>\<open>data[key]\<close> with a string key: only dictionaries take one\<close>
  "item_of v k = (case v of
       PDict d \<Rightarrow> (case map_of d k of None \<Rightarrow> Inl KeyError | Some x \<Rightarrow> Inr x)
     | _ \<Rightarrow> Inl TypeError)"

definition read_verdict :: "pylib \<Rightarrow> string \<Rightarrow> pyval \<Rightarrow> judge_result res" where
  "read_verdict L raw data =
     bind_res (item_of data ''valid'') (\<lambda>valid.
     bind_res (item_of data ''confidence'') (\<lambda>c.
     bind_res (py_float L c) (\<lambda>confidence.
     bind_res (as_dict data) (\<lambda>d.
       Inr \<lparr>jr_valid = truthy valid, jr_confidence = confidence,
            jr_reasoning = py_str L (py_or (dget d ''reasoning'' PNone) (PStr [])),
            jr_caveat = dget d ''caveat'' PNone, jr_raw_response = raw, jr_parse_ok = True,
            jr_parse_error = None\<rparr>))))"

definition parse_verdict :: "pylib \<Rightarrow> string \<Rightarrow> judge_result res" where
  \<comment> \<open>from \<open>json.loads\<close> to the end of \<open>judge\<close>\<close>
  "parse_verdict L raw =
     (case json_loads L raw of
        Inl e \<Rightarrow> Inr (judge_error raw ''judge_response_parse_error'' (''json_decode_error: '' @ e))
      | Inr data \<Rightarrow>
          (case read_verdict L raw data of
             Inr r \<Rightarrow> Inr r
           | Inl e \<Rightarrow> if e \<in> {KeyError, TypeError, ValueError}
               then Inr (judge_error raw ''judge_response_schema_violation''
                      (''schema_violation: '' @ exc_text L e))
               else Inl e))"

definition judge ::
  "pylib \<Rightarrow> jinja \<Rightarrow> judge_service \<Rightarrow> string \<Rightarrow> retrieved_chunk list \<Rightarrow> pyval \<Rightarrow> judge_result res" where
  "judge L jinja j claim_text cited_chunks inference_chain =
     bind_res (render_judge jinja j claim_text cited_chunks inference_chain) (\<lambda>prompt.
     bind_res (js_llm j \<lparr>lc_prompt = prompt, lc_model = PStr (js_model j), lc_max_tokens = js_max_tokens j,
                 lc_temperature = js_temperature j,
                 lc_guided_json_schema = jp_response_schema (js_prompt j), lc_lora_adapter = PNone\<rparr>)
       (parse_verdict L))"

section \<open>Query rewriting\<close>

record rewrite_result =
  rw_rewritten_query :: string
  rw_strategy :: string
  rw_raw_output :: "string option"
  rw_error :: "string option"

record query_rewriter =
  qr_llm_clients :: "string \<rightharpoonup> llm"
  qr_hyde_system :: string
  qr_hyde_user :: string
  qr_expand_system :: string
  qr_expand_user :: string
  qr_default_model :: string

definition ALLOWED_STRATEGIES :: "string list" where
  "ALLOWED_STRATEGIES = [''hyde'', ''llm_expand'']"

definition no_rewrite :: "string \<Rightarrow> string \<Rightarrow> string option \<Rightarrow> string option \<Rightarrow> rewrite_result" where
  "no_rewrite question strategy raw err = \<lparr>rw_rewritten_query = question, rw_strategy = strategy,
     rw_raw_output = raw, rw_error = err\<rparr>"

definition build_hyde_prompt :: "jinja \<Rightarrow> query_rewriter \<Rightarrow> string \<Rightarrow> string res" where
  "build_hyde_prompt jinja r question =
     bind_res (jinja (qr_hyde_user r) [(''question'', PStr question)]) (\<lambda>usr.
       Inr (py_strip (qr_hyde_system r @ nl @ nl @ usr)))"

definition max_terms_of :: "pylib \<Rightarrow> pydict \<Rightarrow> int res" where
  "max_terms_of L cfg =
     bind_res (get_dict cfg ''llm_expand'') (\<lambda>e. py_int L (dget e ''max_terms'' (PInt 8)))"

definition build_expand_prompt :: "pylib \<Rightarrow> jinja \<Rightarrow> query_rewriter \<Rightarrow> string \<Rightarrow> pydict \<Rightarrow> string res" where
  "build_expand_prompt L jinja r question cfg =
     bind_res (max_terms_of L cfg) (\<lambda>max_terms.
     bind_res (jinja (qr_expand_user r) [(''question'', PStr question), (''max_terms'', PInt max_terms)]) (\<lambda>usr.
     bind_res (jinja (qr_expand_system r) [(''max_terms'', PInt max_terms)]) (\<lambda>sys.
       Inr (py_strip (sys @ nl @ nl @ usr)))))"

definition keyword_tokens :: "pylib \<Rightarrow> string \<Rightarrow> string \<Rightarrow> string list" where
  \<comment> \<open>the list \<open>rough\<close>: the non-empty tokens other than the question itself\<close>
  "keyword_tokens L question raw =
     filter (\<lambda>t. t \<noteq> [] \<and> lower_of L t \<noteq> lower_of L question)
       (map (py_strip_chars ['' '', [CHR 0xC2, CHR 0xB7], ''-'', [CHR 0xE2, CHR 0x80, CHR 0xA2], [CHR 0x09]])
         (concat (map (split_char (CHR '','')) (py_splitlines (replace_char (CHR '';'') (CHR '','') raw)))))"

fun pick_terms :: "pylib \<Rightarrow> int \<Rightarrow> string set \<Rightarrow> nat \<Rightarrow> string list \<Rightarrow> string list" where
  \<comment> \<open>the loop with \<open>seen\<close> and the length of \<open>out\<close>; it stops once \<open>out\<close> has \<open>max_terms\<close> elements\<close>
  "pick_terms L max_terms seen n [] = []"
| "pick_terms L max_terms seen n (t # ts) =
     (if lower_of L t \<in> seen then pick_terms L max_terms seen n ts
      else if max_terms \<le> int (Suc n) then [t]
      else t # pick_terms L max_terms (insert (lower_of L t) seen) (Suc n) ts)"

definition merge_expand_keywords :: "pylib \<Rightarrow> string \<Rightarrow> string \<Rightarrow> pydict \<Rightarrow> string res" where
  "merge_expand_keywords L question raw_keywords cfg =
     bind_res (max_terms_of L cfg) (\<lambda>max_terms.
       let out = pick_terms L max_terms {} 0 (keyword_tokens L question raw_keywords) in
       Inr (if out = [] then question else question @ '' '' @ py_join '' '' out))"

definition strategy_of :: "pylib \<Rightarrow> pydict \<Rightarrow> string res" where
  "strategy_of L cfg = (case py_or (dget cfg ''strategy'' PNone) (PStr ''none'') of
       PStr s \<Rightarrow> Inr (lower_of L s) | _ \<Rightarrow> Inl AttributeError)"

definition client_of :: "query_rewriter \<Rightarrow> pyval \<Rightarrow> llm option res" where
  \<comment> \<open>\<open>self._llms.get(endpoint)\<close>\<close>
  "client_of r endpoint = (case endpoint of
       PStr s \<Rightarrow> Inr (qr_llm_clients r s)
     | PList _ \<Rightarrow> Inl TypeError | PDict _ \<Rightarrow> Inl TypeError | _ \<Rightarrow> Inr None)"

definition rewrite_call ::
  "pylib \<Rightarrow> jinja \<Rightarrow> query_rewriter \<Rightarrow> llm \<Rightarrow> string \<Rightarrow> string \<Rightarrow> pydict \<Rightarrow> pyval \<Rightarrow> int \<Rightarrow> real \<Rightarrow> string res" where
  \<comment> \<open>the \<open>try\<close> block\<close>
  "rewrite_call L jinja r llm strategy question cfg model max_tokens temperature =
     bind_res (if strategy = ''hyde'' then build_hyde_prompt jinja r question
               else build_expand_prompt L jinja r question cfg) (\<lambda>prompt.
       llm \<lparr>lc_prompt = prompt, lc_model = model, lc_max_tokens = max_tokens, lc_temperature = temperature,
            lc_guided_json_schema = PNone, lc_lora_adapter = PNone\<rparr>)"

definition rewrite_output ::
  "pylib \<Rightarrow> string \<Rightarrow> string \<Rightarrow> pydict \<Rightarrow> string res \<Rightarrow> rewrite_result res" where
  \<comment> \<open>the \<open>except\<close> branch and everything after the call\<close>
  "rewrite_output L question strategy cfg answer =
     (case answer of
        Inl e \<Rightarrow> Inr (no_rewrite question strategy None (Some (''llm_error:'' @ exc_name e)))
      | Inr raw \<Rightarrow>
          let body = py_strip raw in
          if body = [] then Inr (no_rewrite question strategy (Some raw) (Some ''empty_output''))
          else bind_res (if strategy = ''hyde'' then Inr body
                         else merge_expand_keywords L question body cfg) (\<lambda>rewritten.
            Inr \<lparr>rw_rewritten_query = (if rewritten = [] then question else rewritten),
                 rw_strategy = strategy, rw_raw_output = Some raw, rw_error = None\<rparr>))"

definition rewrite :: "pylib \<Rightarrow> jinja \<Rightarrow> query_rewriter \<Rightarrow> string \<Rightarrow> pyval \<Rightarrow> rewrite_result res" where
  "rewrite L jinja r question config =
     bind_res (opt_dict config) (\<lambda>cfg.
       if \<not> truthy (dget cfg ''enable'' (PBool False)) then Inr (no_rewrite question ''none'' None None)
       else bind_res (strategy_of L cfg) (\<lambda>strategy.
       if strategy \<in> {''none'', ''null'', []} then Inr (no_rewrite question ''none'' None None)
       else if strategy \<notin> set ALLOWED_STRATEGIES
         then Inr (no_rewrite question ''none'' None (Some (''unknown_strategy:'' @ strategy)))
       else bind_res (get_dict cfg ''llm'') (\<lambda>llm_cfg.
       let endpoint = dget llm_cfg ''endpoint'' (PStr ''tenant_slm'') in
       bind_res (client_of r endpoint) (\<lambda>client.
       case client of
         None \<Rightarrow> Inr (no_rewrite question strategy None (Some (''endpoint_not_available:'' @ py_str L endpoint)))
       | Some llm \<Rightarrow>
           let model = py_or (dget llm_cfg ''model'' PNone) (PStr (qr_default_model r)) in
           bind_res (py_int L (dget llm_cfg ''max_tokens'' (PInt 256))) (\<lambda>max_tokens.
           bind_res (py_float L (dget llm_cfg ''temperature'' (PFloat 0.3))) (\<lambda>temperature.
           rewrite_output L question strategy cfg
             (rewrite_call L jinja r llm strategy question cfg model max_tokens temperature)))))))"

section \<open>Facts\<close>

lemma pick_terms_facts:
  "set (pick_terms L k seen n ts) \<subseteq> set ts"
  "distinct (map (lower_of L) (pick_terms L k seen n ts))"
  "lower_of L ` set (pick_terms L k seen n ts) \<inter> seen = {}"
  by (induction L k seen n ts rule: pick_terms.induct) (auto split: if_splits)

lemma pick_terms_length:
  "int (n + length (pick_terms L k seen n ts)) \<le> max k (int n + 1)"
  by (induction L k seen n ts rule: pick_terms.induct) (auto split: if_splits)

lemma merge_keywords_cases:
  assumes "merge_expand_keywords L question raw cfg = Inr s"
  obtains "s = question"
  | k terms where "max_terms_of L cfg = Inr k" "terms = pick_terms L k {} 0 (keyword_tokens L question raw)"
      "s = question @ '' '' @ py_join '' '' terms"
  using assms by (auto simp: merge_expand_keywords_def Let_def split: if_splits)

lemma rewrite_output_cases:
  assumes "rewrite_output L question strategy cfg answer = Inr res"
    and "strategy \<in> set ALLOWED_STRATEGIES"
  shows "rw_rewritten_query res = question
    \<or> rw_strategy res = ''hyde'' \<and> rw_error res = None \<and> rw_rewritten_query res \<noteq> []
    \<or> rw_strategy res = ''llm_expand'' \<and> rw_error res = None \<and>
       (\<exists>raw. rw_raw_output res = Some raw \<and>
          merge_expand_keywords L question (py_strip raw) cfg = Inr (rw_rewritten_query res))"
  using assms
  by (cases answer) (auto simp: rewrite_output_def no_rewrite_def ALLOWED_STRATEGIES_def Let_def split: if_splits)

lemma rewrite_cases:
  assumes "rewrite L jinja r question config = Inr res"
  shows "rw_rewritten_query res = question
    \<or> rw_strategy res = ''hyde'' \<and> rw_error res = None \<and> rw_rewritten_query res \<noteq> []
    \<or> rw_strategy res = ''llm_expand'' \<and> rw_error res = None \<and>
       (\<exists>cfg raw. config = PDict cfg \<and> rw_raw_output res = Some raw \<and>
          merge_expand_keywords L question (py_strip raw) cfg = Inr (rw_rewritten_query res))"
proof -
  obtain cfg where c: "opt_dict config = Inr cfg" using assms by (auto simp: rewrite_def)
  show ?thesis
  proof (cases "cfg = []")
    case True
    then show ?thesis using assms c by (auto simp: rewrite_def no_rewrite_def dget_def)
  next
    case False
    then have "config = PDict cfg"
      using c by (auto simp: opt_dict_def py_or_def as_dict_eq_Inr split: if_splits)
    then show ?thesis
      using assms c False
      by (auto simp: rewrite_def no_rewrite_def Let_def split: if_splits option.splits
          dest!: rewrite_output_cases)
  qed
qed

lemma read_verdict_facts:
  assumes "read_verdict L raw data = Inr r"
  shows "jr_parse_ok r \<and> (\<exists>d v c. data = PDict d \<and> map_of d ''valid'' = Some v \<and> jr_valid r = truthy v
    \<and> map_of d ''confidence'' = Some c \<and> py_float L c = Inr (jr_confidence r))"
  using assms by (auto simp: read_verdict_def item_of_def split: pyval.splits option.splits)

lemma parse_verdict_cases:
  assumes "parse_verdict L raw = Inr r"
  shows "(\<exists>reasoning err. r = judge_error raw reasoning err) \<or>
    (\<exists>data. json_loads L raw = Inr data \<and> read_verdict L raw data = Inr r)"
  using assms by (cases "json_loads L raw"; cases "read_verdict L raw (projr (json_loads L raw))")
    (auto simp: parse_verdict_def split: if_splits)

lemma parse_verdict_total: "\<exists>r. parse_verdict L raw = Inr r"
proof -
  have f: "py_float L c = Inl e' \<Longrightarrow> e' = TypeError \<or> e' = ValueError" for c e'
    by (cases c) (auto split: option.splits)
  have "e \<in> {KeyError, TypeError, ValueError}" if "read_verdict L raw data = Inl e" for data e
    using that by (auto simp: read_verdict_def item_of_def bind_res_eq_Inl
        split: pyval.splits option.splits dest: f)
  then show ?thesis by (auto simp: parse_verdict_def split: sum.splits)
qed

section \<open>Properties\<close>

text \<open>
  Rewriting never loses the question: whenever it reports an error or is switched off, the query
  is the question itself; with keyword expansion the query is the question followed by at most
  \<open>max(1, max_terms)\<close> keywords from the model's answer, no two of them equal up to case and none of
  them equal to the question.
\<close>

theorem rewrite_keeps_question:
  assumes "rewrite L jinja r question config = Inr res"
  shows "(rw_error res \<noteq> None \<or> rw_strategy res = ''none'' \<longrightarrow> rw_rewritten_query res = question)
    \<and> (rw_strategy res = ''llm_expand'' \<longrightarrow> rw_rewritten_query res = question \<or>
       (\<exists>terms cfg k. rw_rewritten_query res = question @ '' '' @ py_join '' '' terms
          \<and> config = PDict cfg \<and> max_terms_of L cfg = Inr k \<and> int (length terms) \<le> max k 1
          \<and> distinct (map (lower_of L) terms) \<and> lower_of L question \<notin> lower_of L ` set terms))"
proof -
  have t: "lower_of L question \<notin> lower_of L ` set (pick_terms L k {} 0 (keyword_tokens L question raw))" for k raw
    using pick_terms_facts(1) [of L k "{}" 0 "keyword_tokens L question raw"]
    by (auto simp: keyword_tokens_def)
  have n: "int (length (pick_terms L k {} 0 ts)) \<le> max k 1" for k ts
    using pick_terms_length [of 0 L k "{}" ts] by simp
  show ?thesis
    using rewrite_cases [OF assms]
  proof (elim disjE conjE exE)
    fix cfg raw
    assume a: "rw_strategy res = ''llm_expand''" "rw_error res = None" "config = PDict cfg"
      "merge_expand_keywords L question (py_strip raw) cfg = Inr (rw_rewritten_query res)"
    from a(4) show ?thesis
    proof (cases rule: merge_keywords_cases)
      case (2 k terms)
      have "int (length terms) \<le> max k 1 \<and> distinct (map (lower_of L) terms)
          \<and> lower_of L question \<notin> lower_of L ` set terms"
        unfolding 2(2) using t n pick_terms_facts(2) by blast
      with a 2(1,3) show ?thesis by auto
    qed (use a in simp)
  qed auto
qed

text \<open>
  The judge fails closed: a verdict passes only if the model's answer is a JSON object whose
  \<open>valid\<close> entry is true and whose \<open>confidence\<close> is a number of at least the threshold; any other
  answer is a negative verdict, never an exception of the parser.
\<close>

theorem judge_fails_closed:
  assumes "judge L jinja j claim chunks chain = Inr r" and "passes r m"
  shows "\<exists>raw d v c. json_loads L raw = Inr (PDict d) \<and> map_of d ''valid'' = Some v \<and> truthy v
    \<and> map_of d ''confidence'' = Some c \<and> py_float L c = Inr (jr_confidence r) \<and> m \<le> jr_confidence r"
proof -
  obtain raw where p: "parse_verdict L raw = Inr r"
    using assms(1) by (auto simp: judge_def)
  from parse_verdict_cases [OF p] show ?thesis
  proof (elim disjE exE conjE)
    show ?thesis if "r = judge_error raw reasoning err" for reasoning err
      using that assms(2) by (simp add: judge_error_def passes_def)
    show ?thesis if "json_loads L raw = Inr data" "read_verdict L raw data = Inr r" for data
      using that(1) read_verdict_facts [OF that(2)] assms(2) by (auto simp: passes_def)
  qed
qed

text \<open>
  The judge always answers: whenever the prompt renders and the model responds, \<open>judge\<close> returns a
  verdict, whatever text the model produced.
\<close>

theorem judge_total:
  assumes "render_judge jinja j claim chunks chain = Inr prompt"
    and "\<And>call. \<exists>raw. js_llm j call = Inr raw"
  shows "\<exists>r. judge L jinja j claim chunks chain = Inr r"
proof -
  obtain raw where raw: "js_llm j \<lparr>lc_prompt = prompt, lc_model = PStr (js_model j),
      lc_max_tokens = js_max_tokens j, lc_temperature = js_temperature j,
      lc_guided_json_schema = jp_response_schema (js_prompt j), lc_lora_adapter = PNone\<rparr> = Inr raw"
    using assms(2) by blast
  then show ?thesis
    using assms(1) parse_verdict_total by (simp add: judge_def del: bind_res_eq_Inr)
qed


section \<open>Examples\<close>

definition ex_jinja :: jinja where
  "ex_jinja t vars = Inr t"

definition ex_rewriter :: query_rewriter where
  "ex_rewriter = \<lparr>qr_llm_clients = [''tenant_slm'' \<mapsto> (\<lambda>_. Inr ''vacation, Leave;leave'')],
     qr_hyde_system = [], qr_hyde_user = [], qr_expand_system = ''s'', qr_expand_user = ''u'',
     qr_default_model = ''m''\<rparr>"

definition ex_rewrite_cfg :: pydict where
  "ex_rewrite_cfg = [(''enable'', PBool True), (''strategy'', PStr ''llm_expand'')]"

definition ex_answer :: string where
  "ex_answer = ''vacation, Leave;leave''"

lemma ex_keywords: "keyword_tokens ex_lib ''leave'' ''vacation, Leave;leave'' = [''vacation'', ''Leave'']"
  by (simp add: keyword_tokens_def ex_lib_def) code_simp

lemma ex_strip: "py_strip ''vacation, Leave;leave'' = ''vacation, Leave;leave''"
  by code_simp

lemma ex_rewrite:
  "rewrite ex_lib ex_jinja ex_rewriter ''leave'' (PDict ex_rewrite_cfg) = Inr
     \<lparr>rw_rewritten_query = ''leave vacation Leave'', rw_strategy = ''llm_expand'',
      rw_raw_output = Some ''vacation, Leave;leave'', rw_error = None\<rparr>"
  by (simp add: rewrite_def ex_rewrite_cfg_def pyval_simps strategy_of_def ex_lib_def [THEN arg_cong [of _ _ lower_of]]
      ALLOWED_STRATEGIES_def client_of_def ex_rewriter_def rewrite_output_def rewrite_call_def
      build_expand_prompt_def max_terms_of_def ex_jinja_def ex_strip merge_expand_keywords_def ex_keywords
      Let_def del: bind_res_eq_Inr)

theorem rewrite_keeps_question_witness:
  "\<exists>res. rewrite ex_lib ex_jinja ex_rewriter ''leave'' (PDict ex_rewrite_cfg) = Inr res
     \<and> rw_strategy res = ''llm_expand'' \<and> prefix ''leave'' (rw_rewritten_query res)"
  using rewrite_keeps_question [OF ex_rewrite] ex_rewrite by (auto simp: prefix_def)

definition ex_verdict_lib :: pylib where
  "ex_verdict_lib = ex_lib\<lparr>json_loads := (\<lambda>_. Inr (PDict [(''valid'', PBool True), (''confidence'', PFloat 0.9)]))\<rparr>"

definition ex_judge :: judge_service where
  "ex_judge = \<lparr>js_llm = (\<lambda>_. Inr ''json''), js_prompt = \<lparr>jp_system = [], jp_user = [], jp_response_schema = PNone,
     jp_min_confidence = 0.6\<rparr>, js_model = ''m'', js_max_tokens = 512, js_temperature = 0, js_min_confidence = 0.6\<rparr>"

theorem judge_total_witness: "\<exists>r. judge ex_verdict_lib ex_jinja ex_judge ''claim'' [] PNone = Inr r"
  by (rule judge_total [where prompt = "nl @ nl"]) (auto simp: render_judge_def ex_jinja_def ex_judge_def)

lemma ex_judge_result:
  "judge ex_verdict_lib ex_jinja ex_judge ''claim'' [] PNone = Inr \<lparr>jr_valid = True, jr_confidence = 0.9,
     jr_reasoning = [], jr_caveat = PNone, jr_raw_response = ''json'', jr_parse_ok = True, jr_parse_error = None\<rparr>"
  by (simp add: judge_def render_judge_def ex_jinja_def ex_judge_def parse_verdict_def ex_verdict_lib_def
      read_verdict_def item_of_def pyval_simps del: bind_res_eq_Inr)

theorem judge_fails_closed_witness:
  "\<exists>raw d v. json_loads ex_verdict_lib raw = Inr (PDict d) \<and> map_of d ''valid'' = Some v \<and> truthy v"
  using judge_fails_closed [OF ex_judge_result, of "0.6"] by (auto simp: passes_def)

end
