(* ===== verification/Item_Services.thy ===== *)
theory Item_Services
  imports Item_Bank Llm_Services "HOL-Library.Multiset"
begin

text \<open>
  The services that work on the bank of assessment items: the similarity check
  (\<open>assessment_similarity.py\<close>), the four LLM validators (\<open>assessment_validator.py\<close>), extraction
  (\<open>assessment_extract.py\<close>), generation (\<open>assessment_generate.py\<close>), figure reuse
  (\<open>assessment_figure_reuse.py\<close>), the hybrid mode (\<open>assessment_hybrid.py\<close>) and the duplicate key
  (\<open>assessment_dedup.py\<close>).

  A model may answer the same prompt differently each time, so the LLM is a function of the number of
  the call as well as of its arguments; the counter is threaded through the loops.
\<close>

type_synonym llm_oracle = "nat \<Rightarrow> llm_call \<Rightarrow> string res"

definition plain_call :: "string \<Rightarrow> string \<Rightarrow> int \<Rightarrow> real \<Rightarrow> llm_call" where
  "plain_call prompt model max_tokens temperature =
     \<lparr>lc_prompt = prompt, lc_model = PStr model, lc_max_tokens = max_tokens, lc_temperature = temperature,
      lc_guided_json_schema = PNone, lc_lora_adapter = PNone\<rparr>"

definition round4 :: "real \<Rightarrow> real" where
  \<comment> \<open>\<open>round(x, 4)\<close>: to the nearest multiple, ties to the even one\<close>
  "round4 x = (let y = x * 10000; f = \<lfloor>y\<rfloor>; d = y - of_int f
     in (if d < 1 / 2 then of_int f else if 1 / 2 < d then of_int (f + 1)
         else of_int (if even f then f else f + 1)) / 10000)"

definition utf8_drop :: "nat \<Rightarrow> string \<Rightarrow> string" where
  \<comment> \<open>\<open>s[n:]\<close> on code points\<close>
  "utf8_drop n s = concat (drop n (utf8_chars s))"

section \<open>Similarity\<close>

record similarity_thresholds =
  th_duplicate :: real
  th_similar :: real

definition default_similarity :: similarity_thresholds where
  "default_similarity = \<lparr>th_duplicate = 0.85, th_similar = 0.65\<rparr>"

record similarity_result =
  sm_max_similarity :: real
  sm_is_duplicate :: bool
  sm_similar_candidates :: "(string \<times> real) list"

definition strict_cosine :: "real list \<Rightarrow> real list \<Rightarrow> real" where
  "strict_cosine a b =
     (if a = [] \<or> b = [] \<or> length a \<noteq> length b then 0
      else let na = sqrt (dot_product a a); nb = sqrt (dot_product b b)
           in if na = 0 \<or> nb = 0 then 0 else dot_product a b / (na * nb))"

definition note_similarity ::
  "similarity_thresholds \<Rightarrow> string \<Rightarrow> real \<Rightarrow> similarity_result \<Rightarrow> similarity_result" where
  "note_similarity thr item_id sim s =
     s\<lparr>sm_max_similarity := (if sim > sm_max_similarity s then sim else sm_max_similarity s),
       sm_similar_candidates := (if sim \<ge> th_similar thr then sm_similar_candidates s @ [(item_id, round4 sim)]
                                 else sm_similar_candidates s)\<rparr>"

fun similarity_loop ::
  "similarity_thresholds \<Rightarrow> real list \<Rightarrow> (real list \<times> (int \<times> real) list) list \<Rightarrow> item list
   \<Rightarrow> similarity_result \<Rightarrow> similarity_result res" where
  "similarity_loop thr v es [] s = Inr s"
| "similarity_loop thr v [] (c # cs) s = Inl IndexError"
| "similarity_loop thr v (e # es) (c # cs) s =
     similarity_loop thr v es cs (note_similarity thr (it_item_id c) (strict_cosine v (fst e)) s)"

definition similarity_check ::
  "embedder \<Rightarrow> similarity_thresholds \<Rightarrow> string \<Rightarrow> item list \<Rightarrow> similarity_result res" where
  "similarity_check embed_batch thr new_question_text cands =
     (let r0 = \<lparr>sm_max_similarity = 0, sm_is_duplicate = False, sm_similar_candidates = []\<rparr> in
      if cands = [] then Inr r0
      else bind_res (embed_batch (new_question_text # map it_question_text cands)) (\<lambda>es.
        case es of [] \<Rightarrow> Inl IndexError
        | e # rest \<Rightarrow> bind_res (similarity_loop thr (fst e) rest cands r0) (\<lambda>r.
            Inr (r\<lparr>sm_is_duplicate := sm_max_similarity r \<ge> th_duplicate thr\<rparr>))))"

section \<open>Validation\<close>

definition VALIDATOR_NAMES :: "string list" where
  "VALIDATOR_NAMES = [''answer'', ''explanation'', ''choices'', ''difficulty'']"

definition json_hint :: string where
  "json_hint = nl @ ''JSON '' @ [CHR 0xEC, CHR 0x9D, CHR 0x91, CHR 0xEB, CHR 0x8B, CHR 0xB5] @ '': {'' @ [CHR 0x22] @ ''valid'' @ [CHR 0x22] @ '': bool, '' @ [CHR 0x22] @ ''score'' @ [CHR 0x22]
     @ '': 0~1, '' @ [CHR 0x22] @ ''reasoning'' @ [CHR 0x22] @ '': str, '' @ [CHR 0x22] @ ''suggestions'' @ [CHR 0x22]
     @ '': [str]}''"

definition validator_prompt :: "string \<Rightarrow> string \<Rightarrow> string \<Rightarrow> string \<Rightarrow> string \<Rightarrow> string \<Rightarrow> string" where
  \<comment> \<open>\<open>_VALIDATOR_PROMPTS[name].format(...)\<close>\<close>
  "validator_prompt name question choices answer explanation difficulty =
     (let q = nl @ ''Q: '' @ question; c = nl @ [CHR 0xEC, CHR 0x84, CHR 0xA0, CHR 0xED, CHR 0x83, CHR 0x9D, CHR 0xEC, CHR 0xA7, CHR 0x80] @ '': '' @ choices; a = nl @ [CHR 0xEC, CHR 0xA0, CHR 0x95, CHR 0xEB, CHR 0x8B, CHR 0xB5] @ '': '' @ answer;
          e = nl @ [CHR 0xED, CHR 0x95, CHR 0xB4, CHR 0xEC, CHR 0x84, CHR 0xA4] @ '': '' @ explanation
      in if name = ''answer'' then [CHR 0xEB, CHR 0x8B, CHR 0xA4, CHR 0xEC, CHR 0x9D, CHR 0x8C] @ '' '' @ [CHR 0xEC, CHR 0x8B, CHR 0x9C, CHR 0xED, CHR 0x97, CHR 0x98] @ '' '' @ [CHR 0xEB, CHR 0xAC, CHR 0xB8, CHR 0xEC, CHR 0xA0, CHR 0x9C, CHR 0xEC, CHR 0x9D, CHR 0x98] @ '' '' @ [CHR 0xEC, CHR 0xA0, CHR 0x95, CHR 0xEB, CHR 0x8B, CHR 0xB5, CHR 0xEC, CHR 0x9D, CHR 0xB4] @ '' '' @ [CHR 0xEB, CHR 0x85, CHR 0xBC, CHR 0xEB, CHR 0xA6, CHR 0xAC, CHR 0xEC, CHR 0xA0, CHR 0x81, CHR 0xC2, CHR 0xB7, CHR 0xEC, CHR 0x82, CHR 0xAC, CHR 0xEC, CHR 0x8B, CHR 0xA4, CHR 0xEC, CHR 0xA0, CHR 0x81, CHR 0xEC, CHR 0x9C, CHR 0xBC, CHR 0xEB, CHR 0xA1, CHR 0x9C] @ '' '' @ [CHR 0xEC, CHR 0x98, CHR 0xB3, CHR 0xEC, CHR 0x9D, CHR 0x80, CHR 0xEC, CHR 0xA7, CHR 0x80] @ '' '' @ [CHR 0xED, CHR 0x8F, CHR 0x89, CHR 0xEA, CHR 0xB0, CHR 0x80, CHR 0xED, CHR 0x95, CHR 0x98, CHR 0xEC, CHR 0x84, CHR 0xB8, CHR 0xEC, CHR 0x9A, CHR 0x94] @ ''.'' @ q @ c @ a @ e @ json_hint
         else if name = ''explanation'' then [CHR 0xEB, CHR 0x8B, CHR 0xA4, CHR 0xEC, CHR 0x9D, CHR 0x8C] @ '' '' @ [CHR 0xED, CHR 0x95, CHR 0xB4, CHR 0xEC, CHR 0x84, CHR 0xA4, CHR 0xEC, CHR 0x9D, CHR 0xB4] @ '' '' @ [CHR 0xEC, CHR 0xA0, CHR 0x95, CHR 0xEB, CHR 0x8B, CHR 0xB5, CHR 0xEC, CHR 0x9D, CHR 0x84] @ '' '' @ [CHR 0xEC, CHR 0xA0, CHR 0x95, CHR 0xED, CHR 0x95, CHR 0xA9, CHR 0xED, CHR 0x95, CHR 0x98, CHR 0xEA, CHR 0xB2, CHR 0x8C] @ '' '' @ [CHR 0xEC, CHR 0x84, CHR 0xA4, CHR 0xEB, CHR 0xAA, CHR 0x85, CHR 0xED, CHR 0x95, CHR 0x98, CHR 0xEB, CHR 0x8A, CHR 0x94, CHR 0xEC, CHR 0xA7, CHR 0x80] @ '' '' @ [CHR 0xED, CHR 0x8F, CHR 0x89, CHR 0xEA, CHR 0xB0, CHR 0x80, CHR 0xED, CHR 0x95, CHR 0x98, CHR 0xEC, CHR 0x84, CHR 0xB8, CHR 0xEC, CHR 0x9A, CHR 0x94] @ ''.'' @ q @ a @ e @ json_hint
         else if name = ''choices'' then [CHR 0xEB, CHR 0x8B, CHR 0xA4, CHR 0xEC, CHR 0x9D, CHR 0x8C] @ '' '' @ [CHR 0xEA, CHR 0xB0, CHR 0x9D, CHR 0xEA, CHR 0xB4, CHR 0x80, CHR 0xEC, CHR 0x8B, CHR 0x9D] @ '' '' @ [CHR 0xEB, CHR 0xAC, CHR 0xB8, CHR 0xEC, CHR 0xA0, CHR 0x9C, CHR 0xEC, CHR 0x9D, CHR 0x98] @ '' '' @ [CHR 0xEC, CHR 0x98, CHR 0xA4, CHR 0xEB, CHR 0x8B, CHR 0xB5] @ '' '' @ [CHR 0xEB, CHR 0xB3, CHR 0xB4, CHR 0xEA, CHR 0xB8, CHR 0xB0, CHR 0xEB, CHR 0x93, CHR 0xA4, CHR 0xEC, CHR 0x9D, CHR 0xB4] @ '' plausible'' @ [CHR 0xED, CHR 0x95, CHR 0x9C, CHR 0xEC, CHR 0xA7, CHR 0x80] @ ''('' @ [CHR 0xED, CHR 0x98, CHR 0xBC, CHR 0xEB, CHR 0x8F, CHR 0x99] @ '' '' @ [CHR 0xEA, CHR 0xB0, CHR 0x80, CHR 0xEB, CHR 0x8A, CHR 0xA5, CHR 0xED, CHR 0x95, CHR 0x9C, CHR 0xEC, CHR 0xA7, CHR 0x80] @ '') '' @ [CHR 0xED, CHR 0x8F, CHR 0x89, CHR 0xEA, CHR 0xB0, CHR 0x80, CHR 0xED, CHR 0x95, CHR 0x98, CHR 0xEC, CHR 0x84, CHR 0xB8, CHR 0xEC, CHR 0x9A, CHR 0x94] @ ''.'' @ q @ c @ a @ json_hint
         else [CHR 0xEB, CHR 0x8B, CHR 0xA4, CHR 0xEC, CHR 0x9D, CHR 0x8C] @ '' '' @ [CHR 0xEB, CHR 0xAC, CHR 0xB8, CHR 0xEC, CHR 0xA0, CHR 0x9C, CHR 0xEC, CHR 0x9D, CHR 0x98] @ '' '' @ [CHR 0xEB, CHR 0x82, CHR 0x9C, CHR 0xEC, CHR 0x9D, CHR 0xB4, CHR 0xEB, CHR 0x8F, CHR 0x84] @ '' '' @ [CHR 0xEB, CHR 0x9D, CHR 0xBC, CHR 0xEB, CHR 0xB2, CHR 0xA8, CHR 0xEC, CHR 0x9D, CHR 0xB4] @ '' '' @ [CHR 0xEC, CHR 0x8B, CHR 0xA4, CHR 0xEC, CHR 0xA0, CHR 0x9C] @ '' '' @ [CHR 0xEB, CHR 0x82, CHR 0x9C, CHR 0xEC, CHR 0x9D, CHR 0xB4, CHR 0xEB, CHR 0x8F, CHR 0x84, CHR 0xEC, CHR 0x99, CHR 0x80] @ '' '' @ [CHR 0xEC, CHR 0x9D, CHR 0xBC, CHR 0xEC, CHR 0xB9, CHR 0x98, CHR 0xED, CHR 0x95, CHR 0x98, CHR 0xEB, CHR 0x8A, CHR 0x94, CHR 0xEC, CHR 0xA7, CHR 0x80] @ '' '' @ [CHR 0xED, CHR 0x8F, CHR 0x89, CHR 0xEA, CHR 0xB0, CHR 0x80, CHR 0xED, CHR 0x95, CHR 0x98, CHR 0xEC, CHR 0x84, CHR 0xB8, CHR 0xEC, CHR 0x9A, CHR 0x94] @ ''.'' @ q @ c @ nl @ [CHR 0xEB, CHR 0x9D, CHR 0xBC, CHR 0xEB, CHR 0xB2, CHR 0xA8] @ '': '' @ difficulty @ json_hint)"

record validator_run =
  vr_name :: string
  vr_enabled :: bool
  vr_valid :: bool
  vr_score :: real
  vr_reasoning :: string
  vr_suggestions :: "pyval list"
  vr_raw_response :: "string option"
  vr_parse_error :: "string option"

definition default_run :: "string \<Rightarrow> validator_run" where
  "default_run name = \<lparr>vr_name = name, vr_enabled = True, vr_valid = True, vr_score = 1, vr_reasoning = [],
     vr_suggestions = [], vr_raw_response = None, vr_parse_error = None\<rparr>"

record validation_outcome =
  vo_quality_status :: string
  vo_quality_score :: real
  vo_validator_results :: pydict

definition unfence :: "pylib \<Rightarrow> string \<Rightarrow> string" where
  \<comment> \<open>removes the code fence that an LLM may put around its JSON\<close>
  "unfence L raw =
     (let s = py_strip raw
      in if prefix ''```'' s
         then let s1 = py_strip_chars [''`''] s;
                  s2 = (if prefix ''json'' (lower_of L s1) then utf8_drop 4 s1 else s1)
              in py_strip s2
         else s)"

text \<open>
  The decoder that reads one JSON value from the front of a text and ignores the rest
  (\<open>json.JSONDecoder().raw_decode\<close>) is a parameter, like \<open>json.loads\<close>.
\<close>

type_synonym raw_decoder = "string \<Rightarrow> string + pyval"

definition parse_json :: "pylib \<Rightarrow> raw_decoder \<Rightarrow> string \<Rightarrow> pyval \<times> string option" where
  "parse_json L dec raw =
     (if raw = [] then (PDict [], Some ''empty_response'')
      else let s = unfence L raw in
        case json_loads L s of
          Inr v \<Rightarrow> (v, None)
        | Inl _ \<Rightarrow>
            (let rest = dropWhile (\<lambda>c. c \<noteq> CHR ''{'') s;
                 none = (PDict [], Some ''json_parse_error: no JSON object found'')
             in if rest = [] then none
                else case dec rest of
                       Inl msg \<Rightarrow> (PDict [], Some (''json_parse_error: '' @ msg))
                     | Inr (PDict d) \<Rightarrow> (PDict d, None)
                     | Inr _ \<Rightarrow> none))"

fun validator_attempts ::
  "pylib \<Rightarrow> raw_decoder \<Rightarrow> llm_oracle \<Rightarrow> llm_call \<Rightarrow> nat \<Rightarrow> string \<times> pyval \<times> string option \<Rightarrow> nat
   \<Rightarrow> (string \<times> pyval \<times> string option) \<times> nat" where
  "validator_attempts L dec llm call 0 st n = (st, n)"
| "validator_attempts L dec llm call (Suc k) (raw, parsed, err) n =
     (case llm n call of
        Inl e \<Rightarrow> validator_attempts L dec llm call k (raw, parsed, Some (''llm_failed: '' @ exc_text L e)) (Suc n)
      | Inr raw' \<Rightarrow>
          (let (parsed', err') = parse_json L dec raw'
           in if err' = None then ((raw', parsed', None), Suc n)
              else validator_attempts L dec llm call k (raw', parsed', err') (Suc n)))"

definition read_run :: "pylib \<Rightarrow> string \<Rightarrow> string \<Rightarrow> pyval \<Rightarrow> validator_run res" where
  "read_run L name raw parsed =
     bind_res (as_dict parsed) (\<lambda>d.
     bind_res (py_float L (py_or (dget d ''score'' (PFloat 0)) (PFloat 0))) (\<lambda>score.
     bind_res (py_iter (py_or (dget d ''suggestions'' PNone) (PList []))) (\<lambda>suggestions.
       Inr ((default_run name)\<lparr>vr_valid := truthy (dget d ''valid'' (PBool False)), vr_score := score,
              vr_reasoning := py_str L (dget d ''reasoning'' (PStr [])), vr_suggestions := suggestions,
              vr_raw_response := Some raw\<rparr>))))"

definition run_validator ::
  "pylib \<Rightarrow> raw_decoder \<Rightarrow> llm_oracle \<Rightarrow> string \<Rightarrow> pydict \<Rightarrow> (string \<Rightarrow> string) \<Rightarrow> string \<Rightarrow> nat
   \<Rightarrow> (validator_run \<times> nat) res" where
  \<comment> \<open>one turn of the loop over the validators\<close>
  "run_validator L dec llm model cfg prompt name n =
     bind_res (as_dict (dget cfg name (PDict []))) (\<lambda>vcfg.
       if \<not> truthy (dget vcfg ''enable'' (PBool True))
       then Inr ((default_run name)\<lparr>vr_enabled := False\<rparr>, n)
       else
         (case validator_attempts L dec llm (plain_call (prompt name) model 512 0) 2
                 ([], PDict [], Some ''empty_response'') n of
            ((raw, parsed, Some err), n') \<Rightarrow>
              Inr ((default_run name)\<lparr>vr_valid := False, vr_score := 0,
                     vr_raw_response := (if raw = [] then None else Some raw), vr_parse_error := Some err\<rparr>, n')
          | ((raw, parsed, None), n') \<Rightarrow>
              bind_res (read_run L name raw parsed) (\<lambda>r. Inr (r, n'))))"

fun run_validators ::
  "(string \<Rightarrow> nat \<Rightarrow> (validator_run \<times> nat) res) \<Rightarrow> string list \<Rightarrow> nat \<Rightarrow> (validator_run list \<times> nat) res" where
  "run_validators f [] n = Inr ([], n)"
| "run_validators f (name # names) n =
     bind_res (f name n) (\<lambda>(r, n1).
     bind_res (run_validators f names n1) (\<lambda>(rs, n2). Inr (r # rs, n2)))"

definition scored :: "validator_run \<Rightarrow> bool" where
  "scored r = (vr_enabled r \<and> vr_parse_error r = None)"

definition run_to_dict :: "validator_run \<Rightarrow> pyval" where
  "run_to_dict r = PDict [(''enabled'', PBool (vr_enabled r)), (''valid'', PBool (vr_valid r)),
     (''score'', PFloat (vr_score r)), (''reasoning'', PStr (vr_reasoning r)),
     (''suggestions'', PList (vr_suggestions r)),
     (''parse_error'', (case vr_parse_error r of None \<Rightarrow> PNone | Some e \<Rightarrow> PStr e))]"

definition aggregate :: "validator_run list \<Rightarrow> validation_outcome" where
  "aggregate rs =
     (let scores = map vr_score (filter scored rs);
          any_invalid = list_ex (\<lambda>r. vr_enabled r \<and> \<not> vr_valid r) rs;
          any_low = list_ex (\<lambda>x. x < 0.5) scores;
          avg = (if scores = [] then 1 else sum_list scores / of_nat (length scores))
      in \<lparr>vo_quality_status = (if any_invalid \<or> any_low then ''draft'' else ''reviewed''),
          vo_quality_score = round4 avg,
          vo_validator_results = map (\<lambda>r. (vr_name r, run_to_dict r)) rs\<rparr>)"

definition validate ::
  "pylib \<Rightarrow> raw_decoder \<Rightarrow> llm_oracle \<Rightarrow> string \<Rightarrow> string \<Rightarrow> pyval list \<Rightarrow> string \<Rightarrow> string option \<Rightarrow> string option
   \<Rightarrow> pydict \<Rightarrow> nat \<Rightarrow> (validation_outcome \<times> nat) res" where
  "validate L dec llm model question_text choices answer explanation difficulty cfg n =
     (let prompt = (\<lambda>name. validator_prompt name question_text (py_join '', '' (map (py_str L) choices)) answer
                             (str_or explanation []) (str_or difficulty []))
      in bind_res (run_validators (run_validator L dec llm model cfg prompt) VALIDATOR_NAMES n)
           (\<lambda>(rs, n'). Inr (aggregate rs, n')))"

section \<open>Extraction\<close>

text \<open>
  Random choice is a parameter: the \<open>n\<close>-th call of \<open>rng.sample\<close> on a pool. What the library documents,
  a sample of that size without repetition of positions, is the hypothesis \<open>samples_ok\<close>.
\<close>

type_synonym sampler = "nat \<Rightarrow> item list \<Rightarrow> nat \<Rightarrow> item list"

definition samples_ok :: "sampler \<Rightarrow> bool" where
  "samples_ok sample \<longleftrightarrow> (\<forall>n pool k. k \<le> length pool \<longrightarrow>
     length (sample n pool k) = k \<and> mset (sample n pool k) \<subseteq># mset pool)"

definition item_to_citation :: "item \<Rightarrow> string \<Rightarrow> string \<Rightarrow> pyval" where
  "item_to_citation r marker domain_id =
     (let opt = (\<lambda>v. case v of None \<Rightarrow> PNone | Some s \<Rightarrow> PStr s) in
      PDict [(''citation_id'', PStr (''cite-item-'' @ it_item_id r)), (''marker'', PStr marker),
        (''domain_id'', PStr domain_id), (''support_type'', PStr ''direct''), (''item_id'', PStr (it_item_id r)),
        (''subject'', opt (it_subject r)), (''chapter'', opt (it_chapter r)), (''difficulty'', opt (it_difficulty r)),
        (''question_text_excerpt'', PStr (utf8_take 120 (it_question_text r))),
        (''verified'', PBool (it_quality_status r = ''approved''))])"

definition numbered_citations :: "string \<Rightarrow> item list \<Rightarrow> pyval list" where
  "numbered_citations domain_id items =
     map (\<lambda>(i, r). item_to_citation r (''['' @ int_str (int i) @ '']'') domain_id) (zip [1..<Suc (length items)] items)"

record extract_result =
  er_items :: "item list"
  er_extracted_count :: nat
  er_citations :: "pyval list"
  er_insufficient_pool :: "(string \<times> int) list"

definition pool_of :: "item list \<Rightarrow> string \<Rightarrow> item list" where
  \<comment> \<open>\<open>by_difficulty.get(diff, [])\<close>, where an item without difficulty is filed under \<open>unknown\<close>\<close>
  "pool_of cands diff = filter (\<lambda>r. str_or (it_difficulty r) ''unknown'' = diff) cands"

fun pick_by_difficulty ::
  "sampler \<Rightarrow> item list \<Rightarrow> (string \<times> int) list \<Rightarrow> nat \<Rightarrow> item list \<times> (string \<times> int) list \<times> nat" where
  "pick_by_difficulty sample cands [] n = ([], [], n)"
| "pick_by_difficulty sample cands ((diff, requested) # rest) n =
     (let pool = pool_of cands diff;
          pick = min (int (length pool)) requested;
          drawn = pool \<noteq> [] \<and> pick > 0;
          (more, short, n') = pick_by_difficulty sample cands rest (if drawn then Suc n else n)
      in ((if drawn then sample n pool (nat pick) else []) @ more,
          (if int (length pool) < requested then (diff, requested - int (length pool)) # short else short), n'))"

definition extract_items :: "real \<Rightarrow> sampler \<Rightarrow> nat \<Rightarrow> string \<Rightarrow> extract_criteria \<Rightarrow> bank \<Rightarrow> (extract_result \<times> bank) res" where
  \<comment> \<open>the returned items are the stored objects, so they show the use that is recorded on them\<close>
  "extract_items now sample n domain_id c b =
     bind_res (list_candidates_for_extract now b domain_id c 1000) (\<lambda>cands.
       let (picked, short, _) = (if ec_difficulty_distribution c \<noteq> []
              then pick_by_difficulty sample cands (ec_difficulty_distribution c) n else (cands, [], n));
           b' = (if picked = [] then b else snd (touch_used now domain_id (map it_item_id picked) b));
           items = map (\<lambda>r. case bank_get b' domain_id (it_item_id r) of None \<Rightarrow> r | Some r' \<Rightarrow> r') picked
       in Inr (\<lparr>er_items = items, er_extracted_count = length items,
                er_citations = numbered_citations domain_id items, er_insufficient_pool = short\<rparr>, b'))"

section \<open>Generation\<close>

record generate_criteria =
  gc_subject :: string
  gc_chapter :: "string option"
  gc_difficulty :: string
  gc_count :: int
  gc_question_type :: string

record generate_result =
  ge_items :: "item list"
  ge_generated_count :: nat
  ge_citations :: "pyval list"
  ge_validator_summary :: pydict
  ge_similarity_results :: "pyval list"
  ge_rejected_duplicates :: nat
  ge_retries_used :: nat

text \<open>
  The collaborators of the service. The index search (present when an item index is injected) and the
  Unicode decimal-digit test of \<open>\\d\<close> are parameters; \<open>gv_uuid\<close> gives the hexadecimal part of the
  \<open>n\<close>-th fresh identifier and \<open>gv_clock\<close> the time of the \<open>n\<close>-th write.
\<close>

record generate_service =
  gv_lib :: pylib
  gv_decode :: raw_decoder
  gv_llm :: llm_oracle
  gv_validator_llm :: llm_oracle
  gv_validator_model :: string
  gv_embed_batch :: embedder
  gv_thresholds :: similarity_thresholds
  gv_model :: string
  gv_max_retries :: nat
  gv_item_index :: "(string \<Rightarrow> string \<Rightarrow> string \<Rightarrow> (string \<times> real) list res) option"
  gv_is_digit :: "string \<Rightarrow> bool"
  gv_uuid :: "nat \<Rightarrow> string"
  gv_clock :: "nat \<Rightarrow> real"

definition has_cjk_ideograph :: "string \<Rightarrow> bool" where
  \<comment> \<open>a code point between U+4E00 and U+9FFF; UTF-8 keeps the order of code points\<close>
  "has_cjk_ideograph t =
     list_ex (\<lambda>ch. [CHR 0xE4, CHR 0xB8, CHR 0x80] \<le> ch \<and> ch \<le> [CHR 0xE9, CHR 0xBF, CHR 0xBF]) (utf8_chars t)"

definition FIGURE_HINTS :: "string list" where
  "FIGURE_HINTS = [[CHR 0xEA, CHR 0xB7, CHR 0xB8, CHR 0xEB, CHR 0xA6, CHR 0xBC], [CHR 0xEB, CHR 0x8B, CHR 0xA4, CHR 0xEC, CHR 0x9D, CHR 0xB4, CHR 0xEC, CHR 0x96, CHR 0xB4, CHR 0xEA, CHR 0xB7, CHR 0xB8, CHR 0xEB, CHR 0x9E, CHR 0xA8], [CHR 0xEB, CHR 0x8F, CHR 0x84, CHR 0xEC, CHR 0x8B, CHR 0x9D], [CHR 0xEB, CHR 0x8F, CHR 0x84, CHR 0xED, CHR 0x91, CHR 0x9C], [CHR 0xEC, CHR 0x95, CHR 0x84, CHR 0xEB, CHR 0x9E, CHR 0x98] @ '' '' @ [CHR 0xED, CHR 0x91, CHR 0x9C], [CHR 0xEB, CHR 0x8B, CHR 0xA4, CHR 0xEC, CHR 0x9D, CHR 0x8C] @ '' '' @ [CHR 0xED, CHR 0x91, CHR 0x9C], [CHR 0xEC, CHR 0x9C, CHR 0x84] @ '' '' @ [CHR 0xED, CHR 0x91, CHR 0x9C], [CHR 0xEB, CHR 0xB3, CHR 0xB4, CHR 0xEA, CHR 0xB8, CHR 0xB0, CHR 0xEC, CHR 0x9D, CHR 0x98] @ '' '' @ [CHR 0xED, CHR 0x91, CHR 0x9C]]"

definition references_figure :: "string \<Rightarrow> bool" where
  "references_figure t = list_ex (\<lambda>h. contains h t) FIGURE_HINTS"

definition is_dot_paren :: "string \<Rightarrow> bool" where
  "is_dot_paren cp = (cp = ''.'' \<or> cp = '')'')"

definition label_letter :: "string \<Rightarrow> bool" where
  \<comment> \<open>a Hangul syllable or an ASCII letter\<close>
  "label_letter cp =
     ([CHR 0xEA, CHR 0xB0, CHR 0x80] \<le> cp \<and> cp \<le> [CHR 0xED, CHR 0x9E, CHR 0xA3]
      \<or> ''A'' \<le> cp \<and> cp \<le> ''Z'' \<and> length cp = 1 \<or> ''a'' \<le> cp \<and> cp \<le> ''z'' \<and> length cp = 1)"

definition label_end :: "string list \<Rightarrow> string list option" where
  \<comment> \<open>\<open>[.)]\\s+\<close> at the front, and what follows it\<close>
  "label_end cps = (case cps of
       p # w # rest \<Rightarrow> if is_dot_paren p \<and> is_space w then Some (dropWhile is_space rest) else None
     | _ \<Rightarrow> None)"

fun drop_label :: "(string \<Rightarrow> bool) \<Rightarrow> string list \<Rightarrow> string list" where
  \<comment> \<open>the substitution of the leading label by the empty text, on a stripped text\<close>
  "drop_label digit [] = []"
| "drop_label digit (c # cps) =
     (if [CHR 0xE2, CHR 0x91, CHR 0xA0] \<le> c \<and> c \<le> [CHR 0xE2, CHR 0x91, CHR 0xB3] then dropWhile is_space cps
      else let two = (case cps of c2 # rest \<Rightarrow> if digit c \<and> digit c2 then label_end rest else None | [] \<Rightarrow> None);
               one = (if label_letter c \<or> digit c then label_end cps else None)
           in (case two of Some r \<Rightarrow> r | None \<Rightarrow> (case one of Some r \<Rightarrow> r | None \<Rightarrow> c # cps)))"

definition norm_choice :: "pylib \<Rightarrow> (string \<Rightarrow> bool) \<Rightarrow> pyval \<Rightarrow> string" where
  "norm_choice L digit c =
     (let s = py_strip (py_str L (py_or c (PStr [])))
      in lower_of L (py_strip (concat (drop_label digit (utf8_chars s)))))"

definition degenerate_choices :: "pylib \<Rightarrow> (string \<Rightarrow> bool) \<Rightarrow> pyval list \<Rightarrow> bool" where
  "degenerate_choices L digit choices =
     (let norm = map (norm_choice L digit) (filter (\<lambda>c. py_strip (py_str L c) \<noteq> []) choices)
      in length norm < 2 \<or> card (set norm) < length norm)"

definition norm_predicted_difficulty :: "pylib \<Rightarrow> pyval \<Rightarrow> string option" where
  "norm_predicted_difficulty L v =
     (if \<not> truthy v then None
      else let s = lower_of L (py_strip (py_str L v))
           in if s \<in> set [[CHR 0xEC, CHR 0x83, CHR 0x81], ''high'', ''hard'', [CHR 0xEC, CHR 0x96, CHR 0xB4, CHR 0xEB, CHR 0xA0, CHR 0xA4, CHR 0xEC, CHR 0x9B, CHR 0x80], [CHR 0xEC, CHR 0x96, CHR 0xB4, CHR 0xEB, CHR 0xA0, CHR 0xB5]] then Some ([CHR 0xEC, CHR 0x83, CHR 0x81])
              else if s \<in> set [[CHR 0xED, CHR 0x95, CHR 0x98], ''low'', ''easy'', [CHR 0xEC, CHR 0x89, CHR 0xAC, CHR 0xEC, CHR 0x9B, CHR 0x80], [CHR 0xEC, CHR 0x89, CHR 0xAC]] then Some ([CHR 0xED, CHR 0x95, CHR 0x98])
              else if s \<in> set [[CHR 0xEC, CHR 0xA4, CHR 0x91], ''medium'', ''mid'', [CHR 0xEB, CHR 0xB3, CHR 0xB4, CHR 0xED, CHR 0x86, CHR 0xB5]] then Some ([CHR 0xEC, CHR 0xA4, CHR 0x91])
              else None)"

definition parse_json_items :: "pylib \<Rightarrow> string \<Rightarrow> pyval list \<times> string option" where
  "parse_json_items L raw =
     (if raw = [] then ([], Some ''empty'')
      else case json_loads L (unfence L raw) of
             Inl msg \<Rightarrow> ([], Some (''json_parse_error: '' @ msg))
           | Inr (PDict d) \<Rightarrow> (case map_of d ''items'' of Some (PList items) \<Rightarrow> (items, None)
                              | _ \<Rightarrow> ([], Some ''items_not_list''))
           | Inr _ \<Rightarrow> ([], Some ''items_not_list''))"

definition generate_prompt :: "generate_criteria \<Rightarrow> int \<Rightarrow> item list \<Rightarrow> string" where
  \<comment> \<open>\<open>_GENERATE_PROMPT.format(...)\<close>\<close>
  "generate_prompt c needed refs =
     (let count = int_str needed; subject = gc_subject c; chapter = str_or (gc_chapter c) [];
          difficulty = gc_difficulty c; question_type = gc_question_type c;
          listed = py_join nl (map (\<lambda>r. ''- ['' @ it_item_id r @ ''] '' @ it_question_text r @ '' ('' @ [CHR 0xEC, CHR 0xA0, CHR 0x95, CHR 0xEB, CHR 0x8B, CHR 0xB5] @ '': ''
                                          @ it_answer r @ '')'') (take 5 refs));
          references = (if listed = [] then ''('' @ [CHR 0xEC, CHR 0xB0, CHR 0xB8, CHR 0xEA, CHR 0xB3,
         CHR 0xA0] @ '' '' @ [CHR 0xEA, CHR 0xB0, CHR 0x80, CHR 0xEB, CHR 0x8A, CHR 0xA5, CHR 0xED, CHR 0x95,
         CHR 0x9C] @ '' '' @ [CHR 0xEA, CHR 0xB8, CHR 0xB0, CHR 0xEC, CHR 0xA1, CHR 0xB4] @ '' '' @ [CHR 0xEB,
         CHR 0xAC, CHR 0xB8, CHR 0xEC, CHR 0xA0, CHR 0x9C] @ '' '' @ [CHR 0xEC, CHR 0x97, CHR 0x86, CHR 0xEC,
         CHR 0x9D, CHR 0x8C] @ '')'' else listed)
      in [CHR 0xEB, CHR 0x8B, CHR 0xB9, CHR 0xEC, CHR 0x8B, CHR 0xA0, CHR 0xEC, CHR 0x9D, CHR 0x80] @ '' ''
       @ [CHR 0xEC, CHR 0x8B, CHR 0x9C, CHR 0xED, CHR 0x97, CHR 0x98] @ '' ''
       @ [CHR 0xEB, CHR 0xAC, CHR 0xB8, CHR 0xEC, CHR 0xA0, CHR 0x9C] @ '' ''
       @ [CHR 0xEC, CHR 0xB6, CHR 0x9C, CHR 0xEC, CHR 0xA0, CHR 0x9C] @ '' ''
       @ [CHR 0xEC, CHR 0xA0, CHR 0x84, CHR 0xEB, CHR 0xAC, CHR 0xB8, CHR 0xEA, CHR 0xB0, CHR 0x80, CHR 0xEC,
         CHR 0x9E, CHR 0x85, CHR 0xEB, CHR 0x8B, CHR 0x88, CHR 0xEB, CHR 0x8B, CHR 0xA4]
       @ ''. '' @ [CHR 0xEB, CHR 0x8B, CHR 0xA4, CHR 0xEC, CHR 0x9D, CHR 0x8C] @ '' ''
       @ [CHR 0xEC, CHR 0xA1, CHR 0xB0, CHR 0xEA, CHR 0xB1, CHR 0xB4, CHR 0xEC, CHR 0x97, CHR 0x90] @ '' ''
       @ [CHR 0xEB, CHR 0xA7, CHR 0x9E, CHR 0xEC, CHR 0xB6, CHR 0xB0] @ '' ''
       @ [CHR 0xEC, CHR 0x8B, CHR 0xA0, CHR 0xEA, CHR 0xB7, CHR 0x9C] @ '' ''
       @ [CHR 0xEB, CHR 0xAC, CHR 0xB8, CHR 0xEC, CHR 0xA0, CHR 0x9C] @ '' '' @ count
       @ [CHR 0xEA, CHR 0xB0, CHR 0x9C, CHR 0xEB, CHR 0xA5, CHR 0xBC] @ '' ''
       @ [CHR 0xEC, CHR 0x83, CHR 0x9D, CHR 0xEC, CHR 0x84, CHR 0xB1, CHR 0xED, CHR 0x95, CHR 0x98, CHR 0xEC,
         CHR 0x84, CHR 0xB8, CHR 0xEC, CHR 0x9A, CHR 0x94]
       @ ''.'' @ [CHR 0x0A, CHR 0xEC, CHR 0xA3, CHR 0xBC, CHR 0xEC, CHR 0xA0, CHR 0x9C] @ '': '' @ subject
       @ [CHR 0x0A, CHR 0xEC, CHR 0x9E, CHR 0xA5] @ '': '' @ chapter
       @ [CHR 0x0A, CHR 0xEB, CHR 0x82, CHR 0x9C, CHR 0xEC, CHR 0x9D, CHR 0xB4, CHR 0xEB, CHR 0x8F, CHR 0x84] @ '': ''
       @ difficulty
       @ [CHR 0x0A, CHR 0xEB, CHR 0xAC, CHR 0xB8, CHR 0xEC, CHR 0xA0, CHR 0x9C, CHR 0xEC, CHR 0x9C, CHR 0xA0,
         CHR 0xED, CHR 0x98, CHR 0x95]
       @ '': '' @ question_type @ [CHR 0x0A, CHR 0x0A, CHR 0xEC, CHR 0xB0, CHR 0xB8, CHR 0xEA, CHR 0xB3,
         CHR 0xA0] @ '' ''
       @ [CHR 0xEB, CHR 0xAC, CHR 0xB8, CHR 0xEC, CHR 0xA0, CHR 0x9C] @ '':'' @ [CHR 0x0A] @ references
       @ [CHR 0x0A, CHR 0x0A, CHR 0xEA, CHR 0xB7, CHR 0x9C, CHR 0xEC, CHR 0xB9,
         CHR 0x99] @ '':'' @ [CHR 0x0A] @ ''- ''
       @ [CHR 0xEB, CHR 0xAA, CHR 0xA8, CHR 0xEB, CHR 0x93, CHR 0xA0] @ '' ''
       @ [CHR 0xED, CHR 0x85, CHR 0x8D, CHR 0xEC, CHR 0x8A, CHR 0xA4, CHR 0xED, CHR 0x8A, CHR 0xB8] @ ''(''
       @ [CHR 0xEB, CHR 0xAC, CHR 0xB8, CHR 0xEC, CHR 0xA0, CHR 0x9C, CHR 0xC2, CHR 0xB7, CHR 0xEB, CHR 0xB3,
         CHR 0xB4, CHR 0xEA, CHR 0xB8, CHR 0xB0, CHR 0xC2, CHR 0xB7, CHR 0xED, CHR 0x95, CHR 0xB4, CHR 0xEC,
         CHR 0x84, CHR 0xA4]
       @ '')'' @ [CHR 0xEB, CHR 0x8A, CHR 0x94] @ '' ''
       @ [CHR 0xEB, CHR 0xB0, CHR 0x98, CHR 0xEB, CHR 0x93, CHR 0x9C, CHR 0xEC, CHR 0x8B, CHR 0x9C] @ '' ''
       @ [CHR 0xED, CHR 0x95, CHR 0x9C, CHR 0xEA, CHR 0xB5, CHR 0xAD, CHR 0xEC, CHR 0x96, CHR 0xB4, CHR 0xEB,
         CHR 0xA1, CHR 0x9C]
       @ '' ''
       @ [CHR 0xEC, CHR 0x9E, CHR 0x91, CHR 0xEC, CHR 0x84, CHR 0xB1, CHR 0xED, CHR 0x95, CHR 0x98, CHR 0xEC,
         CHR 0x84, CHR 0xB8, CHR 0xEC, CHR 0x9A, CHR 0x94]
       @ ''. ''
       @ [CHR 0xED, CHR 0x95, CHR 0x9C, CHR 0xEC, CHR 0x9E, CHR 0x90, CHR 0xC2, CHR 0xB7, CHR 0xEC, CHR 0xA4,
         CHR 0x91, CHR 0xEA, CHR 0xB5, CHR 0xAD, CHR 0xEC, CHR 0x96, CHR 0xB4, CHR 0xC2, CHR 0xB7, CHR 0xEC,
         CHR 0x9D, CHR 0xBC, CHR 0xEB, CHR 0xB3, CHR 0xB8, CHR 0xEC, CHR 0x96, CHR 0xB4, CHR 0xEB, CHR 0xA5, CHR 0xBC]
       @ '' '' @ [CHR 0xEC, CHR 0xA0, CHR 0x88, CHR 0xEB, CHR 0x8C, CHR 0x80] @ '' ''
       @ [CHR 0xEC, CHR 0x84, CHR 0x9E, CHR 0xEC, CHR 0xA7, CHR 0x80] @ '' ''
       @ [CHR 0xEB, CHR 0xA7, CHR 0x88, CHR 0xEC, CHR 0x84, CHR 0xB8, CHR 0xEC, CHR 0x9A, CHR 0x94] @ ''(''
       @ [CHR 0xEC, CHR 0x98, CHR 0x88] @ '': ''
       @ [CHR 0x27, CHR 0xEA, CHR 0xB3, CHR 0xB5, CHR 0xEA, CHR 0xB0, CHR 0x84, CHR 0x27, CHR 0xEC, CHR 0x9D,
         CHR 0x84]
       @ '' ''
       @ [CHR 0x27, CHR 0xE7, CHR 0xA9, CHR 0xBA, CHR 0xE9, CHR 0x97, CHR 0xB4, CHR 0x27, CHR 0xEC, CHR 0x9C,
         CHR 0xBC, CHR 0xEB, CHR 0xA1, CHR 0x9C]
       @ '' '' @ [CHR 0xEC, CHR 0x93, CHR 0xB0, CHR 0xEC, CHR 0xA7, CHR 0x80] @ '' '' @ [CHR 0xEB, CHR 0xA7, CHR 0x90]
       @ '' '' @ [CHR 0xEA, CHR 0xB2, CHR 0x83] @ ''). '' @ [CHR 0xEA, CHR 0xB8, CHR 0xB0, CHR 0xEC, CHR 0x88,
         CHR 0xA0]
       @ '' '' @ [CHR 0xEC, CHR 0x9A, CHR 0xA9, CHR 0xEC, CHR 0x96, CHR 0xB4, CHR 0xEC, CHR 0x9D, CHR 0x98] @ '' ''
       @ [CHR 0xEC, CHR 0x98, CHR 0x81, CHR 0xEB, CHR 0xAC, CHR 0xB8] @ '' ''
       @ [CHR 0xED, CHR 0x91, CHR 0x9C, CHR 0xEA, CHR 0xB8, CHR 0xB0] @ ''(SQL, TCP/IP '' @ [CHR 0xEB, CHR 0x93,
         CHR 0xB1]
       @ '')'' @ [CHR 0xEB, CHR 0x8A, CHR 0x94] @ '' ''
       @ [CHR 0xED, CHR 0x97, CHR 0x88, CHR 0xEC, CHR 0x9A, CHR 0xA9, CHR 0xED, CHR 0x95, CHR 0xA9, CHR 0xEB,
         CHR 0x8B, CHR 0x88, CHR 0xEB, CHR 0x8B, CHR 0xA4]
       @ ''.'' @ [CHR 0x0A] @ ''- choices'' @ [CHR 0xEC, CHR 0x97, CHR 0x90, CHR 0xEB, CHR 0x8A, CHR 0x94] @ '' ''
       @ [CHR 0xEB, CHR 0xB3, CHR 0xB4, CHR 0xEA, CHR 0xB8, CHR 0xB0] @ '' ''
       @ [CHR 0xEA, CHR 0xB8, CHR 0xB0, CHR 0xED, CHR 0x98, CHR 0xB8] @ ''('' @ [CHR 0xE2, CHR 0x91, CHR 0xA0] @ '', ''
       @ [CHR 0xEA, CHR 0xB0, CHR 0x80] @ ''., A. '' @ [CHR 0xEB, CHR 0x93, CHR 0xB1] @ '')''
       @ [CHR 0xEB, CHR 0xA5, CHR 0xBC] @ '' ''
       @ [CHR 0xEB, CHR 0xB6, CHR 0x99, CHR 0xEC, CHR 0x9D, CHR 0xB4, CHR 0xEC, CHR 0xA7, CHR 0x80] @ '' ''
       @ [CHR 0xEB, CHR 0xA7, CHR 0x90, CHR 0xEA, CHR 0xB3, CHR 0xA0] @ '' ''
       @ [CHR 0xEB, CHR 0xB3, CHR 0xB4, CHR 0xEA, CHR 0xB8, CHR 0xB0] @ '' ''
       @ [CHR 0xEB, CHR 0x82, CHR 0xB4, CHR 0xEC, CHR 0x9A, CHR 0xA9, CHR 0xEB, CHR 0xA7, CHR 0x8C] @ '' ''
       @ [CHR 0xEB, CHR 0x84, CHR 0xA3, CHR 0xEC, CHR 0x9C, CHR 0xBC, CHR 0xEC, CHR 0x84, CHR 0xB8, CHR 0xEC,
         CHR 0x9A, CHR 0x94]
       @ ''. answer'' @ [CHR 0xEB, CHR 0x8A, CHR 0x94] @ '' ''
       @ [CHR 0xEC, CHR 0xA0, CHR 0x95, CHR 0xEB, CHR 0x8B, CHR 0xB5] @ '' ''
       @ [CHR 0xEB, CHR 0xB3, CHR 0xB4, CHR 0xEA, CHR 0xB8, CHR 0xB0, CHR 0xEC, CHR 0x9D, CHR 0x98] @ '' ''
       @ [CHR 0xEB, CHR 0x82, CHR 0xB4, CHR 0xEC, CHR 0x9A, CHR 0xA9] @ ''(''
       @ [CHR 0xEB, CHR 0x98, CHR 0x90, CHR 0xEB, CHR 0x8A, CHR 0x94] @ '' ''
       @ [CHR 0xEB, CHR 0xB2, CHR 0x88, CHR 0xED, CHR 0x98, CHR 0xB8] @ '')''
       @ [CHR 0xEC, CHR 0x9C, CHR 0xBC, CHR 0xEB, CHR 0xA1, CHR 0x9C] @ '' ''
       @ [CHR 0xEB, CHR 0xAA, CHR 0x85, CHR 0xED, CHR 0x99, CHR 0x95, CHR 0xED, CHR 0x9E, CHR 0x88] @ '' ''
       @ [CHR 0xED, CHR 0x91, CHR 0x9C, CHR 0xEA, CHR 0xB8, CHR 0xB0, CHR 0xED, CHR 0x95, CHR 0x98, CHR 0xEC,
         CHR 0x84, CHR 0xB8, CHR 0xEC, CHR 0x9A, CHR 0x94]
       @ ''.'' @ [CHR 0x0A] @ ''- predicted_difficulty: '' @ [CHR 0xEC, CHR 0x9A, CHR 0x94, CHR 0xEC, CHR 0xB2,
         CHR 0xAD]
       @ '' ''
       @ [CHR 0xEB, CHR 0x82, CHR 0x9C, CHR 0xEC, CHR 0x9D, CHR 0xB4, CHR 0xEB, CHR 0x8F, CHR 0x84, CHR 0xEC,
         CHR 0x99, CHR 0x80]
       @ '' ''
       @ [CHR 0xEB, CHR 0xAC, CHR 0xB4, CHR 0xEA, CHR 0xB4, CHR 0x80, CHR 0xED, CHR 0x95, CHR 0x98, CHR 0xEA,
         CHR 0xB2, CHR 0x8C]
       @ '', '' @ [CHR 0xEC, CHR 0x83, CHR 0x9D, CHR 0xEC, CHR 0x84, CHR 0xB1, CHR 0xED, CHR 0x95, CHR 0x9C] @ '' ''
       @ [CHR 0xEB, CHR 0xAC, CHR 0xB8, CHR 0xED, CHR 0x95, CHR 0xAD, CHR 0xEC, CHR 0x9D, CHR 0x84] @ '' ''
       @ [CHR 0xEC, CHR 0x8B, CHR 0xA4, CHR 0xEC, CHR 0xA0, CHR 0x9C, CHR 0xEB, CHR 0xA1, CHR 0x9C] @ '' ''
       @ [CHR 0xED, CHR 0x92, CHR 0x80] @ '' '' @ [CHR 0xEB, CHR 0x95, CHR 0x8C, CHR 0xEC, CHR 0x9D, CHR 0x98] @ '' ''
       @ [CHR 0xEC, CHR 0xB2, CHR 0xB4, CHR 0xEA, CHR 0xB0, CHR 0x90] @ '' ''
       @ [CHR 0xEB, CHR 0x82, CHR 0x9C, CHR 0xEC, CHR 0x9D, CHR 0xB4, CHR 0xEB, CHR 0x8F, CHR 0x84, CHR 0xEB,
         CHR 0xA5, CHR 0xBC]
       @ '' '' @ [CHR 0x22, CHR 0xEC, CHR 0x83, CHR 0x81, CHR 0x22] @ ''/''
       @ [CHR 0x22, CHR 0xEC, CHR 0xA4, CHR 0x91, CHR 0x22] @ ''/'' @ [CHR 0x22, CHR 0xED, CHR 0x95, CHR 0x98,
         CHR 0x22]
       @ '' '' @ [CHR 0xEC, CHR 0xA4, CHR 0x91] @ '' ''
       @ [CHR 0xED, CHR 0x95, CHR 0x98, CHR 0xEB, CHR 0x82, CHR 0x98, CHR 0xEB, CHR 0xA1, CHR 0x9C] @ '' ''
       @ [CHR 0xEB, CHR 0x8F, CHR 0x85, CHR 0xEB, CHR 0xA6, CHR 0xBD] @ '' ''
       @ [CHR 0xED, CHR 0x8F, CHR 0x89, CHR 0xEA, CHR 0xB0, CHR 0x80, CHR 0xED, CHR 0x95, CHR 0x98, CHR 0xEC,
         CHR 0x84, CHR 0xB8, CHR 0xEC, CHR 0x9A, CHR 0x94]
       @ ''('' @ [CHR 0xEC, CHR 0x83, CHR 0x81] @ ''=''
       @ [CHR 0xEC, CHR 0x96, CHR 0xB4, CHR 0xEB, CHR 0xA0, CHR 0xA4, CHR 0xEC, CHR 0x9B, CHR 0x80] @ '', ''
       @ [CHR 0xED, CHR 0x95, CHR 0x98] @ ''='' @ [CHR 0xEC, CHR 0x89, CHR 0xAC, CHR 0xEC, CHR 0x9B,
         CHR 0x80] @ ''). ''
       @ [CHR 0xEB, CHR 0xB3, CHR 0xB4, CHR 0xEA, CHR 0xB8, CHR 0xB0] @ '' ''
       @ [CHR 0xEB, CHR 0xB3, CHR 0x80, CHR 0xEB, CHR 0xB3, CHR 0x84, CHR 0xC2, CHR 0xB7, CHR 0xED, CHR 0x92,
         CHR 0x80, CHR 0xEC, CHR 0x9D, CHR 0xB4]
       @ '' ''
       @ [CHR 0xEB, CHR 0x8B, CHR 0xA8, CHR 0xEA, CHR 0xB3, CHR 0x84, CHR 0xC2, CHR 0xB7, CHR 0xEA, CHR 0xB0,
         CHR 0x9C, CHR 0xEB, CHR 0x85, CHR 0x90]
       @ '' '' @ [CHR 0xEA, CHR 0xB9, CHR 0x8A, CHR 0xEC, CHR 0x9D, CHR 0xB4, CHR 0xEB, CHR 0xA5, CHR 0xBC] @ '' ''
       @ [CHR 0xEA, CHR 0xB7, CHR 0xBC, CHR 0xEA, CHR 0xB1, CHR 0xB0, CHR 0xEB, CHR 0xA1, CHR 0x9C] @ ''.''
       @ [CHR 0x0A, CHR 0x0A, CHR 0xEC, CHR 0x9D, CHR 0x91, CHR 0xEB, CHR 0x8B, CHR 0xB5, CHR 0xEC, CHR 0x9D,
         CHR 0x80]
       @ '' '' @ [CHR 0xEB, CHR 0xB0, CHR 0x98, CHR 0xEB, CHR 0x93, CHR 0x9C, CHR 0xEC, CHR 0x8B,
         CHR 0x9C] @ '' JSON: {''
       @ [CHR 0x22] @ ''items'' @ [CHR 0x22] @ '':[{'' @ [CHR 0x22] @ ''question_text'' @ [CHR 0x22] @ '':str,''
       @ [CHR 0x22] @ ''choices'' @ [CHR 0x22] @ '':[str],'' @ [CHR 0x22] @ ''answer'' @ [CHR 0x22] @ '':str,''
       @ [CHR 0x22] @ ''explanation'' @ [CHR 0x22] @ '':str,'' @ [CHR 0x22] @ ''difficulty'' @ [CHR 0x22] @ '':''
       @ [CHR 0x22] @ ''easy|medium|hard'' @ [CHR 0x22] @ '','' @ [CHR 0x22] @ ''predicted_difficulty'' @ [CHR 0x22]
       @ '':'' @ [CHR 0x22, CHR 0xEC, CHR 0x83, CHR 0x81] @ ''|'' @ [CHR 0xEC, CHR 0xA4, CHR 0x91] @ ''|''
       @ [CHR 0xED, CHR 0x95, CHR 0x98, CHR 0x22] @ '','' @ [CHR 0x22] @ ''tags'' @ [CHR 0x22] @ '':[str]}]}'')"

record gen_state =
  g_produced :: "item list"
  g_scores :: "real list"
  g_similarity :: "pyval list"
  g_rejected :: nat
  g_retries :: nat
  g_validator_calls :: nat
  g_bank :: bank

definition similarity_of ::
  "generate_service \<Rightarrow> string \<Rightarrow> string \<Rightarrow> item list \<Rightarrow> string \<Rightarrow> (real \<times> bool \<times> (string \<times> real) list) res" where
  "similarity_of svc domain_id subject refs qtext =
     (let thr = gv_thresholds svc in
      case gv_item_index svc of
        Some search \<Rightarrow>
          bind_res (search domain_id qtext subject) (\<lambda>hits.
            let best = (case hits of [] \<Rightarrow> 0 | h # _ \<Rightarrow> snd h)
            in Inr (best, best \<ge> th_duplicate thr,
                    map (\<lambda>(i, s). (i, round4 s)) (filter (\<lambda>(i, s). s \<ge> th_similar thr) hits)))
      | None \<Rightarrow>
          bind_res (similarity_check (gv_embed_batch svc) thr qtext refs) (\<lambda>sim.
            Inr (sm_max_similarity sim, sm_is_duplicate sim, sm_similar_candidates sim)))"

definition foreign_text :: "generate_service \<Rightarrow> string \<Rightarrow> pydict \<Rightarrow> bool" where
  \<comment> \<open>ideographs in the question or the explanation\<close>
  "foreign_text svc qtext d =
     (has_cjk_ideograph qtext
      \<or> has_cjk_ideograph (py_str (gv_lib svc) (py_or (dget d ''explanation'' PNone) (PStr []))))"

definition unusable :: "generate_service \<Rightarrow> string \<Rightarrow> pyval list \<Rightarrow> bool" where
  \<comment> \<open>the guards on the choices: ideographs, references to a figure, broken or repeated choices\<close>
  "unusable svc qtext choices =
     (let str = py_str (gv_lib svc) in
      list_ex (\<lambda>c. has_cjk_ideograph (str c)) choices
      \<or> references_figure qtext \<or> list_ex (\<lambda>c. references_figure (str c)) choices
      \<or> degenerate_choices (gv_lib svc) (gv_is_digit svc) choices)"

definition similarity_entry :: "string \<Rightarrow> real \<times> bool \<times> (string \<times> real) list \<Rightarrow> pyval" where
  "similarity_entry qtext sim = (case sim of (best, dup, similar) \<Rightarrow>
     PDict [(''question_text_excerpt'', PStr (utf8_take 80 qtext)), (''max_similarity'', PFloat best),
       (''is_duplicate'', PBool dup),
       (''similar_candidates'', PList (map (\<lambda>(i, s). PDict [(''item_id'', PStr i), (''similarity'',
         PFloat s)]) similar))])"

definition outcome_for ::
  "generate_service \<Rightarrow> generate_criteria \<Rightarrow> pydict \<Rightarrow> bool \<Rightarrow> string \<Rightarrow> pyval list \<Rightarrow> pydict \<Rightarrow> gen_state
   \<Rightarrow> (validation_outcome \<times> gen_state) res" where
  "outcome_for svc c vcfg do_validate qtext choices d g =
     (if do_validate then
        let L = gv_lib svc; e = dget d ''explanation'' PNone in
        bind_res (validate L (gv_decode svc) (gv_validator_llm svc) (gv_validator_model svc) qtext choices
                    (py_str L (dget d ''answer'' (PStr []))) (if truthy e then Some (py_str L e) else None)
                    (Some (py_str L (py_or (dget d ''difficulty'' PNone) (PStr (gc_difficulty c))))) vcfg
                    (g_validator_calls g)) (\<lambda>(o1, n).
          Inr (o1, g\<lparr>g_validator_calls := n, g_scores := g_scores g @ [vo_quality_score o1]\<rparr>))
      else Inr (\<lparr>vo_quality_status = ''reviewed'', vo_quality_score = 1, vo_validator_results = []\<rparr>,
         g))"

definition generated_item ::
  "generate_service \<Rightarrow> string \<Rightarrow> generate_criteria \<Rightarrow> string \<Rightarrow> string \<Rightarrow> pyval list \<Rightarrow> pydict \<Rightarrow> pyval list
   \<Rightarrow> validation_outcome \<Rightarrow> string list \<Rightarrow> item" where
  "generated_item svc domain_id c item_id qtext choices d tags o1 refs =
     (let L = gv_lib svc; expl = py_str L (dget d ''explanation'' (PStr [])) in
      (new_item item_id domain_id)\<lparr>it_subject := Some (gc_subject c), it_chapter := gc_chapter c,
        it_difficulty := Some (py_str L (py_or (dget d ''difficulty'' PNone) (PStr (gc_difficulty c)))),
        it_question_type := Some (gc_question_type c), it_question_text := qtext, it_choices := choices,
        it_answer := py_str L (dget d ''answer'' (PStr [])),
        it_explanation := (if expl = [] then None else Some expl), it_tags := tags,
        it_quality_status := vo_quality_status o1, it_quality_score := Some (vo_quality_score o1),
        it_validator_results := vo_validator_results o1, it_source := Some ''generated'',
        it_reference_item_ids := refs,
        it_predicted_difficulty := norm_predicted_difficulty L (dget d ''predicted_difficulty'' PNone)\<rparr>)"

definition add_generated :: "generate_service \<Rightarrow> bool \<Rightarrow> nat \<Rightarrow> item \<Rightarrow> gen_state \<Rightarrow> gen_state" where
  \<comment> \<open>the upsert, which is left out for a chat,
         and the append to \<open>produced\<close>; the stored record is the same object\<close>
  "add_generated svc persist n r g =
     (let (r', b') = (if persist then bank_upsert (gv_clock svc n) r (g_bank g) else (r, g_bank g))
      in g\<lparr>g_produced := g_produced g @ [r'], g_bank := b'\<rparr>)"

definition consider_candidate ::
  "generate_service \<Rightarrow> string \<Rightarrow> generate_criteria \<Rightarrow> pydict \<Rightarrow> bool \<Rightarrow> bool \<Rightarrow> nat \<Rightarrow> item list
   \<Rightarrow> pyval \<Rightarrow> gen_state \<Rightarrow> gen_state res" where
  \<comment> \<open>the body of the loop over the candidates of one answer\<close>
  "consider_candidate svc domain_id c vcfg persist do_validate n0 refs candidate g =
     bind_res (as_dict candidate) (\<lambda>d.
     let L = gv_lib svc; qtext = py_strip (py_str L (dget d ''question_text'' (PStr []))) in
     if qtext = [] \<or> foreign_text svc qtext d then Inr g
     else bind_res (py_iter (py_or (dget d ''choices'' PNone) (PList []))) (\<lambda>choices.
       if unusable svc qtext choices then Inr g
       else bind_res (similarity_of svc domain_id (gc_subject c) refs qtext) (\<lambda>sim.
         let g1 = g\<lparr>g_similarity := g_similarity g @ [similarity_entry qtext sim]\<rparr> in
         if fst (snd sim) then Inr (g1\<lparr>g_rejected := g_rejected g + 1\<rparr>)
         else bind_res (outcome_for svc c vcfg do_validate qtext choices d g1) (\<lambda>(o1, g2).
           bind_res (py_iter (py_or (dget d ''tags'' PNone) (PList []))) (\<lambda>tags.
             let n = n0 + length (g_produced g) in
             Inr (add_generated svc persist n
                    (generated_item svc domain_id c (''Q-'' @ gv_uuid svc n) qtext choices d tags o1
                       (map fst (snd (snd sim)))) g2))))))"

fun consider_all ::
  "(pyval \<Rightarrow> gen_state \<Rightarrow> gen_state res) \<Rightarrow> int \<Rightarrow> pyval list \<Rightarrow> gen_state \<Rightarrow> gen_state res" where
  "consider_all f target [] g = Inr g"
| "consider_all f target (x # xs) g =
     (if int (length (g_produced g)) \<ge> target then Inr g
      else bind_res (f x g) (consider_all f target xs))"

fun gen_rounds ::
  "generate_service \<Rightarrow> generate_criteria \<Rightarrow> item list \<Rightarrow> (pyval \<Rightarrow> gen_state \<Rightarrow> gen_state res) \<Rightarrow> nat \<Rightarrow> nat
   \<Rightarrow> gen_state \<Rightarrow> gen_state res" where
  \<comment> \<open>\<open>for retry in range(max_retries)\<close>: the number of rounds left,
         the number of this round\<close>
  "gen_rounds svc c refs f 0 i g = Inr g"
| "gen_rounds svc c refs f (Suc k) i g =
     (let needed = gc_count c - int (length (g_produced g)) in
      if needed \<le> 0 then Inr g
      else let g1 = g\<lparr>g_retries := Suc i\<rparr> in
        case gv_llm svc i (plain_call (generate_prompt c needed refs) (gv_model svc) 2048 0.4) of
          Inl _ \<Rightarrow> gen_rounds svc c refs f k (Suc i) g1
        | Inr raw \<Rightarrow>
            (case parse_json_items (gv_lib svc) raw of
               (_, Some _) \<Rightarrow> gen_rounds svc c refs f k (Suc i) g1
             | (items,
         None) \<Rightarrow> bind_res (consider_all f (gc_count c) items g1) (gen_rounds svc c refs f k (Suc i))))"

definition score_summary :: "real list \<Rightarrow> pydict" where
  "score_summary xs =
     (if xs = [] then []
      else [(''avg_quality_score'', PFloat (round4 (sum_list xs / of_nat (length xs)))),
            (''min_quality_score'', PFloat (round4 (Min (set xs)))),
            (''max_quality_score'', PFloat (round4 (Max (set xs))))])"

definition approved_of :: "generate_criteria \<Rightarrow> extract_criteria" where
  "approved_of c = default_criteria\<lparr>ec_subject := Some (gc_subject c), ec_chapter := gc_chapter c\<rparr>"

definition generate ::
  "generate_service \<Rightarrow> string \<Rightarrow> generate_criteria \<Rightarrow> pydict \<Rightarrow> bool \<Rightarrow> bool \<Rightarrow> nat \<Rightarrow> bank
   \<Rightarrow> (generate_result \<times> bank) res" where
  "generate svc domain_id c vcfg persist do_validate n0 b =
     bind_res (list_candidates_for_extract (gv_clock svc n0) b domain_id (approved_of c) 20) (\<lambda>refs0.
     let refs = take 10 (filter (\<lambda>r. \<not> it_figure_dependent r) refs0) in
     bind_res (if gv_item_index svc = None
               then list_candidates_for_extract (gv_clock svc n0) b domain_id
                      (default_criteria\<lparr>ec_subject := Some (gc_subject c),
                                        ec_quality_status := [''approved'', ''reviewed'']\<rparr>) 500
               else Inr []) (\<lambda>sim_refs.
     bind_res (gen_rounds svc c refs (consider_candidate svc domain_id c vcfg persist do_validate n0 sim_refs)
                 (gv_max_retries svc) 0
                 \<lparr>g_produced = [], g_scores = [], g_similarity = [], g_rejected = 0, g_retries = 0,
                  g_validator_calls = 0, g_bank = b\<rparr>) (\<lambda>g.
       Inr (\<lparr>ge_items = g_produced g, ge_generated_count = length (g_produced g),
             ge_citations = numbered_citations domain_id (g_produced g),
             ge_validator_summary = score_summary (g_scores g), ge_similarity_results = g_similarity g,
             ge_rejected_duplicates = g_rejected g, ge_retries_used = g_retries g\<rparr>, g_bank g))))"

section \<open>Figure reuse\<close>

record figure_criteria =
  fc_subject :: string
  fc_chapter :: "string option"
  fc_difficulty :: string
  fc_count :: int

record figure_result =
  fr_items :: "item list"
  fr_generated_count :: nat
  fr_references_used :: "string list"
  fr_skipped_no_image :: nat
  fr_rejected_invalid :: nat
  fr_vlm_errors :: nat
  fr_vlm_unavailable :: bool

record vlm_call =
  vc_image :: string
  vc_prompt :: string
  vc_model :: "string option"
  vc_max_tokens :: int
  vc_temperature :: real

record figure_service =
  fs_lib :: pylib
  fs_decode :: raw_decoder
  fs_health :: "bool res"
  fs_describe :: "nat \<Rightarrow> vlm_call \<Rightarrow> string res"
  fs_load_image :: "pyval \<Rightarrow> string res"
  fs_model :: "string option"
  fs_uuid :: "nat \<Rightarrow> string"
  fs_clock :: "nat \<Rightarrow> real"

definition build_vlm_prompt :: "pylib \<Rightarrow> item \<Rightarrow> string" where
  "build_vlm_prompt L ref =
     (let choices = py_join '' / '' (map (py_str L) (it_choices ref)) in
      py_join nl
        ([[CHR 0xEC, CHR 0x95, CHR 0x84, CHR 0xEB, CHR 0x9E, CHR 0x98] @ '' '' @ [CHR 0xEA, CHR 0xB7, CHR 0xB8,
         CHR 0xEB, CHR 0xA6, CHR 0xBC, CHR 0xEC, CHR 0x9D, CHR 0x80] @ '' '' @ [CHR 0xEC, CHR 0xA0, CHR 0x95,
         CHR 0xEB, CHR 0xB3, CHR 0xB4, CHR 0xEC, CHR 0xB2, CHR 0x98, CHR 0xEB, CHR 0xA6, CHR 0xAC, CHR 0xEA,
         CHR 0xB8, CHR 0xB0, CHR 0xEC, CHR 0x82, CHR 0xAC] @ '' '' @ [CHR 0xEC, CHR 0x8B, CHR 0x9C, CHR 0xED,
         CHR 0x97, CHR 0x98] @ '' '' @ [CHR 0xEB, CHR 0xAC, CHR 0xB8, CHR 0xEC, CHR 0xA0, CHR 0x9C, CHR 0xEC,
         CHR 0x97, CHR 0x90] @ '' '' @ [CHR 0xEC, CHR 0x82, CHR 0xAC, CHR 0xEC, CHR 0x9A, CHR 0xA9, CHR 0xEB,
         CHR 0x90, CHR 0x9C] @ '' '' @ [CHR 0xEA, CHR 0xB7, CHR 0xB8, CHR 0xEB, CHR 0xA6, CHR 0xBC, CHR 0xEC,
         CHR 0x9D, CHR 0xB4, CHR 0xEB, CHR 0x8B, CHR 0xA4] @ ''.'',
          [CHR 0xEC, CHR 0x9D, CHR 0xB4] @ '' '' @ [CHR 0xEA, CHR 0xB7, CHR 0xB8, CHR 0xEB, CHR 0xA6, CHR 0xBC,
         CHR 0xEC, CHR 0x9D, CHR 0xB4] @ '' '' @ [CHR 0xEC, CHR 0x93, CHR 0xB0, CHR 0xEC, CHR 0x9D,
         CHR 0xB8] @ '' '' @ [CHR 0xEC, CHR 0x9B, CHR 0x90, CHR 0xEB, CHR 0xB3, CHR 0xB8] @ '' '' @ [CHR 0xEB,
         CHR 0xAC, CHR 0xB8, CHR 0xEC, CHR 0xA0, CHR 0x9C] @ ''('' @ [CHR 0xEC, CHR 0xB0, CHR 0xB8, CHR 0xEA,
         CHR 0xB3, CHR 0xA0, CHR 0xEC, CHR 0x9A, CHR 0xA9] @ '' '' @ [CHR 0xE2, CHR 0x80,
         CHR 0x94] @ '' '' @ [CHR 0xEA, CHR 0xB7, CHR 0xB8, CHR 0xEB, CHR 0x8C, CHR 0x80, CHR 0xEB, CHR 0xA1,
         CHR 0x9C] @ '' '' @ [CHR 0xEB, CHR 0xB2, CHR 0xA0, CHR 0xEB, CHR 0x81, CHR 0xBC, CHR 0xEC, CHR 0xA7,
         CHR 0x80] @ '' '' @ [CHR 0xEB, CHR 0xA7, CHR 0x90] @ '' '' @ [CHR 0xEA, CHR 0xB2, CHR 0x83] @ ''):'',
          ''- '' @ [CHR 0xEC, CHR 0x9B, CHR 0x90, CHR 0xEB, CHR 0xB3, CHR 0xB8] @ '' '' @ [CHR 0xEB, CHR 0xAC,
         CHR 0xB8, CHR 0xEC, CHR 0xA0, CHR 0x9C] @ '': '' @ it_question_text ref]
         @ (if choices = [] then [] else [''- '' @ [CHR 0xEC, CHR 0x9B, CHR 0x90, CHR 0xEB, CHR 0xB3,
         CHR 0xB8] @ '' '' @ [CHR 0xEB, CHR 0xB3, CHR 0xB4, CHR 0xEA, CHR 0xB8, CHR 0xB0] @ '': '' @ choices])
         @ (if it_answer ref = [] then [] else [''- '' @ [CHR 0xEC, CHR 0x9B, CHR 0x90, CHR 0xEB, CHR 0xB3,
         CHR 0xB8] @ '' '' @ [CHR 0xEC, CHR 0xA0, CHR 0x95, CHR 0xEB, CHR 0x8B, CHR 0xB5] @ '': '' @ it_answer ref])
         @ (case it_explanation ref of None \<Rightarrow> [] | Some e \<Rightarrow> if e = [] then [] else [''- '' @ [CHR 0xEC, CHR 0x9B, CHR 0x90, CHR 0xEB, CHR 0xB3, CHR 0xB8] @ '' '' @ [CHR 0xED, CHR 0x95, CHR 0xB4, CHR 0xEC, CHR 0x84, CHR 0xA4] @ '': '' @ e])
         @ [[],
          [CHR 0xEC, CHR 0x9C, CHR 0x84] @ '' '' @ [CHR 0xEC, CHR 0x9B, CHR 0x90, CHR 0xEB, CHR 0xB3,
         CHR 0xB8] @ '' ''
       @ [CHR 0xEB, CHR 0xAC, CHR 0xB8, CHR 0xEC, CHR 0xA0, CHR 0x9C, CHR 0xEC, CHR 0x99, CHR 0x80] @ '' **''
       @ [CHR 0xEA, CHR 0xB0, CHR 0x99, CHR 0xEC, CHR 0x9D, CHR 0x80] @ '' ''
       @ [CHR 0xEA, CHR 0xB7, CHR 0xB8, CHR 0xEB, CHR 0xA6, CHR 0xBC, CHR 0xC2, CHR 0xB7, CHR 0xEA, CHR 0xB0,
         CHR 0x99, CHR 0xEC, CHR 0x9D, CHR 0x80]
       @ '' '' @ [CHR 0xEA, CHR 0xB0, CHR 0x9C, CHR 0xEB, CHR 0x85, CHR 0x90] @ ''**'' @ [CHR 0xEC, CHR 0x9D,
         CHR 0x84]
       @ '' ''
       @ [CHR 0xED, CHR 0x8F, CHR 0x89, CHR 0xEA, CHR 0xB0, CHR 0x80, CHR 0xED, CHR 0x95, CHR 0x98, CHR 0xEB,
         CHR 0x8A, CHR 0x94]
       @ '' '' @ [CHR 0xEC, CHR 0x83, CHR 0x88, CHR 0xEB, CHR 0xA1, CHR 0x9C, CHR 0xEC, CHR 0x9A, CHR 0xB4] @ '' 4''
       @ [CHR 0xEC, CHR 0xA7, CHR 0x80, CHR 0xEC, CHR 0x84, CHR 0xA0, CHR 0xEB, CHR 0x8B, CHR 0xA4] @ '' ''
       @ [CHR 0xEA, CHR 0xB0, CHR 0x9D, CHR 0xEA, CHR 0xB4, CHR 0x80, CHR 0xEC, CHR 0x8B, CHR 0x9D] @ '' ''
       @ [CHR 0xEB, CHR 0xAC, CHR 0xB8, CHR 0xEC, CHR 0xA0, CHR 0x9C] @ '' 1''
       @ [CHR 0xEA, CHR 0xB0, CHR 0x9C, CHR 0xEB, CHR 0xA5, CHR 0xBC] @ '' ''
       @ [CHR 0xED, CHR 0x95, CHR 0x9C, CHR 0xEA, CHR 0xB5, CHR 0xAD, CHR 0xEC, CHR 0x96, CHR 0xB4, CHR 0xEB,
         CHR 0xA1, CHR 0x9C]
       @ '' ''
       @ [CHR 0xEB, CHR 0xA7, CHR 0x8C, CHR 0xEB, CHR 0x93, CHR 0xA4, CHR 0xEC, CHR 0x96, CHR 0xB4, CHR 0xEB,
         CHR 0x9D, CHR 0xBC]
       @ ''.'',
          ''- '' @ [CHR 0xEC, CHR 0x9B, CHR 0x90, CHR 0xEB, CHR 0xB3, CHR 0xB8, CHR 0xEC, CHR 0x9D, CHR 0xB4] @ '' ''
       @ [CHR 0xEB, CHR 0xAC, CHR 0xBB, CHR 0xEB, CHR 0x8A, CHR 0x94] @ '' ''
       @ [CHR 0xED, CHR 0x95, CHR 0xB5, CHR 0xEC, CHR 0x8B, CHR 0xAC] @ '' ''
       @ [CHR 0xEA, CHR 0xB0, CHR 0x9C, CHR 0xEB, CHR 0x85, CHR 0x90] @ ''('' @ [CHR 0xEC, CHR 0x98,
         CHR 0x88] @ '': ''
       @ [CHR 0xED, CHR 0x8A, CHR 0xB8, CHR 0xEB, CHR 0xA6, CHR 0xAC] @ '' ''
       @ [CHR 0xEC, CHR 0x88, CHR 0x9C, CHR 0xED, CHR 0x9A, CHR 0x8C] @ '' ''
       @ [CHR 0xEA, CHR 0xB2, CHR 0xB0, CHR 0xEA, CHR 0xB3, CHR 0xBC] @ '', ''
       @ [CHR 0xED, CHR 0x9A, CHR 0x8C, CHR 0xEB, CHR 0xA1, CHR 0x9C] @ '' ''
       @ [CHR 0xEB, CHR 0x8F, CHR 0x99, CHR 0xEC, CHR 0x9E, CHR 0x91] @ '', ''
       @ [CHR 0xEC, CHR 0x9E, CHR 0x90, CHR 0xEB, CHR 0xA3, CHR 0x8C, CHR 0xEA, CHR 0xB5, CHR 0xAC, CHR 0xEC,
         CHR 0xA1, CHR 0xB0]
       @ '' '' @ [CHR 0xED, CHR 0x8A, CHR 0xB9, CHR 0xEC, CHR 0x84, CHR 0xB1] @ '')'' @ [CHR 0xEC, CHR 0x9D, CHR 0x84]
       @ '' ''
       @ [CHR 0xEC, CHR 0x9C, CHR 0xA0, CHR 0xEC, CHR 0xA7, CHR 0x80, CHR 0xED, CHR 0x95, CHR 0x98, CHR 0xEB,
         CHR 0x90, CHR 0x98]
       @ '', '' @ [CHR 0xEC, CHR 0xA7, CHR 0x88, CHR 0xEB, CHR 0xAC, CHR 0xB8] @ '' ''
       @ [CHR 0xED, CHR 0x91, CHR 0x9C, CHR 0xED, CHR 0x98, CHR 0x84, CHR 0xC2, CHR 0xB7, CHR 0xEB, CHR 0xB3,
         CHR 0xB4, CHR 0xEA, CHR 0xB8, CHR 0xB0, CHR 0xC2, CHR 0xB7, CHR 0xEC, CHR 0xA0, CHR 0x95, CHR 0xEB,
         CHR 0x8B, CHR 0xB5, CHR 0xEC, CHR 0x9D, CHR 0x80]
       @ '' '' @ [CHR 0xEC, CHR 0x83, CHR 0x88, CHR 0xEB, CHR 0xA1, CHR 0x9C] @ '' ''
       @ [CHR 0xEA, CHR 0xB5, CHR 0xAC, CHR 0xEC, CHR 0x84, CHR 0xB1, CHR 0xED, CHR 0x95, CHR 0x9C, CHR 0xEB,
         CHR 0x8B, CHR 0xA4]
       @ ''.'',
          ''- '' @ [CHR 0xEA, CHR 0xB7, CHR 0xB8, CHR 0xEB, CHR 0xA6, CHR 0xBC, CHR 0xEC, CHR 0x97, CHR 0x90] @ '' ''
       @ [CHR 0xEC, CHR 0xB0, CHR 0x8D, CHR 0xED, CHR 0x9E, CHR 0x8C] @ '' ''
       @ [CHR 0xEC, CHR 0x9B, CHR 0x8C, CHR 0xED, CHR 0x84, CHR 0xB0, CHR 0xEB, CHR 0xA7, CHR 0x88, CHR 0xED,
         CHR 0x81, CHR 0xAC, CHR 0xC2, CHR 0xB7, CHR 0xEB, CHR 0xA1, CHR 0x9C, CHR 0xEA, CHR 0xB3, CHR 0xA0,
         CHR 0xC2, CHR 0xB7, CHR 0xEC, CHR 0xB6, CHR 0x9C, CHR 0xEC, CHR 0xB2, CHR 0x98]
       @ '' '' @ [CHR 0xED, CHR 0x91, CHR 0x9C, CHR 0xEC, CHR 0x8B, CHR 0x9C] @ ''(Gisapass, ''
       @ [CHR 0xEA, CHR 0xB8, CHR 0xB0, CHR 0xEC, CHR 0x82, CHR 0xAC, CHR 0xED, CHR 0x8C, CHR 0xA8, CHR 0xEC,
         CHR 0x8A, CHR 0xA4]
       @ '', '' @ [CHR 0xEC, CHR 0x82, CHR 0xAC, CHR 0xEC, CHR 0x9D, CHR 0xB4, CHR 0xED, CHR 0x8A, CHR 0xB8] @ '' ''
       @ [CHR 0xEC, CHR 0xA3, CHR 0xBC, CHR 0xEC, CHR 0x86, CHR 0x8C] @ '' '' @ [CHR 0xEB, CHR 0x93, CHR 0xB1] @ '')''
       @ [CHR 0xEB, CHR 0x8A, CHR 0x94] @ '' '' @ [CHR 0xEC, CHR 0xA0, CHR 0x88, CHR 0xEB, CHR 0x8C, CHR 0x80] @ '' ''
       @ [CHR 0xEB, CHR 0xAC, CHR 0xB8, CHR 0xEC, CHR 0xA0, CHR 0x9C, CHR 0xEC, CHR 0x9D, CHR 0x98] @ '' ''
       @ [CHR 0xEC, CHR 0x86, CHR 0x8C, CHR 0xEC, CHR 0x9E, CHR 0xAC, CHR 0xEB, CHR 0xA1, CHR 0x9C] @ '' ''
       @ [CHR 0xEC, CHR 0x93, CHR 0xB0, CHR 0xEC, CHR 0xA7, CHR 0x80] @ '' ''
       @ [CHR 0xEB, CHR 0xA7, CHR 0x88, CHR 0xEB, CHR 0x9D, CHR 0xBC] @ ''. ''
       @ [CHR 0xEA, CHR 0xB7, CHR 0xB8, CHR 0xEA, CHR 0xB2, CHR 0x83, CHR 0xEC, CHR 0x9D, CHR 0x84] @ '' ''
       @ [CHR 0xEC, CHR 0x84, CHR 0xB8, CHR 0xEA, CHR 0xB1, CHR 0xB0, CHR 0xEB, CHR 0x82, CHR 0x98] @ '' ''
       @ [CHR 0xEB, CHR 0xAC, CHR 0xBB, CHR 0xEB, CHR 0x8A, CHR 0x94] @ '' ''
       @ [CHR 0xEB, CHR 0xAC, CHR 0xB8, CHR 0xEC, CHR 0xA0, CHR 0x9C, CHR 0xEB, CHR 0x8A, CHR 0x94] @ '' ''
       @ [CHR 0xEB, CHR 0xA7, CHR 0x8C, CHR 0xEB, CHR 0x93, CHR 0xA4, CHR 0xEC, CHR 0xA7, CHR 0x80] @ '' ''
       @ [CHR 0xEB, CHR 0xA7, CHR 0x88, CHR 0xEB, CHR 0x9D, CHR 0xBC] @ ''.'',
          ''- '' @ [CHR 0xEB, CHR 0xB3, CHR 0xB4, CHR 0xEA, CHR 0xB8, CHR 0xB0] @ '' 4''
       @ [CHR 0xEA, CHR 0xB0, CHR 0x9C, CHR 0xEB, CHR 0x8A, CHR 0x94] @ '' ''
       @ [CHR 0xEC, CHR 0x84, CHR 0x9C, CHR 0xEB, CHR 0xA1, CHR 0x9C] @ '' ''
       @ [CHR 0xEB, CHR 0xAA, CHR 0xA8, CHR 0xEB, CHR 0x91, CHR 0x90] @ '' ''
       @ [CHR 0xEB, CHR 0x8B, CHR 0xAC, CHR 0xEB, CHR 0x9D, CHR 0xBC, CHR 0xEC, CHR 0x95, CHR 0xBC] @ '' ''
       @ [CHR 0xED, CHR 0x95, CHR 0x9C, CHR 0xEB, CHR 0x8B, CHR 0xA4] @ ''(''
       @ [CHR 0xEB, CHR 0x8F, CHR 0x99, CHR 0xEC, CHR 0x9D, CHR 0xBC] @ '' ''
       @ [CHR 0xEB, CHR 0xB3, CHR 0xB4, CHR 0xEA, CHR 0xB8, CHR 0xB0] @ '' ''
       @ [CHR 0xEA, CHR 0xB8, CHR 0x88, CHR 0xEC, CHR 0xA7, CHR 0x80] @ '').'',
          ''- '' @ [CHR 0xEC, CHR 0xB6, CHR 0x9C, CHR 0xEB, CHR 0xA0, CHR 0xA5, CHR 0xEC, CHR 0x9D, CHR 0x80] @ '' ''
       @ [CHR 0xEB, CHR 0xB0, CHR 0x98, CHR 0xEB, CHR 0x93, CHR 0x9C, CHR 0xEC, CHR 0x8B, CHR 0x9C] @ '' ''
       @ [CHR 0xED, CHR 0x95, CHR 0x9C, CHR 0xEA, CHR 0xB5, CHR 0xAD, CHR 0xEC, CHR 0x96, CHR 0xB4, CHR 0xEB,
         CHR 0xA1, CHR 0x9C]
       @ '' '' @ [CHR 0xED, CHR 0x95, CHR 0x98, CHR 0xEB, CHR 0x9D, CHR 0xBC] @ ''. ''
       @ [CHR 0xEB, CHR 0x8B, CHR 0xA4, CHR 0xEB, CHR 0xA5, CHR 0xB8] @ '' ''
       @ [CHR 0xEC, CHR 0x96, CHR 0xB8, CHR 0xEC, CHR 0x96, CHR 0xB4, CHR 0xEB, CHR 0xA1, CHR 0x9C] @ '' ''
       @ [CHR 0xEB, CHR 0xB2, CHR 0x88, CHR 0xEC, CHR 0x97, CHR 0xAD, CHR 0xC2, CHR 0xB7, CHR 0xEC, CHR 0xB9,
         CHR 0x98, CHR 0xED, CHR 0x99, CHR 0x98, CHR 0xED, CHR 0x95, CHR 0x98, CHR 0xEC, CHR 0xA7, CHR 0x80]
       @ '' '' @ [CHR 0xEB, CHR 0xA7, CHR 0x88, CHR 0xEB, CHR 0x9D, CHR 0xBC] @ ''.'',
          ''- predicted_difficulty: '' @ [CHR 0xEC, CHR 0x9D, CHR 0xB4] @ '' ''
       @ [CHR 0xEB, CHR 0xAC, CHR 0xB8, CHR 0xED, CHR 0x95, CHR 0xAD, CHR 0xEC, CHR 0x9D, CHR 0x98] @ '' ''
       @ [CHR 0xEC, CHR 0xB2, CHR 0xB4, CHR 0xEA, CHR 0xB0, CHR 0x90] @ '' ''
       @ [CHR 0xEB, CHR 0x82, CHR 0x9C, CHR 0xEC, CHR 0x9D, CHR 0xB4, CHR 0xEB, CHR 0x8F, CHR 0x84, CHR 0xEB,
         CHR 0xA5, CHR 0xBC]
       @ '' '' @ [CHR 0x22, CHR 0xEC, CHR 0x83, CHR 0x81, CHR 0x22] @ ''/''
       @ [CHR 0x22, CHR 0xEC, CHR 0xA4, CHR 0x91, CHR 0x22] @ ''/''
       @ [CHR 0x22, CHR 0xED, CHR 0x95, CHR 0x98, CHR 0x22, CHR 0xEB, CHR 0xA1, CHR 0x9C] @ '' ''
       @ [CHR 0xEB, CHR 0x8F, CHR 0x85, CHR 0xEB, CHR 0xA6, CHR 0xBD] @ '' ''
       @ [CHR 0xED, CHR 0x8F, CHR 0x89, CHR 0xEA, CHR 0xB0, CHR 0x80, CHR 0xED, CHR 0x95, CHR 0x98, CHR 0xEB,
         CHR 0x9D, CHR 0xBC]
       @ ''('' @ [CHR 0xEC, CHR 0x83, CHR 0x81] @ ''=''
       @ [CHR 0xEC, CHR 0x96, CHR 0xB4, CHR 0xEB, CHR 0xA0, CHR 0xA4, CHR 0xEC, CHR 0x9B, CHR 0x80] @ '').'',
          ''- JSON'' @ [CHR 0xEB, CHR 0xA7, CHR 0x8C] @ '' ''
       @ [CHR 0xEC, CHR 0xB6, CHR 0x9C, CHR 0xEB, CHR 0xA0, CHR 0xA5] @ '': {'' @ [CHR 0x22] @ ''question_text''
       @ [CHR 0x22] @ '': str, '' @ [CHR 0x22] @ ''choices'' @ [CHR 0x22] @ '': [''
       @ [CHR 0xEB, CHR 0xB3, CHR 0xB4, CHR 0xEA, CHR 0xB8, CHR 0xB0] @ '' 4'' @ [CHR 0xEA, CHR 0xB0, CHR 0x9C]
       @ '' str], '' @ [CHR 0x22] @ ''answer'' @ [CHR 0x22] @ '': ''
       @ [CHR 0xEC, CHR 0xA0, CHR 0x95, CHR 0xEB, CHR 0x8B, CHR 0xB5] @ '' ''
       @ [CHR 0xEB, CHR 0xB3, CHR 0xB4, CHR 0xEA, CHR 0xB8, CHR 0xB0] @ '' ''
       @ [CHR 0xED, CHR 0x85, CHR 0x8D, CHR 0xEC, CHR 0x8A, CHR 0xA4, CHR 0xED, CHR 0x8A, CHR 0xB8] @ ''(choices ''
       @ [CHR 0xEC, CHR 0xA4, CHR 0x91] @ '' ''
       @ [CHR 0xED, CHR 0x95, CHR 0x98, CHR 0xEB, CHR 0x82, CHR 0x98, CHR 0xEC, CHR 0x99, CHR 0x80] @ '' ''
       @ [CHR 0xEC, CHR 0xA0, CHR 0x95, CHR 0xED, CHR 0x99, CHR 0x95, CHR 0xED, CHR 0x9E, CHR 0x88] @ '' ''
       @ [CHR 0xEC, CHR 0x9D, CHR 0xBC, CHR 0xEC, CHR 0xB9, CHR 0x98] @ ''), '' @ [CHR 0x22] @ ''explanation''
       @ [CHR 0x22] @ '': str, '' @ [CHR 0x22] @ ''predicted_difficulty'' @ [CHR 0x22] @ '': ''
       @ [CHR 0x22, CHR 0xEC, CHR 0x83, CHR 0x81] @ ''|'' @ [CHR 0xEC, CHR 0xA4, CHR 0x91] @ ''|''
       @ [CHR 0xED, CHR 0x95, CHR 0x98, CHR 0x22] @ ''}'']))"

definition WATERMARK_HINTS :: "string list" where
  "WATERMARK_HINTS = [''gisapass'', [CHR 0xEA, CHR 0xB8, CHR 0xB0, CHR 0xEC, CHR 0x82, CHR 0xAC, CHR 0xED, CHR 0x8C,
         CHR 0xA8, CHR 0xEC, CHR 0x8A, CHR 0xA4], ''gisafirst'', ''comcbt'']"

definition references_watermark :: "pylib \<Rightarrow> string \<Rightarrow> bool" where
  "references_watermark L t = list_ex (\<lambda>h. contains h (lower_of L t)) WATERMARK_HINTS"

definition parse_json_obj :: "pylib \<Rightarrow> raw_decoder \<Rightarrow> string \<Rightarrow> pyval" where
  \<comment> \<open>\<open>PNone\<close> when nothing can be read\<close>
  "parse_json_obj L dec raw =
     (if raw = [] then PNone
      else let s = unfence L raw in
        case json_loads L s of
          Inr v \<Rightarrow> v
        | Inl _ \<Rightarrow>
            (let rest = dropWhile (\<lambda>c. c \<noteq> CHR ''{'') s
             in if rest = [] then PNone
                else case dec rest of Inr (PDict d) \<Rightarrow> PDict d | _ \<Rightarrow> PNone))"

definition acceptable_figure_item :: "pylib \<Rightarrow> string \<Rightarrow> string list \<Rightarrow> string \<Rightarrow> string \<Rightarrow> bool" where
  \<comment> \<open>four different choices, one of them the answer, and no watermark in the text\<close>
  "acceptable_figure_item L qtext choices answer explanation =
     (qtext \<noteq> [] \<and> length choices = 4 \<and> answer \<in> set choices
      \<and> \<not> card (set (map (\<lambda>c. lower_of L (py_strip c)) choices)) < 4
      \<and> \<not> references_watermark L (qtext @ '' '' @ py_join '' '' choices @ '' '' @ explanation))"

definition figure_item ::
  "pylib \<Rightarrow> string \<Rightarrow> figure_criteria \<Rightarrow> item \<Rightarrow> string \<Rightarrow> string \<Rightarrow> string list \<Rightarrow> string \<Rightarrow> pydict \<Rightarrow> item" where
  \<comment> \<open>the record built from an accepted answer; the figure is the one of the reference item\<close>
  "figure_item L domain_id c ref item_id qtext choices answer d =
     (let expl = py_str L (dget d ''explanation'' (PStr [])) in
      (new_item item_id domain_id)\<lparr>it_subject := Some (str_or (it_subject ref) (fc_subject c)),
        it_chapter := (case it_chapter ref of Some ch \<Rightarrow> if ch = [] then fc_chapter c else Some ch
                       | None \<Rightarrow> fc_chapter c),
        it_difficulty := Some (fc_difficulty c), it_question_type := Some ''multiple_choice'',
        it_question_text := qtext, it_choices := map PStr choices, it_answer := answer,
        it_explanation := (if expl = [] then None else Some expl), it_tags := [PStr ''figure_reuse''],
        it_quality_status := ''draft'', it_source := Some ''generated'',
        it_reference_item_ids := [it_item_id ref], it_assets := it_assets ref, it_figure_dependent := True,
        it_predicted_difficulty := norm_predicted_difficulty L (dget d ''predicted_difficulty'' PNone)\<rparr>)"

definition add_figure ::
  "figure_service \<Rightarrow> bool \<Rightarrow> nat \<Rightarrow> item \<Rightarrow> item \<Rightarrow> figure_result \<times> bank \<Rightarrow> figure_result \<times> bank" where
  "add_figure svc persist n ref r0 rb =
     (let (r, b) = rb; (r1, b') = (if persist then bank_upsert (fs_clock svc n) r0 b else (r0, b))
      in (r\<lparr>fr_items := fr_items r @ [r1], fr_references_used := fr_references_used r @ [it_item_id ref]\<rparr>, b'))"

definition reuse_figure ::
  "figure_service \<Rightarrow> string \<Rightarrow> figure_criteria \<Rightarrow> bool \<Rightarrow> nat \<Rightarrow> item \<Rightarrow> string
   \<Rightarrow> figure_result \<times> bank \<Rightarrow> (figure_result \<times> bank) res" where
  \<comment> \<open>what happens to the VLM's answer for one reference item\<close>
  "reuse_figure svc domain_id c persist n0 ref raw rb =
     (let (r, b) = rb; L = fs_lib svc; parsed = parse_json_obj L (fs_decode svc) raw;
          rejected = Inr (r\<lparr>fr_rejected_invalid := fr_rejected_invalid r + 1\<rparr>, b) in
      if \<not> truthy parsed then rejected
      else bind_res (as_dict parsed) (\<lambda>d.
        bind_res (py_iter (py_or (dget d ''choices'' PNone) (PList []))) (\<lambda>cs.
        let qtext = py_strip (py_str L (dget d ''question_text'' (PStr [])));
            choices = filter (\<lambda>x. x \<noteq> []) (map (\<lambda>x. py_strip (py_str L x)) cs);
            answer = py_strip (py_str L (dget d ''answer'' (PStr [])));
            n = n0 + length (fr_items r) in
        if \<not> acceptable_figure_item L qtext choices answer
               (py_str L (py_or (dget d ''explanation'' PNone) (PStr []))) then rejected
        else Inr (add_figure svc persist n ref
                    (figure_item L domain_id c ref (''Q-'' @ fs_uuid svc n) qtext choices answer d) (r, b)))))"

fun figure_loop ::
  "figure_service \<Rightarrow> string \<Rightarrow> figure_criteria \<Rightarrow> bool \<Rightarrow> nat \<Rightarrow> nat \<Rightarrow> item list
   \<Rightarrow> figure_result \<times> bank \<Rightarrow> (figure_result \<times> bank) res" where
  \<comment> \<open>\<open>n0\<close> counts fresh identifiers, \<open>m\<close> the calls of the VLM\<close>
  "figure_loop svc domain_id c persist n0 m [] (r, b) = Inr (r, b)"
| "figure_loop svc domain_id c persist n0 m (ref # refs) (r, b) =
     (if int (length (fr_items r)) \<ge> fc_count c then Inr (r, b)
      else bind_res (case it_assets ref of [] \<Rightarrow> Inl IndexError | a # _ \<Rightarrow> opt_dict a) (\<lambda>asset.
        let key = dget asset ''storage_key'' PNone;
            skipped = (r\<lparr>fr_skipped_no_image := fr_skipped_no_image r + 1\<rparr>, b) in
        if \<not> truthy key then figure_loop svc domain_id c persist n0 m refs skipped
        else case fs_load_image svc key of
          Inl _ \<Rightarrow> figure_loop svc domain_id c persist n0 m refs skipped
        | Inr img \<Rightarrow>
           (case fs_describe svc m \<lparr>vc_image = img, vc_prompt = build_vlm_prompt (fs_lib svc) ref,
                   vc_model = fs_model svc, vc_max_tokens = 700, vc_temperature = 0.4\<rparr> of
              Inl _ \<Rightarrow> figure_loop svc domain_id c persist n0 (Suc m) refs (r\<lparr>fr_vlm_errors := fr_vlm_errors r + 1\<rparr>, b)
            | Inr raw \<Rightarrow> bind_res (reuse_figure svc domain_id c persist n0 ref raw (r, b))
                           (figure_loop svc domain_id c persist n0 (Suc m) refs))))"

definition empty_figure_result :: figure_result where
  "empty_figure_result = \<lparr>fr_items = [], fr_generated_count = 0, fr_references_used = [],
         fr_skipped_no_image = 0,
     fr_rejected_invalid = 0, fr_vlm_errors = 0, fr_vlm_unavailable = False\<rparr>"

definition figure_generate ::
  "figure_service \<Rightarrow> string \<Rightarrow> figure_criteria \<Rightarrow> bool \<Rightarrow> nat \<Rightarrow> bank \<Rightarrow> (figure_result \<times> bank) res" where
  "figure_generate svc domain_id c persist n0 b =
     bind_res (fs_health svc) (\<lambda>up.
       if \<not> up then Inr (empty_figure_result\<lparr>fr_vlm_unavailable := True\<rparr>, b)
       else bind_res (list_candidates_for_extract (fs_clock svc n0) b domain_id
                        (default_criteria\<lparr>ec_subject := Some (fc_subject c),
         ec_chapter := fc_chapter c\<rparr>) 200) (\<lambda>cands.
         bind_res (figure_loop svc domain_id c persist n0 0
                     (filter (\<lambda>r. it_figure_dependent r \<and> it_assets r \<noteq> []) cands) (empty_figure_result, b)) (\<lambda>(r, b').
           Inr (r\<lparr>fr_generated_count := length (fr_items r)\<rparr>, b'))))"

section \<open>The hybrid mode\<close>

record hybrid_result =
  hr_items :: "item list"
  hr_extracted_count :: nat
  hr_generated_count :: nat
  hr_citations :: "pyval list"
  hr_insufficient_pool :: "(string \<times> int) list"
  hr_rejected_duplicates :: nat
  hr_validator_summary :: pydict
  hr_similarity_results :: "pyval list"

definition hybrid_run ::
  "real \<Rightarrow> sampler \<Rightarrow> nat \<Rightarrow> generate_service \<Rightarrow> string \<Rightarrow> extract_criteria \<Rightarrow> generate_criteria \<Rightarrow> pydict \<Rightarrow> nat
   \<Rightarrow> bank \<Rightarrow> (hybrid_result \<times> bank) res" where
  "hybrid_run now sample n svc domain_id ec gc vcfg n0 b =
     bind_res (extract_items now sample n domain_id ec b) (\<lambda>(ex, b1).
     bind_res (generate svc domain_id gc vcfg True True n0 b1) (\<lambda>(ge, b2).
       let items = er_items ex @ ge_items ge in
       Inr (\<lparr>hr_items = items, hr_extracted_count = er_extracted_count ex,
             hr_generated_count = ge_generated_count ge, hr_citations = numbered_citations domain_id items,
             hr_insufficient_pool = er_insufficient_pool ex, hr_rejected_duplicates = ge_rejected_duplicates ge,
             hr_validator_summary = ge_validator_summary ge,
             hr_similarity_results = ge_similarity_results ge\<rparr>, b2)))"

section \<open>The duplicate key\<close>

text \<open>
  Unicode normalisation followed by case folding (\<open>unicodedata.normalize("NFKC", s).casefold()\<close>) is a
  parameter; the substitution that keeps digits, Latin letters and Hangul syllables is written out.
\<close>

definition word_char :: "string \<Rightarrow> bool" where
  "word_char cp =
     (length cp = 1 \<and> (''0'' \<le> cp \<and> cp \<le> ''9'' \<or> ''a'' \<le> cp \<and> cp \<le> ''z'')
      \<or> [CHR 0xEA, CHR 0xB0, CHR 0x80] \<le> cp \<and> cp \<le> [CHR 0xED, CHR 0x9E, CHR 0xA3])"

definition norm_text :: "(string \<Rightarrow> string) \<Rightarrow> string \<Rightarrow> string" where
  "norm_text fold_case s = concat (filter word_char (utf8_chars (fold_case s)))"

definition dedup_key :: "pylib \<Rightarrow> (string \<Rightarrow> string) \<Rightarrow> string \<Rightarrow> pyval list \<Rightarrow> string" where
  "dedup_key L fold_case question_text choices =
     norm_text fold_case question_text @ ''|''
       @ py_join ''|'' (sort (filter (\<lambda>x. x \<noteq> []) (map (\<lambda>c. norm_text fold_case (py_str L c)) choices)))"

end
