(* ===== verification/Item_Properties.thy ===== *)
theory Item_Properties
  imports Item_Services
begin

text \<open>
  What the assessment services guarantee: the similarity check is a true maximum, the validators fail
  closed, generation only adds guarded items that still wait for approval, extraction respects the
  requested distribution, and the duplicate key ignores the order of the choices.
\<close>

section \<open>Similarity\<close>

lemma similarity_loop_max:
  assumes "similarity_loop thr v es cs s = Inr s'"
  shows "sm_max_similarity s \<le> sm_max_similarity s' \<and> length cs \<le> length es
    \<and> (\<forall>i < length cs. strict_cosine v (fst (es ! i)) \<le> sm_max_similarity s')"
  using assms
proof (induction thr v es cs s rule: similarity_loop.induct)
  case (3 thr v e es c cs s)
  then have IH: "sm_max_similarity (note_similarity thr (it_item_id c) (strict_cosine v (fst e)) s) \<le> sm_max_similarity s'"
      "length cs \<le> length es" "\<forall>i < length cs. strict_cosine v (fst (es ! i)) \<le> sm_max_similarity s'"
    by auto
  then have "sm_max_similarity s \<le> sm_max_similarity s'" "strict_cosine v (fst e) \<le> sm_max_similarity s'"
    by (auto simp: note_similarity_def split: if_splits)
  with IH show ?case by (auto simp: nth_Cons split: nat.splits)
qed auto

lemma not_duplicate:
  assumes "similarity_check emb thr q cs = Inr r" and "\<not> sm_is_duplicate r" and "i < length cs"
  shows "\<exists>es. emb (q # map it_question_text cs) = Inr es
    \<and> strict_cosine (fst (es ! 0)) (fst (es ! Suc i)) < th_duplicate thr"
proof -
  let ?r0 = "\<lparr>sm_max_similarity = 0, sm_is_duplicate = False, sm_similar_candidates = []\<rparr>"
  have cs: "cs \<noteq> []" using assms(3) by auto
  then obtain es where es: "emb (q # map it_question_text cs) = Inr es"
    using assms(1) by (auto simp: similarity_check_def Let_def)
  obtain e rest where e: "es = e # rest"
    using assms(1) cs es by (cases es) (auto simp: similarity_check_def Let_def)
  obtain r1 where r1: "similarity_loop thr (fst e) rest cs ?r0 = Inr r1"
      "r = r1\<lparr>sm_is_duplicate := sm_max_similarity r1 \<ge> th_duplicate thr\<rparr>"
    using assms(1) cs es e by (auto simp: similarity_check_def Let_def)
  show ?thesis
    using similarity_loop_max [OF r1(1)] assms(2,3) es e r1(2) by fastforce
qed

section \<open>Validation\<close>

lemma run_validators_all:
  assumes "run_validators f names n = Inr (rs, n')"
    and step: "\<And>name m r m'. f name m = Inr (r, m') \<Longrightarrow> P name r m m' \<and> m \<le> m' \<and> m' \<le> m + k"
    and mono: "\<And>name r a b a' b'. P name r a b \<Longrightarrow> a' \<le> a \<Longrightarrow> b \<le> b' \<Longrightarrow> P name r a' b'"
  shows "list_all2 (\<lambda>name r. P name r n n') names rs \<and> n \<le> n' \<and> n' \<le> n + k * length names"
  using assms(1)
proof (induction names arbitrary: n rs)
  case (Cons name names)
  then obtain r n1 rs' where r: "f name n = Inr (r, n1)" "run_validators f names n1 = Inr (rs', n')" "rs = r # rs'"
    by auto
  note IH = Cons.IH [OF r(2)] and here = step [OF r(1)]
  have "list_all2 (\<lambda>name r. P name r n n') names rs'"
    by (rule list_all2_mono [OF IH [THEN conjunct1]]) (use here in \<open>blast intro: mono\<close>)
  moreover have "P name r n n'" using mono here IH by blast
  ultimately show ?case using IH here r(3) by simp
qed simp

lemma attempts_calls:
  assumes "validator_attempts L dec llm call k st n = ((raw, parsed, err), n')"
  shows "n \<le> n' \<and> n' \<le> n + k \<and> (err = None \<longrightarrow> snd (snd st) = None \<or>
     (\<exists>j. n \<le> j \<and> j < n' \<and> llm j call = Inr raw \<and> parse_json L dec raw = (parsed, None)))"
  using assms
proof (induction k arbitrary: st n)
  case (Suc k)
  obtain raw0 parsed0 err0 where st: "st = (raw0, parsed0, err0)" by (cases st)
  show ?case
  proof (cases "llm n call")
    case (Inl e)
    from Suc.IH [of "(raw0, parsed0, Some (''llm_failed: '' @ exc_text L e))" "Suc n"] Suc.prems Inl st show ?thesis
      by (auto intro: Suc_leD)
  next
    case (Inr raw1)
    obtain parsed1 err1 where p: "parse_json L dec raw1 = (parsed1, err1)" by (cases "parse_json L dec raw1")
    show ?thesis
    proof (cases err1)
      case None
      then show ?thesis using Suc.prems Inr st p by auto
    next
      case (Some e)
      from Suc.IH [of "(raw1, parsed1, err1)" "Suc n"] Suc.prems Inr st p Some show ?thesis by (auto intro: Suc_leD)
    qed
  qed
qed simp

definition verdict :: "pylib \<Rightarrow> raw_decoder \<Rightarrow> llm_oracle \<Rightarrow> llm_call \<Rightarrow> nat \<Rightarrow> nat \<Rightarrow> bool \<Rightarrow> real \<Rightarrow> bool" where
  \<comment> \<open>one of the calls from \<open>n\<close> up to \<open>n'\<close> was answered with a JSON object with this verdict and this score;
      a missing verdict is a negative one, a missing score counts as zero\<close>
  "verdict L dec llm call n n' valid score \<longleftrightarrow>
     (\<exists>k raw d. n \<le> k \<and> k < n' \<and> llm k call = Inr raw \<and> parse_json L dec raw = (PDict d, None)
        \<and> valid = (\<exists>v. map_of d ''valid'' = Some v \<and> truthy v)
        \<and> py_float L (py_or (dget d ''score'' (PFloat 0)) (PFloat 0)) = Inr score)"

definition switched_on :: "pydict \<Rightarrow> string \<Rightarrow> bool" where
  \<comment> \<open>a validator is switched off by its \<open>enable\<close> flag only\<close>
  "switched_on cfg name \<longleftrightarrow> (\<forall>vcfg v. map_of cfg name = Some (PDict vcfg) \<and> map_of vcfg ''enable'' = Some v \<longrightarrow> truthy v)"

definition run_ok :: "pylib \<Rightarrow> raw_decoder \<Rightarrow> llm_oracle \<Rightarrow> (string \<Rightarrow> llm_call) \<Rightarrow> pydict \<Rightarrow> string \<Rightarrow> validator_run \<Rightarrow> nat \<Rightarrow> nat \<Rightarrow> bool" where
  \<comment> \<open>what one validator may report\<close>
  "run_ok L dec llm call cfg name r n n' \<longleftrightarrow> vr_name r = name \<and> vr_enabled r = switched_on cfg name
     \<and> (vr_parse_error r \<noteq> None \<longrightarrow> \<not> vr_valid r)
     \<and> (vr_enabled r \<and> vr_parse_error r = None \<longrightarrow> verdict L dec llm (call name) n n' (vr_valid r) (vr_score r))"

lemma run_ok_mono: "run_ok L dec llm call cfg name r a b \<Longrightarrow> a' \<le> a \<Longrightarrow> b \<le> b' \<Longrightarrow> run_ok L dec llm call cfg name r a' b'"
  unfolding run_ok_def verdict_def by (meson order_trans less_le_trans)

lemma dget_truthy_False: "truthy (dget d key (PBool False)) \<longleftrightarrow> (\<exists>v. map_of d key = Some v \<and> truthy v)"
  by (auto simp: dget_def split: option.splits)

lemma read_run_verdict:
  assumes "read_run L name raw parsed = Inr r"
  shows "\<exists>d. parsed = PDict d \<and> vr_name r = name \<and> vr_enabled r \<and> vr_parse_error r = None
    \<and> vr_valid r = (\<exists>v. map_of d ''valid'' = Some v \<and> truthy v)
    \<and> py_float L (py_or (dget d ''score'' (PFloat 0)) (PFloat 0)) = Inr (vr_score r)"
  using assms by (cases parsed) (auto simp: read_run_def default_run_def dget_truthy_False)

lemma switched_on_code:
  "as_dict (dget cfg name (PDict [])) = Inr vcfg \<Longrightarrow> switched_on cfg name = truthy (dget vcfg ''enable'' (PBool True))"
  by (cases "map_of cfg name") (auto simp: switched_on_def dget_def split: pyval.splits option.splits elim!: as_dict.elims)

lemma run_validator_ok:
  assumes "run_validator L dec llm model cfg prompt name n = Inr (r, n')"
  shows "run_ok L dec llm (\<lambda>name. plain_call (prompt name) model 512 0) cfg name r n n' \<and> n \<le> n' \<and> n' \<le> n + 2"
proof -
  obtain vcfg where vcfg: "as_dict (dget cfg name (PDict [])) = Inr vcfg"
    using assms by (auto simp: run_validator_def)
  note on = switched_on_code [OF vcfg]
  show ?thesis
  proof (cases "truthy (dget vcfg ''enable'' (PBool True))")
    case True
    obtain raw parsed err m where a: "validator_attempts L dec llm (plain_call (prompt name) model 512 0) 2
        ([], PDict [], Some ''empty_response'') n = ((raw, parsed, err), m)"
      by (metis prod_cases3 surj_pair)
    note calls = attempts_calls [OF a]
    show ?thesis
    proof (cases err)
      case None
      then have r: "read_run L name raw parsed = Inr r" "n' = m" using assms vcfg True a by (auto simp: run_validator_def)
      from read_run_verdict [OF r(1)] calls None on True show ?thesis
        by (auto simp: run_ok_def verdict_def r(2))
    next
      case (Some e)
      then show ?thesis using assms vcfg True a on calls by (auto simp: run_validator_def run_ok_def default_run_def)
    qed
  qed (use assms vcfg on in \<open>auto simp: run_validator_def run_ok_def default_run_def\<close>)
qed

lemma aggregate_status: "vo_quality_status (aggregate rs) \<in> {''draft'', ''reviewed''}"
  by (simp add: aggregate_def Let_def)

lemma aggregate_reviewed:
  "vo_quality_status (aggregate rs) = ''reviewed'' \<longleftrightarrow>
     (\<forall>r \<in> set rs. vr_enabled r \<longrightarrow> vr_valid r \<and> (vr_parse_error r = None \<longrightarrow> 0.5 \<le> vr_score r))"
  by (auto simp: aggregate_def Let_def list_ex_iff scored_def)

lemma validate_status:
  assumes "validate L dec llm model q cs a e d cfg n = Inr (o1, n')"
  shows "vo_quality_status o1 \<in> {''draft'', ''reviewed''}"
  using assms aggregate_status by (auto simp: validate_def Let_def)

text \<open>
  (C12) Validation fails closed: when validation returns, after at most eight LLM calls, the question is
  reviewed or draft, never approved. There is one result for each of the four validators, which is switched
  on unless the configuration switches it off. A result of a validator that is on and without a parse error
  carries the verdict and the score that the model gave, in a JSON object, in answer to that validator's
  prompt. The question is reviewed exactly when each validator that is on has no parse error, a positive
  verdict and a score of at least one half. Scores are real numbers here; the float \<open>NaN\<close> is none.
\<close>

theorem validation_fails_closed:
  assumes "validate L dec llm model q cs a e d cfg n = Inr (o1, n')"
  shows "vo_quality_status o1 \<in> {''draft'', ''reviewed''} \<and> n' \<le> n + 8
    \<and> (\<exists>rs. vo_validator_results o1 = map (\<lambda>r. (vr_name r, run_to_dict r)) rs \<and> map vr_name rs = VALIDATOR_NAMES
         \<and> (\<forall>r \<in> set rs. vr_enabled r = switched_on cfg (vr_name r)
              \<and> (vr_enabled r \<and> vr_parse_error r = None \<longrightarrow>
                   verdict L dec llm (plain_call (validator_prompt (vr_name r) q (py_join '', '' (map (py_str L) cs)) a (str_or e []) (str_or d []))
                     model 512 0) n n' (vr_valid r) (vr_score r)))
         \<and> (vo_quality_status o1 = ''reviewed'' \<longleftrightarrow>
              (\<forall>r \<in> set rs. vr_enabled r \<longrightarrow> vr_valid r \<and> vr_parse_error r = None \<and> 0.5 \<le> vr_score r)))"
proof -
  let ?call = "\<lambda>name. plain_call (validator_prompt name q (py_join '', '' (map (py_str L) cs)) a (str_or e []) (str_or d [])) model 512 0"
  obtain rs where rs: "run_validators (run_validator L dec llm model cfg (\<lambda>name. validator_prompt name q
        (py_join '', '' (map (py_str L) cs)) a (str_or e []) (str_or d []))) VALIDATOR_NAMES n = Inr (rs, n')" "o1 = aggregate rs"
    using assms by (auto simp: validate_def Let_def)
  have "list_all2 (\<lambda>name r. run_ok L dec llm ?call cfg name r n n') VALIDATOR_NAMES rs \<and> n \<le> n' \<and> n' \<le> n + 2 * length VALIDATOR_NAMES"
    by (rule run_validators_all [where P = "run_ok L dec llm ?call cfg", OF rs(1)]) (erule run_validator_ok, erule run_ok_mono)
  then have ok: "list_all2 (\<lambda>name r. run_ok L dec llm ?call cfg name r n n') VALIDATOR_NAMES rs"
    and calls: "n' \<le> n + 2 * length VALIDATOR_NAMES"
    by blast+
  have names: "map vr_name rs = VALIDATOR_NAMES"
    using ok by (auto simp: run_ok_def list_all2_conv_all_nth intro!: nth_equalityI)
  have each: "run_ok L dec llm ?call cfg (vr_name r) r n n'" if "r \<in> set rs" for r
    using list_all2_in_right [OF ok that] by (auto simp: run_ok_def)
  have "vr_valid r \<Longrightarrow> vr_parse_error r = None" if "r \<in> set rs" for r
    using each [OF that] by (auto simp: run_ok_def)
  then have "vo_quality_status o1 = ''reviewed'' \<longleftrightarrow>
      (\<forall>r \<in> set rs. vr_enabled r \<longrightarrow> vr_valid r \<and> vr_parse_error r = None \<and> 0.5 \<le> vr_score r)"
    unfolding rs(2) aggregate_reviewed by auto
  moreover have "\<forall>r \<in> set rs. vr_enabled r = switched_on cfg (vr_name r)
      \<and> (vr_enabled r \<and> vr_parse_error r = None \<longrightarrow> verdict L dec llm (?call (vr_name r)) n n' (vr_valid r) (vr_score r))"
    using each by (auto simp: run_ok_def)
  moreover have "vo_validator_results o1 = map (\<lambda>r. (vr_name r, run_to_dict r)) rs" by (simp add: rs(2) aggregate_def Let_def)
  moreover have "vo_quality_status o1 \<in> {''draft'', ''reviewed''}" using aggregate_status [of rs] rs(2) by simp
  moreover have "n' \<le> n + 8" using calls by (simp add: VALIDATOR_NAMES_def)
  ultimately show ?thesis using names by (intro conjI exI [of _ rs])
qed

text \<open>
  An answer that is JSON but not an object breaks validation: when the model answers the first
  validator with, say, a JSON list, the validator raises instead of recording a parse error, although
  every other unreadable answer only makes the question a draft.
\<close>

theorem json_list_breaks_validation:
  assumes "llm n (plain_call (validator_prompt ''answer'' q (py_join '', '' (map (py_str L) cs)) a
                               (str_or e []) (str_or d [])) model 512 0) = Inr raw"
    and "raw \<noteq> []" and "json_loads L (unfence L raw) = Inr (PList vs)"
  shows "validate L dec llm model q cs a e d [] n = Inl AttributeError"
  using assms
  by (simp add: validate_def VALIDATOR_NAMES_def run_validator_def dget_def numeral_2_eq_2 parse_json_def
      read_run_def Let_def)

section \<open>Generation\<close>

lemma consider_all_inv:
  assumes "consider_all f target xs g = Inr g'" and "I g"
    and "\<And>x g g'. f x g = Inr g' \<Longrightarrow> I g \<Longrightarrow> int (length (g_produced g)) < target \<Longrightarrow> I g'"
  shows "I g'"
  using assms(1,2)
proof (induction xs arbitrary: g)
  case (Cons x xs)
  show ?case
  proof (cases "int (length (g_produced g)) < target")
    case True
    then obtain g1 where "f x g = Inr g1" "consider_all f target xs g1 = Inr g'"
      using Cons.prems(1) by auto
    with True Cons.IH [of g1] Cons.prems(2) assms(3) [of x g g1] show ?thesis by blast
  qed (use Cons.prems in simp)
qed simp

lemma gen_rounds_inv:
  assumes "gen_rounds svc c refs f k i g = Inr g'" and "I g"
    and "\<And>x g g'. f x g = Inr g' \<Longrightarrow> I g \<Longrightarrow> int (length (g_produced g)) < gc_count c \<Longrightarrow> I g'"
    and "\<And>g n. I g \<Longrightarrow> n \<le> i + k \<Longrightarrow> I (g\<lparr>g_retries := n\<rparr>)"
  shows "I g'"
  using assms(1,2,4)
proof (induction k arbitrary: i g)
  case (Suc k)
  let ?g1 = "g\<lparr>g_retries := Suc i\<rparr>" and ?needed = "gc_count c - int (length (g_produced g))"
  have I1: "I ?g1" using Suc.prems by simp
  have keep: "I (g\<lparr>g_retries := n\<rparr>)" if "I g" "n \<le> Suc i + k" for g n
    using Suc.prems(3) that by simp
  note next_round = Suc.IH [of "Suc i", OF _ _ keep]
  show ?case
  proof (cases "gv_llm svc i (plain_call (generate_prompt c ?needed refs) (gv_model svc) 2048 0.4)")
    case (Inl e)
    then show ?thesis using Suc.prems I1 next_round [of ?g1] by (auto simp: Let_def split: if_splits)
  next
    case (Inr raw)
    obtain items err where p: "parse_json_items (gv_lib svc) raw = (items, err)" by (cases "parse_json_items (gv_lib svc) raw")
    show ?thesis
    proof (cases err)
      case None
      show ?thesis
      proof (cases "?needed \<le> 0")
        case False
        then obtain g2 where "consider_all f (gc_count c) items ?g1 = Inr g2"
            "gen_rounds svc c refs f k (Suc i) g2 = Inr g'"
          using Suc.prems(1) Inr p None by (auto simp: Let_def)
        moreover from this(1) have "I g2"
          by (rule consider_all_inv [where I = I]) (fact I1, fact assms(3))
        ultimately show ?thesis using next_round by blast
      qed (use Suc.prems in \<open>simp add: Let_def\<close>)
    qed (use Suc.prems I1 next_round [of ?g1] Inr p in \<open>auto simp: Let_def split: if_splits\<close>)
  qed
qed simp

definition guarded :: "generate_service \<Rightarrow> string \<Rightarrow> generate_criteria \<Rightarrow> item \<Rightarrow> bool" where
  \<comment> \<open>what is required of a generated item\<close>
  "guarded svc d c r \<longleftrightarrow> it_domain_id r = d \<and> it_subject r = Some (gc_subject c) \<and> it_source r = Some ''generated''
     \<and> it_quality_status r \<in> {''draft'', ''reviewed''} \<and> it_question_text r \<noteq> []
     \<and> \<not> has_cjk_ideograph (it_question_text r) \<and> \<not> references_figure (it_question_text r)
     \<and> (\<forall>x \<in> set (it_choices r). \<not> has_cjk_ideograph (py_str (gv_lib svc) x) \<and> \<not> references_figure (py_str (gv_lib svc) x))
     \<and> (\<forall>e. it_explanation r = Some e \<longrightarrow> \<not> has_cjk_ideograph e \<or> (\<exists>v. \<not> truthy v \<and> e = py_str (gv_lib svc) v))
     \<and> \<not> degenerate_choices (gv_lib svc) (gv_is_digit svc) (it_choices r)"

definition gen_ok :: "generate_service \<Rightarrow> string \<Rightarrow> generate_criteria \<Rightarrow> bool \<Rightarrow> bank \<Rightarrow> gen_state \<Rightarrow> bool" where
  "gen_ok svc d c persist b g \<longleftrightarrow> (\<forall>r \<in> set (g_produced g). guarded svc d c r)
     \<and> int (length (g_produced g)) \<le> max 0 (gc_count c) \<and> g_retries g \<le> gv_max_retries svc
     \<and> (\<not> persist \<longrightarrow> g_bank g = b)
     \<and> (\<forall>k. status_of (g_bank g) k = Some ''approved'' \<longrightarrow> status_of b k = Some ''approved'')"

lemma outcome_for_ok:
  assumes "outcome_for svc c vcfg v q cs d g = Inr (o1, g')"
  shows "vo_quality_status o1 \<in> {''draft'', ''reviewed''} \<and> g_produced g' = g_produced g
    \<and> g_bank g' = g_bank g \<and> g_retries g' = g_retries g"
  using assms validate_status by (fastforce simp: outcome_for_def Let_def split: if_splits)

lemma consider_cases:
  assumes "consider_candidate svc dm c vcfg persist v n0 refs x g = Inr g'"
  shows "g_produced g' = g_produced g \<and> g_bank g' = g_bank g \<and> g_retries g' = g_retries g
    \<or> (\<exists>r g2 n. guarded svc dm c r \<and> g_produced g2 = g_produced g \<and> g_bank g2 = g_bank g
         \<and> g_retries g2 = g_retries g \<and> g' = add_generated svc persist n r g2)"
proof -
  obtain d where d: "x = PDict d" using assms by (cases x) (auto simp: consider_candidate_def)
  let ?q = "py_strip (py_str (gv_lib svc) (dget d ''question_text'' (PStr [])))"
  show ?thesis
  proof (cases "?q = [] \<or> foreign_text svc ?q d")
    case False
    then obtain choices where cs: "py_iter (py_or (dget d ''choices'' PNone) (PList [])) = Inr choices"
      using assms d by (auto simp: consider_candidate_def Let_def)
    show ?thesis
    proof (cases "unusable svc ?q choices")
      case usable: False
      obtain sim where sim: "similarity_of svc dm (gc_subject c) refs ?q = Inr sim"
        using assms d False cs usable by (auto simp: consider_candidate_def Let_def)
      show ?thesis
      proof (cases "fst (snd sim)")
        case new: False
        obtain o1 g2 tags n where o1: "outcome_for svc c vcfg v ?q choices d
              (g\<lparr>g_similarity := g_similarity g @ [similarity_entry ?q sim]\<rparr>) = Inr (o1, g2)"
            "g' = add_generated svc persist n (generated_item svc dm c (''Q-'' @ gv_uuid svc n) ?q choices d tags o1
                    (map fst (snd (snd sim)))) g2"
          using assms d False cs usable sim new by (auto simp: consider_candidate_def Let_def)
        have expl: "\<not> has_cjk_ideograph (py_str (gv_lib svc) (dget d ''explanation'' (PStr [])))
            \<or> (\<exists>v. \<not> truthy v \<and> py_str (gv_lib svc) (dget d ''explanation'' (PStr [])) = py_str (gv_lib svc) v)"
          using False by (cases "map_of d ''explanation''") (auto simp: foreign_text_def dget_def py_or_def split: if_splits)
        have "guarded svc dm c (generated_item svc dm c (''Q-'' @ gv_uuid svc n) ?q choices d tags o1
            (map fst (snd (snd sim))))"
          using False usable expl outcome_for_ok [OF o1(1)]
          by (auto simp: guarded_def generated_item_def new_item_def foreign_text_def unusable_def Let_def list_ex_iff
              split: if_splits)
        then show ?thesis using o1(2) outcome_for_ok [OF o1(1)] by fastforce
      qed (use assms d False cs usable sim in \<open>auto simp: consider_candidate_def Let_def\<close>)
    qed (use assms d False cs in \<open>auto simp: consider_candidate_def Let_def\<close>)
  qed (use assms d in \<open>auto simp: consider_candidate_def Let_def\<close>)
qed

lemma add_generated_ok:
  assumes "gen_ok svc dm c persist b g2" and "guarded svc dm c r"
    and "int (length (g_produced g2)) < gc_count c"
  shows "gen_ok svc dm c persist b (add_generated svc persist n r g2)"
proof (cases persist)
  case True
  let ?r = "stamped (gv_clock svc n) (map_of (g_bank g2) (it_domain_id r, it_item_id r)) r"
  have "guarded svc dm c ?r" using assms(2) by (simp add: guarded_def stamped_def)
  moreover have "bank_upsert (gv_clock svc n) r (g_bank g2) = (?r, snd (bank_upsert (gv_clock svc n) r (g_bank g2)))"
    by (simp add: bank_upsert_def Let_def)
  moreover have "status_of b k = Some ''approved''"
    if "status_of (snd (bank_upsert (gv_clock svc n) r (g_bank g2))) k = Some ''approved''" for k
  proof (cases "k = (it_domain_id r, it_item_id r)")
    case True
    with that assms(2) show ?thesis by (auto simp: status_upsert guarded_def)
  next
    case False
    with that have "status_of (g_bank g2) k = Some ''approved''" by (simp add: status_upsert)
    with assms(1) show ?thesis unfolding gen_ok_def by blast
  qed
  ultimately show ?thesis
    using assms True by (auto simp: add_generated_def gen_ok_def split: prod.splits)
qed (use assms in \<open>auto simp: add_generated_def gen_ok_def\<close>)

lemma consider_keeps_ok:
  assumes "consider_candidate svc dm c vcfg persist v n0 refs x g = Inr g'"
    and "gen_ok svc dm c persist b g" and "int (length (g_produced g)) < gc_count c"
  shows "gen_ok svc dm c persist b g'"
  using consider_cases [OF assms(1)]
proof
  assume "\<exists>r g2 n. guarded svc dm c r \<and> g_produced g2 = g_produced g \<and> g_bank g2 = g_bank g
         \<and> g_retries g2 = g_retries g \<and> g' = add_generated svc persist n r g2"
  then obtain r g2 n where g2: "guarded svc dm c r" "g_produced g2 = g_produced g" "g_bank g2 = g_bank g"
      "g_retries g2 = g_retries g" "g' = add_generated svc persist n r g2" by blast
  moreover have "gen_ok svc dm c persist b g2" using assms(2) g2 by (simp add: gen_ok_def)
  ultimately show ?thesis using assms(3) by (auto intro: add_generated_ok)
qed (use assms(2) in \<open>auto simp: gen_ok_def\<close>)

lemma generation_ok:
  assumes "generate svc dm c vcfg persist v n0 b = Inr (r, b')"
  shows "\<exists>g. gen_ok svc dm c persist b g \<and> ge_items r = g_produced g \<and> ge_retries_used r = g_retries g \<and> b' = g_bank g"
proof -
  obtain refs sim_refs g where g: "gen_rounds svc c refs
        (consider_candidate svc dm c vcfg persist v n0 sim_refs) (gv_max_retries svc) 0
        \<lparr>g_produced = [], g_scores = [], g_similarity = [], g_rejected = 0, g_retries = 0,
         g_validator_calls = 0, g_bank = b\<rparr> = Inr g"
      "ge_items r = g_produced g" "ge_retries_used r = g_retries g" "b' = g_bank g"
    using assms by (auto simp: generate_def Let_def)
  have "gen_ok svc dm c persist b g"
  proof (rule gen_rounds_inv [OF g(1), where I = "gen_ok svc dm c persist b"])
    show "gen_ok svc dm c persist b g'"
      if "consider_candidate svc dm c vcfg persist v n0 sim_refs x g = Inr g'" "gen_ok svc dm c persist b g"
        "int (length (g_produced g)) < gc_count c" for x g g'
      using that by (rule consider_keeps_ok)
  qed (auto simp: gen_ok_def)
  then show ?thesis using g by blast
qed

lemma generation_guarded:
  assumes "generate svc dm c vcfg persist v n0 b = Inr (r, b')" and "x \<in> set (ge_items r)"
  shows "guarded svc dm c x"
  using generation_ok [OF assms(1)] assms(2) by (auto simp: gen_ok_def)

text \<open>
  (C19) Generation only proposes: whatever the model answers, a successful generation returns at most
  the requested number of items after at most \<open>max_retries\<close> model calls; each item belongs to the
  tenant and subject, has a question and choices without ideographs and without references to a figure,
  an explanation without ideographs (unless it is the printed form of an empty value, such as None), at
  least two and no repeated choices, and is a draft or reviewed; no item of the bank becomes approved; and a chat
  request, which does not persist, leaves the bank as it was.
\<close>

theorem generation_only_proposes:
  assumes "generate svc dm c vcfg persist v n0 b = Inr (r, b')"
  shows "(\<forall>it \<in> set (ge_items r). guarded svc dm c it) \<and> int (length (ge_items r)) \<le> max 0 (gc_count c)
    \<and> ge_retries_used r \<le> gv_max_retries svc \<and> (\<not> persist \<longrightarrow> b' = b)
    \<and> (\<forall>k. status_of b' k = Some ''approved'' \<longrightarrow> status_of b k = Some ''approved'')"
  using generation_ok [OF assms] by (auto simp: gen_ok_def)

section \<open>Extraction\<close>

abbreviation difficulty_key :: "item \<Rightarrow> string" where
  "difficulty_key r \<equiv> str_or (it_difficulty r) ''unknown''"

lemma sample_subset:
  assumes "samples_ok sample" and "k \<le> length pool"
  shows "length (sample n pool k) = k" "set (sample n pool k) \<subseteq> set pool"
  using assms unfolding samples_ok_def by (blast, metis set_mset_mono set_mset_mset)

lemma pick_by_difficulty_ok:
  assumes "pick_by_difficulty sample cands ds n = (picked, short, n')" and "samples_ok sample"
    and "distinct (map fst ds)"
  shows "(\<forall>r \<in> set picked. r \<in> set cands \<and> difficulty_key r \<in> fst ` set ds) \<and> fst ` set short \<subseteq> fst ` set ds
    \<and> (\<forall>(d, q) \<in> set ds. length (filter (\<lambda>r. difficulty_key r = d) picked) = nat (min (int (length (pool_of cands d))) q)
         \<and> map_of short d = (if int (length (pool_of cands d)) < q then Some (q - int (length (pool_of cands d))) else None))"
  using assms
proof (induction sample cands ds n arbitrary: picked short n' rule: pick_by_difficulty.induct)
  case (2 sample cands diff q rest n)
  let ?pool = "pool_of cands diff"
  let ?k = "min (int (length ?pool)) q"
  let ?drawn = "?pool \<noteq> [] \<and> ?k > 0"
  let ?mine = "if ?drawn then sample n ?pool (nat ?k) else []"
  obtain more sh m where rec: "pick_by_difficulty sample cands rest (if ?drawn then Suc n else n) = (more, sh, m)"
    by (metis prod_cases3)
  have out: "picked = ?mine @ more"
      "short = (if int (length ?pool) < q then (diff, q - int (length ?pool)) # sh else sh)"
    using "2.prems"(1) rec by (auto simp: Let_def)
  have IH: "(\<forall>r \<in> set more. r \<in> set cands \<and> difficulty_key r \<in> fst ` set rest)" "fst ` set sh \<subseteq> fst ` set rest"
      "\<forall>(d, q) \<in> set rest. length (filter (\<lambda>r. difficulty_key r = d) more) = nat (min (int (length (pool_of cands d))) q)
         \<and> map_of sh d = (if int (length (pool_of cands d)) < q then Some (q - int (length (pool_of cands d))) else None)"
    using "2.IH" [OF refl refl refl rec "2.prems"(2)] "2.prems"(3) by auto
  have new: "diff \<notin> fst ` set rest" using "2.prems"(3) by (auto simp flip: set_map)
  have mine: "length ?mine = nat ?k" "\<forall>r \<in> set ?mine. r \<in> set cands \<and> difficulty_key r = diff"
  proof -
    have k: "nat ?k \<le> length ?pool" by auto
    note smp = sample_subset [OF "2.prems"(2) k, of n]
    show "length ?mine = nat ?k" using smp(1) by auto
    show "\<forall>r \<in> set ?mine. r \<in> set cands \<and> difficulty_key r = diff"
      using smp(2) by (auto simp: pool_of_def)
  qed
  have "filter (\<lambda>r. difficulty_key r = diff) more = []"
    using IH(1) new by (auto simp: filter_empty_conv)
  moreover have "filter (\<lambda>r. difficulty_key r = diff) ?mine = ?mine"
    using mine(2) by (simp add: filter_id_conv)
  ultimately have here: "length (filter (\<lambda>r. difficulty_key r = diff) picked) = nat ?k"
    unfolding out using mine(1) by (simp only: filter_append append_Nil2)
  have there: "length (filter (\<lambda>r. difficulty_key r = d) picked) = length (filter (\<lambda>r. difficulty_key r = d) more)"
    if "d \<noteq> diff" for d
    unfolding out using mine(2) that by (simp only: filter_append) (simp add: filter_empty_conv)
  have none: "map_of sh diff = None" using IH(2) new by (metis map_of_eq_None_iff subsetD)
  have A: "\<forall>r \<in> set picked. r \<in> set cands \<and> difficulty_key r \<in> fst ` set ((diff, q) # rest)"
    unfolding out(1) using mine(2) IH(1) by (simp only: set_append) force
  have B: "fst ` set short \<subseteq> fst ` set ((diff, q) # rest)"
    unfolding out(2) using IH(2) by auto
  have C: "length (filter (\<lambda>r. difficulty_key r = d) picked) = nat (min (int (length (pool_of cands d))) p)
      \<and> map_of short d = (if int (length (pool_of cands d)) < p then Some (p - int (length (pool_of cands d))) else None)"
    if "(d, p) \<in> set ((diff, q) # rest)" for d p
  proof (cases "(d, p) = (diff, q)")
    case False
    then have "(d, p) \<in> set rest" using that by auto
    moreover from this new have "d \<noteq> diff" by (metis fst_conv imageI)
    ultimately show ?thesis using IH(3) there [of d] out(2) by auto
  qed (use here none out(2) in simp)
  show ?case using A B C by blast
qed simp

lemma same_but_use_difficulty: "same_but_use r r' \<Longrightarrow> it_difficulty r' = it_difficulty r"
  by (auto simp: same_but_use_def)

lemma row_in_bank: "bank_wf b \<Longrightarrow> r \<in> set (rows_of b d) \<Longrightarrow> map_of b (d, it_item_id r) = Some r"
  by (force simp: rows_of_def bank_wf_def map_of_eq_Some_iff)

lemma touched_item:
  assumes "bank_wf b" and "r \<in> set (rows_of b d)"
  shows "\<exists>r'. bank_get (snd (touch_used now d ids b)) d (it_item_id r) = Some r' \<and> same_but_use r r'"
proof -
  show ?thesis
    using row_in_bank [OF assms] touch_used_map [of b "(d, it_item_id r)" now d ids]
    by (cases "map_of (snd (touch_used now d ids b)) (d, it_item_id r)") (auto simp: bank_get_def)
qed

text \<open>
  Extraction meets the requested distribution: for every difficulty asked for, the number of
  extracted items is the smaller of the request and the available candidates, the shortfall is recorded
  exactly when there is one, and every extracted item belongs to the tenant and has one of the quality
  states asked for.
\<close>

theorem extraction_meets_distribution:
  assumes "bank_wf b" and "samples_ok sample" and "extract_items now sample n d c b = Inr (r, b')"
    and "list_candidates_for_extract now b d c 1000 = Inr cands"
    and "distinct (map fst (ec_difficulty_distribution c))" and "(diff, q) \<in> set (ec_difficulty_distribution c)"
  shows "length (filter (\<lambda>it. difficulty_key it = diff) (er_items r)) = nat (min (int (length (pool_of cands diff))) q)
    \<and> map_of (er_insufficient_pool r) diff =
        (if int (length (pool_of cands diff)) < q then Some (q - int (length (pool_of cands diff))) else None)
    \<and> (\<forall>it \<in> set (er_items r). it_domain_id it = d
         \<and> (ec_quality_status c = [] \<or> it_quality_status it \<in> set (ec_quality_status c)))"
proof -
  obtain picked short n' where p: "pick_by_difficulty sample cands (ec_difficulty_distribution c) n = (picked, short, n')"
    by (metis prod_cases3)
  let ?get = "\<lambda>r. case bank_get b' d (it_item_id r) of None \<Rightarrow> r | Some r' \<Rightarrow> r'"
  have out: "er_items r = map ?get picked" "er_insufficient_pool r = short"
      "picked \<noteq> [] \<Longrightarrow> b' = snd (touch_used now d (map it_item_id picked) b)"
    using assms(3,4,6) p by (auto simp: extract_items_def Let_def split: if_splits)
  note ok = pick_by_difficulty_ok [OF p assms(2,5)]
  have get: "same_but_use x (?get x)" if "x \<in> set picked" for x
  proof -
    have "x \<in> set (rows_of b d)" using ok that candidates_rows [OF assms(4)] by blast
    moreover have "picked \<noteq> []" using that by auto
    ultimately obtain r' where "bank_get b' d (it_item_id x) = Some r'" "same_but_use x r'"
      using touched_item [OF assms(1), of x d now "map it_item_id picked"] out(3) by auto
    then show ?thesis by simp
  qed
  have "filter (\<lambda>it. difficulty_key it = diff) (map ?get picked) = map ?get (filter (\<lambda>it. difficulty_key it = diff) picked)"
    unfolding filter_map o_def
    by (rule arg_cong [where f = "map ?get"], rule filter_cong) (simp_all add: same_but_use_difficulty [OF get])
  moreover have "it_domain_id (?get x) = d \<and> (ec_quality_status c = [] \<or> it_quality_status (?get x) \<in> set (ec_quality_status c))"
    if "x \<in> set picked" for x
    using mem_bank.candidates_sound [OF assms(1,4)] ok get [OF that] that by (auto simp: same_but_use_fields)
  ultimately show ?thesis
    unfolding out(1,2) using ok assms(6) by auto
qed

section \<open>Figure reuse\<close>

definition figure_item_ok :: "item list \<Rightarrow> string \<Rightarrow> item \<Rightarrow> bool" where
  "figure_item_ok refs d it \<longleftrightarrow> it_domain_id it = d \<and> it_quality_status it = ''draft'' \<and> length (it_choices it) = 4
     \<and> PStr (it_answer it) \<in> set (it_choices it)
     \<and> (\<exists>ref \<in> set refs. it_assets it = it_assets ref \<and> it_reference_item_ids it = [it_item_id ref])"

definition figure_ok :: "item list \<Rightarrow> string \<Rightarrow> figure_criteria \<Rightarrow> bool \<Rightarrow> bank \<Rightarrow> figure_result \<times> bank \<Rightarrow> bool" where
  "figure_ok refs d c persist b0 rb \<longleftrightarrow> (\<forall>it \<in> set (fr_items (fst rb)). figure_item_ok refs d it)
     \<and> int (length (fr_items (fst rb))) \<le> max 0 (fc_count c) \<and> (\<not> persist \<longrightarrow> snd rb = b0)"

lemma add_figure_ok:
  assumes "figure_ok refs d c persist b0 (r, b)" and "figure_item_ok refs d x" and "int (length (fr_items r)) < fc_count c"
  shows "figure_ok refs d c persist b0 (add_figure svc persist n ref x (r, b))"
proof (cases persist)
  case True
  have "figure_item_ok refs d y" if "bank_upsert t x b = (y, b')" for t y b'
    using assms(2) that by (auto simp: bank_upsert_def stamped_def figure_item_ok_def Let_def)
  then show ?thesis
    using assms(1,3) True by (auto simp: add_figure_def figure_ok_def split: prod.splits)
qed (use assms in \<open>auto simp: add_figure_def figure_ok_def\<close>)

lemma figure_item_is_ok:
  assumes "acceptable_figure_item L q choices a e" and "ref \<in> set refs"
  shows "figure_item_ok refs d (figure_item L d c ref i q choices a dict)"
  using assms by (auto simp: acceptable_figure_item_def figure_item_ok_def figure_item_def new_item_def Let_def)

lemma reuse_figure_ok:
  assumes "reuse_figure svc d c persist n0 ref raw (r, b) = Inr rb'" and "figure_ok refs d c persist b0 (r, b)"
    and "ref \<in> set refs" and "int (length (fr_items r)) < fc_count c"
  shows "figure_ok refs d c persist b0 rb'"
proof -
  let ?L = "fs_lib svc"
  let ?parsed = "parse_json_obj ?L (fs_decode svc) raw"
  have rejected: "figure_ok refs d c persist b0 (r\<lparr>fr_rejected_invalid := fr_rejected_invalid r + 1\<rparr>, b)"
    using assms(2) by (simp add: figure_ok_def)
  show ?thesis
  proof (cases "truthy ?parsed")
    case True
    then obtain e cs where e: "as_dict ?parsed = Inr e" "py_iter (py_or (dget e ''choices'' PNone) (PList [])) = Inr cs"
      using assms(1) by (auto simp: reuse_figure_def Let_def)
    let ?q = "py_strip (py_str ?L (dget e ''question_text'' (PStr [])))"
    let ?cs = "filter (\<lambda>x. x \<noteq> []) (map (\<lambda>x. py_strip (py_str ?L x)) cs)"
    let ?a = "py_strip (py_str ?L (dget e ''answer'' (PStr [])))"
    show ?thesis
    proof (cases "acceptable_figure_item ?L ?q ?cs ?a (py_str ?L (py_or (dget e ''explanation'' PNone) (PStr [])))")
      case ok: True
      then have "rb' = add_figure svc persist (n0 + length (fr_items r)) ref (figure_item ?L d c ref
          (''Q-'' @ fs_uuid svc (n0 + length (fr_items r))) ?q ?cs ?a e) (r, b)"
        using assms(1) True e by (simp add: reuse_figure_def Let_def)
      then show ?thesis using add_figure_ok [OF assms(2) figure_item_is_ok [OF ok assms(3)] assms(4)] by simp
    qed (use assms(1) True e rejected in \<open>auto simp: reuse_figure_def Let_def\<close>)
  qed (use assms(1) rejected in \<open>auto simp: reuse_figure_def Let_def\<close>)
qed

lemma figure_loop_ok:
  assumes "figure_loop svc d c persist n0 m todo rb = Inr rb'" and "figure_ok refs d c persist b0 rb"
    and "set todo \<subseteq> set refs"
  shows "figure_ok refs d c persist b0 rb'"
  using assms
proof (induction todo arbitrary: m rb)
  case Nil
  then show ?case by (cases rb) simp
next
  case (Cons ref todo)
  obtain r b where rb: "rb = (r, b)" by (cases rb)
  have keep: "figure_ok refs d c persist b0 (r\<lparr>fr_skipped_no_image := x\<rparr>, b)"
      "figure_ok refs d c persist b0 (r\<lparr>fr_vlm_errors := x\<rparr>, b)" for x
    using Cons.prems(2) rb by (auto simp: figure_ok_def)
  note IH = Cons.IH [OF _ _ subset_trans [OF set_subset_Cons Cons.prems(3)]]
  show ?case
  proof (cases "int (length (fr_items r)) < fc_count c")
    case True
    have step: "figure_ok refs d c persist b0 rb2" if "reuse_figure svc d c persist n0 ref raw (r, b) = Inr rb2" for raw rb2
      using reuse_figure_ok [OF that] Cons.prems(2,3) rb True by auto
    show ?thesis
      using Cons.prems(1) True
      by (auto simp: rb Let_def split: list.splits if_splits sum.splits intro: IH keep step)
  qed (use Cons.prems rb in simp)
qed

lemma figure_generated_ok:
  assumes "bank_wf b" and "figure_generate svc d c persist n0 b = Inr (r, b')"
  shows "int (length (fr_items r)) \<le> max 0 (fc_count c) \<and> (\<not> persist \<longrightarrow> b' = b)
    \<and> (\<forall>it \<in> set (fr_items r). \<exists>ref. figure_item_ok [ref] d it \<and> map_of b (d, it_item_id ref) = Some ref
         \<and> it_quality_status ref = ''approved'' \<and> it_subject ref = Some (fc_subject c) \<and> it_figure_dependent ref)"
proof (cases "fs_health svc = Inr True")
  case True
  let ?ec = "default_criteria\<lparr>ec_subject := Some (fc_subject c), ec_chapter := fc_chapter c\<rparr>"
  obtain cands r1 where cands: "list_candidates_for_extract (fs_clock svc n0) b d ?ec 200 = Inr cands"
    and loop: "figure_loop svc d c persist n0 0 (filter (\<lambda>r. it_figure_dependent r \<and> it_assets r \<noteq> []) cands)
        (empty_figure_result, b) = Inr (r1, b')"
    and r: "r = r1\<lparr>fr_generated_count := length (fr_items r1)\<rparr>"
    using assms(2) True by (auto simp: figure_generate_def)
  let ?refs = "filter (\<lambda>r. it_figure_dependent r \<and> it_assets r \<noteq> []) cands"
  have ok: "figure_ok ?refs d c persist b (r1, b')"
    by (rule figure_loop_ok [OF loop _ order_refl]) (simp add: figure_ok_def empty_figure_result_def)
  have ref: "map_of b (d, it_item_id ref) = Some ref \<and> it_quality_status ref = ''approved'' \<and> it_subject ref = Some (fc_subject c)
      \<and> it_figure_dependent ref" if "ref \<in> set ?refs" for ref
    using mem_bank.candidates_sound [OF assms(1) cands] candidates_rows [OF cands] row_in_bank [OF assms(1)] that
    by (auto simp: default_criteria_def)
  have "\<exists>ref. figure_item_ok [ref] d it \<and> map_of b (d, it_item_id ref) = Some ref \<and> it_quality_status ref = ''approved''
      \<and> it_subject ref = Some (fc_subject c) \<and> it_figure_dependent ref" if "it \<in> set (fr_items r)" for it
  proof -
    have "figure_item_ok ?refs d it" using ok that r by (simp add: figure_ok_def)
    then obtain x where "x \<in> set ?refs" "figure_item_ok [x] d it"
      unfolding figure_item_ok_def by (metis list.set_intros(1))
    with ref [of x] show ?thesis by blast
  qed
  then show ?thesis using ok r by (auto simp: figure_ok_def)
qed (use assms(2) in \<open>auto simp: figure_generate_def empty_figure_result_def\<close>)

text \<open>
  Reused figures come from approved items: every item that figure reuse returns is a draft of the
  tenant with exactly four choices, one of which is its answer, and its figure is the figure of an
  approved, figure-dependent item of the tenant's bank and the same subject, which it names as its reference; at
  most the requested number is produced, and a chat request stores nothing.
\<close>

theorem reused_figures_are_approved:
  assumes "bank_wf b" and "figure_generate svc d c persist n0 b = Inr (r, b')"
  shows "int (length (fr_items r)) \<le> max 0 (fc_count c) \<and> (\<not> persist \<longrightarrow> b' = b)
    \<and> (\<forall>it \<in> set (fr_items r). \<exists>ref. figure_item_ok [ref] d it \<and> map_of b (d, it_item_id ref) = Some ref
         \<and> it_quality_status ref = ''approved'' \<and> it_subject ref = Some (fc_subject c) \<and> it_figure_dependent ref)"
  using assms by (rule figure_generated_ok)

section \<open>The duplicate key\<close>

lemma dedup_key_order:
  assumes "mset choices = mset choices'"
  shows "dedup_key L fold_case q choices = dedup_key L fold_case q choices'"
proof -
  let ?keys = "\<lambda>cs. filter (\<lambda>x. x \<noteq> []) (map (\<lambda>c. norm_text fold_case (py_str L c)) cs)"
  have "mset (?keys choices) = mset (?keys choices')" using assms by (simp add: mset_filter)
  then have "sort (?keys choices) = sort (?keys choices')"
    by (intro properties_for_sort) simp_all
  then show ?thesis by (simp add: dedup_key_def)
qed

section \<open>Examples\<close>

definition ex_json :: "pyval \<Rightarrow> pylib" where
  \<comment> \<open>a library whose JSON reader returns the given value\<close>
  "ex_json v = ex_plain_lib\<lparr>json_loads := \<lambda>_. Inr v\<rparr>"

abbreviation ex_verdict :: pyval where
  "ex_verdict \<equiv> PDict [(''valid'', PBool True), (''score'', PFloat 1)]"

theorem validation_fails_closed_witness:
  "(\<exists>o1 n'. validate ex_plain_lib (\<lambda>_. Inl []) (\<lambda>_ _. Inl ValueError) ''m'' ''q'' [] ''a'' None None [] 0 = Inr (o1, n')
     \<and> vo_quality_status o1 = ''draft'' \<and> n' \<le> 8)
   \<and> (\<exists>o1 n'. validate (ex_json ex_verdict) (\<lambda>_. Inl []) (\<lambda>_ _. Inr ''{}'') ''m'' ''q'' [] ''a'' None None [] 0 = Inr (o1, n')
     \<and> vo_quality_status o1 = ''reviewed''
     \<and> verdict (ex_json ex_verdict) (\<lambda>_. Inl []) (\<lambda>_ _. Inr ''{}'') (plain_call (validator_prompt ''answer'' ''q'' [] ''a'' [] []) ''m'' 512 0)
          0 n' True 1)"
proof -
  obtain o1 n1 where v: "validate ex_plain_lib (\<lambda>_. Inl []) (\<lambda>_ _. Inl ValueError) ''m'' ''q'' [] ''a'' None None [] 0
      = Inr (o1, n1)" and d: "vo_quality_status o1 = ''draft''"
    by (simp add: validate_def VALIDATOR_NAMES_def run_validator_def dget_def numeral_2_eq_2 aggregate_def
        default_run_def Let_def)
  obtain o2 n2 where w: "validate (ex_json ex_verdict) (\<lambda>_. Inl []) (\<lambda>_ _. Inr ''{}'') ''m'' ''q'' [] ''a'' None None [] 0 = Inr (o2, n2)"
    and r: "vo_quality_status o2 = ''reviewed''" "map_of (vo_validator_results o2) ''answer'' = Some (run_to_dict (default_run ''answer''))"
    by (simp add: validate_def VALIDATOR_NAMES_def run_validator_def dget_def numeral_2_eq_2 aggregate_def scored_def
        default_run_def Let_def ex_json_def parse_json_def read_run_def py_or_def run_to_dict_def)
  obtain rs where rs: "vo_validator_results o2 = map (\<lambda>r. (vr_name r, run_to_dict r)) rs" "map vr_name rs = VALIDATOR_NAMES"
    "\<forall>r \<in> set rs. vr_enabled r = switched_on [] (vr_name r)
        \<and> (vr_enabled r \<and> vr_parse_error r = None \<longrightarrow>
             verdict (ex_json ex_verdict) (\<lambda>_. Inl []) (\<lambda>_ _. Inr ''{}'')
               (plain_call (validator_prompt (vr_name r) ''q'' (py_join '', '' (map (py_str (ex_json ex_verdict)) [])) ''a'' (str_or None []) (str_or None []))
               ''m'' 512 0) 0 n2 (vr_valid r) (vr_score r))"
    using validation_fails_closed [OF w] by blast
  obtain x where x: "x \<in> set rs" "vr_name x = ''answer''" "run_to_dict x = run_to_dict (default_run ''answer'')"
    using r(2) unfolding rs(1) by (auto dest!: map_of_SomeD)
  then have "vr_enabled x" "vr_valid x" "vr_score x = 1" "vr_parse_error x = None"
    by (auto simp: run_to_dict_def default_run_def split: option.splits)
  with rs(3) x have "verdict (ex_json ex_verdict) (\<lambda>_. Inl []) (\<lambda>_ _. Inr ''{}'')
      (plain_call (validator_prompt ''answer'' ''q'' [] ''a'' [] []) ''m'' 512 0) 0 n2 True 1"
    by (auto simp: str_or_def)
  then show ?thesis using validation_fails_closed [OF v] v d w r(1) by auto
qed

theorem json_list_breaks_validation_witness:
  "validate (ex_json (PList [])) (\<lambda>_. Inl []) (\<lambda>_ _. Inr ''[]'') ''m'' ''q'' [] ''a'' None None [] 0 = Inl AttributeError"
  by (rule json_list_breaks_validation [where raw = "''[]''" and vs = "[]"]) (simp_all add: ex_json_def)

definition ex_answer_items :: pyval where
  "ex_answer_items = PDict [(''items'', PList [PDict [(''question_text'', PStr ''q''),
     (''choices'', PList [PStr ''x'', PStr ''y'']), (''answer'', PStr ''x'')]])]"

definition ex_generate :: generate_service where
  "ex_generate = \<lparr>gv_lib = ex_json ex_answer_items, gv_decode = \<lambda>_. Inl [], gv_llm = \<lambda>_ _. Inr ''{}'',
     gv_validator_llm = \<lambda>_ _. Inl ValueError, gv_validator_model = ''m'', gv_embed_batch = \<lambda>_. Inr [],
     gv_thresholds = default_similarity, gv_model = ''m'', gv_max_retries = 3,
     gv_item_index = Some (\<lambda>_ _ _. Inr []), gv_is_digit = \<lambda>_. False, gv_uuid = \<lambda>_. ''0'', gv_clock = \<lambda>_. 7\<rparr>"

definition ex_gen_criteria :: generate_criteria where
  "ex_gen_criteria = \<lparr>gc_subject = ''os'', gc_chapter = None, gc_difficulty = ''easy'', gc_count = 1,
     gc_question_type = ''multiple_choice''\<rparr>"

lemma ex_texts:
  "py_strip ''q'' = ''q''" "has_cjk_ideograph ''q'' = False" "has_cjk_ideograph [] = False"
  "unusable ex_generate ''q'' [PStr ''x'', PStr ''y''] = False"
  by code_simp+

lemma ex_consider:
  "\<exists>g'. consider_candidate ex_generate ''a'' ex_gen_criteria [] True False 0 refs
       (PDict [(''question_text'', PStr ''q''), (''choices'', PList [PStr ''x'', PStr ''y'']), (''answer'', PStr ''x'')]) g
     = Inr g' \<and> length (g_produced g') = Suc (length (g_produced g))"
proof -
  have sim: "similarity_of ex_generate ''a'' ''os'' refs ''q'' = Inr (0, False, [])"
    by (simp add: similarity_of_def ex_generate_def default_similarity_def)
  have len: "length (g_produced (add_generated svc p n r g2)) = Suc (length (g_produced g2))" for svc p n r g2
    by (simp add: add_generated_def split: prod.splits)
  have subj: "gc_subject ex_gen_criteria = ''os''" by (simp add: ex_gen_criteria_def)
  show ?thesis
    by (simp add: consider_candidate_def dget_def py_or_def ex_texts foreign_text_def outcome_for_def sim len subj
        Let_def del: bind_res_eq_Inr)
qed

lemma ex_generated:
  "\<exists>r b'. generate ex_generate ''a'' ex_gen_criteria [] True False 0 ex_bank = Inr (r, b') \<and> length (ge_items r) = 1"
proof -
  have p: "parse_json_items (gv_lib ex_generate) ''{}'' = ([PDict [(''question_text'', PStr ''q''),
      (''choices'', PList [PStr ''x'', PStr ''y'']), (''answer'', PStr ''x'')]], None)"
    by (simp add: parse_json_items_def ex_generate_def ex_json_def ex_answer_items_def)
  have s: "gv_max_retries ex_generate = 3" "\<And>i call. gv_llm ex_generate i call = Inr ''{}''"
      "gv_item_index ex_generate \<noteq> None" "gc_count ex_gen_criteria = 1"
    by (simp_all add: ex_generate_def ex_gen_criteria_def)
  have cands: "\<exists>rows. list_candidates_for_extract t ex_bank ''a'' (approved_of ex_gen_criteria) 20 = Inr rows" for t
    by (simp add: list_candidates_for_extract_def approved_of_def default_criteria_def Let_def)
  obtain g' where "consider_candidate ex_generate ''a'' ex_gen_criteria [] True False 0 []
       (PDict [(''question_text'', PStr ''q''), (''choices'', PList [PStr ''x'', PStr ''y'']), (''answer'', PStr ''x'')])
       \<lparr>g_produced = [], g_scores = [], g_similarity = [], g_rejected = 0, g_retries = 1,
         g_validator_calls = 0, g_bank = ex_bank\<rparr> = Inr g'" "length (g_produced g') = 1"
    using ex_consider [of "[]"] by fastforce
  moreover obtain rows where rows: "list_candidates_for_extract (gv_clock ex_generate 0) ex_bank ''a''
      (approved_of ex_gen_criteria) 20 = Inr rows"
    using cands by blast
  ultimately show ?thesis
    by (simp add: generate_def s p rows numeral_3_eq_3 Let_def del: bind_res_eq_Inr)
qed

theorem generation_only_proposes_witness:
  "\<exists>r b' it. generate ex_generate ''a'' ex_gen_criteria [] True False 0 ex_bank = Inr (r, b') \<and> ge_items r = [it]
     \<and> it_quality_status it \<in> {''draft'', ''reviewed''} \<and> it_subject it = Some ''os''"
proof -
  obtain r b' where g: "generate ex_generate ''a'' ex_gen_criteria [] True False 0 ex_bank = Inr (r, b')"
      "length (ge_items r) = 1"
    using ex_generated by blast
  then obtain it where "ge_items r = [it]" by (auto simp: length_Suc_conv)
  with generation_only_proposes [OF g(1)] g(1) show ?thesis
    by (auto simp: guarded_def ex_gen_criteria_def)
qed

definition ex_take :: sampler where
  "ex_take n pool k = take k pool"

lemma ex_take_ok: "samples_ok ex_take"
  unfolding samples_ok_def ex_take_def by (metis append_take_drop_id length_take min.absorb2 mset_append mset_subset_eq_add_left)

definition ex_distribution :: extract_criteria where
  "ex_distribution = default_criteria\<lparr>ec_difficulty_distribution := [(''unknown'', 2)],
     ec_quality_status := [''draft'', ''retired'', ''approved'']\<rparr>"

lemma ex_extract:
  "case (extract_items 9 ex_take 0 ''a'' ex_distribution ex_bank, list_candidates_for_extract 9 ex_bank ''a'' ex_distribution 1000) of
     (Inr (r, b'), Inr cands) \<Rightarrow> length (pool_of cands ''unknown'') = 2 | _ \<Rightarrow> False"
  by code_simp

theorem extraction_meets_distribution_witness:
  "\<exists>r b'. extract_items 9 ex_take 0 ''a'' ex_distribution ex_bank = Inr (r, b')
     \<and> length (filter (\<lambda>it. difficulty_key it = ''unknown'') (er_items r)) = 2"
proof -
  obtain r b' cands where x: "extract_items 9 ex_take 0 ''a'' ex_distribution ex_bank = Inr (r, b')"
      "list_candidates_for_extract 9 ex_bank ''a'' ex_distribution 1000 = Inr cands"
      "length (pool_of cands ''unknown'') = 2"
    using ex_extract by (auto split: sum.splits prod.splits)
  have wf: "bank_wf ex_bank" by (rule run_wf [OF ex_bank_run [of ex_plain_lib] empty_wf])
  have d: "distinct (map fst (ec_difficulty_distribution ex_distribution))"
      "(''unknown'', 2) \<in> set (ec_difficulty_distribution ex_distribution)"
    by (simp_all add: ex_distribution_def)
  from extraction_meets_distribution [OF wf ex_take_ok x(1,2) d] x show ?thesis by auto
qed

definition ex_figure_bank :: bank where
  "ex_figure_bank = snd (bank_upsert 4 ((new_item ''f1'' ''a'')\<lparr>it_subject := Some ''os'', it_quality_status := ''approved'',
     it_figure_dependent := True, it_assets := [PDict [(''storage_key'', PStr ''k'')]]\<rparr>) [])"

definition ex_figure :: figure_service where
  "ex_figure = \<lparr>fs_lib = ex_json (PDict [(''question_text'', PStr ''q''),
       (''choices'', PList [PStr ''w'', PStr ''x'', PStr ''y'', PStr ''z'']), (''answer'', PStr ''x'')]),
     fs_decode = \<lambda>_. Inl [], fs_health = Inr True, fs_describe = \<lambda>_ _. Inr ''{}'', fs_load_image = \<lambda>_. Inr ''i'',
     fs_model = None, fs_uuid = \<lambda>_. ''0'', fs_clock = \<lambda>_. 7\<rparr>"

definition ex_figure_criteria :: figure_criteria where
  "ex_figure_criteria = \<lparr>fc_subject = ''os'', fc_chapter = None, fc_difficulty = ''easy'', fc_count = 1\<rparr>"

lemma ex_figures:
  "case figure_generate ex_figure ''a'' ex_figure_criteria False 0 ex_figure_bank of
     Inl _ \<Rightarrow> False | Inr (r, b') \<Rightarrow> map it_item_id (fr_items r) = [''Q-0'']"
  by code_simp

theorem reused_figures_are_approved_witness:
  "\<exists>r it. \<exists>ref :: item. figure_generate ex_figure ''a'' ex_figure_criteria False 0 ex_figure_bank = Inr (r, ex_figure_bank)
     \<and> fr_items r = [it] \<and> it_quality_status ref = ''approved'' \<and> it_assets it = it_assets ref"
proof -
  obtain r b' where f: "figure_generate ex_figure ''a'' ex_figure_criteria False 0 ex_figure_bank = Inr (r, b')"
      "map it_item_id (fr_items r) = [''Q-0'']"
    using ex_figures by (auto split: sum.splits)
  then obtain it where it: "fr_items r = [it]" by auto
  have "bank_wf ex_figure_bank"
    unfolding ex_figure_bank_def by (rule step_wf [OF step_upsert [of ex_plain_lib] empty_wf])
  from reused_figures_are_approved [OF this f(1)] it obtain ref where
    "figure_item_ok [ref] ''a'' it" "it_quality_status ref = ''approved''" "b' = ex_figure_bank"
    by auto
  moreover from this(1) have "it_assets it = it_assets ref" by (simp add: figure_item_ok_def)
  ultimately show ?thesis using f(1) it by blast
qed

end
