(* ===== verification/Assessment_Chat.thy ===== *)
theory Assessment_Chat
  imports Item_Services
begin

text \<open>
  Composing an exam inside a chat (the assessment part of \<open>workflows/nodes.py\<close>): how the request is read
  (number of questions, subjects, difficulty, figures), how the text and figure services are called, and
  how the answer is put together. The result is what the assessment node writes into the chat state.

  The services are called through the injected objects of the node's dependencies; each call carries its
  number, since a model may answer the same request differently. Matches of the two counting patterns
  are a parameter: the start (in code points) and the digits of each match, from left to right.
\<close>

section \<open>Dependencies and results\<close>

datatype count_pattern = COUNT_RE | FIGURE_COUNT_RE

record assessment_deps =
  ad_lib :: pylib
  ad_generate :: "(nat \<Rightarrow> string \<Rightarrow> generate_criteria \<Rightarrow> generate_result res) option"
  ad_figure :: "(nat \<Rightarrow> string \<Rightarrow> figure_criteria \<Rightarrow> figure_result res) option"
  ad_summary :: "(string \<Rightarrow> bank_summary res) option"
  ad_counts :: "count_pattern \<Rightarrow> string \<Rightarrow> (nat \<times> string) list"

record assessment_out =
  ao_grounding :: string
  ao_answer :: string
  ao_items_plan :: "(pyval list \<times> pyval list) option"

record assessment_defaults =
  df_default_count :: int
  df_max_total :: int
  df_max_subjects :: int

record plan_entry =
  pe_subject :: pyval
  pe_count :: int
  pe_difficulty :: string
  pe_figure :: "bool option"

definition plan_to_dict :: "plan_entry \<Rightarrow> pyval" where
  "plan_to_dict e = PDict ([(''subject'', pe_subject e), (''count'', PInt (pe_count e)),
      (''difficulty'', PStr (pe_difficulty e))]
     @ (case pe_figure e of None \<Rightarrow> [] | Some b \<Rightarrow> [(''figure'', PBool b)]))"

section \<open>Reading the request\<close>

definition SUBJECT_ALIASES :: "(string \<times> string list) list" where
  "SUBJECT_ALIASES =
     [(''database'', [[CHR 0xEB, CHR 0x8D, CHR 0xB0, CHR 0xEC, CHR 0x9D, CHR 0xB4, CHR 0xED, CHR 0x84, CHR 0xB0,
         CHR 0xEB, CHR 0xB2, CHR 0xA0, CHR 0xEC, CHR 0x9D, CHR 0xB4, CHR 0xEC, CHR 0x8A, CHR 0xA4], ''db'',
         [CHR 0xEB, CHR 0x94, CHR 0x94, CHR 0xEB, CHR 0xB9, CHR 0x84]]),
      (''operating_system'', [[CHR 0xEC, CHR 0x9A, CHR 0xB4, CHR 0xEC, CHR 0x98, CHR 0x81, CHR 0xEC, CHR 0xB2,
         CHR 0xB4, CHR 0xEC, CHR 0xA0, CHR 0x9C], [CHR 0xEC, CHR 0x9A, CHR 0xB4, CHR 0xEC, CHR 0x98, CHR 0x81,
         CHR 0xEC, CHR 0xB2, CHR 0xB4, CHR 0xEA, CHR 0xB3, CHR 0x84], [CHR 0xEC, CHR 0x9A, CHR 0xB4, CHR 0xEC,
         CHR 0x98, CHR 0x81] @ '' '' @ [CHR 0xEC, CHR 0xB2, CHR 0xB4, CHR 0xEC, CHR 0xA0, CHR 0x9C], [CHR 0xEC,
         CHR 0x9A, CHR 0xB4, CHR 0xEC, CHR 0x98, CHR 0x81] @ '' '' @ [CHR 0xEC, CHR 0xB2, CHR 0xB4, CHR 0xEA,
         CHR 0xB3, CHR 0x84], ''os'']),
      (''software_engineering'', [[CHR 0xEC, CHR 0x86, CHR 0x8C, CHR 0xED, CHR 0x94, CHR 0x84, CHR 0xED, CHR 0x8A,
         CHR 0xB8, CHR 0xEC, CHR 0x9B, CHR 0xA8, CHR 0xEC, CHR 0x96, CHR 0xB4, CHR 0xEA, CHR 0xB3, CHR 0xB5,
         CHR 0xED, CHR 0x95, CHR 0x99], [CHR 0xEC, CHR 0x86, CHR 0x8C, CHR 0xEA, CHR 0xB3, CHR 0xB5]]),
      (''computer_structure'', [[CHR 0xEC, CHR 0xBB, CHR 0xB4, CHR 0xED, CHR 0x93, CHR 0xA8, CHR 0xED, CHR 0x84,
         CHR 0xB0, CHR 0xEA, CHR 0xB5, CHR 0xAC, CHR 0xEC, CHR 0xA1, CHR 0xB0], [CHR 0xEC, CHR 0xA0, CHR 0x84,
         CHR 0xEC, CHR 0x82, CHR 0xB0, CHR 0xEA, CHR 0xB5, CHR 0xAC, CHR 0xEC, CHR 0xA1, CHR 0xB0]]),
      (''data_communication'', [[CHR 0xEB, CHR 0x8D, CHR 0xB0, CHR 0xEC, CHR 0x9D, CHR 0xB4, CHR 0xED, CHR 0x84,
         CHR 0xB0, CHR 0xED, CHR 0x86, CHR 0xB5, CHR 0xEC, CHR 0x8B, CHR 0xA0], [CHR 0xED, CHR 0x86, CHR 0xB5,
         CHR 0xEC, CHR 0x8B, CHR 0xA0], [CHR 0xEB, CHR 0x84, CHR 0xA4, CHR 0xED, CHR 0x8A, CHR 0xB8, CHR 0xEC,
         CHR 0x9B, CHR 0x8C, CHR 0xED, CHR 0x81, CHR 0xAC]]),
      (''programming'', [[CHR 0xED, CHR 0x94, CHR 0x84, CHR 0xEB, CHR 0xA1, CHR 0x9C, CHR 0xEA, CHR 0xB7, CHR 0xB8,
         CHR 0xEB, CHR 0x9E, CHR 0x98, CHR 0xEB, CHR 0xB0, CHR 0x8D], [CHR 0xED, CHR 0x94, CHR 0x84, CHR 0xEB,
         CHR 0xA1, CHR 0x9C, CHR 0xEA, CHR 0xB7, CHR 0xB8, CHR 0xEB, CHR 0x9E, CHR 0xA8, CHR 0xEC, CHR 0x96,
         CHR 0xB8, CHR 0xEC, CHR 0x96, CHR 0xB4], [CHR 0xEC, CHR 0x96, CHR 0xB8, CHR 0xEC, CHR 0x96, CHR 0xB4]]),
      (''software_dev'', [[CHR 0xEC, CHR 0x86, CHR 0x8C, CHR 0xED, CHR 0x94, CHR 0x84, CHR 0xED, CHR 0x8A, CHR 0xB8,
         CHR 0xEC, CHR 0x9B, CHR 0xA8, CHR 0xEC, CHR 0x96, CHR 0xB4, CHR 0xEA, CHR 0xB0, CHR 0x9C, CHR 0xEB,
         CHR 0xB0, CHR 0x9C], [CHR 0xEA, CHR 0xB0, CHR 0x9C, CHR 0xEB, CHR 0xB0, CHR 0x9C]]),
      (''software_design'', [[CHR 0xEC, CHR 0x86, CHR 0x8C, CHR 0xED, CHR 0x94, CHR 0x84, CHR 0xED, CHR 0x8A,
         CHR 0xB8, CHR 0xEC, CHR 0x9B, CHR 0xA8, CHR 0xEC, CHR 0x96, CHR 0xB4, CHR 0xEC, CHR 0x84, CHR 0xA4,
         CHR 0xEA, CHR 0xB3, CHR 0x84], [CHR 0xEC, CHR 0x84, CHR 0xA4, CHR 0xEA, CHR 0xB3, CHR 0x84]]),
      (''info_system'', [[CHR 0xEC, CHR 0xA0, CHR 0x95, CHR 0xEB, CHR 0xB3, CHR 0xB4, CHR 0xEC, CHR 0x8B, CHR 0x9C,
         CHR 0xEC, CHR 0x8A, CHR 0xA4, CHR 0xED, CHR 0x85, CHR 0x9C], [CHR 0xEC, CHR 0x8B, CHR 0x9C, CHR 0xEC,
         CHR 0x8A, CHR 0xA4, CHR 0xED, CHR 0x85, CHR 0x9C, CHR 0xEA, CHR 0xB4, CHR 0x80, CHR 0xEB, CHR 0xA6,
         CHR 0xAC]]),
      (''security'', [[CHR 0xEC, CHR 0xA0, CHR 0x95, CHR 0xEB, CHR 0xB3, CHR 0xB4, CHR 0xEB, CHR 0xB3, CHR 0xB4,
         CHR 0xEC, CHR 0x95, CHR 0x88], [CHR 0xEB, CHR 0xB3, CHR 0xB4, CHR 0xEC, CHR 0x95, CHR 0x88]])]"

definition ALL_SUBJECTS_HINTS :: "string list" where
  "ALL_SUBJECTS_HINTS = [[CHR 0xEA, CHR 0xB3, CHR 0xBC, CHR 0xEB, CHR 0xAA, CHR 0xA9, CHR 0xEB, CHR 0xB3, CHR 0x84],
         [CHR 0xEA, CHR 0xB0, CHR 0x81] @ '' '' @ [CHR 0xEA, CHR 0xB3, CHR 0xBC, CHR 0xEB, CHR 0xAA, CHR 0xA9],
         [CHR 0xEC, CHR 0xA0, CHR 0x84] @ '' '' @ [CHR 0xEA, CHR 0xB3, CHR 0xBC, CHR 0xEB, CHR 0xAA, CHR 0xA9],
         [CHR 0xEB, CHR 0xAA, CHR 0xA8, CHR 0xEB, CHR 0x93, CHR 0xA0] @ '' '' @ [CHR 0xEA, CHR 0xB3, CHR 0xBC,
         CHR 0xEB, CHR 0xAA, CHR 0xA9], [CHR 0xEA, CHR 0xB3, CHR 0xBC, CHR 0xEB, CHR 0xAA, CHR 0xA9, CHR 0xEB,
         CHR 0xA7, CHR 0x88, CHR 0xEB, CHR 0x8B, CHR 0xA4], [CHR 0xEB, CHR 0xAA, CHR 0xA8, CHR 0xEC, CHR 0x9D,
         CHR 0x98, CHR 0xEA, CHR 0xB3, CHR 0xA0, CHR 0xEC, CHR 0x82, CHR 0xAC]]"

definition FIGURE_KWS :: "string list" where
  "FIGURE_KWS = [[CHR 0xEC, CHR 0x9D, CHR 0xB4, CHR 0xEB, CHR 0xAF, CHR 0xB8, CHR 0xEC, CHR 0xA7, CHR 0x80],
         [CHR 0xEA, CHR 0xB7, CHR 0xB8, CHR 0xEB, CHR 0xA6, CHR 0xBC], [CHR 0xEC, CHR 0x82, CHR 0xAC, CHR 0xEC,
         CHR 0xA7, CHR 0x84], [CHR 0xEA, CHR 0xB7, CHR 0xB8, CHR 0xEB, CHR 0x9E, CHR 0x98, CHR 0xED, CHR 0x94,
         CHR 0x84], [CHR 0xEB, CHR 0x8F, CHR 0x84, CHR 0xEC, CHR 0x8B, CHR 0x9D], [CHR 0xEB, CHR 0x8B, CHR 0xA4,
         CHR 0xEC, CHR 0x9D, CHR 0xB4, CHR 0xEC, CHR 0x96, CHR 0xB4, CHR 0xEA, CHR 0xB7, CHR 0xB8, CHR 0xEB,
         CHR 0x9E, CHR 0xA8], [CHR 0xEB, CHR 0x8F, CHR 0x84, CHR 0xED, CHR 0x91, CHR 0x9C]]"

definition read_defaults :: "pylib \<Rightarrow> pyval \<Rightarrow> assessment_defaults res" where
  "read_defaults L tenant_config =
     (let cfg = (case tenant_config of PDict d \<Rightarrow> py_or (dget d ''assessment'' PNone) (PDict []) | _ \<Rightarrow> PDict []);
          chat = (case cfg of PDict d \<Rightarrow> (case dget d ''chat'' PNone of PDict c \<Rightarrow> c | _ \<Rightarrow> []) | _ \<Rightarrow> [])
      in bind_res (py_int L (dget chat ''default_count'' (PInt 3))) (\<lambda>c.
         bind_res (py_int L (dget chat ''max_total'' (PInt 20))) (\<lambda>t.
         bind_res (py_int L (dget chat ''max_subjects'' (PInt 6))) (\<lambda>s.
           Inr \<lparr>df_default_count = c, df_max_total = t, df_max_subjects = s\<rparr>))))"

definition mentions :: "string list \<Rightarrow> string \<Rightarrow> bool" where
  \<comment> \<open>\<open>any(w in q for w in ws)\<close>\<close>
  "mentions ws q = list_ex (\<lambda>w. contains w q) ws"

definition match_int :: "pylib \<Rightarrow> string \<Rightarrow> int res" where
  "match_int L digits = (case int_of_text L digits of None \<Rightarrow> Inl ValueError | Some i \<Rightarrow> Inr i)"

definition named_subjects :: "pylib \<Rightarrow> string \<Rightarrow> string list \<Rightarrow> string list" where
  "named_subjects L q subjects =
     filter (\<lambda>subj.
         list_ex (\<lambda>t. t \<noteq> [] \<and> contains t (lower_of L q))
           [lower_of L subj, lower_of L (replace_char (CHR ''_'') (CHR '' '') subj)]
         \<or> mentions (case map_of SUBJECT_ALIASES subj of None \<Rightarrow> [] | Some as \<Rightarrow> as) q) subjects"

definition plan_difficulty :: "string \<Rightarrow> string" where
  \<comment> \<open>the difficulty words of \<open>_plan_assessment\<close>\<close>
  "plan_difficulty q =
     (if mentions [[CHR 0xEC, CHR 0x96, CHR 0xB4, CHR 0xEB, CHR 0xA0, CHR 0xA4, CHR 0xEC, CHR 0x9A, CHR 0xB4],
         [CHR 0xEC, CHR 0x96, CHR 0xB4, CHR 0xEB, CHR 0xA0, CHR 0xB5, CHR 0xEA, CHR 0xB2, CHR 0x8C], [CHR 0xEC,
         CHR 0x83, CHR 0x81], ''hard''] q then ''hard''
      else if mentions [[CHR 0xEC, CHR 0x89, CHR 0xAC, CHR 0xEC, CHR 0x9A, CHR 0xB4], [CHR 0xEC, CHR 0x89, CHR 0xBD,
         CHR 0xEA, CHR 0xB2, CHR 0x8C], [CHR 0xED, CHR 0x95, CHR 0x98], ''easy''] q then ''easy'' else ''medium'')"

definition difficulty_from_q :: "string \<Rightarrow> string" where
  "difficulty_from_q q =
     (if mentions [[CHR 0xEC, CHR 0x96, CHR 0xB4, CHR 0xEB, CHR 0xA0, CHR 0xA4, CHR 0xEC, CHR 0x9A, CHR 0xB4],
         [CHR 0xEC, CHR 0x96, CHR 0xB4, CHR 0xEB, CHR 0xA0, CHR 0xB5, CHR 0xEA, CHR 0xB2, CHR 0x8C],
         ''hard''] q then ''hard''
      else if mentions [[CHR 0xEC, CHR 0x89, CHR 0xAC, CHR 0xEC, CHR 0x9A, CHR 0xB4], [CHR 0xEC, CHR 0x89, CHR 0xBD,
         CHR 0xEA, CHR 0xB2, CHR 0x8C], ''easy''] q then ''easy'' else ''medium'')"

definition requested_count :: "assessment_deps \<Rightarrow> string \<Rightarrow> assessment_defaults \<Rightarrow> int option \<Rightarrow> int res" where
  "requested_count D q defaults override =
     (case override of Some n \<Rightarrow> Inr n
      | None \<Rightarrow> (case ad_counts D COUNT_RE q of [] \<Rightarrow> Inr (df_default_count defaults)
                | (_, digits) # _ \<Rightarrow> match_int (ad_lib D) digits))"

definition plan_assessment ::
  "assessment_deps \<Rightarrow> string \<Rightarrow> string list \<Rightarrow> assessment_defaults \<Rightarrow> int option \<Rightarrow> plan_entry list res" where
  "plan_assessment D q subjects defaults override =
     bind_res (requested_count D q defaults override) (\<lambda>count0.
       let cnt = max 1 (min count0 (df_max_total defaults));
           entry = (\<lambda>s. \<lparr>pe_subject = PStr s, pe_count = cnt, pe_difficulty = plan_difficulty q,
         pe_figure = None\<rparr>);
           named = named_subjects (ad_lib D) q subjects;
           per_subject = mentions ALL_SUBJECTS_HINTS q
       in Inr (case subjects of [] \<Rightarrow> []
               | first # _ \<Rightarrow>
                   if named \<noteq> [] \<and> \<not> per_subject then map entry (slice_to (df_max_subjects defaults) named)
                   else if per_subject then
                     map entry (slice_to (max 1 (min (df_max_subjects defaults) (df_max_total defaults div cnt)))
                                  (if named = [] then subjects else named))
                   else [entry first]))"

definition wants_figure :: "string \<Rightarrow> bool" where
  "wants_figure q = mentions [[CHR 0xEA, CHR 0xB7, CHR 0xB8, CHR 0xEB, CHR 0xA6, CHR 0xBC], [CHR 0xEC, CHR 0x9D,
         CHR 0xB4, CHR 0xEB, CHR 0xAF, CHR 0xB8, CHR 0xEC, CHR 0xA7, CHR 0x80], [CHR 0xEC, CHR 0x82, CHR 0xAC,
         CHR 0xEC, CHR 0xA7, CHR 0x84], [CHR 0xEA, CHR 0xB7, CHR 0xB8, CHR 0xEB, CHR 0x9E, CHR 0x98, CHR 0xED,
         CHR 0x94, CHR 0x84], [CHR 0xEB, CHR 0x8F, CHR 0x84, CHR 0xEC, CHR 0x8B, CHR 0x9D], [CHR 0xEB, CHR 0x8B,
         CHR 0xA4, CHR 0xEC, CHR 0x9D, CHR 0xB4, CHR 0xEC, CHR 0x96, CHR 0xB4, CHR 0xEA, CHR 0xB7, CHR 0xB8,
         CHR 0xEB, CHR 0x9E, CHR 0xA8], [CHR 0xEB, CHR 0x8F, CHR 0x84, CHR 0xED, CHR 0x91, CHR 0x9C]] q"

fun find_from :: "nat \<Rightarrow> string list \<Rightarrow> string list \<Rightarrow> nat option" where
  "find_from i needle [] = (if needle = [] then Some i else None)"
| "find_from i needle (c # cs) = (if prefix needle (c # cs) then Some i else find_from (Suc i) needle cs)"

definition py_find :: "string \<Rightarrow> string \<Rightarrow> int" where
  \<comment> \<open>\<open>q.find(k)\<close>, a position in code points\<close>
  "py_find k q = (case find_from 0 (utf8_chars k) (utf8_chars q) of None \<Rightarrow> -1 | Some i \<Rightarrow> int i)"

fun min_by :: "('a \<Rightarrow> int) \<Rightarrow> 'a \<Rightarrow> 'a list \<Rightarrow> 'a" where
  \<comment> \<open>\<open>min(xs, key=f)\<close>: the first of the smallest elements\<close>
  "min_by f x [] = x"
| "min_by f x (y # ys) = min_by f (if f y < f x then y else x) ys"

definition count_matches :: "assessment_deps \<Rightarrow> string \<Rightarrow> (nat \<times> int) list res" where
  "count_matches D q =
     map_res (\<lambda>(start, digits). bind_res (match_int (ad_lib D) digits) (\<lambda>n. Inr (start,
         n))) (ad_counts D COUNT_RE q)"

definition figure_count_near :: "assessment_deps \<Rightarrow> string \<Rightarrow> int option res" where
  "figure_count_near D q =
     bind_res (count_matches D q) (\<lambda>nums.
       let kw_pos = map (\<lambda>k. py_find k q) (filter (\<lambda>k. contains k q) FIGURE_KWS) in
       Inr (case (nums, kw_pos) of
              (n # ns, p # ps) \<Rightarrow>
                Some (snd (min_by (\<lambda>(start,
         _). Min (set (map (\<lambda>p. \<bar>int start - p\<bar>) kw_pos))) n ns))
            | _ \<Rightarrow> None))"

definition parse_assessment_counts :: "assessment_deps \<Rightarrow> string \<Rightarrow> assessment_defaults \<Rightarrow> (int \<times> int) res" where
  "parse_assessment_counts D q defaults =
     bind_res (count_matches D q) (\<lambda>matches.
       let nums = map snd matches in
       if \<not> wants_figure q then
         Inr (max 1 (case nums of [] \<Rightarrow> df_default_count defaults | n # _ \<Rightarrow> n), 0)
       else bind_res (figure_count_near D q) (\<lambda>near.
         let fig_n = (case near of None \<Rightarrow> 1 | Some n \<Rightarrow> n);
             n_total = (if nums = [] then fig_n else Max (set nums))
         in Inr (max n_total fig_n, fig_n)))"

section \<open>Items as dictionaries\<close>

definition hex_digit :: "nat \<Rightarrow> char" where
  "hex_digit n = char_of (if n < 10 then 48 + n else 55 + n)"

definition unreserved :: "char \<Rightarrow> bool" where
  "unreserved c = (let n = of_char c :: nat in
     48 \<le> n \<and> n \<le> 57 \<or> 65 \<le> n \<and> n \<le> 90 \<or> 97 \<le> n \<and> n \<le> 122 \<or> c \<in> set ''_.-~'')"

definition url_quote :: "string \<Rightarrow> string" where
  \<comment> \<open>\<open>urllib.parse.quote(s, safe='')\<close>: percent-encoding of the UTF-8 bytes\<close>
  "url_quote s = concat (map (\<lambda>c. if unreserved c then [c]
       else [CHR ''%'', hex_digit (of_char c div 16), hex_digit (of_char c mod 16)]) s)"

definition opt_value :: "string option \<Rightarrow> pyval" where
  "opt_value v = (case v of None \<Rightarrow> PNone | Some s \<Rightarrow> PStr s)"

definition item_to_dict :: "pylib \<Rightarrow> string option \<Rightarrow> item \<Rightarrow> pydict" where
  "item_to_dict L domain_id it =
     (let d = [(''subject'', opt_value (it_subject it)), (''difficulty'', opt_value (it_difficulty it)),
               (''predicted_difficulty'', opt_value (it_predicted_difficulty it)),
               (''question_text'', PStr (it_question_text it)), (''choices'', PList (it_choices it)),
               (''answer'', PStr (it_answer it)), (''explanation'', opt_value (it_explanation it))]
      in case (domain_id, it_assets it) of
           (Some dm, PDict a # _) \<Rightarrow>
             (let key = dget a ''storage_key'' PNone in
              if dm \<noteq> [] \<and> truthy key
              then d @ [(''image_url'',
         PStr (''/api/'' @ dm @ ''/assessment/asset?key='' @ url_quote (py_str L key)))]
              else d)
         | _ \<Rightarrow> d)"

section \<open>Collecting items\<close>

record figure_progress =
  fp_items :: "pydict list"
  fp_unavailable :: bool
  fp_errors :: nat
  fp_calls :: nat

fun figure_subjects ::
  "assessment_deps \<Rightarrow> (nat \<Rightarrow> string \<Rightarrow> figure_criteria \<Rightarrow> figure_result res) \<Rightarrow> string \<Rightarrow> int \<Rightarrow> string \<Rightarrow> string list
   \<Rightarrow> figure_progress \<Rightarrow> figure_progress" where
  \<comment> \<open>the loop over the subjects of one pass; a failing subject is passed over,
         a dead VLM ends the loop\<close>
  "figure_subjects D gen domain_id cnt difficulty [] p = p"
| "figure_subjects D gen domain_id cnt difficulty (subj # rest) p =
     (if int (length (fp_items p)) \<ge> cnt then p
      else let c = \<lparr>fc_subject = subj, fc_chapter = None, fc_difficulty = difficulty,
                    fc_count = cnt - int (length (fp_items p))\<rparr>;
               p1 = p\<lparr>fp_calls := Suc (fp_calls p)\<rparr> in
        case gen (fp_calls p) domain_id c of
          Inl _ \<Rightarrow> figure_subjects D gen domain_id cnt difficulty rest p1
        | Inr r \<Rightarrow>
            if fr_vlm_unavailable r then p1\<lparr>fp_unavailable := True\<rparr>
            else figure_subjects D gen domain_id cnt difficulty rest
                   (p1\<lparr>fp_errors := fp_errors p + fr_vlm_errors r,
                       fp_items := fp_items p @ map (item_to_dict (ad_lib D) (Some domain_id)) (fr_items r)\<rparr>))"

definition collect_figure_items ::
  "assessment_deps \<Rightarrow> string \<Rightarrow> string list \<Rightarrow> int \<Rightarrow> string \<Rightarrow> figure_progress" where
  \<comment> \<open>at most two passes; the second only if the first produced nothing and the VLM is alive\<close>
  "collect_figure_items D domain_id try_list cnt difficulty =
     (let p0 = \<lparr>fp_items = [], fp_unavailable = False, fp_errors = 0, fp_calls = 0\<rparr> in
      case ad_figure D of
        None \<Rightarrow> p0
      | Some gen \<Rightarrow>
          if cnt \<le> 0 then p0
          else let pass = figure_subjects D gen domain_id cnt difficulty (take 8 try_list);
                   p1 = pass p0
               in if fp_unavailable p1 \<or> int (length (fp_items p1)) \<ge> cnt \<or> fp_items p1 \<noteq> [] then p1
                  else pass p1)"

definition TEXT_BATCH :: int where
  "TEXT_BATCH = 5"

function batch_sizes :: "int \<Rightarrow> int list" where
  \<comment> \<open>\<open>while remaining > 0\<close>\<close>
  "batch_sizes remaining =
     (if remaining > 0 then min TEXT_BATCH remaining # batch_sizes (remaining - min TEXT_BATCH remaining) else [])"
  by pat_completeness auto
termination
  by (relation "measure nat") (auto simp: TEXT_BATCH_def)

declare batch_sizes.simps [simp del]

definition batched_plan :: "plan_entry list \<Rightarrow> plan_entry list" where
  "batched_plan plan = concat (map (\<lambda>e. map (\<lambda>n. e\<lparr>pe_count := n\<rparr>) (batch_sizes (pe_count e))) plan)"

definition gen_one ::
  "assessment_deps \<Rightarrow> (nat \<Rightarrow> string \<Rightarrow> generate_criteria \<Rightarrow> generate_result res) \<Rightarrow> string \<Rightarrow> nat \<Rightarrow> plan_entry \<Rightarrow> pydict list" where
  "gen_one D gen domain_id i e =
     (case gen i domain_id \<lparr>gc_subject = py_str (ad_lib D) (pe_subject e), gc_chapter = None,
             gc_difficulty = pe_difficulty e, gc_count = pe_count e, gc_question_type = ''multiple_choice''\<rparr> of
        Inl _ \<Rightarrow> []
      | Inr r \<Rightarrow> map (item_to_dict (ad_lib D) None) (ge_items r))"

definition collect_text_items ::
  "assessment_deps \<Rightarrow> (nat \<Rightarrow> string \<Rightarrow> generate_criteria \<Rightarrow> generate_result res) \<Rightarrow> string \<Rightarrow> plan_entry list \<Rightarrow> int
   \<Rightarrow> pydict list" where
  \<comment> \<open>the batches run concurrently and their results are joined in order\<close>
  "collect_text_items D gen domain_id plan max_total =
     (let batches = batched_plan plan
      in slice_to max_total (concat (map (\<lambda>(i,
         e). gen_one D gen domain_id i e) (zip [0..<length batches] batches))))"

section \<open>The answer\<close>

definition py_chr :: "nat \<Rightarrow> string" where
  \<comment> \<open>\<open>chr(n)\<close> as UTF-8\<close>
  "py_chr n =
     (if n < 128 then [char_of n]
      else if n < 2048 then [char_of (192 + n div 64), char_of (128 + n mod 64)]
      else if n < 65536 then [char_of (224 + n div 4096), char_of (128 + n div 64 mod 64), char_of (128 + n mod 64)]
      else [char_of (240 + n div 262144), char_of (128 + n div 4096 mod 64), char_of (128 + n div 64 mod 64),
            char_of (128 + n mod 64)])"

definition has_label :: "string \<Rightarrow> bool" where
  \<comment> \<open>\<open>re.match(r"^[A-Da-d1-4][.)]\\s", c)\<close>\<close>
  "has_label c = (case utf8_chars c of
       a # b # s # _ \<Rightarrow> a \<in> set (map (\<lambda>x. [x]) ''ABCDabcd1234'') \<and> is_dot_paren b \<and> is_space s
     | _ \<Rightarrow> False)"

definition choice_line :: "pylib \<Rightarrow> nat \<Rightarrow> pyval \<Rightarrow> string" where
  "choice_line L ci choice =
     (let c = py_strip (py_str L choice)
      in if has_label c then ''   '' @ c else ''   '' @ py_chr (65 + ci) @ ''. '' @ c)"

definition question_lines :: "pylib \<Rightarrow> nat \<Rightarrow> pydict \<Rightarrow> string list res" where
  "question_lines L i it =
     bind_res (case map_of it ''question_text'' of None \<Rightarrow> Inl KeyError | Some t \<Rightarrow> Inr t) (\<lambda>t.
     bind_res (py_iter (py_or (dget it ''choices'' PNone) (PList []))) (\<lambda>choices.
       Inr ([''**'' @ int_str (int i) @ ''. ('' @ py_str L (py_or (dget it ''subject'' PNone) (PStr [])) @ '') ''
             @ py_str L t @ ''**'']
            @ map (\<lambda>(ci, ch). choice_line L ci ch) (zip [0..<length choices] choices) @ [[]])))"

definition answer_line :: "pylib \<Rightarrow> nat \<Rightarrow> pydict \<Rightarrow> string" where
  "answer_line L i it =
     (let ex = py_or (dget it ''explanation'' PNone) (PStr []) in
      int_str (int i) @ ''. '' @ [CHR 0xEC, CHR 0xA0, CHR 0x95, CHR 0xEB, CHR 0x8B,
         CHR 0xB5] @ '': '' @ py_str L (py_or (dget it ''answer'' PNone) (PStr []))
      @ (if truthy ex then '' '' @ [CHR 0xE2, CHR 0x80, CHR 0x94] @ '' '' @ py_str L ex else []))"

definition format_assessment_answer :: "pylib \<Rightarrow> pydict list \<Rightarrow> plan_entry list \<Rightarrow> string res" where
  "format_assessment_answer L items plan =
     (if items = [] then Inr ([CHR 0xEC, CHR 0x9A, CHR 0x94, CHR 0xEC, CHR 0xB2, CHR 0xAD, CHR 0xED, CHR 0x95,
         CHR 0x98, CHR 0xEC, CHR 0x8B, CHR 0xA0] @ '' '' @ [CHR 0xEA, CHR 0xB3, CHR 0xBC, CHR 0xEB, CHR 0xAA,
         CHR 0xA9, CHR 0xEC, CHR 0x97, CHR 0x90] @ '' '' @ [CHR 0xEC, CHR 0x8A, CHR 0xB9, CHR 0xEC, CHR 0x9D,
         CHR 0xB8, CHR 0xEB, CHR 0x90, CHR 0x9C] @ '' '' @ [CHR 0xEB, CHR 0xAC, CHR 0xB8, CHR 0xED, CHR 0x95,
         CHR 0xAD, CHR 0xEC, CHR 0x9D, CHR 0xB4] @ '' '' @ [CHR 0xEB, CHR 0xB6, CHR 0x80, CHR 0xEC, CHR 0xA1,
         CHR 0xB1, CHR 0xED, CHR 0x95, CHR 0xB4] @ '' '' @ [CHR 0xEC, CHR 0xA7, CHR 0x80, CHR 0xEA, CHR 0xB8,
         CHR 0x88, CHR 0xEC, CHR 0x9D, CHR 0x80] @ '' '' @ [CHR 0xEC, CHR 0xB6, CHR 0x9C, CHR 0xEC, CHR 0xA0,
         CHR 0x9C, CHR 0xED, CHR 0x95, CHR 0xA0] @ '' '' @ [CHR 0xEC, CHR 0x88, CHR 0x98] @ '' '' @ [CHR 0xEC,
         CHR 0x97, CHR 0x86, CHR 0xEC, CHR 0x8A, CHR 0xB5, CHR 0xEB, CHR 0x8B, CHR 0x88, CHR 0xEB, CHR 0x8B,
         CHR 0xA4] @ ''. '' @ [CHR 0xEA, CHR 0xB4, CHR 0x80, CHR 0xEB, CHR 0xA6, CHR 0xAC, CHR 0xEC, CHR 0x9E,
         CHR 0x90, CHR 0xEA, CHR 0xB0, CHR 0x80] @ '' '' @ [CHR 0xED, CHR 0x95, CHR 0xB4, CHR 0xEB, CHR 0x8B,
         CHR 0xB9] @ '' '' @ [CHR 0xEA, CHR 0xB3, CHR 0xBC, CHR 0xEB, CHR 0xAA, CHR 0xA9] @ '' '' @ [CHR 0xEB,
         CHR 0xAC, CHR 0xB8, CHR 0xED, CHR 0x95, CHR 0xAD, CHR 0xEC, CHR 0x9D, CHR 0x84] @ '' '' @ [CHR 0xEA,
         CHR 0xB2, CHR 0x80, CHR 0xEC, CHR 0x88, CHR 0x98, CHR 0xC2, CHR 0xB7, CHR 0xEC, CHR 0x8A, CHR 0xB9,
         CHR 0xEC, CHR 0x9D, CHR 0xB8, CHR 0xED, CHR 0x95, CHR 0x9C] @ '' '' @ [CHR 0xEB, CHR 0x92,
         CHR 0xA4] @ '' '' @ [CHR 0xEB, CHR 0x8B, CHR 0xA4, CHR 0xEC, CHR 0x8B, CHR 0x9C] @ '' '' @ [CHR 0xEC,
         CHR 0x8B, CHR 0x9C, CHR 0xEB, CHR 0x8F, CHR 0x84, CHR 0xED, CHR 0x95, CHR 0xB4] @ '' '' @ [CHR 0xEC,
         CHR 0xA3, CHR 0xBC, CHR 0xEC, CHR 0x84, CHR 0xB8, CHR 0xEC, CHR 0x9A, CHR 0x94] @ ''.'')
      else
        let subjects = sorted_list_of_set (set (map (\<lambda>e. py_str L (pe_subject e)) plan));
            numbered = zip [1..<Suc (length items)] items
        in bind_res (map_res (\<lambda>(i, it). question_lines L i it) numbered) (\<lambda>qs.
             Inr (py_join nl
               ([[CHR 0xEB, CHR 0xAC, CHR 0xB8, CHR 0xEC, CHR 0xA0, CHR 0x9C, CHR 0xEC, CHR 0x9D, CHR 0x80, CHR 0xED,
         CHR 0x96, CHR 0x89, CHR 0xEC, CHR 0x9D, CHR 0x84] @ '' '' @ [CHR 0xEA, CHR 0xB7, CHR 0xBC, CHR 0xEA,
         CHR 0xB1, CHR 0xB0, CHR 0xEB, CHR 0xA1, CHR 0x9C] @ '' '' @ int_str (int (length items)) @ [CHR 0xEB,
         CHR 0xAC, CHR 0xB8, CHR 0xEC, CHR 0xA0, CHR 0x9C, CHR 0xEB, CHR 0xA5, CHR 0xBC] @ '' '' @ [CHR 0xEC,
         CHR 0xB6, CHR 0x9C, CHR 0xEC, CHR 0xA0, CHR 0x9C, CHR 0xED, CHR 0x96, CHR 0x88, CHR 0xEC, CHR 0x8A,
         CHR 0xB5, CHR 0xEB, CHR 0x8B, CHR 0x88, CHR 0xEB, CHR 0x8B, CHR 0xA4] @ '' ('' @ [CHR 0xEA, CHR 0xB3,
         CHR 0xBC, CHR 0xEB, CHR 0xAA, CHR 0xA9] @ '': '' @ py_join '', '' subjects @ '').'' @ nl]
                @ concat qs @ [''---'' @ nl @ ''**'' @ [CHR 0xEC, CHR 0xA0, CHR 0x95, CHR 0xEB, CHR 0x8B,
         CHR 0xB5] @ '' '' @ [CHR 0xEB, CHR 0xB0, CHR 0x8F] @ '' '' @ [CHR 0xED, CHR 0x95, CHR 0xB4, CHR 0xEC,
         CHR 0x84, CHR 0xA4] @ ''**''] @ map (\<lambda>(i, it). answer_line L i it) numbered))))"

definition notice :: "string \<Rightarrow> assessment_out" where
  \<comment> \<open>an answer without items: the state keeps its own item lists\<close>
  "notice msg = \<lparr>ao_grounding = ''ungrounded'', ao_answer = msg, ao_items_plan = None\<rparr>"

definition composed :: "pydict list \<Rightarrow> plan_entry list \<Rightarrow> string \<Rightarrow> assessment_out" where
  "composed items plan answer =
     \<lparr>ao_grounding = ''assessment'', ao_answer = answer,
      ao_items_plan = Some (map PDict items, map plan_to_dict plan)\<rparr>"

definition item_entry :: "string \<Rightarrow> (pydict \<Rightarrow> bool) \<Rightarrow> pydict \<Rightarrow> plan_entry" where
  "item_entry difficulty fig it =
     \<lparr>pe_subject = dget it ''subject'' PNone, pe_count = 1, pe_difficulty = difficulty,
         pe_figure = Some (fig it)\<rparr>"

definition compound_notes :: "nat \<Rightarrow> int \<Rightarrow> nat \<Rightarrow> int \<Rightarrow> string list" where
  "compound_notes n_fig figure_count n_text text_count =
     (if int n_fig < figure_count
      then [[CHR 0xEA, CHR 0xB7, CHR 0xB8, CHR 0xEB, CHR 0xA6, CHR 0xBC] @ '' '' @ [CHR 0xEB, CHR 0xAC, CHR 0xB8,
         CHR 0xED, CHR 0x95, CHR 0xAD, CHR 0xEC, CHR 0x9D, CHR 0x80] @ '' '' @ [CHR 0xEC, CHR 0x9E, CHR 0xAC,
         CHR 0xEC, CHR 0x82, CHR 0xAC, CHR 0xEC, CHR 0x9A, CHR 0xA9] @ '' '' @ [CHR 0xEA, CHR 0xB0, CHR 0x80,
         CHR 0xEB, CHR 0x8A, CHR 0xA5, CHR 0xEB, CHR 0xB6, CHR 0x84, CHR 0xEC, CHR 0x9D,
         CHR 0xB4] @ '' '' @ [CHR 0xEB, CHR 0xB6, CHR 0x80, CHR 0xEC, CHR 0xA1, CHR 0xB1, CHR 0xED, CHR 0x95,
         CHR 0xB4] @ '' '' @ int_str (int n_fig) @ ''/'' @ int_str figure_count @ [CHR 0xEA, CHR 0xB0, CHR 0x9C,
         CHR 0xEB, CHR 0xA7, CHR 0x8C] @ '' '' @ [CHR 0xED, CHR 0x8F, CHR 0xAC, CHR 0xED, CHR 0x95, CHR 0xA8,
         CHR 0xED, CHR 0x96, CHR 0x88, CHR 0xEC, CHR 0x8A, CHR 0xB5, CHR 0xEB, CHR 0x8B, CHR 0x88, CHR 0xEB,
         CHR 0x8B, CHR 0xA4] @ ''.''] else [])
     @ (if text_count > 0 \<and> int n_text < text_count
        then [[CHR 0xED, CHR 0x85, CHR 0x8D, CHR 0xEC, CHR 0x8A, CHR 0xA4, CHR 0xED, CHR 0x8A,
         CHR 0xB8] @ '' '' @ [CHR 0xEB, CHR 0xAC, CHR 0xB8, CHR 0xED, CHR 0x95, CHR 0xAD, CHR 0xEC, CHR 0x9D,
         CHR 0x80] @ '' '' @ int_str (int n_text) @ ''/'' @ int_str text_count @ [CHR 0xEA, CHR 0xB0,
         CHR 0x9C] @ '' '' @ [CHR 0xEC, CHR 0x83, CHR 0x9D, CHR 0xEC, CHR 0x84, CHR 0xB1, CHR 0xEB, CHR 0x90,
         CHR 0x90, CHR 0xEC, CHR 0x8A, CHR 0xB5, CHR 0xEB, CHR 0x8B, CHR 0x88, CHR 0xEB, CHR 0x8B,
         CHR 0xA4] @ ''.''] else [])"

definition compound_assessment_branch ::
  "assessment_deps \<Rightarrow> (nat \<Rightarrow> string \<Rightarrow> generate_criteria \<Rightarrow> generate_result res) \<Rightarrow> string \<Rightarrow> string \<Rightarrow> string list
   \<Rightarrow> int \<Rightarrow> int \<Rightarrow> assessment_defaults \<Rightarrow> assessment_out res" where
  "compound_assessment_branch D gen domain_id q subjects n_total figure_count defaults =
     (let L = ad_lib D; difficulty = difficulty_from_q q; text_count = max 0 (n_total - figure_count);
          named = named_subjects L q subjects; try_list = (if named \<noteq> [] then named else subjects) in
      bind_res (if text_count \<le> 0 then Inr []
                else bind_res (plan_assessment D q subjects defaults (Some text_count)) (\<lambda>plan.
                  Inr (collect_text_items D gen domain_id plan (df_max_total defaults)))) (\<lambda>text_items.
      let fig_items = fp_items (collect_figure_items D domain_id try_list figure_count difficulty);
          items = text_items @ fig_items in
      if items = [] then Inr (notice ([CHR 0xEC, CHR 0x9A, CHR 0x94, CHR 0xEC, CHR 0xB2, CHR 0xAD, CHR 0xED,
         CHR 0x95, CHR 0x98, CHR 0xEC, CHR 0x8B, CHR 0xA0] @ '' '' @ [CHR 0xEC, CHR 0xA1, CHR 0xB0, CHR 0xEA,
         CHR 0xB1, CHR 0xB4, CHR 0xEC, CHR 0x9C, CHR 0xBC, CHR 0xEB, CHR 0xA1, CHR 0x9C] @ '' '' @ [CHR 0xEC,
         CHR 0xB6, CHR 0x9C, CHR 0xEC, CHR 0xA0, CHR 0x9C, CHR 0xED, CHR 0x95, CHR 0xA0] @ '' '' @ [CHR 0xEC,
         CHR 0x88, CHR 0x98] @ '' '' @ [CHR 0xEC, CHR 0x9E, CHR 0x88, CHR 0xEB, CHR 0x8A,
         CHR 0x94] @ '' '' @ [CHR 0xEB, CHR 0xAC, CHR 0xB8, CHR 0xED, CHR 0x95, CHR 0xAD, CHR 0xEC, CHR 0x9D,
         CHR 0xB4] @ '' '' @ [CHR 0xEB, CHR 0xB6, CHR 0x80, CHR 0xEC, CHR 0xA1, CHR 0xB1, CHR 0xED, CHR 0x95,
         CHR 0xA9, CHR 0xEB, CHR 0x8B, CHR 0x88, CHR 0xEB, CHR 0x8B, CHR 0xA4] @ ''. '' @ [CHR 0xEC, CHR 0x9E,
         CHR 0xA0, CHR 0xEC, CHR 0x8B, CHR 0x9C] @ '' '' @ [CHR 0xED, CHR 0x9B, CHR 0x84] @ '' '' @ [CHR 0xEB,
         CHR 0x8B, CHR 0xA4, CHR 0xEC, CHR 0x8B, CHR 0x9C] @ '' '' @ [CHR 0xEC, CHR 0x8B, CHR 0x9C, CHR 0xEB,
         CHR 0x8F, CHR 0x84, CHR 0xED, CHR 0x95, CHR 0x98, CHR 0xEA, CHR 0xB1, CHR 0xB0, CHR 0xEB, CHR 0x82,
         CHR 0x98] @ '' '' @ [CHR 0xEB, CHR 0x8B, CHR 0xA4, CHR 0xEB, CHR 0xA5, CHR 0xB8] @ '' '' @ [CHR 0xEA,
         CHR 0xB3, CHR 0xBC, CHR 0xEB, CHR 0xAA, CHR 0xA9, CHR 0xEC, CHR 0x9C, CHR 0xBC, CHR 0xEB, CHR 0xA1,
         CHR 0x9C] @ '' '' @ [CHR 0xEC, CHR 0x9A, CHR 0x94, CHR 0xEC, CHR 0xB2, CHR 0xAD, CHR 0xED, CHR 0x95,
         CHR 0xB4] @ '' '' @ [CHR 0xEC, CHR 0xA3, CHR 0xBC, CHR 0xEC, CHR 0x84, CHR 0xB8, CHR 0xEC, CHR 0x9A,
         CHR 0x94] @ ''.''))
      else
        let plan = map (item_entry difficulty (\<lambda>it. truthy (dget it ''image_url'' PNone))) items;
            notes = compound_notes (length fig_items) figure_count (length text_items) text_count
        in bind_res (format_assessment_answer L items plan) (\<lambda>answer.
             Inr (composed items plan
               (if notes = [] then answer else answer @ nl @ nl @ [CHR 0xE2, CHR 0x80,
         CHR 0xBB] @ '' '' @ py_join '' '' notes)))))"

definition figure_reuse_branch :: "assessment_deps \<Rightarrow> string \<Rightarrow> string \<Rightarrow> string list \<Rightarrow> assessment_out res" where
  "figure_reuse_branch D domain_id q subjects =
     (let L = ad_lib D in
      bind_res (case ad_counts D FIGURE_COUNT_RE q of [] \<Rightarrow> Inr 1 | (_,
         digits) # _ \<Rightarrow> match_int L digits) (\<lambda>n.
      let cnt = max 1 (min n 5); difficulty = difficulty_from_q q; named = named_subjects L q subjects;
          p = collect_figure_items D domain_id (if named \<noteq> [] then named else subjects) cnt difficulty;
          items = fp_items p in
      if items = [] then
        Inr (notice (if fp_unavailable p \<or> fp_errors p > 0 then [CHR 0xEA, CHR 0xB7, CHR 0xB8, CHR 0xEB,
         CHR 0xA6, CHR 0xBC] @ '' '' @ [CHR 0xEC, CHR 0xB6, CHR 0x9C, CHR 0xEC, CHR 0xA0,
         CHR 0x9C] @ '' '' @ [CHR 0xEB, CHR 0xAA, CHR 0xA8, CHR 0xEB, CHR 0x8D, CHR 0xB8] @ ''(VLM)'' @ [CHR 0xEC,
         CHR 0x9D, CHR 0xB4] @ '' '' @ [CHR 0xEC, CHR 0x9D, CHR 0xBC, CHR 0xEC, CHR 0x8B, CHR 0x9C, CHR 0xEC,
         CHR 0xA0, CHR 0x81, CHR 0xEC, CHR 0x9C, CHR 0xBC, CHR 0xEB, CHR 0xA1, CHR 0x9C] @ '' '' @ [CHR 0xEC,
         CHR 0x9D, CHR 0x91, CHR 0xEB, CHR 0x8B, CHR 0xB5, CHR 0xED, CHR 0x95, CHR 0x98, CHR 0xEC, CHR 0xA7,
         CHR 0x80] @ '' '' @ [CHR 0xEB, CHR 0xAA, CHR 0xBB, CHR 0xED, CHR 0x96, CHR 0x88, CHR 0xEC, CHR 0x8A,
         CHR 0xB5, CHR 0xEB, CHR 0x8B, CHR 0x88, CHR 0xEB, CHR 0x8B, CHR 0xA4] @ ''. '' @ [CHR 0xEC, CHR 0x9E,
         CHR 0xA0, CHR 0xEC, CHR 0x8B, CHR 0x9C] @ '' '' @ [CHR 0xED, CHR 0x9B, CHR 0x84] @ '' '' @ [CHR 0xEB,
         CHR 0x8B, CHR 0xA4, CHR 0xEC, CHR 0x8B, CHR 0x9C] @ '' '' @ [CHR 0xEC, CHR 0x8B, CHR 0x9C, CHR 0xEB,
         CHR 0x8F, CHR 0x84, CHR 0xED, CHR 0x95, CHR 0xB4] @ '' '' @ [CHR 0xEC, CHR 0xA3, CHR 0xBC, CHR 0xEC,
         CHR 0x84, CHR 0xB8, CHR 0xEC, CHR 0x9A, CHR 0x94] @ ''.''
                     else if named \<noteq> [] then [CHR 0x27] @ py_join '', '' named @ [CHR 0x27] @ '' '' @ [CHR 0xEA, CHR 0xB3, CHR 0xBC, CHR 0xEB, CHR 0xAA, CHR 0xA9, CHR 0xEC,
         CHR 0x97, CHR 0x90, CHR 0xEB, CHR 0x8A, CHR 0x94] @ '' '' @ [CHR 0xEC, CHR 0x9E, CHR 0xAC, CHR 0xEC,
         CHR 0x82, CHR 0xAC, CHR 0xEC, CHR 0x9A, CHR 0xA9, CHR 0xED, CHR 0x95, CHR 0xA0] @ '' '' @ [CHR 0xEC,
         CHR 0x88, CHR 0x98] @ '' '' @ [CHR 0xEC, CHR 0x9E, CHR 0x88, CHR 0xEB, CHR 0x8A,
         CHR 0x94] @ '' '' @ [CHR 0xEA, CHR 0xB7, CHR 0xB8, CHR 0xEB, CHR 0xA6, CHR 0xBC] @ '' '' @ [CHR 0xEB,
         CHR 0xAC, CHR 0xB8, CHR 0xED, CHR 0x95, CHR 0xAD, CHR 0xEC, CHR 0x9D, CHR 0xB4] @ '' '' @ [CHR 0xEC,
         CHR 0x97, CHR 0x86, CHR 0xEC, CHR 0x8A, CHR 0xB5, CHR 0xEB, CHR 0x8B, CHR 0x88, CHR 0xEB, CHR 0x8B,
         CHR 0xA4] @ ''. '' @ [CHR 0xEA, CHR 0xB4, CHR 0x80, CHR 0xEB, CHR 0xA6, CHR 0xAC, CHR 0xEC, CHR 0x9E,
         CHR 0x90, CHR 0xEA, CHR 0xB0, CHR 0x80] @ '' '' @ [CHR 0xED, CHR 0x95, CHR 0xB4, CHR 0xEB, CHR 0x8B,
         CHR 0xB9] @ '' '' @ [CHR 0xEA, CHR 0xB3, CHR 0xBC, CHR 0xEB, CHR 0xAA, CHR 0xA9, CHR 0xEC, CHR 0x9D,
         CHR 0x98] @ '' '' @ [CHR 0xEA, CHR 0xB7, CHR 0xB8, CHR 0xEB, CHR 0xA6, CHR 0xBC] @ '' '' @ [CHR 0xEB,
         CHR 0xAC, CHR 0xB8, CHR 0xED, CHR 0x95, CHR 0xAD, CHR 0xEC, CHR 0x9D, CHR 0x84] @ '' '' @ [CHR 0xEC,
         CHR 0x8A, CHR 0xB9, CHR 0xEC, CHR 0x9D, CHR 0xB8, CHR 0xED, CHR 0x96, CHR 0x88, CHR 0xEB, CHR 0x8A,
         CHR 0x94, CHR 0xEC, CHR 0xA7, CHR 0x80] @ '' '' @ [CHR 0xED, CHR 0x99, CHR 0x95, CHR 0xEC, CHR 0x9D,
         CHR 0xB8, CHR 0xED, CHR 0x95, CHR 0x98, CHR 0xEA, CHR 0xB1, CHR 0xB0, CHR 0xEB, CHR 0x82, CHR 0x98] @ '', '' @ [CHR 0xEB, CHR 0x8B, CHR 0xA4, CHR 0xEB, CHR 0xA5, CHR 0xB8] @ '' '' @ [CHR 0xEA, CHR 0xB3, CHR 0xBC,
         CHR 0xEB, CHR 0xAA, CHR 0xA9, CHR 0xEC, CHR 0x9C, CHR 0xBC, CHR 0xEB, CHR 0xA1,
         CHR 0x9C] @ '' '' @ [CHR 0xEC, CHR 0x9A, CHR 0x94, CHR 0xEC, CHR 0xB2, CHR 0xAD, CHR 0xED, CHR 0x95,
         CHR 0xB4] @ '' '' @ [CHR 0xEC, CHR 0xA3, CHR 0xBC, CHR 0xEC, CHR 0x84, CHR 0xB8, CHR 0xEC, CHR 0x9A,
         CHR 0x94] @ ''.''
                     else [CHR 0xEC, CHR 0x9E, CHR 0xAC, CHR 0xEC, CHR 0x82, CHR 0xAC, CHR 0xEC, CHR 0x9A, CHR 0xA9,
         CHR 0xED, CHR 0x95, CHR 0xA0] @ '' '' @ [CHR 0xEC, CHR 0x88, CHR 0x98] @ '' '' @ [CHR 0xEC, CHR 0x9E,
         CHR 0x88, CHR 0xEB, CHR 0x8A, CHR 0x94] @ '' '' @ [CHR 0xEA, CHR 0xB7, CHR 0xB8, CHR 0xEB, CHR 0xA6,
         CHR 0xBC] @ '' '' @ [CHR 0xEB, CHR 0xAC, CHR 0xB8, CHR 0xED, CHR 0x95, CHR 0xAD, CHR 0xEC, CHR 0x9D,
         CHR 0xB4] @ '' '' @ [CHR 0xEC, CHR 0x97, CHR 0x86, CHR 0xEC, CHR 0x8A, CHR 0xB5, CHR 0xEB, CHR 0x8B,
         CHR 0x88, CHR 0xEB, CHR 0x8B, CHR 0xA4] @ ''. '' @ [CHR 0xEA, CHR 0xB4, CHR 0x80, CHR 0xEB, CHR 0xA6,
         CHR 0xAC, CHR 0xEC, CHR 0x9E, CHR 0x90, CHR 0xEA, CHR 0xB0, CHR 0x80] @ '' '' @ [CHR 0xEA, CHR 0xB7,
         CHR 0xB8, CHR 0xEB, CHR 0xA6, CHR 0xBC] @ '' '' @ [CHR 0xEB, CHR 0xAC, CHR 0xB8, CHR 0xED, CHR 0x95,
         CHR 0xAD, CHR 0xEC, CHR 0x9D, CHR 0x84] @ '' '' @ [CHR 0xEC, CHR 0x8A, CHR 0xB9, CHR 0xEC, CHR 0x9D,
         CHR 0xB8, CHR 0xED, CHR 0x95, CHR 0x9C] @ '' '' @ [CHR 0xEB, CHR 0x92, CHR 0xA4] @ '' '' @ [CHR 0xEB,
         CHR 0x8B, CHR 0xA4, CHR 0xEC, CHR 0x8B, CHR 0x9C] @ '' '' @ [CHR 0xEC, CHR 0x8B, CHR 0x9C, CHR 0xEB,
         CHR 0x8F, CHR 0x84, CHR 0xED, CHR 0x95, CHR 0xB4] @ '' '' @ [CHR 0xEC, CHR 0xA3, CHR 0xBC, CHR 0xEC,
         CHR 0x84, CHR 0xB8, CHR 0xEC, CHR 0x9A, CHR 0x94] @ ''.''))
      else
        let plan = map (item_entry difficulty (\<lambda>_. True)) items
        in bind_res (format_assessment_answer L items plan) (\<lambda>answer.
             Inr (composed items plan
               (if int (length items) < cnt
                then answer @ nl @ nl @ [CHR 0xE2, CHR 0x80, CHR 0xBB] @ '' '' @ [CHR 0xEC, CHR 0x9A, CHR 0x94,
         CHR 0xEC, CHR 0xB2, CHR 0xAD, CHR 0xED, CHR 0x95, CHR 0x98, CHR 0xEC, CHR 0x8B,
         CHR 0xA0] @ '' '' @ int_str cnt @ [CHR 0xEA, CHR 0xB0, CHR 0x9C] @ '' '' @ [CHR 0xEC, CHR 0xA4,
         CHR 0x91] @ '' '' @ [CHR 0xEC, CHR 0x9E, CHR 0xAC, CHR 0xEC, CHR 0x82, CHR 0xAC, CHR 0xEC, CHR 0x9A,
         CHR 0xA9] @ '' '' @ [CHR 0xEA, CHR 0xB0, CHR 0x80, CHR 0xEB, CHR 0x8A, CHR 0xA5, CHR 0xED, CHR 0x95,
         CHR 0x9C] @ '' '' @ [CHR 0xEA, CHR 0xB7, CHR 0xB8, CHR 0xEB, CHR 0xA6, CHR 0xBC] @ '' '' @ [CHR 0xEB,
         CHR 0xAC, CHR 0xB8, CHR 0xED, CHR 0x95, CHR 0xAD, CHR 0xEC, CHR 0x9D, CHR 0xB4] @ '' '' @ [CHR 0xEB,
         CHR 0xB6, CHR 0x80, CHR 0xEC, CHR 0xA1, CHR 0xB1, CHR 0xED, CHR 0x95,
         CHR 0xB4] @ '' '' @ int_str (int (length items)) @ [CHR 0xEA, CHR 0xB0, CHR 0x9C, CHR 0xEB, CHR 0xA7,
         CHR 0x8C] @ '' '' @ [CHR 0xEC, CHR 0xB6, CHR 0x9C, CHR 0xEC, CHR 0xA0, CHR 0x9C, CHR 0xED, CHR 0x96,
         CHR 0x88, CHR 0xEC, CHR 0x8A, CHR 0xB5, CHR 0xEB, CHR 0x8B, CHR 0x88, CHR 0xEB, CHR 0x8B, CHR 0xA4] @ ''.''
                else answer)))))"

definition available_subjects :: "assessment_deps \<Rightarrow> string \<Rightarrow> string list" where
  \<comment> \<open>subjects by number of items, largest first; any failure counts as no subjects\<close>
  "available_subjects D domain_id =
     (case ad_summary D of None \<Rightarrow> []
      | Some f \<Rightarrow> (case f domain_id of Inl _ \<Rightarrow> []
                  | Inr s \<Rightarrow> map fst (sort_desc (\<lambda>kv. of_int (snd kv)) (bs_by_subject s))))"

definition assess :: "assessment_deps \<Rightarrow> string \<Rightarrow> string \<Rightarrow> pyval \<Rightarrow> assessment_out res" where
  "assess D domain_id q tenant_config =
     (case ad_generate D of None \<Rightarrow> Inr (notice ([CHR 0xEC, CHR 0xB6, CHR 0x9C, CHR 0xEC, CHR 0xA0,
         CHR 0x9C] @ '' '' @ [CHR 0xEA, CHR 0xB8, CHR 0xB0, CHR 0xEB, CHR 0x8A, CHR 0xA5, CHR 0xEC, CHR 0x9D,
         CHR 0xB4] @ '' '' @ [CHR 0xED, CHR 0x98, CHR 0x84, CHR 0xEC, CHR 0x9E, CHR 0xAC] @ '' '' @ [CHR 0xEB,
         CHR 0xB9, CHR 0x84, CHR 0xED, CHR 0x99, CHR 0x9C, CHR 0xEC, CHR 0x84, CHR 0xB1, CHR 0xED, CHR 0x99,
         CHR 0x94, CHR 0xEB, CHR 0x90, CHR 0x98, CHR 0xEC, CHR 0x96, CHR 0xB4] @ '' '' @ [CHR 0xEC, CHR 0x9E,
         CHR 0x88, CHR 0xEC, CHR 0x8A, CHR 0xB5, CHR 0xEB, CHR 0x8B, CHR 0x88, CHR 0xEB, CHR 0x8B, CHR 0xA4] @ ''.''))
      | Some gen \<Rightarrow>
          let subjects = available_subjects D domain_id in
          bind_res (read_defaults (ad_lib D) tenant_config) (\<lambda>defaults.
          if ad_figure D \<noteq> None \<and> wants_figure q then
            bind_res (parse_assessment_counts D q defaults) (\<lambda>(n_total, figure_count).
              if 0 < figure_count \<and> figure_count < n_total
              then compound_assessment_branch D gen domain_id q subjects n_total figure_count defaults
              else figure_reuse_branch D domain_id q subjects)
          else
            bind_res (plan_assessment D q subjects defaults None) (\<lambda>plan.
              let items = collect_text_items D gen domain_id plan (df_max_total defaults)
              in bind_res (format_assessment_answer (ad_lib D) items plan) (\<lambda>answer.
                   Inr (composed items plan answer)))))"

section \<open>Facts: every answer says how it is grounded\<close>

lemma notice_named: "Inr (notice m) = Inr ot \<Longrightarrow> ao_grounding ot \<noteq> []"
  by (auto simp: notice_def)

lemma composed_named: "Inr (composed a b c) = Inr ot \<Longrightarrow> ao_grounding ot \<noteq> []"
  by (auto simp: composed_def)

lemma figure_reuse_named: "figure_reuse_branch D d q subjects = Inr ot \<Longrightarrow> ao_grounding ot \<noteq> []"
  unfolding figure_reuse_branch_def Let_def
  by (elim bind_res_InrE if_InrE) (erule notice_named composed_named)+

lemma compound_named: "compound_assessment_branch D gen d q subjects n k df = Inr ot \<Longrightarrow> ao_grounding ot \<noteq> []"
  unfolding compound_assessment_branch_def Let_def
  by (elim bind_res_InrE if_InrE) (erule notice_named composed_named)+

lemma composed_grounding: "ao_grounding (composed a b c) = ''assessment''"
  by (simp add: composed_def)

lemma assess_named: "assess D d q cfg = Inr ot \<Longrightarrow> ao_grounding ot \<noteq> []"
  unfolding assess_def Let_def
  by (cases "ad_generate D")
    (simp only: option.case, erule notice_named, simp only: option.case, elim bind_res_InrE if_InrE,
      auto simp: composed_grounding dest: compound_named figure_reuse_named split: if_splits)

end
