(* ===== verification/Assessment_Properties.thy ===== *)
theory Assessment_Properties
  imports Assessment_Chat Item_Properties
begin

text \<open>
  Facts about composing an exam in a chat: the batches cover the plan, the total is capped, and, with
  the real item services behind it, every question shown is either a guarded generated item or a figure
  question built on an approved item of the tenant.
\<close>

section \<open>Batches\<close>

lemma batch_sizes_sum: "sum_list (batch_sizes n) = max 0 n"
proof (induction n rule: batch_sizes.induct)
  case (1 n)
  then show ?case by (subst batch_sizes.simps) (auto simp: TEXT_BATCH_def)
qed

lemma batch_sizes_range: "k \<in> set (batch_sizes n) \<Longrightarrow> 1 \<le> k \<and> k \<le> TEXT_BATCH"
proof (induction n rule: batch_sizes.induct)
  case (1 n)
  then show ?case by (cases "0 < n") (auto simp: batch_sizes.simps [of n] TEXT_BATCH_def)
qed

lemma batched_plan_counts: "sum_list (map pe_count (batched_plan plan)) = sum_list (map (\<lambda>e. max 0 (pe_count e)) plan)"
  by (induction plan) (simp_all add: batched_plan_def o_def batch_sizes_sum)

lemma batched_plan_entries:
  assumes "e \<in> set (batched_plan plan)"
  shows "1 \<le> pe_count e \<and> pe_count e \<le> 5 \<and> (\<exists>p \<in> set plan. pe_subject e = pe_subject p \<and> pe_difficulty e = pe_difficulty p)"
  using assms batch_sizes_range by (fastforce simp: batched_plan_def TEXT_BATCH_def)

lemma collect_text_bound: "0 \<le> t \<Longrightarrow> int (length (collect_text_items D gen d plan t)) \<le> t"
  by (simp add: collect_text_items_def Let_def length_slice_to)

section \<open>The services behind the chat\<close>

definition chat_services ::
  "pylib \<Rightarrow> (count_pattern \<Rightarrow> string \<Rightarrow> (nat \<times> string) list) \<Rightarrow> (nat \<Rightarrow> generate_service) \<Rightarrow> (nat \<Rightarrow> figure_service)
   \<Rightarrow> bank \<Rightarrow> assessment_deps" where
  \<comment> \<open>the node's calls: nothing is persisted and generated text is not validated\<close>
  "chat_services L counts svc fsvc b =
     \<lparr>ad_lib = L,
      ad_generate = Some (\<lambda>i d c. bind_res (generate (svc i) d c [] False False 0 b) (\<lambda>(r, _). Inr r)),
      ad_figure = Some (\<lambda>i d c. bind_res (figure_generate (fsvc i) d c False 0 b) (\<lambda>(r, _). Inr r)),
      ad_summary = Some (\<lambda>d. Inr (analytics_summary b d)), ad_counts = counts\<rparr>"

definition text_item :: "pylib \<Rightarrow> (nat \<Rightarrow> generate_service) \<Rightarrow> bank \<Rightarrow> string \<Rightarrow> pydict \<Rightarrow> bool" where
  \<comment> \<open>the dictionary of an item that one of the generator's runs on the bank returned\<close>
  "text_item L svc b d it \<longleftrightarrow> (\<exists>i c r b' x. generate (svc i) d c [] False False 0 b = Inr (r, b') \<and> x \<in> set (ge_items r)
     \<and> it = item_to_dict L None x \<and> guarded (svc i) d c x)"

definition picture_item :: "pylib \<Rightarrow> (nat \<Rightarrow> figure_service) \<Rightarrow> bank \<Rightarrow> string \<Rightarrow> pydict \<Rightarrow> bool" where
  \<comment> \<open>the dictionary of an item that one of the runs of figure reuse returned, with the figure of an item of the bank\<close>
  "picture_item L fsvc b d it \<longleftrightarrow> (\<exists>i c r b' x ref. figure_generate (fsvc i) d c False 0 b = Inr (r, b') \<and> x \<in> set (fr_items r)
     \<and> it = item_to_dict L (Some d) x \<and> figure_item_ok [ref] d x \<and> map_of b (d, it_item_id ref) = Some ref
     \<and> it_quality_status ref = ''approved'' \<and> it_figure_dependent ref)"

lemma collected_text_ok:
  assumes "ad_generate (chat_services L counts svc fsvc b) = Some gen"
    and "it \<in> set (collect_text_items (chat_services L counts svc fsvc b) gen d plan t)"
  shows "text_item L svc b d it"
proof -
  let ?D = "chat_services L counts svc fsvc b"
  obtain i e where "it \<in> set (gen_one ?D gen d i e)"
    using assms(2) set_slice_to by (fastforce simp: collect_text_items_def Let_def)
  then obtain c r x where g: "gen i d c = Inr r" "x \<in> set (ge_items r)" "it = item_to_dict L None x"
    by (auto simp: gen_one_def chat_services_def split: sum.splits dest!: sym [of "Inr _"])
  obtain b' where "generate (svc i) d c [] False False 0 b = Inr (r, b')"
    using assms(1) g(1) by (auto simp: chat_services_def)
  moreover from this have "guarded (svc i) d c x" using generation_guarded g(2) by blast
  ultimately show ?thesis using g(2,3) unfolding text_item_def by blast
qed

lemma figure_subjects_ok:
  assumes "bank_wf b" and "\<forall>it \<in> set (fp_items p). picture_item L fsvc b d it"
    and "ad_figure (chat_services L counts svc fsvc b) = Some gen"
  shows "\<forall>it \<in> set (fp_items (figure_subjects (chat_services L counts svc fsvc b) gen d n diff subs p)). picture_item L fsvc b d it"
  using assms(2)
proof (induction subs arbitrary: p)
  case (Cons s subs)
  let ?D = "chat_services L counts svc fsvc b"
  let ?c = "\<lparr>fc_subject = s, fc_chapter = None, fc_difficulty = diff, fc_count = n - int (length (fp_items p))\<rparr>"
  have new: "\<forall>it \<in> set (map (item_to_dict L (Some d)) (fr_items r)). picture_item L fsvc b d it"
    if run: "gen (fp_calls p) d ?c = Inr r" for r
  proof -
    obtain b' where g: "figure_generate (fsvc (fp_calls p)) d ?c False 0 b = Inr (r, b')"
      using assms(3) run by (auto simp: chat_services_def)
    have "picture_item L fsvc b d (item_to_dict L (Some d) x)" if x: "x \<in> set (fr_items r)" for x
    proof -
      obtain ref where "figure_item_ok [ref] d x" "map_of b (d, it_item_id ref) = Some ref"
        "it_quality_status ref = ''approved''" "it_figure_dependent ref"
        using bspec [OF figure_generated_ok [OF assms(1) g, THEN conjunct2, THEN conjunct2] x] by blast
      then show ?thesis using g x unfolding picture_item_def by blast
    qed
    then show ?thesis by simp
  qed
  show ?case
  proof (cases "gen (fp_calls p) d ?c")
    case (Inl e)
    then show ?thesis using Cons.IH [of "p\<lparr>fp_calls := Suc (fp_calls p)\<rparr>"] Cons.prems by simp
  next
    case (Inr r)
    have "ad_lib ?D = L" by (simp add: chat_services_def)
    moreover have "\<forall>it \<in> set (fp_items p @ map (item_to_dict L (Some d)) (fr_items r)). picture_item L fsvc b d it"
      using Cons.prems new [OF Inr] by auto
    ultimately show ?thesis
      using Inr Cons.prems Cons.IH [of "p\<lparr>fp_calls := Suc (fp_calls p), fp_errors := fp_errors p + fr_vlm_errors r,
        fp_items := fp_items p @ map (item_to_dict L (Some d)) (fr_items r)\<rparr>"]
      by (simp add: Let_def)
  qed
qed simp

lemma collected_figures_ok:
  assumes "bank_wf b"
  shows "\<forall>it \<in> set (fp_items (collect_figure_items (chat_services L counts svc fsvc b) d subs n diff)). picture_item L fsvc b d it"
proof -
  let ?D = "chat_services L counts svc fsvc b"
  obtain gen where gen: "ad_figure ?D = Some gen" by (simp add: chat_services_def)
  note ok = figure_subjects_ok [OF assms _ gen]
  show ?thesis unfolding collect_figure_items_def Let_def gen by (auto dest!: ok [rule_format, rotated])
qed

section \<open>Properties\<close>

lemma composed_items: "ao_items_plan (composed its pl a) = Some (items, plan) \<longleftrightarrow> items = map PDict its \<and> plan = map plan_to_dict pl"
  by (auto simp: composed_def)

lemma notice_items [simp]: "ao_items_plan (notice m) = None"
  by (simp add: notice_def)

lemma compound_items:
  assumes "compound_assessment_branch D gen d q subs n_total figs df = Inr out" and "ao_items_plan out = Some (items, plan)"
  shows "\<exists>texts subs' n diff. items = map PDict (texts @ fp_items (collect_figure_items D d subs' n diff))
    \<and> (texts = [] \<or> (\<exists>pl t. texts = collect_text_items D gen d pl t))"
proof -
  let ?named = "named_subjects (ad_lib D) q subs"
  let ?figs = "fp_items (collect_figure_items D d (if ?named \<noteq> [] then ?named else subs) figs (difficulty_from_q q))"
  obtain texts where texts: "(if max 0 (n_total - figs) \<le> 0 then Inr []
      else bind_res (plan_assessment D q subs df (Some (max 0 (n_total - figs)))) (\<lambda>plan.
        Inr (collect_text_items D gen d plan (df_max_total df)))) = Inr texts"
    using assms(1) unfolding compound_assessment_branch_def Let_def by (elim bind_res_InrE) blast
  then have tx: "texts = [] \<or> (\<exists>pl t. texts = collect_text_items D gen d pl t)"
    by (auto split: if_splits)
  have "\<exists>pl a. out = composed (texts @ ?figs) pl a"
  proof (cases "texts @ ?figs = []")
    case True
    then have "\<exists>m. out = notice m"
      using assms(1) texts unfolding compound_assessment_branch_def Let_def by auto
    then show ?thesis using assms(2) by auto
  next
    case False
    then show ?thesis
      using assms(1) texts unfolding compound_assessment_branch_def Let_def
      by (simp only: bind_res.simps if_False) (elim bind_res_InrE, blast)
  qed
  then have "items = map PDict (texts @ ?figs)" using assms(2) composed_items by metis
  then show ?thesis using tx by blast
qed

lemma figure_branch_items:
  assumes "figure_reuse_branch D d q subs = Inr out" and "ao_items_plan out = Some (items, plan)"
  shows "\<exists>subs' n diff. items = map PDict (fp_items (collect_figure_items D d subs' n diff))"
proof -
  obtain n where n: "(case ad_counts D FIGURE_COUNT_RE q of [] \<Rightarrow> Inr 1 | (_, digits) # _ \<Rightarrow> match_int (ad_lib D) digits) = Inr n"
    using assms(1) unfolding figure_reuse_branch_def Let_def by (elim bind_res_InrE) blast
  let ?named = "named_subjects (ad_lib D) q subs"
  let ?figs = "fp_items (collect_figure_items D d (if ?named \<noteq> [] then ?named else subs) (max 1 (min n 5)) (difficulty_from_q q))"
  have "\<exists>pl a. out = composed ?figs pl a"
  proof (cases "?figs = []")
    case True
    then have "\<exists>m. out = notice m"
      using assms(1) n unfolding figure_reuse_branch_def Let_def by (simp only: bind_res.simps simp_thms if_True sum.inject) blast
    then show ?thesis using assms(2) by auto
  next
    case False
    then show ?thesis
      using assms(1) n unfolding figure_reuse_branch_def Let_def
      by (simp only: bind_res.simps if_False) (elim bind_res_InrE, blast)
  qed
  then have "items = map PDict ?figs" using assms(2) composed_items by metis
  then show ?thesis by blast
qed

lemma assess_cases:
  assumes "assess D d q cfg = Inr out" and "ao_items_plan out = Some (items, plan)" and "ad_generate D = Some gen"
  shows "\<exists>texts figs. items = map PDict (texts @ figs) \<and> (texts = [] \<or> (\<exists>pl t. texts = collect_text_items D gen d pl t))
    \<and> (figs = [] \<or> (\<exists>subs n diff. figs = fp_items (collect_figure_items D d subs n diff)))"
proof -
  let ?subs = "available_subjects D d"
  obtain df where df: "read_defaults (ad_lib D) cfg = Inr df"
    using assms unfolding assess_def Let_def by (auto elim: bind_res_InrE)
  show ?thesis
  proof (cases "ad_figure D \<noteq> None \<and> wants_figure q")
    case True
    then have "(\<exists>n_total figs. compound_assessment_branch D gen d q ?subs n_total figs df = Inr out)
        \<or> figure_reuse_branch D d q ?subs = Inr out"
      using assms(1,3) df unfolding assess_def Let_def by (auto split: if_splits)
    then show ?thesis
      using compound_items [OF _ assms(2)] figure_branch_items [OF _ assms(2)] by (metis append_Nil)
  next
    case False
    then obtain pl a where "out = composed (collect_text_items D gen d pl (df_max_total df)) pl a"
      using assms(1,3) df unfolding assess_def Let_def by auto
    then have "items = map PDict (collect_text_items D gen d pl (df_max_total df) @ [])"
      using assms(2) by (simp add: composed_items)
    then show ?thesis by blast
  qed
qed

text \<open>
  (C20) Every question of a chat exam is accounted for: whatever the request and the models' answers,
  each question shown is either an item that a run of the generator returned, which passed all guards and
  is still a draft or merely reviewed, or one that a run of figure reuse returned, whose figure is that of an
  approved, figure-dependent item of the tenant in the item bank.
\<close>

theorem chat_exam_items_traceable:
  assumes "bank_wf b" and "assess (chat_services L counts svc fsvc b) d q cfg = Inr out"
    and "ao_items_plan out = Some (items, plan)" and "x \<in> set items"
  shows "\<exists>it. x = PDict it \<and> (text_item L svc b d it \<or> picture_item L fsvc b d it)"
proof -
  let ?D = "chat_services L counts svc fsvc b"
  obtain gen where gen: "ad_generate ?D = Some gen" by (simp add: chat_services_def)
  obtain texts figs where its: "items = map PDict (texts @ figs)"
      "texts = [] \<or> (\<exists>pl t. texts = collect_text_items ?D gen d pl t)"
      "figs = [] \<or> (\<exists>subs n diff. figs = fp_items (collect_figure_items ?D d subs n diff))"
    using assess_cases [OF assms(2,3) gen] by blast
  then obtain it where it: "x = PDict it" "it \<in> set texts \<or> it \<in> set figs" using assms(4) by auto
  then have "text_item L svc b d it \<or> picture_item L fsvc b d it"
    using its(2,3) collected_text_ok [OF gen] collected_figures_ok [OF assms(1)] by fastforce
  then show ?thesis using it(1) by blast
qed

text \<open>
  (C21) Splitting a plan into batches is exact and ends: the batch sizes of a plan entry are between one
  and five and add up to the requested count, so together the batches ask for exactly the planned
  number of questions; and the collected questions never exceed the configured maximum.
\<close>

theorem batches_cover_plan:
  assumes "0 \<le> max_total"
  shows "sum_list (map pe_count (batched_plan plan)) = sum_list (map (\<lambda>e. max 0 (pe_count e)) plan)
    \<and> (\<forall>e \<in> set (batched_plan plan). 1 \<le> pe_count e \<and> pe_count e \<le> 5
         \<and> (\<exists>p \<in> set plan. pe_subject e = pe_subject p \<and> pe_difficulty e = pe_difficulty p))
    \<and> int (length (collect_text_items D gen d plan max_total)) \<le> max_total"
  using batched_plan_counts batched_plan_entries collect_text_bound [OF assms] by auto

definition plain_request :: string where
  \<comment> \<open>``set questions'': no difficulty is asked for\<close>
  "plain_request = [CHR 0xEB, CHR 0xAC, CHR 0xB8, CHR 0xEC, CHR 0xA0, CHR 0x9C, CHR 0xEB, CHR 0xA5, CHR 0xBC] @ '' '' @ [CHR 0xEC, CHR 0xB6, CHR 0x9C, CHR 0xEC, CHR 0xA0, CHR 0x9C, CHR 0xED, CHR 0x95, CHR 0x98, CHR 0xEB, CHR 0x9D, CHR 0xBC]"

text \<open>
  The two readers of the difficulty disagree: a request that only says to set questions, with a
  verb ending in one common syllable, is planned as easy by the planner although the reader used for
  figure and mixed requests sees no difficulty at all in it.
\<close>

theorem plain_request_planned_easy:
  "plan_difficulty plain_request = ''easy'' \<and> difficulty_from_q plain_request = ''medium''"
  by code_simp

section \<open>Examples\<close>

theorem batches_cover_plan_witness:
  "sum_list (map pe_count (batched_plan [\<lparr>pe_subject = PStr ''os'', pe_count = 12, pe_difficulty = ''easy'', pe_figure = None\<rparr>])) = 12
     \<and> int (length (collect_text_items (chat_services ex_plain_lib (\<lambda>_ _. []) (\<lambda>_. ex_generate) (\<lambda>_. ex_figure) ex_bank)
         (\<lambda>_ _ _. Inl ValueError) ''a'' [] 20)) \<le> 20"
  using batches_cover_plan [of 0 "[\<lparr>pe_subject = PStr ''os'', pe_count = 12, pe_difficulty = ''easy'', pe_figure = None\<rparr>]"]
    batches_cover_plan [of 20 "[]"]
  by simp

lemma figure_subjects_lib:
  "ad_lib D = ad_lib D' \<Longrightarrow> figure_subjects D gen d n diff subs p = figure_subjects D' gen d n diff subs p"
  by (induction subs arbitrary: p) (simp_all add: Let_def split: sum.splits)

definition ex_figures_only :: assessment_deps where
  "ex_figures_only = \<lparr>ad_lib = ex_plain_lib, ad_generate = None,
     ad_figure = Some (\<lambda>i d c. bind_res (figure_generate ex_figure d c False 0 ex_figure_bank) (\<lambda>(r, _). Inr r)),
     ad_summary = Some (\<lambda>d. Inr (analytics_summary ex_figure_bank d)), ad_counts = \<lambda>_ _. []\<rparr>"

definition ex_services :: assessment_deps where
  "ex_services = chat_services ex_plain_lib (\<lambda>_ _. []) (\<lambda>_. ex_generate) (\<lambda>_. ex_figure) ex_figure_bank"

definition ex_picture_request :: string where
  "ex_picture_request = [CHR 0xEA, CHR 0xB7, CHR 0xB8, CHR 0xEB, CHR 0xA6, CHR 0xBC]"

lemma ex_figures_branch:
  "case figure_reuse_branch ex_figures_only ''a'' ex_picture_request (available_subjects ex_figures_only ''a'') of
     Inl _ \<Rightarrow> False | Inr out \<Rightarrow> (case ao_items_plan out of None \<Rightarrow> False | Some (items, plan) \<Rightarrow> items \<noteq> [])"
  by code_simp

lemma ex_request: "wants_figure ex_picture_request" "filter (\<lambda>k. contains k ex_picture_request) FIGURE_KWS \<noteq> []"
  by code_simp+

lemma ex_same_branch:
  "figure_reuse_branch ex_services ''a'' q subs = figure_reuse_branch ex_figures_only ''a'' q subs"
  "available_subjects ex_services d = available_subjects ex_figures_only d"
proof -
  have same: "ad_lib ex_services = ad_lib ex_figures_only" "ad_figure ex_services = ad_figure ex_figures_only"
      "ad_counts ex_services = ad_counts ex_figures_only" "ad_summary ex_services = ad_summary ex_figures_only"
    by (simp_all add: ex_services_def ex_figures_only_def chat_services_def)
  show "figure_reuse_branch ex_services ''a'' q subs = figure_reuse_branch ex_figures_only ''a'' q subs"
    unfolding figure_reuse_branch_def collect_figure_items_def same
      figure_subjects_lib [OF same(1)] ..
  show "available_subjects ex_services d = available_subjects ex_figures_only d"
    by (simp add: available_subjects_def same)
qed

lemma ex_exam:
  "\<exists>out items plan. assess ex_services ''a'' ex_picture_request PNone = Inr out \<and> ao_items_plan out = Some (items, plan) \<and> items \<noteq> []"
proof -
  obtain out items plan where o1: "figure_reuse_branch ex_figures_only ''a'' ex_picture_request
      (available_subjects ex_figures_only ''a'') = Inr out" "ao_items_plan out = Some (items, plan)" "items \<noteq> []"
    using ex_figures_branch by (auto split: sum.splits option.splits)
  have "parse_assessment_counts ex_services ex_picture_request df = Inr (1, 1)" for df
    by (simp add: parse_assessment_counts_def figure_count_near_def count_matches_def ex_services_def
        chat_services_def ex_request Let_def)
  moreover have "\<exists>df. read_defaults (ad_lib ex_services) PNone = Inr df"
    by (simp add: read_defaults_def dget_def)
  moreover have "\<exists>g f. ad_generate ex_services = Some g \<and> ad_figure ex_services = Some f"
    by (simp add: ex_services_def chat_services_def)
  ultimately have "assess ex_services ''a'' ex_picture_request PNone = Inr out"
    using o1(1) by (auto simp: assess_def ex_request ex_same_branch Let_def)
  with o1 show ?thesis by blast
qed

theorem chat_exam_items_traceable_witness:
  "\<exists>out items plan x it. assess ex_services ''a'' ex_picture_request PNone = Inr out \<and> ao_items_plan out = Some (items, plan)
     \<and> x \<in> set items \<and> x = PDict it
     \<and> (text_item ex_plain_lib (\<lambda>_. ex_generate) ex_figure_bank ''a'' it
        \<or> picture_item ex_plain_lib (\<lambda>_. ex_figure) ex_figure_bank ''a'' it)"
proof -
  obtain out items plan where o1: "assess ex_services ''a'' ex_picture_request PNone = Inr out"
      "ao_items_plan out = Some (items, plan)" "items \<noteq> []"
    using ex_exam by blast
  then obtain x where x: "x \<in> set items" by (meson list.set_sel(1))
  have "bank_wf ex_figure_bank"
    unfolding ex_figure_bank_def by (rule step_wf [OF step_upsert [of ex_plain_lib] empty_wf])
  from chat_exam_items_traceable [OF this o1(1) [unfolded ex_services_def] o1(2) x] o1 x show ?thesis by blast
qed

end
