(* ===== verification/Vector_Store.thy ===== *)
theory Vector_Store
  imports Verifier
begin

text \<open>
  The vector store: the payload filter evaluator and the in-memory store of
  \<open>packages/rag_core/rag_core/clients/in_memory.py\<close> (one collection per domain), the conversion of
  hits into retrieved chunks of \<open>clients/qdrant_store.py\<close>, and the contract that the retrieval
  service relies on, stated as a locale and interpreted on the in-memory store.

  A filter condition is a dictionary that the evaluator recognises by its keys; the datatype \<open>cond\<close>
  has one constructor per shape, in the order the code tests them. Range bounds are strings (ISO
  dates), which is what the code builds.
\<close>

section \<open>Filters\<close>

record range_bounds =
  rb_lte :: "string option"
  rb_gte :: "string option"
  rb_lt :: "string option"
  rb_gt :: "string option"

datatype cond =
    CMust "cond list"
  | CShould "cond list"
  | CIsNull "string option"
  | CNoKey
  | CMatchValue string pyval
  | CMatchAny string "pyval list"
  | CMatchOther string
  | CRange string range_bounds
  | CKeyOnly string

record acl_filter =
  af_must :: "cond list"
  af_must_not :: "cond list"

text \<open>Python's equality on scalar values: booleans and floats compare with integers by value.\<close>

fun num_val :: "pyval \<Rightarrow> real option" where
  "num_val (PInt i) = Some (of_int i)"
| "num_val (PBool b) = Some (if b then 1 else 0)"
| "num_val (PFloat r) = Some r"
| "num_val _ = None"

fun py_eq :: "pyval \<Rightarrow> pyval \<Rightarrow> bool" where
  "py_eq (PList xs) (PList ys) = list_all2 py_eq xs ys"
| "py_eq (PDict d) (PDict e) =
     (length d = length e \<and>
      list_all (\<lambda>(k, v). case map_of e k of None \<Rightarrow> False | Some w \<Rightarrow> py_eq v w) d)"
| "py_eq (PStr s) (PStr t) = (s = t)"
| "py_eq PNone PNone = True"
| "py_eq a b = (case (num_val a, num_val b) of (Some x, Some y) \<Rightarrow> x = y | _ \<Rightarrow> False)"

definition py_in :: "pyval \<Rightarrow> pyval list \<Rightarrow> bool" where
  "py_in v vs = list_ex (py_eq v) vs"

fun str_of_pyval :: "pyval \<Rightarrow> string res" where
  \<comment> \<open>ordering a value against a string bound raises unless the value is a string\<close>
  "str_of_pyval (PStr s) = Inr s"
| "str_of_pyval _ = Inl TypeError"

definition bound_fails :: "(string \<Rightarrow> string \<Rightarrow> bool) \<Rightarrow> pyval \<Rightarrow> string option \<Rightarrow> bool res" where
  \<comment> \<open>\<open>"lte" in rng and actual > rng["lte"]\<close> and its kin\<close>
  "bound_fails beyond actual bound =
     (case bound of None \<Rightarrow> Inr False
      | Some b \<Rightarrow> bind_res (str_of_pyval actual) (\<lambda>s. Inr (beyond s b)))"

definition range_match :: "pyval \<Rightarrow> range_bounds \<Rightarrow> bool res" where
  "range_match actual rng =
     (if actual = PNone then Inr False
      else bind_res (bound_fails (>) actual (rb_lte rng)) (\<lambda>f1. if f1 then Inr False
      else bind_res (bound_fails (<) actual (rb_gte rng)) (\<lambda>f2. if f2 then Inr False
      else bind_res (bound_fails (\<ge>) actual (rb_lt rng)) (\<lambda>f3. if f3 then Inr False
      else bind_res (bound_fails (\<le>) actual (rb_gt rng)) (\<lambda>f4. Inr (\<not> f4))))))"

fun condition_match :: "pydict \<Rightarrow> cond \<Rightarrow> bool res" where
  "condition_match payload (CMust cs) = all_res (condition_match payload) cs"
| "condition_match payload (CShould cs) = any_res (condition_match payload) cs"
| "condition_match payload (CIsNull key) =
     (case key of Some k \<Rightarrow> Inr (if k = [] then True else dget payload k PNone = PNone)
      | None \<Rightarrow> Inr True)"
| "condition_match payload CNoKey = Inr True"
| "condition_match payload (CMatchValue k v) = Inr (py_eq (dget payload k PNone) v)"
| "condition_match payload (CMatchAny k allowed) =
     Inr (case dget payload k PNone of PList xs \<Rightarrow> list_ex (\<lambda>a. py_in a allowed) xs
          | actual \<Rightarrow> py_in actual allowed)"
| "condition_match payload (CMatchOther k) = Inr True"
| "condition_match payload (CRange k rng) = range_match (dget payload k PNone) rng"
| "condition_match payload (CKeyOnly k) = Inr True"

definition payload_match :: "pydict \<Rightarrow> acl_filter option \<Rightarrow> bool res" where
  \<comment> \<open>\<open>None\<close> stands for an absent or empty filter\<close>
  "payload_match payload acl =
     (case acl of None \<Rightarrow> Inr True
      | Some f \<Rightarrow>
          bind_res (all_res (condition_match payload) (af_must f)) (\<lambda>must_ok.
            if \<not> must_ok then Inr False
            else bind_res (any_res (condition_match payload) (af_must_not f)) (\<lambda>excluded.
              Inr (\<not> excluded))))"

section \<open>The in-memory store\<close>

type_synonym sparse = "(int \<times> real) list"

record point =
  pt_id :: string
  pt_dense :: "real list"
  pt_sparse :: sparse
  pt_payload :: pydict

record collection =
  co_dense_dim :: nat
  co_with_sparse :: bool
  co_points :: "point list"

type_synonym vstore = "string \<rightharpoonup> collection"

record hit =
  hit_id :: string
  hit_score :: real
  hit_payload :: pydict

definition sparse_get :: "sparse \<Rightarrow> int \<Rightarrow> real" where
  "sparse_get s k = (case map_of s k of None \<Rightarrow> 0 | Some v \<Rightarrow> v)"

definition sparse_dot :: "sparse \<Rightarrow> sparse \<Rightarrow> real" where
  "sparse_dot a b =
     (if a = [] \<or> b = [] then 0
      else let (x, y) = (if length a > length b then (b, a) else (a, b))
           in sum_list (map (\<lambda>(k, v). v * sparse_get y k) x))"

definition coll :: "vstore \<Rightarrow> string \<Rightarrow> collection res" where
  "coll st domain_id = (case st domain_id of None \<Rightarrow> Inl KeyError | Some c \<Rightarrow> Inr c)"

definition create_collection :: "vstore \<Rightarrow> string \<Rightarrow> nat \<Rightarrow> bool \<Rightarrow> vstore res" where
  "create_collection st domain_id n_dims with_sparse =
     (if st domain_id \<noteq> None then Inl ValueError
      else Inr (st(domain_id \<mapsto>
        \<lparr>co_dense_dim = n_dims, co_with_sparse = with_sparse, co_points = []\<rparr>)))"

text \<open>Assignment to a dictionary entry keeps its place, or appends a new one at the end.\<close>

fun put_point :: "point \<Rightarrow> point list \<Rightarrow> point list" where
  "put_point p [] = [p]"
| "put_point p (q # qs) = (if pt_id q = pt_id p then p # qs else q # put_point p qs)"

definition upsert_chunks :: "vstore \<Rightarrow> string \<Rightarrow> point list \<Rightarrow> vstore res" where
  "upsert_chunks st domain_id pts =
     bind_res (coll st domain_id) (\<lambda>c.
       Inr (st(domain_id \<mapsto> c\<lparr>co_points := fold put_point pts (co_points c)\<rparr>)))"

fun score_points ::
  "real list \<Rightarrow> sparse \<Rightarrow> acl_filter option \<Rightarrow> point list \<Rightarrow> (real \<times> point) list res" where
  "score_points dq sq acl [] = Inr []"
| "score_points dq sq acl (p # ps) =
     bind_res (payload_match (pt_payload p) acl) (\<lambda>ok.
     bind_res (score_points dq sq acl ps) (\<lambda>rest.
       Inr (if ok then ((cosine dq (pt_dense p) + sparse_dot sq (pt_sparse p)) / 2, p) # rest
            else rest)))"

definition hybrid_query ::
  "vstore \<Rightarrow> string \<Rightarrow> real list \<Rightarrow> sparse \<Rightarrow> acl_filter option \<Rightarrow> int \<Rightarrow> hit list res" where
  "hybrid_query st domain_id dq sq acl top_k =
     bind_res (coll st domain_id) (\<lambda>c.
     bind_res (score_points dq sq acl (co_points c)) (\<lambda>scored.
       Inr (map (\<lambda>(score, p). \<lparr>hit_id = pt_id p, hit_score = score, hit_payload = pt_payload p\<rparr>)
              (slice_to top_k (sort_desc fst scored)))))"

definition set_payload :: "vstore \<Rightarrow> string \<Rightarrow> string list \<Rightarrow> pydict \<Rightarrow> vstore res" where
  "set_payload st domain_id chunk_ids payload =
     bind_res (coll st domain_id) (\<lambda>c.
       Inr (st(domain_id \<mapsto> c\<lparr>co_points := fold (\<lambda>cid. map (\<lambda>p.
              if pt_id p = cid then p\<lparr>pt_payload := dict_update (pt_payload p) payload\<rparr> else p))
              chunk_ids (co_points c)\<rparr>)))"

definition delete_collection :: "vstore \<Rightarrow> string \<Rightarrow> vstore" where
  "delete_collection st domain_id = st(domain_id := None)"

definition delete_points :: "vstore \<Rightarrow> string \<Rightarrow> string list \<Rightarrow> vstore" where
  "delete_points st domain_id chunk_ids =
     (case st domain_id of None \<Rightarrow> st
      | Some c \<Rightarrow> st(domain_id \<mapsto>
          c\<lparr>co_points := filter (\<lambda>p. pt_id p \<notin> set chunk_ids) (co_points c)\<rparr>))"

section \<open>Hits as retrieved chunks\<close>

definition hits_to_retrieved_chunks :: "pylib \<Rightarrow> hit list \<Rightarrow> retrieved_chunk list" where
  "hits_to_retrieved_chunks L hits =
     map (\<lambda>h. let payload = hit_payload h in
       \<lparr>ck_chunk_id = hit_id h,
        ck_doc_id = py_str L (dget payload ''doc_id'' (PStr '''')),
        ck_title = py_str L (dget payload ''title'' (PStr '''')),
        ck_content = py_str L (dget payload ''content'' (PStr '''')),
        ck_page_number = dget payload ''page_number'' PNone,
        ck_section_title = dget payload ''section_title'' PNone,
        ck_dense_score = 0, ck_sparse_score = 0, ck_fused_score = hit_score h,
        ck_payload = payload, ck_rerank_score = None\<rparr>) hits"

section \<open>Facts: the store as a map per domain\<close>

definition point_map :: "point list \<Rightarrow> string \<rightharpoonup> pydict" where
  "point_map ps = map_of (map (\<lambda>p. (pt_id p, pt_payload p)) ps)"

definition payloads :: "vstore \<Rightarrow> string \<Rightarrow> string \<rightharpoonup> pydict" where
  \<comment> \<open>abstraction: the payload stored under a chunk identifier in a domain's collection\<close>
  "payloads st d = (case st d of None \<Rightarrow> Map.empty | Some c \<Rightarrow> point_map (co_points c))"

definition store_wf :: "vstore \<Rightarrow> bool" where
  \<comment> \<open>the points of a collection are a dictionary: identifiers are distinct\<close>
  "store_wf st \<longleftrightarrow> (\<forall>d c. st d = Some c \<longrightarrow> distinct (map pt_id (co_points c)))"

lemma point_map_Cons:
  "point_map (p # ps) = (point_map ps)(pt_id p \<mapsto> pt_payload p)"
  by (simp add: point_map_def)

lemma point_map_Nil [simp]: "point_map [] = Map.empty"
  by (simp add: point_map_def)

lemma point_map_dom: "dom (point_map ps) = pt_id ` set ps"
  by (simp add: point_map_def dom_map_of_conv_image_fst image_image)

lemma put_point_ids: "pt_id ` set (put_point p ps) = insert (pt_id p) (pt_id ` set ps)"
  by (induction ps) auto

lemma distinct_put_point: "distinct (map pt_id ps) \<Longrightarrow> distinct (map pt_id (put_point p ps))"
  by (induction ps) (auto simp: put_point_ids)

lemma point_map_put: "point_map (put_point p ps) = (point_map ps)(pt_id p \<mapsto> pt_payload p)"
  by (induction ps) (auto simp: point_map_Cons fun_upd_twist)

lemma fold_put_distinct:
  "distinct (map pt_id ps) \<Longrightarrow> distinct (map pt_id (fold put_point qs ps))"
  by (induction qs arbitrary: ps) (auto simp: distinct_put_point)

lemma point_map_fold_put: "point_map (fold put_point qs ps) = point_map ps ++ point_map (rev qs)"
proof (induction qs arbitrary: ps)
  case (Cons q qs)
  have "point_map (rev (q # qs)) = point_map [q] ++ point_map (rev qs)"
    by (simp add: point_map_def)
  then show ?case
    by (simp add: Cons.IH point_map_put point_map_Cons map_add_upd_left) (simp add: map_add_def fun_eq_iff split: option.splits)
qed simp

lemma point_map_filter:
  "point_map (filter (\<lambda>p. pt_id p \<notin> A) ps) = (point_map ps) |` (- A)"
  by (induction ps) (auto simp: point_map_Cons restrict_map_def fun_eq_iff)

definition update_point :: "pydict \<Rightarrow> string \<Rightarrow> point \<Rightarrow> point" where
  "update_point payload cid p =
     (if pt_id p = cid then p\<lparr>pt_payload := dict_update (pt_payload p) payload\<rparr> else p)"

lemma update_point_id [simp]: "pt_id (update_point payload cid p) = pt_id p"
  by (simp add: update_point_def)

lemma point_map_update:
  "point_map (map (update_point payload cid) ps) =
     (point_map ps)(cid := map_option (\<lambda>d. dict_update d payload) (point_map ps cid))"
  by (induction ps) (auto simp: point_map_Cons update_point_def fun_eq_iff)

lemma set_payload_alt:
  "set_payload st d cids payload =
     bind_res (coll st d) (\<lambda>c.
       Inr (st(d \<mapsto> c\<lparr>co_points := fold (\<lambda>cid. map (update_point payload cid)) cids (co_points c)\<rparr>)))"
  by (simp add: set_payload_def update_point_def [abs_def])

lemma fold_update_ids:
  "map pt_id (fold (\<lambda>cid. map (update_point payload cid)) cids ps) = map pt_id ps"
  by (induction cids arbitrary: ps) (auto simp: o_def)

lemma fold_update_map:
  "distinct cids \<Longrightarrow>
   point_map (fold (\<lambda>cid. map (update_point payload cid)) cids ps) k =
     (if k \<in> set cids then map_option (\<lambda>d. dict_update d payload) (point_map ps k)
      else point_map ps k)"
  by (induction cids arbitrary: ps) (auto simp: point_map_update)

lemmas store_defs = coll_def create_collection_def upsert_chunks_def set_payload_alt
  delete_collection_def delete_points_def

lemma store_wf_empty: "store_wf Map.empty"
  by (simp add: store_wf_def)

lemma store_wf_upd:
  "store_wf st \<Longrightarrow> distinct (map pt_id (co_points c)) \<Longrightarrow> store_wf (st(d \<mapsto> c))"
  by (simp add: store_wf_def)

lemma store_wf_ops:
  assumes "store_wf st"
  shows "create_collection st d n b = Inr st' \<Longrightarrow> store_wf st'"
    and "upsert_chunks st d pts = Inr st' \<Longrightarrow> store_wf st'"
    and "set_payload st d cids payload = Inr st' \<Longrightarrow> store_wf st'"
    and "store_wf (delete_collection st d)"
    and "store_wf (delete_points st d cids)"
  using assms
  by (auto simp: store_defs store_wf_def fold_put_distinct fold_update_ids distinct_map_filter
      split: option.splits if_splits)

lemma payloads_upd [simp]: "payloads (st(d \<mapsto> c)) d = point_map (co_points c)"
  and payloads_other [simp]: "d \<noteq> d' \<Longrightarrow> payloads (st(d := x)) d' = payloads st d'"
  by (simp_all add: payloads_def)

section \<open>Facts: queries\<close>

lemma score_points_member:
  assumes "score_points dq sq acl ps = Inr scored"
  shows "(s, p) \<in> set scored \<longleftrightarrow> p \<in> set ps \<and> payload_match (pt_payload p) acl = Inr True
           \<and> s = (cosine dq (pt_dense p) + sparse_dot sq (pt_sparse p)) / 2"
  using assms by (induction ps arbitrary: scored) (auto split: if_splits)

lemma hybrid_query_cases:
  assumes "hybrid_query st d dq sq acl k = Inr hits"
  obtains c scored where "st d = Some c" "score_points dq sq acl (co_points c) = Inr scored"
    "hits = map (\<lambda>(score, p). \<lparr>hit_id = pt_id p, hit_score = score, hit_payload = pt_payload p\<rparr>)
       (slice_to k (sort_desc fst scored))"
  using assms by (auto simp: hybrid_query_def coll_def split: option.splits)

lemma hybrid_query_hit:
  assumes wf: "store_wf st" and q: "hybrid_query st d dq sq acl k = Inr hits" and h: "h \<in> set hits"
  shows "payloads st d (hit_id h) = Some (hit_payload h) \<and> payload_match (hit_payload h) acl = Inr True"
proof -
  from q obtain c scored where c: "st d = Some c"
    and s: "score_points dq sq acl (co_points c) = Inr scored"
    and hits: "hits = map (\<lambda>(score, p). \<lparr>hit_id = pt_id p, hit_score = score, hit_payload = pt_payload p\<rparr>)
       (slice_to k (sort_desc fst scored))"
    by (rule hybrid_query_cases)
  from h hits obtain sc p where p: "(sc, p) \<in> set (slice_to k (sort_desc fst scored))"
    "hit_id h = pt_id p" "hit_payload h = pt_payload p"
    by auto
  then have "(sc, p) \<in> set scored"
    using set_slice_to by fastforce
  then have m: "p \<in> set (co_points c)" "payload_match (pt_payload p) acl = Inr True"
    using score_points_member [OF s] by blast+
  have "distinct (map pt_id (co_points c))"
    using wf c by (simp add: store_wf_def)
  with m(1) have "point_map (co_points c) (pt_id p) = Some (pt_payload p)"
    unfolding point_map_def by (auto intro!: map_of_is_SomeI simp: o_def)
  with m(2) p c show ?thesis by (simp add: payloads_def)
qed

lemma hybrid_query_sorted:
  assumes "hybrid_query st d dq sq acl k = Inr hits"
  shows "sorted_wrt (\<lambda>x y. hit_score y \<le> hit_score x) hits"
proof -
  from assms obtain c scored where "st d = Some c"
    and "score_points dq sq acl (co_points c) = Inr scored"
    and hits: "hits = map (\<lambda>(score, p). \<lparr>hit_id = pt_id p, hit_score = score, hit_payload = pt_payload p\<rparr>)
       (slice_to k (sort_desc fst scored))"
    by (rule hybrid_query_cases)
  have "sorted_wrt (\<lambda>x y. fst y \<le> fst x) (slice_to k (sort_desc fst scored))"
    using sorted_sort_desc [of fst scored] by (simp add: slice_to_def sorted_wrt_take)
  then show ?thesis
    by (simp add: hits sorted_wrt_map case_prod_unfold)
qed

lemma hybrid_query_local:
  "st d = st' d \<Longrightarrow> hybrid_query st d dq sq acl k = hybrid_query st' d dq sq acl k"
  by (simp add: hybrid_query_def coll_def)

section \<open>The contract of a tenant vector store\<close>

locale tenant_store =
  fixes wf :: "'s \<Rightarrow> bool"
    and view :: "'s \<Rightarrow> string \<Rightarrow> string \<rightharpoonup> pydict"
    and query :: "'s \<Rightarrow> string \<Rightarrow> real list \<Rightarrow> sparse \<Rightarrow> acl_filter option \<Rightarrow> int \<Rightarrow> hit list res"
    and upsert :: "'s \<Rightarrow> string \<Rightarrow> point list \<Rightarrow> 's res"
    and remove :: "'s \<Rightarrow> string \<Rightarrow> string list \<Rightarrow> 's"
  assumes query_sound: "wf s \<Longrightarrow> query s d dq sq f k = Inr hits \<Longrightarrow> h \<in> set hits \<Longrightarrow>
      view s d (hit_id h) = Some (hit_payload h) \<and> payload_match (hit_payload h) f = Inr True"
    and query_bounded: "query s d dq sq f k = Inr hits \<Longrightarrow> 0 \<le> k \<Longrightarrow> int (length hits) \<le> k"
    and upsert_wf: "wf s \<Longrightarrow> upsert s d pts = Inr s' \<Longrightarrow> wf s'"
    and upsert_view: "upsert s d pts = Inr s' \<Longrightarrow> view s' d = view s d ++ point_map (rev pts)"
    and upsert_other: "upsert s d pts = Inr s' \<Longrightarrow> d' \<noteq> d \<Longrightarrow> view s' d' = view s d'"
    and remove_wf: "wf s \<Longrightarrow> wf (remove s d ids)"
    and remove_view: "view (remove s d ids) d = view s d |` (- set ids)"
    and remove_other: "d' \<noteq> d \<Longrightarrow> view (remove s d ids) d' = view s d'"
begin

lemma removed_not_found:
  assumes "wf s" and "query (remove s d ids) d dq sq f k = Inr hits" and "h \<in> set hits"
  shows "hit_id h \<notin> set ids"
  using query_sound [OF remove_wf [OF assms(1)] assms(2,3)]
  by (auto simp: remove_view restrict_map_def split: if_splits)

lemma foreign_upsert_not_found:
  assumes "wf s" and "upsert s d pts = Inr s'" and "d' \<noteq> d"
    and "query s' d' dq sq f k = Inr hits" and "h \<in> set hits"
  shows "view s d' (hit_id h) = Some (hit_payload h)"
  using query_sound [OF upsert_wf [OF assms(1,2)] assms(4,5)] upsert_other [OF assms(2,3)] by simp

lemma upserted_payload_found:
  assumes "wf s" and "upsert s d pts = Inr s'" and "query s' d dq sq f k = Inr hits"
    and "h \<in> set hits" and "p \<in> set pts" and "distinct (map pt_id pts)" and "hit_id h = pt_id p"
  shows "hit_payload h = pt_payload p"
proof -
  have "point_map (rev pts) (pt_id p) = Some (pt_payload p)"
    unfolding point_map_def using assms(5,6)
    by (auto intro!: map_of_is_SomeI simp: o_def rev_map [symmetric])
  then show ?thesis
    using query_sound [OF upsert_wf [OF assms(1,2)] assms(3,4)] upsert_view [OF assms(2)] assms(7)
    by simp
qed

end

interpretation mem: tenant_store store_wf payloads hybrid_query upsert_chunks delete_points
proof
  show "store_wf s \<Longrightarrow> hybrid_query s d dq sq f k = Inr hits \<Longrightarrow> h \<in> set hits \<Longrightarrow>
      payloads s d (hit_id h) = Some (hit_payload h) \<and> payload_match (hit_payload h) f = Inr True"
    for s d dq sq f k hits h by (rule hybrid_query_hit)
  show "hybrid_query s d dq sq f k = Inr hits \<Longrightarrow> 0 \<le> k \<Longrightarrow> int (length hits) \<le> k"
    for s d dq sq f k hits by (auto elim!: hybrid_query_cases simp: length_slice_to)
  show "store_wf s \<Longrightarrow> upsert_chunks s d pts = Inr s' \<Longrightarrow> store_wf s'" for s d pts s'
    by (rule store_wf_ops(2))
  show "upsert_chunks s d pts = Inr s' \<Longrightarrow> payloads s' d = payloads s d ++ point_map (rev pts)"
    for s d pts s'
    by (auto simp: upsert_chunks_def coll_def payloads_def point_map_fold_put split: option.splits)
  show "upsert_chunks s d pts = Inr s' \<Longrightarrow> d' \<noteq> d \<Longrightarrow> payloads s' d' = payloads s d'" for s d pts s' d'
    by (auto simp: upsert_chunks_def)
  show "store_wf s \<Longrightarrow> store_wf (delete_points s d ids)" for s d ids
    by (rule store_wf_ops(5))
  show "payloads (delete_points s d ids) d = payloads s d |` (- set ids)" for s d ids
    by (auto simp: delete_points_def payloads_def point_map_filter split: option.splits)
  show "d' \<noteq> d \<Longrightarrow> payloads (delete_points s d ids) d' = payloads s d'" for s d d' ids
    by (auto simp: delete_points_def split: option.splits)
qed

section \<open>The store as a state machine\<close>

inductive store_step :: "string \<Rightarrow> vstore \<Rightarrow> vstore \<Rightarrow> bool" where
  create: "create_collection st d n b = Inr st' \<Longrightarrow> store_step d st st'"
| upsert: "upsert_chunks st d pts = Inr st' \<Longrightarrow> store_step d st st'"
| payload: "set_payload st d cids p = Inr st' \<Longrightarrow> store_step d st st'"
| drop: "store_step d st (delete_collection st d)"
| delete: "store_step d st (delete_points st d cids)"

inductive store_reachable :: "vstore \<Rightarrow> bool" where
  empty: "store_reachable Map.empty"
| step: "store_reachable st \<Longrightarrow> store_step d st st' \<Longrightarrow> store_reachable st'"

lemma store_step_wf: "store_step d st st' \<Longrightarrow> store_wf st \<Longrightarrow> store_wf st'"
  by (induction rule: store_step.induct) (auto intro: store_wf_ops)

lemma store_reachable_wf: "store_reachable st \<Longrightarrow> store_wf st"
  by (induction rule: store_reachable.induct) (auto intro: store_wf_empty store_step_wf)

lemma store_step_frame: "store_step d st st' \<Longrightarrow> d' \<noteq> d \<Longrightarrow> st' d' = st d'"
  by (induction rule: store_step.induct) (auto simp: store_defs split: option.splits if_splits)

definition foreign_step :: "string \<Rightarrow> vstore \<Rightarrow> vstore \<Rightarrow> bool" where
  "foreign_step d st st' \<longleftrightarrow> (\<exists>d'. d' \<noteq> d \<and> store_step d' st st')"

lemma foreign_steps_frame: "(foreign_step d)\<^sup>*\<^sup>* st st' \<Longrightarrow> st' d = st d"
  by (induction rule: rtranclp_induct) (auto simp: foreign_step_def store_step_frame)

section \<open>Properties\<close>

text \<open>
  (C9) Tenants do not interfere: no sequence of operations on other domains (creating or dropping
  collections, upserting, updating or deleting points) changes what a domain's query returns,
  including its failures.
\<close>

theorem tenant_noninterference:
  assumes "(foreign_step d)\<^sup>*\<^sup>* st st'"
  shows "hybrid_query st' d dq sq acl k = hybrid_query st d dq sq acl k"
  using foreign_steps_frame [OF assms] by (rule hybrid_query_local)

definition ex_point :: "string \<Rightarrow> pydict \<Rightarrow> point" where
  "ex_point i pl = \<lparr>pt_id = i, pt_dense = [1], pt_sparse = [], pt_payload = pl\<rparr>"

definition ex_coll :: "point list \<Rightarrow> collection" where
  "ex_coll ps = \<lparr>co_dense_dim = 1, co_with_sparse = True, co_points = ps\<rparr>"

definition ex_store :: vstore where
  "ex_store = [''a'' \<mapsto> ex_coll [ex_point ''p'' []], ''b'' \<mapsto> ex_coll [ex_point ''q'' []]]"

theorem tenant_noninterference_witness:
  "(foreign_step ''a'')\<^sup>*\<^sup>* ex_store (delete_collection ex_store ''b'')
   \<and> hybrid_query (delete_collection ex_store ''b'') ''a'' [1] [] None 5
     = hybrid_query ex_store ''a'' [1] [] None 5"
proof -
  have s: "(foreign_step ''a'')\<^sup>*\<^sup>* ex_store (delete_collection ex_store ''b'')"
    by (rule r_into_rtranclp)
      (auto simp: foreign_step_def intro!: exI [of _ "''b''"] store_step.drop)
  with tenant_noninterference [OF s] show ?thesis by blast
qed

text \<open>
  Deleted means gone: in every reachable store, once points are deleted from a domain's
  collection no query of that domain, whatever its filter, returns one of them.
\<close>

theorem deleted_points_never_found:
  assumes "store_reachable st" and "hybrid_query (delete_points st d ids) d dq sq acl k = Inr hits"
    and "h \<in> set hits"
  shows "hit_id h \<notin> set ids"
  using mem.removed_not_found [OF store_reachable_wf [OF assms(1)] assms(2,3)] .

definition ex_two_points :: vstore where
  "ex_two_points = [''a'' \<mapsto> ex_coll [ex_point ''p'' [], ex_point ''q'' []]]"

lemma ex_two_points_reachable: "store_reachable ex_two_points"
proof -
  let ?e = "[''a'' \<mapsto> ex_coll []]"
  have "store_step ''a'' Map.empty ?e"
    by (rule store_step.create [where n = 1 and b = True]) (simp add: create_collection_def ex_coll_def)
  moreover have "store_step ''a'' ?e ex_two_points"
    by (rule store_step.upsert [where pts = "[ex_point ''p'' [], ex_point ''q'' []]"])
      (simp add: upsert_chunks_def coll_def ex_coll_def ex_point_def ex_two_points_def)
  ultimately show ?thesis
    by (blast intro: store_reachable.intros)
qed

theorem deleted_points_never_found_witness:
  "\<exists>h. hybrid_query (delete_points ex_two_points ''a'' [''p'']) ''a'' [1] [] None 5 = Inr [h]
     \<and> hit_id h = ''q'' \<and> hit_id h \<notin> set [''p'']"
proof -
  have "\<exists>h. hybrid_query (delete_points ex_two_points ''a'' [''p'']) ''a'' [1] [] None 5 = Inr [h]
     \<and> hit_id h = ''q''"
    by (simp add: hybrid_query_def delete_points_def ex_two_points_def ex_coll_def ex_point_def
        coll_def payload_match_def slice_to_def sort_desc_def)
  then obtain h where h: "hybrid_query (delete_points ex_two_points ''a'' [''p'']) ''a'' [1] [] None 5 = Inr [h]"
    "hit_id h = ''q''" by blast
  with deleted_points_never_found [OF ex_two_points_reachable h(1)] show ?thesis by simp
qed

end
