(* ===== verification/Acl.thy ===== *)
theory Acl
  imports Vector_Store
begin

text \<open>
  The access filter of \<open>packages/rag_core/rag_core/services/acl_builder.py\<close>: which chunks a user
  may see, written as a payload filter. The theory states the access rule itself (clearance, access
  list, approval, validity period, archival) over typed chunk metadata and proves that the filter,
  evaluated by the store, decides exactly that rule; dates travel as ISO strings, whose order is
  shown to be the order of dates.
\<close>

section \<open>Building the filter\<close>

definition SECURITY_RANK :: "(string \<times> nat) list" where
  "SECURITY_RANK = [(''public'', 0), (''internal'', 1), (''confidential'', 2), (''restricted'', 3),
     (''secret'', 3)]"

definition user_rank :: "string \<Rightarrow> nat" where
  \<comment> \<open>\<open>_SECURITY_RANK.get(clearance, _SECURITY_RANK["internal"])\<close>\<close>
  "user_rank clearance = (case map_of SECURITY_RANK clearance of None \<Rightarrow> 1 | Some r \<Rightarrow> r)"

definition allowed_levels :: "string \<Rightarrow> string list" where
  "allowed_levels clearance =
     map fst (filter (\<lambda>(lvl, rank). rank \<le> user_rank clearance) SECURITY_RANK)"

definition group_term :: "string \<Rightarrow> string" where
  "group_term g =
     (if prefix ''user:'' g \<or> prefix ''group:'' g \<or> prefix ''dept:'' g then g else ''group:'' @ g)"

definition user_acl_terms :: "string \<Rightarrow> string option \<Rightarrow> string list \<Rightarrow> string list" where
  "user_acl_terms user_id department domain_groups =
     dedup_from {} ((''user:'' @ user_id)
       # (if truthy_str department then [''dept:'' @ the department] else [])
       @ map group_term domain_groups)"

record date =
  dt_year :: nat
  dt_month :: nat
  dt_day :: nat

fun pad :: "nat \<Rightarrow> nat \<Rightarrow> string" where
  \<comment> \<open>the last \<open>w\<close> decimal digits, zero-padded\<close>
  "pad 0 n = []"
| "pad (Suc w) n = pad w (n div 10) @ [char_of (48 + n mod 10)]"

definition isoformat :: "date \<Rightarrow> string" where
  "isoformat d = pad 4 (dt_year d) @ ''-'' @ pad 2 (dt_month d) @ ''-'' @ pad 2 (dt_day d)"

definition no_bounds :: range_bounds where
  "no_bounds = \<lparr>rb_lte = None, rb_gte = None, rb_lt = None, rb_gt = None\<rparr>"

definition build_qdrant_acl_filter ::
  "string \<Rightarrow> string \<Rightarrow> string option \<Rightarrow> string list \<Rightarrow> date option \<Rightarrow> bool \<Rightarrow> acl_filter" where
  "build_qdrant_acl_filter user_id clearance department domain_groups today exclude_archived =
     (let must =
        [CMatchValue ''approval_status'' (PStr ''approved''),
         CMatchAny ''security_level'' (map PStr (allowed_levels clearance)),
         CMatchAny ''acl'' (map PStr (user_acl_terms user_id department domain_groups))]
        @ (case today of None \<Rightarrow> []
           | Some t \<Rightarrow> let today_iso = isoformat t in
               [CShould [CIsNull (Some ''valid_from''),
                         CRange ''valid_from'' (no_bounds\<lparr>rb_lte := Some today_iso\<rparr>)],
                CShould [CIsNull (Some ''valid_until''),
                         CRange ''valid_until'' (no_bounds\<lparr>rb_gte := Some today_iso\<rparr>)]])
      in \<lparr>af_must = must,
          af_must_not =
            (if exclude_archived then [CMatchValue ''archived'' (PBool True)] else [])\<rparr>)"

section \<open>The access rule\<close>

record chunk_meta =
  cm_approval_status :: string
  cm_security_level :: string
  cm_acl :: "string list"
  cm_valid_from :: "date option"
  cm_valid_until :: "date option"
  cm_archived :: bool

record reader =
  rd_user_id :: string
  rd_clearance :: string
  rd_department :: "string option"
  rd_groups :: "string list"

fun opt_date :: "date option \<Rightarrow> pyval" where
  "opt_date None = PNone"
| "opt_date (Some d) = PStr (isoformat d)"

text \<open>
  A stored payload carries the metadata of its chunk under the keys the filter reads; it has other
  keys too (title, content, page), which the rule does not look at.
\<close>

definition carries_meta :: "pydict \<Rightarrow> chunk_meta \<Rightarrow> bool" where
  "carries_meta payload m \<longleftrightarrow>
     dget payload ''approval_status'' PNone = PStr (cm_approval_status m)
     \<and> dget payload ''security_level'' PNone = PStr (cm_security_level m)
     \<and> dget payload ''acl'' PNone = PList (map PStr (cm_acl m))
     \<and> dget payload ''valid_from'' PNone = opt_date (cm_valid_from m)
     \<and> dget payload ''valid_until'' PNone = opt_date (cm_valid_until m)
     \<and> py_eq (dget payload ''archived'' PNone) (PBool True) = cm_archived m"

definition date_le :: "date \<Rightarrow> date \<Rightarrow> bool" where
  "date_le a b \<longleftrightarrow> dt_year a < dt_year b \<or> dt_year a = dt_year b \<and>
     (dt_month a < dt_month b \<or> dt_month a = dt_month b \<and> dt_day a \<le> dt_day b)"

definition valid_date :: "date \<Rightarrow> bool" where
  "valid_date d \<longleftrightarrow> dt_year d < 10000 \<and> dt_month d < 100 \<and> dt_day d < 100"

definition identifiers :: "reader \<Rightarrow> string set" where
  "identifiers r = {''user:'' @ rd_user_id r}
     \<union> (if truthy_str (rd_department r) then {''dept:'' @ the (rd_department r)} else {})
     \<union> group_term ` set (rd_groups r)"

definition in_force :: "date \<Rightarrow> chunk_meta \<Rightarrow> bool" where
  "in_force today m \<longleftrightarrow>
     (\<forall>d. cm_valid_from m = Some d \<longrightarrow> date_le d today) \<and>
     (\<forall>d. cm_valid_until m = Some d \<longrightarrow> date_le today d)"

definition may_read :: "reader \<Rightarrow> date option \<Rightarrow> bool \<Rightarrow> chunk_meta \<Rightarrow> bool" where
  "may_read r today exclude_archived m \<longleftrightarrow>
     cm_approval_status m = ''approved''
     \<and> (\<exists>rank. map_of SECURITY_RANK (cm_security_level m) = Some rank \<and> rank \<le> user_rank (rd_clearance r))
     \<and> set (cm_acl m) \<inter> identifiers r \<noteq> {}
     \<and> (\<forall>t. today = Some t \<longrightarrow> in_force t m)
     \<and> \<not> (exclude_archived \<and> cm_archived m)"

section \<open>Facts: ISO dates are ordered as dates\<close>

lemma length_pad [simp]: "length (pad w n) = w"
  by (induction w arbitrary: n) auto

lemma append_less_same_length:
  fixes xs ys us vs :: "'a::linorder list"
  assumes "length xs = length ys"
  shows "xs @ us < ys @ vs \<longleftrightarrow> xs < ys \<or> xs = ys \<and> us < vs"
  using assms by (induction xs ys rule: list_induct2) auto

definition digit :: "nat \<Rightarrow> char" where
  "digit a = char_of (48 + a)"

lemma digit_less: "a < 10 \<Longrightarrow> b < 10 \<Longrightarrow> digit a < digit b \<longleftrightarrow> a < b"
  by (simp add: digit_def less_char_def)

lemma digit_eq: "a < 10 \<Longrightarrow> b < 10 \<Longrightarrow> digit a = digit b \<longleftrightarrow> a = b"
  using digit_less [of a b] digit_less [of b a] by (cases a b rule: linorder_cases) auto

lemma decimal_order:
  fixes q r q' r' :: nat
  assumes "r < 10" and "r' < 10"
  shows "10 * q + r < 10 * q' + r' \<longleftrightarrow> q < q' \<or> q = q' \<and> r < r'"
  using assms by (cases q q' rule: linorder_cases) auto

lemma pad_order:
  assumes "m < 10 ^ w" and "n < 10 ^ w"
  shows "(pad w m < pad w n \<longleftrightarrow> m < n) \<and> (pad w m = pad w n \<longleftrightarrow> m = n)"
  using assms
proof (induction w arbitrary: m n)
  case 0
  then show ?case by simp
next
  case (Suc w)
  have b: "m div 10 < 10 ^ w" "n div 10 < 10 ^ w"
    using Suc.prems by (auto simp: less_mult_imp_div_less)
  have "m < n \<longleftrightarrow> m div 10 < n div 10 \<or> m div 10 = n div 10 \<and> m mod 10 < n mod 10"
    using decimal_order [of "m mod 10" "n mod 10" "m div 10" "n div 10"] by simp
  moreover have "m = n \<longleftrightarrow> m div 10 = n div 10 \<and> m mod 10 = n mod 10"
    by (metis div_mult_mod_eq)
  ultimately show ?case
    using Suc.IH [OF b]
    by (simp add: append_less_same_length digit_def [symmetric] digit_less digit_eq)
qed

lemma iso_le_iff:
  assumes "valid_date a" and "valid_date b"
  shows "isoformat a \<le> isoformat b \<longleftrightarrow> date_le a b"
proof -
  have p: "pad 4 (dt_year b) < pad 4 (dt_year a) \<longleftrightarrow> dt_year b < dt_year a"
      "pad 4 (dt_year b) = pad 4 (dt_year a) \<longleftrightarrow> dt_year b = dt_year a"
      "pad 2 (dt_month b) < pad 2 (dt_month a) \<longleftrightarrow> dt_month b < dt_month a"
      "pad 2 (dt_month b) = pad 2 (dt_month a) \<longleftrightarrow> dt_month b = dt_month a"
      "pad 2 (dt_day b) < pad 2 (dt_day a) \<longleftrightarrow> dt_day b < dt_day a"
    using pad_order [of _ 4] pad_order [of _ 2] assms by (simp_all add: valid_date_def)
  have "isoformat b < isoformat a \<longleftrightarrow> \<not> date_le a b"
    unfolding isoformat_def date_le_def
    by (auto simp: append_less_same_length p)
  then show ?thesis by (metis linorder_not_less)
qed

section \<open>Facts: the filter decides the rule\<close>

lemma allowed_levels_iff:
  "lvl \<in> set (allowed_levels clearance) \<longleftrightarrow>
     (\<exists>rank. map_of SECURITY_RANK lvl = Some rank \<and> rank \<le> user_rank clearance)"
  by (auto simp: allowed_levels_def SECURITY_RANK_def)

lemma user_acl_terms_set:
  "set (user_acl_terms (rd_user_id r) (rd_department r) (rd_groups r)) = identifiers r"
  by (auto simp: user_acl_terms_def identifiers_def set_dedup_from)

lemma py_in_strings: "py_in (PStr s) (map PStr ss) \<longleftrightarrow> s \<in> set ss"
  by (auto simp: py_in_def list_ex_iff)

lemma range_string:
  "range_match (PStr s) (no_bounds\<lparr>rb_lte := Some t\<rparr>) = Inr (s \<le> t)"
  "range_match (PStr s) (no_bounds\<lparr>rb_gte := Some t\<rparr>) = Inr (t \<le> s)"
  by (auto simp: range_match_def no_bounds_def bound_fails_def not_less)

definition meta_dates_valid :: "chunk_meta \<Rightarrow> bool" where
  "meta_dates_valid m \<longleftrightarrow> (\<forall>d. cm_valid_from m = Some d \<longrightarrow> valid_date d) \<and>
     (\<forall>d. cm_valid_until m = Some d \<longrightarrow> valid_date d)"

lemma valid_from_match:
  assumes "carries_meta payload m" and "valid_date t" and "\<forall>d. cm_valid_from m = Some d \<longrightarrow> valid_date d"
  shows "condition_match payload
      (CShould [CIsNull (Some ''valid_from''),
                CRange ''valid_from'' (no_bounds\<lparr>rb_lte := Some (isoformat t)\<rparr>)]) =
    Inr (\<forall>d. cm_valid_from m = Some d \<longrightarrow> date_le d t)"
  using assms
  by (cases "cm_valid_from m") (simp_all add: carries_meta_def range_string iso_le_iff)

lemma valid_until_match:
  assumes "carries_meta payload m" and "valid_date t" and "\<forall>d. cm_valid_until m = Some d \<longrightarrow> valid_date d"
  shows "condition_match payload
      (CShould [CIsNull (Some ''valid_until''),
                CRange ''valid_until'' (no_bounds\<lparr>rb_gte := Some (isoformat t)\<rparr>)]) =
    Inr (\<forall>d. cm_valid_until m = Some d \<longrightarrow> date_le t d)"
  using assms
  by (cases "cm_valid_until m") (simp_all add: carries_meta_def range_string iso_le_iff)

lemma fixed_conditions_match:
  assumes "carries_meta payload m"
  shows "condition_match payload (CMatchValue ''approval_status'' (PStr ''approved'')) =
     Inr (cm_approval_status m = ''approved'')"
  "condition_match payload (CMatchAny ''security_level'' (map PStr (allowed_levels cl))) =
     Inr (\<exists>rank. map_of SECURITY_RANK (cm_security_level m) = Some rank \<and> rank \<le> user_rank cl)"
  "condition_match payload
      (CMatchAny ''acl'' (map PStr (user_acl_terms (rd_user_id r) (rd_department r) (rd_groups r)))) =
     Inr (set (cm_acl m) \<inter> identifiers r \<noteq> {})"
  "condition_match payload (CMatchValue ''archived'' (PBool True)) = Inr (cm_archived m)"
  using assms by (auto simp: carries_meta_def py_in_strings allowed_levels_iff list_ex_iff user_acl_terms_set)

lemma acl_filter_decides:
  assumes "carries_meta payload m" and "\<forall>t. today = Some t \<longrightarrow> valid_date t" and "meta_dates_valid m"
  shows "payload_match payload
      (Some (build_qdrant_acl_filter (rd_user_id r) (rd_clearance r) (rd_department r) (rd_groups r)
        today excl)) = Inr (may_read r today excl m)"
proof (cases today)
  case None
  then show ?thesis
    by (simp add: payload_match_def build_qdrant_acl_filter_def may_read_def
        fixed_conditions_match [OF assms(1)] del: condition_match.simps bind_res_eq_Inr)
next
  case (Some t)
  then have v: "valid_date t" "\<forall>d. cm_valid_from m = Some d \<longrightarrow> valid_date d"
      "\<forall>d. cm_valid_until m = Some d \<longrightarrow> valid_date d"
    using assms by (auto simp: meta_dates_valid_def)
  show ?thesis
    by (simp add: Some payload_match_def build_qdrant_acl_filter_def may_read_def in_force_def Let_def
        fixed_conditions_match [OF assms(1)] valid_from_match [OF assms(1) v(1,2)]
        valid_until_match [OF assms(1) v(1,3)]
        del: condition_match.simps bind_res_eq_Inr)
qed

section \<open>Properties\<close>

text \<open>
  (C8) The access filter is right: on the payload of any chunk, the filter built for a user accepts
  exactly the chunks the user may read. It needs approval, a security level that the clearance
  dominates, an access-list entry for the user, the department or a group, a validity period that
  contains the day, and no archival mark; and evaluating it never raises. The entry is needed also when the
  access list is empty: such a chunk is readable by nobody, although ADR-004 describes an empty list as
  no restriction.
\<close>

theorem acl_filter_correct:
  assumes "carries_meta payload m" and "meta_dates_valid m" and "valid_date t"
  shows "payload_match payload
      (Some (build_qdrant_acl_filter (rd_user_id r) (rd_clearance r) (rd_department r) (rd_groups r)
        (Some t) excl)) = Inr (may_read r (Some t) excl m)"
  by (rule acl_filter_decides) (use assms in auto)

text \<open>
  An empty access list hides a chunk from everybody: whatever the clearance, the department and the
  groups of the user, the filter rejects a chunk without access-list entries, on any day or none.
\<close>

lemma empty_acl_hides:
  fixes r :: reader
  assumes "carries_meta payload m" and "meta_dates_valid m" and "valid_date t" and "cm_acl m = []"
  shows "payload_match payload
      (Some (build_qdrant_acl_filter (rd_user_id r) (rd_clearance r) (rd_department r) (rd_groups r) (Some t) excl)) = Inr False"
proof -
  have "\<not> may_read r (Some t) excl m" using assms(4) by (simp add: may_read_def)
  with acl_filter_decides [of payload m "Some t" r excl] assms(1-3) show ?thesis by simp
qed

definition ex_meta :: chunk_meta where
  "ex_meta = \<lparr>cm_approval_status = ''approved'', cm_security_level = ''internal'',
     cm_acl = [''group:hr''], cm_valid_from = Some \<lparr>dt_year = 2024, dt_month = 1, dt_day = 1\<rparr>,
     cm_valid_until = None, cm_archived = False\<rparr>"

definition ex_reader :: reader where
  "ex_reader = \<lparr>rd_user_id = ''kim'', rd_clearance = ''internal'', rd_department = None,
     rd_groups = [''hr'']\<rparr>"

definition ex_payload :: pydict where
  "ex_payload = [(''approval_status'', PStr ''approved''), (''security_level'', PStr ''internal''),
     (''acl'', PList [PStr ''group:hr'']), (''valid_from'', PStr ''2024-01-01''),
     (''title'', PStr ''leave policy'')]"

definition ex_today :: date where
  "ex_today = \<lparr>dt_year = 2025, dt_month = 3, dt_day = 9\<rparr>"

lemma ex_iso: "isoformat \<lparr>dt_year = 2024, dt_month = 1, dt_day = 1\<rparr> = ''2024-01-01''"
  by code_simp

lemma ex_access:
  "carries_meta ex_payload ex_meta" "meta_dates_valid ex_meta" "valid_date ex_today"
  "may_read ex_reader (Some ex_today) True ex_meta"
  by (simp_all add: ex_payload_def ex_meta_def carries_meta_def dget_def ex_iso meta_dates_valid_def
      valid_date_def ex_today_def ex_reader_def may_read_def in_force_def date_le_def identifiers_def
      SECURITY_RANK_def user_rank_def group_term_def del: One_nat_def)

theorem acl_filter_correct_witness:
  "payload_match ex_payload (Some (build_qdrant_acl_filter ''kim'' ''internal'' None [''hr'']
      (Some ex_today) True)) = Inr True"
  using acl_filter_correct [OF ex_access(1,2,3), of ex_reader True] ex_access(4)
  by (simp add: ex_reader_def)

end
