(* ===== verification/Retrieval.thy ===== *)
theory Retrieval
  imports Acl Py_Text
begin

text \<open>
  Retrieval: the service of \<open>packages/rag_core/rag_core/services/retrieval_service.py\<close> and the two
  rerankers (\<open>clients/in_memory.py\<close>, \<open>clients/tei_reranker.py\<close>). A reranker writes its score into
  the candidate objects it is given, so it returns the updated candidates beside the ranked list:
  the \<open>fused\<close> list of the result holds the same objects and shows the scores too. The contract of a
  reranker is a locale; joined with the contract of a tenant store it gives what the service
  promises about the contexts it returns.
\<close>

section \<open>Rerankers\<close>

type_synonym reranker =
  "string \<Rightarrow> retrieved_chunk list \<Rightarrow> int \<Rightarrow> (retrieved_chunk list \<times> retrieved_chunk list) res"

definition jaccard_score :: "string \<Rightarrow> string \<Rightarrow> real" where
  "jaccard_score question body =
     (let q = set (py_split question); c = set (py_split body) in
      if q = {} \<or> c = {} then 0
      else if card (q \<union> c) = 0 then 0
      else real (card (q \<inter> c)) / real (card (q \<union> c)))"

definition rerank_key :: "retrieved_chunk \<Rightarrow> real" where
  "rerank_key c = (case ck_rerank_score c of None \<Rightarrow> 0 | Some r \<Rightarrow> r)"

definition mem_rerank :: reranker where
  "mem_rerank question candidates top_k =
     (let scored = map (\<lambda>c. c\<lparr>ck_rerank_score := Some (jaccard_score question (ck_content c))\<rparr>)
                     candidates
      in Inr (scored, slice_to top_k (sort_desc rerank_key scored)))"

text \<open>Descending order on optional scores, \<open>None\<close> counting as minus infinity.\<close>

definition sort_desc_opt :: "('a \<Rightarrow> real option) \<Rightarrow> 'a list \<Rightarrow> 'a list" where
  "sort_desc_opt f xs =
     sort_desc (\<lambda>x. the (f x)) (filter (\<lambda>x. f x \<noteq> None) xs) @ filter (\<lambda>x. f x = None) xs"

definition apply_score ::
  "pylib \<Rightarrow> pyval \<Rightarrow> retrieved_chunk list \<Rightarrow> retrieved_chunk list res" where
  "apply_score L item candidates =
     bind_res (as_dict item) (\<lambda>d.
     bind_res (py_int L (dget d ''index'' (PInt (- 1)))) (\<lambda>idx.
     bind_res (py_float L (dget d ''score'' (PFloat 0))) (\<lambda>score.
       Inr (if 0 \<le> idx \<and> idx < int (length candidates)
            then candidates[nat idx := (candidates ! nat idx)\<lparr>ck_rerank_score := Some score\<rparr>]
            else candidates))))"

definition tei_rerank :: "pylib \<Rightarrow> (string \<Rightarrow> string list \<Rightarrow> pyval res) \<Rightarrow> reranker" where
  \<comment> \<open>\<open>post\<close> is the call of the rerank endpoint with its decoded JSON answer\<close>
  "tei_rerank L post question candidates top_k =
     (if candidates = [] then Inr ([], [])
      else bind_res (post question (map ck_content candidates)) (\<lambda>data.
           bind_res (py_iter data) (\<lambda>items.
           bind_res (fold_res (apply_score L) items candidates) (\<lambda>scored.
             Inr (scored, slice_to top_k (sort_desc_opt ck_rerank_score scored))))))"

section \<open>The service\<close>

record retrieval_config =
  rc_fused_top_k :: int
  rc_rerank_top_k :: int
  rc_context_top_k :: int
  rc_reranker_bypass :: bool

definition default_retrieval_config :: retrieval_config where
  "default_retrieval_config = \<lparr>rc_fused_top_k = 50, rc_rerank_top_k = 10, rc_context_top_k = 5,
     rc_reranker_bypass = False\<rparr>"

record retrieval_result =
  rr_fused :: "retrieved_chunk list"
  rr_reranked :: "retrieved_chunk list"
  rr_contexts :: "retrieved_chunk list"

definition retrieve ::
  "pylib \<Rightarrow> (string \<Rightarrow> (real list \<times> sparse) res)
    \<Rightarrow> (string \<Rightarrow> real list \<Rightarrow> sparse \<Rightarrow> acl_filter option \<Rightarrow> int \<Rightarrow> hit list res)
    \<Rightarrow> reranker option \<Rightarrow> string \<Rightarrow> string \<Rightarrow> acl_filter option \<Rightarrow> retrieval_config option
    \<Rightarrow> retrieval_result res" where
  "retrieve L embed_query query rerank domain_id question acl config =
     (let cfg = (case config of None \<Rightarrow> default_retrieval_config | Some c \<Rightarrow> c) in
      bind_res (embed_query question) (\<lambda>(dense_query, sparse_query).
      bind_res (query domain_id dense_query sparse_query acl (rc_fused_top_k cfg)) (\<lambda>hits.
        let fused = hits_to_retrieved_chunks L hits in
        bind_res
          (case (rc_reranker_bypass cfg, rerank) of
             (False, Some rr) \<Rightarrow> rr question fused (rc_rerank_top_k cfg)
           | _ \<Rightarrow> Inr (fused, slice_to (rc_rerank_top_k cfg) fused))
          (\<lambda>(fused', reranked).
             Inr \<lparr>rr_fused = fused', rr_reranked = reranked,
                  rr_contexts = slice_to (rc_context_top_k cfg) reranked\<rparr>))))"

section \<open>The contract of a reranker\<close>

definition unscored :: "retrieved_chunk \<Rightarrow> retrieved_chunk" where
  "unscored c = c\<lparr>ck_rerank_score := None\<rparr>"

locale ranking =
  fixes rr :: reranker
  assumes candidates_kept: "rr q cs k = Inr (cs', ranked) \<Longrightarrow> map unscored cs' = map unscored cs"
    and ranked_from: "rr q cs k = Inr (cs', ranked) \<Longrightarrow> set ranked \<subseteq> set cs'"
    and ranked_bounded: "rr q cs k = Inr (cs', ranked) \<Longrightarrow> 0 \<le> k \<Longrightarrow> int (length ranked) \<le> k"
begin

lemma ranked_unscored:
  assumes "rr q cs k = Inr (cs', ranked)" and "c \<in> set ranked"
  shows "\<exists>c0 \<in> set cs. unscored c0 = unscored c"
proof -
  have "unscored c \<in> unscored ` set cs'"
    using ranked_from [OF assms(1)] assms(2) by auto
  then have "unscored c \<in> set (map unscored cs')"
    by simp
  then have "unscored c \<in> set (map unscored cs)"
    unfolding candidates_kept [OF assms(1)] .
  then show ?thesis by (auto simp: image_iff)
qed

end

lemma unscored_fields:
  assumes "unscored a = unscored b"
  shows "ck_chunk_id a = ck_chunk_id b" "ck_payload a = ck_payload b" "ck_content a = ck_content b"
    "ck_doc_id a = ck_doc_id b" "ck_fused_score a = ck_fused_score b"
  using assms by (cases a; cases b; simp add: unscored_def)+

lemma unscored_score [simp]: "unscored (c\<lparr>ck_rerank_score := x\<rparr>) = unscored c"
  by (simp add: unscored_def)

lemma slice_subset: "x \<in> set (slice_to k xs) \<Longrightarrow> x \<in> set xs"
  using set_slice_to by fastforce

lemma set_sort_desc_opt [simp]: "set (sort_desc_opt f xs) = set xs"
  by (auto simp: sort_desc_opt_def)

lemma map_update_same: "i < length xs \<Longrightarrow> f y = f (xs ! i) \<Longrightarrow> map f (xs[i := y]) = map f xs"
  by (metis list_update_id map_update nth_map)

lemma apply_score_unscored:
  assumes "apply_score L item cs = Inr cs'"
  shows "map unscored cs' = map unscored cs"
  using assms by (auto simp: apply_score_def map_update_same split: if_splits)

lemma fold_apply_score_unscored:
  "fold_res (apply_score L) items cs = Inr cs' \<Longrightarrow> map unscored cs' = map unscored cs"
  by (induction items arbitrary: cs) (auto dest: apply_score_unscored)

interpretation mem_ranking: ranking mem_rerank
  by unfold_locales (auto simp: mem_rerank_def Let_def length_slice_to dest: slice_subset)

interpretation tei_ranking: ranking "tei_rerank L post" for L post
  by unfold_locales
    (auto simp: tei_rerank_def length_slice_to dest: fold_apply_score_unscored slice_subset
      split: if_splits)

section \<open>What the service promises\<close>

lemma retrieve_cases:
  assumes "retrieve L embed_query query rerank d question acl config = Inr res"
  obtains cfg dq sq hits fused' where
    "cfg = (case config of None \<Rightarrow> default_retrieval_config | Some c \<Rightarrow> c)"
    "query d dq sq acl (rc_fused_top_k cfg) = Inr hits"
    "rr_contexts res = slice_to (rc_context_top_k cfg) (rr_reranked res)"
    "rr_fused res = fused'"
    "rr_reranked res = slice_to (rc_rerank_top_k cfg) (hits_to_retrieved_chunks L hits)
       \<and> fused' = hits_to_retrieved_chunks L hits
     \<or> (\<exists>rr. rerank = Some rr \<and> rr question (hits_to_retrieved_chunks L hits) (rc_rerank_top_k cfg)
           = Inr (fused', rr_reranked res))"
  using assms unfolding retrieve_def Let_def
  by (auto split: option.splits bool.splits prod.splits)

lemma hits_to_chunks_member:
  assumes "c \<in> set (hits_to_retrieved_chunks L hits)"
  shows "\<exists>h \<in> set hits. ck_chunk_id c = hit_id h \<and> ck_payload c = hit_payload h"
  using assms by (auto simp: hits_to_retrieved_chunks_def Let_def)

locale tenant_retrieval = tenant_store + ranking
begin

lemma contexts_authorised:
  assumes wf: "wf s"
    and r: "retrieve L embed_query (query s) rerank d question acl config = Inr res"
    and rk: "rerank = None \<or> rerank = Some rr"
    and c: "c \<in> set (rr_contexts res)"
  shows "view s d (ck_chunk_id c) = Some (ck_payload c) \<and> payload_match (ck_payload c) acl = Inr True"
proof -
  from r obtain cfg dq sq hits fused' where
    "cfg = (case config of None \<Rightarrow> default_retrieval_config | Some c \<Rightarrow> c)"
    and h: "query s d dq sq acl (rc_fused_top_k cfg) = Inr hits"
    and ctx: "rr_contexts res = slice_to (rc_context_top_k cfg) (rr_reranked res)"
    and "rr_fused res = fused'"
    and rr: "rr_reranked res = slice_to (rc_rerank_top_k cfg) (hits_to_retrieved_chunks L hits)
       \<and> fused' = hits_to_retrieved_chunks L hits
     \<or> (\<exists>rr'. rerank = Some rr' \<and> rr' question (hits_to_retrieved_chunks L hits) (rc_rerank_top_k cfg)
           = Inr (fused', rr_reranked res))"
    by (rule retrieve_cases)
  have "c \<in> set (rr_reranked res)" using c ctx slice_subset by metis
  then have "\<exists>c0 \<in> set (hits_to_retrieved_chunks L hits). unscored c0 = unscored c"
    using rr rk ranked_unscored slice_subset by (metis option.distinct(1) option.inject)
  then obtain h0 where "h0 \<in> set hits" "ck_chunk_id c = hit_id h0" "ck_payload c = hit_payload h0"
    using hits_to_chunks_member unscored_fields by metis
  with query_sound [OF wf h] show ?thesis by auto
qed

end

interpretation mem_mem: tenant_retrieval store_wf payloads hybrid_query upsert_chunks delete_points
  mem_rerank ..

interpretation mem_tei: tenant_retrieval store_wf payloads hybrid_query upsert_chunks delete_points
  "tei_rerank L post" for L post ..

section \<open>Properties\<close>

lemma concrete_contexts_authorised:
  assumes "store_wf st"
    and "retrieve L embed_query (hybrid_query st) rerank d question acl config = Inr res"
    and "rerank \<in> {None, Some mem_rerank, Some (tei_rerank L post)}"
    and "c \<in> set (rr_contexts res)"
  shows "payloads st d (ck_chunk_id c) = Some (ck_payload c)
    \<and> payload_match (ck_payload c) acl = Inr True"
  using assms(3) mem_mem.contexts_authorised [OF assms(1,2) _ assms(4)]
    mem_tei.contexts_authorised [OF assms(1,2) _ assms(4)] by auto

text \<open>
  Retrieval is authorised end to end: whatever sequence of store operations led to the current
  store, and with either reranker or none, every context chunk that a retrieval with the user's
  access filter hands to the language model is stored in the requested domain, unchanged, and is
  one that the user may read that day.
\<close>

theorem retrieval_authorised:
  assumes "store_reachable st"
    and "\<And>cid pl. payloads st d cid = Some pl \<Longrightarrow> carries_meta pl (meta cid) \<and> meta_dates_valid (meta cid)"
    and "valid_date t"
    and "rerank \<in> {None, Some mem_rerank, Some (tei_rerank L post)}"
    and "retrieve L embed_query (hybrid_query st) rerank d question
          (Some (build_qdrant_acl_filter (rd_user_id r) (rd_clearance r) (rd_department r) (rd_groups r)
            (Some t) excl)) config = Inr res"
    and "c \<in> set (rr_contexts res)"
  shows "payloads st d (ck_chunk_id c) = Some (ck_payload c)
    \<and> may_read r (Some t) excl (meta (ck_chunk_id c))"
proof -
  have p: "payloads st d (ck_chunk_id c) = Some (ck_payload c)"
    and m: "payload_match (ck_payload c) (Some (build_qdrant_acl_filter (rd_user_id r) (rd_clearance r)
        (rd_department r) (rd_groups r) (Some t) excl)) = Inr True"
    using concrete_contexts_authorised [OF store_reachable_wf [OF assms(1)] assms(5,4,6)] by auto
  from m show ?thesis
    using assms(2) [OF p] acl_filter_decides [of "ck_payload c" "meta (ck_chunk_id c)" "Some t" r excl]
      assms(3) p by simp
qed

definition ex_domain :: vstore where
  "ex_domain = [''a'' \<mapsto> ex_coll [ex_point ''p'' ex_payload]]"

lemma ex_domain_reachable: "store_reachable ex_domain"
proof -
  let ?e = "[''a'' \<mapsto> ex_coll []]"
  have "store_step ''a'' Map.empty ?e"
    by (rule store_step.create [where n = 1 and b = True]) (simp add: create_collection_def ex_coll_def)
  moreover have "store_step ''a'' ?e ex_domain"
    by (rule store_step.upsert [where pts = "[ex_point ''p'' ex_payload]"])
      (simp add: upsert_chunks_def coll_def ex_coll_def ex_point_def ex_domain_def)
  ultimately show ?thesis
    by (blast intro: store_reachable.intros)
qed

lemma ex_domain_payloads: "payloads ex_domain ''a'' cid = Some pl \<Longrightarrow> pl = ex_payload"
  by (auto simp: ex_domain_def payloads_def ex_coll_def ex_point_def point_map_def split: if_splits)

lemma ex_filter_accepts:
  "payload_match ex_payload (Some (build_qdrant_acl_filter (rd_user_id ex_reader)
      (rd_clearance ex_reader) (rd_department ex_reader) (rd_groups ex_reader) (Some ex_today) True))
    = Inr True"
  using acl_filter_decides [OF ex_access(1) _ ex_access(2), of "Some ex_today" ex_reader True]
    ex_access(3,4) by simp

lemma ex_retrieve:
  "\<exists>res c. retrieve ex_lib (\<lambda>_. Inr ([1], [])) (hybrid_query ex_domain) (Some mem_rerank) ''a'' ''leave''
     (Some (build_qdrant_acl_filter (rd_user_id ex_reader) (rd_clearance ex_reader)
        (rd_department ex_reader) (rd_groups ex_reader) (Some ex_today) True)) None = Inr res
     \<and> rr_contexts res = [c] \<and> ck_chunk_id c = ''p''"
  by (simp add: retrieve_def hybrid_query_def coll_def ex_domain_def ex_coll_def ex_point_def
      ex_filter_accepts slice_to_def sort_desc_def default_retrieval_config_def
      hits_to_retrieved_chunks_def mem_rerank_def Let_def)

theorem retrieval_authorised_witness:
  "may_read ex_reader (Some ex_today) True ex_meta
   \<and> (\<exists>c :: retrieved_chunk. payloads ex_domain ''a'' (ck_chunk_id c) = Some (ck_payload c))"
proof -
  obtain res c where r: "retrieve ex_lib (\<lambda>_. Inr ([1], [])) (hybrid_query ex_domain) (Some mem_rerank)
      ''a'' ''leave'' (Some (build_qdrant_acl_filter (rd_user_id ex_reader) (rd_clearance ex_reader)
        (rd_department ex_reader) (rd_groups ex_reader) (Some ex_today) True)) None = Inr res"
    and c: "rr_contexts res = [c]"
    using ex_retrieve by blast
  have pm: "payloads ex_domain ''a'' cid = Some pl \<Longrightarrow>
      carries_meta pl ((\<lambda>_. ex_meta) cid) \<and> meta_dates_valid ((\<lambda>_. ex_meta) cid)" for cid pl
    using ex_domain_payloads ex_access by blast
  have "payloads ex_domain ''a'' (ck_chunk_id c) = Some (ck_payload c)
      \<and> may_read ex_reader (Some ex_today) True ex_meta"
    by (rule retrieval_authorised [OF ex_domain_reachable pm ex_access(3) _ r]) (auto simp: c)
  then show ?thesis by blast
qed

end
