(* ===== verification/Routing.thy ===== *)
theory Routing
  imports Vector_Store Py_Text Enums
begin

text \<open>
  Query classification and model routing: \<open>services/query_classifier.py\<close> and
  \<open>services/model_router.py\<close> of the core package. A question is classified by the first regular
  expression that matches (Tier 1) or by a language-model call (Tier 2), and the routing table picks
  the first rule whose conditions hold. Configuration comes from YAML, so rules are Python values and
  every access to them can raise. The prompt rendering and the model call of Tier 2 are parameters.
\<close>

section \<open>The classifier\<close>

record classification_result =
  cr_query_type :: string
  cr_support_type :: pyval
  cr_complexity :: pyval
  cr_tier1_matched :: "string option"
  cr_tier2_called :: bool
  cr_tier2_parse_ok :: bool
  cr_tier2_error :: "string option"
  cr_raw_response :: "string option"

record classifier_config =
  cc_tier1_rules :: "pyval list"
  cc_tier2_enable :: bool
  cc_tier2_timeout_seconds :: real
  cc_tier2_fallback :: pydict

definition default_fallback :: pydict where
  "default_fallback = [(''query_type'', PStr ''document_qa''), (''support_type'', PStr ''direct''),
     (''complexity'', PStr ''medium'')]"

definition classifier_from_dict :: "pylib \<Rightarrow> pyval \<Rightarrow> classifier_config res" where
  "classifier_from_dict L raw =
     bind_res (opt_dict raw) (\<lambda>cfg.
     let tier1 = py_or (dget cfg ''tier1'' PNone) (PList []) in
     bind_res (py_iter tier1) (\<lambda>rules.
     bind_res (get_dict cfg ''tier2'') (\<lambda>tier2.
     bind_res (py_float L (dget tier2 ''timeout_seconds'' (PFloat 5))) (\<lambda>timeout.
     bind_res (py_dict (py_or (dget tier2 ''fallback_decision'' PNone) (PDict default_fallback))) (\<lambda>fb.
       Inr \<lparr>cc_tier1_rules = rules,
            cc_tier2_enable = truthy (dget tier2 ''enable'' (PBool True)),
            cc_tier2_timeout_seconds = timeout, cc_tier2_fallback = fb\<rparr>)))))"

text \<open>Tier 1: the first rule with a matching pattern; a malformed pattern is skipped.\<close>

fun pattern_hits :: "pylib \<Rightarrow> string \<Rightarrow> pyval \<Rightarrow> bool res" where
  "pattern_hits L question (PStr p) =
     Inr (case re_search L p question of None \<Rightarrow> False | Some b \<Rightarrow> b)"
| "pattern_hits L question v = Inl TypeError"

definition rule_matches :: "pylib \<Rightarrow> string \<Rightarrow> pyval \<Rightarrow> bool res" where
  "rule_matches L question rule =
     bind_res (as_dict rule) (\<lambda>r.
     bind_res (py_iter (py_or (dget r ''patterns'' PNone) (PList []))) (any_res (pattern_hits L question)))"

fun tier1_match :: "pylib \<Rightarrow> string \<Rightarrow> pyval list \<Rightarrow> pydict option res" where
  "tier1_match L question [] = Inr None"
| "tier1_match L question (rule # rules) =
     bind_res (rule_matches L question rule) (\<lambda>hit.
       if hit then bind_res (as_dict rule) (\<lambda>r. Inr (Some r)) else tier1_match L question rules)"

text \<open>Tier 2, with the configured prompt rendering and model call, if any.\<close>

record tier2_llm =
  t2_render :: "string \<Rightarrow> string res"
  t2_generate :: "string \<Rightarrow> string res"

type_synonym tier2_answer = "pydict \<times> bool \<times> string option \<times> string option"

definition tier2 :: "pylib \<Rightarrow> tier2_llm option \<Rightarrow> string \<Rightarrow> classifier_config \<Rightarrow> tier2_answer res" where
  "tier2 L llm question config =
     (let fb = cc_tier2_fallback config in
      case llm of None \<Rightarrow> Inr (fb, False, Some ''tier2_not_configured'', None)
      | Some t \<Rightarrow>
          bind_res (t2_render t question) (\<lambda>prompt_text.
          case t2_generate t prompt_text of
            Inl e \<Rightarrow> Inr (fb, False, Some (''tier2_call_error: '' @ exc_text L e), None)
          | Inr raw \<Rightarrow>
             (case json_loads L raw of
                Inl msg \<Rightarrow> Inr (fb, False, Some (''json_decode_error: '' @ msg), Some raw)
              | Inr v \<Rightarrow>
                  bind_res (as_dict v) (\<lambda>data.
                    Inr ([(''query_type'', PStr (py_str L (py_or (dget data ''query_type'' PNone)
                             (dget fb ''query_type'' (PStr ''document_qa''))))),
                          (''support_type'', py_or (dget data ''support_type'' PNone)
                             (dget fb ''support_type'' PNone)),
                          (''complexity'', py_or (dget data ''complexity'' PNone)
                             (dget fb ''complexity'' PNone))],
                         True, None, Some raw)))))"

definition classify_query ::
  "pylib \<Rightarrow> tier2_llm option \<Rightarrow> string \<Rightarrow> classifier_config \<Rightarrow> classification_result res" where
  "classify_query L llm question config =
     bind_res (tier1_match L question (cc_tier1_rules config)) (\<lambda>mt.
     case mt of
       Some r \<Rightarrow>
         Inr \<lparr>cr_query_type = py_str L (py_or (dget r ''query_type'' PNone) (PStr ''document_qa'')),
              cr_support_type = dget r ''support_type'' PNone,
              cr_complexity = dget r ''complexity'' PNone,
              cr_tier1_matched = Some (py_str L (py_or (dget r ''name'' PNone) (PStr ''unnamed''))),
              cr_tier2_called = False, cr_tier2_parse_ok = True, cr_tier2_error = None,
              cr_raw_response = None\<rparr>
     | None \<Rightarrow>
         if \<not> cc_tier2_enable config then
           let fb = cc_tier2_fallback config in
           Inr \<lparr>cr_query_type = py_str L (dget fb ''query_type'' (PStr ''document_qa'')),
                cr_support_type = dget fb ''support_type'' PNone,
                cr_complexity = dget fb ''complexity'' PNone,
                cr_tier1_matched = None, cr_tier2_called = False, cr_tier2_parse_ok = False,
                cr_tier2_error = Some ''tier2_disabled'', cr_raw_response = None\<rparr>
         else
           bind_res (tier2 L llm question config) (\<lambda>(decision, parse_ok, err, raw).
           Inr \<lparr>cr_query_type = py_str L (py_or (dget decision ''query_type'' PNone) (PStr ''document_qa'')),
                cr_support_type = dget decision ''support_type'' PNone,
                cr_complexity = dget decision ''complexity'' PNone,
                cr_tier1_matched = None, cr_tier2_called = True, cr_tier2_parse_ok = parse_ok,
                cr_tier2_error = err, cr_raw_response = raw\<rparr>))"

section \<open>The router\<close>

record routing_decision =
  rd_matched_rule :: string
  rd_model :: string
  rd_use_lora :: bool
  rd_use_rag :: bool
  rd_ui_mode :: string
  rd_require_judge :: bool
  rd_require_similarity_check :: bool
  rd_action :: pyval
  rd_lora_adapter :: pyval
  rd_matched_signals :: pydict

fun num_ge :: "pylib \<Rightarrow> pyval \<Rightarrow> real \<Rightarrow> bool res" where
  \<comment> \<open>\<open>actual >= x\<close> for a number; other values cannot be compared with a float\<close>
  "num_ge L (PStr s) x = Inl TypeError"
| "num_ge L v x = (case num_val v of None \<Rightarrow> Inl TypeError | Some r \<Rightarrow> Inr (x \<le> r))"

definition condition_holds :: "pylib \<Rightarrow> pydict \<Rightarrow> string \<times> pyval \<Rightarrow> bool res" where
  \<comment> \<open>one key of a rule's \<open>when\<close> clause\<close>
  "condition_holds L signals = (\<lambda>(key, expected).
     if key = ''retrieval_confidence_below'' then
       (let actual = dget signals ''retrieval_confidence'' PNone in
        if actual = PNone then Inr False
        else bind_res (py_float L expected) (\<lambda>x. bind_res (num_ge L actual x) (\<lambda>ge. Inr (\<not> ge))))
     else
       (let actual = dget signals key PNone in
        case expected of PList xs \<Rightarrow> Inr (py_in actual xs) | _ \<Rightarrow> Inr (py_eq actual expected)))"

definition matches_when :: "pylib \<Rightarrow> pyval \<Rightarrow> pydict \<Rightarrow> bool res" where
  "matches_when L when signals =
     (if \<not> truthy when then Inr True
      else bind_res (as_dict when) (all_res (condition_holds L signals)))"

definition resolve_lora :: "bool \<Rightarrow> string \<Rightarrow> pyval \<Rightarrow> pyval res" where
  "resolve_lora use_lora model_key tenant_model_config =
     (if \<not> use_lora then Inr PNone
      else bind_res (opt_dict tenant_model_config) (\<lambda>cfg.
           bind_res (get_dict cfg model_key) (\<lambda>endpoint_cfg.
             let lora = dget endpoint_cfg ''lora_adapter'' PNone in
             Inr (if truthy lora then lora else PNone))))"

definition signals_of :: "classification_result \<Rightarrow> real option \<Rightarrow> pydict" where
  "signals_of c confidence =
     [(''query_type'', PStr (cr_query_type c)), (''support_type'', cr_support_type c),
      (''complexity'', cr_complexity c)]
     @ (case confidence of None \<Rightarrow> [] | Some r \<Rightarrow> [(''retrieval_confidence'', PFloat r)])"

definition rule_decision ::
  "pylib \<Rightarrow> pyval \<Rightarrow> pyval \<Rightarrow> pydict \<Rightarrow> pydict \<Rightarrow> routing_decision res" where
  "rule_decision L dflt_cfg tenant_cfg signals rule =
     bind_res (as_dict dflt_cfg) (\<lambda>dflt. let model_key = py_str L (py_or (py_or (py_or (dget rule ''use_model'' PNone)
                        (dget rule ''model'' PNone)) (dget dflt ''model'' PNone)) (PStr ''tenant_slm''));
          use_lora = truthy (dget rule ''use_lora'' (dget dflt ''use_lora'' (PBool True)))
      in bind_res (resolve_lora use_lora model_key tenant_cfg) (\<lambda>lora.
         Inr \<lparr>rd_matched_rule = py_str L (py_or (dget rule ''name'' PNone) (PStr ''unnamed'')),
              rd_model = model_key, rd_use_lora = use_lora,
              rd_use_rag = truthy (dget rule ''use_rag'' (dget dflt ''use_rag'' (PBool True))),
              rd_ui_mode = py_str L (dget rule ''ui_mode'' (dget dflt ''ui_mode'' (PStr ''chat_structured''))),
              rd_require_judge = truthy (dget rule ''require_judge'' (PBool False)),
              rd_require_similarity_check = truthy (dget rule ''require_similarity_check'' (PBool False)),
              rd_action = dget rule ''action'' PNone,
              rd_lora_adapter = lora, rd_matched_signals = signals\<rparr>))"

definition default_decision :: "pylib \<Rightarrow> pyval \<Rightarrow> pyval \<Rightarrow> pydict \<Rightarrow> routing_decision res" where
  "default_decision L dflt_cfg tenant_cfg signals =
     bind_res (as_dict dflt_cfg) (\<lambda>dflt. let model_key = py_str L (py_or (dget dflt ''model'' PNone) (PStr ''tenant_slm''));
          use_lora = truthy (dget dflt ''use_lora'' (PBool True))
      in bind_res (resolve_lora use_lora model_key tenant_cfg) (\<lambda>lora.
         Inr \<lparr>rd_matched_rule = ''default'', rd_model = model_key, rd_use_lora = use_lora,
              rd_use_rag = truthy (dget dflt ''use_rag'' (PBool True)),
              rd_ui_mode = py_str L (dget dflt ''ui_mode'' (PStr ''chat_structured'')),
              rd_require_judge = False, rd_require_similarity_check = False, rd_action = PNone,
              rd_lora_adapter = lora, rd_matched_signals = signals\<rparr>))"

fun decide_rules ::
  "pylib \<Rightarrow> pyval \<Rightarrow> pyval \<Rightarrow> pydict \<Rightarrow> pyval list \<Rightarrow> routing_decision res" where
  "decide_rules L dflt tenant_cfg signals [] = default_decision L dflt tenant_cfg signals"
| "decide_rules L dflt tenant_cfg signals (rule # rules) =
     bind_res (as_dict rule) (\<lambda>r.
     bind_res (matches_when L (py_or (dget r ''when'' PNone) (PDict [])) signals) (\<lambda>hit.
       if hit then rule_decision L dflt tenant_cfg signals r
       else decide_rules L dflt tenant_cfg signals rules))"

definition decide ::
  "pylib \<Rightarrow> classification_result \<Rightarrow> pyval \<Rightarrow> pyval \<Rightarrow> real option \<Rightarrow> routing_decision res" where
  "decide L classification routing_config tenant_model_config retrieval_confidence =
     bind_res (opt_dict routing_config) (\<lambda>cfg.
     bind_res (py_iter (py_or (dget cfg ''rules'' PNone) (PList []))) (\<lambda>rules.
       decide_rules L (py_or (dget cfg ''default'' PNone) (PDict [])) tenant_model_config
         (signals_of classification retrieval_confidence) rules))"

section \<open>Facts\<close>

lemma tier1_match_Some:
  assumes "tier1_match L q rules = Inr (Some r)"
  shows "PDict r \<in> set rules \<and> rule_matches L q (PDict r) = Inr True"
  using assms by (induction rules) (auto simp: as_dict_eq_Inr split: if_splits)

lemma tier1_match_None:
  "tier1_match L q rules = Inr None \<longleftrightarrow> (\<forall>rule \<in> set rules. rule_matches L q rule = Inr False)"
proof (induction rules)
  case (Cons rule rules)
  then show ?case
    by (cases "rule_matches L q rule") (auto split: if_splits)
qed simp

lemma tier1_match_first:
  assumes "\<forall>rule \<in> set pre. rule_matches L q rule = Inr False"
    and "rule_matches L q (PDict r) = Inr True"
  shows "tier1_match L q (pre @ PDict r # post) = Inr (Some r)"
  using assms by (induction pre) auto

lemma decide_rules_first:
  assumes "\<forall>rule \<in> set pre. \<exists>d. rule = PDict d \<and>
      matches_when L (py_or (dget d ''when'' PNone) (PDict [])) signals = Inr False"
    and "matches_when L (py_or (dget r ''when'' PNone) (PDict [])) signals = Inr True"
  shows "decide_rules L dflt cfg signals (pre @ PDict r # post) = rule_decision L dflt cfg signals r"
  using assms by (induction pre) auto

lemma decide_rules_default:
  assumes "\<forall>rule \<in> set rules. \<exists>d. rule = PDict d \<and>
      matches_when L (py_or (dget d ''when'' PNone) (PDict [])) signals = Inr False"
  shows "decide_rules L dflt cfg signals rules = default_decision L dflt cfg signals"
  using assms by (induction rules) auto

lemma resolve_lora_origin:
  assumes "resolve_lora use_lora key tmc = Inr lora" and "lora \<noteq> PNone"
  shows "use_lora \<and> (\<exists>cfg ep. tmc = PDict cfg \<and> map_of cfg key = Some (PDict ep)
    \<and> map_of ep ''lora_adapter'' = Some lora)"
  using assms
  by (auto simp: resolve_lora_def Let_def pyval_simps as_dict_eq_Inr split: if_splits option.splits)

lemma rule_decision_lora:
  assumes "rule_decision L dflt tmc signals r = Inr dec"
  shows "resolve_lora (rd_use_lora dec) (rd_model dec) tmc = Inr (rd_lora_adapter dec)"
  using assms by (auto simp: rule_decision_def Let_def)

lemma default_decision_lora:
  assumes "default_decision L dflt tmc signals = Inr dec"
  shows "resolve_lora (rd_use_lora dec) (rd_model dec) tmc = Inr (rd_lora_adapter dec)"
  using assms by (auto simp: default_decision_def Let_def)

lemma decide_rules_lora:
  assumes "decide_rules L dflt tmc signals rules = Inr dec"
  shows "resolve_lora (rd_use_lora dec) (rd_model dec) tmc = Inr (rd_lora_adapter dec)"
  using assms
  by (induction rules) (auto dest: rule_decision_lora default_decision_lora split: if_splits)

text \<open>
  The classifier configuration and the routing table ship with a query type that the enumeration of
  valid query types does not have: Tier 1 classifies an assessment request as
  \<open>assessment_generation\<close>, which \<open>is_valid_query_type\<close> rejects.
\<close>

lemma assessment_generation_not_valid:
  assumes "\<forall>rule \<in> set pre. rule_matches L q rule = Inr False"
    and "rule_matches L q (PDict r) = Inr True"
    and "dget r ''query_type'' PNone = PStr ''assessment_generation''"
    and "cc_tier1_rules config = pre @ PDict r # post"
  shows "\<exists>res. classify_query L llm q config = Inr res \<and> \<not> is_valid_query_type (cr_query_type res)"
  using assms
  by (auto simp: classify_query_def tier1_match_first py_or_def is_valid_query_type_def QUERY_TYPES_def)

section \<open>Properties\<close>

text \<open>
  Tier 1 takes precedence and needs no model: when the patterns of a rule match the question and
  those of no earlier rule do, the classification is that rule's, whatever the rules after it, the
  Tier 2 settings and the language model are; in particular it cannot fail.
\<close>

theorem tier1_decides:
  assumes "cc_tier1_rules config = pre @ PDict r # post"
    and "\<forall>rule \<in> set pre. rule_matches L q rule = Inr False"
    and "rule_matches L q (PDict r) = Inr True"
  shows "\<exists>res. classify_query L llm q config = Inr res
    \<and> cr_tier1_matched res \<noteq> None \<and> \<not> cr_tier2_called res
    \<and> cr_support_type res = dget r ''support_type'' PNone
    \<and> cr_complexity res = dget r ''complexity'' PNone
    \<and> (\<forall>t. map_of r ''query_type'' = Some (PStr t) \<and> t \<noteq> [] \<longrightarrow> cr_query_type res = t)"
  using assms by (auto simp: classify_query_def tier1_match_first pyval_simps)

definition ex_rule :: pydict where
  "ex_rule = [(''name'', PStr ''greeting''), (''patterns'', PList [PStr ''[bad'', PStr ''hello'']),
     (''query_type'', PStr ''chitchat'')]"

definition ex_relib :: pylib where
  "ex_relib = ex_lib\<lparr>re_search := (\<lambda>p s. if p = ''[bad'' then None else Some (sublist p s))\<rparr>"

definition ex_classifier :: classifier_config where
  "ex_classifier = \<lparr>cc_tier1_rules = [PDict [], PDict ex_rule], cc_tier2_enable = True,
     cc_tier2_timeout_seconds = 5, cc_tier2_fallback = default_fallback\<rparr>"

lemma ex_rule_matches:
  "rule_matches ex_relib ''hello'' (PDict []) = Inr False"
  "rule_matches ex_relib ''hello'' (PDict ex_rule) = Inr True"
  by (simp_all add: rule_matches_def ex_rule_def pyval_simps ex_relib_def)

theorem tier1_decides_witness:
  "\<exists>res. classify_query ex_relib None ''hello'' ex_classifier = Inr res \<and> cr_query_type res = ''chitchat''"
  using tier1_decides [of ex_classifier "[PDict []]" ex_rule "[]" ex_relib "''hello''" None]
    ex_rule_matches by (auto simp: ex_classifier_def ex_rule_def)

text \<open>
  Classification degrades to the configured fallback: when no Tier 1 rule matches and the model
  call raises or returns text that is not JSON, the question is still classified, with the query
  type, support type and complexity of the fallback decision and the failure on record.
\<close>

theorem tier2_failure_falls_back:
  assumes "\<forall>rule \<in> set (cc_tier1_rules config). rule_matches L q rule = Inr False"
    and "cc_tier2_enable config"
    and "t2_render t q = Inr prompt"
    and "(\<exists>e. t2_generate t prompt = Inl e) \<or> (\<exists>raw msg. t2_generate t prompt = Inr raw \<and> json_loads L raw = Inl msg)"
    and "map_of (cc_tier2_fallback config) ''query_type'' = Some (PStr qt)" and "qt \<noteq> []"
  shows "\<exists>res. classify_query L (Some t) q config = Inr res \<and> cr_query_type res = qt
    \<and> cr_support_type res = dget (cc_tier2_fallback config) ''support_type'' PNone
    \<and> cr_complexity res = dget (cc_tier2_fallback config) ''complexity'' PNone
    \<and> cr_tier2_called res \<and> \<not> cr_tier2_parse_ok res \<and> cr_tier2_error res \<noteq> None"
proof -
  have n: "tier1_match L q (cc_tier1_rules config) = Inr None"
    using assms(1) by (simp add: tier1_match_None)
  obtain err raw where "tier2 L (Some t) q config = Inr (cc_tier2_fallback config, False, Some err, raw)"
    using assms(3,4) by (auto simp: tier2_def)
  then show ?thesis
    using assms(2,5,6) n by (simp add: classify_query_def pyval_simps del: bind_res_eq_Inr)
qed

definition ex_tier2 :: tier2_llm where
  "ex_tier2 = \<lparr>t2_render = Inr, t2_generate = \<lambda>_. Inl (OtherError ''TimeoutError'')\<rparr>"

theorem tier2_failure_falls_back_witness:
  "\<exists>res. classify_query ex_relib (Some ex_tier2) ''other'' (ex_classifier\<lparr>cc_tier1_rules := []\<rparr>) = Inr res
     \<and> cr_query_type res = ''document_qa'' \<and> cr_tier2_error res \<noteq> None"
  using tier2_failure_falls_back [of "ex_classifier\<lparr>cc_tier1_rules := []\<rparr>" ex_relib "''other''" ex_tier2
      "''other''" "''document_qa''"]
  by (auto simp: ex_classifier_def ex_tier2_def default_fallback_def)

text \<open>
  The first matching routing rule decides: rules after it have no influence, and the model and
  the retrieval switch are the rule's own where it names them.
\<close>

theorem first_matching_rule_decides:
  assumes "map_of cfg ''rules'' = Some (PList (pre @ PDict r # post))"
    and "map_of cfg ''default'' = Some (PDict dflt)"
    and "\<forall>rule \<in> set pre. \<exists>d. rule = PDict d \<and>
      matches_when L (py_or (dget d ''when'' PNone) (PDict [])) (signals_of c conf) = Inr False"
    and "matches_when L (py_or (dget r ''when'' PNone) (PDict [])) (signals_of c conf) = Inr True"
    and "map_of r ''use_model'' = Some (PStr mk)" and "mk \<noteq> []"
    and "decide L c (PDict cfg) tmc conf = Inr dec"
  shows "rd_model dec = mk \<and> rd_action dec = dget r ''action'' PNone
    \<and> (\<forall>b. map_of r ''use_rag'' = Some (PBool b) \<longrightarrow> rd_use_rag dec = b)
    \<and> decide L c (PDict (dict_put ''rules'' (PList (pre @ [PDict r])) cfg)) tmc conf = Inr dec"
proof -
  have d: "dict_put ''rules'' v cfg \<noteq> []" for v by (cases cfg) (auto split: if_splits)
  have c: "cfg \<noteq> []" using assms(1) by auto
  have p: "py_or (PDict dflt) (PDict []) = PDict dflt" by (simp add: py_or_def)
  have "decide L c (PDict (dict_put ''rules'' (PList (pre @ [PDict r])) cfg)) tmc conf
      = rule_decision L (PDict dflt) tmc (signals_of c conf) r"
    using decide_rules_first [OF assms(3,4), of "PDict dflt" tmc "[]"] assms(2) d
    by (auto simp: decide_def opt_dict_def py_or_def dget_def map_of_dict_put)
  moreover have dec: "decide L c (PDict cfg) tmc conf = rule_decision L (PDict dflt) tmc (signals_of c conf) r"
    using decide_rules_first [OF assms(3,4), of "PDict dflt" tmc post] assms(1,2) c
    by (auto simp: decide_def opt_dict_def py_or_def dget_def)
  moreover have "rd_model dec = mk \<and> rd_action dec = dget r ''action'' PNone
      \<and> (\<forall>b. map_of r ''use_rag'' = Some (PBool b) \<longrightarrow> rd_use_rag dec = b)"
    using assms(5,6,7) unfolding dec by (auto simp: rule_decision_def Let_def pyval_simps)
  ultimately show ?thesis using assms(7) by simp
qed

definition ex_routing :: pydict where
  "ex_routing = [(''rules'', PList [PDict [(''when'', PDict [(''query_type'', PStr ''summary'')])],
       PDict [(''when'', PDict [(''query_type'', PList [PStr ''chitchat''])]), (''use_model'', PStr ''shared_llm''),
         (''use_rag'', PBool False), (''use_lora'', PBool True)],
       PDict []]), (''default'', PDict [(''model'', PStr ''tenant_slm'')])]"

definition ex_class :: classification_result where
  "ex_class = \<lparr>cr_query_type = ''chitchat'', cr_support_type = PNone, cr_complexity = PNone,
     cr_tier1_matched = None, cr_tier2_called = False, cr_tier2_parse_ok = True, cr_tier2_error = None,
     cr_raw_response = None\<rparr>"

definition ex_models :: pyval where
  "ex_models = PDict [(''shared_llm'', PDict [(''lora_adapter'', PStr ''policy-v1'')])]"

lemmas ex_route_defs = ex_routing_def ex_class_def ex_models_def signals_of_def condition_holds_def
  matches_when_def pyval_simps py_in_def

lemma ex_decide:
  "\<exists>dec. decide ex_lib ex_class (PDict ex_routing) ex_models None = Inr dec
     \<and> rd_lora_adapter dec = PStr ''policy-v1''"
  by (simp add: ex_route_defs decide_def rule_decision_def resolve_lora_def Let_def)

theorem first_matching_rule_decides_witness:
  "\<exists>dec. decide ex_lib ex_class (PDict ex_routing) ex_models None = Inr dec
     \<and> rd_model dec = ''shared_llm'' \<and> \<not> rd_use_rag dec"
proof -
  obtain dec where d: "decide ex_lib ex_class (PDict ex_routing) ex_models None = Inr dec"
    using ex_decide by blast
  let ?r = "[(''when'', PDict [(''query_type'', PList [PStr ''chitchat''])]),
    (''use_model'', PStr ''shared_llm''), (''use_rag'', PBool False), (''use_lora'', PBool True)]"
  have "rd_model dec = ''shared_llm''
    \<and> (\<forall>b. map_of ?r ''use_rag'' = Some (PBool b) \<longrightarrow> rd_use_rag dec = b)"
    using first_matching_rule_decides
      [of ex_routing "[PDict [(''when'', PDict [(''query_type'', PStr ''summary'')])]]" ?r "[PDict []]"
        "[(''model'', PStr ''tenant_slm'')]" ex_lib ex_class None "''shared_llm''" ex_models dec] d
    by (simp add: ex_route_defs)
  then show ?thesis using d by auto
qed

text \<open>
  A LoRA adapter is never used by accident: a routing decision carries an adapter only when LoRA
  is switched on, and then it is the one that the tenant's own model configuration registers for the
  endpoint the decision selects.
\<close>

theorem lora_from_selected_endpoint:
  assumes "decide L c routing tenant_models conf = Inr dec" and "rd_lora_adapter dec \<noteq> PNone"
  shows "rd_use_lora dec \<and> (\<exists>cfg ep. tenant_models = PDict cfg
    \<and> map_of cfg (rd_model dec) = Some (PDict ep) \<and> map_of ep ''lora_adapter'' = Some (rd_lora_adapter dec))"
  using assms(1) by (auto simp: decide_def dest!: decide_rules_lora resolve_lora_origin [OF _ assms(2)])

theorem lora_from_selected_endpoint_witness:
  "\<exists>dec. decide ex_lib ex_class (PDict ex_routing) ex_models None = Inr dec \<and> rd_use_lora dec"
proof -
  obtain dec where d: "decide ex_lib ex_class (PDict ex_routing) ex_models None = Inr dec"
      "rd_lora_adapter dec = PStr ''policy-v1''"
    using ex_decide by blast
  then show ?thesis using lora_from_selected_endpoint [OF d(1)] by auto
qed

end
