(* ===== verification/Conflict.thy ===== *)
theory Conflict
  imports Verifier "HOL-Library.Multiset"
begin

text \<open>
  The heuristic conflict detector of \<open>services/conflict_detector.py\<close>: when the chunks that a segment
  cites mention different dates, different numbers for the same unit or different rule numbers, the
  segment becomes a conflict candidate with its chunks grouped by value. Running a compiled regular
  expression over a text is a parameter (\<open>finditer\<close>: the groups of each match, in order); building
  the values, comparing and grouping them is modelled in full.
\<close>

section \<open>Extraction\<close>

datatype detector_pattern = DATE_ISO | DATE_KOREAN | NUMERIC_UNIT
  | RULE_ARTICLE_CLAUSE | RULE_ARTICLE | RULE_ENGLISH_ARTICLE | RULE_ENGLISH_SECTION

type_synonym finditer = "detector_pattern \<Rightarrow> string \<Rightarrow> string list list"

definition DATE_PATTERNS :: "detector_pattern list" where
  "DATE_PATTERNS = [DATE_ISO, DATE_KOREAN]"

definition ALLOWED_SIGNALS :: "string list" where
  "ALLOWED_SIGNALS = [''date_diff'', ''numeric_diff'', ''rule_id_diff'']"

definition group_at :: "string list \<Rightarrow> nat \<Rightarrow> string res" where
  "group_at m i = (if i < length m then Inr (m ! i) else Inl IndexError)"

definition zero_pad :: "nat \<Rightarrow> int \<Rightarrow> string" where
  \<comment> \<open>\<open>f"{i:0wd}"\<close>\<close>
  "zero_pad w i =
     (let body = digits_of (nat \<bar>i\<bar>); sign = (if i < 0 then ''-'' else [])
      in sign @ replicate (w - length sign - length body) (CHR ''0'') @ body)"

definition normalize_date :: "pylib \<Rightarrow> string \<Rightarrow> string \<Rightarrow> string \<Rightarrow> string res" where
  "normalize_date L y m d =
     bind_res (py_int L (PStr y)) (\<lambda>yi.
     bind_res (py_int L (PStr m)) (\<lambda>mi.
     bind_res (py_int L (PStr d)) (\<lambda>di.
       Inr (zero_pad 4 yi @ ''-'' @ zero_pad 2 mi @ ''-'' @ zero_pad 2 di))))"

definition extract_dates :: "pylib \<Rightarrow> finditer \<Rightarrow> string \<Rightarrow> string set res" where
  "extract_dates L finditer txt =
     bind_res (map_res (\<lambda>m. bind_res (group_at m 0) (\<lambda>y. bind_res (group_at m 1) (\<lambda>mo.
                 bind_res (group_at m 2) (\<lambda>d. normalize_date L y mo d))))
               (concat (map (\<lambda>p. finditer p txt) DATE_PATTERNS)))
       (\<lambda>ds. Inr (set ds))"

text \<open>
  The dictionary from unit to value set is kept as its list of (unit, value) insertions.
\<close>

definition extract_numeric_by_unit :: "finditer \<Rightarrow> string \<Rightarrow> (string \<times> string) list res" where
  "extract_numeric_by_unit finditer txt =
     map_res (\<lambda>m. bind_res (group_at m 0) (\<lambda>v. bind_res (group_at m 1) (\<lambda>unit.
                Inr (unit, filter (\<lambda>ch. ch \<noteq> CHR '','') v))))
       (finditer NUMERIC_UNIT txt)"

definition values_for :: "string \<Rightarrow> (string \<times> string) list \<Rightarrow> string set" where
  \<comment> \<open>\<open>d.get(unit, set())\<close>\<close>
  "values_for unit d = set (map snd (filter (\<lambda>(u, v). u = unit) d))"

definition format_arg :: "int list \<Rightarrow> nat \<Rightarrow> string res" where
  "format_arg gs i = (if i < length gs then Inr (int_str (gs ! i)) else Inl IndexError)"

fun rule_label :: "detector_pattern \<Rightarrow> int list \<Rightarrow> string res" where
  "rule_label RULE_ARTICLE_CLAUSE gs =
     bind_res (format_arg gs 0) (\<lambda>a. bind_res (format_arg gs 1) (\<lambda>c. Inr (''art-'' @ a @ ''-clause-'' @ c)))"
| "rule_label _ gs = bind_res (format_arg gs 0) (\<lambda>a. Inr (''art-'' @ a))"

definition RULE_ID_PATTERNS :: "detector_pattern list" where
  "RULE_ID_PATTERNS = [RULE_ARTICLE_CLAUSE, RULE_ARTICLE, RULE_ENGLISH_ARTICLE, RULE_ENGLISH_SECTION]"

definition extract_rule_ids :: "pylib \<Rightarrow> finditer \<Rightarrow> string \<Rightarrow> string set res" where
  "extract_rule_ids L finditer txt =
     bind_res (map_res (\<lambda>(p, m).
          bind_res (map_res (\<lambda>g. if g = [] then Inr 0 else py_int L (PStr g)) m) (rule_label p))
        (concat (map (\<lambda>p. map (Pair p) (finditer p txt)) RULE_ID_PATTERNS)))
       (\<lambda>ids. Inr (set ids))"

section \<open>Grouping by value\<close>

fun add_to_group :: "string set \<Rightarrow> int \<Rightarrow> (string set \<times> int list) list \<Rightarrow> (string set \<times> int list) list" where
  \<comment> \<open>\<open>groups[frozenset(vals)].append(cidx)\<close>\<close>
  "add_to_group vals c [] = [(vals, [c])]"
| "add_to_group vals c ((v, cs) # gs) =
     (if v = vals then (v, cs @ [c]) # gs else (v, cs) # add_to_group vals c gs)"

definition group_chunks_by_value :: "int list \<Rightarrow> (int \<Rightarrow> string set) \<Rightarrow> int list list" where
  "group_chunks_by_value chunk_indices values_per_chunk =
     map (sort \<circ> snd)
       (fold (\<lambda>c groups. if values_per_chunk c = {} then groups
                         else add_to_group (values_per_chunk c) c groups) chunk_indices [])"

section \<open>The detector\<close>

record conflict_detection_result =
  cd_is_conflict :: bool
  cd_signal :: "string option"
  cd_conflict_groups :: "int list list"
  cd_details :: pydict

definition no_conflict :: conflict_detection_result where
  "no_conflict = \<lparr>cd_is_conflict = False, cd_signal = None, cd_conflict_groups = [], cd_details = []\<rparr>"

fun hashable :: "pyval \<Rightarrow> pyval res" where
  "hashable (PList xs) = Inl TypeError"
| "hashable (PDict d) = Inl TypeError"
| "hashable v = Inr v"

definition detector_init :: "pyval list \<Rightarrow> string set" where
  "detector_init enabled_patterns =
     set (filter (\<lambda>p. PStr p \<in> set enabled_patterns) ALLOWED_SIGNALS)"

definition detector_from_config :: "pyval \<Rightarrow> string set res" where
  "detector_from_config citation_config =
     bind_res (opt_dict citation_config) (\<lambda>cfg.
     bind_res (get_dict cfg ''verification'') (\<lambda>verification.
     bind_res (get_dict verification ''conflict_detection'') (\<lambda>cd.
     bind_res (get_dict cd ''heuristic'') (\<lambda>h.
       if \<not> truthy (dget h ''enable'' (PBool False)) then Inr (detector_init [])
       else bind_res (py_iter (py_or (dget h ''patterns'' PNone) (PList (map PStr ALLOWED_SIGNALS)))) (\<lambda>ps.
            bind_res (map_res hashable ps) (\<lambda>ps'. Inr (detector_init ps')))))))"

definition content_at :: "retrieved_chunk list \<Rightarrow> int \<Rightarrow> string" where
  "content_at contexts c = ck_content (contexts ! nat (c - 1))"

definition per_chunk ::
  "(string \<Rightarrow> 'a res) \<Rightarrow> retrieved_chunk list \<Rightarrow> int list \<Rightarrow> (int \<times> 'a) list res" where
  \<comment> \<open>a dictionary comprehension over the texts of the cited chunks: one entry per index\<close>
  "per_chunk extract contexts cidxs =
     map_res (\<lambda>c. bind_res (extract (content_at contexts c)) (\<lambda>v. Inr (c, v))) (dedup_from {} cidxs)"

definition values_at :: "(int \<times> string set) list \<Rightarrow> int \<Rightarrow> string set" where
  "values_at d c = (case map_of d c of None \<Rightarrow> {} | Some v \<Rightarrow> v)"

definition all_values :: "(int \<times> string set) list \<Rightarrow> string set" where
  "all_values d = \<Union> (set (map snd d))"

definition contributing :: "(int \<times> string set) list \<Rightarrow> (int \<times> string set) list" where
  "contributing d = filter (\<lambda>(c, v). v \<noteq> {}) d"

definition values_detail :: "(int \<times> string set) list \<Rightarrow> string \<times> pyval" where
  "values_detail d = (''values_per_chunk'',
     PDict (map (\<lambda>(c, v). (int_str c, PList (map PStr (sorted_list_of_set v)))) (contributing d)))"

definition detect_date_diff :: "int list \<Rightarrow> (int \<times> string set) list \<Rightarrow> conflict_detection_result option" where
  "detect_date_diff cidxs dates =
     (if 2 \<le> card (all_values dates) then
        let groups = group_chunks_by_value cidxs (values_at dates)
        in if 2 \<le> length groups
           then Some \<lparr>cd_is_conflict = True, cd_signal = Some ''date_diff'', cd_conflict_groups = groups,
                      cd_details = [values_detail dates]\<rparr>
           else None
      else None)"

definition detect_unit ::
  "(int \<times> (string \<times> string) list) list \<Rightarrow> string \<Rightarrow> conflict_detection_result option" where
  \<comment> \<open>the body of the loop over units; \<open>None\<close> goes on with the next one\<close>
  "detect_unit per_chunk_units unit =
     (let vs = map (\<lambda>(c, d). (c, values_for unit d)) per_chunk_units; con = contributing vs
      in if length con < 2 then None
         else if 2 \<le> card (all_values con) then
           (let groups = group_chunks_by_value (map fst con) (values_at vs)
            in if 2 \<le> length groups
               then Some \<lparr>cd_is_conflict = True, cd_signal = Some ''numeric_diff'',
                          cd_conflict_groups = groups,
                          cd_details = [(''unit'', PStr unit), values_detail con]\<rparr>
               else None)
         else None)"

fun first_some :: "('a \<Rightarrow> 'b option) \<Rightarrow> 'a list \<Rightarrow> 'b option" where
  "first_some f [] = None"
| "first_some f (x # xs) = (case f x of None \<Rightarrow> first_some f xs | Some y \<Rightarrow> Some y)"

definition detect_numeric_diff ::
  "(int \<times> (string \<times> string) list) list \<Rightarrow> conflict_detection_result option" where
  "detect_numeric_diff per_chunk_units =
     first_some (detect_unit per_chunk_units)
       (sorted_list_of_set (\<Union> (set (map (\<lambda>(c, d). set (map fst d)) per_chunk_units))))"

definition detect_rule_id_diff :: "(int \<times> string set) list \<Rightarrow> conflict_detection_result option" where
  "detect_rule_id_diff ids =
     (let con = contributing ids
      in if 2 \<le> card (all_values ids) \<and> 2 \<le> length con then
           (let groups = group_chunks_by_value (map fst con) (values_at ids)
            in if 2 \<le> length groups
               then Some \<lparr>cd_is_conflict = True, cd_signal = Some ''rule_id_diff'',
                          cd_conflict_groups = groups, cd_details = [values_detail con]\<rparr>
               else None)
         else None)"

definition detector_stage ::
  "bool \<Rightarrow> 'a res \<Rightarrow> ('a \<Rightarrow> conflict_detection_result option) \<Rightarrow> conflict_detection_result res
    \<Rightarrow> conflict_detection_result res" where
  \<comment> \<open>one \<open>if\<close> block of the method: its result ends the method, otherwise the rest runs\<close>
  "detector_stage on vals detect rest =
     (if on then bind_res vals (\<lambda>d. case detect d of Some r \<Rightarrow> Inr r | None \<Rightarrow> rest) else rest)"

definition detect_in_segment ::
  "pylib \<Rightarrow> finditer \<Rightarrow> string set \<Rightarrow> segment \<Rightarrow> retrieved_chunk list \<Rightarrow> conflict_detection_result res" where
  "detect_in_segment L finditer enabled seg contexts =
     (if enabled = {} then Inr no_conflict
      else if seg_support_type seg = PStr ''conflict'' then Inr no_conflict
      else let cidxs = filter (in_context (length contexts)) (seg_citations seg) in
      if length cidxs < 2 then Inr no_conflict
      else
        detector_stage (''date_diff'' \<in> enabled) (per_chunk (extract_dates L finditer) contexts cidxs)
          (detect_date_diff cidxs)
        (detector_stage (''numeric_diff'' \<in> enabled)
          (per_chunk (extract_numeric_by_unit finditer) contexts cidxs) detect_numeric_diff
        (detector_stage (''rule_id_diff'' \<in> enabled)
          (per_chunk (extract_rule_ids L finditer) contexts cidxs) detect_rule_id_diff
          (Inr no_conflict))))"

section \<open>Facts\<close>

lemma dedup_from_snoc:
  "dedup_from seen (xs @ [v]) = dedup_from seen xs @ (if v \<in> seen \<union> set xs then [] else [v])"
  by (induction xs arbitrary: seen) auto

lemma add_to_group_new:
  "v \<notin> set vs \<Longrightarrow> add_to_group v c (map (\<lambda>w. (w, g w)) vs) = map (\<lambda>w. (w, g w)) vs @ [(v, [c])]"
  by (induction vs) auto

lemma add_to_group_old:
  "distinct vs \<Longrightarrow> v \<in> set vs \<Longrightarrow> add_to_group v c (map (\<lambda>w. (w, g w)) vs) =
     map (\<lambda>w. (w, if w = v then g w @ [c] else g w)) vs"
  by (induction vs) auto

definition value_classes :: "(int \<Rightarrow> string set) \<Rightarrow> int list \<Rightarrow> string set list" where
  "value_classes f cs = dedup_from {} (filter (\<lambda>v. v \<noteq> {}) (map f cs))"

lemma value_classes_facts:
  "distinct (value_classes f cs)" "set (value_classes f cs) = f ` set cs - {{}}"
  by (auto simp: value_classes_def distinct_dedup_from set_dedup_from)

lemma group_fold:
  "fold (\<lambda>c groups. if f c = {} then groups else add_to_group (f c) c groups) cs [] =
     map (\<lambda>v. (v, filter (\<lambda>c. f c = v) cs)) (value_classes f cs)"
proof (induction cs rule: rev_induct)
  case Nil
  show ?case by (simp add: value_classes_def)
next
  case (snoc c cs)
  let ?g = "\<lambda>v. filter (\<lambda>c. f c = v) cs"
  have vc: "value_classes f (cs @ [c]) =
      (if f c = {} \<or> f c \<in> set (value_classes f cs) then value_classes f cs
       else value_classes f cs @ [f c])"
    by (auto simp: value_classes_def dedup_from_snoc set_dedup_from)
  show ?case
  proof (cases "f c = {} \<or> f c \<notin> set (value_classes f cs)")
    case True
    have "filter (\<lambda>c. f c = f c') cs = []" if "f c' = f c" "f c \<noteq> {}" "f c \<notin> set (value_classes f cs)" for c'
      using that by (auto simp: value_classes_facts filter_empty_conv)
    moreover have "v \<in> set (value_classes f cs) \<Longrightarrow> v \<noteq> {}" for v
      by (auto simp: value_classes_facts)
    ultimately show ?thesis
      using True by (auto simp: snoc.IH vc add_to_group_new)
  next
    case False
    then show ?thesis
      by (simp add: snoc.IH vc value_classes_facts add_to_group_old)
  qed
qed

lemma group_chunks_eq:
  "group_chunks_by_value cs f = map (\<lambda>v. sort (filter (\<lambda>c. f c = v) cs)) (value_classes f cs)"
  by (simp add: group_chunks_by_value_def group_fold o_def)

lemma length_groups: "length (group_chunks_by_value cs f) = card (f ` set cs - {{}})"
  using distinct_card [OF value_classes_facts(1)] by (simp add: group_chunks_eq value_classes_facts)

text \<open>
  The values a signal compares: the dates, the numbers that stand before one unit, or the rule numbers
  of a text.
\<close>

definition compares :: "pylib \<Rightarrow> finditer \<Rightarrow> string \<Rightarrow> (string \<Rightarrow> string set res) \<Rightarrow> bool" where
  "compares L finditer signal ex \<longleftrightarrow>
     signal = ''date_diff'' \<and> ex = extract_dates L finditer
     \<or> signal = ''numeric_diff'' \<and> (\<exists>unit. ex = (\<lambda>txt. bind_res (extract_numeric_by_unit finditer txt) (\<lambda>d. Inr (values_for unit d))))
     \<or> signal = ''rule_id_diff'' \<and> ex = extract_rule_ids L finditer"

definition groups_by_value :: "(int \<Rightarrow> string set res) \<Rightarrow> int set \<Rightarrow> string set list \<Rightarrow> int list list \<Rightarrow> bool" where
  \<comment> \<open>one group for each of the given values, which are different and not empty: exactly the chunks of \<open>A\<close> with
      that value, and every chunk outside the groups has no value\<close>
  "groups_by_value ex A vs groups \<longleftrightarrow> distinct vs \<and> {} \<notin> set vs
     \<and> map set groups = map (\<lambda>v. {c \<in> A. ex c = Inr v}) vs \<and> [] \<notin> set groups
     \<and> (\<forall>c \<in> A. \<exists>v. ex c = Inr v \<and> (v = {} \<or> v \<in> set vs))"

lemma group_chunks_by_value_groups:
  assumes "\<And>c. c \<in> A \<Longrightarrow> ex c = Inr (f c)" and "set ks \<subseteq> A" and "\<And>c. c \<in> A \<Longrightarrow> f c \<noteq> {} \<Longrightarrow> c \<in> set ks"
  shows "groups_by_value ex A (value_classes f ks) (group_chunks_by_value ks f)"
proof -
  have "set (sort (filter (\<lambda>c. f c = v) ks)) = {c \<in> A. ex c = Inr v}" if "v \<in> set (value_classes f ks)" for v
  proof -
    have "v \<noteq> {}" using that by (simp add: value_classes_facts)
    then have "c \<in> set ks \<and> f c = v \<longleftrightarrow> c \<in> A \<and> ex c = Inr v" for c
      using assms(1) [of c] assms(3) [of c] subsetD [OF assms(2), of c] by (metis sum.inject(2))
    then show ?thesis by auto
  qed
  moreover have "sort (filter (\<lambda>c. f c = v) ks) \<noteq> []" if "v \<in> set (value_classes f ks)" for v
    using that by (auto simp: value_classes_facts filter_empty_conv simp flip: set_empty)
  then have "[] \<notin> set (group_chunks_by_value ks f)"
    unfolding group_chunks_eq by force
  moreover have "\<exists>v. ex c = Inr v \<and> (v = {} \<or> v \<in> set (value_classes f ks))" if "c \<in> A" for c
    using assms(1,3) [OF that] by (auto simp: value_classes_facts)
  ultimately show ?thesis
    by (simp add: groups_by_value_def value_classes_facts(1) group_chunks_eq o_def) (simp add: value_classes_facts)
qed

text \<open>What each of the three detectors gives when it fires.\<close>

definition fired :: "string \<Rightarrow> int list \<Rightarrow> (int \<times> string set) list \<Rightarrow> conflict_detection_result \<Rightarrow> bool" where
  "fired signal ks d r \<longleftrightarrow> cd_signal r = Some signal \<and> 2 \<le> length (cd_conflict_groups r)
     \<and> cd_conflict_groups r = group_chunks_by_value ks (values_at d)"

lemma date_diff_fired: "detect_date_diff cidxs dates = Some r \<Longrightarrow> fired ''date_diff'' cidxs dates r"
  by (auto simp: detect_date_diff_def fired_def Let_def split: if_splits)

lemma first_some_Some: "first_some f xs = Some y \<Longrightarrow> \<exists>x \<in> set xs. f x = Some y"
  by (induction xs) (auto split: option.splits)

lemma unit_fired:
  "detect_unit units unit = Some r \<Longrightarrow>
     fired ''numeric_diff'' (map fst (contributing (map (\<lambda>(c, d). (c, values_for unit d)) units)))
       (map (\<lambda>(c, d). (c, values_for unit d)) units) r"
  by (auto simp: detect_unit_def fired_def Let_def split: if_splits)

lemma numeric_diff_fired:
  assumes "detect_numeric_diff units = Some r"
  shows "\<exists>unit. fired ''numeric_diff'' (map fst (contributing (map (\<lambda>(c, d). (c, values_for unit d)) units)))
           (map (\<lambda>(c, d). (c, values_for unit d)) units) r"
  using assms unfolding detect_numeric_diff_def by (blast dest: first_some_Some unit_fired)

lemma rule_id_diff_fired:
  "detect_rule_id_diff ids = Some r \<Longrightarrow> fired ''rule_id_diff'' (map fst (contributing ids)) ids r"
  by (auto simp: detect_rule_id_diff_def fired_def Let_def split: if_splits)

lemma per_chunk_keys:
  "per_chunk ex ctx cidxs = Inr d \<Longrightarrow> map fst d = dedup_from {} cidxs"
  unfolding per_chunk_def map_res_Inr_iff
  by (drule list_all2_map_eq [where f = fst and g = "\<lambda>c. c"]) auto

lemma per_chunk_value:
  assumes "per_chunk ex ctx cidxs = Inr d" and "(c, v) \<in> set d"
  shows "ex (content_at ctx c) = Inr v"
  using map_res_in_set [OF assms(1) [unfolded per_chunk_def] assms(2)] by auto

lemma per_chunk_values_at:
  assumes "per_chunk ex ctx cidxs = Inr d" and "c \<in> set cidxs"
  shows "\<exists>v. map_of d c = Some v \<and> ex (content_at ctx c) = Inr v"
proof -
  have "c \<in> fst ` set d"
    using arg_cong [OF per_chunk_keys [OF assms(1)], of set] assms(2) by (simp add: set_dedup_from)
  then obtain v where "map_of d c = Some v" by (metis map_of_eq_None_iff not_None_eq)
  with per_chunk_value [OF assms(1) map_of_SomeD] show ?thesis by blast
qed

lemma per_chunk_set:
  "per_chunk ex ctx cidxs = Inr d \<Longrightarrow> set (map fst d) = set cidxs"
  using arg_cong [OF per_chunk_keys, of ex ctx cidxs d set] by (simp add: set_dedup_from)

lemma per_chunk_read:
  assumes "per_chunk ex ctx cidxs = Inr d" and "c \<in> set cidxs"
  shows "ex (content_at ctx c) = Inr (values_at d c)"
  using per_chunk_values_at [OF assms] by (auto simp: values_at_def)

lemma per_chunk_units_read:
  assumes "per_chunk ex ctx cidxs = Inr d" and "c \<in> set cidxs"
  shows "bind_res (ex (content_at ctx c)) (\<lambda>x. Inr (h x)) = Inr (values_at (map (\<lambda>(c, x). (c, h x)) d) c)"
  using per_chunk_values_at [OF assms] by (auto simp: values_at_def map_of_map)

lemma contributing_keys: "set (map fst (contributing d)) \<subseteq> set (map fst d)"
  by (auto simp: contributing_def)

lemma contributes: "values_at d c \<noteq> {} \<Longrightarrow> c \<in> set (map fst (contributing d))"
  by (force simp: values_at_def contributing_def split: option.splits dest: map_of_SomeD)

lemma fired_real:
  assumes f: "fired s ks d r" and s: "s \<in> enabled" "compares L finditer s ex"
    and v: "\<And>c. c \<in> A \<Longrightarrow> ex (content_at ctx c) = Inr (values_at d c)"
    and k: "set ks \<subseteq> A" "\<And>c. c \<in> A \<Longrightarrow> values_at d c \<noteq> {} \<Longrightarrow> c \<in> set ks"
  shows "2 \<le> length (cd_conflict_groups r) \<and> (\<exists>signal \<in> enabled. cd_signal r = Some signal
     \<and> (\<exists>ex vs. compares L finditer signal ex \<and> groups_by_value (\<lambda>c. ex (content_at ctx c)) A vs (cd_conflict_groups r)))"
proof -
  have "groups_by_value (\<lambda>c. ex (content_at ctx c)) A (value_classes (values_at d) ks) (cd_conflict_groups r)"
    using group_chunks_by_value_groups [OF v k] f by (simp add: fired_def)
  then show ?thesis using f s unfolding fired_def by blast
qed

lemma stage_cases:
  assumes "detector_stage on vals detect rest = Inr r"
  shows "(on \<and> (\<exists>d. vals = Inr d \<and> detect d = Some r)) \<or> rest = Inr r"
  using assms by (cases vals) (auto simp: detector_stage_def split: if_splits option.splits)

lemma detect_in_segment_source:
  assumes "detect_in_segment L finditer enabled seg contexts = Inr r" and "cd_is_conflict r"
  shows "(''date_diff'' \<in> enabled \<and> (\<exists>d. per_chunk (extract_dates L finditer) contexts (filter (in_context (length contexts)) (seg_citations seg)) = Inr d
            \<and> detect_date_diff (filter (in_context (length contexts)) (seg_citations seg)) d = Some r))
    \<or> (''numeric_diff'' \<in> enabled \<and> (\<exists>d. per_chunk (extract_numeric_by_unit finditer) contexts (filter (in_context (length contexts)) (seg_citations seg)) = Inr d
            \<and> detect_numeric_diff d = Some r))
    \<or> (''rule_id_diff'' \<in> enabled \<and> (\<exists>d. per_chunk (extract_rule_ids L finditer) contexts (filter (in_context (length contexts)) (seg_citations seg)) = Inr d
            \<and> detect_rule_id_diff d = Some r))"
proof -
  have n: "Inr no_conflict \<noteq> (Inr r :: conflict_detection_result res)"
    using assms(2) by (auto simp: no_conflict_def)
  show ?thesis
    using assms(1) n
    unfolding detect_in_segment_def Let_def
    by (auto split: if_splits dest!: stage_cases)
qed

section \<open>Properties\<close>

text \<open>
  Grouping by value is a partition: the chunks that carry a value are split into one ascending
  group per distinct value set, in order of first appearance, and chunks without a value are left
  out. This is the reference the accumulating dictionary of lists is equal to.
\<close>

theorem grouping_is_partition:
  "group_chunks_by_value cs f =
     map (\<lambda>v. sort (filter (\<lambda>c. f c = v) cs)) (dedup_from {} (filter (\<lambda>v. v \<noteq> {}) (map f cs)))"
  using group_chunks_eq by (simp add: value_classes_def)

text \<open>
  (C17) A detected conflict is a real disagreement: the segment was not already marked by the model,
  the signal is an enabled one, and there are at least two groups of chunks that the segment cites and the
  context has. The groups are the classes of chunks that agree under one comparison of the signal (the
  dates, the numbers before one unit or the rule numbers read from the text): the chunks of a group have
  the same values, those of different groups different ones, and a cited chunk outside the groups has none.
\<close>

theorem detected_conflict_is_real:
  assumes "detect_in_segment L finditer enabled seg contexts = Inr r" and "cd_is_conflict r"
  shows "seg_support_type seg \<noteq> PStr ''conflict''
    \<and> 2 \<le> length (cd_conflict_groups r)
    \<and> (\<exists>signal \<in> enabled. cd_signal r = Some signal
        \<and> (\<exists>ex vs. compares L finditer signal ex
             \<and> groups_by_value (\<lambda>c. ex (content_at contexts c))
                 {c \<in> set (seg_citations seg). in_context (length contexts) c} vs (cd_conflict_groups r)))"
    (is "_ \<and> ?real")
proof -
  let ?cidxs = "filter (in_context (length contexts)) (seg_citations seg)"
  have A: "{c \<in> set (seg_citations seg). in_context (length contexts) c} = set ?cidxs" by auto
  have "seg_support_type seg \<noteq> PStr ''conflict''"
    using assms by (auto simp: detect_in_segment_def no_conflict_def split: if_splits)
  moreover consider
      (date) dates where "''date_diff'' \<in> enabled"
        "per_chunk (extract_dates L finditer) contexts ?cidxs = Inr dates"
        "fired ''date_diff'' ?cidxs dates r"
    | (numeric) units unit where "''numeric_diff'' \<in> enabled"
        "per_chunk (extract_numeric_by_unit finditer) contexts ?cidxs = Inr units"
        "fired ''numeric_diff'' (map fst (contributing (map (\<lambda>(c, d). (c, values_for unit d)) units)))
           (map (\<lambda>(c, d). (c, values_for unit d)) units) r"
    | (rule) ids where "''rule_id_diff'' \<in> enabled"
        "per_chunk (extract_rule_ids L finditer) contexts ?cidxs = Inr ids"
        "fired ''rule_id_diff'' (map fst (contributing ids)) ids r"
    using detect_in_segment_source [OF assms]
    by (elim disjE exE conjE) (blast dest: date_diff_fired numeric_diff_fired rule_id_diff_fired)+
  then have ?real
  proof cases
    case date
    show ?thesis unfolding A
      by (rule fired_real [OF date(3,1) _ per_chunk_read [OF date(2)]]) (auto simp: compares_def)
  next
    case numeric
    let ?d = "map (\<lambda>(c, d). (c, values_for unit d)) units"
    have "set (map fst (contributing ?d)) \<subseteq> set ?cidxs"
      using contributing_keys [of ?d] per_chunk_set [OF numeric(2)] by (simp add: image_image case_prod_unfold)
    then show ?thesis unfolding A
      by (intro fired_real [OF numeric(3,1) _ per_chunk_units_read [OF numeric(2)] _ contributes]) (auto simp: compares_def)
  next
    case rule
    have "set (map fst (contributing ids)) \<subseteq> set ?cidxs"
      using contributing_keys [of ids] per_chunk_set [OF rule(2)] by simp
    then show ?thesis unfolding A
      by (intro fired_real [OF rule(3,1) _ per_chunk_read [OF rule(2)] _ contributes]) (auto simp: compares_def)
  qed
  ultimately show ?thesis by blast
qed

definition ex_find :: finditer where
  "ex_find p txt = (if p = DATE_ISO \<and> txt = ''2024-01-01'' then [[''2024'', ''01'', ''01'']]
     else if p = DATE_ISO \<and> txt = ''2025-02-03'' then [[''2025'', ''02'', ''03'']] else [])"

definition ex_intlib :: pylib where
  "ex_intlib = ex_lib\<lparr>int_of_text := (\<lambda>s. map_of [(''2024'', 2024), (''2025'', 2025), (''01'', 1), (''02'', 2),
     (''03'', 3)] s)\<rparr>"

definition ex_dates_seg :: segment where
  "ex_dates_seg = \<lparr>seg_index = 0, seg_text = ''since when'', seg_citations = [1, 2, 9],
     seg_support_type = PStr ''direct'', seg_inference_chain = PNone, seg_conflict_groups = PNone,
     seg_citation_meta = Map.empty, seg_downgraded = False, seg_downgrade_reason = None,
     seg_pending_judge = False, seg_judge_reasoning = None, seg_judge_caveat = PNone,
     seg_conflict_signal = None\<rparr>"

definition ex_dates_ctx :: "retrieved_chunk list" where
  "ex_dates_ctx = [ex_chunk ''a'' ''2024-01-01'', ex_chunk ''b'' ''2025-02-03'']"

lemma ex_padding:
  "zero_pad 4 2024 = ''2024''" "zero_pad 4 2025 = ''2025''" "zero_pad 2 1 = ''01''" "zero_pad 2 2 = ''02''"
  "zero_pad 2 3 = ''03''" "int_str 1 = ''1''" "int_str 2 = ''2''"
  by code_simp+

lemma ex_dates:
  "extract_dates ex_intlib ex_find ''2024-01-01'' = Inr {''2024-01-01''}"
  "extract_dates ex_intlib ex_find ''2025-02-03'' = Inr {''2025-02-03''}"
  by (simp_all add: extract_dates_def ex_find_def DATE_PATTERNS_def group_at_def normalize_date_def
      ex_intlib_def ex_padding)

lemma ex_detect:
  "detect_in_segment ex_intlib ex_find {''date_diff''} ex_dates_seg ex_dates_ctx = Inr
     \<lparr>cd_is_conflict = True, cd_signal = Some ''date_diff'', cd_conflict_groups = [[1], [2]],
      cd_details = [(''values_per_chunk'', PDict [(''1'', PList [PStr ''2024-01-01'']),
        (''2'', PList [PStr ''2025-02-03''])])]\<rparr>"
  by (simp add: detect_in_segment_def ex_dates_seg_def ex_dates_ctx_def ex_chunk_def
      in_context_def detector_stage_def per_chunk_def content_at_def ex_dates detect_date_diff_def
      all_values_def group_chunks_by_value_def values_at_def Let_def values_detail_def contributing_def
      ex_padding)

theorem detected_conflict_is_real_witness:
  "\<exists>r vs. detect_in_segment ex_intlib ex_find {''date_diff''} ex_dates_seg ex_dates_ctx = Inr r \<and> cd_is_conflict r
     \<and> cd_conflict_groups r = [[1], [2]] \<and> cd_signal r = Some ''date_diff''
     \<and> groups_by_value (\<lambda>c. extract_dates ex_intlib ex_find (content_at ex_dates_ctx c)) {1, 2} vs (cd_conflict_groups r)"
proof -
  have "{c \<in> set (seg_citations ex_dates_seg). in_context (length ex_dates_ctx) c} = {1, 2}"
    by (auto simp: ex_dates_seg_def ex_dates_ctx_def in_context_def)
  with detected_conflict_is_real [OF ex_detect] show ?thesis
    unfolding ex_detect by (auto simp: compares_def)
qed

end
