(* ===== verification/Pii.thy ===== *)
theory Pii
  imports Py_Text "HOL-Library.Multiset"
begin

text \<open>
  Personal data: the regular-expression detector of \<open>pii/detector.py\<close> and the policy layer of
  \<open>services/pii_service.py\<close> (input check, storage policy, chunk warnings, output masking). Matching a
  pattern is a parameter that returns the spans of the matches; positions count code points, so
  scanning and masking work on the code points of the text.
\<close>

section \<open>The detector\<close>

record pii_rule =
  ru_category :: string
  ru_severity :: string
  ru_pattern :: string
  ru_mask_template :: string

record pii_finding =
  fi_category :: string
  fi_severity :: string
  fi_start :: nat
  fi_end :: nat
  fi_matched_text :: string
  fi_masked_form :: string

text \<open>A rule of a YAML file: string values under optional keys.\<close>

record rule_yaml =
  ry_category :: "string option"
  ry_severity :: "string option"
  ry_pattern :: "string option"
  ry_mask :: "string option"

definition load_rule :: "(string \<Rightarrow> bool) \<Rightarrow> rule_yaml \<Rightarrow> pii_rule option" where
  \<comment> \<open>\<open>None\<close> where the code skips the rule: a missing key or a pattern that does not compile\<close>
  "load_rule compiles r =
     (case (ry_category r, ry_pattern r) of
        (Some c, Some p) \<Rightarrow>
          if compiles p
          then Some \<lparr>ru_category = c,
                     ru_severity = (case ry_severity r of None \<Rightarrow> ''medium'' | Some s \<Rightarrow> s),
                     ru_pattern = p,
                     ru_mask_template = (case ry_mask r of None \<Rightarrow> ''***'' | Some m \<Rightarrow> m)\<rparr>
          else None
      | _ \<Rightarrow> None)"

definition load_rules :: "(string \<Rightarrow> bool) \<Rightarrow> rule_yaml list list \<Rightarrow> pii_rule list" where
  \<comment> \<open>the rule lists of the files, in the order of their names\<close>
  "load_rules compiles files = List.map_filter (load_rule compiles) (concat files)"

type_synonym spans = "string \<Rightarrow> string \<Rightarrow> (nat \<times> nat) list"

definition cp_slice :: "nat \<Rightarrow> nat \<Rightarrow> string \<Rightarrow> string" where
  "cp_slice a b s = concat (drop a (take b (utf8_chars s)))"

definition scan :: "spans \<Rightarrow> pii_rule list \<Rightarrow> string \<Rightarrow> pii_finding list" where
  "scan finditer rules txt =
     concat (map (\<lambda>rule. map (\<lambda>(a, b).
        \<lparr>fi_category = ru_category rule, fi_severity = ru_severity rule, fi_start = a, fi_end = b,
         fi_matched_text = cp_slice a b txt, fi_masked_form = ru_mask_template rule\<rparr>)
        (finditer (ru_pattern rule) txt)) rules)"

text \<open>
  Masking replaces the spans from the right, on the code points of the text; the mask is spliced in
  as one element per code point, so later positions count it as Python does.
\<close>

definition splice :: "nat \<Rightarrow> nat \<Rightarrow> 'a list \<Rightarrow> 'a list \<Rightarrow> 'a list" where
  "splice a b m xs = take a xs @ m @ drop b xs"

definition by_position :: "pii_finding list \<Rightarrow> pii_finding list" where
  \<comment> \<open>\<open>sorted(findings, key=lambda x: -x.position[0])\<close>\<close>
  "by_position fs = sort_key (\<lambda>f. - int (fi_start f)) fs"

definition mask_points :: "pii_finding list \<Rightarrow> string list \<Rightarrow> string list" where
  "mask_points fs cps =
     fold (\<lambda>f. splice (fi_start f) (fi_end f) (utf8_chars (fi_masked_form f))) (by_position fs) cps"

definition mask :: "spans \<Rightarrow> pii_rule list \<Rightarrow> string \<Rightarrow> string \<times> pii_finding list" where
  "mask finditer rules txt =
     (let findings = scan finditer rules txt
      in (concat (mask_points findings (utf8_chars txt)), findings))"

section \<open>The policy service\<close>

record input_pii_check =
  ip_findings :: "pyval list"
  ip_blocked :: bool
  ip_blocked_categories :: "string list"

record output_pii_mask =
  op_masked_text :: string
  op_findings :: "pyval list"

record storage_pii_decision =
  sp_policy :: string
  sp_text :: string
  sp_findings :: "pyval list"
  sp_compliance_forced :: bool
  sp_plain_approval_missing :: bool

record chunk_pii_warning =
  cw_pii_warnings :: "pyval list"
  cw_has_high_severity :: bool
  cw_block_indexing :: bool

definition SEV_RANK :: "(string \<times> nat) list" where
  "SEV_RANK = [(''low'', 1), (''medium'', 2), (''high'', 3)]"

definition ACTION_KEYS :: "(string \<times> string) list" where
  "ACTION_KEYS = [(''high'', ''high_severity''), (''medium'', ''medium_severity''), (''low'', ''low_severity'')]"

fun member_of :: "string list \<Rightarrow> pyval \<Rightarrow> string option res" where
  \<comment> \<open>\<open>v in {...}\<close> for a set of strings: the string it equals; lists and dictionaries are unhashable\<close>
  "member_of ss (PStr s) = Inr (if s \<in> set ss then Some s else None)"
| "member_of ss (PList xs) = Inl TypeError"
| "member_of ss (PDict d) = Inl TypeError"
| "member_of ss v = Inr None"

definition resolve_severity :: "string \<Rightarrow> string \<Rightarrow> pyval \<Rightarrow> string res" where
  "resolve_severity category dflt severity_map =
     bind_res (as_dict severity_map) (\<lambda>m.
     bind_res (member_of [''low'', ''medium'', ''high''] (dget m category (PStr dflt))) (\<lambda>sev.
       Inr (case sev of None \<Rightarrow> ''medium'' | Some s \<Rightarrow> s)))"

definition resolve_action :: "string \<Rightarrow> pyval \<Rightarrow> string res" where
  "resolve_action severity on_pii_found =
     bind_res (as_dict on_pii_found) (\<lambda>m.
     let key = (case map_of ACTION_KEYS severity of None \<Rightarrow> ''medium_severity'' | Some k \<Rightarrow> k);
         dflt = (if severity = ''low'' then ''log'' else if severity = ''medium'' then ''warn'' else ''block'')
     in bind_res (member_of [''block'', ''warn'', ''log''] (dget m key (PStr dflt))) (\<lambda>a.
          Inr (case a of None \<Rightarrow> ''log'' | Some s \<Rightarrow> s)))"

definition finding_to_dict :: "pii_finding \<Rightarrow> string \<Rightarrow> string \<Rightarrow> pyval" where
  "finding_to_dict f severity action = PDict
     [(''category'', PStr (fi_category f)), (''severity'', PStr severity),
      (''position'', PList [PInt (int (fi_start f)), PInt (int (fi_end f))]),
      (''masked_form'', PStr (fi_masked_form f)), (''action'', PStr action)]"

definition or_empty_dict :: "pydict \<Rightarrow> string \<Rightarrow> pyval" where
  \<comment> \<open>\<open>d.get(k) or {}\<close>, not yet used\<close>
  "or_empty_dict d k = py_or (dget d k PNone) (PDict [])"

text \<open>The detector is the pair of its two methods; the service calls nothing else of it.\<close>

record pii_detector =
  pd_scan :: "string \<Rightarrow> pii_finding list"
  pd_mask :: "string \<Rightarrow> string \<times> pii_finding list"

definition assess_finding :: "pyval \<Rightarrow> pyval \<Rightarrow> pii_finding \<Rightarrow> (pii_finding \<times> string \<times> string) res" where
  \<comment> \<open>one round of the input loop: the finding with its severity and action\<close>
  "assess_finding severity_map on_pii_found f =
     bind_res (resolve_severity (fi_category f) (fi_severity f) severity_map) (\<lambda>sev.
     bind_res (resolve_action sev on_pii_found) (\<lambda>action. Inr (f, sev, action)))"

definition check_input :: "pii_detector \<Rightarrow> string \<Rightarrow> pyval \<Rightarrow> input_pii_check res" where
  "check_input det question pii_config =
     bind_res (opt_dict pii_config) (\<lambda>cfg.
     bind_res (get_dict cfg ''input'') (\<lambda>input_cfg.
       if \<not> truthy (dget input_cfg ''enable'' (PBool True))
       then Inr \<lparr>ip_findings = [], ip_blocked = False, ip_blocked_categories = []\<rparr>
       else bind_res (map_res (assess_finding (or_empty_dict cfg ''severity_map'')
                                (or_empty_dict input_cfg ''on_pii_found''))
                        (pd_scan det question)) (\<lambda>assessed.
         let blockers = filter (\<lambda>(f, sev, action). action = ''block'') assessed in
         Inr \<lparr>ip_findings = map (\<lambda>(f, sev, action). finding_to_dict f sev action) assessed,
              ip_blocked = (blockers \<noteq> []),
              ip_blocked_categories =
                sorted_list_of_set (set (map (\<lambda>(f, sev, action). fi_category f) blockers))\<rparr>)))"

definition masked_findings :: "pyval \<Rightarrow> pii_finding list \<Rightarrow> pyval list res" where
  "masked_findings severity_map raw =
     map_res (\<lambda>f. bind_res (resolve_severity (fi_category f) (fi_severity f) severity_map) (\<lambda>sev.
                Inr (finding_to_dict f sev ''mask''))) raw"

definition mask_for_storage ::
  "pylib \<Rightarrow> pii_detector \<Rightarrow> string \<Rightarrow> pyval \<Rightarrow> string option \<Rightarrow> bool \<Rightarrow> storage_pii_decision res" where
  "mask_for_storage L det txt pii_config compliance_mode plain_approved =
     bind_res (opt_dict pii_config) (\<lambda>cfg.
     bind_res (get_dict cfg ''storage'') (\<lambda>storage_cfg.
       let configured = lower_of L (py_str L (dget storage_cfg ''pii_storage_policy'' (PStr ''mask'')));
           forced = lower_of L (case compliance_mode of None \<Rightarrow> [] | Some m \<Rightarrow> m)
                      \<in> {''gdpr_strict'', ''hipaa_strict''};
           missing = (configured = ''plain'' \<and> \<not> plain_approved);
           configured' = (if missing then ''mask'' else configured);
           policy = (if forced \<or> configured' = ''mask'' then ''mask'' else ''plain'')
       in if txt = [] \<or> policy = ''plain''
          then Inr \<lparr>sp_policy = policy, sp_text = txt, sp_findings = [], sp_compliance_forced = forced,
                    sp_plain_approval_missing = missing\<rparr>
          else (let (masked_text, raw) = pd_mask det txt in
                bind_res (masked_findings (or_empty_dict cfg ''severity_map'') raw) (\<lambda>fs.
                  Inr \<lparr>sp_policy = policy, sp_text = masked_text, sp_findings = fs,
                       sp_compliance_forced = forced, sp_plain_approval_missing = missing\<rparr>))))"

definition sev_rank :: "string \<Rightarrow> nat \<Rightarrow> nat" where
  "sev_rank s dflt = (case map_of SEV_RANK s of None \<Rightarrow> dflt | Some r \<Rightarrow> r)"

definition check_chunk_pii ::
  "pylib \<Rightarrow> pii_detector \<Rightarrow> string \<Rightarrow> pyval \<Rightarrow> chunk_pii_warning res" where
  "check_chunk_pii L det chunk_content pii_config =
     bind_res (opt_dict pii_config) (\<lambda>cfg.
     bind_res (get_dict cfg ''indexing'') (\<lambda>indexing_cfg.
       if \<not> truthy (dget indexing_cfg ''enable'' (PBool True)) \<or> chunk_content = []
       then Inr \<lparr>cw_pii_warnings = [], cw_has_high_severity = False, cw_block_indexing = False\<rparr>
       else bind_res (get_dict indexing_cfg ''on_pii_found_in_chunk'') (\<lambda>on_chunk_cfg.
         let threshold = lower_of L (py_str L (dget on_chunk_cfg ''severity_threshold'' (PStr ''medium'')));
             threshold_rank = sev_rank threshold 2;
             block_flag = truthy (dget on_chunk_cfg ''block_indexing'' (PBool False))
         in bind_res (map_res (\<lambda>f. bind_res (resolve_severity (fi_category f) (fi_severity f)
                                               (or_empty_dict cfg ''severity_map'')) (\<lambda>sev. Inr (f, sev)))
                        (pd_scan det chunk_content)) (\<lambda>assessed.
              let kept = filter (\<lambda>(f, sev). threshold_rank \<le> sev_rank sev 0) assessed;
                  has_high = list_ex (\<lambda>(f, sev). sev = ''high'') kept
              in Inr \<lparr>cw_pii_warnings = map (\<lambda>(f, sev). finding_to_dict f sev ''warn'') kept,
                      cw_has_high_severity = has_high,
                      cw_block_indexing = (block_flag \<and> has_high)\<rparr>))))"

definition mask_output :: "pii_detector \<Rightarrow> string \<Rightarrow> pyval \<Rightarrow> output_pii_mask res" where
  "mask_output det txt pii_config =
     bind_res (opt_dict pii_config) (\<lambda>cfg.
     bind_res (get_dict cfg ''response'') (\<lambda>response_cfg.
       if \<not> truthy (dget response_cfg ''enable'' (PBool True)) \<or> txt = []
       then Inr \<lparr>op_masked_text = txt, op_findings = []\<rparr>
       else (let (masked_text, raw) = pd_mask det txt in
             bind_res (masked_findings (or_empty_dict cfg ''severity_map'') raw) (\<lambda>fs.
               Inr \<lparr>op_masked_text = masked_text, op_findings = fs\<rparr>))))"

definition regex_detector :: "spans \<Rightarrow> pii_rule list \<Rightarrow> pii_detector" where
  "regex_detector finditer rules = \<lparr>pd_scan = scan finditer rules, pd_mask = mask finditer rules\<rparr>"

section \<open>Facts: masking\<close>

text \<open>
  The reference: read the text once from left to right and write the mask in place of each span.
\<close>

fun mask_ref :: "nat \<Rightarrow> (nat \<times> nat \<times> 'a list) list \<Rightarrow> 'a list \<Rightarrow> 'a list" where
  "mask_ref p [] xs = drop p xs"
| "mask_ref p ((a, b, m) # rest) xs = drop p (take a xs) @ m @ mask_ref b rest xs"

fun ordered_from :: "nat \<Rightarrow> (nat \<times> nat \<times> 'a list) list \<Rightarrow> nat \<Rightarrow> bool" where
  "ordered_from p [] n = (p \<le> n)"
| "ordered_from p ((a, b, m) # rest) n = (p \<le> a \<and> a \<le> b \<and> ordered_from b rest n)"

lemma ordered_from_bound: "ordered_from p spans n \<Longrightarrow> p \<le> n"
  by (induction p spans n rule: ordered_from.induct) auto

lemma foldr_splice_ref:
  "ordered_from p spans (length xs) \<Longrightarrow>
     foldr (\<lambda>(a, b, m). splice a b m) spans xs = take p xs @ mask_ref p spans xs"
proof (induction p spans xs rule: mask_ref.induct)
  case (2 p a b m rest xs)
  then have o: "p \<le> a" "a \<le> b" "b \<le> length xs" and
    r: "foldr (\<lambda>(a, b, m). splice a b m) rest xs = take b xs @ mask_ref b rest xs"
    using ordered_from_bound by auto
  have "take a xs = take p xs @ drop p (take a xs)"
    using o(1) by (metis append_take_drop_id min.absorb1 take_take)
  moreover have "splice a b m (take b xs @ mask_ref b rest xs) = take a xs @ m @ mask_ref b rest xs"
    using o by (simp add: splice_def min_absorb1)
  ultimately show ?case using r by simp
qed simp

definition span_of :: "pii_finding \<Rightarrow> nat \<times> nat \<times> string list" where
  "span_of f = (fi_start f, fi_end f, utf8_chars (fi_masked_form f))"

definition spans_of :: "pii_finding list \<Rightarrow> (nat \<times> nat \<times> string list) list" where
  "spans_of fs = map span_of (sort_key fi_start fs)"

definition disjoint_findings :: "nat \<Rightarrow> pii_finding list \<Rightarrow> bool" where
  "disjoint_findings n fs \<longleftrightarrow> (\<forall>f \<in> set fs. fi_start f < fi_end f \<and> fi_end f \<le> n) \<and>
     (\<forall>i < length fs. \<forall>j < length fs. i \<noteq> j \<longrightarrow>
        fi_end (fs ! i) \<le> fi_start (fs ! j) \<or> fi_end (fs ! j) \<le> fi_start (fs ! i))"

lemma disjoint_distinct_starts:
  "disjoint_findings n fs \<Longrightarrow> distinct (map fi_start fs)"
  unfolding distinct_conv_nth
proof (intro allI impI)
  fix i j
  assume d: "disjoint_findings n fs" and ij: "i < length (map fi_start fs)" "j < length (map fi_start fs)" "i \<noteq> j"
  then have "fi_end (fs ! i) \<le> fi_start (fs ! j) \<or> fi_end (fs ! j) \<le> fi_start (fs ! i)"
    by (simp add: disjoint_findings_def)
  moreover have "fi_start (fs ! i) < fi_end (fs ! i)" "fi_start (fs ! j) < fi_end (fs ! j)"
    using d ij by (simp_all add: disjoint_findings_def)
  ultimately show "map fi_start fs ! i \<noteq> map fi_start fs ! j" using ij by auto
qed

lemma by_position_rev:
  assumes "distinct (map fi_start fs)"
  shows "by_position fs = rev (sort_key fi_start fs)"
  unfolding by_position_def
proof (rule sort_key_inj_key_eq)
  show "mset fs = mset (rev (sort_key fi_start fs))" by simp
  show "inj_on (\<lambda>f. - int (fi_start f)) (set fs)"
    using assms by (auto simp: distinct_map inj_on_def)
  have "sorted (map fi_start (sort_key fi_start fs))" by simp
  then show "sorted (map (\<lambda>f. - int (fi_start f)) (rev (sort_key fi_start fs)))"
    by (simp add: rev_map [symmetric] sorted_wrt_rev sorted_wrt_map)
qed

lemma sorted_disjoint_ordered:
  assumes "sorted_wrt (\<lambda>f g. fi_end f \<le> fi_start g) fs" and "\<forall>f \<in> set fs. fi_start f \<le> fi_end f \<and> fi_end f \<le> n"
    and "\<forall>f \<in> set fs. p \<le> fi_start f" and "p \<le> n"
  shows "ordered_from p (map span_of fs) n"
  using assms by (induction fs arbitrary: p) (auto simp: span_of_def)

lemma disjoint_pairs:
  assumes "disjoint_findings n fs" and "f \<in> set fs" and "g \<in> set fs" and "fi_start f < fi_start g"
  shows "fi_end f \<le> fi_start g"
proof -
  obtain i j where ij: "i < length fs" "j < length fs" "f = fs ! i" "g = fs ! j"
    using assms(2,3) by (metis in_set_conv_nth)
  then have "i \<noteq> j" using assms(4) by auto
  with ij have "fi_end f \<le> fi_start g \<or> fi_end g \<le> fi_start f"
    using assms(1) by (simp add: disjoint_findings_def)
  moreover have "fi_start g < fi_end g" using assms(1,3) by (simp add: disjoint_findings_def)
  ultimately show ?thesis using assms(4) by linarith
qed

lemma spans_ordered:
  assumes "disjoint_findings n fs"
  shows "ordered_from 0 (spans_of fs) n"
  unfolding spans_of_def
proof (rule sorted_disjoint_ordered)
  have "distinct (map fi_start (sort_key fi_start fs))"
    using disjoint_distinct_starts [OF assms] by (simp add: distinct_map)
  then have "sorted_wrt (<) (map fi_start (sort_key fi_start fs))"
    by (simp add: strict_sorted_iff)
  then have "sorted_wrt (\<lambda>f g. fi_start f < fi_start g) (sort_key fi_start fs)"
    by (simp add: sorted_wrt_map)
  then show "sorted_wrt (\<lambda>f g. fi_end f \<le> fi_start g) (sort_key fi_start fs)"
    by (rule sorted_wrt_mono_rel [rotated]) (use disjoint_pairs [OF assms] in auto)
  show "\<forall>f \<in> set (sort_key fi_start fs). fi_start f \<le> fi_end f \<and> fi_end f \<le> n"
    using assms by (auto simp: disjoint_findings_def)
qed simp_all

lemma mask_points_ref:
  assumes "disjoint_findings (length cps) fs"
  shows "mask_points fs cps = mask_ref 0 (spans_of fs) cps"
proof -
  have "mask_points fs cps = foldr (\<lambda>(a, b, m). splice a b m) (spans_of fs) cps"
    unfolding mask_points_def by_position_rev [OF disjoint_distinct_starts [OF assms]] spans_of_def
    by (simp add: foldr_conv_fold rev_map fold_map o_def span_of_def)
  then show ?thesis using foldr_splice_ref [OF spans_ordered [OF assms]] by simp
qed

section \<open>Facts: policies\<close>

lemma resolve_severity_range:
  "resolve_severity c d m = Inr s \<Longrightarrow> s \<in> {''low'', ''medium'', ''high''}"
  by (cases "dget (case m of PDict x \<Rightarrow> x | _ \<Rightarrow> []) c (PStr d)")
    (auto simp: resolve_severity_def as_dict_eq_Inr split: if_splits)

definition blocks_input :: "pydict \<Rightarrow> pydict \<Rightarrow> pii_finding \<Rightarrow> bool" where
  "blocks_input cfg input_cfg f \<longleftrightarrow>
     (\<exists>sev. assess_finding (or_empty_dict cfg ''severity_map'') (or_empty_dict input_cfg ''on_pii_found'') f
        = Inr (f, sev, ''block''))"

lemma assess_finding_fst: "assess_finding m a f = Inr (g, sev, act) \<Longrightarrow> g = f"
  by (simp add: assess_finding_def)

lemma assessed_blockers:
  assumes "map_res (assess_finding m a) fs = Inr xs"
  shows "(\<exists>sev. (f, sev, act) \<in> set xs) \<longleftrightarrow> f \<in> set fs \<and> (\<exists>sev. assess_finding m a f = Inr (f, sev, act))"
proof
  assume "\<exists>sev. (f, sev, act) \<in> set xs"
  then show "f \<in> set fs \<and> (\<exists>sev. assess_finding m a f = Inr (f, sev, act))"
    using map_res_in_set [OF assms] assess_finding_fst by metis
next
  assume r: "f \<in> set fs \<and> (\<exists>sev. assess_finding m a f = Inr (f, sev, act))"
  then obtain i where "i < length fs" "fs ! i = f" by (metis in_set_conv_nth)
  with r map_res_nth [OF assms, of i] map_res_length [OF assms] show "\<exists>sev. (f, sev, act) \<in> set xs"
    by (metis nth_mem sum.inject(2))
qed

section \<open>Properties\<close>

text \<open>
  (C16) Masking rewrites exactly the matches: as long as the spans the rules report do not overlap,
  replacing them from the right, as the code does, gives the text read once from left to right with
  every span replaced by its rule's mask, so that no character of a match survives and every
  other character is kept.
\<close>

theorem masking_replaces_each_match:
  assumes "disjoint_findings (length (utf8_chars txt)) (scan finditer rules txt)"
  shows "mask finditer rules txt =
    (concat (mask_ref 0 (spans_of (scan finditer rules txt)) (utf8_chars txt)), scan finditer rules txt)"
  using mask_points_ref [OF assms] by (simp add: mask_def Let_def)

definition phone_rule :: pii_rule where
  "phone_rule = \<lparr>ru_category = ''phone'', ru_severity = ''medium'', ru_pattern = ''phone'',
     ru_mask_template = ''0*-*''\<rparr>"

definition ex_spans :: spans where
  "ex_spans p t = (if p = ''phone'' then [(5, 9)] else [])"

lemma ex_scan:
  "scan ex_spans [phone_rule] ''call 0199 now'' = [\<lparr>fi_category = ''phone'', fi_severity = ''medium'',
     fi_start = 5, fi_end = 9, fi_matched_text = ''0199'', fi_masked_form = ''0*-*''\<rparr>]"
  by (simp add: scan_def ex_spans_def phone_rule_def cp_slice_def utf8_cont_def)

theorem masking_replaces_each_match_witness:
  "fst (mask ex_spans [phone_rule] ''call 0199 now'') = ''call 0*-* now''"
proof -
  have "disjoint_findings (length (utf8_chars ''call 0199 now'')) (scan ex_spans [phone_rule] ''call 0199 now'')"
    unfolding ex_scan by (simp add: disjoint_findings_def utf8_cont_def)
  from masking_replaces_each_match [OF this] show ?thesis
    unfolding ex_scan by (simp add: spans_of_def span_of_def utf8_cont_def)
qed

definition email_rule :: pii_rule where
  "email_rule = \<lparr>ru_category = ''email'', ru_severity = ''low'',
     ru_pattern = [CHR 0x5C] @ ''b[A-Za-z0-9._%+-]+@[A-Za-z0-9.-]+'' @ [CHR 0x5C] @ ''.[A-Za-z]{2,}''
       @ [CHR 0x5C] @ ''b'', ru_mask_template = ''***@***''\<rparr>"

definition employee_rule :: pii_rule where
  "employee_rule = \<lparr>ru_category = ''employee_id'', ru_severity = ''medium'',
     ru_pattern = [CHR 0x5C] @ ''b[A-Z]{1,3}'' @ [CHR 0x5C] @ ''d{5,7}'' @ [CHR 0x5C] @ ''b'',
     ru_mask_template = ''********''\<rparr>"

text \<open>
  Overlapping matches leak: with the email and employee-number rules that ship with the package,
  an address whose local part contains an employee number is found twice; the inner match is
  masked first by a longer mask, the outer one is then cut at positions of the original text, and
  the end of the address stays in the masked text.
\<close>

theorem overlapping_matches_leak:
  assumes "finditer (ru_pattern email_rule) ''kim.E12345@example.com'' = [(0, 22)]"
    and "finditer (ru_pattern employee_rule) ''kim.E12345@example.com'' = [(4, 10)]"
  shows "fst (mask finditer [email_rule, employee_rule] ''kim.E12345@example.com'') = ''***@***om''"
proof -
  let ?t = "''kim.E12345@example.com''"
  have s: "scan finditer [email_rule, employee_rule] ?t =
    [\<lparr>fi_category = ''email'', fi_severity = ''low'', fi_start = 0, fi_end = 22,
      fi_matched_text = cp_slice 0 22 ?t, fi_masked_form = ''***@***''\<rparr>,
     \<lparr>fi_category = ''employee_id'', fi_severity = ''medium'', fi_start = 4, fi_end = 10,
      fi_matched_text = cp_slice 4 10 ?t, fi_masked_form = ''********''\<rparr>]"
    unfolding scan_def using assms by (simp add: email_rule_def employee_rule_def)
  show ?thesis
    unfolding mask_def s Let_def
    by (simp add: mask_points_def by_position_def splice_def utf8_cont_def)
qed

theorem overlapping_matches_leak_witness:
  "fst (mask (\<lambda>p _. if p = ru_pattern email_rule then [(0, 22)] else [(4, 10)])
     [email_rule, employee_rule] ''kim.E12345@example.com'') = ''***@***om''"
  by (rule overlapping_matches_leak) (simp_all add: email_rule_def employee_rule_def)

text \<open>
  What blocks a question: with the input check enabled, the question is blocked exactly when some
  finding's severity, after the tenant's overrides, maps to the action \<open>block\<close>; the blocked
  categories are exactly those of the blocking findings, each once and sorted, and every finding is
  logged.
\<close>

theorem input_block_decision:
  assumes "check_input det q (PDict cfg) = Inr r" and "get_dict cfg ''input'' = Inr input_cfg"
    and "truthy (dget input_cfg ''enable'' (PBool True))"
  shows "(ip_blocked r \<longleftrightarrow> (\<exists>f \<in> set (pd_scan det q). blocks_input cfg input_cfg f))
    \<and> set (ip_blocked_categories r) = fi_category ` {f \<in> set (pd_scan det q). blocks_input cfg input_cfg f}
    \<and> sorted (ip_blocked_categories r) \<and> distinct (ip_blocked_categories r)
    \<and> length (ip_findings r) = length (pd_scan det q)"
proof -
  obtain xs where xs: "map_res (assess_finding (or_empty_dict cfg ''severity_map'')
        (or_empty_dict input_cfg ''on_pii_found'')) (pd_scan det q) = Inr xs"
    and r: "r = \<lparr>ip_findings = map (\<lambda>(f, sev, action). finding_to_dict f sev action) xs,
      ip_blocked = (filter (\<lambda>(f, sev, action). action = ''block'') xs \<noteq> []),
      ip_blocked_categories = sorted_list_of_set (set (map (\<lambda>(f, sev, action). fi_category f)
        (filter (\<lambda>(f, sev, action). action = ''block'') xs)))\<rparr>"
    using assms by (cases cfg) (auto simp: check_input_def opt_dict_def py_or_def Let_def)
  have b: "(\<exists>sev. (f, sev, ''block'') \<in> set xs) \<longleftrightarrow>
      f \<in> set (pd_scan det q) \<and> blocks_input cfg input_cfg f" for f
    using assessed_blockers [OF xs] by (simp add: blocks_input_def)
  have "ip_blocked r \<longleftrightarrow> (\<exists>f sev. (f, sev, ''block'') \<in> set xs)"
    by (auto simp: r filter_empty_conv)
  moreover have "set (ip_blocked_categories r) = {fi_category f |f sev. (f, sev, ''block'') \<in> set xs}"
    by (force simp: r)
  ultimately show ?thesis
    using b map_res_length [OF xs] by (auto simp: r)
qed

definition ex_det :: pii_detector where
  "ex_det = regex_detector ex_spans [phone_rule]"

lemma ex_input:
  "\<exists>r. check_input ex_det ''call 0199 now'' (PDict [(''severity_map'', PDict [(''phone'', PStr ''high'')])]) = Inr r"
  by (simp add: check_input_def ex_det_def regex_detector_def ex_scan assess_finding_def
      resolve_severity_def resolve_action_def ACTION_KEYS_def or_empty_dict_def pyval_simps Let_def)

theorem input_block_decision_witness:
  "\<exists>r. check_input ex_det ''call 0199 now'' (PDict [(''severity_map'', PDict [(''phone'', PStr ''high'')])]) = Inr r
     \<and> ip_blocked r"
proof -
  obtain r where r: "check_input ex_det ''call 0199 now'' (PDict [(''severity_map'', PDict [(''phone'', PStr ''high'')])]) = Inr r"
    using ex_input by blast
  have "ip_blocked r \<longleftrightarrow> (\<exists>f \<in> set (pd_scan ex_det ''call 0199 now'').
      blocks_input [(''severity_map'', PDict [(''phone'', PStr ''high'')])] [] f)"
    using input_block_decision [OF r, of "[]"] by (simp add: pyval_simps)
  then show ?thesis
    using r by (simp add: ex_det_def regex_detector_def ex_scan blocks_input_def assess_finding_def
      resolve_severity_def resolve_action_def ACTION_KEYS_def or_empty_dict_def pyval_simps Let_def)
qed

text \<open>
  Strict compliance always masks: under the GDPR or HIPAA mode the stored question is the masked
  text, whatever storage policy is configured and whether or not plain storage was approved; and
  without strict mode a configured plain policy is honoured only with approval.
\<close>

theorem strict_mode_stores_masked:
  assumes "mask_for_storage L det txt (PDict cfg) mode approved = Inr d"
    and "get_dict cfg ''storage'' = Inr storage_cfg"
  shows "(lower_of L (case mode of None \<Rightarrow> [] | Some m \<Rightarrow> m) \<in> {''gdpr_strict'', ''hipaa_strict''} \<longrightarrow>
       sp_policy d = ''mask'' \<and> (txt \<noteq> [] \<longrightarrow> sp_text d = fst (pd_mask det txt)))
    \<and> (lower_of L (py_str L (dget storage_cfg ''pii_storage_policy'' (PStr ''mask''))) = ''plain'' \<and> \<not> approved \<longrightarrow>
       sp_policy d = ''mask'' \<and> sp_plain_approval_missing d \<and> (txt \<noteq> [] \<longrightarrow> sp_text d = fst (pd_mask det txt)))"
  using assms
  by (cases cfg) (auto simp: mask_for_storage_def opt_dict_def py_or_def Let_def split: if_splits prod.splits)

text \<open>
  An unknown storage policy stores the question in the clear: any configured value other than
  \<open>mask\<close> and \<open>plain\<close> (a misspelling, say) selects the plain policy, and that without any approval,
  although plain storage is meant to need one.
\<close>

theorem unknown_policy_stores_plain:
  assumes "get_dict cfg ''storage'' = Inr storage_cfg"
    and "lower_of L (py_str L (dget storage_cfg ''pii_storage_policy'' (PStr ''mask''))) \<notin> {''mask'', ''plain''}"
    and "lower_of L (case mode of None \<Rightarrow> [] | Some m \<Rightarrow> m) \<notin> {''gdpr_strict'', ''hipaa_strict''}"
  shows "\<exists>d. mask_for_storage L det txt (PDict cfg) mode False = Inr d
    \<and> sp_policy d = ''plain'' \<and> sp_text d = txt \<and> \<not> sp_plain_approval_missing d"
  using assms by (cases cfg) (auto simp: mask_for_storage_def opt_dict_def py_or_def Let_def)


definition storage_cfg_of :: "string \<Rightarrow> pydict" where
  "storage_cfg_of p = [(''storage'', PDict [(''pii_storage_policy'', PStr p)])]"

definition ident_lib :: pylib where
  "ident_lib = \<lparr>float_of_text = \<lambda>_. None, int_of_text = \<lambda>_. None, repr_of = \<lambda>_. [], lower_of = \<lambda>s. s,
     json_loads = \<lambda>_. Inl [], re_search = \<lambda>_ _. Some False, exc_text = exc_name\<rparr>"

lemma ex_storage:
  "\<exists>d. mask_for_storage ident_lib ex_det ''call 0199 now'' (PDict (storage_cfg_of ''plain''))
     (Some ''gdpr_strict'') True = Inr d"
  by (simp add: mask_for_storage_def storage_cfg_of_def ex_det_def regex_detector_def mask_def ex_scan
      masked_findings_def resolve_severity_def or_empty_dict_def pyval_simps Let_def ident_lib_def)

theorem strict_mode_stores_masked_witness:
  "\<exists>d. mask_for_storage ident_lib ex_det ''call 0199 now'' (PDict (storage_cfg_of ''plain''))
     (Some ''gdpr_strict'') True = Inr d \<and> sp_policy d = ''mask''"
proof -
  obtain d where d: "mask_for_storage ident_lib ex_det ''call 0199 now'' (PDict (storage_cfg_of ''plain''))
     (Some ''gdpr_strict'') True = Inr d"
    using ex_storage by blast
  have s: "get_dict (storage_cfg_of ''plain'') ''storage'' = Inr [(''pii_storage_policy'', PStr ''plain'')]"
    by (simp add: storage_cfg_of_def pyval_simps)
  show ?thesis
    using strict_mode_stores_masked [OF d s] d by (simp add: ident_lib_def)
qed

theorem unknown_policy_stores_plain_witness:
  "\<exists>d. mask_for_storage ident_lib ex_det ''call 0199 now'' (PDict (storage_cfg_of ''masked'')) None False = Inr d
     \<and> sp_policy d = ''plain'' \<and> sp_text d = ''call 0199 now''"
  using unknown_policy_stores_plain [of "storage_cfg_of ''masked''" "[(''pii_storage_policy'', PStr ''masked'')]"
      ident_lib None ex_det "''call 0199 now''"]
  by (auto simp: storage_cfg_of_def pyval_simps ident_lib_def)

text \<open>
  Chunk warnings: with chunk checking on, indexing is blocked exactly when the tenant asked for
  blocking and some finding of the chunk resolves to high severity, whatever the warning threshold
  is.
\<close>

theorem chunk_block_decision:
  assumes "check_chunk_pii L det body (PDict cfg) = Inr w"
    and "get_dict cfg ''indexing'' = Inr icfg" and "truthy (dget icfg ''enable'' (PBool True))" and "body \<noteq> []"
    and "get_dict icfg ''on_pii_found_in_chunk'' = Inr ocfg"
    and "or_empty_dict cfg ''severity_map'' = PDict sm"
  shows "cw_block_indexing w \<longleftrightarrow> truthy (dget ocfg ''block_indexing'' (PBool False)) \<and>
     (\<exists>f \<in> set (pd_scan det body). resolve_severity (fi_category f) (fi_severity f) (PDict sm) = Inr ''high'')"
proof -
  let ?sev = "\<lambda>f. resolve_severity (fi_category f) (fi_severity f) (PDict sm)"
  obtain xs where xs: "map_res (\<lambda>f. bind_res (?sev f) (\<lambda>sev. Inr (f, sev))) (pd_scan det body) = Inr xs"
    and w: "cw_block_indexing w = (truthy (dget ocfg ''block_indexing'' (PBool False)) \<and>
      list_ex (\<lambda>(f, sev). sev = ''high'') (filter (\<lambda>(f, sev).
        sev_rank (lower_of L (py_str L (dget ocfg ''severity_threshold'' (PStr ''medium'')))) 2 \<le> sev_rank sev 0) xs))"
    using assms by (cases cfg) (auto simp: check_chunk_pii_def opt_dict_def py_or_def Let_def)
  have rank: "sev_rank t 2 \<le> sev_rank ''high'' 0" for t
    by (simp add: sev_rank_def SEV_RANK_def)
  have "(\<exists>f. (f, ''high'') \<in> set xs) \<longleftrightarrow> (\<exists>f \<in> set (pd_scan det body). ?sev f = Inr ''high'')"
  proof
    show "\<exists>f. (f, ''high'') \<in> set xs \<Longrightarrow> \<exists>f \<in> set (pd_scan det body). ?sev f = Inr ''high''"
      using map_res_in_set [OF xs] by fastforce
  next
    assume "\<exists>f \<in> set (pd_scan det body). ?sev f = Inr ''high''"
    then obtain i where "i < length (pd_scan det body)" "?sev (pd_scan det body ! i) = Inr ''high''"
      by (metis in_set_conv_nth)
    then show "\<exists>f. (f, ''high'') \<in> set xs"
      using map_res_nth [OF xs, of i] map_res_length [OF xs] by (metis bind_res.simps(2) nth_mem sum.inject(2))
  qed
  then show ?thesis using rank by (auto simp: w list_ex_iff)
qed

theorem chunk_block_decision_witness:
  "\<exists>w. check_chunk_pii ident_lib ex_det ''call 0199 now'' (PDict [(''severity_map'', PDict [(''phone'', PStr ''high'')]),
       (''indexing'', PDict [(''on_pii_found_in_chunk'', PDict [(''block_indexing'', PBool True)])])]) = Inr w
     \<and> cw_block_indexing w"
proof -
  let ?c = "[(''severity_map'', PDict [(''phone'', PStr ''high'')]),
       (''indexing'', PDict [(''on_pii_found_in_chunk'', PDict [(''block_indexing'', PBool True)])])]"
  obtain w where w: "check_chunk_pii ident_lib ex_det ''call 0199 now'' (PDict ?c) = Inr w"
    by (simp add: check_chunk_pii_def ex_det_def regex_detector_def ex_scan resolve_severity_def
        or_empty_dict_def pyval_simps Let_def ident_lib_def)
  show ?thesis
    using chunk_block_decision [OF w, of "[(''on_pii_found_in_chunk'', PDict [(''block_indexing'', PBool True)])]"
        "[(''block_indexing'', PBool True)]" "[(''phone'', PStr ''high'')]"] w
    by (simp add: pyval_simps or_empty_dict_def ex_det_def regex_detector_def ex_scan resolve_severity_def)
qed

end
