(* ===== verification/Rag_State.thy ===== *)
theory Rag_State
  imports Retrieval Routing Conflict Pii Llm_Services Assessment_Chat
begin

text \<open>
  The state that the chat workflow passes from node to node (\<open>RAGState\<close> of
  \<open>workflows/rag_graph.py\<close>), the service bundle (\<open>RAGGraphDeps\<close> of \<open>workflows/nodes.py\<close>), the
  conversion of retrieved chunks to dictionaries and back, and the chat log that every run is written
  to (\<open>services/chat_log_writer.py\<close>).

  The answer segments of the state are the raw dictionaries of the model until \<open>parse_response\<close>
  replaces them by normalised segments; the datatype \<open>answer_segments\<close> keeps the two apart.
\<close>

section \<open>The state\<close>

datatype answer_segments = Raw "pyval list" | Parsed "segment list"

record rag_state =
  s_request_id :: string
  s_domain_id :: string
  s_user_id :: string
  s_conversation_id :: "string option"
  s_question :: string
  s_conversation_history :: "pyval list"
  s_user_context :: pyval
  s_tenant_config :: pyval
  s_acl_filter :: "acl_filter option"
  s_query_type :: "string option"
  s_support_type :: pyval
  s_complexity :: pyval
  s_classifier_decision :: pydict
  s_matched_rule :: "string option"
  s_selected_model :: "string option"
  s_selected_lora :: pyval
  s_use_rag :: bool
  s_ui_mode :: string
  s_grounding :: string
  s_assessment_items :: "pyval list"
  s_assessment_plan :: "pyval list"
  s_rewritten_query :: string
  s_retrieved_chunks :: "pydict list"
  s_reranked_chunks :: "pydict list"
  s_final_contexts :: "pydict list"
  s_retrieval_error :: "string option"
  s_gate1_passed :: bool
  s_gate1_metrics :: pydict
  s_input_pii_found :: "pyval list"
  s_input_blocked :: bool
  s_blocked_categories :: "string list"
  s_question_for_storage :: string
  s_pii_storage_policy :: string
  s_raw_response :: string
  s_answer_segments :: answer_segments
  s_limitations :: pyval
  s_citations :: "citation list"
  s_citation_types :: "pyval list"
  s_verifier_metrics :: pydict
  s_inference_judge_results :: "pyval list"
  s_conflict_groups :: "pyval list"
  s_unsupported_ratio :: real
  s_final_answer :: string
  s_output_pii_masked :: "pyval list"
  s_gate2_passed :: bool
  s_confidence :: real
  s_fallback_reason :: "string option"
  s_near_misses :: "pydict list"
  s_model_failure_chain :: "pyval list"
  s_latency_ms :: int
  s_error :: "string option"

definition initial_state ::
  "string \<Rightarrow> string \<Rightarrow> string \<Rightarrow> string option \<Rightarrow> string \<Rightarrow> pyval list \<Rightarrow> pyval \<Rightarrow> string option
   \<Rightarrow> rag_state" where
  \<comment> \<open>a fresh \<open>RAGState\<close>: the arguments of a chat request, every other field at its default\<close>
  "initial_state request_id domain_id user_id conversation_id question history user_context selected_model =
     \<lparr>s_request_id = request_id, s_domain_id = domain_id, s_user_id = user_id,
      s_conversation_id = conversation_id, s_question = question, s_conversation_history = history,
      s_user_context = user_context, s_tenant_config = PNone, s_acl_filter = None,
      s_query_type = None, s_support_type = PNone, s_complexity = PNone, s_classifier_decision = [],
      s_matched_rule = None, s_selected_model = selected_model, s_selected_lora = PNone, s_use_rag = True,
      s_ui_mode = ''chat_structured'', s_grounding = ''grounded'', s_assessment_items = [],
      s_assessment_plan = [], s_rewritten_query = [], s_retrieved_chunks = [],
      s_reranked_chunks = [], s_final_contexts = [], s_retrieval_error = None,
      s_gate1_passed = False, s_gate1_metrics = [], s_input_pii_found = [], s_input_blocked = False,
      s_blocked_categories = [], s_question_for_storage = [], s_pii_storage_policy = ''mask'',
      s_raw_response = [], s_answer_segments = Raw [], s_limitations = PNone, s_citations = [],
      s_citation_types = [], s_verifier_metrics = [], s_inference_judge_results = [],
      s_conflict_groups = [], s_unsupported_ratio = 0, s_final_answer = [], s_output_pii_masked = [],
      s_gate2_passed = False, s_confidence = 0, s_fallback_reason = None, s_near_misses = [],
      s_model_failure_chain = [], s_latency_ms = 0, s_error = None\<rparr>"

section \<open>The services\<close>

record rag_deps =
  dp_lib :: pylib
  dp_jinja :: jinja
  dp_retrieve :: "string \<Rightarrow> string \<Rightarrow> acl_filter option \<Rightarrow> retrieval_config \<Rightarrow> retrieval_result res"
  dp_generation :: generation_service
  dp_config_loader :: "string \<Rightarrow> pyval res"
  dp_today :: "date option"
  dp_embed_batch :: embedder
  dp_uuid :: "nat \<Rightarrow> string"
  dp_judge :: "judge_service option"
  dp_chat_log_writer :: bool
  dp_query_classifier :: "tier2_llm option option"
  dp_model_router :: bool
  dp_pii :: "pii_detector option"
  dp_conflict_detector :: "string set option"
  dp_finditer :: finditer
  dp_query_rewriter :: "query_rewriter option"
  dp_assessment :: assessment_deps

section \<open>Chunks as dictionaries\<close>

definition opt_real :: "real option \<Rightarrow> pyval" where
  "opt_real x = (case x of None \<Rightarrow> PNone | Some r \<Rightarrow> PFloat r)"

definition chunk_to_dict :: "retrieved_chunk \<Rightarrow> pydict" where
  "chunk_to_dict c =
     [(''chunk_id'', PStr (ck_chunk_id c)), (''doc_id'', PStr (ck_doc_id c)), (''title'', PStr (ck_title c)),
      (''content'', PStr (ck_content c)), (''page_number'', ck_page_number c),
      (''section_title'', ck_section_title c), (''fused_score'', PFloat (ck_fused_score c)),
      (''rerank_score'', opt_real (ck_rerank_score c)), (''payload'', PDict (ck_payload c))]"

definition real_of_value :: "pyval \<Rightarrow> real option" where
  \<comment> \<open>the score entry of a chunk dictionary: a number or \<open>None\<close>\<close>
  "real_of_value v = num_val v"

definition dict_to_chunk :: "pylib \<Rightarrow> pydict \<Rightarrow> retrieved_chunk res" where
  "dict_to_chunk L d =
     bind_res (py_float L (py_or (dget d ''fused_score'' PNone) (PFloat 0))) (\<lambda>fused.
     bind_res (py_dict (py_or (dget d ''payload'' PNone) (PDict []))) (\<lambda>payload.
       Inr \<lparr>ck_chunk_id = py_str L (dget d ''chunk_id'' (PStr [])),
            ck_doc_id = py_str L (dget d ''doc_id'' (PStr [])),
            ck_title = py_str L (dget d ''title'' (PStr [])),
            ck_content = py_str L (dget d ''content'' (PStr [])),
            ck_page_number = dget d ''page_number'' PNone,
            ck_section_title = dget d ''section_title'' PNone,
            ck_dense_score = 0, ck_sparse_score = 0, ck_fused_score = fused,
            ck_payload = payload, ck_rerank_score = real_of_value (dget d ''rerank_score'' PNone)\<rparr>))"

definition final_contexts_as_chunks :: "pylib \<Rightarrow> rag_state \<Rightarrow> retrieved_chunk list res" where
  "final_contexts_as_chunks L s = map_res (dict_to_chunk L) (s_final_contexts s)"

section \<open>The chat log\<close>

record chat_log_payload =
  cl_domain_id :: string
  cl_request_id :: string
  cl_user_id :: string
  cl_conversation_id :: "string option"
  cl_question :: string
  cl_answer :: string
  cl_retrieved_chunks :: "pydict list"
  cl_citations :: "citation list"
  cl_citation_types :: "pyval list"
  cl_rewritten_query :: "string option"
  cl_llm_model :: "string option"
  cl_lora_adapter :: pyval
  cl_ui_mode :: string
  cl_confidence :: real
  cl_fallback_reason :: "string option"
  cl_unsupported_ratio :: real
  cl_verifier_metrics :: pydict
  cl_routing_decision :: pydict
  cl_classifier_decision :: pydict
  cl_model_failure_chain :: "pyval list"
  cl_inference_judge_results :: "pyval list"
  cl_conflict_groups :: "pyval list"
  cl_input_pii_found :: "pyval list"
  cl_output_pii_masked :: "pyval list"
  cl_pii_storage_policy :: string
  cl_feedback :: "string option"
  cl_feedback_comment :: "string option"
  cl_latency_ms :: "int option"

record chat_log =
  log_records :: "chat_log_payload list"
  log_conv_counter :: nat

definition write_chat_log :: "chat_log_payload \<Rightarrow> chat_log \<Rightarrow> string \<times> chat_log" where
  "write_chat_log payload w =
     (case cl_conversation_id payload of
        Some cid \<Rightarrow> (cid, w\<lparr>log_records := log_records w @ [payload]\<rparr>)
      | None \<Rightarrow>
          let n = Suc (log_conv_counter w); cid = ''conv-'' @ zero_pad 8 (int n)
          in (cid, w\<lparr>log_conv_counter := n,
                       log_records := log_records w @ [payload\<lparr>cl_conversation_id := Some cid\<rparr>]\<rparr>))"

section \<open>Facts\<close>

lemma real_of_opt_real [simp]: "real_of_value (opt_real x) = x"
  by (cases x) (simp_all add: real_of_value_def opt_real_def)

lemma py_or_zero: "py_float L (py_or (PFloat r) (PFloat 0)) = Inr r"
  by (simp add: py_or_def)

lemma py_or_empty_dict: "py_dict (py_or (PDict d) (PDict [])) = Inr d"
  by (simp add: py_or_def)

lemma chunk_round_trip:
  "dict_to_chunk L (chunk_to_dict c) = Inr (c\<lparr>ck_dense_score := 0, ck_sparse_score := 0\<rparr>)"
  by (cases c) (simp add: dict_to_chunk_def chunk_to_dict_def dget_def py_or_zero py_or_empty_dict)

section \<open>Properties\<close>

text \<open>
  Chunks survive the state: turning a retrieved chunk into the dictionary that the workflow keeps
  and back gives the same chunk, except for the two component scores, which are reset; so the
  verifier and the generator see the content, identifiers, payload and ranking scores that
  retrieval produced.
\<close>

theorem chunk_dict_round_trip:
  "map_res (dict_to_chunk L) (map chunk_to_dict cs) =
     Inr (map (\<lambda>c. c\<lparr>ck_dense_score := 0, ck_sparse_score := 0\<rparr>) cs)"
  by (induction cs) (simp_all add: chunk_round_trip)

end
