(* ===== verification/Nodes.thy ===== *)
theory Nodes
  imports Rag_State
begin

text \<open>
  The nodes of the chat workflow, \<open>workflows/nodes.py\<close>: each takes the state and returns it with the
  entries that the node's dictionary updates, or the exception that leaves the node. The services
  they wrap are those of the component theories; the routers of the conditional edges are at the end.
\<close>

section \<open>Request set-up\<close>

definition tenant_resolver_node :: "rag_state \<Rightarrow> rag_state" where
  "tenant_resolver_node s =
     (if s_domain_id s = []
      then s\<lparr>s_error := Some ''domain_id missing in state'', s_fallback_reason := Some ''auth_error''\<rparr>
      else if s_user_context s = PNone
      then s\<lparr>s_error := Some ''user_context missing in state'', s_fallback_reason := Some ''auth_error''\<rparr>
      else s)"

definition load_config :: "rag_deps \<Rightarrow> string \<Rightarrow> pydict res" where
  "load_config deps domain_id =
     bind_res (dp_config_loader deps domain_id) (\<lambda>result. py_dict (py_or result (PDict [])))"

definition load_tenant_config_node :: "rag_deps \<Rightarrow> rag_state \<Rightarrow> rag_state res" where
  "load_tenant_config_node deps s =
     bind_res (load_config deps (s_domain_id s)) (\<lambda>config. Inr (s\<lparr>s_tenant_config := PDict config\<rparr>))"

fun as_str :: "pyval \<Rightarrow> string res" where
  \<comment> \<open>what a string method needs its receiver to be\<close>
  "as_str (PStr x) = Inr x"
| "as_str _ = Inl AttributeError"

definition build_acl_filter_node :: "rag_deps \<Rightarrow> rag_state \<Rightarrow> rag_state res" where
  "build_acl_filter_node deps s =
     (let L = dp_lib deps; tenant_config = py_or (s_tenant_config s) (PDict []) in
      bind_res (case tenant_config of PDict d \<Rightarrow> Inr (py_or (dget d ''retrieval'' PNone) (PDict []))
                | _ \<Rightarrow> Inr (PDict [])) (\<lambda>rv.
      bind_res (as_dict rv) (\<lambda>retrieval_cfg.
      bind_res (opt_dict (s_user_context s)) (\<lambda>user.
      bind_res (py_iter (py_or (dget user ''domain_groups'' PNone) (PList []))) (\<lambda>groups.
      bind_res (map_res as_str groups) (\<lambda>domain_groups.
        let department = dget user ''department'' PNone in
        Inr (s\<lparr>s_acl_filter := Some (build_qdrant_acl_filter
               (py_str L (dget user ''user_id'' (PStr [])))
               (py_str L (dget user ''clearance'' (PStr ''internal'')))
               (if truthy department then Some (py_str L department) else None)
               domain_groups (dp_today deps)
               (truthy (dget retrieval_cfg ''exclude_archived'' (PBool True))))\<rparr>)))))))"

section \<open>Classification and routing\<close>

definition opt_str :: "string option \<Rightarrow> pyval" where
  "opt_str x = (case x of None \<Rightarrow> PNone | Some v \<Rightarrow> PStr v)"

definition classification_log :: "classification_result \<Rightarrow> pydict" where
  \<comment> \<open>\<open>to_log_dict\<close>\<close>
  "classification_log c =
     [(''query_type'', PStr (cr_query_type c)), (''support_type'', cr_support_type c),
      (''complexity'', cr_complexity c), (''tier1_matched'', opt_str (cr_tier1_matched c)),
      (''tier2_called'', PBool (cr_tier2_called c)), (''tier2_parse_ok'', PBool (cr_tier2_parse_ok c)),
      (''tier2_error'', opt_str (cr_tier2_error c)), (''raw_response'', opt_str (cr_raw_response c))]"

definition config_entry :: "rag_state \<Rightarrow> string \<Rightarrow> pyval res" where
  \<comment> \<open>\<open>(state.tenant_config or {}).get(key)\<close>\<close>
  "config_entry s key = bind_res (opt_dict (s_tenant_config s)) (\<lambda>d. Inr (dget d key PNone))"

definition classify_query_node :: "rag_deps \<Rightarrow> rag_state \<Rightarrow> rag_state res" where
  "classify_query_node deps s =
     (case dp_query_classifier deps of
        None \<Rightarrow> Inr (s\<lparr>s_query_type := Some ''document_qa'', s_support_type := PStr ''direct'',
                       s_complexity := PStr ''medium'',
                       s_classifier_decision :=
                         [(''query_type'', PStr ''document_qa''), (''support_type'', PStr ''direct''),
                          (''complexity'', PStr ''medium''), (''tier1_matched'', PNone),
                          (''tier2_called'', PBool False), (''skipped'', PBool True)]\<rparr>)
      | Some llm \<Rightarrow>
          bind_res (config_entry s ''query_classifier'') (\<lambda>raw.
          bind_res (classifier_from_dict (dp_lib deps) raw) (\<lambda>config.
          bind_res (classify_query (dp_lib deps) llm (s_question s) config) (\<lambda>result.
            Inr (s\<lparr>s_query_type := Some (cr_query_type result), s_support_type := cr_support_type result,
                   s_complexity := cr_complexity result,
                   s_classifier_decision := classification_log result\<rparr>)))))"

definition routed_class :: "rag_state \<Rightarrow> classification_result" where
  "routed_class s = \<lparr>cr_query_type = str_or (s_query_type s) ''document_qa'',
     cr_support_type = s_support_type s, cr_complexity = s_complexity s, cr_tier1_matched = None,
     cr_tier2_called = False, cr_tier2_parse_ok = True, cr_tier2_error = None, cr_raw_response = None\<rparr>"

definition model_router_node :: "rag_deps \<Rightarrow> rag_state \<Rightarrow> rag_state res" where
  "model_router_node deps s =
     (if \<not> dp_model_router deps
      then Inr (s\<lparr>s_matched_rule := Some ''default_skipped'', s_selected_model := Some ''tenant_slm'',
                  s_use_rag := True, s_ui_mode := ''chat_structured''\<rparr>)
      else bind_res (config_entry s ''routing'') (\<lambda>routing_cfg.
           bind_res (config_entry s ''model'') (\<lambda>model_cfg.
           bind_res (decide (dp_lib deps) (routed_class s) routing_cfg (py_or model_cfg (PDict [])) None)
             (\<lambda>decision.
               let out = s\<lparr>s_matched_rule := Some (rd_matched_rule decision),
                           s_selected_model := Some (rd_model decision),
                           s_selected_lora := rd_lora_adapter decision,
                           s_use_rag := rd_use_rag decision, s_ui_mode := rd_ui_mode decision\<rparr>
               in Inr (if truthy (rd_action decision)
                       then out\<lparr>s_fallback_reason :=
                              Some (''routing_'' @ py_str (dp_lib deps) (rd_action decision))\<rparr>
                       else out)))))"

section \<open>Retrieval\<close>

definition retrieval_config_from_tenant :: "pylib \<Rightarrow> pydict \<Rightarrow> retrieval_config res" where
  "retrieval_config_from_tenant L config =
     bind_res (get_dict config ''retrieval'') (\<lambda>retrieval.
     bind_res (get_dict retrieval ''top_k'') (\<lambda>top_k.
     bind_res (py_int L (dget top_k ''fused'' (PInt 50))) (\<lambda>fused.
     bind_res (py_int L (dget top_k ''rerank'' (PInt 10))) (\<lambda>rerank.
     bind_res (py_int L (dget top_k ''context'' (PInt 5))) (\<lambda>context.
     bind_res (get_dict retrieval ''reranker'') (\<lambda>reranker.
       Inr \<lparr>rc_fused_top_k = fused, rc_rerank_top_k = rerank, rc_context_top_k = context,
            rc_reranker_bypass = truthy (dget reranker ''bypass'' (PBool False))\<rparr>))))))"

definition query_rewrite_node :: "rag_deps \<Rightarrow> rag_state \<Rightarrow> rag_state res" where
  "query_rewrite_node deps s =
     (case dp_query_rewriter deps of None \<Rightarrow> Inr s
      | Some r \<Rightarrow>
          bind_res (opt_dict (s_tenant_config s)) (\<lambda>cfg.
          bind_res (as_dict (dget cfg ''retrieval'' (PDict []))) (\<lambda>retrieval.
          bind_res (rewrite (dp_lib deps) (dp_jinja deps) r (s_question s)
                      (dget retrieval ''query_rewriting'' PNone)) (\<lambda>result.
            Inr (s\<lparr>s_rewritten_query := rw_rewritten_query result\<rparr>)))))"

definition retrieve_context_node :: "rag_deps \<Rightarrow> rag_state \<Rightarrow> rag_state res" where
  "retrieve_context_node deps s =
     bind_res (opt_dict (s_tenant_config s)) (\<lambda>config.
     bind_res (retrieval_config_from_tenant (dp_lib deps) config) (\<lambda>cfg.
       let query = (if s_rewritten_query s = [] then s_question s else s_rewritten_query s) in
       case dp_retrieve deps (s_domain_id s) query (s_acl_filter s) cfg of
         Inl exc \<Rightarrow>
           Inr (s\<lparr>s_retrieved_chunks := [], s_reranked_chunks := [], s_final_contexts := [],
                  s_retrieval_error := Some (exc_name exc @ '': '' @ exc_text (dp_lib deps) exc)\<rparr>)
       | Inr result \<Rightarrow>
           Inr (s\<lparr>s_retrieved_chunks := map chunk_to_dict (rr_fused result),
                  s_reranked_chunks := map chunk_to_dict (rr_reranked result),
                  s_final_contexts := map chunk_to_dict (rr_contexts result)\<rparr>)))"

section \<open>Gate 1\<close>

definition gate1_thresholds :: "pylib \<Rightarrow> pydict \<Rightarrow> (real \<times> int \<times> real) res" where
  "gate1_thresholds L config =
     bind_res (get_dict config ''citation'') (\<lambda>citation.
     bind_res (get_dict citation ''gates'') (\<lambda>gates.
     bind_res (get_dict gates ''retrieval'') (\<lambda>retrieval.
     bind_res (py_float L (dget retrieval ''min_top1_rerank'' (PFloat 0.6))) (\<lambda>top1.
     bind_res (py_int L (dget retrieval ''min_strong_chunks'' (PInt 2))) (\<lambda>strong.
     bind_res (py_float L (dget retrieval ''strong_chunk_threshold'' (PFloat 0.5))) (\<lambda>thr.
       Inr (top1, strong, thr)))))))"

definition gate1_score :: "pylib \<Rightarrow> pydict \<Rightarrow> real res" where
  "gate1_score L c =
     (let rs = dget c ''rerank_score'' PNone
      in py_float L (if rs \<noteq> PNone then rs else py_or (dget c ''fused_score'' PNone) (PFloat 0)))"

definition gate_1_node :: "pylib \<Rightarrow> rag_state \<Rightarrow> rag_state res" where
  "gate_1_node L s =
     (let chunks = (if s_reranked_chunks s \<noteq> [] then s_reranked_chunks s else s_final_contexts s) in
      bind_res (opt_dict (s_tenant_config s)) (\<lambda>config.
      bind_res (gate1_thresholds L config) (\<lambda>(min_top1, min_strong, strong_thr).
        if chunks = []
        then Inr (s\<lparr>s_gate1_passed := False,
                    s_gate1_metrics := [(''reason'', PStr ''empty_retrieval'')],
                    s_fallback_reason := Some ''retrieval_unavailable'', s_near_misses := []\<rparr>)
        else bind_res (map_res (gate1_score L) chunks) (\<lambda>scores.
          let top1 = Max (set scores);
              strong_count = int (count_if (\<lambda>x. strong_thr \<le> x) scores);
              passed = (min_top1 \<le> top1 \<and> min_strong \<le> strong_count);
              out = s\<lparr>s_gate1_passed := passed,
                      s_gate1_metrics :=
                        [(''top1_score'', PFloat top1), (''strong_count'', PInt strong_count),
                         (''min_top1_threshold'', PFloat min_top1), (''min_strong_threshold'', PInt min_strong),
                         (''strong_chunk_threshold'', PFloat strong_thr)]\<rparr>
          in Inr (if passed then out
                  else out\<lparr>s_fallback_reason := Some ''gate1_failed'', s_near_misses := take 3 chunks\<rparr>)))))"

section \<open>Generation\<close>

definition generation_steps :: "string \<Rightarrow> pyval \<Rightarrow> (string \<times> pyval \<times> string) list" where
  \<comment> \<open>model, adapter and label of each attempt\<close>
  "generation_steps selected_model selected_lora =
     [(selected_model, selected_lora, ''primary'')]
     @ (if selected_model = ''tenant_slm'' \<and> truthy selected_lora
        then [(''tenant_slm'', PNone, ''tenant_slm_no_lora'')] else [])
     @ (if selected_model \<noteq> ''shared_llm'' then [(''shared_llm'', PNone, ''shared_llm'')] else [])"

definition failure_entry :: "string \<Rightarrow> pyval \<Rightarrow> string \<Rightarrow> string \<Rightarrow> pyval \<Rightarrow> pyval" where
  "failure_entry model lora label reason detail = PDict
     [(''model'', PStr model), (''lora'', lora), (''label'', PStr label), (''reason'', PStr reason),
      (''detail'', detail)]"

fun run_chain ::
  "pylib \<Rightarrow> (string \<Rightarrow> pyval \<Rightarrow> generation_result res) \<Rightarrow> (string \<times> pyval \<times> string) list
    \<Rightarrow> pyval list \<Rightarrow> generation_result option
    \<Rightarrow> (generation_result \<times> string \<times> pyval) option \<times> pyval list \<times> generation_result option" where
  \<comment> \<open>the loop over the steps: the answer that ended it, the failure chain and the last answer seen\<close>
  "run_chain L gen [] chain last_result = (None, chain, last_result)"
| "run_chain L gen ((model, lora, label) # steps) chain last_result =
     (case gen model lora of
        Inl exc \<Rightarrow> run_chain L gen steps
          (chain @ [failure_entry model lora label (exc_name exc) (PStr (exc_text L exc))]) last_result
      | Inr result \<Rightarrow>
          if gr_parse_ok result \<and> gr_answer_segments result \<noteq> []
          then (Some (result, model, lora), chain, Some result)
          else run_chain L gen steps
            (chain @ [failure_entry model lora label ''parse_error'' (opt_str (gr_parse_error result))])
            (Some result))"

definition chain_outcome ::
  "rag_state \<Rightarrow> (generation_result \<times> string \<times> pyval) option \<Rightarrow> pyval list \<Rightarrow> generation_result option
    \<Rightarrow> rag_state" where
  \<comment> \<open>the two returns of the node: success inside the loop, total failure after it\<close>
  "chain_outcome s found failure_chain last_result =
     (case found of
        Some (result, model, lora) \<Rightarrow>
          s\<lparr>s_raw_response := gr_raw_response result,
            s_answer_segments := Raw (gr_answer_segments result),
            s_limitations := gr_limitations result, s_selected_model := Some model,
            s_selected_lora := lora, s_model_failure_chain := failure_chain\<rparr>
      | None \<Rightarrow>
          s\<lparr>s_raw_response := (case last_result of None \<Rightarrow> [] | Some r \<Rightarrow> gr_raw_response r),
            s_answer_segments := Raw [], s_limitations := PNone,
            s_fallback_reason := Some ''low_generation_quality'',
            s_error := Some ''all_models_failed'', s_model_failure_chain := failure_chain\<rparr>)"

definition generate_answer_node :: "rag_deps \<Rightarrow> rag_state \<Rightarrow> rag_state res" where
  "generate_answer_node deps s =
     bind_res (final_contexts_as_chunks (dp_lib deps) s) (\<lambda>contexts.
       let gen = (\<lambda>model lora. generate_structured (dp_lib deps) (dp_jinja deps) (dp_generation deps)
                    (s_question s) contexts lora (Some (s_domain_id s)) (Some model));
           (found, failure_chain, last_result) =
             run_chain (dp_lib deps) gen
               (generation_steps (str_or (s_selected_model s) ''tenant_slm'') (s_selected_lora s))
               (s_model_failure_chain s) None
       in Inr (chain_outcome s found failure_chain last_result))"

definition plain_segment :: "string \<Rightarrow> pyval" where
  "plain_segment txt = PDict [(''text'', PStr txt), (''citations'', PList [])]"

definition generate_ungrounded_node :: "rag_deps \<Rightarrow> rag_state \<Rightarrow> rag_state" where
  "generate_ungrounded_node deps s =
     (let selected_model = str_or (s_selected_model s) ''tenant_slm'' in
      case generate_conversational (dp_lib deps) (dp_generation deps) (s_question s) (s_selected_lora s)
             (Some selected_model) (s_conversation_history s) of
        Inl exc \<Rightarrow>
          s\<lparr>s_grounding := ''ungrounded'', s_answer_segments := Raw [], s_final_answer := [],
            s_citations := [], s_citation_types := [], s_confidence := 0,
            s_fallback_reason := Some ''low_generation_quality'',
            s_error := Some ''ungrounded_generation_failed'',
            s_model_failure_chain := s_model_failure_chain s
              @ [failure_entry selected_model (s_selected_lora s) ''ungrounded'' (exc_name exc)
                   (PStr (exc_text (dp_lib deps) exc))]\<rparr>
      | Inr txt \<Rightarrow>
          let body = py_strip txt in
          s\<lparr>s_grounding := ''ungrounded'', s_raw_response := txt,
            s_answer_segments := Raw [plain_segment body], s_final_answer := body, s_citations := [],
            s_citation_types := [], s_confidence := 0, s_fallback_reason := None\<rparr>)"

definition assessment_node :: "rag_deps \<Rightarrow> rag_state \<Rightarrow> rag_state res" where
  "assessment_node deps s =
     bind_res (assess (dp_assessment deps) (s_domain_id s) (s_question s) (s_tenant_config s)) (\<lambda>out.
       let s' = s\<lparr>s_grounding := ao_grounding out, s_final_answer := ao_answer out,
                  s_answer_segments := Raw [plain_segment (ao_answer out)], s_citations := [],
                  s_citation_types := [], s_confidence := 0, s_fallback_reason := None\<rparr>
       in Inr (case ao_items_plan out of None \<Rightarrow> s'
               | Some (items, plan) \<Rightarrow> s'\<lparr>s_assessment_items := items, s_assessment_plan := plan\<rparr>))"

section \<open>Personal data\<close>

definition plain_approved_of :: "pyval \<Rightarrow> bool res" where
  "plain_approved_of pii_cfg =
     bind_res (opt_dict pii_cfg) (\<lambda>d.
     bind_res (get_dict d ''storage'') (\<lambda>storage.
       Inr (truthy (dget storage ''plain_approved'' (PBool False)))))"

definition check_input_pii_node :: "rag_deps \<Rightarrow> rag_state \<Rightarrow> rag_state res" where
  "check_input_pii_node deps s =
     (case dp_pii deps of None \<Rightarrow> Inr s
      | Some det \<Rightarrow>
          let L = dp_lib deps in
          bind_res (opt_dict (s_tenant_config s)) (\<lambda>tenant_config.
          let pii_cfg = dget tenant_config ''pii'' PNone in
          bind_res (check_input det (s_question s) pii_cfg) (\<lambda>result.
          bind_res (plain_approved_of pii_cfg) (\<lambda>plain_approved.
          bind_res (mask_for_storage L det (s_question s) pii_cfg
                      (Some (py_str L (py_or (dget tenant_config ''compliance_mode'' PNone) (PStr ''standard''))))
                      plain_approved) (\<lambda>storage.
            let s1 = s\<lparr>s_input_pii_found := ip_findings result, s_pii_storage_policy := sp_policy storage\<rparr>;
                s2 = (if sp_policy storage = ''mask'' then s1\<lparr>s_question_for_storage := sp_text storage\<rparr> else s1)
            in Inr (if ip_blocked result
                    then s2\<lparr>s_input_blocked := True, s_fallback_reason := Some ''input_pii_blocked'',
                            s_blocked_categories := ip_blocked_categories result\<rparr>
                    else s2))))))"

definition mask_response_pii_node :: "rag_deps \<Rightarrow> rag_state \<Rightarrow> rag_state res" where
  "mask_response_pii_node deps s =
     (case dp_pii deps of None \<Rightarrow> Inr s
      | Some det \<Rightarrow>
          if s_final_answer s = [] then Inr s
          else bind_res (config_entry s ''pii'') (\<lambda>pii_cfg.
               bind_res (mask_output det (s_final_answer s) pii_cfg) (\<lambda>result.
                 Inr (if op_findings result = [] then s
                      else s\<lparr>s_final_answer := op_masked_text result,
                             s_output_pii_masked := op_findings result\<rparr>))))"

section \<open>Verification\<close>

text \<open>
  The verification nodes read normalised segments: the graph runs them after \<open>parse_response\<close>, so
  the error branch of \<open>parsed\<close> is never taken there.
\<close>

fun parsed :: "answer_segments \<Rightarrow> segment list res" where
  "parsed (Parsed segs) = Inr segs"
| "parsed (Raw []) = Inr []"
| "parsed (Raw (x # xs)) = Inl (OtherError ''segments not parsed'')"

definition thresholds_from_state :: "pylib \<Rightarrow> rag_state \<Rightarrow> verifier_thresholds res" where
  "thresholds_from_state L s = bind_res (config_entry s ''citation'') (from_config L)"

fun raw_segments :: "answer_segments \<Rightarrow> pyval list res" where
  \<comment> \<open>\<open>parse_response\<close> itself only follows \<open>generate_answer\<close>\<close>
  "raw_segments (Raw xs) = Inr xs"
| "raw_segments (Parsed []) = Inr []"
| "raw_segments (Parsed (x # xs)) = Inl (OtherError ''segments parsed twice'')"

definition parse_response_node :: "pylib \<Rightarrow> rag_state \<Rightarrow> rag_state res" where
  "parse_response_node L s =
     bind_res (raw_segments (s_answer_segments s)) (\<lambda>raws.
     bind_res (parse_segments L raws) (\<lambda>segs.
       Inr (s\<lparr>s_answer_segments := Parsed segs\<rparr>)))"

definition verify_tier1_node :: "rag_state \<Rightarrow> rag_state res" where
  "verify_tier1_node s =
     bind_res (parsed (s_answer_segments s)) (\<lambda>segs0.
       let (segs, removed) = tier1_filter segs0 (length (s_final_contexts s)) in
       Inr (s\<lparr>s_answer_segments := Parsed segs,
              s_verifier_metrics := dict_put ''tier1_markers_removed'' (PInt (int removed))
                (s_verifier_metrics s)\<rparr>))"

definition int_groups :: "int list list \<Rightarrow> pyval" where
  "int_groups gs = PList (map (\<lambda>g. PList (map PInt g)) gs)"

definition mark_conflict :: "conflict_detection_result \<Rightarrow> segment \<Rightarrow> segment" where
  "mark_conflict r seg = seg\<lparr>seg_support_type := PStr ''conflict'',
     seg_conflict_groups := int_groups (cd_conflict_groups r), seg_conflict_signal := cd_signal r\<rparr>"

definition conflict_entry :: "conflict_detection_result \<Rightarrow> segment \<Rightarrow> pyval" where
  "conflict_entry r seg = PDict
     [(''segment_index'', PInt (int (seg_index seg))), (''signal'', opt_str (cd_signal r)),
      (''groups'', int_groups (cd_conflict_groups r)), (''details'', PDict (cd_details r)),
      (''source'', PStr ''heuristic'')]"

definition conflict_detector_for :: "rag_deps \<Rightarrow> rag_state \<Rightarrow> string set option res" where
  "conflict_detector_for deps s =
     bind_res (config_entry s ''citation'') (\<lambda>citation_cfg.
       if truthy citation_cfg
       then bind_res (detector_from_config citation_cfg) (\<lambda>d. Inr (Some d))
       else Inr (dp_conflict_detector deps))"

definition detect_conflict_heuristic_node :: "rag_deps \<Rightarrow> rag_state \<Rightarrow> rag_state res" where
  "detect_conflict_heuristic_node deps s =
     bind_res (conflict_detector_for deps s) (\<lambda>detector.
       case detector of None \<Rightarrow> Inr s
       | Some enabled \<Rightarrow>
           if enabled = {} then Inr s
           else bind_res (final_contexts_as_chunks (dp_lib deps) s) (\<lambda>contexts.
             if contexts = [] then Inr s
             else bind_res (parsed (s_answer_segments s)) (\<lambda>segs.
               bind_res (map_res (\<lambda>seg. bind_res (detect_in_segment (dp_lib deps) (dp_finditer deps) enabled seg contexts)
                           (\<lambda>r. Inr (seg, r))) segs) (\<lambda>results.
                 let hits = filter (\<lambda>(seg, r). cd_is_conflict r) results in
                 Inr (s\<lparr>s_answer_segments := Parsed (map (\<lambda>(seg, r).
                          if cd_is_conflict r then mark_conflict r seg else seg) results),
                        s_conflict_groups := s_conflict_groups s @ map (\<lambda>(seg, r). conflict_entry r seg) hits,
                        s_verifier_metrics := dict_put ''conflict_heuristic_detected''
                          (PInt (int (length hits))) (s_verifier_metrics s)\<rparr>)))))"

definition verify_tier2_node :: "rag_deps \<Rightarrow> rag_state \<Rightarrow> rag_state res" where
  "verify_tier2_node deps s =
     bind_res (thresholds_from_state (dp_lib deps) s) (\<lambda>thresholds.
     bind_res (final_contexts_as_chunks (dp_lib deps) s) (\<lambda>contexts.
     bind_res (parsed (s_answer_segments s)) (\<lambda>segs0.
     bind_res (tier2_classify (dp_embed_batch deps) segs0 contexts thresholds) (\<lambda>(segs, _, avg).
       Inr (s\<lparr>s_answer_segments := Parsed segs,
              s_verifier_metrics := dict_put ''tier2_avg_similarity'' (PFloat avg) (s_verifier_metrics s)\<rparr>)))))"

definition judge_segment ::
  "rag_deps \<Rightarrow> judge_service \<Rightarrow> retrieved_chunk list \<Rightarrow> segment \<Rightarrow> (segment \<times> pyval option) res" where
  \<comment> \<open>one round of the loop: the segment to keep and the entry for the log, if it was judged\<close>
  "judge_segment deps j contexts seg =
     (if \<not> seg_pending_judge seg then Inr (seg, None)
      else let cited_chunks = map (\<lambda>c. contexts ! nat (c - 1))
                 (filter (in_context (length contexts)) (seg_citations seg)) in
        bind_res (judge (dp_lib deps) (dp_jinja deps) j (seg_text seg) cited_chunks (seg_inference_chain seg)) (\<lambda>r.
          let ok = (if jr_parse_ok r then passes r (js_min_confidence j) else False) in
          Inr (apply_judge_result seg ok (Some (jr_reasoning r)) (jr_caveat r),
               Some (PDict [(''segment_index'', PInt (int (seg_index seg))), (''valid'', PBool (jr_valid r)),
                            (''confidence'', PFloat (jr_confidence r)), (''reasoning'', PStr (jr_reasoning r)),
                            (''caveat'', jr_caveat r), (''parse_ok'', PBool (jr_parse_ok r))]))))"

definition judge_inference_node :: "rag_deps \<Rightarrow> rag_state \<Rightarrow> rag_state res" where
  "judge_inference_node deps s =
     (case dp_judge deps of None \<Rightarrow> Inr s
      | Some j \<Rightarrow>
          bind_res (parsed (s_answer_segments s)) (\<lambda>segs.
          bind_res (final_contexts_as_chunks (dp_lib deps) s) (\<lambda>contexts.
          bind_res (map_res (judge_segment deps j contexts) segs) (\<lambda>results.
            Inr (s\<lparr>s_answer_segments := Parsed (map fst results),
                   s_inference_judge_results := s_inference_judge_results s
                     @ List.map_filter snd results\<rparr>)))))"

definition detect_unsupported_node :: "rag_state \<Rightarrow> rag_state res" where
  "detect_unsupported_node s =
     bind_res (parsed (s_answer_segments s)) (\<lambda>segs.
       let (idxs, ratio) = tier3_unsupported segs in
       Inr (s\<lparr>s_unsupported_ratio := ratio,
              s_verifier_metrics := dict_put ''tier3_unsupported_segments''
                (PList (map (\<lambda>i. PInt (int i)) idxs)) (s_verifier_metrics s)\<rparr>))"

definition assemble_response_node :: "rag_deps \<Rightarrow> rag_state \<Rightarrow> rag_state res" where
  "assemble_response_node deps s =
     bind_res (final_contexts_as_chunks (dp_lib deps) s) (\<lambda>contexts.
     bind_res (parsed (s_answer_segments s)) (\<lambda>segs.
       let (citations, types) = assemble_citations (dp_uuid deps) segs contexts (s_domain_id s) in
       Inr (s\<lparr>s_citations := citations, s_citation_types := types,
              s_final_answer := concat (map seg_text segs),
              s_limitations := merge_limitations (dp_lib deps) (s_limitations s) segs\<rparr>)))"

section \<open>Confidence and Gate 2\<close>

definition compute_confidence_node :: "rag_deps \<Rightarrow> rag_state \<Rightarrow> rag_state res" where
  "compute_confidence_node deps s =
     bind_res (thresholds_from_state (dp_lib deps) s) (\<lambda>thresholds.
     bind_res (final_contexts_as_chunks (dp_lib deps) s) (\<lambda>contexts.
     bind_res (parsed (s_answer_segments s)) (\<lambda>segs.
       Inr (s\<lparr>s_confidence := compute_confidence segs (s_citations s) contexts (s_unsupported_ratio s)
                thresholds\<rparr>))))"

definition gate_2_node :: "pylib \<Rightarrow> rag_state \<Rightarrow> rag_state res" where
  "gate_2_node L s =
     bind_res (thresholds_from_state L s) (\<lambda>thresholds.
       let (passed, reason) = evaluate_gate_2 (s_citations s) (s_unsupported_ratio s) (s_confidence s) thresholds;
           out = s\<lparr>s_gate2_passed := passed\<rparr>
       in Inr (if passed then out
               else out\<lparr>s_fallback_reason :=
                 Some (if truthy_str reason then ''gate2_'' @ the reason else ''gate2_failed'')\<rparr>))"

section \<open>Fallback and the log\<close>

definition FALLBACK_DEFAULT_TEXT :: string where
  "FALLBACK_DEFAULT_TEXT =
     [CHR 0xED, CHR 0x98, CHR 0x84, CHR 0xEC, CHR 0x9E, CHR 0xAC, CHR 0x20, CHR 0xEB, CHR 0x93,
     CHR 0xB1, CHR 0xEB, CHR 0xA1, CHR 0x9D, CHR 0xEB, CHR 0x90, CHR 0x9C, CHR 0x20, CHR 0xEB,
     CHR 0xAC, CHR 0xB8, CHR 0xEC, CHR 0x84, CHR 0x9C, CHR 0xEC, CHR 0x97, CHR 0x90, CHR 0xEC,
     CHR 0x84, CHR 0x9C, CHR 0x20, CHR 0xEC, CHR 0xB6, CHR 0xA9, CHR 0xEB, CHR 0xB6, CHR 0x84,
     CHR 0xED, CHR 0x95, CHR 0x9C, CHR 0x20, CHR 0xEA, CHR 0xB7, CHR 0xBC, CHR 0xEA, CHR 0xB1,
     CHR 0xB0, CHR 0xEB, CHR 0xA5, CHR 0xBC, CHR 0x20, CHR 0xEC, CHR 0xB0, CHR 0xBE, CHR 0xEC,
     CHR 0xA7, CHR 0x80, CHR 0x20, CHR 0xEB, CHR 0xAA, CHR 0xBB, CHR 0xED, CHR 0x96, CHR 0x88,
     CHR 0xEC, CHR 0x8A, CHR 0xB5, CHR 0xEB, CHR 0x8B, CHR 0x88, CHR 0xEB, CHR 0x8B, CHR 0xA4,
     CHR 0x2E]"

definition FALLBACK_INPUT_PII_TEXT :: string where
  "FALLBACK_INPUT_PII_TEXT =
     [CHR 0xEA, CHR 0xB0, CHR 0x9C, CHR 0xEC, CHR 0x9D, CHR 0xB8, CHR 0xEC, CHR 0xA0, CHR 0x95,
     CHR 0xEB, CHR 0xB3, CHR 0xB4, CHR 0xEB, CHR 0xA1, CHR 0x9C, CHR 0x20, CHR 0xEB, CHR 0xB3,
     CHR 0xB4, CHR 0xEC, CHR 0x9D, CHR 0xB4, CHR 0xEB, CHR 0x8A, CHR 0x94, CHR 0x20, CHR 0xEC,
     CHR 0xA0, CHR 0x95, CHR 0xEB, CHR 0xB3, CHR 0xB4, CHR 0xEA, CHR 0xB0, CHR 0x80, CHR 0x20,
     CHR 0xED, CHR 0x8F, CHR 0xAC, CHR 0xED, CHR 0x95, CHR 0xA8, CHR 0xEB, CHR 0x90, CHR 0x98,
     CHR 0xEC, CHR 0x96, CHR 0xB4, CHR 0x20, CHR 0xEC, CHR 0x9E, CHR 0x88, CHR 0xEC, CHR 0x8A,
     CHR 0xB5, CHR 0xEB, CHR 0x8B, CHR 0x88, CHR 0xEB, CHR 0x8B, CHR 0xA4, CHR 0x2E, CHR 0x20,
     CHR 0xEB, CHR 0xAF, CHR 0xBC, CHR 0xEA, CHR 0xB0, CHR 0x90, CHR 0xED, CHR 0x95, CHR 0x9C,
     CHR 0x20, CHR 0xEC, CHR 0xA0, CHR 0x95, CHR 0xEB, CHR 0xB3, CHR 0xB4, CHR 0xEB, CHR 0xA5,
     CHR 0xBC, CHR 0x20, CHR 0xEC, CHR 0xA0, CHR 0x9C, CHR 0xEA, CHR 0xB1, CHR 0xB0, CHR 0xED,
     CHR 0x95, CHR 0x98, CHR 0xEA, CHR 0xB3, CHR 0xA0, CHR 0x20, CHR 0xEB, CHR 0x8B, CHR 0xA4,
     CHR 0xEC, CHR 0x8B, CHR 0x9C, CHR 0x20, CHR 0xEC, CHR 0x8B, CHR 0x9C, CHR 0xEB, CHR 0x8F,
     CHR 0x84, CHR 0xED, CHR 0x95, CHR 0xB4, CHR 0x20, CHR 0xEC, CHR 0xA3, CHR 0xBC, CHR 0xEC,
     CHR 0x84, CHR 0xB8, CHR 0xEC, CHR 0x9A, CHR 0x94, CHR 0x2E]"

definition fallback_node :: "rag_state \<Rightarrow> rag_state" where
  "fallback_node s =
     (let reason = str_or (s_fallback_reason s) ''unknown'';
          (txt, support) = (if reason = ''input_pii_blocked''
             then (FALLBACK_INPUT_PII_TEXT, ''input_pii_blocked'')
             else (FALLBACK_DEFAULT_TEXT, ''fallback''))
      in s\<lparr>s_answer_segments := Raw [PDict [(''text'', PStr txt), (''citations'', PList []),
                                         (''support_type'', PStr support)]],
           s_limitations := PStr (''fallback_reason='' @ reason), s_final_answer := txt,
           s_confidence := 0\<rparr>)"

definition excerpt :: "pydict \<Rightarrow> pydict" where
  "excerpt c = map (\<lambda>k. (k, dget c k PNone)) [''chunk_id'', ''doc_id'', ''title'', ''page_number'',
     ''section_title'', ''fused_score'', ''rerank_score'', ''content'']"

definition routing_log :: "rag_state \<Rightarrow> pydict" where
  "routing_log s =
     [(''matched_rule'', opt_str (s_matched_rule s)), (''selected_model'', opt_str (s_selected_model s)),
      (''selected_lora'', s_selected_lora s), (''use_rag'', PBool (s_use_rag s)),
      (''ui_mode'', PStr (s_ui_mode s)), (''grounding'', PStr (s_grounding s)),
      (''retrieval_error'', opt_str (s_retrieval_error s))]
     @ (if s_grounding s = ''assessment'' \<and> s_assessment_items s \<noteq> []
        then [(''assessment_items'', PList (s_assessment_items s)),
              (''assessment_plan'', PList (s_assessment_plan s))] else [])"

definition chat_log_payload_of :: "rag_state \<Rightarrow> chat_log_payload" where
  "chat_log_payload_of s =
     \<lparr>cl_domain_id = s_domain_id s, cl_request_id = s_request_id s, cl_user_id = s_user_id s,
      cl_conversation_id = s_conversation_id s,
      cl_question = (if s_question_for_storage s = [] then s_question s else s_question_for_storage s),
      cl_answer = s_final_answer s,
      cl_retrieved_chunks = map excerpt (s_final_contexts s),
      cl_citations = s_citations s, cl_citation_types = s_citation_types s,
      cl_rewritten_query = (if s_rewritten_query s = [] then None else Some (s_rewritten_query s)),
      cl_llm_model = s_selected_model s, cl_lora_adapter = s_selected_lora s, cl_ui_mode = s_ui_mode s,
      cl_confidence = s_confidence s, cl_fallback_reason = s_fallback_reason s,
      cl_unsupported_ratio = s_unsupported_ratio s, cl_verifier_metrics = s_verifier_metrics s,
      cl_routing_decision = routing_log s, cl_classifier_decision = s_classifier_decision s,
      cl_model_failure_chain = s_model_failure_chain s,
      cl_inference_judge_results = s_inference_judge_results s,
      cl_conflict_groups = s_conflict_groups s, cl_input_pii_found = s_input_pii_found s,
      cl_output_pii_masked = s_output_pii_masked s,
      cl_pii_storage_policy = (if s_pii_storage_policy s = [] then ''mask'' else s_pii_storage_policy s),
      cl_feedback = None, cl_feedback_comment = None,
      cl_latency_ms = (if s_latency_ms s = 0 then None else Some (s_latency_ms s))\<rparr>"

definition save_chat_log_node :: "rag_deps \<Rightarrow> rag_state \<times> chat_log \<Rightarrow> rag_state \<times> chat_log" where
  "save_chat_log_node deps = (\<lambda>(s, w).
     if \<not> dp_chat_log_writer deps then (s, w)
     else let (cid, w') = write_chat_log (chat_log_payload_of s) w
          in (s\<lparr>s_conversation_id := Some cid\<rparr>, w'))"

section \<open>Conditional edges\<close>

definition check_input_pii_router :: "rag_state \<Rightarrow> string" where
  "check_input_pii_router s = (if s_input_blocked s then ''fallback'' else ''build_acl_filter'')"

definition assessment_intent_router :: "rag_state \<Rightarrow> string" where
  "assessment_intent_router s =
     (if s_query_type s = Some ''assessment_generation'' then ''assessment'' else ''query_rewrite'')"

definition gate_1_router :: "rag_state \<Rightarrow> string" where
  "gate_1_router s = (if s_gate1_passed s then ''generate_answer'' else ''fallback'')"

definition gate_1_full_router :: "rag_state \<Rightarrow> string" where
  "gate_1_full_router s = (if s_gate1_passed s then ''generate_answer'' else ''generate_ungrounded'')"

definition post_mask_grounding_router :: "rag_state \<Rightarrow> string" where
  "post_mask_grounding_router s =
     (if s_grounding s = ''grounded'' then ''compute_confidence'' else ''save_chat_log'')"

definition gate_2_router :: "rag_state \<Rightarrow> string" where
  "gate_2_router s = (if s_gate2_passed s then ''success'' else ''fallback'')"

end
