(* ===== verification/Graph.thy ===== *)
theory Graph
  imports Nodes
begin

text \<open>
  The compiled chat graphs of \<open>workflows/rag_graph.py\<close>. A compiled graph starts at the entry point,
  runs the node, merges its update into the state and follows the edge (or the conditional edge, whose
  router reads the updated state) until \<open>END\<close>. The graph is acyclic, so the run is a total function;
  it returns the nodes visited with the final state and chat log, or the exception that left a node.
\<close>

section \<open>The full chat graph\<close>

datatype node = TenantResolver | LoadTenantConfig | CheckInputPii | BuildAclFilter | ClassifyQuery
  | ModelRouter | QueryRewrite | RetrieveContext | Gate1 | Assessment | GenerateAnswer
  | GenerateUngrounded | ParseResponse | VerifyTier1 | DetectConflict | VerifyTier2 | JudgeInference
  | DetectUnsupported | AssembleResponse | MaskResponsePii | ComputeConfidence | Gate2 | Fallback
  | SaveChatLog

definition pure_node :: "(rag_state \<Rightarrow> rag_state res) \<Rightarrow> rag_state \<times> chat_log \<Rightarrow> (rag_state \<times> chat_log) res" where
  "pure_node f = (\<lambda>(s, w). bind_res (f s) (\<lambda>s'. Inr (s', w)))"

fun run_node :: "rag_deps \<Rightarrow> node \<Rightarrow> rag_state \<times> chat_log \<Rightarrow> (rag_state \<times> chat_log) res" where
  "run_node deps TenantResolver = pure_node (\<lambda>s. Inr (tenant_resolver_node s))"
| "run_node deps LoadTenantConfig = pure_node (load_tenant_config_node deps)"
| "run_node deps CheckInputPii = pure_node (check_input_pii_node deps)"
| "run_node deps BuildAclFilter = pure_node (build_acl_filter_node deps)"
| "run_node deps ClassifyQuery = pure_node (classify_query_node deps)"
| "run_node deps ModelRouter = pure_node (model_router_node deps)"
| "run_node deps QueryRewrite = pure_node (query_rewrite_node deps)"
| "run_node deps RetrieveContext = pure_node (retrieve_context_node deps)"
| "run_node deps Gate1 = pure_node (gate_1_node (dp_lib deps))"
| "run_node deps Assessment = pure_node (assessment_node deps)"
| "run_node deps GenerateAnswer = pure_node (generate_answer_node deps)"
| "run_node deps GenerateUngrounded = pure_node (\<lambda>s. Inr (generate_ungrounded_node deps s))"
| "run_node deps ParseResponse = pure_node (parse_response_node (dp_lib deps))"
| "run_node deps VerifyTier1 = pure_node verify_tier1_node"
| "run_node deps DetectConflict = pure_node (detect_conflict_heuristic_node deps)"
| "run_node deps VerifyTier2 = pure_node (verify_tier2_node deps)"
| "run_node deps JudgeInference = pure_node (judge_inference_node deps)"
| "run_node deps DetectUnsupported = pure_node detect_unsupported_node"
| "run_node deps AssembleResponse = pure_node (assemble_response_node deps)"
| "run_node deps MaskResponsePii = pure_node (mask_response_pii_node deps)"
| "run_node deps ComputeConfidence = pure_node (compute_confidence_node deps)"
| "run_node deps Gate2 = pure_node (gate_2_node (dp_lib deps))"
| "run_node deps Fallback = pure_node (\<lambda>s. Inr (fallback_node s))"
| "run_node deps SaveChatLog = (\<lambda>sw. Inr (save_chat_log_node deps sw))"

text \<open>Edges: the successor of a node in the updated state; \<open>None\<close> is \<open>END\<close>.\<close>

fun next_node :: "node \<Rightarrow> rag_state \<Rightarrow> node option" where
  "next_node TenantResolver s = Some LoadTenantConfig"
| "next_node LoadTenantConfig s = Some CheckInputPii"
| "next_node CheckInputPii s =
     Some (if check_input_pii_router s = ''fallback'' then Fallback else BuildAclFilter)"
| "next_node BuildAclFilter s = Some ClassifyQuery"
| "next_node ClassifyQuery s = Some ModelRouter"
| "next_node ModelRouter s =
     Some (if assessment_intent_router s = ''assessment'' then Assessment else QueryRewrite)"
| "next_node Assessment s = Some MaskResponsePii"
| "next_node QueryRewrite s = Some RetrieveContext"
| "next_node RetrieveContext s = Some Gate1"
| "next_node Gate1 s =
     Some (if gate_1_full_router s = ''generate_answer'' then GenerateAnswer else GenerateUngrounded)"
| "next_node GenerateUngrounded s = Some MaskResponsePii"
| "next_node GenerateAnswer s = Some ParseResponse"
| "next_node ParseResponse s = Some VerifyTier1"
| "next_node VerifyTier1 s = Some DetectConflict"
| "next_node DetectConflict s = Some VerifyTier2"
| "next_node VerifyTier2 s = Some JudgeInference"
| "next_node JudgeInference s = Some DetectUnsupported"
| "next_node DetectUnsupported s = Some AssembleResponse"
| "next_node AssembleResponse s = Some MaskResponsePii"
| "next_node MaskResponsePii s =
     Some (if post_mask_grounding_router s = ''compute_confidence'' then ComputeConfidence else SaveChatLog)"
| "next_node ComputeConfidence s = Some Gate2"
| "next_node Gate2 s = Some (if gate_2_router s = ''success'' then SaveChatLog else Fallback)"
| "next_node Fallback s = Some SaveChatLog"
| "next_node SaveChatLog s = None"

fun rank :: "node \<Rightarrow> nat" where
  \<comment> \<open>the longest path to the end; it falls along every edge\<close>
  "rank SaveChatLog = 0" | "rank Fallback = 1" | "rank Gate2 = 2" | "rank ComputeConfidence = 3"
| "rank MaskResponsePii = 4" | "rank AssembleResponse = 5" | "rank DetectUnsupported = 6"
| "rank JudgeInference = 7" | "rank VerifyTier2 = 8" | "rank DetectConflict = 9" | "rank VerifyTier1 = 10"
| "rank ParseResponse = 11" | "rank GenerateAnswer = 12" | "rank GenerateUngrounded = 12"
| "rank Assessment = 12" | "rank Gate1 = 13" | "rank RetrieveContext = 14" | "rank QueryRewrite = 15"
| "rank ModelRouter = 16" | "rank ClassifyQuery = 17" | "rank BuildAclFilter = 18" | "rank CheckInputPii = 19"
| "rank LoadTenantConfig = 20" | "rank TenantResolver = 21"

lemma rank_decreases: "next_node n s = Some m \<Longrightarrow> rank m < rank n"
  by (cases n) (auto split: if_splits)

function run_from :: "rag_deps \<Rightarrow> node \<Rightarrow> rag_state \<times> chat_log \<Rightarrow> (node list \<times> rag_state \<times> chat_log) res" where
  "run_from deps n sw =
     bind_res (run_node deps n sw) (\<lambda>sw'.
       case next_node n (fst sw') of
         None \<Rightarrow> Inr ([n], sw')
       | Some m \<Rightarrow> bind_res (run_from deps m sw') (\<lambda>(trace, res). Inr (n # trace, res)))"
  by pat_completeness auto
termination
  by (relation "measure (\<lambda>(deps, n, sw). rank n)") (auto simp: rank_decreases)

declare run_from.simps [simp del]

definition run_chat_structured_full ::
  "rag_deps \<Rightarrow> rag_state \<Rightarrow> chat_log \<Rightarrow> (node list \<times> rag_state \<times> chat_log) res" where
  "run_chat_structured_full deps s w = run_from deps TenantResolver (s, w)"

section \<open>Facts: what a node leaves alone\<close>

lemmas node_defs = tenant_resolver_node_def load_tenant_config_node_def check_input_pii_node_def
  build_acl_filter_node_def classify_query_node_def model_router_node_def query_rewrite_node_def
  retrieve_context_node_def gate_1_node_def assessment_node_def generate_answer_node_def
  generate_ungrounded_node_def parse_response_node_def verify_tier1_node_def
  detect_conflict_heuristic_node_def verify_tier2_node_def judge_inference_node_def
  detect_unsupported_node_def assemble_response_node_def mask_response_pii_node_def
  compute_confidence_node_def gate_2_node_def fallback_node_def save_chat_log_node_def

definition static :: "rag_state \<Rightarrow> string \<times> string \<times> string \<times> string \<times> pyval \<times> pyval list" where
  \<comment> \<open>the request itself, which no node changes\<close>
  "static s = (s_request_id s, s_domain_id s, s_user_id s, s_question s, s_user_context s,
     s_conversation_history s)"

definition frame :: "node \<Rightarrow> rag_state \<Rightarrow> rag_state \<Rightarrow> bool" where
  "frame n s s' \<longleftrightarrow> static s' = static s
     \<and> (n \<noteq> SaveChatLog \<longrightarrow> s_conversation_id s' = s_conversation_id s)
     \<and> (n \<noteq> LoadTenantConfig \<longrightarrow> s_tenant_config s' = s_tenant_config s)
     \<and> (n \<noteq> BuildAclFilter \<longrightarrow> s_acl_filter s' = s_acl_filter s)
     \<and> (n \<noteq> RetrieveContext \<longrightarrow> s_final_contexts s' = s_final_contexts s
          \<and> s_reranked_chunks s' = s_reranked_chunks s \<and> s_retrieved_chunks s' = s_retrieved_chunks s)
     \<and> (n \<notin> {GenerateUngrounded, Assessment} \<longrightarrow> s_grounding s' = s_grounding s
          \<and> (n \<noteq> AssembleResponse \<longrightarrow> s_citations s' = s_citations s))
     \<and> (n \<noteq> CheckInputPii \<longrightarrow> s_input_blocked s' = s_input_blocked s
          \<and> s_question_for_storage s' = s_question_for_storage s
          \<and> s_pii_storage_policy s' = s_pii_storage_policy s)
     \<and> (n \<noteq> Gate2 \<longrightarrow> s_gate2_passed s' = s_gate2_passed s)
     \<and> (n \<noteq> DetectUnsupported \<longrightarrow> s_unsupported_ratio s' = s_unsupported_ratio s)"

lemma frame_setup:
  "frame TenantResolver s (tenant_resolver_node s)"
  "load_tenant_config_node deps s = Inr s' \<Longrightarrow> frame LoadTenantConfig s s'"
  "build_acl_filter_node deps s = Inr s' \<Longrightarrow> frame BuildAclFilter s s'"
  "classify_query_node deps s = Inr s' \<Longrightarrow> frame ClassifyQuery s s'"
  "model_router_node deps s = Inr s' \<Longrightarrow> frame ModelRouter s s'"
  "query_rewrite_node deps s = Inr s' \<Longrightarrow> frame QueryRewrite s s'"
  by (auto simp: node_defs frame_def static_def Let_def simp del: bind_res_eq_Inr elim!: bind_res_InrE
      split: if_splits option.splits pyval.splits)

lemma frame_retrieval:
  "retrieve_context_node deps s = Inr s' \<Longrightarrow> frame RetrieveContext s s'"
  "gate_1_node L s = Inr s' \<Longrightarrow> frame Gate1 s s'"
  by (auto simp: node_defs frame_def static_def Let_def simp del: bind_res_eq_Inr elim!: bind_res_InrE
      split: if_splits sum.splits)

lemma frame_generation:
  "assessment_node deps s = Inr s' \<Longrightarrow> frame Assessment s s'"
  "generate_answer_node deps s = Inr s' \<Longrightarrow> frame GenerateAnswer s s'"
  "frame GenerateUngrounded s (generate_ungrounded_node deps s)"
  by (auto simp: node_defs frame_def static_def Let_def chain_outcome_def simp del: bind_res_eq_Inr
      elim!: bind_res_InrE split: if_splits sum.splits option.splits prod.splits)

lemma frame_pii:
  "check_input_pii_node deps s = Inr s' \<Longrightarrow> frame CheckInputPii s s'"
  "mask_response_pii_node deps s = Inr s' \<Longrightarrow> frame MaskResponsePii s s'"
  by (auto simp: node_defs frame_def static_def Let_def simp del: bind_res_eq_Inr elim!: bind_res_InrE
      split: if_splits option.splits)

lemma frame_verification:
  "parse_response_node L s = Inr s' \<Longrightarrow> frame ParseResponse s s'"
  "verify_tier1_node s = Inr s' \<Longrightarrow> frame VerifyTier1 s s'"
  "verify_tier2_node deps s = Inr s' \<Longrightarrow> frame VerifyTier2 s s'"
  "judge_inference_node deps s = Inr s' \<Longrightarrow> frame JudgeInference s s'"
  "detect_unsupported_node s = Inr s' \<Longrightarrow> frame DetectUnsupported s s'"
  by (auto simp: node_defs frame_def static_def Let_def simp del: bind_res_eq_Inr elim!: bind_res_InrE
      split: if_splits option.splits prod.splits)

lemma frame_conflict: "detect_conflict_heuristic_node deps s = Inr s' \<Longrightarrow> frame DetectConflict s s'"
  by (auto simp: node_defs frame_def static_def Let_def simp del: bind_res_eq_Inr elim!: bind_res_InrE
      split: if_splits option.splits)

lemma frame_gate2:
  "assemble_response_node deps s = Inr s' \<Longrightarrow> frame AssembleResponse s s'"
  "compute_confidence_node deps s = Inr s' \<Longrightarrow> frame ComputeConfidence s s'"
  "gate_2_node L s = Inr s' \<Longrightarrow> frame Gate2 s s'"
  by (auto simp: node_defs frame_def static_def Let_def simp del: bind_res_eq_Inr elim!: bind_res_InrE
      split: if_splits prod.splits)

lemma frame_fallback: "frame Fallback s (fallback_node s)"
  by (simp add: fallback_node_def frame_def static_def Let_def split: prod.split)

lemma frame_save: "frame SaveChatLog s (fst (save_chat_log_node deps (s, w)))"
  by (auto simp: node_defs frame_def static_def Let_def simp del: bind_res_eq_Inr elim!: bind_res_InrE
      split: if_splits option.splits prod.splits)

lemmas frames = frame_setup frame_retrieval frame_generation frame_pii frame_verification frame_conflict frame_gate2
  frame_fallback

lemma run_node_frame:
  assumes "run_node deps n (s, w) = Inr (s', w')"
  shows "frame n s s'"
  using assms frame_save [of s deps w]
  by (cases n) (auto simp: pure_node_def intro: frames)

section \<open>Facts: traces\<close>

lemma next_None: "next_node n s = None \<longleftrightarrow> n = SaveChatLog"
  by (cases n) auto

lemma run_from_cases:
  assumes "run_from deps n sw = Inr (trace, res)"
  obtains (last) "n = SaveChatLog" "trace = [n]" "run_node deps n sw = Inr res"
  | (step) sw' m rest where "run_node deps n sw = Inr sw'" "next_node n (fst sw') = Some m"
      "run_from deps m sw' = Inr (rest, res)" "trace = n # rest"
  using assms
  by (subst (asm) run_from.simps)
    (auto simp: next_None simp del: bind_res_eq_Inr elim!: bind_res_InrE split: option.splits)

lemma run_from_trace:
  "run_from deps n sw = Inr (trace, res) \<Longrightarrow>
     hd trace = n \<and> last trace = SaveChatLog \<and> sorted_wrt (\<lambda>a b. rank b < rank a) trace
     \<and> length trace \<le> Suc (rank n) \<and> (\<forall>m \<in> set trace. rank m \<le> rank n) \<and> trace \<noteq> []"
proof (induction deps n sw arbitrary: trace res rule: run_from.induct)
  case (1 deps n sw)
  from 1(2) show ?case
  proof (cases rule: run_from_cases)
    case last
    then show ?thesis by simp
  next
    case (step sw' m rest)
    have r: "rank m < rank n" using step(2) by (rule rank_decreases)
    from 1(1) [OF step(2,3)] r show ?thesis
      by (auto simp: step(4))
  qed
qed

lemma sorted_rank_distinct: "sorted_wrt (\<lambda>a b. rank b < rank a) trace \<Longrightarrow> distinct trace"
  by (induction trace) auto

section \<open>Invariants of a run\<close>

text \<open>
  A predicate on the node about to run and the current state and log that every step keeps holds
  when the last node is entered. The invariants below are interpretations of this locale.
\<close>

locale graph_invariant =
  fixes deps :: rag_deps and P :: "node \<Rightarrow> rag_state \<times> chat_log \<Rightarrow> bool"
  assumes step: "P n sw \<Longrightarrow> run_node deps n sw = Inr sw' \<Longrightarrow> next_node n (fst sw') = Some m \<Longrightarrow> P m sw'"
begin

lemma at_end:
  assumes "run_from deps n sw = Inr (trace, res)" and "P n sw"
  shows "\<exists>sw0. P SaveChatLog sw0 \<and> res = save_chat_log_node deps sw0"
  using assms
proof (induction "rank n" arbitrary: n sw trace rule: less_induct)
  case less
  from less.prems(1) show ?case
  proof (cases rule: run_from_cases)
    case last
    then have "res = save_chat_log_node deps sw" "P SaveChatLog sw" using less.prems(2) by auto
    then show ?thesis by blast
  next
    case (step sw' m rest)
    then show ?thesis
      using less.hyps [OF rank_decreases [OF step(2)] step(3)] graph_invariant.step [OF graph_invariant_axioms less.prems(2)]
      by blast
  qed
qed

end

lemma pure_node_log: "pure_node f (s, w) = Inr (s', w') \<Longrightarrow> w' = w \<and> f s = Inr s'"
  by (auto simp: pure_node_def)

lemma run_node_log: "run_node deps n (s, w) = Inr (s', w') \<Longrightarrow> n \<noteq> SaveChatLog \<Longrightarrow> w' = w"
  by (cases n) (auto dest: pure_node_log)

subsection \<open>The log is written once, at the end\<close>

definition log_unchanged :: "chat_log \<Rightarrow> node \<Rightarrow> rag_state \<times> chat_log \<Rightarrow> bool" where
  "log_unchanged w0 n sw \<longleftrightarrow> snd sw = w0"

interpretation unlogged: graph_invariant deps "log_unchanged w0" for deps w0
proof
  fix n sw sw' m
  assume a: "log_unchanged w0 n sw" "run_node deps n sw = Inr sw'" "next_node n (fst sw') = Some m"
  then have "n \<noteq> SaveChatLog" by auto
  with a show "log_unchanged w0 m sw'"
    by (cases sw; cases sw') (auto simp: log_unchanged_def dest: run_node_log)
qed

subsection \<open>Answers without grounding have no citations\<close>

definition cites_only_if_grounded :: "node \<Rightarrow> rag_state \<times> chat_log \<Rightarrow> bool" where
  "cites_only_if_grounded n sw \<longleftrightarrow>
     (5 \<le> rank n \<longrightarrow> s_grounding (fst sw) = ''grounded'')
     \<and> (s_grounding (fst sw) \<noteq> ''grounded'' \<longrightarrow> s_citations (fst sw) = [])"

lemma ungrounded_no_citations:
  "s_citations (generate_ungrounded_node deps s) = []"
  "assessment_node deps s = Inr s' \<Longrightarrow> s_citations s' = []"
  by (auto simp: generate_ungrounded_node_def assessment_node_def Let_def simp del: bind_res_eq_Inr
      elim!: bind_res_InrE split: sum.splits option.splits)

lemma rank_next_low:
  "next_node n s = Some m \<Longrightarrow> 5 \<le> rank m \<Longrightarrow> 5 \<le> rank n \<and> n \<notin> {GenerateUngrounded, Assessment}"
  by (cases n) (auto split: if_splits)

interpretation grounded: graph_invariant deps cites_only_if_grounded for deps
proof
  fix n sw sw' m
  assume a: "cites_only_if_grounded n sw" "run_node deps n sw = Inr sw'" "next_node n (fst sw') = Some m"
  obtain s w s' w' where sw: "sw = (s, w)" "sw' = (s', w')" by (cases sw; cases sw')
  have f: "frame n s s'" using a(2) sw by (auto intro: run_node_frame)
  show "cites_only_if_grounded m sw'"
  proof (cases "n \<in> {GenerateUngrounded, Assessment}")
    case True
    then show ?thesis
      using a(2,3) sw ungrounded_no_citations rank_next_low [OF a(3)]
      by (auto simp: cites_only_if_grounded_def pure_node_def)
  next
    case False
    then show ?thesis
      using a(1) f sw rank_next_low [OF a(3)]
      by (cases "n = AssembleResponse") (auto simp: cites_only_if_grounded_def frame_def)
  qed
qed

subsection \<open>Retrieved contexts come from the filtered query\<close>

definition reader_of :: "pylib \<Rightarrow> pyval \<Rightarrow> reader res" where
  \<comment> \<open>the reader that a user context describes\<close>
  "reader_of L user_context =
     bind_res (opt_dict user_context) (\<lambda>user.
     bind_res (py_iter (py_or (dget user ''domain_groups'' PNone) (PList []))) (\<lambda>groups.
     bind_res (map_res as_str groups) (\<lambda>domain_groups.
       let department = dget user ''department'' PNone in
       Inr \<lparr>rd_user_id = py_str L (dget user ''user_id'' (PStr [])),
            rd_clearance = py_str L (dget user ''clearance'' (PStr ''internal'')),
            rd_department = (if truthy department then Some (py_str L department) else None),
            rd_groups = domain_groups\<rparr>)))"

definition filter_for :: "rag_deps \<Rightarrow> reader \<Rightarrow> bool \<Rightarrow> acl_filter" where
  "filter_for deps r excl = build_qdrant_acl_filter (rd_user_id r) (rd_clearance r) (rd_department r)
     (rd_groups r) (dp_today deps) excl"

lemma build_acl_filter_reader:
  assumes "build_acl_filter_node deps s = Inr s'"
  shows "\<exists>r excl. reader_of (dp_lib deps) (s_user_context s) = Inr r \<and> s_acl_filter s' = Some (filter_for deps r excl)"
  using assms
  by (auto simp: build_acl_filter_node_def reader_of_def filter_for_def Let_def simp del: bind_res_eq_Inr
      elim!: bind_res_InrE split: pyval.splits)

lemma retrieve_context_result:
  assumes "retrieve_context_node deps s = Inr s'"
  shows "s_final_contexts s' = [] \<or> (\<exists>q cfg res. dp_retrieve deps (s_domain_id s) q (s_acl_filter s) cfg = Inr res
    \<and> s_final_contexts s' = map chunk_to_dict (rr_contexts res))"
proof -
  let ?q = "if s_rewritten_query s = [] then s_question s else s_rewritten_query s"
  obtain config cfg where c: "opt_dict (s_tenant_config s) = Inr config"
      "retrieval_config_from_tenant (dp_lib deps) config = Inr cfg"
    using assms by (auto simp: retrieve_context_node_def)
  show ?thesis
  proof (cases "dp_retrieve deps (s_domain_id s) ?q (s_acl_filter s) cfg")
    case (Inl e)
    then show ?thesis using assms c by (auto simp: retrieve_context_node_def Let_def)
  next
    case (Inr res)
    then have "s_final_contexts s' = map chunk_to_dict (rr_contexts res)"
      using assms c by (auto simp: retrieve_context_node_def Let_def)
    then show ?thesis using Inr by blast
  qed
qed

definition filtered_from ::
  "rag_deps \<Rightarrow> rag_state \<Rightarrow> node \<Rightarrow> rag_state \<times> chat_log \<Rightarrow> bool" where
  \<comment> \<open>\<open>s0\<close> is the request; contexts were returned by a query with the filter of its user\<close>
  "filtered_from deps s0 n sw \<longleftrightarrow> (let s = fst sw in
     static s = static s0
     \<and> (n \<in> {ClassifyQuery, ModelRouter, QueryRewrite, RetrieveContext} \<longrightarrow>
          (\<exists>r excl. reader_of (dp_lib deps) (s_user_context s0) = Inr r \<and> s_acl_filter s = Some (filter_for deps r excl)))
     \<and> (s_final_contexts s = [] \<or> (\<exists>r excl q cfg res. reader_of (dp_lib deps) (s_user_context s0) = Inr r
          \<and> dp_retrieve deps (s_domain_id s0) q (Some (filter_for deps r excl)) cfg = Inr res
          \<and> s_final_contexts s = map chunk_to_dict (rr_contexts res))))"

lemma static_fields:
  "static s = static s0 \<Longrightarrow> s_user_context s = s_user_context s0 \<and> s_domain_id s = s_domain_id s0
     \<and> s_question s = s_question s0 \<and> s_request_id s = s_request_id s0 \<and> s_user_id s = s_user_id s0"
  by (simp add: static_def)

lemma next_filtered:
  "next_node n s = Some m \<Longrightarrow> m \<in> {ClassifyQuery, ModelRouter, QueryRewrite, RetrieveContext} \<Longrightarrow>
     n = BuildAclFilter \<or> n \<in> {ClassifyQuery, ModelRouter, QueryRewrite}"
  by (cases n) (auto split: if_splits)

interpretation filtered: graph_invariant deps "filtered_from deps s0" for deps s0
proof
  fix n sw sw' m
  assume a: "filtered_from deps s0 n sw" "run_node deps n sw = Inr sw'" "next_node n (fst sw') = Some m"
  obtain s w s' w' where sw: "sw = (s, w)" "sw' = (s', w')" by (cases sw; cases sw')
  have f: "frame n s s'" using a(2) sw by (auto intro: run_node_frame)
  have st: "static s = static s0" using a(1) sw by (simp add: filtered_from_def)
  have acl: "\<exists>r excl. reader_of (dp_lib deps) (s_user_context s0) = Inr r \<and> s_acl_filter s' = Some (filter_for deps r excl)"
    if m: "m \<in> {ClassifyQuery, ModelRouter, QueryRewrite, RetrieveContext}"
  proof (cases "n = BuildAclFilter")
    case True
    then have "build_acl_filter_node deps s = Inr s'" using a(2) sw by (auto dest: pure_node_log)
    from build_acl_filter_reader [OF this] show ?thesis using static_fields [OF st] by simp
  next
    case False
    then have "n \<in> {ClassifyQuery, ModelRouter, QueryRewrite}" using next_filtered [OF a(3) m] by auto
    then show ?thesis using a(1) f sw False by (auto simp: filtered_from_def frame_def Let_def)
  qed
  have ctx: "s_final_contexts s' = [] \<or> (\<exists>r excl q cfg res. reader_of (dp_lib deps) (s_user_context s0) = Inr r
          \<and> dp_retrieve deps (s_domain_id s0) q (Some (filter_for deps r excl)) cfg = Inr res
          \<and> s_final_contexts s' = map chunk_to_dict (rr_contexts res))"
  proof (cases "n = RetrieveContext")
    case True
    then have r: "retrieve_context_node deps s = Inr s'" using a(2) sw by (auto dest: pure_node_log)
    obtain rd excl where "reader_of (dp_lib deps) (s_user_context s0) = Inr rd"
        "s_acl_filter s = Some (filter_for deps rd excl)"
      using a(1) sw True by (auto simp: filtered_from_def Let_def)
    then show ?thesis
      using retrieve_context_result [OF r] static_fields [OF st] by metis
  next
    case False
    then show ?thesis using a(1) f sw by (simp add: filtered_from_def frame_def Let_def)
  qed
  have "static s' = static s0" using f st by (simp add: frame_def)
  then show "filtered_from deps s0 m sw'"
    using acl ctx sw unfolding filtered_from_def Let_def by simp
qed

subsection \<open>A grounded success passed Gate 2\<close>

definition gate2_ok :: "pylib \<Rightarrow> rag_state \<Rightarrow> bool" where
  "gate2_ok L s \<longleftrightarrow> (\<exists>t. thresholds_from_state L s = Inr t
     \<and> min_verified_count t \<le> int (verified_citations (s_citations s))
     \<and> s_unsupported_ratio s \<le> max_unsupported_ratio t \<and> min_confidence t \<le> s_confidence s)"

definition verified_success :: "pylib \<Rightarrow> node \<Rightarrow> rag_state \<times> chat_log \<Rightarrow> bool" where
  "verified_success L n sw \<longleftrightarrow> (let s = fst sw in
     cites_only_if_grounded n sw
     \<and> (n \<in> {TenantResolver, LoadTenantConfig, CheckInputPii} \<longrightarrow> \<not> s_input_blocked s)
     \<and> (n = Fallback \<longrightarrow> truthy_str (s_fallback_reason s))
     \<and> (n = SaveChatLog \<longrightarrow> s_grounding s = ''grounded'' \<longrightarrow> \<not> truthy_str (s_fallback_reason s) \<longrightarrow> gate2_ok L s))"

lemma gate_2_outcome:
  assumes "gate_2_node L s = Inr s'"
  shows "if s_gate2_passed s' then gate2_ok L s' else truthy_str (s_fallback_reason s')"
proof -
  obtain t where t: "thresholds_from_state L s = Inr t"
    using assms by (auto simp: gate_2_node_def)
  have t': "thresholds_from_state L (s\<lparr>s_gate2_passed := b\<rparr>) = Inr t" for b
    using t by (simp add: thresholds_from_state_def config_entry_def)
  show ?thesis
    using assms t t'
    by (auto simp: gate_2_node_def evaluate_gate_2_def gate2_ok_def truthy_str_def Let_def split: if_splits)
qed

lemma check_input_blocked_reason:
  assumes "check_input_pii_node deps s = Inr s'" and "\<not> s_input_blocked s" and "s_input_blocked s'"
  shows "s_fallback_reason s' = Some ''input_pii_blocked''"
  using assms
  by (auto simp: check_input_pii_node_def Let_def simp del: bind_res_eq_Inr elim!: bind_res_InrE
      split: option.splits if_splits)

lemma fallback_reason_kept: "s_fallback_reason (fallback_node s) = s_fallback_reason s"
  by (simp add: fallback_node_def Let_def split: prod.split)

lemma next_SaveChatLog:
  "next_node n s = Some SaveChatLog \<Longrightarrow>
     n = MaskResponsePii \<and> s_grounding s \<noteq> ''grounded'' \<or> n = Gate2 \<and> s_gate2_passed s \<or> n = Fallback"
  by (cases n) (auto simp: post_mask_grounding_router_def gate_2_router_def split: if_splits)

lemma next_Fallback:
  "next_node n s = Some Fallback \<Longrightarrow> n = CheckInputPii \<and> s_input_blocked s \<or> n = Gate2 \<and> \<not> s_gate2_passed s"
  by (cases n) (auto simp: check_input_pii_router_def gate_2_router_def split: if_splits)

lemma next_early:
  "next_node n s = Some m \<Longrightarrow> m \<in> {TenantResolver, LoadTenantConfig, CheckInputPii} \<Longrightarrow>
     n \<in> {TenantResolver, LoadTenantConfig}"
  by (cases n) (auto split: if_splits)

interpretation verified: graph_invariant deps "verified_success (dp_lib deps)" for deps
proof
  fix n sw sw' m
  assume a: "verified_success (dp_lib deps) n sw" "run_node deps n sw = Inr sw'" "next_node n (fst sw') = Some m"
  obtain s w s' w' where sw: "sw = (s, w)" "sw' = (s', w')" by (cases sw; cases sw')
  have f: "frame n s s'" using a(2) sw by (auto intro: run_node_frame)
  have n: "next_node n s' = Some m" using a(3) sw by simp
  have c: "cites_only_if_grounded m sw'"
    using grounded.step [OF _ a(2,3)] a(1) by (simp add: verified_success_def Let_def)
  have e: "\<not> s_input_blocked s'" if "m \<in> {TenantResolver, LoadTenantConfig, CheckInputPii}"
    using next_early [OF n that] a(1) f sw by (auto simp: verified_success_def frame_def Let_def)
  have fb: "truthy_str (s_fallback_reason s')" if "m = Fallback"
    using next_Fallback [OF n [unfolded that]]
  proof (elim disjE conjE)
    assume "n = CheckInputPii" "s_input_blocked s'"
    then show ?thesis
      using check_input_blocked_reason [of deps s s'] a(1,2) sw
      by (auto simp: verified_success_def truthy_str_def dest: pure_node_log)
  next
    assume "n = Gate2" "\<not> s_gate2_passed s'"
    then show ?thesis using gate_2_outcome [of "dp_lib deps" s s'] a(2) sw by (auto dest: pure_node_log)
  qed
  have ok: "gate2_ok (dp_lib deps) s'"
    if "m = SaveChatLog" "s_grounding s' = ''grounded''" "\<not> truthy_str (s_fallback_reason s')"
    using next_SaveChatLog [OF n [unfolded that(1)]]
  proof (elim disjE conjE)
    assume "n = Gate2" "s_gate2_passed s'"
    then show ?thesis using gate_2_outcome [of "dp_lib deps" s s'] a(2) sw by (auto dest: pure_node_log)
  next
    assume "n = Fallback"
    then show ?thesis
      using that(3) a(1,2) sw by (auto simp: verified_success_def fallback_reason_kept dest: pure_node_log)
  qed (use that(2) in simp)
  show "verified_success (dp_lib deps) m sw'"
    using c e fb ok sw by (simp add: verified_success_def Let_def)
qed

section \<open>Properties\<close>

lemma initial_state_fields [simp]:
  "s_grounding (initial_state rid d uid cid q h uc model) = ''grounded''"
  "s_citations (initial_state rid d uid cid q h uc model) = []"
  "s_final_contexts (initial_state rid d uid cid q h uc model) = []"
  "\<not> s_input_blocked (initial_state rid d uid cid q h uc model)"
  "s_domain_id (initial_state rid d uid cid q h uc model) = d"
  "s_user_context (initial_state rid d uid cid q h uc model) = uc"
  "s_question (initial_state rid d uid cid q h uc model) = q"
  "s_request_id (initial_state rid d uid cid q h uc model) = rid"
  by (simp_all add: initial_state_def)

lemma save_outcome:
  "save_chat_log_node deps (s, w) = (s', w') \<Longrightarrow>
     \<exists>cid. s' = s\<lparr>s_conversation_id := cid\<rparr> \<and>
       (if dp_chat_log_writer deps
        then log_records w' = log_records w @ [(chat_log_payload_of s)\<lparr>cl_conversation_id := cid\<rparr>]
        else w' = w)"
  by (cases "dp_chat_log_writer deps")
    (auto simp: save_chat_log_node_def write_chat_log_def Let_def chat_log_payload_of_def
      intro: exI [of _ "s_conversation_id s"] split: option.splits)

lemma run_record:
  assumes "run_chat_structured_full deps s w = Inr (trace, s', w')" and "dp_chat_log_writer deps"
  shows "log_records w' = log_records w @ [chat_log_payload_of s']"
proof -
  have r: "run_from deps TenantResolver (s, w) = Inr (trace, s', w')"
    using assms(1) by (simp add: run_chat_structured_full_def)
  obtain sw0 where sw0: "log_unchanged w SaveChatLog sw0" "(s', w') = save_chat_log_node deps sw0"
    using unlogged.at_end [OF r] by (auto simp: log_unchanged_def)
  obtain s0 where "sw0 = (s0, w)" using sw0(1) by (cases sw0) (simp add: log_unchanged_def)
  then obtain cid where "s' = s0\<lparr>s_conversation_id := cid\<rparr>"
      "log_records w' = log_records w @ [(chat_log_payload_of s0)\<lparr>cl_conversation_id := cid\<rparr>]"
    using save_outcome [of deps s0 w s' w'] sw0(2) assms(2) by auto
  then show ?thesis by (simp add: chat_log_payload_of_def routing_log_def)
qed

text \<open>
  (C6) Every request is answered once and logged once: a run that no node aborts ends in
  \<open>save_chat_log\<close> after at most 22 distinct nodes (below the 25 steps that the graph engine allows by
  default), and appends exactly one record to the chat log, which holds the answer, the citations,
  the fallback reason and the conversation of the final state.
\<close>

theorem every_run_logged:
  assumes "run_chat_structured_full deps s w = Inr (trace, s', w')" and "dp_chat_log_writer deps"
  shows "hd trace = TenantResolver \<and> last trace = SaveChatLog \<and> distinct trace \<and> length trace \<le> 22
    \<and> (\<exists>p. log_records w' = log_records w @ [p] \<and> cl_answer p = s_final_answer s'
         \<and> cl_citations p = s_citations s' \<and> cl_fallback_reason p = s_fallback_reason s'
         \<and> cl_request_id p = s_request_id s' \<and> cl_domain_id p = s_domain_id s'
         \<and> cl_conversation_id p = s_conversation_id s')"
proof -
  have "run_from deps TenantResolver (s, w) = Inr (trace, s', w')"
    using assms(1) by (simp add: run_chat_structured_full_def)
  with run_record [OF assms] run_from_trace sorted_rank_distinct show ?thesis
    by (fastforce simp: chat_log_payload_of_def)
qed

lemma run_ungrounded_cites_nothing:
  assumes "run_chat_structured_full deps (initial_state rid d uid cid q h uc model) w = Inr (trace, s', w')"
    and "s_grounding s' \<noteq> ''grounded''"
  shows "s_citations s' = []"
proof -
  have r: "run_from deps TenantResolver (initial_state rid d uid cid q h uc model, w) = Inr (trace, s', w')"
    using assms(1) by (simp add: run_chat_structured_full_def)
  obtain s0 w0 where "cites_only_if_grounded SaveChatLog (s0, w0)" "(s', w') = save_chat_log_node deps (s0, w0)"
    using grounded.at_end [OF r] by (auto simp: cites_only_if_grounded_def)
  then show ?thesis
    using save_outcome [of deps s0 w0 s' w'] assms(2) by (auto simp: cites_only_if_grounded_def)
qed

text \<open>
  Ungrounded answers cite nothing: whenever a run ends without grounding (a conversational answer
  after Gate 1 failed, or an assessment), the state that is returned and logged has no citations.
\<close>

theorem ungrounded_cites_nothing:
  assumes "run_chat_structured_full deps (initial_state rid d uid cid q h uc model) w = Inr (trace, s', w')"
    and "s_grounding s' \<noteq> ''grounded''"
  shows "s_citations s' = []"
  by (rule run_ungrounded_cites_nothing [OF assms])

lemma run_grounded_success_is_verified:
  assumes "run_chat_structured_full deps (initial_state rid d uid cid q h uc model) w = Inr (trace, s', w')"
    and "s_grounding s' = ''grounded''" and "\<not> truthy_str (s_fallback_reason s')"
  shows "\<exists>t. thresholds_from_state (dp_lib deps) s' = Inr t
    \<and> min_verified_count t \<le> int (count_if (\<lambda>c. cit_verified c = Some True) (s_citations s'))
    \<and> s_unsupported_ratio s' \<le> max_unsupported_ratio t \<and> min_confidence t \<le> s_confidence s'"
proof -
  have r: "run_from deps TenantResolver (initial_state rid d uid cid q h uc model, w) = Inr (trace, s', w')"
    using assms(1) by (simp add: run_chat_structured_full_def)
  obtain s0 w0 where p: "verified_success (dp_lib deps) SaveChatLog (s0, w0)"
      "(s', w') = save_chat_log_node deps (s0, w0)"
    using verified.at_end [OF r] by (auto simp: verified_success_def cites_only_if_grounded_def)
  then obtain cid where s': "s' = s0\<lparr>s_conversation_id := cid\<rparr>"
    using save_outcome [of deps s0 w0 s' w'] by auto
  then have "gate2_ok (dp_lib deps) s0"
    using p(1) assms(2,3) by (auto simp: verified_success_def)
  then show ?thesis
    by (auto simp: gate2_ok_def s' thresholds_from_state_def config_entry_def verified_citations_def)
qed

text \<open>
  (C2) A grounded success is a verified answer: when a run ends grounded and without a fallback reason,
  which is what the API reports as success with citations, the final citations, unsupported ratio and
  confidence satisfy all three limits of Gate 2 under the tenant's thresholds.
\<close>

theorem grounded_success_is_verified:
  assumes "run_chat_structured_full deps (initial_state rid d uid cid q h uc model) w = Inr (trace, s', w')"
    and "s_grounding s' = ''grounded''" and "s_fallback_reason s' = None"
  shows "\<exists>t. thresholds_from_state (dp_lib deps) s' = Inr t
    \<and> min_verified_count t \<le> int (count_if (\<lambda>c. cit_verified c = Some True) (s_citations s'))
    \<and> s_unsupported_ratio s' \<le> max_unsupported_ratio t \<and> min_confidence t \<le> s_confidence s'"
  by (rule run_grounded_success_is_verified [OF assms(1,2)]) (simp add: assms(3) truthy_str_def)

definition never_blocked :: "node \<Rightarrow> rag_state \<times> chat_log \<Rightarrow> bool" where
  "never_blocked n sw \<longleftrightarrow> n \<notin> {TenantResolver, LoadTenantConfig, CheckInputPii} \<and> \<not> s_input_blocked (fst sw)"

interpretation unblocked: graph_invariant deps never_blocked for deps
proof
  fix n sw sw' m
  assume a: "never_blocked n sw" "run_node deps n sw = Inr sw'" "next_node n (fst sw') = Some m"
  have "frame n (fst sw) (fst sw')"
    using a(2) by (cases sw; cases sw') (auto intro: run_node_frame)
  moreover have "m \<notin> {TenantResolver, LoadTenantConfig, CheckInputPii}"
    using next_early [OF a(3)] a(1) by (auto simp: never_blocked_def)
  ultimately show "never_blocked m sw'" using a(1) by (auto simp: never_blocked_def frame_def)
qed

lemma run_from_step:
  assumes "run_from deps n sw = Inr (trace, res)" and "n \<noteq> SaveChatLog"
  obtains sw' m rest where "run_node deps n sw = Inr sw'" "next_node n (fst sw') = Some m"
      "run_from deps m sw' = Inr (rest, res)" "trace = n # rest"
  using assms by (cases rule: run_from_cases) auto

lemma check_input_pii_keeps:
  assumes "check_input_pii_node deps s = Inr s'"
  shows "s_selected_model s' = s_selected_model s \<and> s_raw_response s' = s_raw_response s"
  using assms
  by (auto simp: check_input_pii_node_def Let_def simp del: bind_res_eq_Inr elim!: bind_res_InrE
      split: option.splits if_splits)

lemma run_until_check:
  assumes "run_from deps TenantResolver (s, w) = Inr (trace, res)"
  obtains s2 s3 m rest where "trace = TenantResolver # LoadTenantConfig # CheckInputPii # rest"
    "load_tenant_config_node deps (tenant_resolver_node s) = Inr s2" "check_input_pii_node deps s2 = Inr s3"
    "m = (if s_input_blocked s3 then Fallback else BuildAclFilter)" "run_from deps m (s3, w) = Inr (rest, res)"
proof -
  obtain t1 where t1: "trace = TenantResolver # t1"
      "run_from deps LoadTenantConfig (tenant_resolver_node s, w) = Inr (t1, res)"
    by (rule run_from_step [OF assms]) (auto simp: pure_node_def)
  obtain s2 t2 where t2: "t1 = LoadTenantConfig # t2" "load_tenant_config_node deps (tenant_resolver_node s) = Inr s2"
      "run_from deps CheckInputPii (s2, w) = Inr (t2, res)"
    by (rule run_from_step [OF t1(2)]) (auto simp: pure_node_def)
  show thesis
    by (rule run_from_step [OF t2(3)])
      (use t1 t2 that in \<open>auto simp: pure_node_def check_input_pii_router_def split: if_splits\<close>)
qed

lemma run_fallback:
  assumes "run_from deps Fallback (s, w) = Inr (trace, s', w')"
  shows "trace = [Fallback, SaveChatLog] \<and> (\<exists>cid. s' = (fallback_node s)\<lparr>s_conversation_id := cid\<rparr>)"
proof -
  obtain t where t: "trace = Fallback # t" "run_from deps SaveChatLog (fallback_node s, w) = Inr (t, s', w')"
    by (rule run_from_step [OF assms]) (auto simp: pure_node_def)
  have "t = [SaveChatLog]" "save_chat_log_node deps (fallback_node s, w) = (s', w')"
    using t(2) by (auto elim: run_from_cases)
  with t(1) save_outcome [of deps "fallback_node s" w s' w'] show ?thesis by auto
qed

lemma run_blocked_question_goes_no_further:
  assumes "run_chat_structured_full deps (initial_state rid d uid cid q h uc model) w = Inr (trace, s', w')"
    and "s_input_blocked s'"
  shows "trace = [TenantResolver, LoadTenantConfig, CheckInputPii, Fallback, SaveChatLog]
    \<and> s_final_answer s' = FALLBACK_INPUT_PII_TEXT \<and> s_fallback_reason s' = Some ''input_pii_blocked''
    \<and> s_final_contexts s' = [] \<and> s_citations s' = [] \<and> s_selected_model s' = model \<and> s_raw_response s' = []"
proof -
  let ?s = "initial_state rid d uid cid q h uc model"
  have r: "run_from deps TenantResolver (?s, w) = Inr (trace, s', w')"
    using assms(1) by (simp add: run_chat_structured_full_def)
  obtain s2 s3 m rest where t: "trace = TenantResolver # LoadTenantConfig # CheckInputPii # rest"
    "load_tenant_config_node deps (tenant_resolver_node ?s) = Inr s2" "check_input_pii_node deps s2 = Inr s3"
    "m = (if s_input_blocked s3 then Fallback else BuildAclFilter)" "run_from deps m (s3, w) = Inr (rest, s', w')"
    by (rule run_until_check [OF r])
  have f: "frame TenantResolver ?s (tenant_resolver_node ?s)" "frame LoadTenantConfig (tenant_resolver_node ?s) s2"
      "frame CheckInputPii s2 s3"
    using t(2,3) by (auto intro: frames)
  have b: "s_input_blocked s3"
  proof (rule ccontr)
    assume nb: "\<not> s_input_blocked s3"
    then have "never_blocked m (s3, w)" using t(4) by (simp add: never_blocked_def)
    from unblocked.at_end [OF t(5) this] obtain s0 w0 where
      "\<not> s_input_blocked s0" "(s', w') = save_chat_log_node deps (s0, w0)"
      by (auto simp: never_blocked_def)
    then show False using save_outcome [of deps s0 w0 s' w'] assms(2) by auto
  qed
  have keep: "s_selected_model s3 = model" "s_raw_response s3 = []"
    using check_input_pii_keeps [OF t(3)] t(2)
    by (auto simp: load_tenant_config_node_def tenant_resolver_node_def initial_state_def split: if_splits)
  have ctx: "s_final_contexts s3 = []" "s_citations s3 = []" "\<not> s_input_blocked s2"
    using f by (auto simp: frame_def)
  have reason: "s_fallback_reason s3 = Some ''input_pii_blocked''"
    using check_input_blocked_reason [OF t(3) ctx(3) b] .
  obtain cid' where s': "s' = (fallback_node s3)\<lparr>s_conversation_id := cid'\<rparr>" "rest = [Fallback, SaveChatLog]"
    using run_fallback [of deps s3 w rest s' w'] t(4,5) b by auto
  show ?thesis
    using t(1) s'(2) ctx keep reason by (simp add: s'(1) fallback_node_def str_or_def Let_def)
qed

text \<open>
  (C7) A blocked question goes no further: when the input check blocks a question, the run is
  exactly set-up, input check, fallback and log; nothing is retrieved, no model is
  called, the user gets the personal-data notice and the log records the block.
\<close>

theorem blocked_question_goes_no_further:
  assumes "run_chat_structured_full deps (initial_state rid d uid cid q h uc model) w = Inr (trace, s', w')"
    and "s_input_blocked s'"
  shows "trace = [TenantResolver, LoadTenantConfig, CheckInputPii, Fallback, SaveChatLog]
    \<and> s_final_answer s' = FALLBACK_INPUT_PII_TEXT \<and> s_fallback_reason s' = Some ''input_pii_blocked''
    \<and> s_final_contexts s' = [] \<and> s_citations s' = [] \<and> s_selected_model s' = model \<and> s_raw_response s' = []"
  by (rule run_blocked_question_goes_no_further [OF assms])

lemma run_chat_contexts_authorised:
  assumes "run_chat_structured_full deps (initial_state rid d uid cid q h uc model) w = Inr (trace, s', w')"
    and "reader_of (dp_lib deps) uc = Inr r"
    and "dp_today deps = Some t" and "valid_date t"
    and "dp_retrieve deps = (\<lambda>dom query f cfg.
           retrieve (dp_lib deps) embed_query (hybrid_query st) rerank dom query f (Some cfg))"
    and "rerank \<in> {None, Some mem_rerank, Some (tei_rerank (dp_lib deps) post)}"
    and "store_reachable st"
    and "\<And>i pl. payloads st d i = Some pl \<Longrightarrow> carries_meta pl (meta i) \<and> meta_dates_valid (meta i)"
    and "ctx \<in> set (s_final_contexts s')"
  shows "\<exists>c excl. ctx = chunk_to_dict c \<and> payloads st d (ck_chunk_id c) = Some (ck_payload c)
    \<and> may_read r (Some t) excl (meta (ck_chunk_id c))"
proof -
  let ?s = "initial_state rid d uid cid q h uc model"
  have run: "run_from deps TenantResolver (?s, w) = Inr (trace, s', w')"
    using assms(1) by (simp add: run_chat_structured_full_def)
  have "filtered_from deps ?s TenantResolver (?s, w)" by (simp add: filtered_from_def)
  from filtered.at_end [OF run this] obtain s0 w0 where
    p: "filtered_from deps ?s SaveChatLog (s0, w0)" "(s', w') = save_chat_log_node deps (s0, w0)"
    by (metis surj_pair)
  obtain excl query cfg res where
      r: "retrieve (dp_lib deps) embed_query (hybrid_query st) rerank d query (Some (filter_for deps r excl)) (Some cfg) = Inr res"
    and c: "s_final_contexts s' = map chunk_to_dict (rr_contexts res)"
    using p save_outcome [of deps s0 w0 s' w'] assms(2,5,9) by (auto simp: filtered_from_def Let_def)
  obtain ck where ck: "ctx = chunk_to_dict ck" "ck \<in> set (rr_contexts res)"
    using assms(9) c by auto
  have a: "payloads st d (ck_chunk_id ck) = Some (ck_payload ck)
      \<and> payload_match (ck_payload ck) (Some (filter_for deps r excl)) = Inr True"
    by (rule concrete_contexts_authorised [OF store_reachable_wf [OF assms(7)] r assms(6) ck(2)])
  then have "may_read r (Some t) excl (meta (ck_chunk_id ck))"
    using acl_filter_decides [of "ck_payload ck" "meta (ck_chunk_id ck)" "Some t" r excl] assms(3,4,8)
    by (auto simp: filter_for_def)
  then show ?thesis using ck(1) a by blast
qed

text \<open>
  (C1) A chat only sees what its user may read: with retrieval over the vector store (any store that
  operations can reach, either reranker or none), every context chunk in the final state of a run
  belongs to the requested domain and is readable that day by the user of the request.
\<close>

theorem chat_contexts_authorised:
  assumes "run_chat_structured_full deps (initial_state rid d uid cid q h uc model) w = Inr (trace, s', w')"
    and "reader_of (dp_lib deps) uc = Inr r"
    and "dp_today deps = Some t" and "valid_date t"
    and "dp_retrieve deps = (\<lambda>dom query f cfg.
           retrieve (dp_lib deps) embed_query (hybrid_query st) rerank dom query f (Some cfg))"
    and "rerank \<in> {None, Some mem_rerank, Some (tei_rerank (dp_lib deps) post)}"
    and "store_reachable st"
    and "\<And>i pl. payloads st d i = Some pl \<Longrightarrow> carries_meta pl (meta i) \<and> meta_dates_valid (meta i)"
    and "ctx \<in> set (s_final_contexts s')"
  shows "\<exists>c excl. ctx = chunk_to_dict c \<and> payloads st d (ck_chunk_id c) = Some (ck_payload c)
    \<and> may_read r (Some t) excl (meta (ck_chunk_id c))"
  by (rule run_chat_contexts_authorised [OF assms])


section \<open>Facts: what a run settles early\<close>

definition settled :: "pyval \<times> string \<times> string \<times> string \<Rightarrow> node \<Rightarrow> rag_state \<times> chat_log \<Rightarrow> bool" where
  "settled x n sw \<longleftrightarrow> n \<notin> {TenantResolver, LoadTenantConfig, CheckInputPii} \<and>
     (s_tenant_config (fst sw), s_question (fst sw), s_question_for_storage (fst sw), s_pii_storage_policy (fst sw)) = x"

interpretation settled: graph_invariant deps "settled x" for deps x
proof
  fix n sw sw' m
  assume a: "settled x n sw" "run_node deps n sw = Inr sw'" "next_node n (fst sw') = Some m"
  have "frame n (fst sw) (fst sw')"
    using a(2) by (cases sw; cases sw') (auto intro: run_node_frame)
  moreover have "m \<notin> {TenantResolver, LoadTenantConfig, CheckInputPii}"
    using next_early [OF a(3)] a(1) by (auto simp: settled_def)
  ultimately show "settled x m sw'" using a(1) by (auto simp: settled_def frame_def static_def)
qed

text \<open>A run decides the configuration and how the question is stored in its first three nodes.\<close>

lemma run_settles:
  assumes "run_chat_structured_full deps s w = Inr (trace, s', w')"
  obtains s2 s3 where "load_tenant_config_node deps (tenant_resolver_node s) = Inr s2"
    "check_input_pii_node deps s2 = Inr s3" "s_tenant_config s' = s_tenant_config s2"
    "s_question s' = s_question s3" "s_question_for_storage s' = s_question_for_storage s3"
    "s_pii_storage_policy s' = s_pii_storage_policy s3"
proof -
  have r: "run_from deps TenantResolver (s, w) = Inr (trace, s', w')"
    using assms(1) by (simp add: run_chat_structured_full_def)
  obtain s2 s3 m rest where t: "load_tenant_config_node deps (tenant_resolver_node s) = Inr s2"
    "check_input_pii_node deps s2 = Inr s3" "m = (if s_input_blocked s3 then Fallback else BuildAclFilter)"
    "run_from deps m (s3, w) = Inr (rest, s', w')"
    by (rule run_until_check [OF r])
  let ?x = "(s_tenant_config s3, s_question s3, s_question_for_storage s3, s_pii_storage_policy s3)"
  have "settled ?x m (s3, w)" using t(3) by (simp add: settled_def)
  from settled.at_end [OF t(4) this] obtain s0 w0 where
    e: "settled ?x SaveChatLog (s0, w0)" "(s', w') = save_chat_log_node deps (s0, w0)" by (metis surj_pair)
  obtain cid where s': "s' = s0\<lparr>s_conversation_id := cid\<rparr>"
    using save_outcome [of deps s0 w0 s' w'] e(2) by metis
  have "frame CheckInputPii s2 s3" using t(2) by (intro frames)
  then have "s_tenant_config s3 = s_tenant_config s2" by (simp add: frame_def)
  then show thesis using that [OF t(1,2)] e(1) by (simp add: s' settled_def)
qed

subsection \<open>Every answer says how it is grounded\<close>

definition grounding_named :: "node \<Rightarrow> rag_state \<times> chat_log \<Rightarrow> bool" where
  "grounding_named n sw \<longleftrightarrow> s_grounding (fst sw) \<noteq> []"

lemma assessment_grounding_named:
  assumes "assessment_node deps s = Inr s'"
  shows "s_grounding s' \<noteq> []"
proof -
  obtain ot where ot: "assess (dp_assessment deps) (s_domain_id s) (s_question s) (s_tenant_config s) = Inr ot"
      "s_grounding s' = ao_grounding ot"
    using assms by (auto simp: assessment_node_def Let_def split: option.splits)
  then show ?thesis using assess_named [OF ot(1)] by simp
qed

interpretation named: graph_invariant deps grounding_named for deps
proof
  fix n sw sw' m
  assume a: "grounding_named n sw" "run_node deps n sw = Inr sw'" "next_node n (fst sw') = Some m"
  have f: "frame n (fst sw) (fst sw')"
    using a(2) by (cases sw; cases sw') (auto intro: run_node_frame)
  show "grounding_named m sw'"
  proof (cases "n \<in> {GenerateUngrounded, Assessment}")
    case True
    then show ?thesis
      using a(2) assessment_grounding_named
      by (cases sw; cases sw')
        (auto simp: grounding_named_def pure_node_def generate_ungrounded_node_def Let_def split: sum.splits)
  next
    case False
    then show ?thesis using a(1) f by (simp add: grounding_named_def frame_def)
  qed
qed

lemma run_grounding_named:
  assumes "run_chat_structured_full deps (initial_state rid d uid cid q h uc model) w = Inr (trace, s', w')"
  shows "s_grounding s' \<noteq> []"
proof -
  have r: "run_from deps TenantResolver (initial_state rid d uid cid q h uc model, w) = Inr (trace, s', w')"
    using assms(1) by (simp add: run_chat_structured_full_def)
  obtain s0 w0 where "grounding_named SaveChatLog (s0, w0)" "(s', w') = save_chat_log_node deps (s0, w0)"
    using named.at_end [OF r] by (auto simp: grounding_named_def)
  then show ?thesis
    using save_outcome [of deps s0 w0 s' w'] by (auto simp: grounding_named_def)
qed

text \<open>Masking the answer is the last thing that happens to it on the way to a success.\<close>

lemma run_through_mask:
  assumes "run_from deps n sw = Inr (trace, res)" and "4 \<le> rank n" and "Fallback \<notin> set trace"
  shows "\<exists>swm rest. run_from deps MaskResponsePii swm = Inr (rest, res) \<and> Fallback \<notin> set rest"
  using assms
proof (induction "rank n" arbitrary: n sw trace rule: less_induct)
  case less
  show ?case
  proof (cases "n = MaskResponsePii")
    case True
    with less.prems show ?thesis by blast
  next
    case False
    from less.prems(1,2) obtain sw' m rest where step: "run_node deps n sw = Inr sw'"
        "next_node n (fst sw') = Some m" "run_from deps m sw' = Inr (rest, res)" "trace = n # rest"
      by (cases rule: run_from_cases) auto
    have "hd rest = m \<and> rest \<noteq> []" using run_from_trace [OF step(3)] by simp
    then have "m \<noteq> Fallback" using less.prems(3) step(4) by (metis list.set_intros hd_in_set)
    then have "4 \<le> rank m"
      using step(2) False less.prems(2) by (cases n) (auto split: if_splits)
    from less.hyps [OF rank_decreases [OF step(2)] step(3) this] less.prems(3) step(4) show ?thesis by simp
  qed
qed

lemma after_mask:
  assumes "run_from deps n (s, w) = Inr (trace, s', w')" and "rank n \<le> 3" and "Fallback \<notin> set trace"
  shows "s_answer_segments s' = s_answer_segments s \<and> s_final_answer s' = s_final_answer s"
  using assms
proof (induction "rank n" arbitrary: n s w trace rule: less_induct)
  case less
  from less.prems(1) show ?case
  proof (cases rule: run_from_cases)
    case last
    then have "save_chat_log_node deps (s, w) = (s', w')" by simp
    with save_outcome [of deps s w s' w'] show ?thesis by auto
  next
    case (step sw' m rest)
    obtain s1 w1 where sw': "sw' = (s1, w1)" by (cases sw')
    have "n \<noteq> Fallback" "n \<noteq> SaveChatLog" using less.prems(3) step(2,4) by auto
    then have keep: "s_answer_segments s1 = s_answer_segments s \<and> s_final_answer s1 = s_final_answer s"
      using less.prems(2) step(1) sw'
      by (cases n) (auto simp: pure_node_def compute_confidence_node_def gate_2_node_def Let_def
          simp del: bind_res_eq_Inr elim!: bind_res_InrE split: prod.splits if_splits)
    have "rank m \<le> 3" using rank_decreases [OF step(2)] less.prems(2) by simp
    from less.hyps [OF rank_decreases [OF step(2)] step(3) [unfolded sw'] this] less.prems(3) step(4) keep
    show ?thesis by simp
  qed
qed

subsection \<open>The log record belongs to the request\<close>

definition addressed :: "rag_state \<Rightarrow> node \<Rightarrow> rag_state \<times> chat_log \<Rightarrow> bool" where
  "addressed s0 n sw \<longleftrightarrow> static (fst sw) = static s0 \<and> s_conversation_id (fst sw) = s_conversation_id s0"

interpretation addressed: graph_invariant deps "addressed s0" for deps s0
proof
  fix n sw sw' m
  assume a: "addressed s0 n sw" "run_node deps n sw = Inr sw'" "next_node n (fst sw') = Some m"
  have "frame n (fst sw) (fst sw')"
    using a(2) by (cases sw; cases sw') (auto intro: run_node_frame)
  moreover have "n \<noteq> SaveChatLog" using a(3) by auto
  ultimately show "addressed s0 m sw'" using a(1) by (simp add: addressed_def frame_def)
qed

lemma run_addressed:
  assumes "run_chat_structured_full deps s w = Inr (trace, s', w')" and "s_conversation_id s = Some cid"
  shows "static s' = static s \<and> s_conversation_id s' = Some cid"
proof -
  have r: "run_from deps TenantResolver (s, w) = Inr (trace, s', w')"
    using assms(1) by (simp add: run_chat_structured_full_def)
  have "addressed s TenantResolver (s, w)" by (simp add: addressed_def)
  from addressed.at_end [OF r this] obtain s0 w0 where
    e: "addressed s SaveChatLog (s0, w0)" "(s', w') = save_chat_log_node deps (s0, w0)" by (metis surj_pair)
  then show ?thesis
    using assms(2) by (auto simp: addressed_def save_chat_log_node_def write_chat_log_def chat_log_payload_of_def
        static_def split: if_splits option.splits)
qed


end
