(* ===== verification/Tenant_Config.thy ===== *)
theory Tenant_Config
  imports Py_Data
begin

text \<open>
  Tenant configuration: \<open>TenantConfigService\<close> of \<open>backend/app/core/tenant_config_service.py\<close> (the
  platform defaults, the tenant's own file and the runtime overrides merged, behind a cache with a
  time to live), the override service of \<open>backend/app/services/tenant_config_service.py\<close> in its
  in-process form, and the loaders of \<open>backend/app/services/startup_preload.py\<close>, which turn rows
  with dotted paths into nested overrides.

  A configuration object is the dictionary of its attributes, because the code reads and writes
  them by name. The YAML files are a parameter: \<open>None\<close> is a file that does not exist and \<open>Inl\<close> one
  that does not parse. The clock is an argument of the operations that read it.
\<close>

section \<open>Deep merging\<close>

function (sequential) deep_merge :: "pydict \<Rightarrow> pydict \<Rightarrow> pydict" where
  \<comment> \<open>\<open>_deep_merge\<close> on two dictionaries\<close>
  "deep_merge out [] = out"
| "deep_merge out ((k, v) # rest) =
     deep_merge (case (map_of out k, v) of
         (Some (PDict b), PDict o') \<Rightarrow> dict_put k (PDict (deep_merge b o')) out
       | _ \<Rightarrow> dict_put k v out) rest"
  by pat_completeness auto
termination
  by (relation "measure (size_list (size_prod (\<lambda>_. 0) size) \<circ> snd)") auto

fun deep_merge_val :: "pyval \<Rightarrow> pyval \<Rightarrow> pyval" where
  \<comment> \<open>\<open>_deep_merge\<close> on arbitrary values\<close>
  "deep_merge_val (PDict b) (PDict o') = PDict (deep_merge b o')"
| "deep_merge_val b v = v"

text \<open>Reading along a path of keys.\<close>

fun path_get :: "pyval \<Rightarrow> string list \<Rightarrow> pyval option" where
  "path_get v [] = Some v"
| "path_get (PDict d) (k # ks) = (case map_of d k of None \<Rightarrow> None | Some v \<Rightarrow> path_get v ks)"
| "path_get v (k # ks) = None"

fun plain_keys :: "pyval \<Rightarrow> bool" where
  \<comment> \<open>no dictionary repeats a key, as Python's never do\<close>
  "plain_keys (PDict d) = (distinct (map fst d) \<and> (\<forall>kv \<in> set d. plain_keys (snd kv)))"
| "plain_keys (PList xs) = (\<forall>x \<in> set xs. plain_keys x)"
| "plain_keys v = True"

section \<open>The configuration service\<close>

definition CONFIG_CATEGORIES :: "string list" where
  "CONFIG_CATEGORIES = [''citation'', ''retrieval'', ''model'', ''routing'', ''query_classifier'',
     ''lifecycle'', ''auth'', ''pii'', ''audit'', ''data_retention'']"

record config_disk =
  dk_platform :: "string \<Rightarrow> pyval res option"
  dk_tenant :: "string \<Rightarrow> pyval res option"

record config_service =
  cs_cache :: "(string \<times> (pydict \<times> real)) list"
  cs_runtime :: "(string \<times> pydict) list"

definition empty_service :: config_service where
  "empty_service = \<lparr>cs_cache = [], cs_runtime = []\<rparr>"

definition read_yaml :: "pyval res \<Rightarrow> pyval res" where
  "read_yaml f = bind_res f (\<lambda>v. Inr (py_or v (PDict [])))"

definition tenant_config_of :: "string \<Rightarrow> pydict \<Rightarrow> pydict" where
  "tenant_config_of domain_id merged =
     (''domain_id'', PStr domain_id) # map (\<lambda>cat. (cat, dget merged cat (PDict []))) CONFIG_CATEGORIES
     @ [(''compliance_mode'', dget merged ''compliance_mode'' (PStr ''standard'')), (''_sources'', PDict [])]"

definition platform_defaults :: "config_disk \<Rightarrow> pydict res" where
  "platform_defaults disk =
     map_res (\<lambda>cat. case dk_platform disk cat of None \<Rightarrow> Inr (cat, PDict [])
              | Some f \<Rightarrow> bind_res (read_yaml f) (\<lambda>v. Inr (cat, v))) CONFIG_CATEGORIES"

definition load_from_disk :: "config_disk \<Rightarrow> string \<Rightarrow> pydict res" where
  "load_from_disk disk domain_id =
     bind_res (platform_defaults disk) (\<lambda>merged.
     bind_res (case dk_tenant disk domain_id of None \<Rightarrow> Inr (PDict merged)
               | Some f \<Rightarrow> bind_res (read_yaml f) (\<lambda>overrides. Inr (deep_merge_val (PDict merged) overrides)))
       (\<lambda>m. bind_res (as_dict m) (\<lambda>d. Inr (tenant_config_of domain_id d))))"

fun overlay :: "string \<times> pyval \<Rightarrow> pydict \<Rightarrow> pydict" where
  \<comment> \<open>one runtime override applied to the configuration object\<close>
  "overlay (cat, PDict v) config =
     (case map_of config cat of None \<Rightarrow> config
      | Some current \<Rightarrow> dict_put cat (deep_merge_val (py_or current (PDict [])) (PDict v)) config)"
| "overlay (cat, v) config = config"

definition runtime_of :: "config_service \<Rightarrow> string \<Rightarrow> pydict" where
  "runtime_of cs domain_id = (case map_of (cs_runtime cs) domain_id of None \<Rightarrow> [] | Some r \<Rightarrow> r)"

definition fresh_config :: "config_disk \<Rightarrow> pydict \<Rightarrow> string \<Rightarrow> pydict res" where
  "fresh_config disk runtime domain_id =
     bind_res (load_from_disk disk domain_id) (\<lambda>config. Inr (fold overlay runtime config))"

definition store_config :: "string \<Rightarrow> pydict \<Rightarrow> real \<Rightarrow> config_service \<Rightarrow> config_service" where
  "store_config domain_id config t cs = cs\<lparr>cs_cache := assoc_put domain_id (config, t) (cs_cache cs)\<rparr>"

definition ttl :: real where
  "ttl = 60"

definition cached_config :: "real \<Rightarrow> string \<Rightarrow> config_service \<Rightarrow> pydict option" where
  "cached_config now domain_id cs =
     (case map_of (cs_cache cs) domain_id of None \<Rightarrow> None
      | Some (config, t) \<Rightarrow> if now - t < ttl then Some config else None)"

definition load :: "config_disk \<Rightarrow> real \<Rightarrow> real \<Rightarrow> string \<Rightarrow> config_service \<Rightarrow> pydict res \<times> config_service" where
  \<comment> \<open>the clock is read once for the lookup and once for the entry that is stored\<close>
  "load disk now now' domain_id cs =
     (case cached_config now domain_id cs of
        Some config \<Rightarrow> (Inr config, cs)
      | None \<Rightarrow>
          (case fresh_config disk (runtime_of cs domain_id) domain_id of
             Inl e \<Rightarrow> (Inl e, cs)
           | Inr config \<Rightarrow> (Inr config, store_config domain_id config now' cs)))"

definition invalidate :: "string option \<Rightarrow> config_service \<Rightarrow> config_service" where
  "invalidate domain_id cs = cs\<lparr>cs_cache := (case domain_id of None \<Rightarrow> [] | Some d \<Rightarrow> assoc_del d (cs_cache cs))\<rparr>"

definition apply_runtime_override :: "string \<Rightarrow> string \<Rightarrow> pyval \<Rightarrow> config_service \<Rightarrow> config_service" where
  "apply_runtime_override domain_id category value cs =
     invalidate (Some domain_id)
       (cs\<lparr>cs_runtime := assoc_put domain_id (dict_put category value (runtime_of cs domain_id)) (cs_runtime cs)\<rparr>)"

definition clear_runtime_overrides :: "string option \<Rightarrow> config_service \<Rightarrow> config_service" where
  "clear_runtime_overrides domain_id cs =
     invalidate domain_id
       (cs\<lparr>cs_runtime := (case domain_id of None \<Rightarrow> [] | Some d \<Rightarrow> assoc_del d (cs_runtime cs))\<rparr>)"

section \<open>Overrides kept as rows\<close>

function (sequential) deep_merge_into :: "pydict \<Rightarrow> pydict \<Rightarrow> pydict" where
  \<comment> \<open>the new content of \<open>base\<close>\<close>
  "deep_merge_into base [] = base"
| "deep_merge_into base ((k, v) # rest) =
     deep_merge_into (case (map_of base k, v) of
         (Some (PDict b), PDict o') \<Rightarrow> dict_put k (PDict (deep_merge_into b o')) base
       | _ \<Rightarrow> dict_put k v base) rest"
  by pat_completeness auto
termination
  by (relation "measure (size_list (size_prod (\<lambda>_. 0) size) \<circ> snd)") auto

definition dict_or_empty :: "pyval option \<Rightarrow> pydict" where
  "dict_or_empty v = (case v of Some (PDict d) \<Rightarrow> d | _ \<Rightarrow> [])"

fun set_path :: "pydict \<Rightarrow> string list \<Rightarrow> pyval \<Rightarrow> pydict" where
  \<comment> \<open>the walk of \<open>_set_nested\<close> down the parts of a dotted path\<close>
  "set_path target [] value = target"
| "set_path target [p] value =
     (case (value, map_of target p) of
        (PDict v, Some (PDict b)) \<Rightarrow> dict_put p (PDict (deep_merge_into b v)) target
      | _ \<Rightarrow> dict_put p value target)"
| "set_path target (p # q # ps) value =
     dict_put p (PDict (set_path (dict_or_empty (map_of target p)) (q # ps) value)) target"

definition set_nested :: "pydict \<Rightarrow> string \<Rightarrow> pyval \<Rightarrow> pydict" where
  "set_nested target dotted_path value =
     (if dotted_path = [] then (case value of PDict v \<Rightarrow> deep_merge_into target v | _ \<Rightarrow> target)
      else set_path target (split_char CHR ''.'' dotted_path) value)"

type_synonym override_row = "string \<times> string \<times> pyval"

definition bucket_row :: "('g \<times> string \<times> pyval) \<Rightarrow> ('g \<times> pydict) list \<Rightarrow> ('g \<times> pydict) list" where
  \<comment> \<open>\<open>_set_nested(grouped.setdefault(key, {}), path or "", value)\<close>\<close>
  "bucket_row row g =
     (case row of (key, path, value) \<Rightarrow>
        assoc_put key (set_nested (case map_of g key of None \<Rightarrow> [] | Some b \<Rightarrow> b) path value) g)"

definition reload_tenant_config :: "override_row list \<Rightarrow> string \<Rightarrow> config_service \<Rightarrow> config_service" where
  "reload_tenant_config rows domain_id cs =
     fold (\<lambda>(category, value). apply_runtime_override domain_id category (PDict value))
       (fold bucket_row rows []) (clear_runtime_overrides (Some domain_id) cs)"

definition preload_tenant_configs ::
  "(string \<times> override_row) list \<Rightarrow> config_service \<Rightarrow> nat \<times> config_service" where
  "preload_tenant_configs rows cs =
     (let grouped = fold bucket_row (map (\<lambda>(d, cat, path, v). ((d, cat), path, v)) rows) []
      in (length grouped,
          fold (\<lambda>((d, cat), nested). apply_runtime_override d cat (PDict nested)) grouped cs))"

section \<open>The override service\<close>

definition PLATFORM_ADMIN_RESTRICTED_KEYS :: "string list" where
  "PLATFORM_ADMIN_RESTRICTED_KEYS =
     [''model.endpoints.tenant_slm.base_url'', ''model.endpoints.shared_llm.base_url'',
      ''model.endpoints.embedder.base_url'', ''model.endpoints.reranker.base_url'',
      ''model.endpoints.ollama_vision.base_url'', ''model.endpoints.tenant_slm.tensor_parallel_size'',
      ''model.endpoints.shared_llm.tensor_parallel_size'', ''retrieval.embedding.model'',
      ''retrieval.dense_dim'', ''auth.authfusion.issuer'', ''auth.authfusion.jwks_uri'',
      ''lifecycle.archival.chunks_archive_days'', ''lifecycle.deletion.default'']"

definition BREAKING_KEYS :: "string list" where
  "BREAKING_KEYS = PLATFORM_ADMIN_RESTRICTED_KEYS @
     [''citation.gates.generation.min_confidence'', ''citation.verification.tier2.thresholds.strong'',
      ''citation.verification.tier2.thresholds.medium'', ''pii.input.on_pii_found.high_severity'',
      ''pii.storage.pii_storage_policy'', ''compliance_mode'']"

definition full_key :: "string \<Rightarrow> string \<Rightarrow> string" where
  "full_key category key = category @ ''.'' @ key"

definition is_platform_admin_restricted :: "string \<Rightarrow> string \<Rightarrow> bool" where
  "is_platform_admin_restricted category key \<longleftrightarrow> full_key category key \<in> set PLATFORM_ADMIN_RESTRICTED_KEYS"

definition is_breaking :: "string \<Rightarrow> string \<Rightarrow> bool" where
  "is_breaking category key \<longleftrightarrow> full_key category key \<in> set BREAKING_KEYS"

record config_change =
  cc_domain_id :: string
  cc_category :: string
  cc_key :: string
  cc_old_value :: pyval
  cc_new_value :: pyval
  cc_changed_by :: string
  cc_changed_at :: real
  cc_reason :: "string option"

record override_service =
  ov_overrides :: "((string \<times> string \<times> string) \<times> pyval) list"
  ov_history :: "config_change list"
  ov_ledger :: bool
  ov_published :: "config_change list"

definition ConfigKeyRestrictedError :: py_error where
  "ConfigKeyRestrictedError = OtherError ''ConfigKeyRestrictedError''"

definition record_change :: "config_change \<Rightarrow> override_service \<Rightarrow> override_service" where
  \<comment> \<open>\<open>ov_published\<close> collects what is handed to the ledger, whose failures are swallowed\<close>
  "record_change h ov =
     ov\<lparr>ov_overrides := assoc_put (cc_domain_id h, cc_category h, cc_key h) (cc_new_value h) (ov_overrides ov),
        ov_history := ov_history ov @ [h],
        ov_published := (if is_breaking (cc_category h) (cc_key h) \<and> ov_ledger ov
                         then ov_published ov @ [h] else ov_published ov)\<rparr>"

definition change_of ::
  "real \<Rightarrow> string \<Rightarrow> string \<Rightarrow> string \<Rightarrow> pyval \<Rightarrow> string \<Rightarrow> string option \<Rightarrow> override_service \<Rightarrow> config_change" where
  "change_of now domain_id category key value actor reason ov =
     \<lparr>cc_domain_id = domain_id, cc_category = category, cc_key = key,
      cc_old_value = (case map_of (ov_overrides ov) (domain_id, category, key) of None \<Rightarrow> PNone | Some v \<Rightarrow> v),
      cc_new_value = value, cc_changed_by = actor, cc_changed_at = now, cc_reason = reason\<rparr>"

definition patch ::
  "real \<Rightarrow> string \<Rightarrow> string \<Rightarrow> string \<Rightarrow> pyval \<Rightarrow> string \<Rightarrow> bool \<Rightarrow> string option
   \<Rightarrow> override_service \<times> config_service \<Rightarrow> config_change res \<times> override_service \<times> config_service" where
  "patch now domain_id category key value actor is_platform_admin reason st =
     (case st of (ov, cs) \<Rightarrow>
        if is_platform_admin_restricted category key \<and> \<not> is_platform_admin
        then (Inl ConfigKeyRestrictedError, ov, cs)
        else let record = change_of now domain_id category key value actor reason ov
             in (Inr record, record_change record ov, invalidate (Some domain_id) cs))"

definition reload :: "string \<Rightarrow> config_service \<Rightarrow> config_service" where
  "reload domain_id cs = invalidate (Some domain_id) cs"

definition list_history ::
  "string \<Rightarrow> string option \<Rightarrow> int \<Rightarrow> int \<Rightarrow> override_service \<Rightarrow> config_change list" where
  "list_history domain_id category limit offset ov =
     (let out = filter (\<lambda>h. cc_domain_id h = domain_id) (ov_history ov);
          out' = (case category of
                    Some c \<Rightarrow> if c = [] then out else filter (\<lambda>h. cc_category h = c) out
                  | None \<Rightarrow> out)
      in py_slice offset (offset + limit) (rev out'))"

definition override_rows :: "string \<Rightarrow> override_service \<Rightarrow> override_row list" where
  \<comment> \<open>the rows of one tenant, as the reload reads them\<close>
  "override_rows domain_id ov =
     map (\<lambda>((_, category, path), value). (category, path, value))
       (filter (\<lambda>((d, _, _), _). d = domain_id) (ov_overrides ov))"

section \<open>Facts: merging\<close>

lemma deep_merge_val_other:
  "(\<And>d. v \<noteq> PDict d) \<Longrightarrow> deep_merge_val b v = v"
  by (cases b; cases v) auto

lemma deep_merge_val_base: "(\<And>d. b \<noteq> PDict d) \<Longrightarrow> deep_merge_val b v = v"
  by (cases b) auto

lemma deep_merge_lookup:
  "distinct (map fst ov) \<Longrightarrow> map_of (deep_merge b ov) k =
     (case map_of ov k of None \<Rightarrow> map_of b k
      | Some v \<Rightarrow> Some (case map_of b k of None \<Rightarrow> v | Some bv \<Rightarrow> deep_merge_val bv v))"
proof (induction b ov arbitrary: k rule: deep_merge.induct)
  case (2 out k' v rest)
  let ?out = "case (map_of out k', v) of (Some (PDict b), PDict o') \<Rightarrow> dict_put k' (PDict (deep_merge b o')) out
       | _ \<Rightarrow> dict_put k' v out"
  have put: "map_of ?out = (map_of out)(k' \<mapsto> (case map_of out k' of None \<Rightarrow> v | Some bv \<Rightarrow> deep_merge_val bv v))"
    by (cases "map_of out k'"; cases v)
      (auto simp: map_of_dict_put deep_merge_val_other deep_merge_val_base split: pyval.splits)
  have "k' \<notin> set (map fst rest)" using 2 by simp
  then have "map_of rest k' = None" by (simp add: map_of_eq_None_iff)
  with 2 put show ?case by (auto split: option.splits)
qed simp

fun replaces :: "pyval \<Rightarrow> string list \<Rightarrow> bool" where
  \<comment> \<open>a layer ends in a plain value above the path, which hides whatever lies below it\<close>
  "replaces v [] = False"
| "replaces (PDict d) (k # ks) = (case map_of d k of None \<Rightarrow> False | Some v \<Rightarrow> replaces v ks)"
| "replaces v (k # ks) = True"

lemma plain_keys_lookup: "plain_keys (PDict d) \<Longrightarrow> map_of d k = Some v \<Longrightarrow> plain_keys v"
  by (auto dest: map_of_SomeD)

lemma path_get_plain: "(\<And>d. v \<noteq> PDict d) \<Longrightarrow> path_get v (k # ks) = None"
  by (cases v) auto

lemma merged_path:
  assumes "plain_keys v"
  shows "path_get (deep_merge_val b v) ps =
    (case path_get v ps of
       Some w \<Rightarrow> Some (case path_get b ps of None \<Rightarrow> w | Some bw \<Rightarrow> deep_merge_val bw w)
     | None \<Rightarrow> if replaces v ps then None else path_get b ps)"
  using assms
proof (induction ps arbitrary: b v)
  case (Cons k ks)
  show ?case
  proof (cases v)
    case v: (PDict d)
    show ?thesis
    proof (cases b)
      case (PDict b')
      with v Cons.prems Cons.IH [OF plain_keys_lookup [of d k]] show ?thesis
        by (auto simp: deep_merge_lookup split: option.splits)
    qed (use v in \<open>auto split: option.splits\<close>)
  qed (auto simp: deep_merge_val_other)
qed simp

lemma deep_merge_into_eq: "deep_merge_into b v = deep_merge b v"
proof (induction b v rule: deep_merge_into.induct)
  case (2 base k v rest)
  then show ?case by (auto split: option.splits pyval.splits)
qed simp

lemma path_get_dict_put:
  "path_get (PDict (dict_put k v d)) (k # ks) = path_get v ks"
  by (simp add: map_of_dict_put)

lemma set_path_get:
  assumes "ps \<noteq> []" and "\<And>d. v \<noteq> PDict d"
  shows "path_get (PDict (set_path target ps v)) ps = Some v"
  using assms
  by (induction target ps v rule: set_path.induct) (auto simp: map_of_dict_put split: pyval.splits)

lemma set_path_keys:
  "map_of (set_path target (p # ps) v) q = (if q = p then map_of (set_path target (p # ps) v) p else map_of target q)"
  by (cases ps) (auto simp: map_of_dict_put split: option.splits pyval.splits)

section \<open>Facts: the service\<close>

named_theorems config_simps \<open>what the operations do to the overrides and the cache\<close>

lemma runtime_invalidate [config_simps]: "runtime_of (invalidate d cs) = runtime_of cs"
  by (simp add: fun_eq_iff runtime_of_def invalidate_def)

lemma runtime_store [config_simps]: "runtime_of (store_config d c t cs) = runtime_of cs"
  by (simp add: fun_eq_iff runtime_of_def store_config_def)

lemma runtime_load [config_simps]: "runtime_of (snd (load disk now now' d cs)) = runtime_of cs"
  by (simp add: load_def runtime_store split: option.splits sum.splits)

lemma runtime_apply [config_simps]:
  "runtime_of (apply_runtime_override d cat v cs) = (runtime_of cs)(d := dict_put cat v (runtime_of cs d))"
proof -
  have "runtime_of (cs\<lparr>cs_runtime := assoc_put d r (cs_runtime cs)\<rparr>) = (runtime_of cs)(d := r)" for r
    by (simp add: fun_eq_iff runtime_of_def dict_simps)
  then show ?thesis by (simp add: apply_runtime_override_def runtime_invalidate)
qed

lemma runtime_clear [config_simps]:
  "runtime_of (clear_runtime_overrides None cs) = (\<lambda>_. [])"
  "runtime_of (clear_runtime_overrides (Some d) cs) = (runtime_of cs)(d := [])"
  by (simp_all add: clear_runtime_overrides_def runtime_invalidate)
    (simp_all add: fun_eq_iff runtime_of_def dict_simps)

lemma cache_store [config_simps]:
  "map_of (cs_cache (store_config d c t cs)) = (map_of (cs_cache cs))(d \<mapsto> (c, t))"
  by (simp add: store_config_def dict_simps)

lemma cache_invalidate [config_simps]:
  "map_of (cs_cache (invalidate None cs)) = Map.empty"
  "map_of (cs_cache (invalidate (Some d) cs)) = (map_of (cs_cache cs))(d := None)"
  by (simp_all add: invalidate_def dict_simps)

lemma cache_apply [config_simps]:
  "map_of (cs_cache (apply_runtime_override d cat v cs)) = (map_of (cs_cache cs))(d := None)"
  by (simp add: apply_runtime_override_def config_simps)

lemma cache_clear [config_simps]:
  "map_of (cs_cache (clear_runtime_overrides None cs)) = Map.empty"
  "map_of (cs_cache (clear_runtime_overrides (Some d) cs)) = (map_of (cs_cache cs))(d := None)"
  by (simp_all add: clear_runtime_overrides_def config_simps)

definition cache_ok :: "config_disk \<Rightarrow> config_service \<Rightarrow> bool" where
  \<comment> \<open>every cached object is what a fresh load would give now\<close>
  "cache_ok disk cs \<longleftrightarrow> (\<forall>d config t. map_of (cs_cache cs) d = Some (config, t) \<longrightarrow>
     fresh_config disk (runtime_of cs d) d = Inr config)"

inductive config_reach :: "config_disk \<Rightarrow> config_service \<Rightarrow> bool" for disk where
  reach_empty: "config_reach disk empty_service"
| reach_load: "config_reach disk cs \<Longrightarrow> config_reach disk (snd (load disk now now' d cs))"
| reach_apply: "config_reach disk cs \<Longrightarrow> config_reach disk (apply_runtime_override d cat v cs)"
| reach_clear: "config_reach disk cs \<Longrightarrow> config_reach disk (clear_runtime_overrides d cs)"
| reach_invalidate: "config_reach disk cs \<Longrightarrow> config_reach disk (invalidate d cs)"

lemma cache_ok_load: "cache_ok disk cs \<Longrightarrow> cache_ok disk (snd (load disk now now' d cs))"
  by (auto simp: cache_ok_def load_def config_simps split: option.splits sum.splits)

lemma cache_ok_apply: "cache_ok disk cs \<Longrightarrow> cache_ok disk (apply_runtime_override d cat v cs)"
  by (simp add: cache_ok_def config_simps)

lemma cache_ok_clear: "cache_ok disk cs \<Longrightarrow> cache_ok disk (clear_runtime_overrides d cs)"
  by (cases d) (simp_all add: cache_ok_def config_simps)

lemma cache_ok_invalidate: "cache_ok disk cs \<Longrightarrow> cache_ok disk (invalidate d cs)"
  by (cases d) (simp_all add: cache_ok_def config_simps)

lemma reach_cache_ok: "config_reach disk cs \<Longrightarrow> cache_ok disk cs"
proof (induction rule: config_reach.induct)
  case reach_empty
  then show ?case by (simp add: cache_ok_def empty_service_def)
qed (simp_all add: cache_ok_load cache_ok_apply cache_ok_clear cache_ok_invalidate)

lemma load_fresh: "cache_ok disk cs \<Longrightarrow> fst (load disk now now' d cs) = fresh_config disk (runtime_of cs d) d"
  by (auto simp: load_def cached_config_def cache_ok_def split: option.splits sum.splits if_splits)

section \<open>Facts: overrides as rows\<close>

definition rows_for :: "string \<Rightarrow> ((string \<times> string) \<times> 'a) list \<Rightarrow> (string \<times> 'a) list" where
  "rows_for d g = map (\<lambda>((_, cat), x). (cat, x)) (filter (\<lambda>((d', _), _). d' = d) g)"

lemma rows_for_lookup: "map_of (rows_for d g) cat = map_of g (d, cat)"
  by (induction g) (auto simp: rows_for_def)

lemma rows_for_put:
  "rows_for d (assoc_put (d', cat) x g) = (if d' = d then assoc_put cat x (rows_for d g) else rows_for d g)"
  by (induction g) (auto simp: rows_for_def)

lemma rows_for_bucket:
  "rows_for d (bucket_row ((d', cat), path, v) g) =
     (if d' = d then bucket_row (cat, path, v) (rows_for d g) else rows_for d g)"
  by (simp add: bucket_row_def rows_for_put rows_for_lookup)

lemma rows_for_grouped:
  "rows_for d (fold bucket_row rows g) = fold bucket_row (rows_for d rows) (rows_for d g)"
proof (induction rows arbitrary: g)
  case (Cons row rows)
  obtain d' cat path v where row: "row = ((d', cat), path, v)" by (metis prod.exhaust)
  have "rows_for d (row # rows) = (if d' = d then [(cat, path, v)] else []) @ rows_for d rows"
    by (simp add: rows_for_def row)
  with Cons row show ?case by (simp add: rows_for_bucket)
qed (simp add: rows_for_def)

lemma runtime_apply_all:
  "runtime_of (fold (\<lambda>((d', cat), nested). apply_runtime_override d' cat (PDict nested)) g cs) d
     = fold (\<lambda>(cat, nested). dict_put cat (PDict nested)) (rows_for d g) (runtime_of cs d)"
proof (induction g arbitrary: cs)
  case (Cons x g)
  obtain d' cat nested where "x = ((d', cat), nested)" by (metis prod.exhaust)
  with Cons show ?case by (simp add: rows_for_def config_simps)
qed (simp add: rows_for_def)

lemma runtime_apply_tenant:
  "runtime_of (fold (\<lambda>(cat, nested). apply_runtime_override d cat (PDict nested)) g cs) d
     = fold (\<lambda>(cat, nested). dict_put cat (PDict nested)) g (runtime_of cs d)"
  by (induction g arbitrary: cs) (auto simp: config_simps)

section \<open>Facts: the history of changes\<close>

abbreviation change_key :: "config_change \<Rightarrow> string \<times> string \<times> string" where
  "change_key h \<equiv> (cc_domain_id h, cc_category h, cc_key h)"

definition replay :: "config_change list \<Rightarrow> string \<times> string \<times> string \<Rightarrow> pyval option" where
  \<comment> \<open>the overrides that a history of changes describes\<close>
  "replay hs = fold (\<lambda>h m. m(change_key h \<mapsto> cc_new_value h)) hs Map.empty"

definition old_in :: "(string \<times> string \<times> string \<Rightarrow> pyval option) \<Rightarrow> config_change \<Rightarrow> pyval" where
  "old_in m h = (case m (change_key h) of None \<Rightarrow> PNone | Some v \<Rightarrow> v)"

lemma replay_snoc: "replay (hs @ [h]) = (replay hs)(change_key h \<mapsto> cc_new_value h)"
  by (simp add: replay_def)

definition history_ok :: "override_service \<Rightarrow> bool" where
  "history_ok ov \<longleftrightarrow> map_of (ov_overrides ov) = replay (ov_history ov)
     \<and> (\<forall>i < length (ov_history ov). cc_old_value (ov_history ov ! i) = old_in (replay (take i (ov_history ov))) (ov_history ov ! i))
     \<and> ov_published ov = (if ov_ledger ov then filter (\<lambda>h. is_breaking (cc_category h) (cc_key h)) (ov_history ov) else [])"

inductive override_reach :: "bool \<Rightarrow> override_service \<Rightarrow> config_service \<Rightarrow> bool" for ledger where
  ov_start: "override_reach ledger \<lparr>ov_overrides = [], ov_history = [], ov_ledger = ledger, ov_published = []\<rparr> cs"
| ov_patch: "override_reach ledger ov cs \<Longrightarrow>
    patch now d cat key v actor admin reason (ov, cs') = (r, ov', cs'') \<Longrightarrow> override_reach ledger ov' cs''"

lemma change_of_fields [simp]:
  "change_key (change_of now d cat key v actor reason ov) = (d, cat, key)"
  "cc_new_value (change_of now d cat key v actor reason ov) = v"
  "cc_old_value (change_of now d cat key v actor reason ov)
     = old_in (map_of (ov_overrides ov)) (change_of now d cat key v actor reason ov)"
  by (simp_all add: change_of_def old_in_def)

lemma record_change_history_ok:
  assumes "history_ok ov" and "cc_old_value h = old_in (map_of (ov_overrides ov)) h"
  shows "history_ok (record_change h ov)"
  using assms by (auto simp: history_ok_def record_change_def replay_snoc map_of_assoc_put nth_append less_Suc_eq)

lemma patch_keeps_history_ok:
  assumes "history_ok ov" and "patch now d cat key v actor admin reason (ov, cs) = (r, ov', cs')"
  shows "history_ok ov'"
  using assms by (auto simp: patch_def Let_def intro: record_change_history_ok split: if_splits)

lemma ledger_kept: "ov_ledger (record_change h ov) = ov_ledger ov"
  by (simp add: record_change_def)

lemma override_reach_ledger: "override_reach ledger ov cs \<Longrightarrow> ov_ledger ov = ledger"
  by (induction rule: override_reach.induct) (auto simp: patch_def Let_def ledger_kept split: if_splits)

lemma override_reach_history: "override_reach ledger ov cs \<Longrightarrow> history_ok ov"
proof (induction rule: override_reach.induct)
  case (ov_start cs)
  show ?case by (simp add: history_ok_def replay_def)
next
  case ov_patch
  then show ?case by (blast intro: patch_keeps_history_ok)
qed


section \<open>Facts: layers\<close>

lemma distinct_dict_put: "distinct (map fst d) \<Longrightarrow> distinct (map fst (dict_put k v d))"
proof (induction k v d rule: dict_put.induct)
  case (2 k v k' v' d)
  then show ?case using keys_dict_put [of k v d] by (auto simp flip: set_map)
qed simp

lemma reach_runtime_distinct: "config_reach disk cs \<Longrightarrow> distinct (map fst (runtime_of cs d))"
proof (induction arbitrary: d rule: config_reach.induct)
  case reach_empty
  then show ?case by (simp add: runtime_of_def empty_service_def)
next
  case (reach_clear cs d')
  then show ?case by (cases d') (simp_all add: config_simps)
qed (simp_all add: config_simps distinct_dict_put)

lemma overlay_other: "fst x \<noteq> k \<Longrightarrow> map_of (overlay x c) k = map_of c k"
  by (cases x; cases "snd x") (auto simp: map_of_dict_put split: option.splits)

lemma overlay_same:
  "map_of (overlay (k, v) c) k =
     (case v of PDict o' \<Rightarrow> map_option (\<lambda>cur. deep_merge_val (py_or cur (PDict [])) v) (map_of c k)
      | _ \<Rightarrow> map_of c k)"
  by (cases v) (auto simp: map_of_dict_put split: option.splits)

lemma overlay_all:
  assumes "distinct (map fst r)"
  shows "map_of (fold overlay r c) k =
    (case map_of r k of
       Some (PDict o') \<Rightarrow> map_option (\<lambda>cur. deep_merge_val (py_or cur (PDict [])) (PDict o')) (map_of c k)
     | _ \<Rightarrow> map_of c k)"
  using assms
proof (induction r arbitrary: c)
  case (Cons x r)
  obtain k' v where x: "x = (k', v)" by (cases x)
  with Cons.prems have "map_of r k' = None" by (simp add: map_of_eq_None_iff)
  with Cons x show ?case
    by (cases "k' = k") (auto simp: overlay_same overlay_other split: option.splits pyval.splits)
qed simp

lemma path_get_py_or: "ps \<noteq> [] \<Longrightarrow> path_get (py_or cur (PDict [])) ps = path_get cur ps"
  by (cases ps; cases cur) (auto simp: py_or_def)

lemma effective_path:
  assumes "load_from_disk disk d = Inr base" and "fresh_config disk r d = Inr config"
    and "distinct (map fst r)" and "map_of r cat = Some (PDict o')" and "plain_keys (PDict o')"
    and "map_of base cat = Some cur" and "ps \<noteq> []"
  shows "path_get (PDict config) (cat # ps) =
    (case path_get (PDict o') ps of
       Some w \<Rightarrow> Some (case path_get cur ps of None \<Rightarrow> w | Some bw \<Rightarrow> deep_merge_val bw w)
     | None \<Rightarrow> if replaces (PDict o') ps then None else path_get cur ps)"
proof -
  from assms(1,2) have config: "config = fold overlay r base" by (simp add: fresh_config_def)
  have "map_of config cat = Some (deep_merge_val (py_or cur (PDict [])) (PDict o'))"
    using overlay_all [OF assms(3), of base cat] assms(4,6) by (simp add: config)
  then have "path_get (PDict config) (cat # ps) = path_get (deep_merge_val (py_or cur (PDict [])) (PDict o')) ps"
    by (simp del: deep_merge_val.simps)
  then show ?thesis
    by (simp only: merged_path [OF assms(5)] path_get_py_or [OF assms(7)])
qed

lemma loaded_category:
  assumes "load_from_disk disk d = Inr base" and "cat \<in> set CONFIG_CATEGORIES"
  shows "\<exists>cur. map_of base cat = Some cur"
proof -
  from assms(1) obtain m where base: "base = tenant_config_of d m"
    by (auto simp: load_from_disk_def)
  have "cat \<in> fst ` set base"
    using assms(2) by (force simp: base tenant_config_of_def)
  then show ?thesis by (metis map_of_eq_None_iff not_None_eq)
qed

lemma override_visible:
  assumes "config_reach disk cs" and "load_from_disk disk d = Inr base" and "cat \<in> set CONFIG_CATEGORIES"
    and "map_of (runtime_of cs d) cat = Some (PDict ov)" and "plain_keys (PDict ov)" and "ps \<noteq> []"
  shows "\<exists>config. fresh_config disk (runtime_of cs d) d = Inr config \<and>
    path_get (PDict config) (cat # ps) =
      (case path_get (PDict ov) ps of
         Some w \<Rightarrow> Some (case path_get (PDict base) (cat # ps) of None \<Rightarrow> w | Some bw \<Rightarrow> deep_merge_val bw w)
       | None \<Rightarrow> if replaces (PDict ov) ps then None else path_get (PDict base) (cat # ps))"
proof -
  from loaded_category [OF assms(2,3)] obtain cur where cur: "map_of base cat = Some cur" by blast
  obtain config where config: "fresh_config disk (runtime_of cs d) d = Inr config"
    using assms(2) by (simp add: fresh_config_def)
  have base: "path_get (PDict base) (cat # ps) = path_get cur ps" using cur by simp
  note path = effective_path [OF assms(2) config reach_runtime_distinct [OF assms(1)] assms(4,5) cur assms(6)]
  show ?thesis by (intro exI [of _ config]) (simp only: config base path)
qed

lemma other_categories_visible:
  assumes "config_reach disk cs" and "load_from_disk disk d = Inr base" and "map_of (runtime_of cs d) cat = None"
  shows "\<exists>config. fresh_config disk (runtime_of cs d) d = Inr config \<and> map_of config cat = map_of base cat"
  using overlay_all [OF reach_runtime_distinct [OF assms(1)], of d base cat] assms(2,3) by (simp add: fresh_config_def)

section \<open>Properties\<close>

text \<open>
  (C24) The configuration cache is transparent: in every state that loads, overrides, clears and
  invalidations can produce, loading a tenant's configuration gives what reading the files and
  applying the present overrides gives, whether or not the answer comes from the cache, and right after
  the tenant's overrides are cleared it gives the files alone. A category without an override is that of
  the files; in a category with one, a setting found in the override hides the files' setting at the
  same path, while every other setting of the files stays visible.
\<close>

theorem config_cache_transparent:
  assumes "config_reach disk cs"
  shows "fst (load disk now now' d cs) = fresh_config disk (runtime_of cs d) d
    \<and> fst (load disk now now' d (clear_runtime_overrides (Some d) cs)) = load_from_disk disk d
    \<and> (\<forall>base cat. load_from_disk disk d = Inr base \<longrightarrow> map_of (runtime_of cs d) cat = None \<longrightarrow>
        (\<exists>config. fst (load disk now now' d cs) = Inr config \<and> map_of config cat = map_of base cat))
    \<and> (\<forall>base cat ov ps. load_from_disk disk d = Inr base \<longrightarrow> cat \<in> set CONFIG_CATEGORIES \<longrightarrow>
        map_of (runtime_of cs d) cat = Some (PDict ov) \<longrightarrow> plain_keys (PDict ov) \<longrightarrow> ps \<noteq> [] \<longrightarrow>
        (\<exists>config. fst (load disk now now' d cs) = Inr config \<and>
           path_get (PDict config) (cat # ps) =
             (case path_get (PDict ov) ps of
                Some w \<Rightarrow> Some (case path_get (PDict base) (cat # ps) of None \<Rightarrow> w | Some bw \<Rightarrow> deep_merge_val bw w)
              | None \<Rightarrow> if replaces (PDict ov) ps then None else path_get (PDict base) (cat # ps))))"
proof (intro conjI allI impI)
  have fresh: "fst (load disk now now' d cs) = fresh_config disk (runtime_of cs d) d" if "config_reach disk cs" for cs
    by (rule load_fresh [OF reach_cache_ok [OF that]])
  note here = fresh [OF assms]
  show "fst (load disk now now' d cs) = fresh_config disk (runtime_of cs d) d" by (rule here)
  have cleared: "config_reach disk (clear_runtime_overrides (Some d) cs)" by (rule reach_clear [OF assms])
  have "runtime_of (clear_runtime_overrides (Some d) cs) d = []" by (simp add: config_simps)
  then show "fst (load disk now now' d (clear_runtime_overrides (Some d) cs)) = load_from_disk disk d"
    using fresh [OF cleared] by (cases "load_from_disk disk d") (simp_all add: fresh_config_def)
  fix base cat assume base: "load_from_disk disk d = Inr base"
  show "\<exists>config. fst (load disk now now' d cs) = Inr config \<and> map_of config cat = map_of base cat"
    if "map_of (runtime_of cs d) cat = None"
    unfolding here by (rule other_categories_visible [OF assms base that])
  show "\<exists>config. fst (load disk now now' d cs) = Inr config \<and>
      path_get (PDict config) (cat # ps) =
        (case path_get (PDict ov) ps of
           Some w \<Rightarrow> Some (case path_get (PDict base) (cat # ps) of None \<Rightarrow> w | Some bw \<Rightarrow> deep_merge_val bw w)
         | None \<Rightarrow> if replaces (PDict ov) ps then None else path_get (PDict base) (cat # ps))"
    if "cat \<in> set CONFIG_CATEGORIES" "map_of (runtime_of cs d) cat = Some (PDict ov)" "plain_keys (PDict ov)" "ps \<noteq> []" for ov ps
    unfolding here by (rule override_visible [OF assms base that])
qed

text \<open>
  A configuration change can be lost for a minute: the load reads the files and the overrides
  outside the lock, so an override that is applied after the read and before the result is stored
  clears a cache that does not yet hold the old object; the old object is stored afterwards and
  answers every load until its time to live ends.
\<close>

theorem stale_config_race:
  assumes "fresh_config disk (runtime_of cs d) d = Inr old"
    and "cs' = store_config d old t (apply_runtime_override d cat v cs)"
    and "now - t < ttl"
  shows "runtime_of cs' d = dict_put cat v (runtime_of cs d) \<and> load disk now now' d cs' = (Inr old, cs')
    \<and> fst (load disk now now' d cs') = fresh_config disk (runtime_of cs d) d"
  using assms by (simp add: load_def cached_config_def config_simps)

text \<open>
  Start-up and notification agree: loading all override rows at start-up gives every tenant the
  same overrides as reloading the rows of that tenant alone, in the same order.
\<close>

theorem preload_agrees_with_reload:
  "runtime_of (snd (preload_tenant_configs rows empty_service)) d =
   runtime_of (reload_tenant_config (map snd (filter (\<lambda>row. fst row = d) rows)) d cs) d"
proof -
  have rows: "rows_for d (map (\<lambda>(d, cat, y). ((d, cat), y)) rows)
      = map snd (filter (\<lambda>row. fst row = d) rows)"
    by (induction rows) (auto simp: rows_for_def)
  have empty: "rows_for d ([] :: ((string \<times> string) \<times> pydict) list) = []" "runtime_of empty_service d = []"
    by (simp_all add: rows_for_def runtime_of_def empty_service_def)
  show ?thesis
    by (simp add: preload_tenant_configs_def reload_tenant_config_def Let_def runtime_apply_all
        runtime_apply_tenant rows_for_grouped rows empty config_simps)
qed

text \<open>
  (C25) The change history explains the overrides: replaying the recorded changes gives exactly the
  stored overrides, each record names the value its change replaced, and with a ledger the published
  changes are exactly the breaking ones, in order.
\<close>

theorem history_explains_overrides:
  assumes "override_reach ledger ov cs"
  shows "map_of (ov_overrides ov) = replay (ov_history ov)
    \<and> (\<forall>i < length (ov_history ov).
         cc_old_value (ov_history ov ! i) = old_in (replay (take i (ov_history ov))) (ov_history ov ! i))
    \<and> ov_published ov = (if ledger then filter (\<lambda>h. is_breaking (cc_category h) (cc_key h)) (ov_history ov) else [])"
  using override_reach_history [OF assms] override_reach_ledger [OF assms] by (simp add: history_ok_def)

text \<open>
  What an override of a parent path does: the reload turns the single row of a tenant into one
  nested override, which the next load merges over the files.
\<close>

abbreviation endpoint_override :: "string \<Rightarrow> pyval" where
  "endpoint_override url \<equiv> PDict [(''tenant_slm'', PDict [(''base_url'', PStr url)])]"

lemma override_rows_first:
  assumes "override_rows d ov = []"
  shows "override_rows d (ov\<lparr>ov_overrides := assoc_put (d, cat, key) v (ov_overrides ov)\<rparr>) = [(cat, key, v)]"
proof -
  have "filter (\<lambda>((d', _, _), _). d' = d) (assoc_put (d, cat, key) v xs) = [((d, cat, key), v)]"
    if "filter (\<lambda>((d', _, _), _). d' = d) xs = []" for xs :: "((string \<times> string \<times> string) \<times> pyval) list"
    using that by (induction xs) (auto split: if_splits)
  with assms show ?thesis by (simp add: override_rows_def)
qed

lemma reload_single_row:
  "runtime_of (reload_tenant_config [(cat, key, v)] d cs) d = [(cat, PDict (set_nested [] key v))]"
  "map_of (cs_cache (reload_tenant_config [(cat, key, v)] d cs)) d = None"
  by (simp_all add: reload_tenant_config_def bucket_row_def config_simps)

lemma patch_endpoints:
  assumes "override_rows d ov = []"
    and "patch now d ''model'' ''endpoints'' v actor False reason (ov, cs) = (r, ov', cs')"
  shows "(\<exists>h. r = Inr h) \<and> override_rows d ov' = [(''model'', ''endpoints'', v)]"
proof -
  have "\<not> is_platform_admin_restricted ''model'' ''endpoints''" by code_simp
  moreover have "override_rows d (record_change h ov) = [(''model'', ''endpoints'', v)]"
    if "h = change_of now d ''model'' ''endpoints'' v actor reason ov" for h
    using override_rows_first [OF assms(1), of "''model''" "''endpoints''" v] that
    by (simp add: record_change_def change_of_def override_rows_def)
  ultimately show ?thesis using assms(2) by (auto simp: patch_def Let_def)
qed

text \<open>
  A restricted key can be changed through its parent: the check compares the whole dotted key
  with the list of restricted ones, so a tenant administrator may not set
  \<open>model.endpoints.tenant_slm.base_url\<close>, but may set \<open>model.endpoints\<close> to a dictionary that contains
  it; after the reload that follows the change the tenant's model calls go to the new address.
\<close>

theorem parent_key_bypasses_restriction:
  assumes "override_rows d ov = []" and "load_from_disk disk d = Inr base"
    and "patch now d ''model'' ''endpoints'' (endpoint_override url) actor False reason (ov, cs) = (r, ov', cs')"
  shows "is_platform_admin_restricted ''model'' ''endpoints.tenant_slm.base_url'' \<and> (\<exists>h. r = Inr h)
    \<and> (\<exists>config. fst (load disk t t' d (reload_tenant_config (override_rows d ov') d cs')) = Inr config
         \<and> path_get (PDict config) [''model'', ''endpoints'', ''tenant_slm'', ''base_url''] = Some (PStr url))"
proof -
  let ?cs = "reload_tenant_config (override_rows d ov') d cs'"
  note patched = patch_endpoints [OF assms(1,3)]
  have nested: "set_nested [] ''endpoints'' (endpoint_override url) = [(''endpoints'', endpoint_override url)]"
    by (simp add: set_nested_def)
  have runtime: "runtime_of ?cs d = [(''model'', PDict [(''endpoints'', endpoint_override url)])]"
    using patched by (simp add: reload_single_row nested)
  have "cached_config t d ?cs = None"
    using patched by (simp add: cached_config_def reload_single_row)
  moreover obtain config where config: "fresh_config disk (runtime_of ?cs d) d = Inr config"
    using assms(2) by (simp add: fresh_config_def)
  ultimately have "fst (load disk t t' d ?cs) = Inr config" by (simp add: load_def)
  moreover have "''model'' \<in> set CONFIG_CATEGORIES" by code_simp
  then obtain cur where cur: "map_of base ''model'' = Some cur"
    using loaded_category [OF assms(2)] by blast
  have "path_get (PDict config) [''model'', ''endpoints'', ''tenant_slm'', ''base_url''] = Some (PStr url)"
    using effective_path [OF assms(2) config [unfolded runtime] _ _ _ cur,
        of "[(''endpoints'', endpoint_override url)]" "[''endpoints'', ''tenant_slm'', ''base_url'']"]
    by (simp add: deep_merge_val_other split: option.splits)
  moreover have "is_platform_admin_restricted ''model'' ''endpoints.tenant_slm.base_url''" by code_simp
  ultimately show ?thesis using patched by blast
qed

section \<open>Examples\<close>

definition ex_disk :: config_disk where
  "ex_disk = \<lparr>dk_platform = (\<lambda>cat. if cat = ''model'' then Some (Inr (PDict [(''endpoints'',
       PDict [(''tenant_slm'', PDict [(''base_url'', PStr ''a''), (''gpu'', PInt 1)])])])) else None),
     dk_tenant = (\<lambda>_. None)\<rparr>"

definition ex_override :: pyval where
  "ex_override = PDict [(''endpoints'', endpoint_override ''b'')]"

definition ex_overrides :: override_service where
  "ex_overrides = \<lparr>ov_overrides = [], ov_history = [], ov_ledger = True, ov_published = []\<rparr>"

definition ex_base :: pydict where
  "ex_base = projr (load_from_disk ex_disk ''t'')"

lemma ex_base: "load_from_disk ex_disk ''t'' = Inr ex_base"
  by code_simp

theorem config_cache_transparent_witness:
  "\<exists>config. fst (load ex_disk 0 0 ''t'' (apply_runtime_override ''t'' ''model'' ex_override empty_service)) = Inr config
     \<and> path_get (PDict config) [''model'', ''endpoints'', ''tenant_slm'', ''gpu''] = Some (PInt 1)
     \<and> fst (load ex_disk 0 0 ''t'' (clear_runtime_overrides (Some ''t'')
         (snd (load ex_disk 0 0 ''t'' (apply_runtime_override ''t'' ''model'' ex_override empty_service))))) = Inr ex_base"
proof -
  let ?cs = "apply_runtime_override ''t'' ''model'' ex_override empty_service"
  have reach: "config_reach ex_disk ?cs" "config_reach ex_disk (snd (load ex_disk 0 0 ''t'' ?cs))"
    by (intro reach_apply reach_empty reach_load)+
  have runtime: "map_of (runtime_of ?cs ''t'') ''model'' = Some (PDict [(''endpoints'', endpoint_override ''b'')])"
    by code_simp
  have plain: "plain_keys (PDict [(''endpoints'', endpoint_override ''b'')])" by simp
  have cat: "''model'' \<in> set CONFIG_CATEGORIES" by code_simp
  have base: "path_get (PDict ex_base) [''model'', ''endpoints'', ''tenant_slm'', ''gpu''] = Some (PInt 1)"
    by code_simp
  have "\<exists>config. fst (load ex_disk 0 0 ''t'' ?cs) = Inr config
     \<and> path_get (PDict config) [''model'', ''endpoints'', ''tenant_slm'', ''gpu''] = Some (PInt 1)"
    using config_cache_transparent [OF reach(1), of 0 0 "''t''", THEN conjunct2, THEN conjunct2, THEN conjunct2,
        rule_format, OF ex_base cat runtime plain, of "[''endpoints'', ''tenant_slm'', ''gpu'']", unfolded base]
    by simp
  moreover have "fst (load ex_disk 0 0 ''t'' (clear_runtime_overrides (Some ''t'') (snd (load ex_disk 0 0 ''t'' ?cs)))) = Inr ex_base"
    using config_cache_transparent [OF reach(2), of 0 0 "''t''"] ex_base by simp
  ultimately show ?thesis by blast
qed

theorem stale_config_race_witness:
  "load ex_disk 30 30 ''t'' (store_config ''t'' ex_base 0 (apply_runtime_override ''t'' ''model'' ex_override empty_service))
     = (Inr ex_base, store_config ''t'' ex_base 0 (apply_runtime_override ''t'' ''model'' ex_override empty_service))
   \<and> fresh_config ex_disk (runtime_of (apply_runtime_override ''t'' ''model'' ex_override empty_service) ''t'') ''t'' \<noteq> Inr ex_base"
proof
  have "fresh_config ex_disk (runtime_of empty_service ''t'') ''t'' = Inr ex_base" by code_simp
  then show "load ex_disk 30 30 ''t'' (store_config ''t'' ex_base 0 (apply_runtime_override ''t'' ''model'' ex_override empty_service))
     = (Inr ex_base, store_config ''t'' ex_base 0 (apply_runtime_override ''t'' ''model'' ex_override empty_service))"
    using stale_config_race [of ex_disk empty_service "''t''" ex_base _ 0 "''model''" ex_override 30 30]
    by (simp add: ttl_def)
qed code_simp

theorem history_explains_overrides_witness:
  "map_of (ov_overrides (fst (snd (patch 1 ''t'' ''retrieval'' ''dense_dim'' (PInt 8) ''root'' True None (ex_overrides, empty_service)))))
     (''t'', ''retrieval'', ''dense_dim'') = Some (PInt 8)"
proof -
  obtain r ov cs where p: "patch 1 ''t'' ''retrieval'' ''dense_dim'' (PInt 8) ''root'' True None (ex_overrides, empty_service) = (r, ov, cs)"
    by (metis prod.exhaust)
  have "override_reach True ov cs"
    by (rule ov_patch [OF ov_start p [unfolded ex_overrides_def]])
  from history_explains_overrides [OF this] p show ?thesis
    by (auto simp: patch_def Let_def replay_def ex_overrides_def record_change_def change_of_def)
qed

theorem parent_key_bypasses_restriction_witness:
  "\<exists>config. fst (load ex_disk 1 1 ''t'' (reload_tenant_config (override_rows ''t''
       (fst (snd (patch 1 ''t'' ''model'' ''endpoints'' (endpoint_override ''evil'') ''u'' False None (ex_overrides, empty_service))))) ''t''
       (snd (snd (patch 1 ''t'' ''model'' ''endpoints'' (endpoint_override ''evil'') ''u'' False None (ex_overrides, empty_service)))))) = Inr config
     \<and> path_get (PDict config) [''model'', ''endpoints'', ''tenant_slm'', ''base_url''] = Some (PStr ''evil'')"
proof -
  have "override_rows ''t'' ex_overrides = []" by code_simp
  from parent_key_bypasses_restriction [OF this ex_base] show ?thesis
    by (metis prod.collapse)
qed

end
