(* ===== verification/Approvals.thy ===== *)
theory Approvals
  imports Py_Data
begin

text \<open>
  The approvals without which a tenant's questions are never stored in plain text:
  \<open>InMemoryPiiStorageApprovalService\<close> of \<open>backend/app/services/pii_storage_approval_service.py\<close>, the
  in-process form of the service. Identifiers (\<open>uuid4\<close>) and the clock are arguments; what is handed to
  the ledger is collected, since a failing ledger is ignored.
\<close>

section \<open>The service\<close>

record pii_approval =
  pa_approval_id :: string
  pa_domain_id :: string
  pa_policy :: string
  pa_reason :: string
  pa_approved_by :: string
  pa_valid_from :: "real option"
  pa_valid_until :: "real option"
  pa_status :: string
  pa_revoked_at :: "real option"
  pa_revoked_by :: "string option"
  pa_revoke_reason :: "string option"

record audit_event =
  ae_domain_id :: string
  ae_action :: string
  ae_actor :: string
  ae_reason :: string
  ae_approval_id :: string

record approval_service =
  ap_active :: "(string \<times> pii_approval) list"
  ap_history :: "(string \<times> pii_approval list) list"
  ap_audit :: "audit_event list"
  ap_ledger :: bool
  ap_published :: "audit_event list"

definition no_approvals :: "bool \<Rightarrow> approval_service" where
  "no_approvals ledger = \<lparr>ap_active = [], ap_history = [], ap_audit = [], ap_ledger = ledger, ap_published = []\<rparr>"

definition PiiApprovalConflictError :: py_error where
  "PiiApprovalConflictError = OtherError ''PiiApprovalConflictError''"

definition PiiApprovalNotFoundError :: py_error where
  "PiiApprovalNotFoundError = OtherError ''PiiApprovalNotFoundError''"

definition history_of :: "approval_service \<Rightarrow> string \<Rightarrow> pii_approval list" where
  "history_of st domain_id = (case map_of (ap_history st) domain_id of None \<Rightarrow> [] | Some h \<Rightarrow> h)"

definition publish_ledger :: "audit_event \<Rightarrow> approval_service \<Rightarrow> approval_service" where
  "publish_ledger e st = (if ap_ledger st then st\<lparr>ap_published := ap_published st @ [e]\<rparr> else st)"

definition audited :: "audit_event \<Rightarrow> approval_service \<Rightarrow> approval_service" where
  "audited e st = publish_ledger e (st\<lparr>ap_audit := ap_audit st @ [e]\<rparr>)"

definition approve_plain ::
  "string \<Rightarrow> real \<Rightarrow> string \<Rightarrow> string \<Rightarrow> string \<Rightarrow> real option \<Rightarrow> approval_service
   \<Rightarrow> pii_approval res \<times> approval_service" where
  "approve_plain uuid now domain_id reason approved_by valid_until st =
     (case map_of (ap_active st) domain_id of
        Some existing \<Rightarrow> (Inl PiiApprovalConflictError, st)
      | None \<Rightarrow>
          let record = \<lparr>pa_approval_id = uuid, pa_domain_id = domain_id, pa_policy = ''plain'',
                pa_reason = reason, pa_approved_by = approved_by, pa_valid_from = Some now,
                pa_valid_until = valid_until, pa_status = ''active'', pa_revoked_at = None,
                pa_revoked_by = None, pa_revoke_reason = None\<rparr>
          in (Inr record,
              audited \<lparr>ae_domain_id = domain_id, ae_action = ''pii_storage_plain_approved'',
                  ae_actor = approved_by, ae_reason = reason, ae_approval_id = uuid\<rparr>
                (st\<lparr>ap_active := assoc_put domain_id record (ap_active st),
                    ap_history := assoc_put domain_id (history_of st domain_id @ [record]) (ap_history st)\<rparr>)))"

definition replace_last :: "pii_approval \<Rightarrow> pii_approval \<Rightarrow> pii_approval list \<Rightarrow> pii_approval list" where
  \<comment> \<open>the last record of the history is replaced when it is the one that is revoked\<close>
  "replace_last existing revoked h =
     (if h \<noteq> [] \<and> pa_approval_id (last h) = pa_approval_id existing then butlast h @ [revoked] else h)"

definition revoke_active ::
  "real \<Rightarrow> string \<Rightarrow> string \<Rightarrow> string \<Rightarrow> approval_service \<Rightarrow> pii_approval res \<times> approval_service" where
  "revoke_active now domain_id revoked_by revoke_reason st =
     (case map_of (ap_active st) domain_id of
        None \<Rightarrow> (Inl PiiApprovalNotFoundError, st)
      | Some existing \<Rightarrow>
          let revoked = existing\<lparr>pa_domain_id := domain_id, pa_status := ''revoked'', pa_revoked_at := Some now,
                pa_revoked_by := Some revoked_by, pa_revoke_reason := Some revoke_reason\<rparr>
          in (Inr revoked,
              audited \<lparr>ae_domain_id = domain_id, ae_action = ''pii_storage_plain_revoked'',
                  ae_actor = revoked_by, ae_reason = revoke_reason, ae_approval_id = pa_approval_id existing\<rparr>
                (st\<lparr>ap_active := assoc_del domain_id (ap_active st),
                    ap_history := assoc_modify domain_id (replace_last existing revoked) (ap_history st)\<rparr>)))"

definition is_plain_approved :: "real \<Rightarrow> string \<Rightarrow> approval_service \<Rightarrow> bool" where
  "is_plain_approved now domain_id st =
     (case map_of (ap_active st) domain_id of
        None \<Rightarrow> False
      | Some record \<Rightarrow> (case pa_valid_until record of None \<Rightarrow> True | Some u \<Rightarrow> \<not> u \<le> now))"

definition list_approvals :: "string \<Rightarrow> int \<Rightarrow> int \<Rightarrow> approval_service \<Rightarrow> pii_approval list" where
  "list_approvals domain_id limit offset st =
     py_slice offset (offset + limit) (rev (history_of st domain_id))"

section \<open>Facts\<close>

named_theorems approval_simps \<open>what the operations do to the parts of the state\<close>

lemma audited_parts [simp]:
  "ap_active (audited e st) = ap_active st" "ap_history (audited e st) = ap_history st"
  "ap_audit (audited e st) = ap_audit st @ [e]" "ap_ledger (audited e st) = ap_ledger st"
  "ap_published (audited e st) = (if ap_ledger st then ap_published st @ [e] else ap_published st)"
  by (simp_all add: audited_def publish_ledger_def)

text \<open>The audit events of a tenant.\<close>

definition events_of :: "approval_service \<Rightarrow> string \<Rightarrow> audit_event list" where
  "events_of st d = filter (\<lambda>e. ae_domain_id e = d) (ap_audit st)"

abbreviation approval_event :: "audit_event \<Rightarrow> bool" where
  "approval_event e \<equiv> ae_action e = ''pii_storage_plain_approved''"

text \<open>
  The audit events that an approval record accounts for: its approval, and its revocation once it has
  been revoked.
\<close>

definition record_events :: "string \<Rightarrow> pii_approval \<Rightarrow> audit_event list" where
  "record_events d r =
     \<lparr>ae_domain_id = d, ae_action = ''pii_storage_plain_approved'', ae_actor = pa_approved_by r, ae_reason = pa_reason r,
      ae_approval_id = pa_approval_id r\<rparr> #
     (case (pa_revoked_by r, pa_revoke_reason r) of
        (Some who, Some why) \<Rightarrow> [\<lparr>ae_domain_id = d, ae_action = ''pii_storage_plain_revoked'', ae_actor = who, ae_reason = why,
                                 ae_approval_id = pa_approval_id r\<rparr>]
      | _ \<Rightarrow> [])"

definition was_revoked :: "pii_approval \<Rightarrow> bool" where
  "was_revoked r \<longleftrightarrow> pa_status r = ''revoked'' \<and> pa_revoked_by r \<noteq> None \<and> pa_revoke_reason r \<noteq> None"

definition tenant_ok :: "string \<Rightarrow> pii_approval option \<Rightarrow> audit_event list \<Rightarrow> pii_approval list \<Rightarrow> bool" where
  \<comment> \<open>the active approval, the audit events and the approval history of one tenant fit together\<close>
  "tenant_ok d active es h \<longleftrightarrow> es = concat (map (record_events d) h) \<and>
     (case active of
        None \<Rightarrow> (\<forall>r \<in> set h. was_revoked r)
      | Some r \<Rightarrow> pa_status r = ''active'' \<and> pa_revoked_by r = None \<and> h \<noteq> [] \<and> last h = r \<and> (\<forall>r' \<in> set (butlast h). was_revoked r'))"

definition approvals_ok :: "approval_service \<Rightarrow> bool" where
  "approvals_ok st \<longleftrightarrow> (\<forall>d. tenant_ok d (map_of (ap_active st) d) (events_of st d) (history_of st d))
     \<and> ap_published st = (if ap_ledger st then ap_audit st else [])"

inductive approvals_reach :: "bool \<Rightarrow> approval_service \<Rightarrow> bool" for ledger where
  ap_start: "approvals_reach ledger (no_approvals ledger)"
| ap_approve: "approvals_reach ledger st \<Longrightarrow> approvals_reach ledger (snd (approve_plain uuid now d reason actor until st))"
| ap_revoke: "approvals_reach ledger st \<Longrightarrow> approvals_reach ledger (snd (revoke_active now d actor reason st))"

lemma events_snoc:
  "filter (\<lambda>e. ae_domain_id e = d) (xs @ [e]) = filter (\<lambda>e. ae_domain_id e = d) xs @ (if ae_domain_id e = d then [e] else [])"
  by simp

lemma history_of_put [simp]:
  "history_of (audited e (st\<lparr>ap_active := a, ap_history := assoc_put d h (ap_history st)\<rparr>)) d' =
     (if d' = d then h else history_of st d')"
  by (simp add: history_of_def dict_simps)

lemma history_of_modify [simp]:
  "history_of (audited e (st\<lparr>ap_active := a, ap_history := assoc_modify d f (ap_history st)\<rparr>)) d' =
     (if d' = d \<and> map_of (ap_history st) d \<noteq> None then f (history_of st d) else history_of st d')"
  by (auto simp: history_of_def dict_simps split: option.splits)

lemma events_of_audited [simp]:
  "events_of (audited e (st\<lparr>ap_active := a, ap_history := h\<rparr>)) d =
     events_of st d @ (if ae_domain_id e = d then [e] else [])"
  by (simp add: events_of_def)

lemma tenant_ok_approve:
  "tenant_ok d None es h \<Longrightarrow> pa_status r = ''active'' \<Longrightarrow> pa_revoked_by r = None \<Longrightarrow>
   tenant_ok d (Some r) (es @ [\<lparr>ae_domain_id = d, ae_action = ''pii_storage_plain_approved'', ae_actor = pa_approved_by r,
      ae_reason = pa_reason r, ae_approval_id = pa_approval_id r\<rparr>]) (h @ [r])"
  by (simp add: tenant_ok_def record_events_def)

lemma tenant_ok_revoke:
  assumes "tenant_ok d (Some r) es h"
  shows "tenant_ok d None
    (es @ [\<lparr>ae_domain_id = d, ae_action = ''pii_storage_plain_revoked'', ae_actor = who, ae_reason = why,
       ae_approval_id = pa_approval_id r\<rparr>])
    (replace_last r (r\<lparr>pa_domain_id := d', pa_status := ''revoked'', pa_revoked_at := t, pa_revoked_by := Some who,
       pa_revoke_reason := Some why\<rparr>) h)"
  using assms by (cases h rule: rev_cases) (auto simp: tenant_ok_def replace_last_def record_events_def was_revoked_def)

lemma approve_ok:
  assumes "approvals_ok st"
  shows "approvals_ok (snd (approve_plain uuid now d reason actor until st))"
proof (cases "map_of (ap_active st) d")
  case None
  from assms have ok: "tenant_ok d' (map_of (ap_active st) d') (events_of st d') (history_of st d')" for d'
    by (simp add: approvals_ok_def)
  define r where "r = \<lparr>pa_approval_id = uuid, pa_domain_id = d, pa_policy = ''plain'', pa_reason = reason, pa_approved_by = actor,
    pa_valid_from = Some now, pa_valid_until = until, pa_status = ''active'', pa_revoked_at = None, pa_revoked_by = None,
    pa_revoke_reason = None\<rparr>"
  from ok [of d] None have "tenant_ok d None (events_of st d) (history_of st d)" by simp
  then have "tenant_ok d (Some r) (events_of st d @ [\<lparr>ae_domain_id = d, ae_action = ''pii_storage_plain_approved'',
      ae_actor = actor, ae_reason = reason, ae_approval_id = uuid\<rparr>]) (history_of st d @ [r])"
    using tenant_ok_approve [of d _ _ r] by (simp add: r_def)
  with assms None ok show ?thesis
    by (simp add: approvals_ok_def approve_plain_def Let_def dict_simps r_def)
next
  case (Some r)
  with assms show ?thesis by (simp add: approve_plain_def)
qed

lemma history_present: "history_of st d \<noteq> [] \<Longrightarrow> \<exists>h. map_of (ap_history st) d = Some h"
  by (cases "map_of (ap_history st) d") (simp_all add: history_of_def)

lemma revoke_ok:
  assumes "approvals_ok st"
  shows "approvals_ok (snd (revoke_active now d actor reason st))"
proof (cases "map_of (ap_active st) d")
  case None
  with assms show ?thesis by (simp add: revoke_active_def)
next
  case (Some r)
  from assms have ok: "tenant_ok d' (map_of (ap_active st) d') (events_of st d') (history_of st d')" for d'
    by (simp add: approvals_ok_def)
  from ok [of d] Some have r: "tenant_ok d (Some r) (events_of st d) (history_of st d)" by simp
  then obtain h where "map_of (ap_history st) d = Some h"
    using history_present [of st d] by (auto simp: tenant_ok_def)
  with assms Some ok tenant_ok_revoke [OF r] show ?thesis
    by (simp add: approvals_ok_def revoke_active_def Let_def dict_simps)
qed

lemma reach_approvals_ok: "approvals_reach ledger st \<Longrightarrow> approvals_ok st"
proof (induction rule: approvals_reach.induct)
  case ap_start
  then show ?case by (simp add: approvals_ok_def tenant_ok_def no_approvals_def events_of_def history_of_def)
qed (simp_all add: approve_ok revoke_ok)

lemma reach_ledger: "approvals_reach ledger st \<Longrightarrow> ap_ledger st = ledger"
  by (induction rule: approvals_reach.induct)
    (auto simp: no_approvals_def approve_plain_def revoke_active_def Let_def split: option.splits)

lemma reach_audit_sound:
  assumes "approvals_reach ledger st" and "e \<in> set (ap_audit st)"
  shows "ae_action e \<in> {''pii_storage_plain_approved'', ''pii_storage_plain_revoked''}"
  using assms
  by (induction arbitrary: e rule: approvals_reach.induct)
    (auto simp: no_approvals_def approve_plain_def revoke_active_def Let_def split: option.splits)

definition unexpired :: "real \<Rightarrow> pii_approval \<Rightarrow> bool" where
  "unexpired now r = (case pa_valid_until r of None \<Rightarrow> True | Some u \<Rightarrow> now < u)"

lemma approved_iff_last:
  assumes "approvals_ok st"
  shows "is_plain_approved now d st \<longleftrightarrow>
    history_of st d \<noteq> [] \<and> pa_status (last (history_of st d)) = ''active'' \<and> unexpired now (last (history_of st d))"
proof -
  have "tenant_ok d (map_of (ap_active st) d) (events_of st d) (history_of st d)"
    using assms by (simp add: approvals_ok_def)
  moreover have "pa_status (last h) = ''revoked''" if "\<forall>r \<in> set h. was_revoked r" "h \<noteq> []" for h
    using that by (simp add: was_revoked_def)
  ultimately show ?thesis
    by (cases "map_of (ap_active st) d"; cases "history_of st d = []")
      (auto simp: tenant_ok_def is_plain_approved_def unexpired_def split: option.splits)
qed

lemma approved_last_event:
  assumes "tenant_ok d active es h"
  shows "(h \<noteq> [] \<and> pa_status (last h) = ''active'') \<longleftrightarrow> (es \<noteq> [] \<and> approval_event (last es))"
proof (cases h rule: rev_cases)
  case (snoc h0 r)
  have "was_revoked r \<or> pa_status r = ''active'' \<and> pa_revoked_by r = None"
    using assms snoc by (auto simp: tenant_ok_def split: option.splits)
  then show ?thesis
    using assms snoc by (auto simp: tenant_ok_def record_events_def was_revoked_def)
qed (use assms in \<open>simp add: tenant_ok_def\<close>)

section \<open>Properties\<close>

text \<open>
  (C26) Approvals are accounted for: in every state that approvals and revocations can produce, the audit
  events of a tenant are exactly the approval of each record of its history, followed by its revocation if
  it was revoked, with actor, reason and identifier; plain storage is approved exactly when the last audit
  event is an approval and the last record has not expired; all records before the last one are
  revoked; and with a ledger every audit event is published.
\<close>

theorem approvals_accounted_for:
  assumes "approvals_reach ledger st"
  shows "events_of st d = concat (map (record_events d) (history_of st d))
    \<and> (is_plain_approved now d st \<longleftrightarrow>
        events_of st d \<noteq> [] \<and> approval_event (last (events_of st d)) \<and> unexpired now (last (history_of st d)))
    \<and> (\<forall>r \<in> set (butlast (history_of st d)). was_revoked r)
    \<and> ap_published st = (if ledger then ap_audit st else [])"
proof -
  have ok: "approvals_ok st" by (rule reach_approvals_ok [OF assms])
  then have t: "tenant_ok d (map_of (ap_active st) d) (events_of st d) (history_of st d)" by (simp add: approvals_ok_def)
  then have "\<forall>r \<in> set (butlast (history_of st d)). was_revoked r"
    by (auto simp: tenant_ok_def split: option.splits dest: in_set_butlastD)
  then show ?thesis
    using t ok approved_iff_last [OF ok] approved_last_event [OF t] reach_ledger [OF assms]
    by (auto simp: approvals_ok_def tenant_ok_def)
qed

text \<open>
  An expired approval is not renewed by approving again: it no longer allows plain storage, but
  still occupies the tenant's place, so a new approval is rejected until the expired one is revoked.
\<close>

theorem expired_approval_must_be_revoked:
  assumes "map_of (ap_active st) d = Some r" and "pa_valid_until r = Some u" and "u \<le> now"
  shows "\<not> is_plain_approved now d st
    \<and> approve_plain uuid now d reason actor until st = (Inl PiiApprovalConflictError, st)
    \<and> is_plain_approved now d (snd (approve_plain uuid now d reason actor None (snd (revoke_active now d actor why st))))"
  using assms
  by (simp add: is_plain_approved_def approve_plain_def revoke_active_def Let_def dict_simps)

section \<open>Examples\<close>

definition ex_approved :: approval_service where
  "ex_approved = snd (approve_plain ''a1'' 0 ''t'' ''audit'' ''root'' (Some 10) (no_approvals True))"

definition ex_renewed :: approval_service where
  "ex_renewed = snd (approve_plain ''a2'' 8 ''t'' ''again'' ''root'' None (snd (revoke_active 7 ''t'' ''eve'' ''done'' ex_approved)))"

theorem approvals_accounted_for_witness:
  "is_plain_approved 9 ''t'' ex_renewed \<and> \<not> is_plain_approved 10 ''t'' ex_approved
   \<and> map ae_action (events_of ex_renewed ''t'') = [''pii_storage_plain_approved'', ''pii_storage_plain_revoked'', ''pii_storage_plain_approved'']
   \<and> ap_published ex_renewed = ap_audit ex_renewed"
proof -
  have r: "approvals_reach True ex_approved" "approvals_reach True ex_renewed"
    unfolding ex_renewed_def ex_approved_def by (intro ap_approve ap_revoke ap_start)+
  show ?thesis
    using approvals_accounted_for [OF r(1), of "''t''" 10] approvals_accounted_for [OF r(2), of "''t''" 9]
    by (auto simp: ex_renewed_def ex_approved_def approve_plain_def revoke_active_def Let_def history_of_def no_approvals_def unexpired_def
        replace_last_def record_events_def dict_simps)
qed

theorem expired_approval_must_be_revoked_witness:
  "approve_plain ''a2'' 20 ''t'' ''again'' ''root'' None ex_approved = (Inl PiiApprovalConflictError, ex_approved)"
proof -
  obtain r where "map_of (ap_active ex_approved) ''t'' = Some r" "pa_valid_until r = Some 10"
    by (simp add: ex_approved_def approve_plain_def Let_def no_approvals_def)
  from expired_approval_must_be_revoked [OF this, of 20] show ?thesis by simp
qed

end
