(* ===== verification/Auth.thy ===== *)
theory Auth
  imports Py_Data "HOL-Library.List_Lexorder" "HOL-Library.Product_Lexorder" "HOL-Library.Char_ord"
begin

text \<open>
  Who may call the API for which tenant: \<open>AuthFusionAdapter\<close> of \<open>backend/app/core/auth_adapter.py\<close> with
  the role and tenant maps of \<open>auth_config.py\<close>, the key cache of \<open>jwks_client.py\<close>, the second check of
  \<open>tenant_guard.py\<close> and the membership rows (\<open>backend/app/services/membership_service.py\<close>).

  The JWT library and the key endpoint are parameters: \<open>al_header\<close> and \<open>al_decode\<close> give the header and
  the verified claims of a token, or the text of the error, and the \<open>n\<close>-th request to the key endpoint
  is answered by \<open>al_fetch n\<close>. The clock is read through \<open>al_clock\<close>, one tick per reading. The tables
  \<open>user_tenant_membership\<close> and \<open>tenants\<close> are association lists under their unique keys; the Postgres
  form of the membership service runs the upsert and the update that the in-process form does on its
  dictionary. Every refusal is an HTTP status with its detail; what is handed to the ledger is
  collected, since a failing ledger is ignored.
\<close>

section \<open>Results\<close>

datatype api_error = HTTPException int pydict | Raised py_error

type_synonym 'a api = "api_error + 'a"

definition lift_res :: "'a res \<Rightarrow> 'a api" where
  "lift_res r = (case r of Inl e \<Rightarrow> Inl (Raised e) | Inr x \<Rightarrow> Inr x)"

definition http_error :: "int \<Rightarrow> string \<Rightarrow> pydict \<Rightarrow> api_error" where
  "http_error status err info = HTTPException status ((''error'', PStr err) # info)"

section \<open>Configuration\<close>

record service_account =
  sa_client_id :: string
  sa_domain_id :: pyval
  sa_roles :: "pyval list"
  sa_clearance :: pyval

record auth_config =
  \<comment> \<open>the fields that the verification of a token reads\<close>
  ac_issuer :: string
  ac_jwt_algorithm :: string
  ac_platform_admin_role :: string
  ac_require_verified_email :: bool
  ac_rp_slug :: string
  ac_client_tenant_map :: "(string \<times> string list) list"
  ac_service_accounts :: "(string \<times> service_account) list"
  ac_tenant_overrides :: "(string \<times> pydict) list"
  ac_accept_legacy_global_roles :: bool

definition removeprefix :: "string \<Rightarrow> string \<Rightarrow> string" where
  "removeprefix p s = (if prefix p s then drop (length p) s else s)"

definition client_id_to_domain_id :: "auth_config \<Rightarrow> string \<Rightarrow> string \<Rightarrow> string" where
  "client_id_to_domain_id ac client_id expected =
     (case map_of (ac_client_tenant_map ac) client_id of
        Some (t # ts) \<Rightarrow> if expected \<noteq> [] \<and> expected \<in> set (t # ts) then expected else t
      | _ \<Rightarrow> removeprefix ''client-'' client_id)"

definition extra_admin_roles :: "auth_config \<Rightarrow> string \<Rightarrow> pyval list res" where
  "extra_admin_roles ac domain_id =
     py_iter (py_or (dget (case map_of (ac_tenant_overrides ac) domain_id of None \<Rightarrow> [] | Some ov \<Rightarrow> ov)
                       ''extra_admin_roles'' PNone) (PList []))"

fun map_oidc_role :: "pylib \<Rightarrow> (string \<Rightarrow> string) \<Rightarrow> auth_config \<Rightarrow> pyval \<Rightarrow> string option res" where
  "map_oidc_role L upper_of ac (PStr role) =
     (let upper = upper_of role; lower = lower_of L role; slug = lower_of L (ac_rp_slug ac) in
      Inr (if lower = lower_of L (ac_platform_admin_role ac) then Some ''PLATFORM_ADMIN''
           else if slug \<noteq> [] \<and> lower = slug @ ''-admin'' then Some ''ADMIN''
           else if slug \<noteq> [] \<and> lower = slug @ ''-auditor'' then Some ''AUDITOR''
           else if slug \<noteq> [] \<and> lower = slug @ ''-user'' then Some ''USER''
           else if ac_accept_legacy_global_roles ac \<and> upper \<in> {''USER'', ''ADMIN'', ''AUDITOR''} then Some upper
           else None))"
| "map_oidc_role L upper_of ac role = Inl AttributeError"

text \<open>How the loader builds the two maps from the platform's file and the tenants' files.\<close>

definition add_client :: "pylib \<Rightarrow> string \<times> pyval \<Rightarrow> (string \<times> string list) list \<Rightarrow> (string \<times> string list) list" where
  "add_client L entry cm =
     (case entry of
        (cid, PList ts) \<Rightarrow> assoc_put cid (map (py_str L) (filter truthy ts)) cm
      | (cid, v) \<Rightarrow> if truthy v then assoc_put cid [py_str L v] cm else cm)"

definition service_account_of :: "string \<times> pyval \<Rightarrow> (string \<times> service_account) res" where
  "service_account_of entry =
     (case entry of (cid, v) \<Rightarrow>
        bind_res (as_dict v) (\<lambda>body.
        bind_res (py_iter (py_or (dget body ''roles'' PNone) (PList []))) (\<lambda>roles.
          Inr (cid, \<lparr>sa_client_id = cid, sa_domain_id = dget body ''domain_id'' (PStr ''platform''),
                     sa_roles = roles, sa_clearance = dget body ''clearance'' (PStr ''internal'')\<rparr>))))"

definition add_tenant :: "string \<times> pydict \<Rightarrow> (string \<times> string list) list \<Rightarrow> (string \<times> string list) list res" where
  \<comment> \<open>one tenant directory with its parsed \<open>auth.yaml\<close>\<close>
  "add_tenant entry cm =
     (case entry of (name, ov) \<Rightarrow>
        (case dget ov ''client_id'' PNone of
           PStr cid \<Rightarrow>
             if cid = [] then Inr cm
             else (let bucket = (case map_of cm cid of None \<Rightarrow> [] | Some b \<Rightarrow> b)
                   in Inr (assoc_put cid (if name \<in> set bucket then bucket else bucket @ [name]) cm))
         | v \<Rightarrow> if truthy v then Inl TypeError else Inr cm))"

definition load_auth_maps ::
  "pylib \<Rightarrow> pydict \<Rightarrow> (string \<times> pydict) list
   \<Rightarrow> ((string \<times> string list) list \<times> (string \<times> service_account) list) res" where
  "load_auth_maps L oidc tenants =
     bind_res (opt_dict (dget oidc ''client_tenant_map'' PNone)) (\<lambda>cs.
     bind_res (opt_dict (dget oidc ''service_accounts'' PNone)) (\<lambda>sas.
     bind_res (map_res service_account_of sas) (\<lambda>accounts.
     bind_res (fold_res add_tenant tenants (fold (add_client L) cs [])) (\<lambda>cm.
       Inr (cm, accounts)))))"

section \<open>The key cache\<close>

record jwks_client =
  jk_keys :: "(pyval \<times> pydict) list"
  jk_fetched_at :: real
  jk_fetches :: nat
  jk_ticks :: nat

record auth_lib =
  al_py :: pylib
  al_upper :: "string \<Rightarrow> string"
  al_header :: "string \<Rightarrow> string + pydict"
  al_decode :: "string \<Rightarrow> pydict \<Rightarrow> string list \<Rightarrow> string \<Rightarrow> string + pydict"
  al_fetch :: "nat \<Rightarrow> string + pyval res"
  al_clock :: "nat \<Rightarrow> real"
  al_cache_ttl :: real

datatype key_error = JWKSFetchError string | KeyRaised py_error

definition is_stale :: "auth_lib \<Rightarrow> jwks_client \<Rightarrow> bool \<times> jwks_client" where
  "is_stale A jk = (al_clock A (jk_ticks jk) - jk_fetched_at jk > al_cache_ttl A, jk\<lparr>jk_ticks := jk_ticks jk + 1\<rparr>)"

fun is_hashable :: "pyval \<Rightarrow> bool" where
  "is_hashable (PList xs) = False"
| "is_hashable (PDict d) = False"
| "is_hashable v = True"

definition add_key :: "pyval \<Rightarrow> (pyval \<times> pydict) list \<Rightarrow> (pyval \<times> pydict) list res" where
  "add_key key new_map =
     bind_res (as_dict key) (\<lambda>k.
       let kid = dget k ''kid'' PNone in
       if \<not> truthy kid then Inr new_map
       else if is_hashable kid then Inr (assoc_put kid k new_map) else Inl TypeError)"

definition read_keys :: "pyval res \<Rightarrow> key_error + (pyval \<times> pydict) list" where
  "read_keys body =
     (case bind_res body (\<lambda>v. bind_res (as_dict v) (\<lambda>data.
             bind_res (py_iter (py_or (dget data ''keys'' PNone) (PList []))) (\<lambda>keys. fold_res add_key keys []))) of
        Inl e \<Rightarrow> Inl (KeyRaised e)
      | Inr new_map \<Rightarrow>
          if new_map = [] then Inl (JWKSFetchError ''JWKS response empty or missing kid fields'') else Inr new_map)"

definition fetch_keys :: "auth_lib \<Rightarrow> jwks_client \<Rightarrow> (key_error + unit) \<times> jwks_client" where
  \<comment> \<open>one request; a failed request or a document without keys leaves the cache as it was\<close>
  "fetch_keys A jk =
     (let jk' = jk\<lparr>jk_fetches := jk_fetches jk + 1\<rparr> in
      case al_fetch A (jk_fetches jk) of
        Inl msg \<Rightarrow> (Inl (JWKSFetchError (''JWKS fetch failed: '' @ msg)), jk')
      | Inr body \<Rightarrow>
          (case read_keys body of
             Inl e \<Rightarrow> (Inl e, jk')
           | Inr new_map \<Rightarrow>
               (Inr (), jk'\<lparr>jk_keys := new_map, jk_fetched_at := al_clock A (jk_ticks jk),
                            jk_ticks := jk_ticks jk + 1\<rparr>)))"

definition refresh_locked :: "auth_lib \<Rightarrow> bool \<Rightarrow> jwks_client \<Rightarrow> (key_error + unit) \<times> jwks_client" where
  "refresh_locked A force jk =
     (if force then fetch_keys A jk
      else let (stale, jk') = is_stale A jk
           in if \<not> stale \<and> jk_keys jk' \<noteq> [] then (Inr (), jk') else fetch_keys A jk')"

definition cached_key :: "auth_lib \<Rightarrow> pyval \<Rightarrow> jwks_client \<Rightarrow> pydict option \<times> jwks_client" where
  \<comment> \<open>the key if it is known and the cache is not stale\<close>
  "cached_key A kid jk =
     (case map_of (jk_keys jk) kid of
        None \<Rightarrow> (None, jk)
      | Some k \<Rightarrow> let (stale, jk') = is_stale A jk in (if stale then None else Some k, jk'))"

definition second_try :: "auth_lib \<Rightarrow> pyval \<Rightarrow> jwks_client \<Rightarrow> (key_error + pydict) \<times> jwks_client" where
  \<comment> \<open>after the first refresh: the key, or one more forced refresh\<close>
  "second_try A kid jk =
     (case map_of (jk_keys jk) kid of
        Some k \<Rightarrow> (Inr k, jk)
      | None \<Rightarrow>
          (case refresh_locked A True jk of
             (Inl e, jk') \<Rightarrow> (Inl e, jk')
           | (Inr _, jk') \<Rightarrow>
               (case map_of (jk_keys jk') kid of
                  Some k \<Rightarrow> (Inr k, jk')
                | None \<Rightarrow> (Inl (JWKSFetchError (''unknown kid in JWKS: '' @ py_str (al_py A) kid)), jk'))))"

definition get_key :: "auth_lib \<Rightarrow> pyval \<Rightarrow> jwks_client \<Rightarrow> (key_error + pydict) \<times> jwks_client" where
  \<comment> \<open>\<open>force_refresh\<close> is never set; the cache is looked at before and after the lock is taken\<close>
  "get_key A kid jk =
     (if \<not> is_hashable kid then (Inl (KeyRaised TypeError), jk)
      else case cached_key A kid jk of
        (Some k, jk1) \<Rightarrow> (Inr k, jk1)
      | (None, jk1) \<Rightarrow>
          (case cached_key A kid jk1 of
             (Some k, jk2) \<Rightarrow> (Inr k, jk2)
           | (None, jk2) \<Rightarrow>
               (case refresh_locked A False jk2 of
                  (Inl e, jk3) \<Rightarrow> (Inl e, jk3)
                | (Inr _, jk3) \<Rightarrow> second_try A kid jk3)))"


section \<open>Memberships\<close>

record membership =
  mb_clearance :: string
  mb_department :: "string option"
  mb_domain_groups :: "string list"
  mb_is_active :: bool

type_synonym member_table = "((string \<times> string) \<times> membership) list"

definition list_for_user :: "string \<Rightarrow> member_table \<Rightarrow> ((string \<times> string) \<times> membership) list" where
  "list_for_user user_id t = filter (\<lambda>((u, _), m). u = user_id \<and> mb_is_active m) (sort_key fst t)"

definition list_for_tenant :: "string \<Rightarrow> member_table \<Rightarrow> ((string \<times> string) \<times> membership) list" where
  "list_for_tenant domain_id t = filter (\<lambda>((_, d), _). d = domain_id) (sort_key fst t)"


definition revoke :: "string \<Rightarrow> string \<Rightarrow> member_table \<Rightarrow> bool \<times> member_table" where
  "revoke user_id domain_id t =
     (case map_of t (user_id, domain_id) of
        Some m \<Rightarrow> if mb_is_active m then (True, assoc_put (user_id, domain_id) (m\<lparr>mb_is_active := False\<rparr>) t)
                  else (False, t)
      | None \<Rightarrow> (False, t))"

section \<open>The adapter\<close>

record user_context =
  uc_user_id :: string
  uc_domain_id :: string
  uc_roles :: "pyval list"
  uc_clearance :: pyval
  uc_department :: pyval
  uc_domain_groups :: "pyval list"
  uc_preferred_username :: pyval
  uc_email :: pyval
  uc_raw_claims :: pydict

definition is_platform_admin :: "user_context \<Rightarrow> bool" where
  "is_platform_admin u \<longleftrightarrow> PStr ''PLATFORM_ADMIN'' \<in> set (uc_roles u)"

definition is_admin :: "user_context \<Rightarrow> bool" where
  "is_admin u \<longleftrightarrow> PStr ''ADMIN'' \<in> set (uc_roles u) \<or> is_platform_admin u"

definition is_auditor :: "user_context \<Rightarrow> bool" where
  "is_auditor u \<longleftrightarrow> PStr ''AUDITOR'' \<in> set (uc_roles u)"

definition is_service_account :: "user_context \<Rightarrow> bool" where
  "is_service_account u \<longleftrightarrow> PStr ''SERVICE'' \<in> set (uc_roles u)"

datatype ledger_event =
    AuthFailure string pyval string pydict \<comment> \<open>domain, actor, reason, details\<close>
  | TenantMismatch string pyval pyval \<comment> \<open>expected domain, actor, the token's domain\<close>

record auth_adapter =
  aa_lib :: auth_lib
  aa_config :: auth_config
  aa_session :: bool
  aa_tenants :: "(string \<times> (string \<times> string)) list" \<comment> \<open>status and enrollment policy\<close>
  aa_jit_persists :: bool
  aa_ledger :: bool

record auth_world =
  aw_jwks :: jwks_client
  aw_members :: member_table
  aw_events :: "ledger_event list"

definition publish :: "auth_adapter \<Rightarrow> ledger_event \<Rightarrow> auth_world \<Rightarrow> auth_world" where
  "publish aa e w = (if aa_ledger aa then w\<lparr>aw_events := aw_events w @ [e]\<rparr> else w)"

definition refuse ::
  "auth_adapter \<Rightarrow> int \<Rightarrow> string \<Rightarrow> pydict \<Rightarrow> ledger_event \<Rightarrow> auth_world \<Rightarrow> 'a api \<times> auth_world" where
  \<comment> \<open>publish, then raise\<close>
  "refuse aa status err info e w = (Inl (http_error status err info), publish aa e w)"

definition fetch_jwk :: "auth_adapter \<Rightarrow> pyval \<Rightarrow> auth_world \<Rightarrow> pydict api \<times> auth_world" where
  "fetch_jwk aa kid w =
     (case get_key (aa_lib aa) kid (aw_jwks w) of
        (Inr jwk, jk) \<Rightarrow> (Inr jwk, w\<lparr>aw_jwks := jk\<rparr>)
      | (Inl (JWKSFetchError msg), jk) \<Rightarrow>
          (Inl (http_error 503 ''jwks_unavailable'' [(''reason'', PStr msg)]), w\<lparr>aw_jwks := jk\<rparr>)
      | (Inl (KeyRaised e), jk) \<Rightarrow> (Inl (Raised e), w\<lparr>aw_jwks := jk\<rparr>))"

definition verified_claims :: "auth_adapter \<Rightarrow> string \<Rightarrow> string \<Rightarrow> auth_world \<Rightarrow> pydict api \<times> auth_world" where
  \<comment> \<open>steps 1 to 3 of \<open>verify_and_extract\<close>\<close>
  "verified_claims aa bearer_token expected w =
     (let token = py_strip bearer_token; ac = aa_config aa in
      if token = [] then refuse aa 401 ''missing_bearer_token'' [] (AuthFailure expected PNone ''missing_bearer_token'' []) w
      else case al_header (aa_lib aa) token of
        Inl reason \<Rightarrow> refuse aa 401 ''invalid_token_header'' [(''reason'', PStr reason)]
                       (AuthFailure expected PNone ''invalid_token_header'' [(''reason'', PStr reason)]) w
      | Inr header \<Rightarrow>
          if \<not> truthy (dget header ''kid'' PNone)
          then refuse aa 401 ''missing_kid'' [] (AuthFailure expected PNone ''missing_kid'' []) w
          else bind_st (fetch_jwk aa (dget header ''kid'' PNone) w) (\<lambda>jwk w.
            case al_decode (aa_lib aa) token jwk [ac_jwt_algorithm ac] (ac_issuer ac) of
              Inl reason \<Rightarrow> refuse aa 401 ''invalid_token'' [(''reason'', PStr reason)]
                             (AuthFailure expected PNone ''invalid_token'' [(''reason'', PStr reason)]) w
            | Inr claims \<Rightarrow> (Inr claims, w)))"

definition client_key :: "pyval \<Rightarrow> string res" where
  \<comment> \<open>the client as a key of the two maps: a list or dictionary is unhashable, and any other value that
      is not a string is in neither map and has no \<open>removeprefix\<close>\<close>
  "client_key v = (case v of PStr c \<Rightarrow> Inr c | _ \<Rightarrow> if is_hashable v then Inl AttributeError else Inl TypeError)"

definition add_role :: "auth_lib \<Rightarrow> auth_config \<Rightarrow> pyval \<Rightarrow> string list \<Rightarrow> string list res" where
  "add_role A ac r roles =
     bind_res (map_oidc_role (al_py A) (al_upper A) ac r) (\<lambda>mapped.
       Inr (case mapped of None \<Rightarrow> roles | Some m \<Rightarrow> if m \<in> set roles then roles else roles @ [m]))"

definition token_roles :: "auth_lib \<Rightarrow> auth_config \<Rightarrow> pydict \<Rightarrow> string list res" where
  "token_roles A ac claims =
     bind_res (py_iter (py_or (dget claims ''roles'' PNone) (PList []))) (\<lambda>raw_roles.
     bind_res (fold_res (add_role A ac) raw_roles []) (\<lambda>roles.
       Inr (if PStr ''SERVICE'' \<in> set raw_roles \<and> ''SERVICE'' \<notin> set roles then roles @ [''SERVICE''] else roles)))"

definition user_id_of :: "pydict \<Rightarrow> string \<Rightarrow> string res" where
  \<comment> \<open>\<open>claims.get("sub", client_id)\<close>; the JWT library rejects a subject that is not a string\<close>
  "user_id_of claims client_id =
     (case map_of claims ''sub'' of None \<Rightarrow> Inr client_id | Some (PStr s) \<Rightarrow> Inr s | Some _ \<Rightarrow> Inl TypeError)"

definition service_grant ::
  "auth_config \<Rightarrow> string \<Rightarrow> string list \<Rightarrow> string \<Rightarrow> (pyval \<times> pyval list \<times> pyval) res" where
  \<comment> \<open>domain, roles and clearance of a service account\<close>
  "service_grant ac client_id roles expected =
     (case map_of (ac_service_accounts ac) client_id of
        Some sa \<Rightarrow>
          if list_all is_hashable (sa_roles sa)
          then Inr (sa_domain_id sa, dedup_from {} (map PStr roles @ sa_roles sa), sa_clearance sa)
          else Inl TypeError
      | None \<Rightarrow> Inr (PStr (client_id_to_domain_id ac client_id expected), map PStr roles, PStr ''internal''))"

definition service_context ::
  "auth_adapter \<Rightarrow> pydict \<Rightarrow> string \<Rightarrow> string list \<Rightarrow> string \<Rightarrow> auth_world \<Rightarrow> user_context api \<times> auth_world" where
  "service_context aa claims client_id roles expected w =
     bind_st (lift_res (service_grant (aa_config aa) client_id roles expected), w) (\<lambda>(token_domain, merged, clearance) w.
       if token_domain \<noteq> PStr ''platform'' \<and> token_domain \<noteq> PStr expected
       then refuse aa 403 ''tenant_mismatch''
              [(''token_domain_id'', token_domain), (''expected_domain_id'', PStr expected)]
              (TenantMismatch expected (dget claims ''sub'' (PStr client_id)) token_domain) w
       else bind_st (lift_res (user_id_of claims client_id), w) (\<lambda>uid w.
         (Inr \<lparr>uc_user_id = uid, uc_domain_id = expected, uc_roles = merged, uc_clearance = clearance,
               uc_department = PNone, uc_domain_groups = [],
               uc_preferred_username = dget claims ''preferred_username'' PNone,
               uc_email = dget claims ''email'' PNone, uc_raw_claims = claims\<rparr>, w)))"

definition platform_context ::
  "pydict \<Rightarrow> string \<Rightarrow> string list \<Rightarrow> string \<Rightarrow> auth_world \<Rightarrow> user_context api \<times> auth_world" where
  \<comment> \<open>the path without a tenant\<close>
  "platform_context claims client_id roles token_domain w =
     bind_st (lift_res (user_id_of claims client_id), w) (\<lambda>uid w.
     bind_st (lift_res (py_iter (py_or (dget claims ''domain_groups'' PNone) (PList []))), w) (\<lambda>groups w.
       (Inr \<lparr>uc_user_id = uid, uc_domain_id = token_domain, uc_roles = map PStr roles,
             uc_clearance = dget claims ''clearance'' (PStr ''internal''),
             uc_department = dget claims ''department'' PNone, uc_domain_groups = groups,
             uc_preferred_username = dget claims ''preferred_username'' PNone,
             uc_email = dget claims ''email'' PNone, uc_raw_claims = claims\<rparr>, w)))"

definition load_membership :: "auth_adapter \<Rightarrow> string \<Rightarrow> string \<Rightarrow> auth_world \<Rightarrow> membership option api \<times> auth_world" where
  "load_membership aa user_id domain_id w =
     (if \<not> aa_session aa then (Inl (http_error 500 ''auth_db_session_unavailable'' []), w)
      else (Inr (case map_of (aw_members w) (user_id, domain_id) of
                   Some m \<Rightarrow> if mb_is_active m then Some m else None | None \<Rightarrow> None), w))"

definition load_tenant_enrollment :: "auth_adapter \<Rightarrow> string \<Rightarrow> string option" where
  "load_tenant_enrollment aa domain_id =
     (if \<not> aa_session aa then None
      else case map_of (aa_tenants aa) domain_id of
        Some (status, policy) \<Rightarrow> if status = ''active'' then Some policy else None
      | None \<Rightarrow> None)"

definition default_membership :: "string \<Rightarrow> membership" where
  "default_membership clearance =
     \<lparr>mb_clearance = clearance, mb_department = None, mb_domain_groups = [], mb_is_active = True\<rparr>"

definition create_jit_membership :: "auth_adapter \<Rightarrow> string \<Rightarrow> string \<Rightarrow> auth_world \<Rightarrow> membership \<times> auth_world" where
  \<comment> \<open>\<open>INSERT ... ON CONFLICT (user_id, domain_id) DO UPDATE SET is_active = TRUE\<close>; a failure to write is swallowed\<close>
  "create_jit_membership aa user_id domain_id w =
     (default_membership ''internal'',
      if aa_session aa \<and> aa_jit_persists aa
      then w\<lparr>aw_members := assoc_put (user_id, domain_id)
             (case map_of (aw_members w) (user_id, domain_id) of
                None \<Rightarrow> default_membership ''internal'' | Some m \<Rightarrow> m\<lparr>mb_is_active := True\<rparr>) (aw_members w)\<rparr>
      else w)"

definition GLOBAL_ROLES :: "string list" where
  "GLOBAL_ROLES = [''ADMIN'', ''AUDITOR'', ''PLATFORM_ADMIN'']"

definition membership_for ::
  "auth_adapter \<Rightarrow> string \<Rightarrow> string \<Rightarrow> string list \<Rightarrow> auth_world \<Rightarrow> membership api \<times> auth_world" where
  "membership_for aa sub expected roles w =
     bind_st (load_membership aa sub expected w) (\<lambda>found w.
       case found of
         Some m \<Rightarrow> (Inr m, w)
       | None \<Rightarrow>
           if list_ex (\<lambda>r. r \<in> set roles) GLOBAL_ROLES then (Inr (default_membership ''secret''), w)
           else if load_tenant_enrollment aa expected = Some ''open''
           then (case create_jit_membership aa sub expected w of (m, w') \<Rightarrow> (Inr m, w'))
           else refuse aa 403 ''no_tenant_membership'' [(''domain_id'', PStr expected)]
                  (AuthFailure expected (PStr sub) ''no_tenant_membership'' []) w)"

definition with_extra_admin :: "pyval list \<Rightarrow> string list \<Rightarrow> string list" where
  "with_extra_admin extra roles =
     (if ''ADMIN'' \<notin> set roles \<and> list_ex (\<lambda>r. r \<in> PStr ` set roles) extra then roles @ [''ADMIN''] else roles)"

definition member_context ::
  "auth_adapter \<Rightarrow> pydict \<Rightarrow> string list \<Rightarrow> string \<Rightarrow> auth_world \<Rightarrow> user_context api \<times> auth_world" where
  \<comment> \<open>steps 5 and 6 and the tenant's own administrator roles\<close>
  "member_context aa claims roles expected w =
     (if ac_require_verified_email (aa_config aa) \<and> map_of claims ''email_verified'' \<notin> {None, Some (PBool True)}
      then refuse aa 403 ''email_not_verified'' [] (AuthFailure expected (dget claims ''sub'' PNone) ''email_not_verified'' []) w
      else if \<not> truthy (dget claims ''sub'' PNone)
      then refuse aa 401 ''missing_sub_claim'' [] (AuthFailure expected PNone ''missing_sub_claim'' []) w
      else bind_st (lift_res (user_id_of claims []), w) (\<lambda>sub w.
           bind_st (membership_for aa sub expected roles w) (\<lambda>m w.
           bind_st (lift_res (extra_admin_roles (aa_config aa) expected), w) (\<lambda>extra w.
             (Inr \<lparr>uc_user_id = sub, uc_domain_id = expected, uc_roles = map PStr (with_extra_admin extra roles),
                   uc_clearance = PStr (mb_clearance m),
                   uc_department = (case mb_department m of None \<Rightarrow> PNone | Some d \<Rightarrow> PStr d),
                   uc_domain_groups = map PStr (mb_domain_groups m),
                   uc_preferred_username = dget claims ''preferred_username'' PNone,
                   uc_email = dget claims ''email'' PNone, uc_raw_claims = claims\<rparr>, w)))))"

definition claims_client :: "pydict \<Rightarrow> pyval" where
  "claims_client claims = py_or (dget claims ''client_id'' PNone) (dget claims ''azp'' PNone)"

definition verify_and_extract ::
  "auth_adapter \<Rightarrow> string \<Rightarrow> string \<Rightarrow> auth_world \<Rightarrow> user_context api \<times> auth_world" where
  "verify_and_extract aa bearer_token expected w =
     bind_st (verified_claims aa bearer_token expected w) (\<lambda>claims w.
       let client = claims_client claims in
       if \<not> truthy client
       then refuse aa 401 ''missing_client_id_claim'' []
              (AuthFailure expected (dget claims ''sub'' PNone) ''missing_client_id_claim'' []) w
       else bind_st (lift_res (token_roles (aa_lib aa) (aa_config aa) claims), w) (\<lambda>roles w.
            bind_st (lift_res (client_key client), w) (\<lambda>client_id w.
              if map_of (ac_service_accounts (aa_config aa)) client_id \<noteq> None \<or> ''SERVICE'' \<in> set roles
              then service_context aa claims client_id roles expected w
              else let token_domain = client_id_to_domain_id (aa_config aa) client_id expected in
                   if expected = ''__platform__'' then platform_context claims client_id roles token_domain w
                   else if token_domain \<noteq> expected
                   then refuse aa 403 ''tenant_mismatch''
                          [(''token_domain_id'', PStr token_domain), (''expected_domain_id'', PStr expected)]
                          (TenantMismatch expected (dget claims ''sub'' (PStr client_id)) (PStr token_domain)) w
                   else member_context aa claims roles expected w)))"

section \<open>The endpoints' dependencies\<close>

record http_request =
  rq_authorization :: string
  rq_cookie :: "string option"

definition bearer_of :: "http_request \<Rightarrow> string" where
  "bearer_of rq =
     (let token = (if prefix ''Bearer '' (rq_authorization rq)
                   then py_strip (removeprefix ''Bearer '' (rq_authorization rq)) else [])
      in if token \<noteq> [] then token else py_strip (case rq_cookie rq of None \<Rightarrow> [] | Some c \<Rightarrow> c))"

definition get_user_context :: "auth_adapter \<Rightarrow> http_request \<Rightarrow> string \<Rightarrow> auth_world \<Rightarrow> user_context api \<times> auth_world" where
  "get_user_context aa rq domain_id w =
     (if bearer_of rq = [] then (Inl (http_error 401 ''missing_bearer_token'' []), w)
      else verify_and_extract aa (bearer_of rq) domain_id w)"

definition get_user_context_no_tenant :: "auth_adapter \<Rightarrow> http_request \<Rightarrow> auth_world \<Rightarrow> user_context api \<times> auth_world" where
  "get_user_context_no_tenant aa rq w = get_user_context aa rq ''__platform__'' w"

definition ensure_tenant_match :: "auth_adapter \<Rightarrow> string \<Rightarrow> user_context \<Rightarrow> auth_world \<Rightarrow> unit api \<times> auth_world" where
  "ensure_tenant_match aa domain_id user w =
     (if is_platform_admin user \<or> uc_domain_id user = domain_id then (Inr (), w)
      else refuse aa 403 ''tenant_mismatch''
             [(''expected_domain_id'', PStr domain_id), (''token_domain_id'', PStr (uc_domain_id user))]
             (TenantMismatch domain_id (PStr (uc_user_id user)) (PStr (uc_domain_id user))) w)"


section \<open>Facts: results\<close>

named_theorems api_simps \<open>when a step of the adapter succeeds\<close>

lemma bind_st_Inr [api_simps]:
  "bind_st m f = (Inr y, w') \<longleftrightarrow> (\<exists>x w. m = (Inr x, w) \<and> f x w = (Inr y, w'))"
  by (auto simp: bind_st_def split: prod.splits sum.splits)

lemma bind_st_Inl:
  "bind_st m f = (Inl e, w') \<longleftrightarrow> m = (Inl e, w') \<or> (\<exists>x w. m = (Inr x, w) \<and> f x w = (Inl e, w'))"
  by (auto simp: bind_st_def split: prod.splits sum.splits)

lemma lift_res_Inr [api_simps]: "(lift_res r, w) = (Inr x, w') \<longleftrightarrow> r = Inr x \<and> w' = w"
  by (auto simp: lift_res_def split: sum.splits)

lemma lift_res_Inl: "lift_res r = Inl e \<longleftrightarrow> (\<exists>e'. r = Inl e' \<and> e = Raised e')"
  by (auto simp: lift_res_def split: sum.splits)

lemma refuse_not_Inr [api_simps]: "refuse aa status err info e w = (Inr x, w') \<longleftrightarrow> False"
  by (simp add: refuse_def)

lemma if_api_Inr [api_simps]:
  "(if c then a else b) = (Inr x, w') \<longleftrightarrow> (c \<and> a = (Inr x, w')) \<or> (\<not> c \<and> b = (Inr x, w'))"
  by simp

lemma publish_parts [simp]:
  "aw_members (publish aa e w) = aw_members w" "aw_jwks (publish aa e w) = aw_jwks w"
  "aw_events (publish aa e w) = (if aa_ledger aa then aw_events w @ [e] else aw_events w)"
  by (simp_all add: publish_def)

section \<open>Facts: the key cache\<close>

definition served :: "auth_lib \<Rightarrow> nat \<Rightarrow> pyval \<Rightarrow> pydict \<Rightarrow> bool" where
  \<comment> \<open>one of the first \<open>n\<close> documents of the key endpoint holds the key under the identifier\<close>
  "served A n kid k \<longleftrightarrow> (\<exists>m<n. \<exists>body keys. al_fetch A m = Inr body \<and> read_keys body = Inr keys \<and> map_of keys kid = Some k)"

definition jwks_ok :: "auth_lib \<Rightarrow> jwks_client \<Rightarrow> bool" where
  "jwks_ok A jk \<longleftrightarrow> (\<forall>kid k. map_of (jk_keys jk) kid = Some k \<longrightarrow> served A (jk_fetches jk) kid k)"

definition keys_kept :: "auth_lib \<Rightarrow> nat \<Rightarrow> jwks_client \<Rightarrow> jwks_client \<Rightarrow> bool" where
  \<comment> \<open>at most \<open>n\<close> requests, and the cache still holds only keys that were served\<close>
  "keys_kept A n jk jk' \<longleftrightarrow> jk_fetches jk \<le> jk_fetches jk' \<and> jk_fetches jk' \<le> jk_fetches jk + n
     \<and> (jwks_ok A jk \<longrightarrow> jwks_ok A jk')"

lemma served_mono: "served A n kid k \<Longrightarrow> n \<le> n' \<Longrightarrow> served A n' kid k"
  unfolding served_def by (meson order_less_le_trans)

lemma served_Suc: "served A n kid k \<Longrightarrow> served A (Suc n) kid k"
  by (erule served_mono) simp

lemma served_now:
  "al_fetch A n = Inr body \<Longrightarrow> read_keys body = Inr keys \<Longrightarrow> map_of keys kid = Some k \<Longrightarrow> served A (Suc n) kid k"
  unfolding served_def by blast

lemma keys_kept_refl [simp]: "keys_kept A n jk jk"
  by (simp add: keys_kept_def)

lemma keys_kept_trans: "keys_kept A n jk jk1 \<Longrightarrow> keys_kept A m jk1 jk2 \<Longrightarrow> keys_kept A (n + m) jk jk2"
  by (auto simp: keys_kept_def)

lemma keys_kept_ticks [simp]: "keys_kept A n jk (jk\<lparr>jk_ticks := t\<rparr>)"
  by (simp add: keys_kept_def jwks_ok_def)

lemma fetch_keys_kept: "fetch_keys A jk = (r, jk') \<Longrightarrow> keys_kept A 1 jk jk' \<and> jk_fetches jk' = jk_fetches jk + 1"
  by (auto simp: fetch_keys_def Let_def keys_kept_def jwks_ok_def split: sum.splits
      intro: served_now) (blast intro: served_Suc)+

lemma is_stale_kept: "is_stale A jk = (b, jk') \<Longrightarrow> keys_kept A 0 jk jk' \<and> jk_keys jk' = jk_keys jk"
  by (auto simp: is_stale_def)

lemma cached_key_kept:
  assumes "cached_key A kid jk = (r, jk')"
  shows "keys_kept A 0 jk jk' \<and> jk_keys jk' = jk_keys jk" and "r = Some k \<Longrightarrow> map_of (jk_keys jk) kid = Some k"
  using assms by (auto simp: cached_key_def is_stale_def split: option.splits prod.splits if_splits)

lemma refresh_locked_cases:
  assumes "refresh_locked A force jk = (r, jk')"
  obtains jk1 where "keys_kept A 0 jk jk1" "jk_keys jk1 = jk_keys jk" "fetch_keys A jk1 = (r, jk')"
  | "\<not> force" "r = Inr ()" "keys_kept A 0 jk jk'" "jk_keys jk' = jk_keys jk"
proof -
  obtain b jk1 where s: "is_stale A jk = (b, jk1)" by fastforce
  show thesis
    using assms is_stale_kept [OF s] that that(1) [of jk]
    by (cases force; cases "\<not> b \<and> jk_keys jk1 \<noteq> []") (auto simp: refresh_locked_def s)
qed

lemma refresh_kept:
  assumes "refresh_locked A force jk = (r, jk')"
  shows "keys_kept A 1 jk jk'" and "force \<or> r \<noteq> Inr () \<Longrightarrow> jk_fetches jk < jk_fetches jk'"
    and "jk_fetches jk' = jk_fetches jk \<Longrightarrow> jk_keys jk' = jk_keys jk"
proof -
  have "keys_kept A 1 jk jk' \<and> (force \<or> r \<noteq> Inr () \<longrightarrow> jk_fetches jk < jk_fetches jk')
      \<and> (jk_fetches jk' = jk_fetches jk \<longrightarrow> jk_keys jk' = jk_keys jk)"
    using assms
  proof (cases rule: refresh_locked_cases)
    case (1 jk1)
    then show ?thesis
      using keys_kept_trans [OF 1(1)] fetch_keys_kept [OF 1(3)] by (auto simp: keys_kept_def)
  qed (auto simp: keys_kept_def)
  then show "keys_kept A 1 jk jk'" "force \<or> r \<noteq> Inr () \<Longrightarrow> jk_fetches jk < jk_fetches jk'"
    "jk_fetches jk' = jk_fetches jk \<Longrightarrow> jk_keys jk' = jk_keys jk" by blast+
qed

lemma second_try_kept:
  assumes "second_try A kid jk = (r, jk')"
  shows "keys_kept A 1 jk jk' \<and> (\<forall>k. r = Inr k \<longrightarrow> map_of (jk_keys jk') kid = Some k)
    \<and> (map_of (jk_keys jk) kid = None \<longrightarrow> jk_fetches jk < jk_fetches jk')"
  using assms
  by (auto simp: second_try_def split: option.splits prod.splits sum.splits dest: refresh_kept)

lemma get_key_cases:
  assumes "get_key A kid jk = (r, jk')"
  obtains "\<not> is_hashable kid" "r = Inl (KeyRaised TypeError)" "jk' = jk"
  | k where "is_hashable kid" "map_of (jk_keys jk) kid = Some k" "r = Inr k" "keys_kept A 0 jk jk'" "jk_keys jk' = jk_keys jk"
  | jk2 e where "is_hashable kid" "keys_kept A 0 jk jk2" "jk_keys jk2 = jk_keys jk" "refresh_locked A False jk2 = (Inl e, jk')" "r = Inl e"
  | jk2 jk3 u where "is_hashable kid" "keys_kept A 0 jk jk2" "jk_keys jk2 = jk_keys jk" "refresh_locked A False jk2 = (Inr u, jk3)"
      "second_try A kid jk3 = (r, jk')"
proof (cases "is_hashable kid")
  case True
  obtain r1 jk1 where c1: "cached_key A kid jk = (r1, jk1)" by fastforce
  obtain r2 jk2 where c2: "cached_key A kid jk1 = (r2, jk2)" by fastforce
  obtain r3 jk3 where c3: "refresh_locked A False jk2 = (r3, jk3)" by fastforce
  note k1 = cached_key_kept [OF c1] and k2 = cached_key_kept [OF c2]
  have kept: "keys_kept A 0 jk jk2" using keys_kept_trans [of A 0 jk jk1 0 jk2] k1(1) k2(1) by simp
  consider (now) k where "r1 = Some k" | (later) k where "r1 = None" "r2 = Some k"
    | (failed) e where "r1 = None" "r2 = None" "r3 = Inl e" | (fetched) u where "r1 = None" "r2 = None" "r3 = Inr u"
    by (cases r1; cases r2; cases r3) auto
  then show thesis
  proof cases
    case now
    with assms True c1 k1 that(2) show thesis by (auto simp: get_key_def)
  next
    case later
    with assms True c1 c2 k1 k2 kept that(2) show thesis by (auto simp: get_key_def)
  next
    case failed
    with assms True c1 c2 c3 k1 k2 kept that(3) [of jk2] show thesis by (auto simp: get_key_def)
  next
    case fetched
    with assms True c1 c2 c3 k1 k2 kept that(4) [of jk2] show thesis by (auto simp: get_key_def)
  qed
qed (use assms that(1) in \<open>auto simp: get_key_def\<close>)

lemma get_key_kept:
  assumes "get_key A kid jk = (r, jk')"
  shows "keys_kept A 2 jk jk' \<and> (\<forall>k. r = Inr k \<longrightarrow> map_of (jk_keys jk') kid = Some k)
    \<and> (is_hashable kid \<longrightarrow> map_of (jk_keys jk) kid = None \<longrightarrow> jk_fetches jk < jk_fetches jk')"
  using assms
proof (cases rule: get_key_cases)
  case (3 jk2 e)
  note kr = refresh_kept [OF 3(4)]
  show ?thesis
    using keys_kept_trans [OF 3(2) kr(1)] kr 3 by (auto simp: keys_kept_def)
next
  case (4 jk2 jk3 u)
  note r = refresh_kept [OF 4(4)] and t = second_try_kept [OF 4(5)]
  have kept: "keys_kept A (0 + 1 + 1) jk jk'"
    using keys_kept_trans [OF keys_kept_trans [OF 4(2) r(1)]] t by blast
  have "jk_fetches jk < jk_fetches jk'" if none: "map_of (jk_keys jk) kid = None"
  proof (cases "jk_fetches jk3 = jk_fetches jk2")
    case True
    with r(3) 4(2,3) none t show ?thesis by (auto simp: keys_kept_def)
  next
    case False
    with r(1) 4(2) t show ?thesis by (auto simp: keys_kept_def)
  qed
  with kept t show ?thesis by (auto simp: numeral_2_eq_2)
qed (auto simp: keys_kept_def)

lemma get_key_fresh:
  assumes "is_hashable kid" and "map_of (jk_keys jk) kid = Some k"
    and "al_clock A (jk_ticks jk) - jk_fetched_at jk \<le> al_cache_ttl A"
  shows "get_key A kid jk = (Inr k, jk\<lparr>jk_ticks := jk_ticks jk + 1\<rparr>)"
  using assms by (simp add: get_key_def cached_key_def is_stale_def)

section \<open>Facts: a request\<close>

lemma lift_res_eq_Inr [api_simps]: "lift_res r = Inr x \<longleftrightarrow> r = Inr x"
  by (auto simp: lift_res_def split: sum.splits)

lemma sum_api_Inr [api_simps]:
  "(case s of Inl e \<Rightarrow> f e | Inr x \<Rightarrow> g x) = (Inr y, w') \<longleftrightarrow>
     (\<exists>e. s = Inl e \<and> f e = (Inr y, w')) \<or> (\<exists>x. s = Inr x \<and> g x = (Inr y, w'))"
  by (cases s) auto

lemma fetch_jwk_frame:
  assumes "fetch_jwk aa kid w = (r, w')"
  shows "keys_kept (aa_lib aa) 2 (aw_jwks w) (aw_jwks w')" and "aw_members w' = aw_members w"
    and "aw_events w' = aw_events w"
    and "r = Inr jwk \<Longrightarrow> map_of (jk_keys (aw_jwks w')) kid = Some jwk"
  using assms get_key_kept [of "aa_lib aa" kid "aw_jwks w"]
  by (auto simp: fetch_jwk_def split: prod.splits sum.splits key_error.splits)

lemma verified_claims_frame:
  assumes "verified_claims aa token expected w = (r, w')"
  shows "keys_kept (aa_lib aa) 2 (aw_jwks w) (aw_jwks w')" and "aw_members w' = aw_members w"
  using assms
  by (auto simp: verified_claims_def bind_st_def refuse_def Let_def split: sum.splits if_splits prod.splits
      dest: fetch_jwk_frame)




definition tenants_of :: "auth_config \<Rightarrow> string \<Rightarrow> string set" where
  "tenants_of ac client =
     (case map_of (ac_client_tenant_map ac) client of
        Some (t # ts) \<Rightarrow> set (t # ts) | _ \<Rightarrow> {removeprefix ''client-'' client})"

definition serves :: "auth_config \<Rightarrow> bool \<Rightarrow> string \<Rightarrow> string \<Rightarrow> bool" where
  \<comment> \<open>the configuration lets the client act for the tenant\<close>
  "serves ac service client d \<longleftrightarrow>
     (case map_of (ac_service_accounts ac) client of
        Some sa \<Rightarrow> sa_domain_id sa \<in> {PStr ''platform'', PStr d}
      | None \<Rightarrow> d \<in> tenants_of ac client \<or> service \<and> ''platform'' \<in> tenants_of ac client)"

definition service_client :: "auth_config \<Rightarrow> user_context \<Rightarrow> bool" where
  "service_client ac u \<longleftrightarrow> is_service_account u
     \<or> (\<exists>c. claims_client (uc_raw_claims u) = PStr c \<and> map_of (ac_service_accounts ac) c \<noteq> None)"

definition service_clearance :: "auth_config \<Rightarrow> string \<Rightarrow> pyval" where
  \<comment> \<open>the clearance of a service: that of its account, or internal for a client that only has the service role\<close>
  "service_clearance ac client =
     (case map_of (ac_service_accounts ac) client of Some sa \<Rightarrow> sa_clearance sa | None \<Rightarrow> PStr ''internal'')"

lemma client_domain_in: "client_id_to_domain_id ac c d \<in> tenants_of ac c"
  by (auto simp: tenants_of_def client_id_to_domain_id_def split: option.splits list.splits)

lemma client_key_Inr [api_simps]: "client_key v = Inr c \<longleftrightarrow> v = PStr c"
  by (auto simp: client_key_def split: pyval.splits if_splits)

lemma service_context_Inr:
  assumes "service_context aa claims c roles expected w = (Inr u, w')"
    and "map_of (ac_service_accounts (aa_config aa)) c \<noteq> None \<or> ''SERVICE'' \<in> set roles"
  shows "uc_domain_id u = expected \<and> uc_raw_claims u = claims \<and> w' = w
    \<and> (map_of (ac_service_accounts (aa_config aa)) c = None \<longrightarrow> is_service_account u)
    \<and> uc_clearance u = service_clearance (aa_config aa) c \<and> uc_domain_groups u = [] \<and> uc_department u = PNone
    \<and> serves (aa_config aa) (is_service_account u) c expected"
  using assms client_domain_in [of "aa_config aa" c expected]
  by (auto simp: service_context_def api_simps service_grant_def serves_def is_service_account_def service_clearance_def
      split: option.splits if_splits)

lemma with_extra_admin_roles:
  "PStr ` set roles \<subseteq> set (map PStr (with_extra_admin extra roles))"
  "PStr ''SERVICE'' \<in> set (map PStr (with_extra_admin extra roles)) \<longleftrightarrow> ''SERVICE'' \<in> set roles"
  by (auto simp: with_extra_admin_def)

lemma member_context_Inr:
  assumes "member_context aa claims roles expected w = (Inr u, w')"
  obtains m where "membership_for aa (uc_user_id u) expected roles w = (Inr m, w')"
    "uc_domain_id u = expected" "uc_raw_claims u = claims" "uc_clearance u = PStr (mb_clearance m)"
    "uc_domain_groups u = map PStr (mb_domain_groups m)"
    "uc_department u = (case mb_department m of None \<Rightarrow> PNone | Some x \<Rightarrow> PStr x)" "PStr ` set roles \<subseteq> set (uc_roles u)"
    "is_service_account u \<longleftrightarrow> ''SERVICE'' \<in> set roles"
proof -
  obtain sub m extra where "membership_for aa sub expected roles w = (Inr m, w')" and
    "u = \<lparr>uc_user_id = sub, uc_domain_id = expected, uc_roles = map PStr (with_extra_admin extra roles),
        uc_clearance = PStr (mb_clearance m),
        uc_department = (case mb_department m of None \<Rightarrow> PNone | Some d \<Rightarrow> PStr d),
        uc_domain_groups = map PStr (mb_domain_groups m),
        uc_preferred_username = dget claims ''preferred_username'' PNone,
        uc_email = dget claims ''email'' PNone, uc_raw_claims = claims\<rparr>"
    using assms by (auto simp: member_context_def api_simps)
  then show thesis
    using that [of m] with_extra_admin_roles(1) [of roles extra] with_extra_admin_roles(2) [of extra roles]
    by (simp add: is_service_account_def)
qed

lemma verify_Inr:
  assumes "verify_and_extract aa token expected w = (Inr u, w')" and "expected \<noteq> ''__platform__''"
  obtains claims w1 c roles where "verified_claims aa token expected w = (Inr claims, w1)"
    "uc_raw_claims u = claims" "claims_client claims = PStr c"
    "service_context aa claims c roles expected w1 = (Inr u, w')" "service_client (aa_config aa) u"
    "map_of (ac_service_accounts (aa_config aa)) c \<noteq> None \<or> ''SERVICE'' \<in> set roles"
  | claims w1 c roles where "verified_claims aa token expected w = (Inr claims, w1)"
    "uc_raw_claims u = claims" "claims_client claims = PStr c"
    "client_id_to_domain_id (aa_config aa) c expected = expected"
    "member_context aa claims roles expected w1 = (Inr u, w')" "\<not> service_client (aa_config aa) u"
proof -
  obtain claims w1 c roles where v: "verified_claims aa token expected w = (Inr claims, w1)" "claims_client claims = PStr c"
    and r: "(if map_of (ac_service_accounts (aa_config aa)) c \<noteq> None \<or> ''SERVICE'' \<in> set roles
       then service_context aa claims c roles expected w1
       else if client_id_to_domain_id (aa_config aa) c expected \<noteq> expected
       then refuse aa 403 ''tenant_mismatch''
              [(''token_domain_id'', PStr (client_id_to_domain_id (aa_config aa) c expected)), (''expected_domain_id'', PStr expected)]
              (TenantMismatch expected (dget claims ''sub'' (PStr c)) (PStr (client_id_to_domain_id (aa_config aa) c expected))) w1
       else member_context aa claims roles expected w1) = (Inr u, w')"
    using assms by (auto simp: verify_and_extract_def api_simps Let_def split: if_splits)
  show thesis
  proof (cases "map_of (ac_service_accounts (aa_config aa)) c \<noteq> None \<or> ''SERVICE'' \<in> set roles")
    case True
    then have sc: "service_context aa claims c roles expected w1 = (Inr u, w')" using r by (simp split: if_splits)
    from service_context_Inr [OF sc True] show thesis
      using that(1) [OF v(1) _ v(2) sc _ True] True v(2) by (auto simp: service_client_def)
  next
    case False
    then have mc: "member_context aa claims roles expected w1 = (Inr u, w')"
      and d: "client_id_to_domain_id (aa_config aa) c expected = expected"
      using r by (auto simp: api_simps split: if_splits)
    obtain m where "uc_raw_claims u = claims" "is_service_account u \<longleftrightarrow> ''SERVICE'' \<in> set roles"
      by (rule member_context_Inr [OF mc])
    with False v that(2) [OF v(1) _ v(2) d mc] show thesis by (auto simp: service_client_def)
  qed
qed

lemma membership_for_Inr:
  assumes "membership_for aa sub d roles w = (Inr m, w')"
  shows "map_of (aw_members w) (sub, d) = Some m \<and> mb_is_active m \<and> aw_members w' = aw_members w
    \<or> (\<forall>r. map_of (aw_members w) (sub, d) = Some r \<longrightarrow> \<not> mb_is_active r)
      \<and> (\<exists>g \<in> set GLOBAL_ROLES. g \<in> set roles) \<and> m = default_membership ''secret'' \<and> aw_members w' = aw_members w
    \<or> (\<forall>r. map_of (aw_members w) (sub, d) = Some r \<longrightarrow> \<not> mb_is_active r)
      \<and> map_of (aa_tenants aa) d = Some (''active'', ''open'') \<and> m = default_membership ''internal''
      \<and> (aa_jit_persists aa \<longrightarrow> map_of (aw_members w') (sub, d) = Some (case map_of (aw_members w) (sub, d) of
           None \<Rightarrow> default_membership ''internal'' | Some r \<Rightarrow> r\<lparr>mb_is_active := True\<rparr>))"
  using assms
  by (auto simp: membership_for_def api_simps load_membership_def load_tenant_enrollment_def create_jit_membership_def
      list_ex_iff map_of_assoc_put split: option.splits if_splits)

definition granted :: "auth_adapter \<Rightarrow> member_table \<Rightarrow> string \<Rightarrow> string \<Rightarrow> membership \<Rightarrow> bool" where
  \<comment> \<open>the membership of a user without a global role: the active row, or the default one of an open tenant\<close>
  "granted aa t uid d m \<longleftrightarrow> map_of t (uid, d) = Some m \<and> mb_is_active m
     \<or> (\<forall>r. map_of t (uid, d) = Some r \<longrightarrow> \<not> mb_is_active r)
       \<and> map_of (aa_tenants aa) d = Some (''active'', ''open'') \<and> m = default_membership ''internal''"

definition entitled :: "auth_adapter \<Rightarrow> member_table \<Rightarrow> user_context \<Rightarrow> string \<Rightarrow> membership \<Rightarrow> bool" where
  \<comment> \<open>the membership of any user: without an active row, a global role stands for the clearance secret\<close>
  "entitled aa t u d m \<longleftrightarrow> granted aa t (uc_user_id u) d m
     \<or> (\<forall>r. map_of t (uc_user_id u, d) = Some r \<longrightarrow> \<not> mb_is_active r)
       \<and> (is_admin u \<or> is_auditor u) \<and> m = default_membership ''secret''"

lemma entitled_membership:
  assumes "verify_and_extract aa token d w = (Inr u, w')" and "d \<noteq> ''__platform__''"
    and "\<not> service_client (aa_config aa) u"
  obtains m where "entitled aa (aw_members w) u d m" "uc_clearance u = PStr (mb_clearance m)"
    "uc_domain_groups u = map PStr (mb_domain_groups m)"
    "uc_department u = (case mb_department m of None \<Rightarrow> PNone | Some x \<Rightarrow> PStr x)"
  using assms(1,2)
proof (cases rule: verify_Inr)
  case 1
  then show thesis using assms(3) by simp
next
  case (2 claims w1 c roles)
  obtain m where m: "membership_for aa (uc_user_id u) d roles w1 = (Inr m, w')"
    "uc_clearance u = PStr (mb_clearance m)" "uc_domain_groups u = map PStr (mb_domain_groups m)"
    "uc_department u = (case mb_department m of None \<Rightarrow> PNone | Some x \<Rightarrow> PStr x)" "PStr ` set roles \<subseteq> set (uc_roles u)"
    by (rule member_context_Inr [OF 2(5)])
  have roles: "g \<in> set GLOBAL_ROLES \<Longrightarrow> g \<in> set roles \<Longrightarrow> is_admin u \<or> is_auditor u" for g
    using m(5) by (auto simp: GLOBAL_ROLES_def is_admin_def is_auditor_def is_platform_admin_def)
  have "entitled aa (aw_members w) u d m"
    using membership_for_Inr [OF m(1)] verified_claims_frame(2) [OF 2(1)]
    by (auto simp: entitled_def granted_def dest: roles)
  then show thesis using that m(2-4) by blast
qed



lemma clearance_cases:
  assumes "verify_and_extract aa token d w = (Inr u, w')" and "d \<noteq> ''__platform__''"
    and "\<not> service_client (aa_config aa) u"
  shows "(\<exists>m. map_of (aw_members w) (uc_user_id u, d) = Some m \<and> mb_is_active m
      \<and> uc_clearance u = PStr (mb_clearance m) \<and> uc_domain_groups u = map PStr (mb_domain_groups m))
    \<or> (\<forall>m. map_of (aw_members w) (uc_user_id u, d) = Some m \<longrightarrow> \<not> mb_is_active m) \<and> uc_domain_groups u = []
      \<and> ((is_admin u \<or> is_auditor u) \<and> uc_clearance u = PStr ''secret''
         \<or> map_of (aa_tenants aa) d = Some (''active'', ''open'') \<and> uc_clearance u = PStr ''internal'')"
  by (rule entitled_membership [OF assms]) (auto simp: entitled_def granted_def default_membership_def)

lemma service_clearance_cases:
  assumes "verify_and_extract aa token d w = (Inr u, w')" and "d \<noteq> ''__platform__''" and "service_client (aa_config aa) u"
  shows "\<exists>c. claims_client (uc_raw_claims u) = PStr c \<and> uc_clearance u = service_clearance (aa_config aa) c
    \<and> uc_domain_groups u = [] \<and> uc_department u = PNone"
  using assms(1,2)
proof (cases rule: verify_Inr)
  case (1 claims w1 c roles)
  then show ?thesis using service_context_Inr [OF 1(4,6)] by auto
next
  case 2
  then show ?thesis using assms(3) by simp
qed

section \<open>Properties\<close>


text \<open>
  (C10) What a caller may see comes from the configuration and the membership table. For a request to a
  tenant that is let in: a service has the clearance of its service account, or internal when it has only
  the service role, and no groups. Any other user with an active membership row has exactly its
  clearance and groups. Without an active row a user has no groups, and has a global role and the clearance
  secret, or the clearance internal in a tenant that is active and open for enrolment.
\<close>

theorem clearance_from_membership:
  assumes "verify_and_extract aa token d w = (Inr u, w')" and "d \<noteq> ''__platform__''"
  shows "if service_client (aa_config aa) u
    then \<exists>c. claims_client (uc_raw_claims u) = PStr c \<and> uc_clearance u = service_clearance (aa_config aa) c \<and> uc_domain_groups u = []
    else (\<exists>m. map_of (aw_members w) (uc_user_id u, d) = Some m \<and> mb_is_active m
      \<and> uc_clearance u = PStr (mb_clearance m) \<and> uc_domain_groups u = map PStr (mb_domain_groups m))
    \<or> (\<forall>m. map_of (aw_members w) (uc_user_id u, d) = Some m \<longrightarrow> \<not> mb_is_active m) \<and> uc_domain_groups u = []
      \<and> ((is_admin u \<or> is_auditor u) \<and> uc_clearance u = PStr ''secret''
         \<or> map_of (aa_tenants aa) d = Some (''active'', ''open'') \<and> uc_clearance u = PStr ''internal'')"
proof (cases "service_client (aa_config aa) u")
  case True
  then show ?thesis using service_clearance_cases [OF assms True] by auto
next
  case False
  then show ?thesis using clearance_cases [OF assms False] by simp
qed

text \<open>
  Revocation does not last in an open tenant: after the membership of a user has been revoked, the
  next request of the user is let in and switches the old row on again, so that from the request after
  it on the user has the old clearance and groups back.
\<close>

theorem revocation_does_not_last:
  assumes "map_of (aw_members w) (sub, d) = Some m" and "revoke sub d (aw_members w) = (True, t)"
    and "verify_and_extract aa token d (w\<lparr>aw_members := t\<rparr>) = (Inr u1, w1)" and "uc_user_id u1 = sub"
    and "\<not> service_client (aa_config aa) u1" and "\<not> is_admin u1" and "\<not> is_auditor u1"
    and "verify_and_extract aa token' d w1 = (Inr u2, w2)" and "uc_user_id u2 = sub"
    and "\<not> service_client (aa_config aa) u2" and "d \<noteq> ''__platform__''" and "aa_jit_persists aa"
  shows "uc_clearance u1 = PStr ''internal'' \<and> map_of (aw_members w1) (sub, d) = Some m
    \<and> uc_clearance u2 = PStr (mb_clearance m) \<and> uc_domain_groups u2 = map PStr (mb_domain_groups m)"
proof -
  let ?m = "m\<lparr>mb_is_active := False\<rparr>"
  have rv: "mb_is_active m" "map_of t (sub, d) = Some ?m"
    using assms(1,2) by (auto simp: revoke_def map_of_assoc_put split: if_splits)
  have first: "uc_clearance u1 = PStr ''internal'' \<and> map_of (aw_members w1) (sub, d) = Some m"
    using assms(3,11)
  proof (cases rule: verify_Inr)
    case (2 claims w0 c roles)
    obtain m' where m: "membership_for aa sub d roles w0 = (Inr m', w1)" "uc_clearance u1 = PStr (mb_clearance m')"
      "PStr ` set roles \<subseteq> set (uc_roles u1)"
      using member_context_Inr [OF 2(5)] assms(4) by metis
    have "\<forall>g \<in> set GLOBAL_ROLES. g \<notin> set roles"
      using m(3) assms(6,7) by (auto simp: GLOBAL_ROLES_def is_admin_def is_auditor_def is_platform_admin_def)
    then show ?thesis
      using membership_for_Inr [OF m(1)] m(2) verified_claims_frame(2) [OF 2(1)] rv assms(12)
      by (auto simp: default_membership_def)
  qed (use assms(5) in simp)
  from clearance_cases [OF assms(8,11,10)] first rv(1) assms(9) show ?thesis by auto
qed

definition event_domain :: "ledger_event \<Rightarrow> string" where
  "event_domain e = (case e of AuthFailure d _ _ _ \<Rightarrow> d | TenantMismatch d _ _ \<Rightarrow> d)"

definition recorded :: "string \<Rightarrow> auth_world \<Rightarrow> 'a api \<times> auth_world \<Rightarrow> bool" where
  \<comment> \<open>what a step may do to the ledger's events, compared with those before the request\<close>
  "recorded d w rw \<longleftrightarrow>
     (case fst rw of
        Inl (HTTPException status _) \<Rightarrow> aw_members (snd rw) = aw_members w \<and>
          (status \<in> {401, 403} \<and> (\<exists>e. event_domain e = d \<and> aw_events (snd rw) = aw_events w @ [e])
           \<or> status \<in> {500, 503} \<and> aw_events (snd rw) = aw_events w)
      | _ \<Rightarrow> aw_events (snd rw) = aw_events w)"

named_theorems recorded_intros \<open>steps that record what they refuse\<close>

lemma recorded_bind [recorded_intros]:
  assumes "recorded d w m" and "\<And>x w1. m = (Inr x, w1) \<Longrightarrow> aw_events w1 = aw_events w \<Longrightarrow> recorded d w (f x w1)"
  shows "recorded d w (bind_st m f)"
  using assms by (cases m) (auto simp: bind_st_def recorded_def split: sum.splits api_error.splits)

lemma recorded_lift [recorded_intros]: "aw_events w1 = aw_events w \<Longrightarrow> recorded d w (lift_res r, w1)"
  by (auto simp: recorded_def lift_res_def split: sum.splits)

lemma recorded_Inr [recorded_intros]: "aw_events w1 = aw_events w \<Longrightarrow> recorded d w (Inr x, w1)"
  by (simp add: recorded_def)

lemma recorded_refuse [recorded_intros]:
  "status \<in> {401, 403} \<Longrightarrow> event_domain e = d \<Longrightarrow> aa_ledger aa \<Longrightarrow> aw_events w1 = aw_events w \<Longrightarrow>
   aw_members w1 = aw_members w \<Longrightarrow> recorded d w (refuse aa status err info e w1)"
  by (auto simp: recorded_def refuse_def http_error_def)

lemma recorded_if [recorded_intros]:
  "(c \<Longrightarrow> recorded d w a) \<Longrightarrow> (\<not> c \<Longrightarrow> recorded d w b) \<Longrightarrow> recorded d w (if c then a else b)"
  by simp

lemma fetch_jwk_recorded [recorded_intros]: "recorded d w (fetch_jwk aa kid w)"
  by (auto simp: recorded_def fetch_jwk_def http_error_def split: prod.splits sum.splits key_error.splits)

lemma event_domain_simps [simp]:
  "event_domain (AuthFailure d a r i) = d" "event_domain (TenantMismatch d a t) = d"
  by (simp_all add: event_domain_def)

lemma verified_claims_recorded:
  assumes "aa_ledger aa"
  shows "recorded d w (verified_claims aa token d w)"
  unfolding verified_claims_def Let_def
  by (intro recorded_intros; (auto split: sum.splits intro!: recorded_intros assms dest: fetch_jwk_frame)?)

lemma platform_context_recorded: "aw_events w1 = aw_events w \<Longrightarrow> recorded d w (platform_context claims c roles td w1)"
  unfolding platform_context_def by (intro recorded_intros) auto

lemma contexts_recorded:
  assumes "aa_ledger aa" and "aw_events w1 = aw_events w" and "aw_members w1 = aw_members w"
  shows "recorded d w (service_context aa claims c roles d w1)"
    and "recorded d w (member_context aa claims roles d w1)"
proof -
  have mf: "recorded d w (membership_for aa sub d roles w2)"
    if "aw_events w2 = aw_events w" "aw_members w2 = aw_members w" for sub w2
    using assms(1) that
    by (auto simp: membership_for_def load_membership_def bind_st_def create_jit_membership_def http_error_def
        recorded_def refuse_def split: option.splits)
  show "recorded d w (member_context aa claims roles d w1)"
    unfolding member_context_def by (intro recorded_intros mf) (use assms in auto)
  show "recorded d w (service_context aa claims c roles d w1)"
    unfolding service_context_def
    by (intro recorded_intros) (use assms in \<open>auto intro!: recorded_intros\<close>)
qed

text \<open>
  (C27) Every refusal leaves a trace: with a ledger, a request that the adapter refuses with 401 or 403
  hands exactly one event about that tenant to the ledger, every other outcome hands none, and no
  refusal changes the membership table.
\<close>

theorem refusals_recorded:
  assumes "verify_and_extract aa token d w = (r, w')" and "aa_ledger aa"
  shows "case r of
      Inl (HTTPException status _) \<Rightarrow> aw_members w' = aw_members w \<and>
        (status \<in> {401, 403} \<and> (\<exists>e. event_domain e = d \<and> aw_events w' = aw_events w @ [e])
         \<or> status \<in> {500, 503} \<and> aw_events w' = aw_events w)
    | _ \<Rightarrow> aw_events w' = aw_events w"
proof -
  have "recorded d w (verify_and_extract aa token d w)"
    unfolding verify_and_extract_def Let_def
    by (intro recorded_intros verified_claims_recorded platform_context_recorded contexts_recorded assms(2))
      (auto dest: verified_claims_frame simp: api_simps)
  then show ?thesis by (simp only: recorded_def assms(1) fst_conv snd_conv)
qed

text \<open>
  The key cache bounds the requests to the key endpoint: looking up a key costs at most two of
  them and none when the key is cached and fresh, and an identifier that is not cached costs at least
  one every time, since misses are not remembered.
\<close>

theorem key_requests_bounded:
  assumes "get_key A kid jk = (r, jk')" and "is_hashable kid"
  shows "jk_fetches jk' \<le> jk_fetches jk + 2
    \<and> (map_of (jk_keys jk) kid = None \<longrightarrow> jk_fetches jk < jk_fetches jk')
    \<and> (map_of (jk_keys jk) kid = Some k \<and> al_clock A (jk_ticks jk) - jk_fetched_at jk \<le> al_cache_ttl A \<longrightarrow>
        r = Inr k \<and> jk_fetches jk' = jk_fetches jk)"
  using get_key_kept [OF assms(1)] get_key_fresh [OF assms(2), of jk k A] assms
  by (auto simp: keys_kept_def)

section \<open>Examples\<close>

text \<open>A tenant open for enrolment, a client bound to it, and a user whose membership was revoked.\<close>

definition ex_claims :: pydict where
  "ex_claims = [(''sub'', PStr ''kim''), (''client_id'', PStr ''client-a''), (''roles'', PList [PStr ''ops-user''])]"

definition ex_jwk :: pydict where
  "ex_jwk = [(''kid'', PStr ''k1'')]"

definition ex_auth_lib :: auth_lib where
  "ex_auth_lib = \<lparr>al_py = \<lparr>float_of_text = (\<lambda>_. None), int_of_text = (\<lambda>_. None), repr_of = (\<lambda>_. []),
       lower_of = (\<lambda>s. s), json_loads = (\<lambda>_. Inl []), re_search = (\<lambda>_ _. None), exc_text = (\<lambda>_. [])\<rparr>,
     al_upper = (\<lambda>s. s), al_header = (\<lambda>t. Inr [(''kid'', PStr (if t = ''x'' then ''k2'' else ''k1''))]),
     al_decode = (\<lambda>_ _ _ _. Inr ex_claims),
     al_fetch = (\<lambda>_. Inr (Inr (PDict [(''keys'', PList [PDict ex_jwk])]))), al_clock = (\<lambda>_. 0), al_cache_ttl = 3600\<rparr>"

definition ex_auth_config :: auth_config where
  "ex_auth_config = \<lparr>ac_issuer = ''iss'', ac_jwt_algorithm = ''RS256'', ac_platform_admin_role = ''root'',
     ac_require_verified_email = True, ac_rp_slug = ''ops'', ac_client_tenant_map = [(''client-a'', [''a'', ''b''])],
     ac_service_accounts = [], ac_tenant_overrides = [], ac_accept_legacy_global_roles = False\<rparr>"

definition ex_adapter :: auth_adapter where
  "ex_adapter = \<lparr>aa_lib = ex_auth_lib, aa_config = ex_auth_config, aa_session = True,
     aa_tenants = [(''b'', (''active'', ''open''))], aa_jit_persists = True, aa_ledger = True\<rparr>"

definition ex_row :: membership where
  "ex_row = \<lparr>mb_clearance = ''secret'', mb_department = None, mb_domain_groups = [''hr''], mb_is_active = True\<rparr>"

definition ex_auth_world :: auth_world where
  "ex_auth_world = \<lparr>aw_jwks = \<lparr>jk_keys = [], jk_fetched_at = 0, jk_fetches = 0, jk_ticks = 0\<rparr>,
     aw_members = [((''kim'', ''b''), ex_row)], aw_events = []\<rparr>"

definition ex_ctx :: "string \<Rightarrow> string list \<Rightarrow> user_context" where
  "ex_ctx clearance groups = \<lparr>uc_user_id = ''kim'', uc_domain_id = ''b'', uc_roles = [PStr ''USER''],
     uc_clearance = PStr clearance, uc_department = PNone, uc_domain_groups = map PStr groups,
     uc_preferred_username = PNone, uc_email = PNone, uc_raw_claims = ex_claims\<rparr>"

abbreviation ex_revoked :: auth_world where
  "ex_revoked \<equiv> ex_auth_world\<lparr>aw_members := [((''kim'', ''b''), ex_row\<lparr>mb_is_active := False\<rparr>)]\<rparr>"

definition ex_w1 :: auth_world where
  "ex_w1 = snd (verify_and_extract ex_adapter ''t'' ''b'' ex_revoked)"

definition ex_w2 :: auth_world where
  "ex_w2 = snd (verify_and_extract ex_adapter ''t'' ''b'' ex_w1)"

lemma ex_requests:
  "verify_and_extract ex_adapter ''t'' ''b'' ex_revoked = (Inr (ex_ctx ''internal'' []), ex_w1)"
  "verify_and_extract ex_adapter ''t'' ''b'' ex_w1 = (Inr (ex_ctx ''secret'' [''hr'']), ex_w2)"
  "revoke ''kim'' ''b'' (aw_members ex_auth_world) = (True, [((''kim'', ''b''), ex_row\<lparr>mb_is_active := False\<rparr>)])"
  "fst (get_key ex_auth_lib (PStr ''k2'') (aw_jwks ex_auth_world)) = Inl (JWKSFetchError ''unknown kid in JWKS: k2'')"
  "verify_and_extract ex_adapter ''t'' ''c'' ex_auth_world
     = (Inl (http_error 403 ''tenant_mismatch'' [(''token_domain_id'', PStr ''a''), (''expected_domain_id'', PStr ''c'')]),
        snd (verify_and_extract ex_adapter ''t'' ''c'' ex_auth_world))"
  by code_simp+

lemma ex_ctx_facts: "\<not> service_client ex_auth_config (ex_ctx c gs)" "\<not> is_admin (ex_ctx c gs)" "\<not> is_auditor (ex_ctx c gs)"
  "uc_user_id (ex_ctx c gs) = ''kim''"
  by (simp_all add: service_client_def is_service_account_def is_admin_def is_auditor_def is_platform_admin_def ex_ctx_def
      ex_auth_config_def)

lemma ex_adapter_config: "aa_config ex_adapter = ex_auth_config" "aa_jit_persists ex_adapter" "aa_ledger ex_adapter"
  by (simp_all add: ex_adapter_def)

definition ex_service_adapter :: auth_adapter where
  \<comment> \<open>the client is a service account of the tenant, with a clearance of its own\<close>
  "ex_service_adapter = ex_adapter\<lparr>aa_config := ex_auth_config\<lparr>ac_service_accounts :=
     [(''client-a'', \<lparr>sa_client_id = ''client-a'', sa_domain_id = PStr ''b'', sa_roles = [PStr ''SERVICE''], sa_clearance = PStr ''confidential''\<rparr>)]\<rparr>\<rparr>"

definition ex_service_ctx :: user_context where
  "ex_service_ctx = (ex_ctx ''confidential'' [])\<lparr>uc_roles := [PStr ''USER'', PStr ''SERVICE'']\<rparr>"

lemma ex_service_request:
  "fst (verify_and_extract ex_service_adapter ''t'' ''b'' ex_auth_world) = Inr ex_service_ctx"
  by code_simp


theorem clearance_from_membership_witness:
  "(\<exists>u w'. verify_and_extract ex_adapter ''t'' ''b'' ex_w1 = (Inr u, w') \<and> \<not> service_client ex_auth_config u
     \<and> uc_clearance u = PStr (mb_clearance ex_row) \<and> uc_domain_groups u = map PStr (mb_domain_groups ex_row))
   \<and> (\<exists>u w'. verify_and_extract ex_adapter ''t'' ''b'' ex_revoked = (Inr u, w') \<and> uc_clearance u = PStr ''internal'')
   \<and> (\<exists>u w'. verify_and_extract ex_service_adapter ''t'' ''b'' ex_auth_world = (Inr u, w') \<and> uc_clearance u = PStr ''confidential'')"
proof -
  obtain w' where s: "verify_and_extract ex_service_adapter ''t'' ''b'' ex_auth_world = (Inr ex_service_ctx, w')"
    using ex_service_request by (metis prod.collapse)
  have "service_client (aa_config ex_service_adapter) ex_service_ctx"
    by (simp add: service_client_def is_service_account_def ex_service_ctx_def)
  moreover have "claims_client (uc_raw_claims ex_service_ctx) = PStr ''client-a''"
    "service_clearance (aa_config ex_service_adapter) ''client-a'' = PStr ''confidential''"
    by code_simp+
  ultimately have c: "uc_clearance ex_service_ctx = PStr ''confidential''"
    using clearance_from_membership [OF s] by simp
  have row: "map_of (aw_members ex_w1) (''kim'', ''b'') = Some ex_row" "mb_is_active ex_row" by code_simp+
  show ?thesis
    using clearance_from_membership [OF ex_requests(2)] clearance_from_membership [OF ex_requests(1)] ex_ctx_facts row s c ex_requests(1,2)
    by (auto simp: ex_adapter_config ex_auth_world_def)
qed

theorem revocation_does_not_last_witness:
  "uc_clearance (ex_ctx ''secret'' [''hr'']) = PStr (mb_clearance ex_row) \<and> map_of (aw_members ex_w1) (''kim'', ''b'') = Some ex_row"
proof -
  have row: "map_of (aw_members ex_auth_world) (''kim'', ''b'') = Some ex_row" by (simp add: ex_auth_world_def)
  show ?thesis
    using revocation_does_not_last [OF row ex_requests(3,1) ex_ctx_facts(4) _ ex_ctx_facts(2,3) ex_requests(2)
        ex_ctx_facts(4)] ex_ctx_facts(1)
    by (simp add: ex_adapter_config)
qed

theorem refusals_recorded_witness:
  "\<exists>e. event_domain e = ''c'' \<and> aw_events (snd (verify_and_extract ex_adapter ''t'' ''c'' ex_auth_world)) = [e]"
  using refusals_recorded [OF ex_requests(5) ex_adapter_config(3)] by (simp add: http_error_def ex_auth_world_def)

theorem key_requests_bounded_witness:
  "\<exists>jk. get_key ex_auth_lib (PStr ''k2'') (aw_jwks ex_auth_world) = (Inl (JWKSFetchError ''unknown kid in JWKS: k2''), jk)
     \<and> 0 < jk_fetches jk \<and> jk_fetches jk \<le> 2"
proof -
  obtain jk where g: "get_key ex_auth_lib (PStr ''k2'') (aw_jwks ex_auth_world) = (Inl (JWKSFetchError ''unknown kid in JWKS: k2''), jk)"
    using ex_requests(4) by (metis prod.collapse)
  from key_requests_bounded [OF g] g show ?thesis by (auto simp: ex_auth_world_def)
qed

end
