(* ===== verification/Chat_Service.thy ===== *)
theory Chat_Service
  imports Graph Tenant_Config Approvals Auth
begin

text \<open>
  The chat service of the backend (\<open>backend/app/services/rag_service.py\<close>): what it hands to the chat
  graph (the user as a dictionary, the tenant's configuration with the storage approval written into
  it, the recent turns of the conversation), the run itself, and the response it builds from the
  final state; with the in-process reader of the chat log
  (\<open>rag_core/interfaces/chat_log_reader.py\<close>) that provides the history.

  The response is a record whose optional parts are the keys that only one of its two forms has.
  Identifiers, the clock and the latency are arguments. The configuration object that the loader
  changes is the cached one, so the change is written back into the cache.
\<close>

section \<open>The reader of the chat log\<close>

record chat_log_filters =
  lf_user_id :: "string option"
  lf_conversation_id :: "string option"
  lf_fallback_only :: bool
  lf_ui_mode :: "string option"
  lf_keyword :: "string option"
  lf_citation_type :: "string option"
  lf_min_confidence :: "real option"
  lf_max_confidence :: "real option"

definition no_filters :: chat_log_filters where
  "no_filters = \<lparr>lf_user_id = None, lf_conversation_id = None, lf_fallback_only = False, lf_ui_mode = None,
     lf_keyword = None, lf_citation_type = None, lf_min_confidence = None, lf_max_confidence = None\<rparr>"

definition keyword_in_log :: "pylib \<Rightarrow> string \<Rightarrow> chat_log_payload \<Rightarrow> bool" where
  "keyword_in_log L keyword p =
     contains (lower_of L keyword)
       (lower_of L (py_join '' '' (cl_question p # (case cl_rewritten_query p of None \<Rightarrow> [] | Some q \<Rightarrow> [q])
                                    @ [cl_answer p])))"

definition row_matches :: "pylib \<Rightarrow> chat_log_filters \<Rightarrow> chat_log_payload \<Rightarrow> bool" where
  "row_matches L f p \<longleftrightarrow>
     (lf_user_id f = None \<or> lf_user_id f = Some (cl_user_id p))
     \<and> (lf_conversation_id f = None \<or> lf_conversation_id f = cl_conversation_id p)
     \<and> (lf_fallback_only f \<longrightarrow> truthy_str (cl_fallback_reason p))
     \<and> (lf_ui_mode f = None \<or> lf_ui_mode f = Some (cl_ui_mode p))
     \<and> (case lf_citation_type f of None \<Rightarrow> True | Some t \<Rightarrow> PStr t \<in> set (cl_citation_types p))
     \<and> (case lf_min_confidence f of None \<Rightarrow> True | Some c \<Rightarrow> \<not> cl_confidence p < c)
     \<and> (case lf_max_confidence f of None \<Rightarrow> True | Some c \<Rightarrow> \<not> cl_confidence p > c)
     \<and> (case lf_keyword f of None \<Rightarrow> True | Some k \<Rightarrow> k = [] \<or> keyword_in_log L k p)"

record chat_log_page =
  lp_items :: "(string \<times> chat_log_payload) list"
  lp_total :: nat
  lp_page :: int
  lp_page_size :: int

definition list_logs :: "pylib \<Rightarrow> string \<Rightarrow> chat_log_filters \<Rightarrow> int \<Rightarrow> int \<Rightarrow> chat_log \<Rightarrow> chat_log_page" where
  \<comment> \<open>latest first; a record is shown with an identifier made from its position\<close>
  "list_logs L domain_id filters page page_size w =
     (let page' = max 1 page; size = max 1 (min page_size 100);
          rows = rev (filter (row_matches L filters) (filter (\<lambda>r. cl_domain_id r = domain_id) (log_records w)));
          total = length rows;
          start = (page' - 1) * size
      in \<lparr>lp_items = map (\<lambda>(i, p). (''inmem-'' @ zero_pad 8 (int total - 1 - (start + int i)), p))
                       (enumerate 0 (page_of page' size rows)),
          lp_total = total, lp_page = page', lp_page_size = size\<rparr>)"

definition get_log :: "string \<Rightarrow> string \<Rightarrow> chat_log \<Rightarrow> (string \<times> chat_log_payload) option" where
  "get_log domain_id request_id w =
     map_option (\<lambda>p. (''inmem-'' @ cl_request_id p, p))
       (find (\<lambda>r. cl_domain_id r = domain_id \<and> cl_request_id r = request_id) (log_records w))"

section \<open>What the graph is given\<close>

definition user_context_to_dict :: "user_context \<Rightarrow> pyval" where
  "user_context_to_dict u =
     PDict [(''user_id'', PStr (uc_user_id u)), (''domain_id'', PStr (uc_domain_id u)),
       (''clearance'', uc_clearance u), (''department'', uc_department u),
       (''domain_groups'', PList (uc_domain_groups u)), (''roles'', PList (uc_roles u)),
       (''preferred_username'', uc_preferred_username u), (''email'', uc_email u)]"

definition config_to_dict :: "pydict \<Rightarrow> pydict" where
  "config_to_dict tc = map (\<lambda>cat. (cat, dget tc cat PNone)) CONFIG_CATEGORIES"

definition approved_pii :: "bool \<Rightarrow> pyval \<Rightarrow> pyval res" where
  \<comment> \<open>the \<open>pii\<close> section with the approval written into it\<close>
  "approved_pii approved pii =
     bind_res (as_dict pii) (\<lambda>d.
       case map_of d ''storage'' of
         None \<Rightarrow> Inr (PDict (dict_put ''storage'' (PDict [(''plain_approved'', PBool approved)]) d))
       | Some (PDict storage) \<Rightarrow>
           Inr (PDict (dict_put ''storage'' (PDict (dict_put ''plain_approved'' (PBool approved) storage)) d))
       | Some _ \<Rightarrow> Inl TypeError)"

definition config_loader ::
  "config_disk \<Rightarrow> approval_service \<Rightarrow> real \<Rightarrow> string \<Rightarrow> config_service \<Rightarrow> pyval res \<times> config_service" where
  \<comment> \<open>\<open>_build_config_loader_with_pii_approval\<close>: the section that is changed belongs to the cached object\<close>
  "config_loader disk approvals now domain_id cs =
     (case load disk now now domain_id cs of
        (Inl e, cs') \<Rightarrow> (Inl e, cs')
      | (Inr tc, cs') \<Rightarrow>
          (case approved_pii (is_plain_approved now domain_id approvals) (dget tc ''pii'' PNone) of
             Inl e \<Rightarrow> (Inl e, cs')
           | Inr pii \<Rightarrow>
               (Inr (PDict (dict_put ''pii'' pii (config_to_dict tc))),
                cs'\<lparr>cs_cache := assoc_modify domain_id (\<lambda>(c, t). (dict_put ''pii'' pii c, t)) (cs_cache cs')\<rparr>)))"

definition turn_messages :: "chat_log_payload \<Rightarrow> pyval list" where
  "turn_messages p =
     (if cl_question p = [] then []
      else [PDict [(''role'', PStr ''user''), (''content'', PStr (utf8_take 600 (cl_question p)))]])
     @ (if cl_answer p = [] then []
        else [PDict [(''role'', PStr ''assistant''), (''content'', PStr (utf8_take 1500 (cl_answer p)))]])"

definition load_history :: "pylib \<Rightarrow> bool \<Rightarrow> string \<Rightarrow> string \<Rightarrow> bool \<Rightarrow> chat_log \<Rightarrow> pyval list" where
  "load_history L reader domain_id conversation_id had_prior w =
     (if \<not> had_prior \<or> \<not> reader then []
      else let res = list_logs L domain_id (no_filters\<lparr>lf_conversation_id := Some conversation_id\<rparr>) 1 10 w
           in concat (map (turn_messages \<circ> snd) (rev (take 3 (lp_items res)))))"

section \<open>The response\<close>

record response_meta =
  md_grounding :: string
  md_llm_model :: "string option"
  md_lora_adapter :: pyval
  md_latency_ms :: int
  md_gate1_metrics :: pydict
  md_confidence :: real
  md_citation_types :: "pyval list"
  md_verifier :: pydict
  md_input_pii_found :: "pyval list"
  md_output_pii_masked :: "pyval list"
  md_assessment :: "(pyval list \<times> pyval list) option"

record chat_response =
  rp_status :: string
  rp_conversation_id :: string
  rp_message_id :: string
  rp_answer :: string
  rp_answer_segments :: "answer_segments option"
  rp_fallback :: "pydict option"
  rp_citations :: "citation list"
  rp_limitations :: "pyval option"
  rp_metadata :: response_meta

fun segment_texts :: "answer_segments \<Rightarrow> string res" where
  \<comment> \<open>\<open>"".join(seg.get("text", "") for seg in answer_segments)\<close>\<close>
  "segment_texts (Parsed segs) = Inr (concat (map seg_text segs))"
| "segment_texts (Raw vs) =
     bind_res (map_res (\<lambda>v. bind_res (as_dict v) (\<lambda>d.
        case dget d ''text'' (PStr []) of PStr t \<Rightarrow> Inr t | _ \<Rightarrow> Inl TypeError)) vs) (\<lambda>ts. Inr (concat ts))"

definition verifier_meta :: "rag_state \<Rightarrow> pydict" where
  "verifier_meta s =
     [(''tier1_markers_removed'', dget (s_verifier_metrics s) ''tier1_markers_removed'' PNone),
      (''tier2_avg_similarity'', dget (s_verifier_metrics s) ''tier2_avg_similarity'' PNone),
      (''tier3_unsupported_segments'', dget (s_verifier_metrics s) ''tier3_unsupported_segments'' PNone),
      (''claim_extraction_mode'', PStr ''structured''),
      (''inference_judge_results'', PList (s_inference_judge_results s)),
      (''conflict_heuristic_detected'', dget (s_verifier_metrics s) ''conflict_heuristic_detected'' (PInt 0)),
      (''conflict_groups'', PList (s_conflict_groups s))]"

definition response_meta_of :: "rag_state \<Rightarrow> int \<Rightarrow> response_meta" where
  "response_meta_of s latency_ms =
     \<lparr>md_grounding = (if s_grounding s = [] then ''grounded'' else s_grounding s),
      md_llm_model = s_selected_model s, md_lora_adapter = s_selected_lora s, md_latency_ms = latency_ms,
      md_gate1_metrics = s_gate1_metrics s, md_confidence = s_confidence s,
      md_citation_types = s_citation_types s, md_verifier = verifier_meta s,
      md_input_pii_found = s_input_pii_found s, md_output_pii_masked = s_output_pii_masked s,
      md_assessment = (if s_grounding s = ''assessment'' then Some (s_assessment_items s, s_assessment_plan s)
                       else None)\<rparr>"

definition SUGGEST_REMOVE_PII :: string where
  "SUGGEST_REMOVE_PII = [CHR 0xEB, CHR 0xAF, CHR 0xBC, CHR 0xEA, CHR 0xB0, CHR 0x90] @ '' '' @ [CHR 0xEC, CHR 0xA0, CHR 0x95, CHR 0xEB, CHR 0xB3, CHR 0xB4] @ ''('' @ [CHR 0xEC, CHR 0xA3, CHR 0xBC, CHR 0xEB, CHR 0xAF, CHR 0xBC, CHR 0xEB, CHR 0xB2, CHR 0x88, CHR 0xED, CHR 0x98, CHR 0xB8, CHR 0xC2, CHR 0xB7, CHR 0xEA, CHR 0xB3, CHR 0x84, CHR 0xEC, CHR 0xA2, CHR 0x8C, CHR 0xC2, CHR 0xB7] @ ''API key '' @ [CHR 0xEB, CHR 0x93, CHR 0xB1] @ '')'' @ [CHR 0xEB, CHR 0xA5, CHR 0xBC] @ '' '' @ [CHR 0xEC, CHR 0xA0, CHR 0x9C, CHR 0xEA, CHR 0xB1, CHR 0xB0, CHR 0xED, CHR 0x95, CHR 0x98, CHR 0xEA, CHR 0xB3, CHR 0xA0] @ '' '' @ [CHR 0xEB, CHR 0x8B, CHR 0xA4, CHR 0xEC, CHR 0x8B, CHR 0x9C] @ '' '' @ [CHR 0xEC, CHR 0x8B, CHR 0x9C, CHR 0xEB, CHR 0x8F, CHR 0x84, CHR 0xED, CHR 0x95, CHR 0x98, CHR 0xEC, CHR 0x84, CHR 0xB8, CHR 0xEC, CHR 0x9A, CHR 0x94] @ ''.''"

definition SUGGEST_KEYWORDS :: string where
  "SUGGEST_KEYWORDS = [CHR 0xEB, CHR 0x8D, CHR 0x94] @ '' '' @ [CHR 0xEA, CHR 0xB5, CHR 0xAC, CHR 0xEC, CHR 0xB2, CHR 0xB4, CHR 0xEC, CHR 0xA0, CHR 0x81, CHR 0xEC, CHR 0x9D, CHR 0xB8] @ '' '' @ [CHR 0xED, CHR 0x82, CHR 0xA4, CHR 0xEC, CHR 0x9B, CHR 0x8C, CHR 0xEB, CHR 0x93, CHR 0x9C, CHR 0xEB, CHR 0xA1, CHR 0x9C] @ '' '' @ [CHR 0xEB, CHR 0x8B, CHR 0xA4, CHR 0xEC, CHR 0x8B, CHR 0x9C] @ '' '' @ [CHR 0xEC, CHR 0xA7, CHR 0x88, CHR 0xEB, CHR 0xAC, CHR 0xB8, CHR 0xED, CHR 0x95, CHR 0xB4] @ '' '' @ [CHR 0xEB, CHR 0xB3, CHR 0xB4, CHR 0xEC, CHR 0x84, CHR 0xB8, CHR 0xEC, CHR 0x9A, CHR 0x94] @ ''.''"

definition SUGGEST_DEPARTMENT :: string where
  "SUGGEST_DEPARTMENT = [CHR 0xEA, CHR 0xB4, CHR 0x80, CHR 0xEB, CHR 0xA0, CHR 0xA8] @ '' '' @ [CHR 0xEB, CHR 0xB6, CHR 0x80, CHR 0xEC, CHR 0x84, CHR 0x9C, CHR 0xEC, CHR 0x97, CHR 0x90] @ '' '' @ [CHR 0xEC, CHR 0xA7, CHR 0x81, CHR 0xEC, CHR 0xA0, CHR 0x91] @ '' '' @ [CHR 0xEB, CHR 0xAC, CHR 0xB8, CHR 0xEC, CHR 0x9D, CHR 0x98, CHR 0xED, CHR 0x95, CHR 0x98, CHR 0xEC, CHR 0x84, CHR 0xB8, CHR 0xEC, CHR 0x9A, CHR 0x94] @ ''.''"

definition fallback_block :: "string \<Rightarrow> rag_state \<Rightarrow> pydict" where
  "fallback_block reason s =
     (if reason = ''input_pii_blocked''
      then [(''reason'', PStr reason), (''blocked_categories'', PList (map PStr (s_blocked_categories s))),
            (''suggested_actions'', PList [PStr SUGGEST_REMOVE_PII])]
      else [(''reason'', PStr reason), (''near_misses'', PList (map PDict (s_near_misses s))),
            (''suggested_actions'', PList [PStr SUGGEST_KEYWORDS, PStr SUGGEST_DEPARTMENT]),
            (''retry_after_seconds'', PInt 60)])"

definition build_chat_response :: "rag_state \<Rightarrow> string \<Rightarrow> string \<Rightarrow> int \<Rightarrow> chat_response res" where
  "build_chat_response s conversation_id message_id latency_ms =
     bind_res (if s_final_answer s \<noteq> [] then Inr (s_final_answer s) else segment_texts (s_answer_segments s))
       (\<lambda>answer_text.
          Inr (if truthy_str (s_fallback_reason s)
               then \<lparr>rp_status = ''fallback'', rp_conversation_id = conversation_id, rp_message_id = message_id,
                     rp_answer = (if answer_text = [] then FALLBACK_DEFAULT_TEXT else answer_text),
                     rp_answer_segments = None,
                     rp_fallback = Some (fallback_block (the (s_fallback_reason s)) s), rp_citations = [],
                     rp_limitations = None, rp_metadata = response_meta_of s latency_ms\<rparr>
               else \<lparr>rp_status = ''success'', rp_conversation_id = conversation_id, rp_message_id = message_id,
                     rp_answer = answer_text, rp_answer_segments = Some (s_answer_segments s),
                     rp_fallback = None, rp_citations = s_citations s,
                     rp_limitations = Some (s_limitations s), rp_metadata = response_meta_of s latency_ms\<rparr>))"

section \<open>The chat request\<close>

record chat_backend =
  cb_deps :: rag_deps
  cb_default_model :: string
  cb_ledger :: bool
  cb_reader :: bool
  cb_disk :: config_disk

record chat_world =
  wl_log :: chat_log
  wl_config :: config_service
  wl_approvals :: approval_service
  wl_blocks :: "(string \<times> string \<times> string list) list"

definition chat_structured ::
  "chat_backend \<Rightarrow> (nat \<Rightarrow> string) \<Rightarrow> real \<Rightarrow> int \<Rightarrow> string \<Rightarrow> user_context \<Rightarrow> string \<Rightarrow> string option \<Rightarrow> chat_world
   \<Rightarrow> chat_response res \<times> chat_world" where
  \<comment> \<open>\<open>wl_blocks\<close> collects the blocked questions handed to the ledger, whose failures are ignored\<close>
  "chat_structured cb uuids now latency domain_id user question conversation_id wl =
     (let request_id = uuids 0;
          had_prior = (conversation_id \<noteq> None);
          cid = str_or conversation_id (uuids 1);
          history = load_history (dp_lib (cb_deps cb)) (cb_reader cb) domain_id cid had_prior (wl_log wl);
          (config, cs) = config_loader (cb_disk cb) (wl_approvals wl) now domain_id (wl_config wl);
          deps = (cb_deps cb)\<lparr>dp_config_loader := \<lambda>_. config\<rparr>;
          s0 = initial_state request_id domain_id (uc_user_id user) (Some cid) question history
                 (user_context_to_dict user) (Some (cb_default_model cb))
      in case run_chat_structured_full deps s0 (wl_log wl) of
           Inl e \<Rightarrow> (Inl e, wl\<lparr>wl_config := cs\<rparr>)
         | Inr (_, s, w) \<Rightarrow>
             (build_chat_response s cid request_id latency,
              wl\<lparr>wl_config := cs, wl_log := w,
                 wl_blocks := (if cb_ledger cb \<and> s_fallback_reason s = Some ''input_pii_blocked''
                               then wl_blocks wl @ [(domain_id, uc_user_id user, s_blocked_categories s)]
                               else wl_blocks wl)\<rparr>))"

section \<open>Facts\<close>

lemma chat_structuredE:
  assumes "chat_structured cb uuids now latency d user q conv wl = (Inr r, wl')"
  obtains config trace s w where
    "fst (config_loader (cb_disk cb) (wl_approvals wl) now d (wl_config wl)) = config"
    "run_chat_structured_full ((cb_deps cb)\<lparr>dp_config_loader := \<lambda>_. config\<rparr>)
       (initial_state (uuids 0) d (uc_user_id user) (Some (str_or conv (uuids 1))) q
          (load_history (dp_lib (cb_deps cb)) (cb_reader cb) d (str_or conv (uuids 1)) (conv \<noteq> None) (wl_log wl))
          (user_context_to_dict user) (Some (cb_default_model cb))) (wl_log wl) = Inr (trace, s, w)"
    "build_chat_response s (str_or conv (uuids 1)) (uuids 0) latency = Inr r" "wl_log wl' = w"
proof -
  obtain config cs where c: "config_loader (cb_disk cb) (wl_approvals wl) now d (wl_config wl) = (config, cs)"
    by (cases "config_loader (cb_disk cb) (wl_approvals wl) now d (wl_config wl)")
  then show thesis
    using assms that by (auto simp: chat_structured_def Let_def split: sum.splits prod.splits)
qed

lemma build_response_parts:
  assumes "build_chat_response s cid mid latency = Inr r"
  shows "rp_status r = (if truthy_str (s_fallback_reason s) then ''fallback'' else ''success'')"
    and "rp_citations r = (if truthy_str (s_fallback_reason s) then [] else s_citations s)"
    and "rp_metadata r = response_meta_of s latency"
    and "rp_answer_segments r = (if truthy_str (s_fallback_reason s) then None else Some (s_answer_segments s))"
    and "rp_fallback r = (if truthy_str (s_fallback_reason s) then Some (fallback_block (the (s_fallback_reason s)) s) else None)"
    and "s_final_answer s \<noteq> [] \<Longrightarrow> rp_answer r = s_final_answer s"
  using assms by (auto simp: build_chat_response_def split: if_splits)

lemma config_loader_sections:
  assumes "fst (config_loader disk ap now d cs) = Inr v"
  obtains tc pii where "fst (load disk now now d cs) = Inr tc"
    "approved_pii (is_plain_approved now d ap) (dget tc ''pii'' PNone) = Inr pii"
    "v = PDict (dict_put ''pii'' pii (config_to_dict tc))"
  using assms that by (auto simp: config_loader_def split: prod.splits sum.splits)

lemma config_to_dict_lookup:
  "map_of (config_to_dict tc) k = (if k \<in> set CONFIG_CATEGORIES then Some (dget tc k PNone) else None)"
  by (simp add: config_to_dict_def CONFIG_CATEGORIES_def)

lemma loader_drops_compliance_mode:
  assumes "fst (config_loader disk ap now d cs) = Inr (PDict cfg)"
  shows "map_of cfg ''compliance_mode'' = None"
proof -
  obtain tc pii where "PDict cfg = PDict (dict_put ''pii'' pii (config_to_dict tc))"
    by (rule config_loader_sections [OF assms])
  then have "cfg = dict_put ''pii'' pii (config_to_dict tc)" by simp
  then show ?thesis
    by (simp add: map_of_dict_put config_to_dict_lookup CONFIG_CATEGORIES_def)
qed

lemma dict_put_nonempty [simp]: "dict_put k v d \<noteq> []"
  by (cases d) (auto split: if_splits)

lemma approved_pii_form:
  assumes "approved_pii b pii = Inr pii'"
  obtains d where "pii = PDict d" "pii' = PDict (dict_put ''storage''
      (PDict (dict_put ''plain_approved'' (PBool b) (dict_or_empty (map_of d ''storage'')))) d)"
proof -
  obtain d where d: "pii = PDict d" using assms by (cases pii) (auto simp: approved_pii_def)
  with assms that show thesis
    by (auto simp: approved_pii_def dict_or_empty_def split: option.splits pyval.splits)
qed

lemma approved_storage:
  "get_dict (dict_put ''storage'' (PDict (dict_put k v e)) d) ''storage'' = Inr (dict_put k v e)"
  by (rule get_dict_present) (simp add: map_of_dict_put)

lemma approved_pii_flag:
  assumes "approved_pii b pii = Inr pii'"
  shows "plain_approved_of pii' = Inr b"
proof -
  obtain d where "pii' = PDict (dict_put ''storage''
      (PDict (dict_put ''plain_approved'' (PBool b) (dict_or_empty (map_of d ''storage'')))) d)"
    by (rule approved_pii_form [OF assms])
  then show ?thesis
    by (simp add: plain_approved_of_def opt_dict_def py_or_def approved_storage dget_def map_of_dict_put
        del: bind_res_eq_Inr)
qed

definition storage_policy :: "pylib \<Rightarrow> pydict \<Rightarrow> string" where
  \<comment> \<open>the storage policy a tenant's configuration object asks for\<close>
  "storage_policy L tc = lower_of L (py_str L (dget (dict_or_empty (map_of (dict_or_empty (map_of tc ''pii'')) ''storage''))
     ''pii_storage_policy'' (PStr ''mask'')))"

lemma storage_decision:
  assumes "approved_pii b (dget tc ''pii'' PNone) = Inr pii" and "q \<noteq> []"
    and "mask_for_storage L det q pii mode b = Inr st"
    and "lower_of L (case mode of None \<Rightarrow> [] | Some m \<Rightarrow> m) \<notin> {''gdpr_strict'', ''hipaa_strict''}"
  shows "storage_policy L tc \<in> {''mask'', ''plain''} \<Longrightarrow> \<not> b \<Longrightarrow> sp_policy st = ''mask'' \<and> sp_text st = fst (pd_mask det q)"
    and "storage_policy L tc = ''plain'' \<Longrightarrow> b \<Longrightarrow> sp_policy st = ''plain''"
    and "storage_policy L tc \<notin> {''mask'', ''plain''} \<Longrightarrow> sp_policy st = ''plain''"
proof -
  obtain d where d: "dget tc ''pii'' PNone = PDict d" "pii = PDict (dict_put ''storage''
      (PDict (dict_put ''plain_approved'' (PBool b) (dict_or_empty (map_of d ''storage'')))) d)"
    by (rule approved_pii_form [OF assms(1)])
  let ?e = "dict_put ''plain_approved'' (PBool b) (dict_or_empty (map_of d ''storage''))"
  have "map_of tc ''pii'' = Some (PDict d)" using d(1) by (auto simp: dget_def split: option.splits)
  then have pol: "lower_of L (py_str L (dget ?e ''pii_storage_policy'' (PStr ''mask''))) = storage_policy L tc"
    by (simp add: storage_policy_def dict_or_empty_def [of "Some (PDict d)"] dget_def map_of_dict_put)
  have cfg: "opt_dict pii = Inr (dict_put ''storage'' (PDict ?e) d)"
    using d(2) by (simp add: opt_dict_def py_or_def)
  note unfold = assms(3) [unfolded mask_for_storage_def cfg bind_res.simps approved_storage pol Let_def]
  show "sp_policy st = ''mask'' \<and> sp_text st = fst (pd_mask det q)"
    if "storage_policy L tc \<in> {''mask'', ''plain''}" "\<not> b"
    using unfold that assms(2) by (auto split: prod.splits if_splits)
  show "sp_policy st = ''plain''" if "storage_policy L tc = ''plain''" "b"
    using unfold that assms(4) by (auto split: if_splits)
  show "sp_policy st = ''plain''" if "storage_policy L tc \<notin> {''mask'', ''plain''}"
    using unfold that assms(4) by (auto split: if_splits)
qed

lemma check_input_storage:
  assumes "check_input_pii_node deps s = Inr s'" and "dp_pii deps = Some det"
    and "s_tenant_config s = PDict cfg" and "cfg \<noteq> []"
  obtains st b where "plain_approved_of (dget cfg ''pii'' PNone) = Inr b"
    "mask_for_storage (dp_lib deps) det (s_question s) (dget cfg ''pii'' PNone)
       (Some (py_str (dp_lib deps) (py_or (dget cfg ''compliance_mode'' PNone) (PStr ''standard'')))) b = Inr st"
    "s_pii_storage_policy s' = sp_policy st" "s_question s' = s_question s"
    "s_question_for_storage s' = (if sp_policy st = ''mask'' then sp_text st else s_question_for_storage s)"
  using assms that
  by (auto simp: check_input_pii_node_def Let_def opt_dict_def py_or_def simp del: bind_res_eq_Inr
      elim!: bind_res_InrE split: if_splits)

text \<open>What a chat request writes into the log, given the configuration object of the tenant.\<close>

lemma chat_storage:
  assumes "chat_structured cb uuids now latency d user q conv wl = (Inr r, wl')"
    and "dp_pii (cb_deps cb) = Some det" and "dp_chat_log_writer (cb_deps cb)" and "q \<noteq> []"
    and "fst (load (cb_disk cb) now now d (wl_config wl)) = Inr tc"
    and "lower_of (dp_lib (cb_deps cb)) ''standard'' = ''standard''"
  obtains p where "log_records (wl_log wl') = log_records (wl_log wl) @ [p]"
    "storage_policy (dp_lib (cb_deps cb)) tc \<in> {''mask'', ''plain''} \<Longrightarrow> \<not> is_plain_approved now d (wl_approvals wl) \<Longrightarrow>
       cl_pii_storage_policy p = ''mask''
       \<and> cl_question p = (if fst (pd_mask det q) = [] then q else fst (pd_mask det q))"
    "storage_policy (dp_lib (cb_deps cb)) tc = ''plain'' \<Longrightarrow> is_plain_approved now d (wl_approvals wl) \<Longrightarrow>
       cl_pii_storage_policy p = ''plain'' \<and> cl_question p = q"
    "storage_policy (dp_lib (cb_deps cb)) tc \<notin> {''mask'', ''plain''} \<Longrightarrow> cl_pii_storage_policy p = ''plain'' \<and> cl_question p = q"
proof -
  let ?L = "dp_lib (cb_deps cb)"
  obtain config trace s w where c: "fst (config_loader (cb_disk cb) (wl_approvals wl) now d (wl_config wl)) = config"
    and run: "run_chat_structured_full ((cb_deps cb)\<lparr>dp_config_loader := \<lambda>_. config\<rparr>)
       (initial_state (uuids 0) d (uc_user_id user) (Some (str_or conv (uuids 1))) q
          (load_history ?L (cb_reader cb) d (str_or conv (uuids 1)) (conv \<noteq> None) (wl_log wl))
          (user_context_to_dict user) (Some (cb_default_model cb))) (wl_log wl) = Inr (trace, s, w)"
    and log: "wl_log wl' = w"
    by (rule chat_structuredE [OF assms(1)])
  let ?deps = "(cb_deps cb)\<lparr>dp_config_loader := \<lambda>_. config\<rparr>"
  let ?s = "initial_state (uuids 0) d (uc_user_id user) (Some (str_or conv (uuids 1))) q
          (load_history ?L (cb_reader cb) d (str_or conv (uuids 1)) (conv \<noteq> None) (wl_log wl))
          (user_context_to_dict user) (Some (cb_default_model cb))"
  have writer: "dp_chat_log_writer ?deps" using assms(3) by simp
  obtain s2 s3 where e: "load_tenant_config_node ?deps (tenant_resolver_node ?s) = Inr s2"
    "check_input_pii_node ?deps s2 = Inr s3" and s: "s_question s = s_question s3"
    "s_question_for_storage s = s_question_for_storage s3" "s_pii_storage_policy s = s_pii_storage_policy s3"
    by (rule run_settles [OF run])
  note logged = run_record [OF run writer]
  obtain v where v: "config = Inr v" using e(1) by (auto simp: load_tenant_config_node_def load_config_def)
  obtain tc' pii where l: "fst (load (cb_disk cb) now now d (wl_config wl)) = Inr tc'"
    "approved_pii (is_plain_approved now d (wl_approvals wl)) (dget tc' ''pii'' PNone) = Inr pii"
    "v = PDict (dict_put ''pii'' pii (config_to_dict tc'))"
    by (rule config_loader_sections [OF c [unfolded v]])
  let ?cfg = "dict_put ''pii'' pii (config_to_dict tc')"
  have cfg: "?cfg \<noteq> []" by (simp add: config_to_dict_def CONFIG_CATEGORIES_def)
  have lookups: "dget ?cfg ''pii'' PNone = pii" "dget ?cfg ''compliance_mode'' PNone = PNone"
    by (simp_all add: dget_def map_of_dict_put config_to_dict_lookup CONFIG_CATEGORIES_def)
  have s2: "s_tenant_config s2 = PDict ?cfg" "s_question s2 = q" "s_question_for_storage s2 = []"
    using e(1) cfg
    by (auto simp: load_tenant_config_node_def load_config_def v l(3) py_or_def tenant_resolver_node_def initial_state_def
        split: if_splits)
  have det: "dp_pii ?deps = Some det" using assms(2) by simp
  obtain st b where st: "plain_approved_of pii = Inr b"
    "mask_for_storage ?L det q pii (Some ''standard'') b = Inr st" "s_pii_storage_policy s3 = sp_policy st"
    "s_question s3 = q" "s_question_for_storage s3 = (if sp_policy st = ''mask'' then sp_text st else [])"
    by (rule check_input_storage [OF e(2) det s2(1) cfg]) (auto simp: lookups s2(2,3) py_or_def)
  have b: "b = is_plain_approved now d (wl_approvals wl)"
    using approved_pii_flag [OF l(2)] st(1) by simp
  have "tc' = tc" using l(1) assms(5) by simp
  note dec = storage_decision [OF l(2) [unfolded this] assms(4) st(2) [unfolded b]]
  show thesis
    by (rule that [of "chat_log_payload_of s"])
      (use logged s st(3-5) dec log assms(6) in \<open>auto simp: chat_log_payload_of_def split: if_splits\<close>)
qed

lemma list_logs_first_page:
  assumes "rows = filter (row_matches L f) (filter (\<lambda>r. cl_domain_id r = d) (log_records w))"
    and "1 \<le> sz" and "sz \<le> 100"
  shows "map snd (lp_items (list_logs L d f 1 sz w)) = take (nat sz) (rev rows)"
  using assms by (simp add: list_logs_def Let_def page_of_eq case_prod_unfold comp_def)

lemma list_conversation_logs:
  assumes "1 \<le> sz" and "sz \<le> 100"
  shows "map snd (lp_items (list_logs L d (no_filters\<lparr>lf_conversation_id := Some cid\<rparr>) 1 sz w))
    = take (nat sz) (rev (filter (\<lambda>p. cl_domain_id p = d \<and> cl_conversation_id p = Some cid) (log_records w)))"
  by (rule list_logs_first_page [OF _ assms]) (auto simp: row_matches_def no_filters_def intro: filter_cong)

definition last_n :: "nat \<Rightarrow> 'a list \<Rightarrow> 'a list" where
  "last_n n xs = drop (length xs - n) xs"

lemma rev_take_rev: "rev (take n (rev xs)) = last_n n xs"
  by (simp add: last_n_def rev_take)

lemma config_loader_dict:
  assumes "fst (config_loader disk ap now d cs) = Inr v"
  shows "\<exists>cfg. v = PDict cfg \<and> cfg \<noteq> []"
  by (rule config_loader_sections [OF assms]) simp

lemma run_loads_config:
  assumes "run_chat_structured_full (deps\<lparr>dp_config_loader := \<lambda>_. config\<rparr>)
      (initial_state rid d uid cid q h uc model) w = Inr (trace, s, w')"
    and "\<And>v. config = Inr v \<Longrightarrow> \<exists>cfg. v = PDict cfg \<and> cfg \<noteq> []"
  shows "\<exists>cfg. config = Inr (PDict cfg) \<and> s_tenant_config s = PDict cfg \<and> cfg \<noteq> []"
proof -
  obtain s2 where s2: "load_tenant_config_node (deps\<lparr>dp_config_loader := \<lambda>_. config\<rparr>)
      (tenant_resolver_node (initial_state rid d uid cid q h uc model)) = Inr s2" "s_tenant_config s = s_tenant_config s2"
    by (rule run_settles [OF assms(1)])
  then show ?thesis
    using assms(2) by (auto simp: load_tenant_config_node_def load_config_def py_or_def)
qed

section \<open>Properties\<close>

definition request_run ::
  "chat_backend \<Rightarrow> (nat \<Rightarrow> string) \<Rightarrow> string \<Rightarrow> user_context \<Rightarrow> string \<Rightarrow> string option \<Rightarrow> chat_log \<Rightarrow> pyval res
   \<Rightarrow> (node list \<times> rag_state \<times> chat_log) res" where
  \<comment> \<open>the run of the graph for a request, with the outcome of loading the configuration\<close>
  "request_run cb uuids d user q conv w config =
     run_chat_structured_full ((cb_deps cb)\<lparr>dp_config_loader := \<lambda>_. config\<rparr>)
       (initial_state (uuids 0) d (uc_user_id user) (Some (str_or conv (uuids 1))) q
          (load_history (dp_lib (cb_deps cb)) (cb_reader cb) d (str_or conv (uuids 1)) (conv \<noteq> None) w)
          (user_context_to_dict user) (Some (cb_default_model cb))) w"

definition gate2_limits :: "pylib \<Rightarrow> pydict \<Rightarrow> rag_state \<Rightarrow> bool" where
  "gate2_limits L cfg s \<longleftrightarrow> (\<exists>t. from_config L (dget cfg ''citation'' PNone) = Inr t
     \<and> min_verified_count t \<le> int (count_if (\<lambda>c. cit_verified c = Some True) (s_citations s))
     \<and> s_unsupported_ratio s \<le> max_unsupported_ratio t \<and> min_confidence t \<le> s_confidence s)"

lemma fallback_block_reason: "dget (fallback_block reason s) ''reason'' PNone = PStr reason"
  by (simp add: fallback_block_def dget_def)

text \<open>
  (C22) The response tells the truth about the run: it is made from the final state of a run of the graph
  under the configuration that was loaded for the request, and carries its confidence, grounding and other
  metrics. If the run ended with a fallback reason, the response is a fallback that names this reason
  and carries no citations; otherwise it is a success with exactly the citations of the final state. An
  answer without grounding carries no citations, and a grounded success meets all three limits of Gate 2:
  verified citations, unsupported ratio and confidence.
\<close>

theorem response_matches_run:
  assumes "chat_structured cb uuids now latency d user q conv wl = (Inr r, wl')"
  shows "\<exists>cfg trace s. fst (config_loader (cb_disk cb) (wl_approvals wl) now d (wl_config wl)) = Inr (PDict cfg)
    \<and> request_run cb uuids d user q conv (wl_log wl) (Inr (PDict cfg)) = Inr (trace, s, wl_log wl')
    \<and> rp_metadata r = response_meta_of s latency \<and> md_grounding (rp_metadata r) = s_grounding s
    \<and> (if truthy_str (s_fallback_reason s)
       then rp_status r = ''fallback'' \<and> rp_citations r = []
         \<and> (\<exists>fb. rp_fallback r = Some fb \<and> dget fb ''reason'' PNone = PStr (the (s_fallback_reason s)))
       else rp_status r = ''success'' \<and> rp_fallback r = None \<and> rp_citations r = s_citations s)
    \<and> (s_grounding s \<noteq> ''grounded'' \<longrightarrow> rp_citations r = [])
    \<and> (rp_status r = ''success'' \<and> s_grounding s = ''grounded'' \<longrightarrow> gate2_limits (dp_lib (cb_deps cb)) cfg s)"
proof -
  obtain config trace s w where c: "fst (config_loader (cb_disk cb) (wl_approvals wl) now d (wl_config wl)) = config"
    and run: "run_chat_structured_full ((cb_deps cb)\<lparr>dp_config_loader := \<lambda>_. config\<rparr>)
       (initial_state (uuids 0) d (uc_user_id user) (Some (str_or conv (uuids 1))) q
          (load_history (dp_lib (cb_deps cb)) (cb_reader cb) d (str_or conv (uuids 1)) (conv \<noteq> None) (wl_log wl))
          (user_context_to_dict user) (Some (cb_default_model cb))) (wl_log wl) = Inr (trace, s, w)"
    and b: "build_chat_response s (str_or conv (uuids 1)) (uuids 0) latency = Inr r" and w: "wl_log wl' = w"
    by (rule chat_structuredE [OF assms])
  note parts = build_response_parts [OF b]
  obtain cfg where cfg: "config = Inr (PDict cfg)" "s_tenant_config s = PDict cfg" "cfg \<noteq> []"
    using run_loads_config [OF run] config_loader_dict c by blast
  have run': "request_run cb uuids d user q conv (wl_log wl) (Inr (PDict cfg)) = Inr (trace, s, wl_log wl')"
    using run by (simp add: request_run_def cfg(1) w)
  have ground: "md_grounding (rp_metadata r) = s_grounding s"
    using run_grounding_named [OF run] by (simp add: parts(3) response_meta_of_def)
  have ungrounded: "s_grounding s \<noteq> ''grounded'' \<longrightarrow> rp_citations r = []"
    using run_ungrounded_cites_nothing [OF run] by (simp add: parts(2))
  have limits: "rp_status r = ''success'' \<and> s_grounding s = ''grounded'' \<longrightarrow> gate2_limits (dp_lib (cb_deps cb)) cfg s"
  proof
    assume g: "rp_status r = ''success'' \<and> s_grounding s = ''grounded''"
    then have nf: "\<not> truthy_str (s_fallback_reason s)" using parts(1) by (simp split: if_splits)
    from run_grounded_success_is_verified [OF run g [THEN conjunct2] nf] cfg(2,3) show "gate2_limits (dp_lib (cb_deps cb)) cfg s"
      by (auto simp: gate2_limits_def thresholds_from_state_def config_entry_def opt_dict_def py_or_def)
  qed
  show ?thesis
    using c cfg(1) run' parts(1-3,5) ground ungrounded limits
    by (intro exI [of _ cfg] exI [of _ trace] exI [of _ s]) (auto simp: fallback_block_reason)
qed

text \<open>
  (C23) What is stored of a question without approval: for a tenant with no active, unexpired approval at
  the time of the request, the log record of a chat holds the masked question, under the policy mask, if
  the storage policy is mask or plain (only a question of which masking leaves nothing is stored as it
  is); under any other policy name, such as a misspelt one, the question is stored as it is, under
  the policy plain.
\<close>

theorem unapproved_questions_masked:
  assumes "chat_structured cb uuids now latency d user q conv wl = (Inr r, wl')"
    and "dp_pii (cb_deps cb) = Some det" and "dp_chat_log_writer (cb_deps cb)" and "q \<noteq> []"
    and "fst (load (cb_disk cb) now now d (wl_config wl)) = Inr tc"
    and "lower_of (dp_lib (cb_deps cb)) ''standard'' = ''standard''"
    and "\<not> is_plain_approved now d (wl_approvals wl)"
  shows "\<exists>p. log_records (wl_log wl') = log_records (wl_log wl) @ [p]
    \<and> (if storage_policy (dp_lib (cb_deps cb)) tc \<in> {''mask'', ''plain''}
       then cl_pii_storage_policy p = ''mask'' \<and> cl_question p = (if fst (pd_mask det q) = [] then q else fst (pd_mask det q))
       else cl_pii_storage_policy p = ''plain'' \<and> cl_question p = q)"
  by (rule chat_storage [OF assms(1-6)]) (use assms(7) in auto)

text \<open>
  A strict compliance mode has no effect on chats: the configuration handed to the graph leaves
  the compliance mode out, so a tenant under the GDPR or HIPAA mode whose policy is plain and who has
  an approval gets its questions stored in plain text, although the storage rule for these modes
  demands masking.
\<close>

theorem compliance_mode_ignored:
  assumes "chat_structured cb uuids now latency d user q conv wl = (Inr r, wl')"
    and "dp_pii (cb_deps cb) = Some det" and "dp_chat_log_writer (cb_deps cb)" and "q \<noteq> []"
    and "fst (load (cb_disk cb) now now d (wl_config wl)) = Inr tc"
    and "lower_of (dp_lib (cb_deps cb)) ''standard'' = ''standard''"
    and "dget tc ''compliance_mode'' PNone \<in> {PStr ''gdpr_strict'', PStr ''hipaa_strict''}"
    and "storage_policy (dp_lib (cb_deps cb)) tc = ''plain''"
    and "is_plain_approved now d (wl_approvals wl)"
  shows "\<exists>p. log_records (wl_log wl') = log_records (wl_log wl) @ [p] \<and> cl_pii_storage_policy p = ''plain''
    \<and> cl_question p = q"
  by (rule chat_storage [OF assms(1-6)]) (use assms(8,9) in blast)

text \<open>
  The history of a conversation does not depend on who asks: the messages that are put before the
  model are those of the last three turns logged in the tenant under the conversation identifier of the
  request, so a user who sends another user's identifier has that user's questions and answers put into
  the prompt.
\<close>

theorem history_ignores_user:
  "load_history L True d cid True w =
     concat (map turn_messages (last_n 3 (filter (\<lambda>p. cl_domain_id p = d \<and> cl_conversation_id p = Some cid) (log_records w))))"
proof -
  let ?f = "no_filters\<lparr>lf_conversation_id := Some cid\<rparr>"
  let ?rows = "filter (\<lambda>p. cl_domain_id p = d \<and> cl_conversation_id p = Some cid) (log_records w)"
  have "map snd (take 3 (lp_items (list_logs L d ?f 1 10 w))) = take 3 (take 10 (rev ?rows))"
    using list_conversation_logs [of 10 L d cid w] by (simp flip: take_map)
  then have "map snd (rev (take 3 (lp_items (list_logs L d ?f 1 10 w)))) = last_n 3 ?rows"
    by (simp add: rev_take_rev flip: rev_map)
  then have "map (turn_messages \<circ> snd) (rev (take 3 (lp_items (list_logs L d ?f 1 10 w)))) = map turn_messages (last_n 3 ?rows)"
    by (metis map_map)
  then show ?thesis by (simp add: load_history_def Let_def)
qed

end
