(* ===== verification/Conversations.thy ===== *)
theory Conversations
  imports Chat_Service
begin

text \<open>
  Conversations and feedback over the chat log: \<open>InMemoryConversationRepository\<close> of
  \<open>rag_core/interfaces/conversation_repository.py\<close> and \<open>InMemoryFeedbackWriter\<close> of
  \<open>rag_core/interfaces/feedback_writer.py\<close>. Both work on the records of the in-process log writer. A
  conversation has no times of its own in this form of the repository, so the two time fields, which
  are always \<open>None\<close>, are left out.
\<close>

section \<open>Conversations\<close>

record conversation =
  cv_id :: string
  cv_domain_id :: string
  cv_user_id :: string
  cv_title :: "string option"
  cv_message_count :: nat

record conversation_page =
  cp_items :: "conversation list"
  cp_total :: nat
  cp_page :: int
  cp_page_size :: int

record conversation_repo =
  cr_titles :: "(string \<times> string) list"
  cr_deleted :: "string set"

definition empty_repo :: conversation_repo where
  "empty_repo = \<lparr>cr_titles = [], cr_deleted = {}\<rparr>"

definition in_conversation :: "conversation_repo \<Rightarrow> string \<Rightarrow> string \<Rightarrow> chat_log_payload \<Rightarrow> bool" where
  "in_conversation rp domain_id user_id r \<longleftrightarrow> cl_domain_id r = domain_id \<and> cl_user_id r = user_id
     \<and> truthy_str (cl_conversation_id r) \<and> the (cl_conversation_id r) \<notin> cr_deleted rp"

definition add_to_conversation ::
  "chat_log_payload \<Rightarrow> (string \<times> chat_log_payload list) list \<Rightarrow> (string \<times> chat_log_payload list) list" where
  \<comment> \<open>\<open>groups.setdefault(r.conversation_id, []).append(r)\<close>\<close>
  "add_to_conversation r groups =
     (let cid = the (cl_conversation_id r)
      in assoc_put cid ((case map_of groups cid of None \<Rightarrow> [] | Some rs \<Rightarrow> rs) @ [r]) groups)"

definition conversations_for ::
  "conversation_repo \<Rightarrow> string \<Rightarrow> string \<Rightarrow> chat_log \<Rightarrow> (string \<times> chat_log_payload list) list" where
  "conversations_for rp domain_id user_id w =
     fold add_to_conversation (filter (in_conversation rp domain_id user_id) (log_records w)) []"

definition record_from_group ::
  "conversation_repo \<Rightarrow> string \<Rightarrow> string \<Rightarrow> string \<times> chat_log_payload list \<Rightarrow> conversation" where
  "record_from_group rp domain_id user_id cg =
     (case cg of (cid, recs) \<Rightarrow>
        \<lparr>cv_id = cid, cv_domain_id = domain_id, cv_user_id = user_id,
         cv_title = (case map_of (cr_titles rp) cid of
             Some t \<Rightarrow> Some t
           | None \<Rightarrow> (case recs of [] \<Rightarrow> None
                      | r # _ \<Rightarrow> let t = utf8_take 80 (cl_question r) in if t = [] then None else Some t)),
         cv_message_count = length recs\<rparr>)"

definition conversation_order ::
  "string \<Rightarrow> string \<Rightarrow> (string \<times> chat_log_payload list) list \<Rightarrow> chat_log \<Rightarrow> string list" where
  \<comment> \<open>the second loop over the log: the conversations by first appearance, then reversed\<close>
  "conversation_order domain_id user_id groups w =
     rev (fold (\<lambda>r ordering.
         if cl_domain_id r = domain_id \<and> cl_user_id r = user_id
            \<and> (\<exists>c \<in> set (map fst groups). cl_conversation_id r = Some c) \<and> the (cl_conversation_id r) \<notin> set ordering
         then ordering @ [the (cl_conversation_id r)] else ordering) (log_records w) [])"

fun index_of :: "'a \<Rightarrow> 'a list \<Rightarrow> nat" where
  \<comment> \<open>the position of the first occurrence, or the length\<close>
  "index_of x [] = 0"
| "index_of x (y # ys) = (if x = y then 0 else Suc (index_of x ys))"

definition list_by_user ::
  "string \<Rightarrow> string \<Rightarrow> int \<Rightarrow> int \<Rightarrow> chat_log \<Rightarrow> conversation_repo \<Rightarrow> conversation_page" where
  "list_by_user domain_id user_id page page_size w rp =
     (let page' = max 1 page; size = max 1 (min page_size 100);
          groups = conversations_for rp domain_id user_id w;
          ordering = conversation_order domain_id user_id groups w;
          rows = sort_key (\<lambda>c. index_of (cv_id c) ordering) (map (record_from_group rp domain_id user_id) groups)
      in \<lparr>cp_items = page_of page' size rows, cp_total = length rows, cp_page = page', cp_page_size = size\<rparr>)"

definition get_conv ::
  "string \<Rightarrow> string \<Rightarrow> string \<Rightarrow> chat_log \<Rightarrow> conversation_repo \<Rightarrow> conversation option" where
  "get_conv domain_id user_id cid w rp =
     (if cid \<in> cr_deleted rp then None
      else case map_of (conversations_for rp domain_id user_id w) cid of
        None \<Rightarrow> None
      | Some recs \<Rightarrow> if recs = [] then None else Some (record_from_group rp domain_id user_id (cid, recs)))"

definition update_title ::
  "string \<Rightarrow> string \<Rightarrow> string \<Rightarrow> string \<Rightarrow> chat_log \<Rightarrow> conversation_repo \<Rightarrow> conversation option \<times> conversation_repo" where
  "update_title domain_id user_id cid title w rp =
     (if cid \<in> cr_deleted rp then (None, rp)
      else case map_of (conversations_for rp domain_id user_id w) cid of
        None \<Rightarrow> (None, rp)
      | Some recs \<Rightarrow>
          let rp' = rp\<lparr>cr_titles := assoc_put cid title (cr_titles rp)\<rparr>
          in (Some (record_from_group rp' domain_id user_id (cid, recs)), rp'))"

definition delete_conv ::
  "string \<Rightarrow> string \<Rightarrow> string \<Rightarrow> chat_log \<Rightarrow> conversation_repo \<Rightarrow> nat \<times> conversation_repo" where
  "delete_conv domain_id user_id cid w rp =
     (if cid \<in> cr_deleted rp then (0, rp)
      else if cid \<notin> set (map fst (conversations_for rp domain_id user_id w)) then (0, rp)
      else (1, rp\<lparr>cr_deleted := insert cid (cr_deleted rp)\<rparr>))"

section \<open>Feedback\<close>

definition feedback_target :: "string \<Rightarrow> string \<Rightarrow> string option \<Rightarrow> chat_log_payload \<Rightarrow> bool" where
  "feedback_target domain_id message_id user_id r \<longleftrightarrow> cl_domain_id r = domain_id \<and> cl_request_id r = message_id
     \<and> (user_id = None \<or> user_id = Some (cl_user_id r))"

definition record_feedback ::
  "string \<Rightarrow> string \<Rightarrow> string option \<Rightarrow> string \<Rightarrow> string option \<Rightarrow> chat_log \<Rightarrow> nat \<times> chat_log" where
  \<comment> \<open>the number of records changed\<close>
  "record_feedback domain_id message_id user_id feedback comment w =
     (count_if (feedback_target domain_id message_id user_id) (log_records w),
      w\<lparr>log_records := map (\<lambda>r. if feedback_target domain_id message_id user_id r
           then r\<lparr>cl_feedback := Some feedback, cl_feedback_comment := comment\<rparr> else r) (log_records w)\<rparr>)"

section \<open>Facts\<close>

lemma group_lookup:
  "map_of (fold add_to_conversation rs groups) cid =
     (let new = filter (\<lambda>r. the (cl_conversation_id r) = cid) rs in
      if new = [] then map_of groups cid
      else Some ((case map_of groups cid of None \<Rightarrow> [] | Some old \<Rightarrow> old) @ new))"
  by (induction rs arbitrary: groups)
    (auto simp: add_to_conversation_def Let_def map_of_assoc_put split: option.splits)

lemma conversations_for_lookup:
  "map_of (conversations_for rp d u w) cid =
     (let rs = filter (\<lambda>r. in_conversation rp d u r \<and> cl_conversation_id r = Some cid) (log_records w)
      in if rs = [] then None else Some rs)"
proof -
  have "filter (\<lambda>r. the (cl_conversation_id r) = cid) (filter (in_conversation rp d u) (log_records w))
      = filter (\<lambda>r. in_conversation rp d u r \<and> cl_conversation_id r = Some cid) (log_records w)"
    by (auto simp: in_conversation_def truthy_str_def split: option.splits intro!: filter_cong)
  then show ?thesis by (simp add: conversations_for_def group_lookup Let_def)
qed

lemma get_conv_iff:
  "get_conv d u cid w rp = Some c \<longleftrightarrow> cid \<notin> cr_deleted rp
     \<and> (\<exists>rs. rs = filter (\<lambda>r. in_conversation rp d u r \<and> cl_conversation_id r = Some cid) (log_records w)
          \<and> rs \<noteq> [] \<and> c = record_from_group rp d u (cid, rs))"
  by (auto simp: get_conv_def conversations_for_lookup Let_def)

lemma in_conversation_titles [simp]: "in_conversation (rp\<lparr>cr_titles := t\<rparr>) = in_conversation rp"
  by (simp add: in_conversation_def fun_eq_iff)

lemma conversation_keys: "cid \<in> set (map fst (conversations_for rp d u w)) \<longleftrightarrow> map_of (conversations_for rp d u w) cid \<noteq> None"
  by (simp add: map_of_eq_None_iff)

lemma feedback_target_own:
  "feedback_target d m (Some u) = (\<lambda>r. cl_domain_id r = d \<and> cl_request_id r = m \<and> cl_user_id r = u)"
  by (auto simp: feedback_target_def fun_eq_iff)

text \<open>The keys of a grouping loop, and of the second loop, are the keys by first appearance.\<close>

lemma assoc_put_keys: "map fst (assoc_put k v d) = (if k \<in> set (map fst d) then map fst d else map fst d @ [k])"
  by (induction k v d rule: assoc_put.induct) auto

lemma group_keys:
  "map fst (fold add_to_conversation rs groups) =
     map fst groups @ dedup_from (set (map fst groups)) (map (\<lambda>r. the (cl_conversation_id r)) rs)"
proof (induction rs arbitrary: groups)
  case (Cons r rs)
  let ?k = "the (cl_conversation_id r)"
  have "map fst (add_to_conversation r groups) = (if ?k \<in> set (map fst groups) then map fst groups else map fst groups @ [?k])"
    by (simp add: add_to_conversation_def Let_def assoc_put_keys)
  with Cons [of "add_to_conversation r groups"] show ?case by (auto simp: insert_absorb)
qed simp

lemma collect_keys:
  "fold (\<lambda>r ordering. if P r \<and> k r \<notin> set ordering then ordering @ [k r] else ordering) rs ks =
     ks @ dedup_from (set ks) (map k (filter P rs))"
  by (induction rs arbitrary: ks) (auto simp: insert_absorb)

lemma conversation_key_iff:
  "(\<exists>c \<in> set (map fst (conversations_for rp d u w)). P c) \<longleftrightarrow>
     (\<exists>c. (\<exists>r \<in> set (log_records w). in_conversation rp d u r \<and> cl_conversation_id r = Some c) \<and> P c)"
proof -
  have "c \<in> set (map fst (conversations_for rp d u w)) \<longleftrightarrow>
      (\<exists>r \<in> set (log_records w). in_conversation rp d u r \<and> cl_conversation_id r = Some c)" for c
    unfolding conversation_keys conversations_for_lookup Let_def by (auto simp: filter_empty_conv)
  then show ?thesis by blast
qed

lemma conversation_order_rev:
  "conversation_order d u (conversations_for rp d u w) w = rev (map fst (conversations_for rp d u w))"
proof -
  let ?P = "\<lambda>r. cl_domain_id r = d \<and> cl_user_id r = u
     \<and> (\<exists>c \<in> set (map fst (conversations_for rp d u w)). cl_conversation_id r = Some c)"
  have "?P r \<longleftrightarrow> in_conversation rp d u r" if "r \<in> set (log_records w)" for r
    unfolding conversation_key_iff using that by (auto simp: in_conversation_def truthy_str_def split: option.splits)
  then have "filter ?P (log_records w) = filter (in_conversation rp d u) (log_records w)"
    by (intro filter_cong) auto
  then show ?thesis
    unfolding conversation_order_def
    using collect_keys [of ?P "\<lambda>r. the (cl_conversation_id r)" "log_records w" "[]"]
    by (simp add: conversations_for_def group_keys conj_assoc comp_def)
qed

lemma index_of_nth: "distinct xs \<Longrightarrow> i < length xs \<Longrightarrow> index_of (xs ! i) xs = i"
  by (induction xs arbitrary: i) (auto simp: nth_Cons split: nat.splits)

lemma filter_key:
  assumes "inj_on g (set xs)" and "distinct xs" and "k \<in> set xs"
  shows "filter (\<lambda>x. g k = g x) xs = [k]"
proof -
  have "filter (\<lambda>x. g k = g x) xs = filter (\<lambda>x. x = k) xs"
    using assms(1,3) by (intro filter_cong) (auto dest: inj_onD)
  also have "\<dots> = [k]" using assms(2,3) by (induction xs) (auto simp: filter_empty_conv)
  finally show ?thesis .
qed

lemma sort_by_index:
  assumes "distinct (map f xs)"
  shows "sort_key (\<lambda>x. index_of (f x) (rev (map f xs))) xs = rev xs"
proof (rule properties_for_sort_key)
  let ?g = "\<lambda>x. index_of (f x) (rev (map f xs))"
  have d: "distinct (rev (map f xs))" using assms by simp
  have g: "map ?g (rev xs) = [0..<length xs]"
    by (rule nth_equalityI) (use index_of_nth [OF d] in \<open>auto simp: rev_map\<close>)
  then show "sorted (map ?g (rev xs))" by simp
  have "inj_on ?g (set xs)"
    using g distinct_map [of ?g "rev xs"] by (metis distinct_upt set_rev)
  then show "filter (\<lambda>x. ?g k = ?g x) (rev xs) = filter (\<lambda>x. ?g k = ?g x) xs" if "k \<in> set (rev xs)" for k
    using filter_key [of ?g xs k] filter_key [of ?g "rev xs" k] that assms by (simp add: distinct_map)
qed simp

text \<open>
  The listing of a user's conversations is the list of the groups, latest started first.
\<close>

theorem listing_is_reversed_groups:
  "cp_items (list_by_user d u page page_size w rp) =
     page_of (max 1 page) (max 1 (min page_size 100)) (rev (map (record_from_group rp d u) (conversations_for rp d u w)))"
proof -
  have ids: "map cv_id (map (record_from_group rp d u) gs) = map fst gs" for gs
    by (induction gs) (auto simp: record_from_group_def)
  have "distinct (map fst (conversations_for rp d u w))"
    by (simp add: conversations_for_def group_keys distinct_dedup_from)
  then show ?thesis
    using sort_by_index [of cv_id "map (record_from_group rp d u) (conversations_for rp d u w)"]
    by (simp add: list_by_user_def Let_def conversation_order_rev ids del: map_map)
qed

section \<open>Properties\<close>

text \<open>
  Conversations are shared by their identifier: when two users of a tenant have records under the
  same conversation identifier, a title set by the second is the title the first sees, and a deletion
  by the second takes the conversation away from the first.
\<close>

theorem conversation_shared_by_identifier:
  assumes "get_conv d u1 cid w rp = Some c1" and "get_conv d u2 cid w rp = Some c2"
  shows "get_conv d u1 cid w (snd (delete_conv d u2 cid w rp)) = None
    \<and> map_option cv_title (get_conv d u1 cid w (snd (update_title d u2 cid t w rp))) = Some (Some t)"
proof -
  have found: "map_of (conversations_for rp d u cid') x = Some rs \<Longrightarrow> rs \<noteq> []" for u cid' x rs
    by (auto simp: conversations_for_lookup Let_def split: if_splits)
  have nd: "cid \<notin> cr_deleted rp" using assms(1) by (simp add: get_conv_iff)
  obtain r1 r2 where r: "map_of (conversations_for rp d u1 w) cid = Some r1" "map_of (conversations_for rp d u2 w) cid = Some r2"
    using assms nd by (auto simp: get_conv_def split: option.splits)
  have "delete_conv d u2 cid w rp = (1, rp\<lparr>cr_deleted := insert cid (cr_deleted rp)\<rparr>)"
    using nd r(2) conversation_keys [of cid rp d u2 w] by (auto simp: delete_conv_def)
  moreover have "conversations_for (rp\<lparr>cr_titles := x\<rparr>) d u1 w = conversations_for rp d u1 w" for x
    by (simp add: conversations_for_def)
  ultimately show ?thesis
    using nd r found [OF r(1)]
    by (auto simp: get_conv_def update_title_def record_from_group_def map_of_assoc_put)
qed

text \<open>
  Feedback reaches one's own messages only: giving feedback as a user changes exactly the records of
  that tenant, message and user, and of those only the two feedback fields; it reports how many
  records it changed.
\<close>

theorem feedback_own_only:
  "record_feedback d m (Some u) f c w = (n, w') \<Longrightarrow>
     n = count_if (\<lambda>r. cl_domain_id r = d \<and> cl_request_id r = m \<and> cl_user_id r = u) (log_records w)
     \<and> length (log_records w') = length (log_records w)
     \<and> (\<forall>i < length (log_records w). log_records w' ! i =
          (if cl_domain_id (log_records w ! i) = d \<and> cl_request_id (log_records w ! i) = m \<and> cl_user_id (log_records w ! i) = u
           then (log_records w ! i)\<lparr>cl_feedback := Some f, cl_feedback_comment := c\<rparr> else log_records w ! i))"
  by (auto simp: record_feedback_def feedback_target_own)

section \<open>Examples\<close>

definition ex_turn :: "string \<Rightarrow> string \<Rightarrow> chat_log_payload" where
  "ex_turn user q = \<lparr>cl_domain_id = ''t'', cl_request_id = ''r-'' @ user, cl_user_id = user, cl_conversation_id = Some ''c'',
     cl_question = q, cl_answer = ''ok'', cl_retrieved_chunks = [], cl_citations = [], cl_citation_types = [],
     cl_rewritten_query = None, cl_llm_model = None, cl_lora_adapter = PNone, cl_ui_mode = ''chat_structured'',
     cl_confidence = 0, cl_fallback_reason = None, cl_unsupported_ratio = 0, cl_verifier_metrics = [],
     cl_routing_decision = [], cl_classifier_decision = [], cl_model_failure_chain = [], cl_inference_judge_results = [],
     cl_conflict_groups = [], cl_input_pii_found = [], cl_output_pii_masked = [], cl_pii_storage_policy = ''mask'',
     cl_feedback = None, cl_feedback_comment = None, cl_latency_ms = None\<rparr>"

definition ex_two_users :: chat_log where
  "ex_two_users = \<lparr>log_records = [ex_turn ''kim'' ''salary'', ex_turn ''lee'' ''hi''], log_conv_counter = 0\<rparr>"

lemma ex_shared:
  "get_conv ''t'' ''kim'' ''c'' ex_two_users empty_repo \<noteq> None" "get_conv ''t'' ''lee'' ''c'' ex_two_users empty_repo \<noteq> None"
  by code_simp+

theorem conversation_shared_by_identifier_witness:
  "get_conv ''t'' ''kim'' ''c'' ex_two_users (snd (delete_conv ''t'' ''lee'' ''c'' ex_two_users empty_repo)) = None"
proof -
  obtain c1 c2 where "get_conv ''t'' ''kim'' ''c'' ex_two_users empty_repo = Some c1"
    "get_conv ''t'' ''lee'' ''c'' ex_two_users empty_repo = Some c2"
    using ex_shared by blast
  from conversation_shared_by_identifier [OF this] show ?thesis by blast
qed

end
