(* ===== verification/Streaming.thy ===== *)
theory Streaming
  imports Chat_Service
begin

text \<open>
  Streaming chat: \<open>StreamingChatService\<close> of \<open>rag_core/services/streaming_chat_service.py\<close> and
  \<open>RAGService.chat_streaming\<close>. The service is an asynchronous generator. Its model is a state machine:
  \<open>resume\<close> runs the body from where it stopped to its next \<open>yield\<close> and \<open>aclose\<close> is what happens when
  the reader goes away, which raises \<open>GeneratorExit\<close> at the \<open>yield\<close>; the handler of the body catches
  \<open>Exception\<close> only, so nothing else runs.

  The model's stream is a parameter: the tokens it delivers and the exception that ends it, if any.
  Identifiers and the latency, which every path computes once, are arguments.
\<close>

section \<open>The service\<close>

record stream_event =
  se_event :: string
  se_data :: pydict

record streaming_service =
  ss_lib :: pylib
  ss_jinja :: jinja
  ss_llm :: "string \<Rightarrow> string \<Rightarrow> pyval \<Rightarrow> string list \<times> py_error option" \<comment> \<open>prompt, model, adapter\<close>
  ss_system :: string
  ss_user :: string
  ss_default_model :: string
  ss_pii :: "pii_detector option"
  ss_writer :: bool
  ss_classifier :: "tier2_llm option option"
  ss_router :: bool
  ss_ledger :: bool

record stream_request =
  sq_domain_id :: string
  sq_user_id :: string
  sq_question :: string
  sq_tenant_config :: pyval
  sq_conversation_id :: string
  sq_request_id :: string
  sq_selected_model :: "string option"
  sq_selected_lora :: pyval

definition render_streaming :: "streaming_service \<Rightarrow> string \<Rightarrow> string res" where
  "render_streaming ss question =
     bind_res (ss_jinja ss (ss_user ss) [(''question'', PStr question)]) (\<lambda>user.
       Inr (py_strip (ss_system ss @ [CHR 0x0A, CHR 0x0A] @ user)))"

definition BLOCKED_MESSAGE :: string where
  "BLOCKED_MESSAGE = [CHR 0xEA, CHR 0xB0, CHR 0x9C, CHR 0xEC, CHR 0x9D, CHR 0xB8, CHR 0xEC, CHR 0xA0, CHR 0x95, CHR 0xEB, CHR 0xB3, CHR 0xB4, CHR 0xEB, CHR 0xA1, CHR 0x9C] @ '' '' @ [CHR 0xEB, CHR 0xB3, CHR 0xB4, CHR 0xEC, CHR 0x9D, CHR 0xB4, CHR 0xEB, CHR 0x8A, CHR 0x94] @ '' '' @ [CHR 0xEC, CHR 0xA0, CHR 0x95, CHR 0xEB, CHR 0xB3, CHR 0xB4, CHR 0xEA, CHR 0xB0, CHR 0x80] @ '' '' @ [CHR 0xED, CHR 0x8F, CHR 0xAC, CHR 0xED, CHR 0x95, CHR 0xA8, CHR 0xEB, CHR 0x90, CHR 0x98, CHR 0xEC, CHR 0x96, CHR 0xB4] @ '' '' @ [CHR 0xEC, CHR 0x9E, CHR 0x88, CHR 0xEC, CHR 0x8A, CHR 0xB5, CHR 0xEB, CHR 0x8B, CHR 0x88, CHR 0xEB, CHR 0x8B, CHR 0xA4] @ ''. '' @ [CHR 0xEB, CHR 0xAF, CHR 0xBC, CHR 0xEA, CHR 0xB0, CHR 0x90, CHR 0xED, CHR 0x95, CHR 0x9C] @ '' '' @ [CHR 0xEC, CHR 0xA0, CHR 0x95, CHR 0xEB, CHR 0xB3, CHR 0xB4, CHR 0xEB, CHR 0xA5, CHR 0xBC] @ '' '' @ [CHR 0xEC, CHR 0xA0, CHR 0x9C, CHR 0xEA, CHR 0xB1, CHR 0xB0, CHR 0xED, CHR 0x95, CHR 0x98, CHR 0xEA, CHR 0xB3, CHR 0xA0] @ '' '' @ [CHR 0xEB, CHR 0x8B, CHR 0xA4, CHR 0xEC, CHR 0x8B, CHR 0x9C] @ '' '' @ [CHR 0xEC, CHR 0x8B, CHR 0x9C, CHR 0xEB, CHR 0x8F, CHR 0x84, CHR 0xED, CHR 0x95, CHR 0xB4] @ '' '' @ [CHR 0xEC, CHR 0xA3, CHR 0xBC, CHR 0xEC, CHR 0x84, CHR 0xB8, CHR 0xEC, CHR 0x9A, CHR 0x94] @ ''.''"

definition REFUSAL_MESSAGE :: string where
  "REFUSAL_MESSAGE = [CHR 0xED, CHR 0x98, CHR 0x84, CHR 0xEC, CHR 0x9E, CHR 0xAC] @ '' '' @ [CHR 0xEC, CHR 0xA0, CHR 0x95, CHR 0xEC, CHR 0xB1, CHR 0x85, CHR 0xEC, CHR 0x83, CHR 0x81] @ '' '' @ [CHR 0xEB, CHR 0x8B, CHR 0xB5, CHR 0xEB, CHR 0xB3, CHR 0x80, CHR 0xEC, CHR 0x9D, CHR 0x84] @ '' '' @ [CHR 0xEB, CHR 0x93, CHR 0x9C, CHR 0xEB, CHR 0xA6, CHR 0xB4] @ '' '' @ [CHR 0xEC, CHR 0x88, CHR 0x98] @ '' '' @ [CHR 0xEC, CHR 0x97, CHR 0x86, CHR 0xEB, CHR 0x8A, CHR 0x94] @ '' '' @ [CHR 0xEC, CHR 0x9A, CHR 0x94, CHR 0xEC, CHR 0xB2, CHR 0xAD, CHR 0xEC, CHR 0x9E, CHR 0x85, CHR 0xEB, CHR 0x8B, CHR 0x88, CHR 0xEB, CHR 0x8B, CHR 0xA4] @ ''.''"

section \<open>The log record\<close>

record stream_log =
  \<comment> \<open>what the paths of the body hand to \<open>_save_log\<close>\<close>
  sl_question :: string
  sl_answer :: string
  sl_selected_model :: "string option"
  sl_selected_lora :: pyval
  sl_fallback_reason :: "string option"
  sl_input_pii_found :: "pyval list"
  sl_output_pii_masked :: "pyval list"
  sl_pii_storage_policy :: string
  sl_classifier_decision :: pydict
  sl_routing_decision :: pydict

definition stream_payload :: "stream_request \<Rightarrow> int \<Rightarrow> stream_log \<Rightarrow> chat_log_payload" where
  "stream_payload rq latency l =
     \<lparr>cl_domain_id = sq_domain_id rq, cl_request_id = sq_request_id rq, cl_user_id = sq_user_id rq,
      cl_conversation_id = Some (sq_conversation_id rq), cl_question = sl_question l,
      cl_answer = sl_answer l, cl_retrieved_chunks = [], cl_citations = [], cl_citation_types = [],
      cl_rewritten_query = None, cl_llm_model = sl_selected_model l, cl_lora_adapter = sl_selected_lora l,
      cl_ui_mode = ''chat_streaming'', cl_confidence = 0, cl_fallback_reason = sl_fallback_reason l,
      cl_unsupported_ratio = 0, cl_verifier_metrics = [],
      cl_routing_decision = (if sl_routing_decision l \<noteq> [] then sl_routing_decision l
         else [(''selected_model'', opt_str (sl_selected_model l)), (''selected_lora'', sl_selected_lora l),
               (''use_rag'', PBool False), (''ui_mode'', PStr ''chat_streaming'')]),
      cl_classifier_decision = sl_classifier_decision l, cl_model_failure_chain = [],
      cl_inference_judge_results = [], cl_conflict_groups = [],
      cl_input_pii_found = sl_input_pii_found l, cl_output_pii_masked = sl_output_pii_masked l,
      cl_pii_storage_policy = sl_pii_storage_policy l, cl_feedback = None, cl_feedback_comment = None,
      cl_latency_ms = Some latency\<rparr>"

record stream_world =
  sw_log :: chat_log
  sw_blocks :: "(string \<times> string \<times> string list) list"

definition save_log :: "streaming_service \<Rightarrow> stream_request \<Rightarrow> int \<Rightarrow> stream_log \<Rightarrow> stream_world \<Rightarrow> string option \<times> stream_world" where
  "save_log ss rq latency l w =
     (if \<not> ss_writer ss then (None, w)
      else case write_chat_log (stream_payload rq latency l) (sw_log w) of
        (cid, log') \<Rightarrow> (Some cid, w\<lparr>sw_log := log'\<rparr>))"

section \<open>Before the first token\<close>

record stream_input =
  \<comment> \<open>the outcome of the checks of the question\<close>
  si_found :: "pyval list"
  si_policy :: string
  si_question :: string
  si_blocked :: bool
  si_categories :: "string list"

definition check_stream_input :: "streaming_service \<Rightarrow> stream_request \<Rightarrow> stream_input res" where
  "check_stream_input ss rq =
     (case ss_pii ss of
        None \<Rightarrow> Inr \<lparr>si_found = [], si_policy = ''mask'', si_question = sq_question rq, si_blocked = False,
                     si_categories = []\<rparr>
      | Some det \<Rightarrow>
          bind_res (opt_dict (sq_tenant_config rq)) (\<lambda>cfg.
          let pii_cfg = dget cfg ''pii'' PNone in
          bind_res (check_input det (sq_question rq) pii_cfg) (\<lambda>chk.
          bind_res (plain_approved_of pii_cfg) (\<lambda>approved.
          bind_res (mask_for_storage (ss_lib ss) det (sq_question rq) pii_cfg
                      (Some (py_str (ss_lib ss) (py_or (dget cfg ''compliance_mode'' PNone) (PStr ''standard''))))
                      approved) (\<lambda>storage.
            Inr \<lparr>si_found = ip_findings chk, si_policy = sp_policy storage,
                 si_question = (if sp_policy storage = ''mask'' then sp_text storage else sq_question rq),
                 si_blocked = ip_blocked chk, si_categories = ip_blocked_categories chk\<rparr>)))))"

definition free_chat :: classification_result where
  "free_chat = \<lparr>cr_query_type = ''free_chat'', cr_support_type = PNone, cr_complexity = PNone,
     cr_tier1_matched = None, cr_tier2_called = False, cr_tier2_parse_ok = True, cr_tier2_error = None,
     cr_raw_response = None\<rparr>"

definition classify_stream :: "streaming_service \<Rightarrow> stream_request \<Rightarrow> (classification_result \<times> pydict) res" where
  "classify_stream ss rq =
     (case ss_classifier ss of
        None \<Rightarrow> Inr (free_chat, [(''skipped'', PBool True), (''query_type'', PStr ''free_chat'')])
      | Some llm \<Rightarrow>
          bind_res (opt_dict (sq_tenant_config rq)) (\<lambda>cfg.
          bind_res (classifier_from_dict (ss_lib ss) (dget cfg ''query_classifier'' PNone)) (\<lambda>config.
          bind_res (classify_query (ss_lib ss) llm (sq_question rq) config) (\<lambda>result.
            Inr (result, classification_log result)))))"

record stream_route =
  sr_model :: "string option"
  sr_lora :: pyval
  sr_decision :: pydict
  sr_action :: pyval

definition route_stream :: "streaming_service \<Rightarrow> stream_request \<Rightarrow> classification_result \<Rightarrow> stream_route res" where
  "route_stream ss rq result =
     (if \<not> ss_router ss
      then Inr \<lparr>sr_model = sq_selected_model rq, sr_lora = sq_selected_lora rq,
             sr_decision = [(''matched_rule'', PStr ''default_skipped''),
               (''selected_model'', PStr (str_or (sq_selected_model rq) ''tenant_slm'')),
               (''selected_lora'', sq_selected_lora rq), (''use_rag'', PBool False),
               (''ui_mode'', PStr ''chat_streaming'')], sr_action = PNone\<rparr>
      else bind_res (opt_dict (sq_tenant_config rq)) (\<lambda>cfg.
           bind_res (decide (ss_lib ss) result (dget cfg ''routing'' PNone) (py_or (dget cfg ''model'' PNone) (PDict [])) None) (\<lambda>d.
             Inr \<lparr>sr_model = (if rd_model d = [] then sq_selected_model rq else Some (rd_model d)),
                  sr_lora = py_or (rd_lora_adapter d) (sq_selected_lora rq),
                  sr_decision = [(''matched_rule'', PStr (rd_matched_rule d)), (''selected_model'', PStr (rd_model d)),
                    (''selected_lora'', rd_lora_adapter d), (''use_rag'', PBool (rd_use_rag d)),
                    (''ui_mode'', PStr (rd_ui_mode d))],
                  sr_action = rd_action d\<rparr>)))"

section \<open>The generator\<close>

record stream_locals =
  lo_input :: stream_input
  lo_class :: pydict
  lo_route :: stream_route

datatype generator =
    Fresh
  | Streaming stream_locals "string list" "string list" "py_error option" \<comment> \<open>accumulated, left, how the stream ends\<close>
  | Finished

definition log_of :: "stream_locals \<Rightarrow> string \<Rightarrow> string option \<Rightarrow> pyval list \<Rightarrow> stream_log" where
  "log_of lo answer reason masked =
     \<lparr>sl_question = si_question (lo_input lo), sl_answer = answer, sl_selected_model = sr_model (lo_route lo),
      sl_selected_lora = sr_lora (lo_route lo), sl_fallback_reason = reason,
      sl_input_pii_found = si_found (lo_input lo), sl_output_pii_masked = masked,
      sl_pii_storage_policy = si_policy (lo_input lo), sl_classifier_decision = lo_class lo,
      sl_routing_decision = sr_decision (lo_route lo)\<rparr>"

definition token_event :: "string \<Rightarrow> stream_event" where
  "token_event t = \<lparr>se_event = ''token'', se_data = [(''text'', PStr t)]\<rparr>"

definition fail_stream ::
  "streaming_service \<Rightarrow> stream_request \<Rightarrow> int \<Rightarrow> stream_locals \<Rightarrow> string list \<Rightarrow> py_error \<Rightarrow> stream_world
   \<Rightarrow> stream_event option res \<times> generator \<times> stream_world" where
  "fail_stream ss rq latency lo acc e w =
     (Inr (Some \<lparr>se_event = ''error'', se_data = [(''reason'', PStr ''llm_error''), (''detail'', PStr (exc_name e))]\<rparr>),
      Finished, snd (save_log ss rq latency (log_of lo (concat acc) (Some (''llm_error:'' @ exc_name e)) []) w))"

definition mask_stream :: "streaming_service \<Rightarrow> stream_request \<Rightarrow> string \<Rightarrow> (string \<times> pyval list) res" where
  "mask_stream ss rq full_text =
     (case ss_pii ss of
        None \<Rightarrow> Inr (full_text, [])
      | Some det \<Rightarrow>
          if full_text = [] then Inr (full_text, [])
          else bind_res (opt_dict (sq_tenant_config rq)) (\<lambda>cfg.
               bind_res (mask_output det full_text (dget cfg ''pii'' PNone)) (\<lambda>m.
                 Inr (op_masked_text m, op_findings m))))"

definition complete_event :: "stream_request \<Rightarrow> int \<Rightarrow> stream_locals \<Rightarrow> pyval list \<Rightarrow> string \<Rightarrow> stream_event" where
  "complete_event rq latency lo masked conv_id =
     \<lparr>se_event = ''complete'', se_data =
       [(''message_id'', PStr (sq_request_id rq)), (''conversation_id'', PStr conv_id),
        (''metadata'', PDict [(''ui_mode'', PStr ''chat_streaming''), (''llm_model'', opt_str (sr_model (lo_route lo))),
           (''lora_adapter'', sr_lora (lo_route lo)), (''latency_ms'', PInt latency),
           (''pii'', PDict [(''input_pii_found'', PList (si_found (lo_input lo))), (''output_pii_masked'', PList masked)]),
           (''classifier_decision'', PDict (lo_class lo)), (''routing_decision'', PDict (sr_decision (lo_route lo))),
           (''citation_disabled'', PBool True)])]\<rparr>"

definition end_stream ::
  "streaming_service \<Rightarrow> stream_request \<Rightarrow> int \<Rightarrow> stream_locals \<Rightarrow> string list \<Rightarrow> stream_world
   \<Rightarrow> stream_event option res \<times> generator \<times> stream_world" where
  "end_stream ss rq latency lo acc w =
     (case mask_stream ss rq (concat acc) of
        Inl e \<Rightarrow> (Inl e, Finished, w)
      | Inr (full_text, masked) \<Rightarrow>
          (case save_log ss rq latency (log_of lo full_text None masked) w of
             (cid, w') \<Rightarrow> (Inr (Some (complete_event rq latency lo masked (str_or cid (sq_conversation_id rq)))), Finished, w')))"

fun pull ::
  "streaming_service \<Rightarrow> stream_request \<Rightarrow> int \<Rightarrow> stream_locals \<Rightarrow> string list \<Rightarrow> string list \<Rightarrow> py_error option \<Rightarrow> stream_world
   \<Rightarrow> stream_event option res \<times> generator \<times> stream_world" where
  \<comment> \<open>the loop over the model's tokens, up to the next \<open>yield\<close>\<close>
  "pull ss rq latency lo acc [] (Some e) w = fail_stream ss rq latency lo acc e w"
| "pull ss rq latency lo acc [] None w = end_stream ss rq latency lo acc w"
| "pull ss rq latency lo acc (t # ts) fin w =
     (if t = [] then pull ss rq latency lo acc ts fin w
      else (Inr (Some (token_event t)), Streaming lo (acc @ [t]) ts fin, w))"

definition block_stream ::
  "streaming_service \<Rightarrow> stream_request \<Rightarrow> int \<Rightarrow> stream_input \<Rightarrow> stream_world
   \<Rightarrow> stream_event option res \<times> generator \<times> stream_world" where
  "block_stream ss rq latency i w =
     (let w1 = snd (save_log ss rq latency
            \<lparr>sl_question = si_question i, sl_answer = BLOCKED_MESSAGE, sl_selected_model = sq_selected_model rq,
             sl_selected_lora = sq_selected_lora rq, sl_fallback_reason = Some ''input_pii_blocked'',
             sl_input_pii_found = si_found i, sl_output_pii_masked = [], sl_pii_storage_policy = si_policy i,
             sl_classifier_decision = [], sl_routing_decision = []\<rparr> w);
          w2 = (if ss_ledger ss
                then w1\<lparr>sw_blocks := sw_blocks w1 @ [(sq_domain_id rq, sq_user_id rq, si_categories i)]\<rparr> else w1)
      in (Inr (Some \<lparr>se_event = ''fallback'', se_data =
             [(''reason'', PStr ''input_pii_blocked''), (''blocked_categories'', PList (map PStr (si_categories i))),
              (''message'', PStr BLOCKED_MESSAGE), (''message_id'', PStr (sq_request_id rq)),
              (''conversation_id'', PStr (sq_conversation_id rq))]\<rparr>), Finished, w2))"

definition refuse_stream ::
  "streaming_service \<Rightarrow> stream_request \<Rightarrow> int \<Rightarrow> stream_locals \<Rightarrow> stream_world
   \<Rightarrow> stream_event option res \<times> generator \<times> stream_world" where
  \<comment> \<open>a routing action: no model call\<close>
  "refuse_stream ss rq latency lo w =
     (let reason = ''routing_'' @ py_str (ss_lib ss) (sr_action (lo_route lo)) in
      (Inr (Some \<lparr>se_event = ''fallback'', se_data =
          [(''reason'', PStr reason), (''message'', PStr REFUSAL_MESSAGE), (''message_id'', PStr (sq_request_id rq)),
           (''conversation_id'', PStr (sq_conversation_id rq))]\<rparr>),
       Finished, snd (save_log ss rq latency (log_of lo REFUSAL_MESSAGE (Some reason) []) w)))"

definition open_stream ::
  "streaming_service \<Rightarrow> stream_request \<Rightarrow> stream_input \<Rightarrow> (stream_locals \<times> (string list \<times> py_error option) option) res" where
  \<comment> \<open>classification, routing and, unless a routing action refuses, the start of the model's stream\<close>
  "open_stream ss rq i =
     bind_res (classify_stream ss rq) (\<lambda>(result, decision).
     bind_res (route_stream ss rq result) (\<lambda>route.
       let lo = \<lparr>lo_input = i, lo_class = decision, lo_route = route\<rparr> in
       if truthy (sr_action route) then Inr (lo, None)
       else bind_res (render_streaming ss (sq_question rq)) (\<lambda>prompt.
              Inr (lo, Some (ss_llm ss prompt (str_or (sr_model route) (ss_default_model ss)) (sr_lora route))))))"

definition start_stream ::
  "streaming_service \<Rightarrow> stream_request \<Rightarrow> int \<Rightarrow> stream_world \<Rightarrow> stream_event option res \<times> generator \<times> stream_world" where
  "start_stream ss rq latency w =
     (case check_stream_input ss rq of
        Inl e \<Rightarrow> (Inl e, Finished, w)
      | Inr i \<Rightarrow>
          if si_blocked i then block_stream ss rq latency i w
          else case open_stream ss rq i of
            Inl e \<Rightarrow> (Inl e, Finished, w)
          | Inr (lo, None) \<Rightarrow> refuse_stream ss rq latency lo w
          | Inr (lo, Some (tokens, fin)) \<Rightarrow> pull ss rq latency lo [] tokens fin w)"

fun resume ::
  "streaming_service \<Rightarrow> stream_request \<Rightarrow> int \<Rightarrow> generator \<times> stream_world \<Rightarrow> stream_event option res \<times> generator \<times> stream_world" where
  \<comment> \<open>\<open>None\<close> is the end of the iteration\<close>
  "resume ss rq latency (Fresh, w) = start_stream ss rq latency w"
| "resume ss rq latency (Streaming lo acc ts fin, w) = pull ss rq latency lo acc ts fin w"
| "resume ss rq latency (Finished, w) = (Inr None, Finished, w)"

definition aclose :: "generator \<times> stream_world \<Rightarrow> generator \<times> stream_world" where
  "aclose gw = (Finished, snd gw)"

definition chat_streaming ::
  "chat_backend \<Rightarrow> bool \<Rightarrow> (nat \<Rightarrow> string) \<Rightarrow> real \<Rightarrow> string \<Rightarrow> user_context \<Rightarrow> string \<Rightarrow> string option \<Rightarrow> chat_world
   \<Rightarrow> stream_request res \<times> chat_world" where
  \<comment> \<open>the arguments of the generator that is handed to the reader; its identifiers are drawn when it starts\<close>
  "chat_streaming cb enabled uuids now domain_id user question conversation_id wl =
     (if \<not> enabled then (Inl (OtherError ''RuntimeError''), wl)
      else case config_loader (cb_disk cb) (wl_approvals wl) now domain_id (wl_config wl) of (config, cs) \<Rightarrow>
        (bind_res config (\<lambda>v. bind_res (py_dict (py_or v (PDict []))) (\<lambda>cfg.
           Inr \<lparr>sq_domain_id = domain_id, sq_user_id = uc_user_id user, sq_question = question,
                sq_tenant_config = PDict cfg, sq_conversation_id = str_or conversation_id (uuids 1),
                sq_request_id = uuids 0, sq_selected_model = Some (cb_default_model cb), sq_selected_lora = PNone\<rparr>)),
         wl\<lparr>wl_config := cs\<rparr>))"

section \<open>Reading a stream\<close>

fun read_events ::
  "streaming_service \<Rightarrow> stream_request \<Rightarrow> int \<Rightarrow> nat \<Rightarrow> generator \<times> stream_world \<Rightarrow> stream_event list \<times> py_error option \<times> generator \<times> stream_world" where
  \<comment> \<open>at most \<open>n\<close> steps of \<open>async for\<close>: the events, the exception that ended the loop, what is left\<close>
  "read_events ss rq latency 0 gw = ([], None, gw)"
| "read_events ss rq latency (Suc n) gw =
     (case resume ss rq latency gw of
        (Inl e, gw') \<Rightarrow> ([], Some e, gw')
      | (Inr None, gw') \<Rightarrow> ([], None, gw')
      | (Inr (Some ev), gw') \<Rightarrow>
          (case read_events ss rq latency n gw' of (evs, rest) \<Rightarrow> (ev # evs, rest)))"

section \<open>Facts\<close>

definition settle ::
  "streaming_service \<Rightarrow> stream_request \<Rightarrow> int \<Rightarrow> stream_locals \<Rightarrow> string list \<Rightarrow> py_error option \<Rightarrow> stream_world
   \<Rightarrow> stream_event option res \<times> generator \<times> stream_world" where
  \<comment> \<open>what follows the last token\<close>
  "settle ss rq latency lo acc fin w =
     (case fin of Some e \<Rightarrow> fail_stream ss rq latency lo acc e w | None \<Rightarrow> end_stream ss rq latency lo acc w)"

abbreviation spoken :: "string list \<Rightarrow> string list" where
  "spoken ts \<equiv> filter (\<lambda>t. t \<noteq> []) ts"

lemma concat_spoken [simp]: "concat (spoken ts) = concat ts"
  by (induction ts) auto

lemma pull_Nil [simp]: "pull ss rq latency lo acc [] fin w = settle ss rq latency lo acc fin w"
  by (cases fin) (simp_all add: settle_def)

lemma complete_event_name [simp]: "se_event (complete_event rq latency lo masked cid) = ''complete''"
  by (simp add: complete_event_def)

lemma settle_shape:
  obtains e where "settle ss rq latency lo acc fin w = (Inl e, Finished, w)" "fin = None" "mask_stream ss rq (concat acc) = Inl e"
  | ev w' where "settle ss rq latency lo acc fin w = (Inr (Some ev), Finished, w')"
      "se_event ev = (if fin = None then ''complete'' else ''error'')"
  by (cases fin; cases "mask_stream ss rq (concat acc)")
    (auto simp: settle_def fail_stream_def end_stream_def case_prod_unfold)

lemma read_finished [simp]: "read_events ss rq latency n (Finished, w) = ([], None, Finished, w)"
  by (cases n) auto

definition ending :: "stream_event list \<Rightarrow> stream_event option res \<times> generator \<times> stream_world
    \<Rightarrow> stream_event list \<times> py_error option \<times> generator \<times> stream_world" where
  "ending evs r = (case r of (Inl e, gw) \<Rightarrow> (evs, Some e, gw) | (Inr ev, gw) \<Rightarrow> (evs @ [the ev], None, gw))"

lemma read_streaming:
  "length ts < n \<Longrightarrow> read_events ss rq latency n (Streaming lo acc ts fin, w)
     = ending (map token_event (spoken ts)) (settle ss rq latency lo (acc @ spoken ts) fin w)"
proof (induction ts arbitrary: acc n)
  case Nil
  then obtain m where "n = Suc m" by (cases n) auto
  then show ?case
    by (cases rule: settle_shape [of ss rq latency lo acc fin w]) (auto simp: ending_def)
next
  case (Cons t ts)
  then obtain m where n: "n = Suc m" by (cases n) auto
  show ?case
  proof (cases "t = []")
    case True
    have "read_events ss rq latency n (Streaming lo acc (t # ts) fin, w) = read_events ss rq latency n (Streaming lo acc ts fin, w)"
      using True by (simp add: n)
    with Cons True show ?thesis by simp
  next
    case False
    have "read_events ss rq latency n (Streaming lo acc (t # ts) fin, w)
        = (case read_events ss rq latency m (Streaming lo (acc @ [t]) ts fin, w) of (evs, rest) \<Rightarrow> (token_event t # evs, rest))"
      using False by (simp add: n)
    also have "read_events ss rq latency m (Streaming lo (acc @ [t]) ts fin, w)
        = ending (map token_event (spoken ts)) (settle ss rq latency lo ((acc @ [t]) @ spoken ts) fin w)"
      using Cons n by simp
    finally show ?thesis
      using False
      by (cases rule: settle_shape [of ss rq latency lo "acc @ t # spoken ts" fin w]) (auto simp: ending_def)
  qed
qed

lemma read_opened:
  assumes "check_stream_input ss rq = Inr i" and "\<not> si_blocked i"
    and "open_stream ss rq i = Inr (lo, Some (tokens, fin))" and "length tokens < n"
  shows "read_events ss rq latency n (Fresh, w)
    = ending (map token_event (spoken tokens)) (settle ss rq latency lo (spoken tokens) fin w)"
proof -
  obtain m where n: "n = Suc m" using assms(4) by (cases n) auto
  have "resume ss rq latency (Fresh, w) = resume ss rq latency (Streaming lo [] tokens fin, w)"
    using assms by (simp add: start_stream_def)
  then have "read_events ss rq latency n (Fresh, w) = read_events ss rq latency n (Streaming lo [] tokens fin, w)"
    by (simp add: n)
  with read_streaming [OF assms(4)] show ?thesis by simp
qed

lemma read_blocked:
  assumes "check_stream_input ss rq = Inr i" and "si_blocked i" and "0 < n"
  shows "read_events ss rq latency n (Fresh, w) = ending [] (block_stream ss rq latency i w)"
  using assms by (cases n) (auto simp: start_stream_def block_stream_def Let_def ending_def)

lemma read_refused:
  assumes "check_stream_input ss rq = Inr i" and "\<not> si_blocked i" and "open_stream ss rq i = Inr (lo, None)" and "0 < n"
  shows "read_events ss rq latency n (Fresh, w) = ending [] (refuse_stream ss rq latency lo w)"
  using assms by (cases n) (auto simp: start_stream_def refuse_stream_def Let_def ending_def)

lemma saved:
  assumes "ss_writer ss"
  shows "save_log ss rq latency l w
    = (Some (sq_conversation_id rq), w\<lparr>sw_log := (sw_log w)\<lparr>log_records := log_records (sw_log w) @ [stream_payload rq latency l]\<rparr>\<rparr>)"
  using assms by (simp add: save_log_def write_chat_log_def stream_payload_def)

definition logged_once :: "stream_request \<Rightarrow> stream_world \<Rightarrow> stream_world \<Rightarrow> bool" where
  "logged_once rq w w' \<longleftrightarrow> (\<exists>p. log_records (sw_log w') = log_records (sw_log w) @ [p]
     \<and> cl_request_id p = sq_request_id rq \<and> cl_conversation_id p = Some (sq_conversation_id rq)
     \<and> cl_ui_mode p = ''chat_streaming'' \<and> cl_citations p = [])"

lemma logged_onceI: "log_records (sw_log w') = log_records (sw_log w) @ [stream_payload rq latency l] \<Longrightarrow> logged_once rq w w'"
  by (auto simp: logged_once_def stream_payload_def)

lemma settle_logs:
  assumes "settle ss rq latency lo acc fin w = (Inr (Some ev), g, w')" and "ss_writer ss"
  shows "logged_once rq w w'"
  using assms
  by (cases fin) (auto simp: settle_def fail_stream_def end_stream_def saved split: sum.splits intro: logged_onceI)

fun well_ended ::
  "stream_request \<Rightarrow> stream_world \<Rightarrow> stream_event list \<times> py_error option \<times> generator \<times> stream_world \<Rightarrow> bool" where
  \<comment> \<open>a reading that is over: tokens and one final event with one log record, or tokens and an exception
      with none\<close>
  "well_ended rq w (evs, None, g, w') \<longleftrightarrow> g = Finished \<and> logged_once rq w w'
     \<and> (\<exists>toks final. evs = map token_event toks @ [final] \<and> se_event final \<in> {''complete'', ''fallback'', ''error''})"
| "well_ended rq w (evs, Some e, g, w') \<longleftrightarrow> g = Finished \<and> sw_log w' = sw_log w \<and> (\<exists>toks. evs = map token_event toks)"

lemma well_ended_final:
  assumes "r = (Inr (Some ev), Finished, w')" and "logged_once rq w w'" and "se_event ev \<in> {''complete'', ''fallback'', ''error''}"
  shows "well_ended rq w (ending (map token_event toks) r)"
  using assms by (auto simp: ending_def)

lemma settle_well_ended:
  assumes "ss_writer ss"
  shows "well_ended rq w (ending (map token_event toks) (settle ss rq latency lo acc fin w))"
proof (cases rule: settle_shape [of ss rq latency lo acc fin w])
  case (1 e)
  then show ?thesis by (auto simp: ending_def)
next
  case (2 ev w')
  then show ?thesis by (intro well_ended_final [OF 2(1) settle_logs [OF 2(1) assms]]) simp
qed

lemma unopened_well_ended:
  assumes "ss_writer ss"
  shows "well_ended rq w (ending [] (block_stream ss rq latency i w))"
    and "well_ended rq w (ending [] (refuse_stream ss rq latency lo w))"
proof -
  have "logged_once rq w (snd (snd (block_stream ss rq latency i w)))"
    by (rule logged_onceI) (simp add: block_stream_def Let_def saved [OF assms])
  then show "well_ended rq w (ending [] (block_stream ss rq latency i w))"
    by (auto simp: ending_def block_stream_def Let_def intro: exI [of _ "[]"])
  have "logged_once rq w (snd (snd (refuse_stream ss rq latency lo w)))"
    by (rule logged_onceI) (simp add: refuse_stream_def Let_def saved [OF assms])
  then show "well_ended rq w (ending [] (refuse_stream ss rq latency lo w))"
    by (auto simp: ending_def refuse_stream_def Let_def intro: exI [of _ "[]"])
qed

lemma read_raised:
  assumes "start_stream ss rq latency w = (Inl e, Finished, w)" and "0 < n"
  shows "well_ended rq w (read_events ss rq latency n (Fresh, w))"
  using assms by (cases n) auto

lemma pull_open:
  assumes "pull ss rq latency lo acc ts fin w = (r, g', w')" and "g' \<noteq> Finished"
  shows "w' = w \<and> (\<exists>t. r = Inr (Some (token_event t)))"
  using assms
proof (induction ts)
  case Nil
  then show ?case by (cases rule: settle_shape [of ss rq latency lo acc fin w]) auto
qed (auto split: if_splits)

lemma resume_open:
  assumes "resume ss rq latency (g, w) = (r, g', w')" and "g' \<noteq> Finished"
  shows "w' = w \<and> (\<exists>t. r = Inr (Some (token_event t)))"
  using assms
  by (cases g) (auto simp: start_stream_def block_stream_def refuse_stream_def Let_def
      split: sum.splits if_splits option.splits dest: pull_open)

lemma read_open:
  assumes "read_events ss rq latency n (g0, w0) = (evs, err, g, w')" and "g \<noteq> Finished"
  shows "w' = w0 \<and> (\<exists>toks. evs = map token_event toks)"
  using assms
proof (induction n arbitrary: g0 w0 evs)
  case (Suc n)
  obtain r g1 w1 where r: "resume ss rq latency (g0, w0) = (r, g1, w1)" by (metis surj_pair)
  have "g1 \<noteq> Finished"
    using Suc.prems r by (auto split: sum.splits option.splits prod.splits)
  then obtain t where t: "w1 = w0" "r = Inr (Some (token_event t))" using resume_open [OF r] by blast
  obtain evs' where "read_events ss rq latency n (g1, w1) = (evs', err, g, w')" "evs = token_event t # evs'"
    using Suc.prems(1) r t by (auto split: prod.splits)
  with Suc.IH [OF this(1) Suc.prems(2)] t(1) show ?case by (metis list.simps(9))
qed simp

section \<open>Properties\<close>

text \<open>
  (C13) A stream that is read ends: for every model stream there is a number of steps after which the
  generator is finished, however it was answered. If no exception escaped, the reader has seen the
  tokens and then exactly one final event (complete, fallback or error), and exactly one log record
  has been written, under the request and conversation identifiers of the stream and without
  citations. If one escaped, nothing was logged.
\<close>

theorem stream_ends:
  assumes "ss_writer ss"
  shows "\<exists>N. \<forall>n>N. well_ended rq w (read_events ss rq latency n (Fresh, w))"
proof (cases "check_stream_input ss rq")
  case (Inl e)
  then show ?thesis by (intro exI [of _ 0]) (auto intro!: read_raised simp: start_stream_def)
next
  case (Inr i)
  note i = this
  consider (blocked) "si_blocked i" | (raised) e where "\<not> si_blocked i" "open_stream ss rq i = Inl e"
    | (refused) lo where "\<not> si_blocked i" "open_stream ss rq i = Inr (lo, None)"
    | (opened) lo tokens fin where "\<not> si_blocked i" "open_stream ss rq i = Inr (lo, Some (tokens, fin))"
    by (metis old.sum.exhaust option.exhaust surj_pair)
  then show ?thesis
  proof cases
    case blocked
    with i show ?thesis by (intro exI [of _ 0]) (simp add: read_blocked unopened_well_ended assms)
  next
    case raised
    with i show ?thesis by (intro exI [of _ 0]) (auto intro!: read_raised simp: start_stream_def)
  next
    case refused
    with i show ?thesis by (intro exI [of _ 0]) (simp add: read_refused unopened_well_ended assms)
  next
    case opened
    with i show ?thesis by (intro exI [of _ "length tokens"]) (simp add: read_opened settle_well_ended assms)
  qed
qed

text \<open>
  What is streamed and what is stored: for a question that is not blocked or refused, the reader is
  sent the text of the model as it is. If the model ends normally, the log holds that text masked and
  the complete event names what was masked; if it fails on the way, the log holds the part that was
  streamed without any masking.
\<close>

theorem failed_stream_logged_unmasked:
  assumes "check_stream_input ss rq = Inr i" and "\<not> si_blocked i"
    and "open_stream ss rq i = Inr (lo, Some (tokens, fin))" and "length tokens < n" and "ss_writer ss"
    and "mask_stream ss rq (concat tokens) = Inr (masked_text, masked)"
  shows "\<exists>final w'. read_events ss rq latency n (Fresh, w) = (map token_event (spoken tokens) @ [final], None, Finished, w')
    \<and> (\<exists>p. log_records (sw_log w') = log_records (sw_log w) @ [p] \<and> cl_question p = si_question i
         \<and> (case fin of
              None \<Rightarrow> se_event final = ''complete'' \<and> cl_answer p = masked_text \<and> cl_output_pii_masked p = masked
            | Some e \<Rightarrow> se_event final = ''error'' \<and> cl_answer p = concat tokens \<and> cl_output_pii_masked p = []))"
proof -
  have lo: "lo_input lo = i" using assms(3) by (auto simp: open_stream_def Let_def split: if_splits)
  show ?thesis
    unfolding read_opened [OF assms(1-4)]
    by (cases fin)
      (auto simp: ending_def settle_def fail_stream_def end_stream_def saved [OF assms(5)] assms(6) stream_payload_def
        log_of_def lo)
qed

text \<open>
  A stream that is abandoned leaves no trace: when the reader goes away before the final event, the
  tokens it has received are in no log record, and the rest of the body never runs.
\<close>

theorem abandoned_stream_not_logged:
  assumes "read_events ss rq latency n (Fresh, w) = (evs, None, g, w')" and "g \<noteq> Finished"
  shows "aclose (g, w') = (Finished, w) \<and> (\<exists>toks. evs = map token_event toks)"
  using read_open [OF assms] by (simp add: aclose_def)

section \<open>Examples\<close>

definition ex_streaming :: "py_error option \<Rightarrow> streaming_service" where
  "ex_streaming fin = \<lparr>ss_lib = ex_lib, ss_jinja = ex_jinja, ss_llm = (\<lambda>_ _ _. ([''call '', [], ''0199 now''], fin)),
     ss_system = [], ss_user = ''q'', ss_default_model = ''m'', ss_pii = Some ex_det, ss_writer = True,
     ss_classifier = None, ss_router = False, ss_ledger = True\<rparr>"

definition ex_stream_request :: stream_request where
  "ex_stream_request = \<lparr>sq_domain_id = ''t'', sq_user_id = ''kim'', sq_question = ''hello'', sq_tenant_config = PDict [],
     sq_conversation_id = ''c'', sq_request_id = ''r'', sq_selected_model = Some ''m'', sq_selected_lora = PNone\<rparr>"

definition ex_stream_world :: stream_world where
  "ex_stream_world = \<lparr>sw_log = \<lparr>log_records = [], log_conv_counter = 0\<rparr>, sw_blocks = []\<rparr>"

definition ex_stream_input :: stream_input where
  "ex_stream_input = projr (check_stream_input (ex_streaming None) ex_stream_request)"

definition ex_locals :: stream_locals where
  "ex_locals = fst (projr (open_stream (ex_streaming None) ex_stream_request ex_stream_input))"

definition ex_masked :: "pyval list" where
  "ex_masked = snd (projr (mask_stream (ex_streaming None) ex_stream_request ''call 0199 now''))"

lemma ex_stream_facts:
  "check_stream_input (ex_streaming fin) ex_stream_request = Inr ex_stream_input" "\<not> si_blocked ex_stream_input"
  "mask_stream (ex_streaming fin) ex_stream_request ''call 0199 now'' = Inr (''call 0*-* now'', ex_masked)"
  "open_stream (ex_streaming fin) ex_stream_request ex_stream_input = Inr (ex_locals, Some ([''call '', [], ''0199 now''], fin))"
  by code_simp+

theorem stream_ends_witness:
  "\<exists>n. well_ended ex_stream_request ex_stream_world
     (read_events (ex_streaming None) ex_stream_request 12 n (Fresh, ex_stream_world))"
  using stream_ends [of "ex_streaming None" ex_stream_request ex_stream_world 12] by (auto simp: ex_streaming_def)

theorem failed_stream_logged_unmasked_witness:
  "\<exists>p. log_records (sw_log (snd (snd (snd (read_events (ex_streaming (Some ValueError)) ex_stream_request 12 9 (Fresh, ex_stream_world)))))) = [p]
     \<and> cl_answer p = ''call 0199 now''"
proof -
  have w: "ss_writer (ex_streaming (Some ValueError))" by (simp add: ex_streaming_def)
  have n: "length [''call '', [], ''0199 now''] < 9" by simp
  have m: "mask_stream (ex_streaming (Some ValueError)) ex_stream_request (concat [''call '', [], ''0199 now''])
      = Inr (''call 0*-* now'', ex_masked)" using ex_stream_facts(3) by simp
  obtain evs w' p where r: "read_events (ex_streaming (Some ValueError)) ex_stream_request 12 9 (Fresh, ex_stream_world) = (evs, None, Finished, w')"
    and p: "log_records (sw_log w') = log_records (sw_log ex_stream_world) @ [p]" "cl_answer p = concat [''call '', [], ''0199 now'']"
    using failed_stream_logged_unmasked [OF ex_stream_facts(1,2,4) n w m, of 12 ex_stream_world] by auto
  show ?thesis unfolding r using p by (simp add: ex_stream_world_def)
qed

theorem abandoned_stream_not_logged_witness:
  "\<exists>evs g w'. read_events (ex_streaming None) ex_stream_request 12 1 (Fresh, ex_stream_world) = (evs, None, g, w')
     \<and> aclose (g, w') = (Finished, ex_stream_world)"
proof -
  obtain g w' where "read_events (ex_streaming None) ex_stream_request 12 1 (Fresh, ex_stream_world)
      = ([token_event ''call ''], None, g, w')" "g \<noteq> Finished"
    by (simp add: start_stream_def ex_stream_facts)
  with abandoned_stream_not_logged [OF this] show ?thesis by blast
qed

end
