(* ===== verification/Chat_Api.thy ===== *)
theory Chat_Api
  imports Conversations Streaming
begin

text \<open>
  The chat endpoints of \<open>backend/app/api/tenant_chat.py\<close>: every one takes the user from the token
  (\<open>get_user_context\<close>), checks the tenant of the path a second time (\<open>ensure_tenant_match\<close>) and calls one
  service. A request is one whose body has passed the validation that its declaration asks for. The
  properties put the components together: from the token to the text that the model sees and to what
  is stored.
\<close>

section \<open>The endpoints\<close>

record api_world =
  aq_auth :: auth_world
  aq_chat :: chat_world
  aq_conv :: conversation_repo

definition authorise :: "auth_adapter \<Rightarrow> http_request \<Rightarrow> string \<Rightarrow> api_world \<Rightarrow> user_context api \<times> api_world" where
  \<comment> \<open>the dependency and the first statement of every handler\<close>
  "authorise aa rq domain_id w =
     (case bind_st (get_user_context aa rq domain_id (aq_auth w)) (\<lambda>user a.
             bind_st (ensure_tenant_match aa domain_id user a) (\<lambda>_ a. (Inr user, a))) of
        (r, a) \<Rightarrow> (r, w\<lparr>aq_auth := a\<rparr>))"

definition chat ::
  "auth_adapter \<Rightarrow> chat_backend \<Rightarrow> (nat \<Rightarrow> string) \<Rightarrow> real \<Rightarrow> int \<Rightarrow> http_request \<Rightarrow> string \<Rightarrow> string \<Rightarrow> string option
   \<Rightarrow> api_world \<Rightarrow> chat_response api \<times> api_world" where
  "chat aa cb uuids now latency rq domain_id question conversation_id w =
     bind_st (authorise aa rq domain_id w) (\<lambda>user w.
       case chat_structured cb uuids now latency domain_id user question conversation_id (aq_chat w) of
         (r, wl) \<Rightarrow> (lift_res r, w\<lparr>aq_chat := wl\<rparr>))"

definition chat_stream ::
  "auth_adapter \<Rightarrow> chat_backend \<Rightarrow> bool \<Rightarrow> (nat \<Rightarrow> string) \<Rightarrow> real \<Rightarrow> http_request \<Rightarrow> string \<Rightarrow> string \<Rightarrow> string option
   \<Rightarrow> api_world \<Rightarrow> stream_request api \<times> api_world" where
  \<comment> \<open>the request of the generator whose events the response serialises\<close>
  "chat_stream aa cb enabled uuids now rq domain_id question conversation_id w =
     bind_st (authorise aa rq domain_id w) (\<lambda>user w.
       if \<not> enabled then (Inl (http_error 501 ''streaming_not_configured'' []), w)
       else case chat_streaming cb enabled uuids now domain_id user question conversation_id (aq_chat w) of
         (r, wl) \<Rightarrow> (lift_res r, w\<lparr>aq_chat := wl\<rparr>))"

definition list_conversations ::
  "auth_adapter \<Rightarrow> http_request \<Rightarrow> string \<Rightarrow> int \<Rightarrow> int \<Rightarrow> api_world \<Rightarrow> conversation_page api \<times> api_world" where
  "list_conversations aa rq domain_id page page_size w =
     bind_st (authorise aa rq domain_id w) (\<lambda>user w.
       (Inr (list_by_user domain_id (uc_user_id user) page page_size (wl_log (aq_chat w)) (aq_conv w)), w))"

record answer_part =
  an_citations :: "citation list"
  an_citation_types :: "pyval list"
  an_fallback_reason :: "string option"
  an_grounding :: pyval
  an_assessment_items :: pyval

record chat_message =
  ms_role :: string
  ms_content :: string
  ms_message_id :: string
  ms_answer :: "answer_part option"

definition record_messages :: "chat_log_payload \<Rightarrow> chat_message list" where
  "record_messages p =
     (if cl_question p = [] then []
      else [\<lparr>ms_role = ''user'', ms_content = cl_question p, ms_message_id = cl_request_id p, ms_answer = None\<rparr>])
     @ [\<lparr>ms_role = ''assistant'', ms_content = cl_answer p, ms_message_id = cl_request_id p,
         ms_answer = Some \<lparr>an_citations = cl_citations p, an_citation_types = cl_citation_types p,
           an_fallback_reason = cl_fallback_reason p, an_grounding = dget (cl_routing_decision p) ''grounding'' PNone,
           an_assessment_items = py_or (dget (cl_routing_decision p) ''assessment_items'' PNone) (PList [])\<rparr>\<rparr>]"

definition list_messages :: "pylib \<Rightarrow> string \<Rightarrow> string \<Rightarrow> chat_log \<Rightarrow> chat_message list" where
  "list_messages L domain_id cid w =
     concat (map (record_messages \<circ> snd)
       (rev (lp_items (list_logs L domain_id (no_filters\<lparr>lf_conversation_id := Some cid\<rparr>) 1 100 w))))"

definition not_found :: "string \<Rightarrow> string \<Rightarrow> string \<Rightarrow> api_error" where
  "not_found err key i = http_error 404 err [(key, PStr i)]"

definition conversation_detail ::
  "pylib \<Rightarrow> string \<Rightarrow> string \<Rightarrow> string \<Rightarrow> chat_log \<Rightarrow> conversation_repo \<Rightarrow> (conversation \<times> chat_message list) api" where
  \<comment> \<open>the body of \<open>get_conversation\<close>\<close>
  "conversation_detail L domain_id user_id cid w rp =
     (case get_conv domain_id user_id cid w rp of
        None \<Rightarrow> Inl (not_found ''conversation_not_found'' ''conversation_id'' cid)
      | Some c \<Rightarrow> Inr (c, list_messages L domain_id cid w))"

definition get_conversation ::
  "auth_adapter \<Rightarrow> pylib \<Rightarrow> http_request \<Rightarrow> string \<Rightarrow> string \<Rightarrow> api_world
   \<Rightarrow> (conversation \<times> chat_message list) api \<times> api_world" where
  "get_conversation aa L rq domain_id cid w =
     bind_st (authorise aa rq domain_id w) (\<lambda>user w.
       (conversation_detail L domain_id (uc_user_id user) cid (wl_log (aq_chat w)) (aq_conv w), w))"

definition patch_conversation ::
  "auth_adapter \<Rightarrow> http_request \<Rightarrow> string \<Rightarrow> string \<Rightarrow> string \<Rightarrow> api_world \<Rightarrow> conversation api \<times> api_world" where
  "patch_conversation aa rq domain_id cid title w =
     bind_st (authorise aa rq domain_id w) (\<lambda>user w.
       case update_title domain_id (uc_user_id user) cid title (wl_log (aq_chat w)) (aq_conv w) of
         (None, rp) \<Rightarrow> (Inl (not_found ''conversation_not_found'' ''conversation_id'' cid), w\<lparr>aq_conv := rp\<rparr>)
       | (Some c, rp) \<Rightarrow> (Inr c, w\<lparr>aq_conv := rp\<rparr>))"

definition delete_conversation ::
  "auth_adapter \<Rightarrow> http_request \<Rightarrow> string \<Rightarrow> string \<Rightarrow> api_world \<Rightarrow> unit api \<times> api_world" where
  "delete_conversation aa rq domain_id cid w =
     bind_st (authorise aa rq domain_id w) (\<lambda>user w.
       case delete_conv domain_id (uc_user_id user) cid (wl_log (aq_chat w)) (aq_conv w) of
         (n, rp) \<Rightarrow> (if n = 0 then Inl (not_found ''conversation_not_found'' ''conversation_id'' cid) else Inr (),
                     w\<lparr>aq_conv := rp\<rparr>))"

definition feedback ::
  "auth_adapter \<Rightarrow> http_request \<Rightarrow> string \<Rightarrow> string \<Rightarrow> string \<Rightarrow> string option \<Rightarrow> api_world \<Rightarrow> unit api \<times> api_world" where
  "feedback aa rq domain_id message_id verdict comment w =
     bind_st (authorise aa rq domain_id w) (\<lambda>user w.
       case record_feedback domain_id message_id (Some (uc_user_id user)) verdict comment (wl_log (aq_chat w)) of
         (n, log') \<Rightarrow> (if n = 0 then Inl (not_found ''message_not_found'' ''message_id'' message_id) else Inr (),
                       w\<lparr>aq_chat := (aq_chat w)\<lparr>wl_log := log'\<rparr>\<rparr>))"

section \<open>Facts\<close>

lemma authorise_Inr:
  assumes "authorise aa rq d w = (Inr u, w')"
  obtains a where "verify_and_extract aa (bearer_of rq) d (aq_auth w) = (Inr u, a)" "w' = w\<lparr>aq_auth := a\<rparr>"
    "uc_domain_id u = d \<or> is_platform_admin u"
  using assms that
  by (auto simp: authorise_def get_user_context_def ensure_tenant_match_def api_simps split: prod.splits if_splits)

lemma chat_Inr:
  assumes "chat aa cb uuids now latency rq d q conv w = (Inr r, w')"
  obtains u w1 wl where "authorise aa rq d w = (Inr u, w1)" "aq_chat w1 = aq_chat w"
    "chat_structured cb uuids now latency d u q conv (aq_chat w) = (Inr r, wl)" "aq_chat w' = wl"
proof -
  obtain u w1 where a: "authorise aa rq d w = (Inr u, w1)"
    and c: "(case chat_structured cb uuids now latency d u q conv (aq_chat w1) of
         (r, wl) \<Rightarrow> (lift_res r, w1\<lparr>aq_chat := wl\<rparr>)) = (Inr r, w')"
    using assms by (auto simp: chat_def api_simps)
  moreover have "aq_chat w1 = aq_chat w" by (rule authorise_Inr [OF a]) simp
  ultimately show thesis using that by (auto simp: api_simps split: prod.splits)
qed

text \<open>What a chat request writes into the log belongs to the request.\<close>

lemma chat_record:
  assumes "chat_structured cb uuids now latency d u q conv wl = (Inr r, wl')" and "dp_chat_log_writer (cb_deps cb)"
  obtains s config trace where
    "run_chat_structured_full ((cb_deps cb)\<lparr>dp_config_loader := \<lambda>_. config\<rparr>)
       (initial_state (uuids 0) d (uc_user_id u) (Some (str_or conv (uuids 1))) q
          (load_history (dp_lib (cb_deps cb)) (cb_reader cb) d (str_or conv (uuids 1)) (conv \<noteq> None) (wl_log wl))
          (user_context_to_dict u) (Some (cb_default_model cb))) (wl_log wl) = Inr (trace, s, wl_log wl')"
    "log_records (wl_log wl') = log_records (wl_log wl) @ [chat_log_payload_of s]"
    "cl_domain_id (chat_log_payload_of s) = d" "cl_user_id (chat_log_payload_of s) = uc_user_id u"
    "cl_conversation_id (chat_log_payload_of s) = Some (str_or conv (uuids 1))"
proof -
  let ?s0 = "initial_state (uuids 0) d (uc_user_id u) (Some (str_or conv (uuids 1))) q
          (load_history (dp_lib (cb_deps cb)) (cb_reader cb) d (str_or conv (uuids 1)) (conv \<noteq> None) (wl_log wl))
          (user_context_to_dict u) (Some (cb_default_model cb))"
  obtain config trace s w where run: "run_chat_structured_full ((cb_deps cb)\<lparr>dp_config_loader := \<lambda>_. config\<rparr>) ?s0 (wl_log wl)
      = Inr (trace, s, w)" and w: "wl_log wl' = w"
    by (rule chat_structuredE [OF assms(1)])
  have "static s = static ?s0 \<and> s_conversation_id s = Some (str_or conv (uuids 1))"
    by (rule run_addressed [OF run]) (simp add: initial_state_def)
  then show thesis
    using that [OF run [folded w]] run_record [OF run] assms(2) w
    by (auto simp: chat_log_payload_of_def static_def initial_state_def)
qed

lemma reader_of_member:
  assumes "uc_domain_groups u = map PStr gs"
    and "uc_department u = (case dep of None \<Rightarrow> PNone | Some x \<Rightarrow> PStr x)"
  shows "reader_of L (user_context_to_dict u) = Inr \<lparr>rd_user_id = uc_user_id u, rd_clearance = py_str L (uc_clearance u),
     rd_department = (case dep of None \<Rightarrow> None | Some x \<Rightarrow> if x = [] then None else Some x), rd_groups = gs\<rparr>"
proof -
  have "map_res as_str (map PStr gs) = Inr gs" by (induction gs) auto
  moreover have "py_iter (py_or (PList (map PStr gs)) (PList [])) = Inr (map PStr gs)" by (cases gs) (auto simp: py_or_def)
  ultimately show ?thesis
    using assms by (simp add: reader_of_def user_context_to_dict_def opt_dict_def py_or_def [of "PDict _"] dget_def split: option.splits)
qed

definition member_reader :: "string \<Rightarrow> membership \<Rightarrow> reader" where
  \<comment> \<open>the reader that a membership row describes\<close>
  "member_reader uid m = \<lparr>rd_user_id = uid, rd_clearance = mb_clearance m,
     rd_department = (case mb_department m of None \<Rightarrow> None | Some x \<Rightarrow> if x = [] then None else Some x),
     rd_groups = mb_domain_groups m\<rparr>"

lemma last_n_all: "length xs \<le> n \<Longrightarrow> last_n n xs = xs"
  by (simp add: last_n_def)

lemma list_messages_all:
  "list_messages L d cid w =
     concat (map record_messages (last_n 100 (filter (\<lambda>p. cl_domain_id p = d \<and> cl_conversation_id p = Some cid) (log_records w))))"
proof -
  let ?rows = "filter (\<lambda>p. cl_domain_id p = d \<and> cl_conversation_id p = Some cid) (log_records w)"
  have "map snd (rev (lp_items (list_logs L d (no_filters\<lparr>lf_conversation_id := Some cid\<rparr>) 1 100 w))) = rev (take 100 (rev ?rows))"
    using list_conversation_logs [of 100 L d cid w] by (simp flip: rev_map)
  then show ?thesis unfolding list_messages_def by (metis map_map rev_take_rev)
qed

definition caller_reader :: "pylib \<Rightarrow> auth_adapter \<Rightarrow> member_table \<Rightarrow> user_context \<Rightarrow> string \<Rightarrow> reader \<Rightarrow> bool" where
  \<comment> \<open>the reader that the configuration and the membership table make of the caller\<close>
  "caller_reader L aa t u d rd \<longleftrightarrow>
     (if service_client (aa_config aa) u
      then \<exists>c. claims_client (uc_raw_claims u) = PStr c
        \<and> rd = \<lparr>rd_user_id = uc_user_id u, rd_clearance = py_str L (service_clearance (aa_config aa) c), rd_department = None, rd_groups = []\<rparr>
      else \<exists>m. entitled aa t u d m \<and> rd = member_reader (uc_user_id u) m)"

lemma caller_reader_of:
  assumes "verify_and_extract aa token d w = (Inr u, w')" and "d \<noteq> ''__platform__''"
  obtains rd where "caller_reader L aa (aw_members w) u d rd" "reader_of L (user_context_to_dict u) = Inr rd"
proof (cases "service_client (aa_config aa) u")
  case True
  from service_clearance_cases [OF assms True] reader_of_member [of u "[]" None L] True that show thesis
    by (auto simp: caller_reader_def)
next
  case False
  obtain m where m: "entitled aa (aw_members w) u d m" "uc_clearance u = PStr (mb_clearance m)"
    "uc_domain_groups u = map PStr (mb_domain_groups m)"
    "uc_department u = (case mb_department m of None \<Rightarrow> PNone | Some x \<Rightarrow> PStr x)"
    by (rule entitled_membership [OF assms False])
  have "reader_of L (user_context_to_dict u) = Inr (member_reader (uc_user_id u) m)"
    using reader_of_member [OF m(3,4), of L] m(2) by (simp add: member_reader_def)
  then show thesis using that m(1) False by (auto simp: caller_reader_def)
qed

section \<open>Properties\<close>

text \<open>
  (C3) From the token to the text: for a chat request to a tenant, every chunk that is put before the
  model and logged is stored in that tenant, and is one that the caller may read today. What the caller
  may read is fixed when the request comes in: for a user by the active membership row in that tenant or,
  without one, by the clearance secret that a global role stands for or the default membership of an open
  tenant; for a service by the clearance of its service account.
\<close>

theorem chat_shows_only_what_membership_allows:
  assumes "chat aa cb uuids now latency rq d q conv w = (Inr r, w')"
    and "authorise aa rq d w = (Inr u, w1)" and "d \<noteq> ''__platform__''"
    and "dp_chat_log_writer (cb_deps cb)" and "dp_today (cb_deps cb) = Some t" and "valid_date t"
    and "dp_retrieve (cb_deps cb) = (\<lambda>dom query f cfg.
           retrieve (dp_lib (cb_deps cb)) embed_query (hybrid_query st) rerank dom query f (Some cfg))"
    and "rerank \<in> {None, Some mem_rerank, Some (tei_rerank (dp_lib (cb_deps cb)) post)}"
    and "store_reachable st"
    and "\<And>i pl. payloads st d i = Some pl \<Longrightarrow> carries_meta pl (meta i) \<and> meta_dates_valid (meta i)"
  shows "\<exists>rd p. caller_reader (dp_lib (cb_deps cb)) aa (aw_members (aq_auth w)) u d rd
    \<and> log_records (wl_log (aq_chat w')) = log_records (wl_log (aq_chat w)) @ [p]
    \<and> cl_user_id p = uc_user_id u \<and> cl_domain_id p = d
    \<and> (\<forall>e \<in> set (cl_retrieved_chunks p). \<exists>c excl. e = excerpt (chunk_to_dict c)
        \<and> payloads st d (ck_chunk_id c) = Some (ck_payload c)
        \<and> may_read rd (Some t) excl (meta (ck_chunk_id c)))"
proof -
  obtain a where v: "verify_and_extract aa (bearer_of rq) d (aq_auth w) = (Inr u, a)"
    by (rule authorise_Inr [OF assms(2)])
  obtain rd where m: "caller_reader (dp_lib (cb_deps cb)) aa (aw_members (aq_auth w)) u d rd"
    "reader_of (dp_lib (cb_deps cb)) (user_context_to_dict u) = Inr rd"
    by (rule caller_reader_of [OF v assms(3)])
  have c: "chat_structured cb uuids now latency d u q conv (aq_chat w) = (Inr r, aq_chat w')"
    using chat_Inr [OF assms(1)] assms(2) by (metis Pair_inject sum.inject(2))
  obtain s config trace where run: "run_chat_structured_full ((cb_deps cb)\<lparr>dp_config_loader := \<lambda>_. config\<rparr>)
       (initial_state (uuids 0) d (uc_user_id u) (Some (str_or conv (uuids 1))) q
          (load_history (dp_lib (cb_deps cb)) (cb_reader cb) d (str_or conv (uuids 1)) (conv \<noteq> None) (wl_log (aq_chat w)))
          (user_context_to_dict u) (Some (cb_default_model cb))) (wl_log (aq_chat w)) = Inr (trace, s, wl_log (aq_chat w'))"
    and p: "log_records (wl_log (aq_chat w')) = log_records (wl_log (aq_chat w)) @ [chat_log_payload_of s]"
      "cl_domain_id (chat_log_payload_of s) = d" "cl_user_id (chat_log_payload_of s) = uc_user_id u"
    by (rule chat_record [OF c assms(4)])
  let ?deps = "(cb_deps cb)\<lparr>dp_config_loader := \<lambda>_. config\<rparr>"
  have rd: "reader_of (dp_lib ?deps) (user_context_to_dict u) = Inr rd" using m(2) by simp
  have deps: "dp_today ?deps = Some t" "dp_retrieve ?deps = (\<lambda>dom query f cfg.
           retrieve (dp_lib ?deps) embed_query (hybrid_query st) rerank dom query f (Some cfg))"
    "rerank \<in> {None, Some mem_rerank, Some (tei_rerank (dp_lib ?deps) post)}"
    using assms(5,7,8) by simp_all
  have chunk: "\<exists>c excl. ctx = chunk_to_dict c \<and> payloads st d (ck_chunk_id c) = Some (ck_payload c)
      \<and> may_read rd (Some t) excl (meta (ck_chunk_id c))" if "ctx \<in> set (s_final_contexts s)" for ctx
    by (rule run_chat_contexts_authorised [OF run rd deps(1) assms(6) deps(2,3) assms(9,10) that])
  have "set (cl_retrieved_chunks (chat_log_payload_of s)) = excerpt ` set (s_final_contexts s)"
    by (simp add: chat_log_payload_of_def)
  with m(1) p chunk show ?thesis by blast
qed

text \<open>
  A foreign conversation can be read: a user who sends a chat with the identifier of another user's
  conversation owns a conversation of that identifier from then on, and reading it returns the
  questions and answers of the other user.
\<close>

theorem foreign_conversation_disclosed:
  assumes "chat_structured cb uuids now latency d u q (Some cid) wl = (Inr r, wl')"
    and "dp_chat_log_writer (cb_deps cb)" and "cid \<noteq> []" and "cid \<notin> cr_deleted rp"
    and "p \<in> set (log_records (wl_log wl))" and "cl_domain_id p = d" and "cl_conversation_id p = Some cid"
    and "length (log_records (wl_log wl)) < 100"
  shows "\<exists>c msgs. conversation_detail L d (uc_user_id u) cid (wl_log wl') rp = Inr (c, msgs)
    \<and> set (record_messages p) \<subseteq> set msgs"
proof -
  have cid: "str_or (Some cid) (uuids 1) = cid" using assms(3) by (simp add: str_or_def)
  obtain s where s: "log_records (wl_log wl') = log_records (wl_log wl) @ [chat_log_payload_of s]"
    "cl_domain_id (chat_log_payload_of s) = d" "cl_user_id (chat_log_payload_of s) = uc_user_id u"
    "cl_conversation_id (chat_log_payload_of s) = Some cid"
    by (rule chat_record [OF assms(1,2), unfolded cid])
  let ?rows = "filter (\<lambda>p. cl_domain_id p = d \<and> cl_conversation_id p = Some cid) (log_records (wl_log wl'))"
  have "in_conversation rp d (uc_user_id u) (chat_log_payload_of s)"
    using s assms(3,4) by (simp add: in_conversation_def truthy_str_def)
  then obtain c where c: "get_conv d (uc_user_id u) cid (wl_log wl') rp = Some c"
    using s assms(4) by (auto simp: get_conv_iff)
  have "length ?rows \<le> length (log_records (wl_log wl'))" by (rule length_filter_le)
  then have "last_n 100 ?rows = ?rows" using s(1) assms(8) by (intro last_n_all) simp
  moreover have "p \<in> set ?rows" using assms(5-7) s(1) by simp
  ultimately have "set (record_messages p) \<subseteq> set (list_messages L d cid (wl_log wl'))"
    unfolding list_messages_all by auto
  with c show ?thesis by (simp add: conversation_detail_def)
qed

end
