(* ===== verification/Graph_Examples.thy ===== *)
theory Graph_Examples
  imports Graph
begin

text \<open>
  Concrete runs of the chat graph, which show that the properties of \<open>Graph\<close> apply: a conversational
  answer after Gate 1 failed, a grounded answer that passes Gate 2, and a blocked question.
\<close>

section \<open>Examples\<close>

definition ex_generation :: generation_service where
  "ex_generation = \<lparr>gs_llm = (\<lambda>_. Inr ''hello''), gs_prompt = \<lparr>gp_system = [], gp_user = [], gp_response_schema = PNone\<rparr>,
     gs_model = ''m'', gs_max_tokens = 1024, gs_temperature = 0.2, gs_prompt_provider = None,
     gs_conversational_system = ''s''\<rparr>"

definition ex_no_assessment :: assessment_deps where
  "ex_no_assessment = \<lparr>ad_lib = ex_lib, ad_generate = None, ad_figure = None, ad_summary = None, ad_counts = (\<lambda>_ _. [])\<rparr>"

definition ex_deps :: rag_deps where
  "ex_deps = \<lparr>dp_lib = ex_lib, dp_jinja = ex_jinja,
     dp_retrieve = (\<lambda>dom query f cfg. retrieve ex_lib (\<lambda>_. Inr ([1], [])) (hybrid_query ex_domain) None dom query f (Some cfg)),
     dp_generation = ex_generation, dp_config_loader = (\<lambda>_. Inr PNone), dp_today = Some ex_today,
     dp_embed_batch = ex_embed (\<lambda>_. [1]), dp_uuid = (\<lambda>_. ''id''), dp_judge = None, dp_chat_log_writer = True,
     dp_query_classifier = None, dp_model_router = False, dp_pii = None, dp_conflict_detector = None,
     dp_finditer = (\<lambda>_ _. []), dp_query_rewriter = None, dp_assessment = ex_no_assessment\<rparr>"

definition ex_user :: pyval where
  "ex_user = PDict [(''user_id'', PStr ''kim''), (''clearance'', PStr ''internal''),
     (''domain_groups'', PList [PStr ''hr''])]"

definition ex_log :: chat_log where
  "ex_log = \<lparr>log_records = [], log_conv_counter = 0\<rparr>"

lemma ex_reader_of: "reader_of ex_lib ex_user = Inr ex_reader"
  by (simp add: reader_of_def ex_user_def ex_reader_def pyval_simps)

lemma ex_chat_retrieve:
  "\<exists>res c. retrieve ex_lib (\<lambda>_. Inr ([1], [])) (hybrid_query ex_domain) None ''a'' ''leave''
     (Some (build_qdrant_acl_filter ''kim'' ''internal'' None [''hr''] (Some ex_today) True))
     (Some \<lparr>rc_fused_top_k = 50, rc_rerank_top_k = 10, rc_context_top_k = 5, rc_reranker_bypass = False\<rparr>) = Inr res
     \<and> rr_contexts res = [c] \<and> rr_reranked res = [c] \<and> ck_rerank_score c = None \<and> ck_fused_score c = 1 / 2"
  using ex_filter_accepts
  by (simp add: retrieve_def hybrid_query_def coll_def ex_domain_def ex_coll_def ex_point_def ex_reader_def
      slice_to_def sort_desc_def hits_to_retrieved_chunks_def Let_def cosine_def dot_product_def
      norm_or_one_def sparse_dot_def)

lemma ex_next:
  assumes "run_node deps n sw = Inr sw'" and "next_node n (fst sw') = Some m"
    and "\<exists>trace res. run_from deps m sw' = Inr (trace, res) \<and> Q res"
  shows "\<exists>trace res. run_from deps n sw = Inr (trace, res) \<and> Q res"
  using assms by (subst run_from.simps) auto

lemma ex_end: "Q (save_chat_log_node deps sw) \<Longrightarrow> \<exists>trace res. run_from deps SaveChatLog sw = Inr (trace, res) \<and> Q res"
  by (subst run_from.simps) auto

definition ex_state :: rag_state where
  "ex_state = initial_state ''r'' ''a'' ''u'' None ''leave'' [] ex_user None"

lemmas routers = check_input_pii_router_def assessment_intent_router_def gate_1_full_router_def
  post_mask_grounding_router_def gate_2_router_def

lemmas node_eval = pure_node_def tenant_resolver_node_def load_tenant_config_node_def load_config_def
  check_input_pii_node_def build_acl_filter_node_def classify_query_node_def model_router_node_def
  query_rewrite_node_def retrieve_context_node_def retrieval_config_from_tenant_def gate_1_node_def
  gate1_thresholds_def generate_ungrounded_node_def generate_conversational_def
  format_history_def mask_response_pii_node_def pyval_simps Let_def

lemma gate1_fused: "ck_rerank_score c = None \<Longrightarrow> gate1_score L (chunk_to_dict c) = Inr (ck_fused_score c)"
  by (simp add: gate1_score_def chunk_to_dict_def dget_def opt_real_def py_or_def)

lemma ex_run_ungrounded:
  "\<exists>trace res. run_from ex_deps TenantResolver (ex_state, ex_log) = Inr (trace, res)
     \<and> s_grounding (fst res) = ''ungrounded'' \<and> s_final_contexts (fst res) \<noteq> []"
proof -
  obtain r c where r: "retrieve ex_lib (\<lambda>_. Inr ([1], [])) (hybrid_query ex_domain) None ''a'' ''leave''
     (Some (build_qdrant_acl_filter ''kim'' ''internal'' None [''hr''] (Some ex_today) True))
     (Some \<lparr>rc_fused_top_k = 50, rc_rerank_top_k = 10, rc_context_top_k = 5, rc_reranker_bypass = False\<rparr>) = Inr r"
    "rr_contexts r = [c]" "rr_reranked r = [c]" "ck_rerank_score c = None" "ck_fused_score c = 1 / 2"
    using ex_chat_retrieve by blast
  show ?thesis
    unfolding ex_state_def initial_state_def ex_deps_def ex_user_def
    by ((rule ex_end, simp add: save_chat_log_node_def write_chat_log_def chat_log_payload_of_def Let_def)
      | (rule ex_next, simp add: node_eval r gate1_fused ex_generation_def del: bind_res_eq_Inr,
          simp add: routers))+
qed

lemma ex_run_full:
  obtains trace s' w' where "run_chat_structured_full ex_deps ex_state ex_log = Inr (trace, s', w')"
    "s_grounding s' = ''ungrounded''" "s_final_contexts s' \<noteq> []"
  using ex_run_ungrounded by (auto simp: run_chat_structured_full_def)

theorem every_run_logged_witness:
  "\<exists>trace s' w'. run_chat_structured_full ex_deps ex_state ex_log = Inr (trace, s', w') \<and> length (log_records w') = 1"
proof -
  obtain trace s' w' where r: "run_chat_structured_full ex_deps ex_state ex_log = Inr (trace, s', w')"
    by (rule ex_run_full)
  have "dp_chat_log_writer ex_deps" by (simp add: ex_deps_def)
  from every_run_logged [OF r this] r show ?thesis by (auto simp: ex_log_def)
qed

theorem ungrounded_cites_nothing_witness:
  "\<exists>trace s' w'. run_chat_structured_full ex_deps ex_state ex_log = Inr (trace, s', w') \<and> s_citations s' = []"
proof -
  obtain trace s' w' where r: "run_chat_structured_full ex_deps ex_state ex_log = Inr (trace, s', w')"
      "s_grounding s' = ''ungrounded''" "s_final_contexts s' \<noteq> []"
    by (rule ex_run_full)
  from ungrounded_cites_nothing [OF r(1) [unfolded ex_state_def]] r show ?thesis by auto
qed

theorem chat_contexts_authorised_witness:
  "\<exists>trace s' w' c excl. run_chat_structured_full ex_deps ex_state ex_log = Inr (trace, s', w')
     \<and> chunk_to_dict c \<in> set (s_final_contexts s')
     \<and> payloads ex_domain ''a'' (ck_chunk_id c) = Some (ck_payload c)
     \<and> may_read ex_reader (Some ex_today) excl ex_meta"
proof -
  obtain trace s' w' where r: "run_chat_structured_full ex_deps ex_state ex_log = Inr (trace, s', w')"
      "s_grounding s' = ''ungrounded''" "s_final_contexts s' \<noteq> []"
    by (rule ex_run_full)
  then obtain ctx where ctx: "ctx \<in> set (s_final_contexts s')" by (metis list.set_intros(1) neq_Nil_conv)
  have d: "reader_of (dp_lib ex_deps) ex_user = Inr ex_reader" "dp_today ex_deps = Some ex_today"
      "dp_retrieve ex_deps = (\<lambda>dom query f cfg. retrieve (dp_lib ex_deps) (\<lambda>_. Inr ([1], []))
         (hybrid_query ex_domain) None dom query f (Some cfg))"
    by (simp_all add: ex_deps_def ex_reader_of)
  have pm: "payloads ex_domain ''a'' i = Some pl \<Longrightarrow>
      carries_meta pl ((\<lambda>_. ex_meta) i) \<and> meta_dates_valid ((\<lambda>_. ex_meta) i)" for i pl
    using ex_domain_payloads ex_access by blast
  have "\<exists>c excl. ctx = chunk_to_dict c \<and> payloads ex_domain ''a'' (ck_chunk_id c) = Some (ck_payload c)
      \<and> may_read ex_reader (Some ex_today) excl ex_meta"
    by (rule chat_contexts_authorised [OF r(1) [unfolded ex_state_def] d(1,2) ex_access(3) d(3) _
          ex_domain_reachable pm ctx]) simp
  with r(1) ctx show ?thesis by blast
qed

section \<open>A grounded answer\<close>

definition ex_chunks :: "retrieved_chunk list" where
  "ex_chunks = [ex_chunk ''c'' ''claim'', ex_chunk ''d'' ''claim'']"

definition ex_dicts :: "pydict list" where
  "ex_dicts = map chunk_to_dict ex_chunks"

definition ex_json_lib :: pylib where
  "ex_json_lib = ex_lib\<lparr>json_loads := (\<lambda>_. Inr (PDict [(''answer_segments'', PList ex_raws)]))\<rparr>"

definition ex_grounded_deps :: rag_deps where
  "ex_grounded_deps = ex_deps\<lparr>dp_lib := ex_json_lib,
     dp_retrieve := (\<lambda>_ _ _ _. Inr \<lparr>rr_fused = ex_chunks, rr_reranked = ex_chunks, rr_contexts = ex_chunks\<rparr>)\<rparr>"

lemma ex_chunks_back: "map_res (dict_to_chunk L) ex_dicts = Inr ex_chunks"
  by (simp add: ex_dicts_def ex_chunks_def chunk_round_trip ex_chunk_def del: bind_res_eq_Inr)

lemma ex_dicts_facts: "ex_dicts \<noteq> []" "length ex_dicts = 2" "map chunk_to_dict ex_chunks = ex_dicts"
  "map_res (gate1_score L) ex_dicts = Inr [0.9, 0.9]"
  by (simp_all add: ex_dicts_def ex_chunks_def gate1_score_def chunk_to_dict_def dget_def opt_real_def
      ex_chunk_def del: bind_res_eq_Inr)

lemma ex_json_lib_simps: "json_loads ex_json_lib raw = Inr (PDict [(''answer_segments'', PList ex_raws)])"
  by (simp add: ex_json_lib_def)

definition ex_parsed :: segment where
  "ex_parsed = \<lparr>seg_index = 0, seg_text = ''claim'', seg_citations = [1, 7], seg_support_type = PStr ''direct'',
     seg_inference_chain = PNone, seg_conflict_groups = PNone, seg_citation_meta = Map.empty,
     seg_downgraded = False, seg_downgrade_reason = None, seg_pending_judge = False,
     seg_judge_reasoning = None, seg_judge_caveat = PNone, seg_conflict_signal = None\<rparr>"

lemma ex_parse: "parse_segments L ex_raws = Inr [ex_parsed]"
  by (simp add: parse_segments_def parse_segment_def ex_raws_def pyval_simps normalize_support_type_def
      List.map_filter_def ex_parsed_def del: bind_res_eq_Inr)

lemma ex_filtered: "tier1_filter [ex_parsed] 2 = ([ex_parsed\<lparr>seg_citations := [1]\<rparr>], 1)"
  by (simp add: tier1_filter_def ex_parsed_def in_context_def Let_def)

lemma ex_from_config: "from_config ex_json_lib PNone = Inr default_thresholds"
  by (simp add: from_config_def pyval_simps default_thresholds_def ex_json_lib_def Let_def del: bind_res_eq_Inr)

definition ex_verified_seg :: segment where
  "ex_verified_seg = ex_parsed\<lparr>seg_citations := [1], seg_citation_meta := [1 \<mapsto> \<lparr>vc_segment_index = 0,
     vc_chunk_index = 1, vc_similarity = 1, vc_support_level = Strong, vc_verified = True\<rparr>]\<rparr>"

lemma ex_tier2:
  "\<exists>as avg. tier2_classify (ex_embed (\<lambda>_. [1])) [ex_parsed\<lparr>seg_citations := [1]\<rparr>] ex_chunks default_thresholds
     = Inr ([ex_verified_seg], as, avg)"
  unfolding tier2_ex
  by (simp add: verifier_eval ex_parsed_def ex_chunks_def ex_chunk_def List.map_filter_def ex_verified_seg_def
      fun_eq_iff del: bind_res_eq_Inr)

lemma ex_assembled:
  "\<exists>cits types. assemble_citations (\<lambda>_. ''id'') [ex_verified_seg] ex_chunks ''a'' = (cits, types)
     \<and> verified_citations cits = 1 \<and> compute_confidence [ex_verified_seg] cits ex_chunks 0 default_thresholds = 0.97"
  by (simp add: assemble_citations_def assemble_slots_def ex_verified_seg_def ex_parsed_def ex_chunks_def
      make_citation_def in_context_def Let_def verified_citations_def compute_confidence_def max_list0_def
      chunk_score_def clamp01_def ex_chunk_def default_thresholds_def)

lemma ex_unsupported: "tier3_unsupported [ex_verified_seg] = ([], 0)"
  by (simp add: tier3_unsupported_def ex_verified_seg_def ex_parsed_def Let_def)

lemmas grounded_eval = generate_answer_node_def final_contexts_as_chunks_def generation_steps_def
  generate_structured_def render_generation_def effective_prompt_def ex_jinja_def ex_generation_def
  parse_generation_def ex_json_lib_simps chain_outcome_def parse_response_node_def ex_parse
  verify_tier1_node_def ex_filtered detect_conflict_heuristic_node_def conflict_detector_for_def
  config_entry_def verify_tier2_node_def thresholds_from_state_def ex_from_config
  judge_inference_node_def detect_unsupported_node_def ex_unsupported assemble_response_node_def
  compute_confidence_node_def gate_2_node_def evaluate_gate_2_def ex_chunks_back ex_dicts_facts str_or_def

lemma ex_run_grounded:
  "\<exists>trace res. run_from ex_grounded_deps TenantResolver (ex_state, ex_log) = Inr (trace, res)
     \<and> s_grounding (fst res) = ''grounded'' \<and> s_fallback_reason (fst res) = None
     \<and> s_tenant_config (fst res) = PDict []"
proof -
  obtain as avg where t2: "tier2_classify (ex_embed (\<lambda>_. [1])) [ex_parsed\<lparr>seg_citations := [1]\<rparr>] ex_chunks
      default_thresholds = Inr ([ex_verified_seg], as, avg)"
    using ex_tier2 by blast
  obtain cits types where c: "assemble_citations (\<lambda>_. ''id'') [ex_verified_seg] ex_chunks ''a'' = (cits, types)"
      "verified_citations cits = 1" "compute_confidence [ex_verified_seg] cits ex_chunks 0 default_thresholds = 0.97"
    using ex_assembled by blast
  have d: "min_verified_count default_thresholds = 1" "max_unsupported_ratio default_thresholds = 0.5"
      "min_confidence default_thresholds = 0.5" "ex_raws \<noteq> []"
    by (simp_all add: default_thresholds_def ex_raws_def)
  show ?thesis
    unfolding ex_state_def initial_state_def ex_grounded_deps_def ex_deps_def ex_user_def
    by ((rule ex_end, simp add: save_chat_log_node_def write_chat_log_def chat_log_payload_of_def Let_def)
      | (rule ex_next, simp add: node_eval grounded_eval t2 c d del: bind_res_eq_Inr,
          simp add: routers))+
qed

theorem grounded_success_is_verified_witness:
  "\<exists>trace s' w'. run_chat_structured_full ex_grounded_deps ex_state ex_log = Inr (trace, s', w')
     \<and> 1 \<le> count_if (\<lambda>c. cit_verified c = Some True) (s_citations s')"
proof -
  obtain trace s' w' where r: "run_chat_structured_full ex_grounded_deps ex_state ex_log = Inr (trace, s', w')"
      "s_grounding s' = ''grounded''" "s_fallback_reason s' = None" "s_tenant_config s' = PDict []"
    using ex_run_grounded by (auto simp: run_chat_structured_full_def)
  have t: "thresholds_from_state (dp_lib ex_grounded_deps) s' = Inr default_thresholds"
    using r(4) by (simp add: thresholds_from_state_def config_entry_def ex_from_config ex_grounded_deps_def pyval_simps)
  from grounded_success_is_verified [OF r(1) [unfolded ex_state_def] r(2,3)] r(1) t show ?thesis
    by (auto simp: default_thresholds_def)
qed

section \<open>A blocked question\<close>

definition ex_blocking_deps :: rag_deps where
  "ex_blocking_deps = ex_deps\<lparr>dp_pii := Some ex_det,
     dp_config_loader := (\<lambda>_. Inr (PDict [(''pii'', PDict [(''severity_map'', PDict [(''phone'', PStr ''high'')])])]))\<rparr>"

definition ex_pii_state :: rag_state where
  "ex_pii_state = initial_state ''r'' ''a'' ''u'' None ''call 0199 now'' [] ex_user None"

lemmas pii_eval = check_input_def ex_det_def regex_detector_def ex_scan assess_finding_def
  resolve_severity_def resolve_action_def ACTION_KEYS_def or_empty_dict_def mask_for_storage_def
  masked_findings_def plain_approved_of_def mask_def fallback_node_def ex_lib_def

lemma ex_run_blocked:
  "\<exists>trace res. run_from ex_blocking_deps TenantResolver (ex_pii_state, ex_log) = Inr (trace, res)
     \<and> s_input_blocked (fst res)"
  unfolding ex_pii_state_def initial_state_def ex_blocking_deps_def ex_deps_def ex_user_def
  by ((rule ex_end, simp add: save_chat_log_node_def write_chat_log_def chat_log_payload_of_def Let_def)
    | (rule ex_next, simp add: node_eval pii_eval config_entry_def del: bind_res_eq_Inr, simp add: routers))+

theorem blocked_question_goes_no_further_witness:
  "\<exists>trace s' w'. run_chat_structured_full ex_blocking_deps ex_pii_state ex_log = Inr (trace, s', w')
     \<and> s_final_answer s' = FALLBACK_INPUT_PII_TEXT \<and> s_selected_model s' = None"
proof -
  obtain trace s' w' where r: "run_chat_structured_full ex_blocking_deps ex_pii_state ex_log = Inr (trace, s', w')"
      "s_input_blocked s'"
    using ex_run_blocked by (auto simp: run_chat_structured_full_def)
  from blocked_question_goes_no_further [OF r(1) [unfolded ex_pii_state_def] r(2)] r(1) show ?thesis by blast
qed

end
