(* ===== verification/Chat_Examples.thy ===== *)
theory Chat_Examples
  imports Chat_Service Graph_Examples
begin

text \<open>
  A chat request from the tenant's configuration to the response, at a tenant under a strict
  compliance mode whose storage policy is plain, with and without an approval; and what the response
  of that request shows about masking.
\<close>

section \<open>The tenant\<close>

definition ex_chat_disk :: config_disk where
  "ex_chat_disk = \<lparr>dk_platform = (\<lambda>cat. if cat = ''pii'' then Some (Inr (PDict [(''storage'',
       PDict [(''pii_storage_policy'', PStr ''plain'')])])) else None),
     dk_tenant = (\<lambda>_. Some (Inr (PDict [(''compliance_mode'', PStr ''gdpr_strict'')])))\<rparr>"

definition ex_chat_deps :: rag_deps where
  "ex_chat_deps = ex_deps\<lparr>dp_pii := Some ex_det, dp_retrieve := (\<lambda>_ _ _ _. Inl ValueError),
     dp_generation := ex_generation\<lparr>gs_llm := (\<lambda>_. Inr ''call 0199 now'')\<rparr>\<rparr>"

definition ex_backend :: chat_backend where
  "ex_backend = \<lparr>cb_deps = ex_chat_deps, cb_default_model = ''m'', cb_ledger = False, cb_reader = True,
     cb_disk = ex_chat_disk\<rparr>"

definition ex_world :: "approval_service \<Rightarrow> chat_world" where
  "ex_world ap = \<lparr>wl_log = ex_log, wl_config = empty_service, wl_approvals = ap, wl_blocks = []\<rparr>"

definition ex_kim :: user_context where
  "ex_kim = \<lparr>uc_user_id = ''kim'', uc_domain_id = ''t'', uc_roles = [], uc_clearance = PStr ''internal'',
     uc_department = PNone, uc_domain_groups = [PStr ''hr''], uc_preferred_username = PNone, uc_email = PNone,
     uc_raw_claims = []\<rparr>"

abbreviation ex_chat :: "approval_service \<Rightarrow> chat_response res \<times> chat_world" where
  "ex_chat ap \<equiv> chat_structured ex_backend (\<lambda>n. if n = 0 then ''r'' else ''c'') 5 12 ''t'' ex_kim ''call 0199 now'' None (ex_world ap)"

definition ex_chat_tc :: pydict where
  "ex_chat_tc = projr (load_from_disk ex_chat_disk ''t'')"

definition ex_chat_cfg :: "bool \<Rightarrow> pydict" where
  "ex_chat_cfg b = map (\<lambda>cat. (cat, if cat = ''pii'' then PDict [(''storage'',
       PDict [(''pii_storage_policy'', PStr ''plain''), (''plain_approved'', PBool b)])] else PDict [])) CONFIG_CATEGORIES"

lemma ex_chat_tc: "fst (load ex_chat_disk 5 5 ''t'' empty_service) = Inr ex_chat_tc"
  by (simp add: load_def cached_config_def empty_service_def runtime_of_def fresh_config_def) code_simp

lemma ex_chat_tc_eq:
  "ex_chat_tc = (''domain_id'', PStr ''t'') # map (\<lambda>cat. (cat, if cat = ''pii'' then PDict [(''storage'',
       PDict [(''pii_storage_policy'', PStr ''plain'')])] else PDict [])) CONFIG_CATEGORIES
     @ [(''compliance_mode'', PStr ''gdpr_strict''), (''_sources'', PDict [])]"
  by code_simp

lemma ex_chat_tc_facts:
  "dget ex_chat_tc ''compliance_mode'' PNone = PStr ''gdpr_strict''"
  "storage_policy ex_lib ex_chat_tc = ''plain''"
  "approved_pii b (dget ex_chat_tc ''pii'' PNone) = Inr (dget (ex_chat_cfg b) ''pii'' PNone)"
  "dict_put ''pii'' (dget (ex_chat_cfg b) ''pii'' PNone) (config_to_dict ex_chat_tc) = ex_chat_cfg b"
  by (simp_all add: ex_chat_tc_eq dget_def storage_policy_def dict_or_empty_def ex_lib_def approved_pii_def
      ex_chat_cfg_def CONFIG_CATEGORIES_def config_to_dict_def)

lemma ex_loader: "fst (config_loader ex_chat_disk ap 5 ''t'' empty_service) = Inr (PDict (ex_chat_cfg (is_plain_approved 5 ''t'' ap)))"
  using ex_chat_tc
  by (auto simp: config_loader_def ex_chat_tc_facts split: prod.splits)


abbreviation ex_chat_state :: rag_state where
  "ex_chat_state \<equiv> initial_state ''r'' ''t'' ''kim'' (Some ''c'') ''call 0199 now'' [] (user_context_to_dict ex_kim) (Some ''m'')"

abbreviation ex_chat_run_deps :: "bool \<Rightarrow> rag_deps" where
  "ex_chat_run_deps b \<equiv> ex_chat_deps\<lparr>dp_config_loader := \<lambda>_. Inr (PDict (ex_chat_cfg b))\<rparr>"

abbreviation ex_pii_cfg :: "bool \<Rightarrow> pyval" where
  "ex_pii_cfg b \<equiv> PDict [(''storage'', PDict [(''pii_storage_policy'', PStr ''plain''), (''plain_approved'', PBool b)])]"

lemma ex_chat_cfg_facts:
  "map_of (ex_chat_cfg b) ''pii'' = Some (ex_pii_cfg b)" "map_of (ex_chat_cfg b) ''compliance_mode'' = None"
  "map_of (ex_chat_cfg b) ''citation'' = Some (PDict [])" "map_of (ex_chat_cfg b) ''retrieval'' = Some (PDict [])"
  "ex_chat_cfg b \<noteq> []"
  by (simp_all add: ex_chat_cfg_def CONFIG_CATEGORIES_def)

definition ex_input_check :: input_pii_check where
  "ex_input_check = projr (check_input ex_det ''call 0199 now'' (ex_pii_cfg True))"

lemma ex_check_input:
  "check_input ex_det ''call 0199 now'' (ex_pii_cfg b) = Inr ex_input_check" "\<not> ip_blocked ex_input_check"
  by (simp_all add: ex_input_check_def pyval_simps pii_eval del: bind_res_eq_Inr)

lemma ex_mask_text: "fst (pd_mask ex_det ''call 0199 now'') = ''call 0*-* now''"
  by code_simp

lemma ex_mask_storage:
  "plain_approved_of (ex_pii_cfg b) = Inr b"
  "\<exists>st. mask_for_storage ex_lib ex_det ''call 0199 now'' (ex_pii_cfg b) (Some ''standard'') b = Inr st"
  "\<exists>fs. mask_output ex_det ''call 0199 now'' (ex_pii_cfg b) = Inr \<lparr>op_masked_text = ''call 0*-* now'', op_findings = fs\<rparr>
     \<and> fs \<noteq> []"
  using ex_mask_text
  by (simp_all add: pyval_simps pii_eval mask_output_def Let_def del: bind_res_eq_Inr)

lemma ex_lib_simps: "py_str ex_lib (PStr t) = t" "lower_of ex_lib t = t"
  by (simp_all add: ex_lib_def)

lemma ex_answer_stripped: "py_strip ''call 0199 now'' = ''call 0199 now''"
  by code_simp

lemma store_question_if:
  "(if c then s\<lparr>s_question_for_storage := t\<rparr> else s) = s\<lparr>s_question_for_storage := if c then t else s_question_for_storage s\<rparr>"
  by simp

lemma ex_chat_run:
  "\<exists>trace res. run_from (ex_chat_run_deps b) TenantResolver (ex_chat_state, ex_log) = Inr (trace, res)
     \<and> s_final_answer (fst res) = ''call 0*-* now'' \<and> s_fallback_reason (fst res) = None
     \<and> segment_texts (s_answer_segments (fst res)) = Inr ''call 0199 now''"
proof -
  obtain st fs where e: "mask_for_storage ex_lib ex_det ''call 0199 now'' (ex_pii_cfg b) (Some ''standard'') b = Inr st"
    "mask_output ex_det ''call 0199 now'' (ex_pii_cfg b) = Inr \<lparr>op_masked_text = ''call 0*-* now'', op_findings = fs\<rparr>"
    "fs \<noteq> []"
    using ex_mask_storage by blast
  show ?thesis
    unfolding ex_chat_deps_def initial_state_def ex_deps_def user_context_to_dict_def ex_kim_def ex_generation_def
    by ((rule ex_end, simp add: save_chat_log_node_def write_chat_log_def chat_log_payload_of_def Let_def
          plain_segment_def dget_def)
      | (rule ex_next, simp add: node_eval ex_check_input ex_mask_storage(1) e config_entry_def
          ex_chat_cfg_facts ex_lib_simps store_question_if ex_answer_stripped del: bind_res_eq_Inr, simp add: routers))+
qed

lemma ex_chat_result:
  "\<exists>r wl'. ex_chat ap = (Inr r, wl') \<and> rp_status r = ''success'' \<and> rp_answer r = ''call 0*-* now''
     \<and> (\<exists>segs. rp_answer_segments r = Some segs \<and> segment_texts segs = Inr ''call 0199 now'')"
proof -
  let ?b = "is_plain_approved 5 ''t'' ap"
  obtain trace s w where r: "run_chat_structured_full (ex_chat_run_deps ?b) ex_chat_state ex_log = Inr (trace, s, w)"
    "s_final_answer s = ''call 0*-* now''" "s_fallback_reason s = None"
    "segment_texts (s_answer_segments s) = Inr ''call 0199 now''"
    using ex_chat_run [of ?b] by (auto simp: run_chat_structured_full_def)
  obtain cs where l: "config_loader ex_chat_disk ap 5 ''t'' empty_service = (Inr (PDict (ex_chat_cfg ?b)), cs)"
    using ex_loader by (metis prod.collapse)
  have h: "load_history L R d c False w' = []" for L R d c w' by (simp add: load_history_def)
  show ?thesis
    using r by (simp add: chat_structured_def ex_backend_def ex_world_def l h build_chat_response_def str_or_def Let_def truthy_str_def
        ex_kim_def [THEN arg_cong [of _ _ uc_user_id]])
qed

section \<open>A grounded and a blocked request\<close>

definition ex_disk_a :: config_disk where
  "ex_disk_a = \<lparr>dk_platform = (\<lambda>_. None), dk_tenant = (\<lambda>_. None)\<rparr>"

definition ex_cfg_a :: pydict where
  "ex_cfg_a = map (\<lambda>cat. (cat, if cat = ''pii'' then PDict [(''storage'', PDict [(''plain_approved'', PBool False)])] else PDict []))
     CONFIG_CATEGORIES"

lemma ex_loader_a: "fst (config_loader ex_disk_a (no_approvals False) 5 ''a'' empty_service) = Inr (PDict ex_cfg_a)"
  by code_simp

lemma ex_cfg_a_facts:
  "map_of ex_cfg_a ''citation'' = Some (PDict [])" "map_of ex_cfg_a ''retrieval'' = Some (PDict [])" "ex_cfg_a \<noteq> []"
  by (simp_all add: ex_cfg_a_def CONFIG_CATEGORIES_def)

definition ex_grounded_backend :: chat_backend where
  "ex_grounded_backend = \<lparr>cb_deps = ex_grounded_deps, cb_default_model = ''m'', cb_ledger = False, cb_reader = True, cb_disk = ex_disk_a\<rparr>"

abbreviation ex_grounded_chat :: "chat_response res \<times> chat_world" where
  "ex_grounded_chat \<equiv> chat_structured ex_grounded_backend (\<lambda>n. if n = 0 then ''r'' else ''c'') 5 12 ''a'' ex_kim ''leave'' None
     (ex_world (no_approvals False))"

lemma ex_from_empty_config: "from_config ex_json_lib (PDict []) = Inr default_thresholds"
  by (simp add: from_config_def pyval_simps default_thresholds_def ex_json_lib_def Let_def del: bind_res_eq_Inr)

abbreviation ex_grounded_state :: rag_state where
  "ex_grounded_state \<equiv> initial_state ''r'' ''a'' ''kim'' (Some ''c'') ''leave'' [] (user_context_to_dict ex_kim) (Some ''m'')"

lemma ex_verified_text: "seg_text ex_verified_seg = ''claim''"
  by (simp add: ex_verified_seg_def ex_parsed_def)

lemma ex_grounded_run:
  "\<exists>trace res. run_from (ex_grounded_deps\<lparr>dp_config_loader := \<lambda>_. Inr (PDict ex_cfg_a)\<rparr>) TenantResolver (ex_grounded_state, ex_log) = Inr (trace, res)
     \<and> s_grounding (fst res) = ''grounded'' \<and> s_fallback_reason (fst res) = None \<and> s_final_answer (fst res) = ''claim''"
proof -
  obtain as avg where t2: "tier2_classify (ex_embed (\<lambda>_. [1])) [ex_parsed\<lparr>seg_citations := [1]\<rparr>] ex_chunks
      default_thresholds = Inr ([ex_verified_seg], as, avg)"
    using ex_tier2 by blast
  obtain cits types where c: "assemble_citations (\<lambda>_. ''id'') [ex_verified_seg] ex_chunks ''a'' = (cits, types)"
      "verified_citations cits = 1" "compute_confidence [ex_verified_seg] cits ex_chunks 0 default_thresholds = 0.97"
    using ex_assembled by blast
  have d: "min_verified_count default_thresholds = 1" "max_unsupported_ratio default_thresholds = 0.5"
      "min_confidence default_thresholds = 0.5" "ex_raws \<noteq> []"
    by (simp_all add: default_thresholds_def ex_raws_def)
  show ?thesis
    unfolding initial_state_def ex_grounded_deps_def ex_deps_def user_context_to_dict_def ex_kim_def
    by ((rule ex_end, simp add: save_chat_log_node_def write_chat_log_def chat_log_payload_of_def Let_def ex_verified_text)
      | (rule ex_next, simp add: node_eval grounded_eval ex_cfg_a_facts ex_from_empty_config t2 c d del: bind_res_eq_Inr,
          simp add: routers))+
qed

lemma ex_grounded_result:
  "\<exists>r wl'. ex_grounded_chat = (Inr r, wl') \<and> rp_status r = ''success'' \<and> md_grounding (rp_metadata r) = ''grounded''"
proof -
  obtain trace s w where r: "run_chat_structured_full (ex_grounded_deps\<lparr>dp_config_loader := \<lambda>_. Inr (PDict ex_cfg_a)\<rparr>) ex_grounded_state ex_log = Inr (trace, s, w)"
    "s_grounding s = ''grounded''" "s_fallback_reason s = None" "s_final_answer s = ''claim''"
    using ex_grounded_run by (auto simp: run_chat_structured_full_def)
  obtain cs where l: "config_loader ex_disk_a (no_approvals False) 5 ''a'' empty_service = (Inr (PDict ex_cfg_a), cs)"
    using ex_loader_a by (metis prod.collapse)
  have h: "load_history L R d c False w' = []" for L R d c w' by (simp add: load_history_def)
  show ?thesis
    using r by (simp add: chat_structured_def ex_grounded_backend_def ex_world_def l h build_chat_response_def str_or_def Let_def truthy_str_def
        response_meta_of_def ex_kim_def [THEN arg_cong [of _ _ uc_user_id]])
qed

definition ex_disk_b :: config_disk where
  \<comment> \<open>phone numbers are of high severity\<close>
  "ex_disk_b = \<lparr>dk_platform = (\<lambda>cat. if cat = ''pii'' then Some (Inr (PDict [(''severity_map'', PDict [(''phone'', PStr ''high'')])])) else None),
     dk_tenant = (\<lambda>_. None)\<rparr>"

definition ex_blocked_backend :: chat_backend where
  "ex_blocked_backend = \<lparr>cb_deps = ex_deps\<lparr>dp_pii := Some ex_det\<rparr>, cb_default_model = ''m'', cb_ledger = False, cb_reader = True, cb_disk = ex_disk_b\<rparr>"

abbreviation ex_blocked_chat :: "chat_response res \<times> chat_world" where
  "ex_blocked_chat \<equiv> chat_structured ex_blocked_backend (\<lambda>n. if n = 0 then ''r'' else ''c'') 5 12 ''a'' ex_kim ''call 0199 now'' None
     (ex_world (no_approvals False))"

definition ex_cfg_b :: pydict where
  "ex_cfg_b = map (\<lambda>cat. (cat, if cat = ''pii'' then PDict [(''severity_map'', PDict [(''phone'', PStr ''high'')]),
     (''storage'', PDict [(''plain_approved'', PBool False)])] else PDict [])) CONFIG_CATEGORIES"

lemma ex_loader_b: "fst (config_loader ex_disk_b (no_approvals False) 5 ''a'' empty_service) = Inr (PDict ex_cfg_b)"
  by code_simp

lemma ex_cfg_b_facts:
  "map_of ex_cfg_b ''pii'' = Some (PDict [(''severity_map'', PDict [(''phone'', PStr ''high'')]), (''storage'', PDict [(''plain_approved'', PBool False)])])"
  "map_of ex_cfg_b ''compliance_mode'' = None" "ex_cfg_b \<noteq> []"
  by (simp_all add: ex_cfg_b_def CONFIG_CATEGORIES_def)

lemma ex_blocked_run:
  "\<exists>trace res. run_from (ex_deps\<lparr>dp_pii := Some ex_det, dp_config_loader := \<lambda>_. Inr (PDict ex_cfg_b)\<rparr>) TenantResolver
       (initial_state ''r'' ''a'' ''kim'' (Some ''c'') ''call 0199 now'' [] (user_context_to_dict ex_kim) (Some ''m''), ex_log) = Inr (trace, res)
     \<and> s_fallback_reason (fst res) = Some ''input_pii_blocked'' \<and> s_final_answer (fst res) = FALLBACK_INPUT_PII_TEXT"
  unfolding initial_state_def ex_deps_def user_context_to_dict_def ex_kim_def
  by ((rule ex_end, simp add: save_chat_log_node_def write_chat_log_def chat_log_payload_of_def Let_def)
    | (rule ex_next, simp add: node_eval pii_eval ex_cfg_b_facts config_entry_def str_or_def del: bind_res_eq_Inr, simp add: routers))+

lemma ex_blocked_result:
  "\<exists>r wl' trace s w. ex_blocked_chat = (Inr r, wl')
     \<and> request_run ex_blocked_backend (\<lambda>n. if n = 0 then ''r'' else ''c'') ''a'' ex_kim ''call 0199 now'' None ex_log (Inr (PDict ex_cfg_b)) = Inr (trace, s, w)
     \<and> s_fallback_reason s = Some ''input_pii_blocked''"
proof -
  obtain trace s w where r: "run_chat_structured_full (ex_deps\<lparr>dp_pii := Some ex_det, dp_config_loader := \<lambda>_. Inr (PDict ex_cfg_b)\<rparr>)
      (initial_state ''r'' ''a'' ''kim'' (Some ''c'') ''call 0199 now'' [] (user_context_to_dict ex_kim) (Some ''m'')) ex_log = Inr (trace, s, w)"
    "s_fallback_reason s = Some ''input_pii_blocked''" "s_final_answer s = FALLBACK_INPUT_PII_TEXT"
    using ex_blocked_run by (auto simp: run_chat_structured_full_def)
  obtain cs where l: "config_loader ex_disk_b (no_approvals False) 5 ''a'' empty_service = (Inr (PDict ex_cfg_b), cs)"
    using ex_loader_b by (metis prod.collapse)
  have h: "load_history L R d c False w' = []" for L R d c w' by (simp add: load_history_def)
  have t: "FALLBACK_INPUT_PII_TEXT \<noteq> []" by (simp add: FALLBACK_INPUT_PII_TEXT_def)
  have "request_run ex_blocked_backend (\<lambda>n. if n = 0 then ''r'' else ''c'') ''a'' ex_kim ''call 0199 now'' None ex_log (Inr (PDict ex_cfg_b)) = Inr (trace, s, w)"
    using r(1) by (simp add: request_run_def ex_blocked_backend_def h str_or_def ex_kim_def [THEN arg_cong [of _ _ uc_user_id]])
  moreover have "\<exists>r wl'. ex_blocked_chat = (Inr r, wl')"
    using r by (simp add: chat_structured_def ex_blocked_backend_def ex_world_def l h build_chat_response_def str_or_def Let_def t
        ex_kim_def [THEN arg_cong [of _ _ uc_user_id]])
  ultimately show ?thesis using r(2) by blast
qed

section \<open>Witnesses\<close>

lemma ex_backend_facts:
  "cb_disk ex_backend = ex_chat_disk" "dp_pii (cb_deps ex_backend) = Some ex_det"
  "dp_chat_log_writer (cb_deps ex_backend)" "dp_lib (cb_deps ex_backend) = ex_lib"
  "wl_config (ex_world ap) = empty_service" "wl_approvals (ex_world ap) = ap" "wl_log (ex_world ap) = ex_log"
  by (simp_all add: ex_backend_def ex_chat_deps_def ex_deps_def ex_world_def)

lemmas ex_request = ex_backend_facts ex_chat_tc ex_chat_tc_facts(1,2) ex_lib_simps

theorem response_matches_run_witness:
  "(\<exists>r wl'. \<exists>s :: rag_state. ex_grounded_chat = (Inr r, wl') \<and> rp_status r = ''success'' \<and> md_grounding (rp_metadata r) = ''grounded''
     \<and> rp_citations r = s_citations s \<and> 1 \<le> count_if (\<lambda>c. cit_verified c = Some True) (rp_citations r)
     \<and> s_unsupported_ratio s \<le> 0.5 \<and> 0.5 \<le> s_confidence s)
   \<and> (\<exists>r wl' fb. ex_blocked_chat = (Inr r, wl') \<and> rp_status r = ''fallback'' \<and> rp_citations r = []
     \<and> rp_fallback r = Some fb \<and> dget fb ''reason'' PNone = PStr ''input_pii_blocked'')"
proof
  obtain r wl' where r: "ex_grounded_chat = (Inr r, wl')" "rp_status r = ''success''" "md_grounding (rp_metadata r) = ''grounded''"
    using ex_grounded_result by blast
  obtain cfg trace s where s: "fst (config_loader (cb_disk ex_grounded_backend) (wl_approvals (ex_world (no_approvals False))) 5 ''a''
        (wl_config (ex_world (no_approvals False)))) = Inr (PDict cfg)"
      "md_grounding (rp_metadata r) = s_grounding s" "gate2_limits (dp_lib (cb_deps ex_grounded_backend)) cfg s"
      "rp_citations r = s_citations s"
    using response_matches_run [OF r(1)] r(2,3) by (auto split: if_splits)
  have "cfg = ex_cfg_a" using s(1) ex_loader_a by (simp add: ex_grounded_backend_def ex_world_def)
  then have "gate2_limits ex_json_lib ex_cfg_a s" using s(3) by (simp add: ex_grounded_backend_def ex_grounded_deps_def)
  then show "\<exists>r wl'. \<exists>s :: rag_state. ex_grounded_chat = (Inr r, wl') \<and> rp_status r = ''success'' \<and> md_grounding (rp_metadata r) = ''grounded''
     \<and> rp_citations r = s_citations s \<and> 1 \<le> count_if (\<lambda>c. cit_verified c = Some True) (rp_citations r)
     \<and> s_unsupported_ratio s \<le> 0.5 \<and> 0.5 \<le> s_confidence s"
    using r s(4) by (intro exI [of _ r] exI [of _ wl'] exI [of _ s])
      (auto simp: gate2_limits_def dget_def ex_cfg_a_facts ex_from_empty_config default_thresholds_def)
next
  obtain r wl' trace s w where r: "ex_blocked_chat = (Inr r, wl')"
    and run: "request_run ex_blocked_backend (\<lambda>n. if n = 0 then ''r'' else ''c'') ''a'' ex_kim ''call 0199 now'' None ex_log (Inr (PDict ex_cfg_b)) = Inr (trace, s, w)"
    and s: "s_fallback_reason s = Some ''input_pii_blocked''"
    using ex_blocked_result by blast
  obtain cfg trace' s' where s': "fst (config_loader (cb_disk ex_blocked_backend) (wl_approvals (ex_world (no_approvals False))) 5 ''a''
        (wl_config (ex_world (no_approvals False)))) = Inr (PDict cfg)"
      "request_run ex_blocked_backend (\<lambda>n. if n = 0 then ''r'' else ''c'') ''a'' ex_kim ''call 0199 now'' None
        (wl_log (ex_world (no_approvals False))) (Inr (PDict cfg)) = Inr (trace', s', wl_log wl')"
      "if truthy_str (s_fallback_reason s')
       then rp_status r = ''fallback'' \<and> rp_citations r = []
         \<and> (\<exists>fb. rp_fallback r = Some fb \<and> dget fb ''reason'' PNone = PStr (the (s_fallback_reason s')))
       else rp_status r = ''success'' \<and> rp_fallback r = None \<and> rp_citations r = s_citations s'"
    using response_matches_run [OF r] by blast
  have "cfg = ex_cfg_b" using s'(1) ex_loader_b by (simp add: ex_blocked_backend_def ex_world_def)
  then have same: "s' = s" using s'(2) run by (simp add: ex_world_def)
  show "\<exists>r wl' fb. ex_blocked_chat = (Inr r, wl') \<and> rp_status r = ''fallback'' \<and> rp_citations r = []
     \<and> rp_fallback r = Some fb \<and> dget fb ''reason'' PNone = PStr ''input_pii_blocked''"
    using s'(3) r s by (simp add: same truthy_str_def)
qed

theorem unapproved_questions_masked_witness:
  "\<exists>r wl' p. ex_chat (no_approvals False) = (Inr r, wl') \<and> log_records (wl_log wl') = [p]
     \<and> cl_question p = ''call 0*-* now''"
proof -
  obtain r wl' where r: "ex_chat (no_approvals False) = (Inr r, wl')"
    using ex_chat_result by blast
  from unapproved_questions_masked [OF r, unfolded ex_request, OF refl] r show ?thesis
    by (auto simp: ex_request ex_log_def ex_mask_text is_plain_approved_def no_approvals_def)
qed

theorem compliance_mode_ignored_witness:
  "\<exists>r wl' p. ex_chat ex_approved = (Inr r, wl') \<and> log_records (wl_log wl') = [p] \<and> cl_question p = ''call 0199 now''"
proof -
  obtain r wl' where r: "ex_chat ex_approved = (Inr r, wl')"
    using ex_chat_result by blast
  have a: "is_plain_approved 5 ''t'' ex_approved"
    by (simp add: ex_approved_def approve_plain_def Let_def no_approvals_def is_plain_approved_def)
  from compliance_mode_ignored [OF r, unfolded ex_request, OF refl] r a show ?thesis
    by (auto simp: ex_request ex_log_def)
qed

section \<open>Masking reaches one form of the answer only\<close>

text \<open>
  The answer is masked but its segments are not: there is a request whose response carries the
  masked answer and, beside it, segments that spell out the number that was masked.
\<close>

theorem segments_escape_masking:
  "\<exists>cb uuids user q wl r wl' segs. chat_structured cb uuids 5 12 ''t'' user q None wl = (Inr r, wl')
     \<and> rp_status r = ''success'' \<and> rp_answer r = ''call 0*-* now''
     \<and> rp_answer_segments r = Some segs \<and> segment_texts segs = Inr ''call 0199 now''"
  using ex_chat_result by blast

end
