(* ===== verification/Api_Examples.thy ===== *)
theory Api_Examples
  imports Chat_Api Chat_Examples
begin

text \<open>
  A chat request through the API, from the token to the log: a member of tenant \<open>a\<close> asks, and the
  conversation identifier may be one under which another user has asked before.
\<close>

definition ex_member :: membership where
  "ex_member = \<lparr>mb_clearance = ''internal'', mb_department = None, mb_domain_groups = [''hr''], mb_is_active = True\<rparr>"

definition ex_api_auth :: auth_world where
  "ex_api_auth = ex_auth_world\<lparr>aw_members := [((''kim'', ''a''), ex_member)]\<rparr>"

definition ex_request_kim :: http_request where
  "ex_request_kim = \<lparr>rq_authorization = ''Bearer t'', rq_cookie = None\<rparr>"

definition ex_kim_a :: user_context where
  "ex_kim_a = (ex_ctx ''internal'' [''hr''])\<lparr>uc_domain_id := ''a''\<rparr>"

definition ex_backend_a :: chat_backend where
  "ex_backend_a = \<lparr>cb_deps = ex_deps, cb_default_model = ''m'', cb_ledger = False, cb_reader = True, cb_disk = ex_disk_a\<rparr>"

definition ex_world_a :: "chat_log \<Rightarrow> chat_world" where
  "ex_world_a w = \<lparr>wl_log = w, wl_config = empty_service, wl_approvals = no_approvals False, wl_blocks = []\<rparr>"

definition ex_api_world :: "chat_log \<Rightarrow> api_world" where
  "ex_api_world w = \<lparr>aq_auth = ex_api_auth, aq_chat = ex_world_a w, aq_conv = empty_repo\<rparr>"

lemma ex_authorised:
  "bearer_of ex_request_kim = ''t''"
  "fst (verify_and_extract ex_adapter ''t'' ''a'' ex_api_auth) = Inr ex_kim_a"
  by code_simp+

lemma ex_authorise: "\<exists>w1. authorise ex_adapter ex_request_kim ''a'' (ex_api_world w) = (Inr ex_kim_a, w1) \<and> aq_chat w1 = ex_world_a w"
proof -
  obtain a where a: "verify_and_extract ex_adapter ''t'' ''a'' ex_api_auth = (Inr ex_kim_a, a)"
    using ex_authorised(2) by (metis prod.collapse)
  show ?thesis
    by (simp add: authorise_def get_user_context_def ex_authorised(1) ex_api_world_def a bind_st_def ensure_tenant_match_def)
      (simp add: ex_kim_a_def)
qed

abbreviation ex_state_a :: "pyval list \<Rightarrow> string \<Rightarrow> rag_state" where
  "ex_state_a h cid \<equiv> initial_state ''r'' ''a'' ''kim'' (Some cid) ''leave'' h (user_context_to_dict ex_kim_a) (Some ''m'')"

lemma ex_run_a:
  assumes "format_history ex_lib h = Inr txt"
  shows "\<exists>trace res. run_from (ex_deps\<lparr>dp_config_loader := \<lambda>_. Inr (PDict ex_cfg_a)\<rparr>) TenantResolver (ex_state_a h cid, w) = Inr (trace, res)
     \<and> s_grounding (fst res) = ''ungrounded'' \<and> s_fallback_reason (fst res) = None \<and> s_final_answer (fst res) = ''hello''"
proof -
  obtain r c where r: "retrieve ex_lib (\<lambda>_. Inr ([1], [])) (hybrid_query ex_domain) None ''a'' ''leave''
     (Some (build_qdrant_acl_filter ''kim'' ''internal'' None [''hr''] (Some ex_today) True))
     (Some \<lparr>rc_fused_top_k = 50, rc_rerank_top_k = 10, rc_context_top_k = 5, rc_reranker_bypass = False\<rparr>) = Inr r"
    "rr_contexts r = [c]" "rr_reranked r = [c]" "ck_rerank_score c = None" "ck_fused_score c = 1 / 2"
    using ex_chat_retrieve by blast
  have st: "py_strip ''hello'' = ''hello''" by code_simp
  show ?thesis
    unfolding initial_state_def ex_deps_def user_context_to_dict_def ex_kim_a_def ex_ctx_def
    by ((rule ex_end, simp add: save_chat_log_node_def write_chat_log_def chat_log_payload_of_def Let_def)
      | (rule ex_next, simp add: node_eval r gate1_fused ex_generation_def ex_cfg_a_facts st assms del: bind_res_eq_Inr format_history_def,
          simp add: routers))+
qed


lemma ex_chat_a:
  assumes "format_history ex_lib (load_history ex_lib True ''a'' (str_or conv ''c'') (conv \<noteq> None) w) = Inr txt"
  shows "\<exists>r wl. chat_structured ex_backend_a (\<lambda>n. if n = 0 then ''r'' else ''c'') 5 12 ''a'' ex_kim_a ''leave'' conv (ex_world_a w) = (Inr r, wl)"
proof -
  obtain trace s w' where r: "run_chat_structured_full (ex_deps\<lparr>dp_config_loader := \<lambda>_. Inr (PDict ex_cfg_a)\<rparr>)
      (ex_state_a (load_history ex_lib True ''a'' (str_or conv ''c'') (conv \<noteq> None) w) (str_or conv ''c'')) w = Inr (trace, s, w')"
    "s_final_answer s = ''hello''" "s_fallback_reason s = None"
    using ex_run_a [OF assms, of "str_or conv ''c''" w] by (auto simp: run_chat_structured_full_def)
  obtain cs where l: "config_loader ex_disk_a (no_approvals False) 5 ''a'' empty_service = (Inr (PDict ex_cfg_a), cs)"
    using ex_loader_a by (metis prod.collapse)
  have lib: "dp_lib ex_deps = ex_lib" "uc_user_id ex_kim_a = ''kim''" by (simp_all add: ex_deps_def ex_kim_a_def ex_ctx_def)
  show ?thesis
    using r by (simp add: chat_structured_def ex_backend_a_def ex_world_a_def l lib build_chat_response_def Let_def)
qed

lemma ex_endpoint:
  "\<exists>r w'. chat ex_adapter ex_backend_a (\<lambda>n. if n = 0 then ''r'' else ''c'') 5 12 ex_request_kim ''a'' ''leave'' None (ex_api_world ex_log) = (Inr r, w')"
proof -
  have "format_history ex_lib (load_history ex_lib True ''a'' (str_or None ''c'') (None \<noteq> (None :: string option)) ex_log) = Inr []"
    by (simp add: load_history_def format_history_def)
  from ex_chat_a [OF this] ex_authorise [of ex_log] show ?thesis
    by (auto simp: chat_def bind_st_def lift_res_def)
qed

theorem chat_shows_only_what_membership_allows_witness:
  "\<exists>r w' p. chat ex_adapter ex_backend_a (\<lambda>n. if n = 0 then ''r'' else ''c'') 5 12 ex_request_kim ''a'' ''leave'' None (ex_api_world ex_log) = (Inr r, w')
     \<and> entitled ex_adapter (aw_members ex_api_auth) ex_kim_a ''a'' ex_member
     \<and> log_records (wl_log (aq_chat w')) = [p] \<and> cl_user_id p = ''kim''
     \<and> (\<forall>e \<in> set (cl_retrieved_chunks p). \<exists>c excl. e = excerpt (chunk_to_dict c)
          \<and> payloads ex_domain ''a'' (ck_chunk_id c) = Some (ck_payload c)
          \<and> may_read (member_reader ''kim'' ex_member) (Some ex_today) excl ex_meta)"
proof -
  obtain r w' where c: "chat ex_adapter ex_backend_a (\<lambda>n. if n = 0 then ''r'' else ''c'') 5 12 ex_request_kim ''a'' ''leave'' None (ex_api_world ex_log) = (Inr r, w')"
    using ex_endpoint by blast
  obtain w1 where a: "authorise ex_adapter ex_request_kim ''a'' (ex_api_world ex_log) = (Inr ex_kim_a, w1)"
    using ex_authorise by blast
  have d: "dp_chat_log_writer (cb_deps ex_backend_a)" "dp_today (cb_deps ex_backend_a) = Some ex_today"
      "dp_retrieve (cb_deps ex_backend_a) = (\<lambda>dom query f cfg. retrieve (dp_lib (cb_deps ex_backend_a)) (\<lambda>_. Inr ([1], []))
         (hybrid_query ex_domain) None dom query f (Some cfg))"
    by (simp_all add: ex_backend_a_def ex_deps_def)
  have pm: "carries_meta pl ex_meta \<and> meta_dates_valid ex_meta" if "payloads ex_domain ''a'' i = Some pl" for i pl
    using that ex_domain_payloads ex_access by blast
  obtain rd p where rd: "caller_reader (dp_lib (cb_deps ex_backend_a)) ex_adapter (aw_members (aq_auth (ex_api_world ex_log))) ex_kim_a ''a'' rd"
      "log_records (wl_log (aq_chat w')) = log_records (wl_log (aq_chat (ex_api_world ex_log))) @ [p]"
      "cl_user_id p = uc_user_id ex_kim_a"
      "\<forall>e \<in> set (cl_retrieved_chunks p). \<exists>c excl. e = excerpt (chunk_to_dict c)
          \<and> payloads ex_domain ''a'' (ck_chunk_id c) = Some (ck_payload c) \<and> may_read rd (Some ex_today) excl ex_meta"
    using chat_shows_only_what_membership_allows [where meta = "\<lambda>_. ex_meta", OF c a _ d(1,2) ex_access(3) d(3) _
        ex_domain_reachable] pm by auto
  have u: "\<not> service_client (aa_config ex_adapter) ex_kim_a" "uc_user_id ex_kim_a = ''kim''"
    by (simp_all add: service_client_def is_service_account_def ex_kim_a_def ex_ctx_def ex_adapter_def ex_auth_config_def)
  have "entitled ex_adapter (aw_members ex_api_auth) ex_kim_a ''a'' m \<Longrightarrow> m = ex_member" for m
    by (auto simp: entitled_def granted_def u(2) ex_api_auth_def ex_member_def)
  then have "entitled ex_adapter (aw_members ex_api_auth) ex_kim_a ''a'' ex_member \<and> rd = member_reader ''kim'' ex_member"
    using rd(1) u by (auto simp: caller_reader_def ex_api_world_def)
  then show ?thesis using c rd(2-4) u(2) by (auto simp: ex_api_world_def ex_world_a_def ex_log_def)
qed

definition ex_lee_log :: chat_log where
  "ex_lee_log = \<lparr>log_records = [(ex_turn ''lee'' ''salary'')\<lparr>cl_domain_id := ''a''\<rparr>], log_conv_counter = 0\<rparr>"

theorem foreign_conversation_disclosed_witness:
  "\<exists>wl c msgs. conversation_detail ex_lib ''a'' ''kim'' ''c'' wl empty_repo = Inr (c, msgs)
     \<and> set (record_messages ((ex_turn ''lee'' ''salary'')\<lparr>cl_domain_id := ''a''\<rparr>)) \<subseteq> set msgs"
proof -
  let ?h = "load_history ex_lib True ''a'' ''c'' True ex_lee_log"
  have "format_history ex_lib ?h = Inr (projr (format_history ex_lib ?h))" by code_simp
  then have h: "format_history ex_lib (load_history ex_lib True ''a'' (str_or (Some ''c'') ''c'') (Some ''c'' \<noteq> None) ex_lee_log)
      = Inr (projr (format_history ex_lib ?h))" by (simp add: str_or_def)
  obtain r wl where c: "chat_structured ex_backend_a (\<lambda>n. if n = 0 then ''r'' else ''c'') 5 12 ''a'' ex_kim_a ''leave'' (Some ''c'')
      (ex_world_a ex_lee_log) = (Inr r, wl)"
    using ex_chat_a [OF h] by blast
  have d: "dp_chat_log_writer (cb_deps ex_backend_a)" by (simp add: ex_backend_a_def ex_deps_def)
  have u: "uc_user_id ex_kim_a = ''kim''" by (simp add: ex_kim_a_def ex_ctx_def)
  have log: "wl_log (ex_world_a ex_lee_log) = ex_lee_log" by (simp add: ex_world_a_def)
  from foreign_conversation_disclosed [OF c d, of empty_repo "(ex_turn ''lee'' ''salary'')\<lparr>cl_domain_id := ''a''\<rparr>" ex_lib,
      unfolded u log] show ?thesis
    by (auto simp: empty_repo_def ex_lee_log_def ex_turn_def)
qed

end
