(* ===== verification/Chunk_Repo.thy ===== *)
theory Chunk_Repo
  imports Vector_Store Py_Data
begin

text \<open>
  The rows of the chunk table: \<open>ChunkRecord\<close> of \<open>rag_core/interfaces/chunk_repository.py\<close> and
  \<open>InMemoryChunkRepository\<close> of \<open>clients/in_memory.py\<close>. The repository keeps two dictionaries that share
  their objects: the chunks of a document under \<open>(domain, document, version, parser version)\<close>, and each
  chunk under its domain and identifier, through which it is mutated. The model has the objects in a
  list, and both dictionaries hold positions in it. The attributes of a row that can be assigned by name
  are a dictionary; the identifier and the text, which no caller assigns, are fields.

  The facts show that the two dictionaries implement one table, the set \<open>rows\<close>.
\<close>

section \<open>The repository\<close>

type_synonym chunk_key = "string \<times> string \<times> string \<times> string"

record chunk_record =
  cr_chunk_id :: string
  cr_content :: string
  cr_attrs :: pydict

record chunk_repo =
  rp_objs :: "chunk_record list"
  rp_chunks :: "(chunk_key \<times> nat list) list"
  rp_by_id :: "((string \<times> string) \<times> nat) list"

definition no_chunks :: chunk_repo where
  "no_chunks = \<lparr>rp_objs = [], rp_chunks = [], rp_by_id = []\<rparr>"

definition set_attrs :: "pydict \<Rightarrow> pydict \<Rightarrow> pydict" where
  \<comment> \<open>\<open>if hasattr(row, k): setattr(row, k, v)\<close> for every entry\<close>
  "set_attrs updates attrs = fold (\<lambda>(k, v) a. if k \<in> fst ` set a then dict_put k v a else a) updates attrs"

definition set_row :: "pydict \<Rightarrow> chunk_record \<Rightarrow> chunk_record" where
  "set_row updates r = r\<lparr>cr_attrs := set_attrs updates (cr_attrs r)\<rparr>"

definition drop_ids :: "string \<Rightarrow> chunk_record list \<Rightarrow> nat list \<Rightarrow> ((string \<times> string) \<times> nat) list \<Rightarrow> ((string \<times> string) \<times> nat) list" where
  \<comment> \<open>\<open>self._by_id.pop((domain_id, c.chunk_id), None)\<close> for each object\<close>
  "drop_ids domain_id objs refs ids = fold (\<lambda>i. assoc_del (domain_id, cr_chunk_id (objs ! i))) refs ids"

definition refs_under :: "chunk_key \<Rightarrow> (chunk_key \<times> nat list) list \<Rightarrow> nat list" where
  \<comment> \<open>the objects listed under a key\<close>
  "refs_under key chunks = (case map_of chunks key of None \<Rightarrow> [] | Some refs \<Rightarrow> refs)"

definition replace_chunks :: "string \<Rightarrow> string \<Rightarrow> string \<Rightarrow> string \<Rightarrow> chunk_record list \<Rightarrow> chunk_repo \<Rightarrow> chunk_repo" where
  "replace_chunks domain_id doc_id doc_version parser_version chunks rp =
     (let key = (domain_id, doc_id, doc_version, parser_version);
          existing = refs_under key (rp_chunks rp);
          refs = [length (rp_objs rp) ..< length (rp_objs rp) + length chunks]
      in \<lparr>rp_objs = rp_objs rp @ chunks,
          rp_chunks = assoc_put key refs (assoc_del key (rp_chunks rp)),
          rp_by_id = fold (\<lambda>(c, i). assoc_put (domain_id, cr_chunk_id c) i) (zip chunks refs)
                       (drop_ids domain_id (rp_objs rp) existing (rp_by_id rp))\<rparr>)"

definition update_row :: "string \<Rightarrow> pydict \<Rightarrow> string \<Rightarrow> chunk_repo \<Rightarrow> chunk_repo" where
  "update_row domain_id metadata cid rp =
     (case map_of (rp_by_id rp) (domain_id, cid) of
        None \<Rightarrow> rp
      | Some i \<Rightarrow> rp\<lparr>rp_objs := (rp_objs rp)[i := set_row metadata (rp_objs rp ! i)]\<rparr>)"

definition update_metadata :: "string \<Rightarrow> string list \<Rightarrow> pydict \<Rightarrow> chunk_repo \<Rightarrow> chunk_repo" where
  "update_metadata domain_id chunk_ids metadata rp = fold (update_row domain_id metadata) chunk_ids rp"

definition doc_key :: "string \<Rightarrow> string \<Rightarrow> string \<Rightarrow> string option \<Rightarrow> chunk_key \<Rightarrow> bool" where
  "doc_key domain_id doc_id doc_version parser_version key =
     (case key of (tid, did, ver, pv) \<Rightarrow> tid = domain_id \<and> did = doc_id \<and> ver = doc_version
        \<and> (\<not> truthy_str parser_version \<or> parser_version = Some pv))"

definition list_by_doc :: "string \<Rightarrow> string \<Rightarrow> string \<Rightarrow> string option \<Rightarrow> chunk_repo \<Rightarrow> chunk_record list" where
  "list_by_doc domain_id doc_id doc_version parser_version rp =
     map ((!) (rp_objs rp))
       (concat (map snd (filter (doc_key domain_id doc_id doc_version parser_version \<circ> fst) (rp_chunks rp))))"

definition in_doc :: "string \<Rightarrow> string \<Rightarrow> string option \<Rightarrow> chunk_key \<Rightarrow> bool" where
  "in_doc domain_id doc_id doc_version key =
     (case key of (tid, did, ver, pv) \<Rightarrow> tid = domain_id \<and> did = doc_id
        \<and> (case doc_version of None \<Rightarrow> True | Some v \<Rightarrow> ver = v))"

definition delete_by_doc :: "string \<Rightarrow> string \<Rightarrow> string option \<Rightarrow> chunk_repo \<Rightarrow> string list \<times> chunk_repo" where
  "delete_by_doc domain_id doc_id doc_version rp =
     (let gone = filter (in_doc domain_id doc_id doc_version \<circ> fst) (rp_chunks rp);
          refs = concat (map snd gone)
      in (map (\<lambda>i. cr_chunk_id (rp_objs rp ! i)) refs,
          rp\<lparr>rp_chunks := fold assoc_del (map fst gone) (rp_chunks rp),
             rp_by_id := drop_ids domain_id (rp_objs rp) refs (rp_by_id rp)\<rparr>))"

section \<open>The table behind the two indexes\<close>

definition listed :: "chunk_repo \<Rightarrow> chunk_key \<Rightarrow> nat \<Rightarrow> bool" where
  "listed rp key i \<longleftrightarrow> (\<exists>refs. (key, refs) \<in> set (rp_chunks rp) \<and> i \<in> set refs)"

definition rows :: "chunk_repo \<Rightarrow> (chunk_key \<times> chunk_record) set" where
  "rows rp = {x. \<exists>i. listed rp (fst x) i \<and> snd x = rp_objs rp ! i}"

definition one_key :: "chunk_repo \<Rightarrow> bool" where
  \<comment> \<open>no object is listed under two keys\<close>
  "one_key rp \<longleftrightarrow> distinct (map fst (rp_chunks rp)) \<and> (\<forall>refs \<in> snd ` set (rp_chunks rp). distinct refs)
     \<and> (\<forall>key key' i. listed rp key i \<longrightarrow> listed rp key' i \<longrightarrow> key = key')
     \<and> (\<forall>key i. listed rp key i \<longrightarrow> i < length (rp_objs rp))"

definition repo_wf :: "chunk_repo \<Rightarrow> bool" where
  \<comment> \<open>the second index lists exactly the objects of the first, under their domain and identifier\<close>
  "repo_wf rp \<longleftrightarrow> one_key rp \<and> (\<forall>d cid i. map_of (rp_by_id rp) (d, cid) = Some i
      \<longleftrightarrow> (\<exists>key. listed rp key i \<and> fst key = d \<and> cr_chunk_id (rp_objs rp ! i) = cid))"

lemma repo_wf_id:
  assumes "repo_wf rp" "listed rp key i"
  shows "map_of (rp_by_id rp) (fst key, cr_chunk_id (rp_objs rp ! i)) = Some i"
  using assms unfolding repo_wf_def by blast

lemma listed_same: "repo_wf rp \<Longrightarrow> listed rp key i \<Longrightarrow> listed rp key' i \<Longrightarrow> key = key'"
  unfolding repo_wf_def one_key_def by blast

lemma listed_less: "repo_wf rp \<Longrightarrow> listed rp key i \<Longrightarrow> i < length (rp_objs rp)"
  unfolding repo_wf_def one_key_def by blast

lemma listed_lookup:
  "distinct (map fst (rp_chunks rp)) \<Longrightarrow> listed rp key i \<longleftrightarrow> (\<exists>refs. map_of (rp_chunks rp) key = Some refs \<and> i \<in> set refs)"
  by (simp add: listed_def)

text \<open>In one domain a chunk identifier names at most one row.\<close>

lemma ids_unique:
  assumes "repo_wf rp" "listed rp k i" "listed rp k' i'" "fst k = fst k'"
    "cr_chunk_id (rp_objs rp ! i) = cr_chunk_id (rp_objs rp ! i')"
  shows "i = i'" "k = k'"
proof -
  show "i = i'" using repo_wf_id [OF assms(1)] assms(2-5) by (metis option.inject)
  with listed_same assms(1-3) show "k = k'" by blast
qed

lemma rows_unique:
  assumes "repo_wf rp" "(k, r) \<in> rows rp" "(k', r') \<in> rows rp" "fst k = fst k'" "cr_chunk_id r = cr_chunk_id r'"
  shows "k = k' \<and> r = r'"
  using assms ids_unique [OF assms(1), of k _ k'] by (auto simp: rows_def simp del: split_paired_Ex)

lemma repo_wf_empty: "repo_wf no_chunks" "rows no_chunks = {}"
  by (auto simp: repo_wf_def one_key_def rows_def no_chunks_def listed_def)

subsection \<open>Replacing the chunks of a document\<close>

lemma map_of_drop_ids:
  "map_of (drop_ids d objs refs ids) x = (if x \<in> (\<lambda>i. (d, cr_chunk_id (objs ! i))) ` set refs then None else map_of ids x)"
  by (induction refs arbitrary: ids) (auto simp: drop_ids_def map_of_assoc_del)

lemma map_of_fold_put:
  assumes "distinct (map f cs)" "length is = length cs"
  shows "map_of (fold (\<lambda>(c, i). assoc_put (f c) i) (zip cs is) ids) x
    = (case map_of (zip (map f cs) is) x of Some i \<Rightarrow> Some i | None \<Rightarrow> map_of ids x)"
  using assms(2,1)
  by (induction "is" cs arbitrary: ids rule: list_induct2)
    (auto simp: map_of_assoc_put map_of_zip_is_None split: option.splits dest: set_zip_leftD map_of_SomeD)

lemma map_of_zip_refs:
  assumes "distinct ks"
  shows "map_of (zip ks [n ..< n + length ks]) x = Some i \<longleftrightarrow> (\<exists>j < length ks. x = ks ! j \<and> i = n + j)"
  using assms by (auto simp: map_of_eq_Some_iff in_set_zip)

lemma map_of_zip_none: "length is = length ks \<Longrightarrow> map_of (zip ks is) x = None \<longleftrightarrow> x \<notin> set ks"
  by (simp add: map_of_zip_is_None)

lemma distinct_keys_replace:
  "distinct (map fst (rp_chunks rp)) \<Longrightarrow> distinct (map fst (rp_chunks (replace_chunks d doc ver pv cs rp)))"
  by (simp add: replace_chunks_def Let_def distinct_assoc_put distinct_assoc_del)

lemma set_assoc_put: "set (assoc_put k v xs) \<subseteq> insert (k, v) (set xs)"
  by (induction k v xs rule: assoc_put.induct) auto

lemma distinct_refs_replace:
  "\<forall>refs \<in> snd ` set (rp_chunks rp). distinct refs
   \<Longrightarrow> \<forall>refs \<in> snd ` set (rp_chunks (replace_chunks d doc ver pv cs rp)). distinct refs"
  using set_assoc_put by (fastforce simp: replace_chunks_def Let_def assoc_del_def)

lemma listed_replace:
  assumes "distinct (map fst (rp_chunks rp))"
  shows "listed (replace_chunks d doc ver pv cs rp) key i
    \<longleftrightarrow> (if key = (d, doc, ver, pv) then length (rp_objs rp) \<le> i \<and> i < length (rp_objs rp) + length cs else listed rp key i)"
  unfolding listed_lookup [OF distinct_keys_replace [OF assms]] listed_lookup [OF assms]
  by (auto simp: replace_chunks_def Let_def map_of_assoc_put map_of_assoc_del)

lemma replace_objs [simp]: "rp_objs (replace_chunks d doc ver pv cs rp) = rp_objs rp @ cs"
  by (simp add: replace_chunks_def Let_def)


lemma existing_listed:
  assumes "distinct (map fst (rp_chunks rp))"
  shows "i \<in> set (refs_under key (rp_chunks rp)) \<longleftrightarrow> listed rp key i"
  by (cases "map_of (rp_chunks rp) key") (simp_all add: listed_lookup [OF assms] refs_under_def)

lemma by_id_replace:
  assumes "repo_wf rp" "distinct (map cr_chunk_id cs)"
  shows "map_of (rp_by_id (replace_chunks d doc ver pv cs rp)) (d', cid) =
     (if d' = d \<and> cid \<in> cr_chunk_id ` set cs
      then Some (length (rp_objs rp) + (THE j. j < length cs \<and> cr_chunk_id (cs ! j) = cid))
      else if d' = d \<and> (\<exists>i. listed rp (d, doc, ver, pv) i \<and> cr_chunk_id (rp_objs rp ! i) = cid) then None
      else map_of (rp_by_id rp) (d', cid))"
proof -
  let ?n = "length (rp_objs rp)" and ?f = "\<lambda>c. (d, cr_chunk_id c)"
  have dk: "distinct (map fst (rp_chunks rp))" using assms(1) by (simp add: repo_wf_def one_key_def)
  have ds: "distinct (map ?f cs)" using assms(2) by (auto simp: distinct_map inj_on_def)
  have new: "map_of (zip (map ?f cs) [?n ..< ?n + length cs]) (d', cid) =
      (if d' = d \<and> cid \<in> cr_chunk_id ` set cs then Some (?n + (THE j. j < length cs \<and> cr_chunk_id (cs ! j) = cid)) else None)"
  proof (cases "d' = d \<and> cid \<in> cr_chunk_id ` set cs")
    case True
    then obtain j where j: "j < length cs" "cr_chunk_id (cs ! j) = cid" by (auto simp: in_set_conv_nth)
    have "(THE j. j < length cs \<and> cr_chunk_id (cs ! j) = cid) = j"
      by (rule the_equality) (use j assms(2) in \<open>auto simp: distinct_conv_nth\<close>)
    moreover have "map_of (zip (map ?f cs) [?n ..< ?n + length cs]) (d, cid) = Some (?n + j)"
      using map_of_zip_refs [OF ds, of ?n "(d, cid)" "?n + j"] j by auto
    ultimately show ?thesis using True by simp
  next
    case False
    then show ?thesis by (auto simp: map_of_zip_none)
  qed
  show ?thesis
    unfolding replace_chunks_def Let_def chunk_repo.select_convs
    by (subst map_of_fold_put [where f = ?f, OF ds])
      (auto simp: new map_of_drop_ids existing_listed [OF dk] image_iff split: option.splits)
qed

lemma the_row:
  assumes "distinct (map cr_chunk_id cs)" "j < length cs"
  shows "(THE j'. j' < length cs \<and> cr_chunk_id (cs ! j') = cr_chunk_id (cs ! j)) = j"
  by (rule the_equality) (use assms in \<open>auto simp: distinct_conv_nth\<close>)

lemma replace_wf:
  assumes "repo_wf rp" "distinct (map cr_chunk_id cs)"
    and clash: "\<And>k r. (k, r) \<in> rows rp \<Longrightarrow> fst k = d \<Longrightarrow> k \<noteq> (d, doc, ver, pv) \<Longrightarrow> cr_chunk_id r \<notin> cr_chunk_id ` set cs"
  shows "repo_wf (replace_chunks d doc ver pv cs rp)"
proof -
  let ?key = "(d, doc, ver, pv)" and ?rp = "replace_chunks d doc ver pv cs rp" and ?n = "length (rp_objs rp)"
  have dk: "distinct (map fst (rp_chunks rp))" using assms(1) by (simp add: repo_wf_def one_key_def)
  note listed' = listed_replace [OF dk, of d doc ver pv cs]
  have old: "rp_objs ?rp ! i = rp_objs rp ! i" if "listed rp k i" for k i
    using listed_less [OF assms(1) that] by (simp add: nth_append)
  have no_clash: "cr_chunk_id (rp_objs rp ! i) \<notin> cr_chunk_id ` set cs" if "listed rp k i" "fst k = d" "k \<noteq> ?key" for k i
    by (rule clash [of k]) (use that in \<open>auto simp: rows_def\<close>)
  have "map_of (rp_by_id ?rp) (d', cid) = Some i \<longleftrightarrow> (\<exists>key. listed ?rp key i \<and> fst key = d' \<and> cr_chunk_id (rp_objs ?rp ! i) = cid)" for d' cid i
  proof (cases "d' = d \<and> cid \<in> cr_chunk_id ` set cs")
    case True
    then obtain j where j: "j < length cs" "cid = cr_chunk_id (cs ! j)" by (auto simp: in_set_conv_nth)
    have "key = ?key \<and> i = ?n + j" if "listed ?rp key i" "fst key = d'" "cr_chunk_id (rp_objs ?rp ! i) = cid" for key
    proof (cases "key = ?key")
      case True
      with that j have "?n \<le> i" "i < ?n + length cs" "cr_chunk_id (cs ! (i - ?n)) = cr_chunk_id (cs ! j)"
        by (auto simp: listed' nth_append)
      then have "i - ?n = j" using nth_eq_iff_index_eq [OF assms(2), of "i - ?n" j] j(1) by simp
      with \<open>?n \<le> i\<close> \<open>key = ?key\<close> show ?thesis by simp
    next
      case False
      with that have "listed rp key i" by (simp add: listed')
      with no_clash [of key i] old [of key i] that True False show ?thesis by simp
    qed
    moreover have "listed ?rp ?key (?n + j)" "cr_chunk_id (rp_objs ?rp ! (?n + j)) = cid"
      using j by (auto simp: listed')
    ultimately show ?thesis
      using True j the_row [OF assms(2) j(1)] by (auto simp: by_id_replace [OF assms(1,2)] simp del: split_paired_Ex)
  next
    case False
    have "(\<exists>key. listed ?rp key i \<and> fst key = d' \<and> cr_chunk_id (rp_objs ?rp ! i) = cid)
      \<longleftrightarrow> (\<exists>key. key \<noteq> ?key \<and> listed rp key i \<and> fst key = d' \<and> cr_chunk_id (rp_objs rp ! i) = cid)"
    proof -
      have "key \<noteq> ?key" if "listed ?rp key i" "fst key = d'" "cr_chunk_id (rp_objs ?rp ! i) = cid" for key
        using that False by (auto simp: listed' nth_append)
      then show ?thesis using old by (metis listed')
    qed
    also have "\<dots> \<longleftrightarrow> (if d' = d \<and> (\<exists>i. listed rp ?key i \<and> cr_chunk_id (rp_objs rp ! i) = cid) then None
        else map_of (rp_by_id rp) (d', cid)) = Some i"
    proof (cases "d' = d \<and> (\<exists>i. listed rp ?key i \<and> cr_chunk_id (rp_objs rp ! i) = cid)")
      case True
      then obtain i0 where i0: "d' = d" "listed rp ?key i0" "cr_chunk_id (rp_objs rp ! i0) = cid" by blast
      have "key = ?key" if "listed rp key i" "fst key = d'" "cr_chunk_id (rp_objs rp ! i) = cid" for key
        using ids_unique(2) [OF assms(1) that(1) i0(2)] that i0 by simp
      then show ?thesis using True by auto
    next
      case False
      have "key \<noteq> ?key" if "listed rp key i" "fst key = d'" "cr_chunk_id (rp_objs rp ! i) = cid" for key
        using False that by auto
      moreover have "map_of (rp_by_id rp) (d', cid) = Some i \<longleftrightarrow> (\<exists>key. listed rp key i \<and> fst key = d' \<and> cr_chunk_id (rp_objs rp ! i) = cid)"
        using assms(1) unfolding repo_wf_def by blast
      ultimately show ?thesis using False by (simp del: split_paired_Ex) blast
    qed
    finally show ?thesis using False by (auto simp: by_id_replace [OF assms(1,2)] simp del: split_paired_Ex)
  qed
  moreover have "one_key ?rp"
  proof -
    have "key = key'" if "listed ?rp key i" "listed ?rp key' i" for key key' i
      using that listed_less [OF assms(1), of key i] listed_less [OF assms(1), of key' i] listed_same [OF assms(1), of key i key']
      by (simp add: listed' split: if_splits)
    moreover have "i < length (rp_objs ?rp)" if "listed ?rp key i" for key i
      using that listed_less [OF assms(1), of key i] by (simp add: listed' split: if_splits)
    moreover have "\<forall>refs \<in> snd ` set (rp_chunks ?rp). distinct refs"
      using assms(1) by (intro distinct_refs_replace) (simp add: repo_wf_def one_key_def)
    ultimately show ?thesis using distinct_keys_replace [OF dk] unfolding one_key_def by blast
  qed
  ultimately show ?thesis unfolding repo_wf_def by blast
qed

lemma rows_replace:
  assumes "repo_wf rp"
  shows "rows (replace_chunks d doc ver pv cs rp) = {x \<in> rows rp. fst x \<noteq> (d, doc, ver, pv)} \<union> {(d, doc, ver, pv)} \<times> set cs"
proof -
  let ?n = "length (rp_objs rp)" and ?key = "(d, doc, ver, pv)"
  have dk: "distinct (map fst (rp_chunks rp))" using assms(1) by (simp add: repo_wf_def one_key_def)
  have new: "(\<exists>i. ?n \<le> i \<and> i < ?n + length cs \<and> r = (rp_objs rp @ cs) ! i) \<longleftrightarrow> r \<in> set cs" for r
  proof
    show "r \<in> set cs \<Longrightarrow> \<exists>i. ?n \<le> i \<and> i < ?n + length cs \<and> r = (rp_objs rp @ cs) ! i"
      by (metis add_less_cancel_left in_set_conv_nth le_add1 nth_append_length_plus)
  qed (auto simp: nth_append)
  have old: "listed rp k i \<Longrightarrow> (rp_objs rp @ cs) ! i = rp_objs rp ! i" for k i
    using listed_less [OF assms] by (simp add: nth_append)
  show ?thesis
  proof (rule set_eqI)
    fix x :: "chunk_key \<times> chunk_record"
    show "x \<in> rows (replace_chunks d doc ver pv cs rp) \<longleftrightarrow>
        x \<in> {x \<in> rows rp. fst x \<noteq> ?key} \<union> {?key} \<times> set cs"
      using new [of "snd x"] old [of "fst x"]
      by (cases "fst x = ?key") (auto simp: rows_def listed_replace [OF dk] mem_Times_iff)
  qed
qed


subsection \<open>Updating rows\<close>

definition patch_row :: "string \<Rightarrow> string set \<Rightarrow> pydict \<Rightarrow> chunk_key \<times> chunk_record \<Rightarrow> chunk_key \<times> chunk_record" where
  "patch_row d ids metadata x = (fst x, if fst (fst x) = d \<and> cr_chunk_id (snd x) \<in> ids then set_row metadata (snd x) else snd x)"

lemma set_row_id [simp]: "cr_chunk_id (set_row m r) = cr_chunk_id r" "cr_content (set_row m r) = cr_content r"
  by (simp_all add: set_row_def)

lemma update_row_chunks [simp]:
  "rp_chunks (update_row d m cid rp) = rp_chunks rp" "rp_by_id (update_row d m cid rp) = rp_by_id rp"
  "length (rp_objs (update_row d m cid rp)) = length (rp_objs rp)"
  by (simp_all add: update_row_def split: option.splits)

lemma update_row_listed [simp]: "listed (update_row d m cid rp) key i \<longleftrightarrow> listed rp key i"
  by (simp add: listed_def)

lemma update_row_ids [simp]: "cr_chunk_id (rp_objs (update_row d m cid rp) ! i) = cr_chunk_id (rp_objs rp ! i)"
  by (simp add: update_row_def nth_list_update split: option.splits) (metis nth_list_update_eq nth_list_update_neq list_update_beyond linorder_not_le set_row_id(1))

lemma update_row_wf: "repo_wf rp \<Longrightarrow> repo_wf (update_row d m cid rp)"
  by (simp add: repo_wf_def one_key_def del: split_paired_All split_paired_Ex)

lemma update_row_obj:
  assumes "repo_wf rp" "listed rp key i"
  shows "rp_objs (update_row d m cid rp) ! i
    = (if fst key = d \<and> cr_chunk_id (rp_objs rp ! i) = cid then set_row m (rp_objs rp ! i) else rp_objs rp ! i)"
proof (cases "map_of (rp_by_id rp) (d, cid)")
  case None
  then show ?thesis using repo_wf_id [OF assms] by (auto simp: update_row_def)
next
  case (Some i')
  then obtain key' where k: "listed rp key' i'" "fst key' = d" "cr_chunk_id (rp_objs rp ! i') = cid"
    using assms(1) unfolding repo_wf_def by blast
  show ?thesis
  proof (cases "i = i'")
    case True
    with k listed_same [OF assms] listed_less [OF assms] Some show ?thesis by (auto simp: update_row_def)
  next
    case False
    with ids_unique(1) [OF assms(1,2) k(1)] k Some show ?thesis by (auto simp: update_row_def)
  qed
qed

lemma update_row_rows:
  assumes "repo_wf rp"
  shows "rows (update_row d m cid rp) = patch_row d {cid} m ` rows rp"
proof (rule set_eqI)
  fix x :: "chunk_key \<times> chunk_record"
  show "x \<in> rows (update_row d m cid rp) \<longleftrightarrow> x \<in> patch_row d {cid} m ` rows rp"
  proof
    assume "x \<in> rows (update_row d m cid rp)"
    then obtain i where "listed rp (fst x) i" "snd x = rp_objs (update_row d m cid rp) ! i" by (auto simp: rows_def)
    then show "x \<in> patch_row d {cid} m ` rows rp"
      using update_row_obj [OF assms, of "fst x" i d m cid]
      by (intro image_eqI [of _ _ "(fst x, rp_objs rp ! i)"]) (auto simp: rows_def patch_row_def prod_eq_iff)
  next
    assume "x \<in> patch_row d {cid} m ` rows rp"
    then obtain y i where y: "x = patch_row d {cid} m y" "listed rp (fst y) i" "snd y = rp_objs rp ! i" by (auto simp: rows_def)
    then show "x \<in> rows (update_row d m cid rp)"
      using update_row_obj [OF assms y(2), of d m cid] by (auto simp: rows_def patch_row_def)
  qed
qed

lemma patch_row_insert:
  "cid \<notin> ids \<Longrightarrow> patch_row d ids m (patch_row d {cid} m x) = patch_row d (insert cid ids) m x"
  by (auto simp: patch_row_def)

lemma update_metadata_rows:
  assumes "repo_wf rp" "distinct ids"
  shows "repo_wf (update_metadata d ids m rp)" "rows (update_metadata d ids m rp) = patch_row d (set ids) m ` rows rp"
proof -
  have "repo_wf (update_metadata d ids m rp) \<and> rows (update_metadata d ids m rp) = patch_row d (set ids) m ` rows rp"
    using assms
  proof (induction ids arbitrary: rp)
    case Nil
    have "patch_row d {} m = id" by (auto simp: patch_row_def)
    then show ?case using Nil by (simp add: update_metadata_def)
  next
    case (Cons cid ids)
    have "patch_row d (set ids) m ` patch_row d {cid} m ` rows rp = patch_row d (set (cid # ids)) m ` rows rp"
      using Cons.prems(2) by (simp add: image_image patch_row_insert)
    with Cons.IH [of "update_row d m cid rp"] Cons.prems update_row_wf update_row_rows show ?case
      by (simp add: update_metadata_def)
  qed
  then show "repo_wf (update_metadata d ids m rp)" "rows (update_metadata d ids m rp) = patch_row d (set ids) m ` rows rp" by auto
qed

subsection \<open>Listing and deleting\<close>

lemma set_list_by_doc:
  "set (list_by_doc d doc ver pv rp) = {r. \<exists>key. doc_key d doc ver pv key \<and> (key, r) \<in> rows rp}"
  by (fastforce simp: list_by_doc_def rows_def listed_def simp del: split_paired_Ex)


lemma distinct_concat_keys:
  assumes "distinct (map fst xs)" "\<forall>ys \<in> snd ` set xs. distinct ys"
    and "\<And>k ys k' ys' i. (k, ys) \<in> set xs \<Longrightarrow> (k', ys') \<in> set xs \<Longrightarrow> i \<in> set ys \<Longrightarrow> i \<in> set ys' \<Longrightarrow> k = k'"
  shows "distinct (concat (map snd xs))"
  using assms
proof (induction xs)
  case (Cons x xs)
  obtain k ys where x: "x = (k, ys)" by (cases x)
  have "False" if "i \<in> set ys" "(k', ys') \<in> set xs" "i \<in> set ys'" for i k' ys'
    using Cons.prems(3) [of k ys k' ys' i] Cons.prems(1) that by (force simp: x)
  moreover have "distinct (concat (map snd xs))"
  proof (rule Cons.IH)
    show "k = k'" if "(k, ys) \<in> set xs" "(k', ys') \<in> set xs" "i \<in> set ys" "i \<in> set ys'" for k ys k' ys' i
      using Cons.prems(3) [of k ys k' ys' i] that by simp
  qed (use Cons.prems in auto)
  ultimately show ?case using Cons.prems(2) by (fastforce simp: x)
qed simp

lemma distinct_listing:
  assumes "repo_wf rp"
  shows "distinct (map cr_chunk_id (list_by_doc d doc ver pv rp))"
proof -
  let ?xs = "filter (doc_key d doc ver pv \<circ> fst) (rp_chunks rp)"
  have "distinct (concat (map snd ?xs))"
  proof (rule distinct_concat_keys)
    show "distinct (map fst ?xs)" "\<forall>ys \<in> snd ` set ?xs. distinct ys"
      using assms by (auto simp: repo_wf_def one_key_def distinct_map_filter simp del: split_paired_All split_paired_Ex)
    show "k = k'" if "(k, ys) \<in> set ?xs" "(k', ys') \<in> set ?xs" "i \<in> set ys" "i \<in> set ys'" for k ys k' ys' i
      using listed_same [OF assms, of k i k'] that unfolding listed_def by auto
  qed
  moreover have "inj_on (\<lambda>i. cr_chunk_id (rp_objs rp ! i)) (set (concat (map snd ?xs)))"
  proof (rule inj_onI)
    fix i i' assume "i \<in> set (concat (map snd ?xs))" "i' \<in> set (concat (map snd ?xs))"
    then obtain k k' where "listed rp k i" "listed rp k' i'" "fst k = d" "fst k' = d"
      by (force simp: listed_def doc_key_def)
    then show "cr_chunk_id (rp_objs rp ! i) = cr_chunk_id (rp_objs rp ! i') \<Longrightarrow> i = i'"
      using ids_unique(1) [OF assms, of k i k' i'] by simp
  qed
  ultimately show ?thesis by (simp add: list_by_doc_def comp_def distinct_map)
qed

lemma fold_assoc_del: "fold assoc_del ks xs = filter (\<lambda>x. fst x \<notin> set ks) xs"
  by (induction ks arbitrary: xs) (auto simp: assoc_del_def case_prod_beta intro: filter_cong)

lemma delete_chunks: "rp_chunks (snd (delete_by_doc d doc ver rp)) = filter (\<lambda>x. \<not> in_doc d doc ver (fst x)) (rp_chunks rp)"
  by (auto simp: delete_by_doc_def Let_def fold_assoc_del intro!: filter_cong)

lemma delete_objs [simp]: "rp_objs (snd (delete_by_doc d doc ver rp)) = rp_objs rp"
  by (simp add: delete_by_doc_def Let_def)

lemma delete_listed: "listed (snd (delete_by_doc d doc ver rp)) key i \<longleftrightarrow> listed rp key i \<and> \<not> in_doc d doc ver key"
  by (auto simp: listed_def delete_chunks)

lemma delete_rows: "rows (snd (delete_by_doc d doc ver rp)) = {x \<in> rows rp. \<not> in_doc d doc ver (fst x)}"
  by (auto simp: rows_def delete_listed)

lemma delete_ids:
  "set (fst (delete_by_doc d doc ver rp)) = {cr_chunk_id (snd x) |x. x \<in> rows rp \<and> in_doc d doc ver (fst x)}"
proof -
  have "set (fst (delete_by_doc d doc ver rp)) = {cr_chunk_id (rp_objs rp ! i) |i key. listed rp key i \<and> in_doc d doc ver key}"
    by (fastforce simp: delete_by_doc_def Let_def listed_def simp del: split_paired_Ex)
  then show ?thesis by (auto simp: rows_def simp del: split_paired_Ex) (metis fst_conv snd_conv)
qed

lemma delete_wf:
  assumes "repo_wf rp"
  shows "repo_wf (snd (delete_by_doc d doc ver rp))"
proof -
  let ?rp = "snd (delete_by_doc d doc ver rp)"
  let ?refs = "concat (map snd (filter (in_doc d doc ver \<circ> fst) (rp_chunks rp)))"
  have refs: "i \<in> set ?refs \<longleftrightarrow> (\<exists>key. listed rp key i \<and> in_doc d doc ver key)" for i
    by (fastforce simp: listed_def simp del: split_paired_Ex)
  have dom: "in_doc d doc ver key \<Longrightarrow> fst key = d" for key by (auto simp: in_doc_def)
  have "map_of (rp_by_id ?rp) (d', cid) = Some i
      \<longleftrightarrow> (\<exists>key. listed ?rp key i \<and> fst key = d' \<and> cr_chunk_id (rp_objs ?rp ! i) = cid)" for d' cid i
  proof -
    have "map_of (rp_by_id ?rp) (d', cid) = Some i \<longleftrightarrow> map_of (rp_by_id rp) (d', cid) = Some i
        \<and> \<not> (\<exists>j. j \<in> set ?refs \<and> d' = d \<and> cid = cr_chunk_id (rp_objs rp ! j))"
      by (simp add: delete_by_doc_def Let_def map_of_drop_ids image_iff del: set_concat) blast
    also have "\<dots> \<longleftrightarrow> (\<exists>key. listed rp key i \<and> \<not> in_doc d doc ver key \<and> fst key = d' \<and> cr_chunk_id (rp_objs rp ! i) = cid)"
    proof (rule iffI)
      assume l: "map_of (rp_by_id rp) (d', cid) = Some i \<and> \<not> (\<exists>j. j \<in> set ?refs \<and> d' = d \<and> cid = cr_chunk_id (rp_objs rp ! j))"
      then obtain key where k: "listed rp key i" "fst key = d'" "cr_chunk_id (rp_objs rp ! i) = cid"
        using assms unfolding repo_wf_def by blast
      have "\<not> in_doc d doc ver key" using l k dom [of key] refs [of i] by blast
      with k show "\<exists>key. listed rp key i \<and> \<not> in_doc d doc ver key \<and> fst key = d' \<and> cr_chunk_id (rp_objs rp ! i) = cid" by blast
    next
      assume "\<exists>key. listed rp key i \<and> \<not> in_doc d doc ver key \<and> fst key = d' \<and> cr_chunk_id (rp_objs rp ! i) = cid"
      then obtain key where k: "listed rp key i" "\<not> in_doc d doc ver key" "fst key = d'" "cr_chunk_id (rp_objs rp ! i) = cid" by blast
      have "False" if j: "j \<in> set ?refs" "d' = d" "cid = cr_chunk_id (rp_objs rp ! j)" for j
      proof -
        obtain key' where "listed rp key' j" "in_doc d doc ver key'" using refs [THEN iffD1, OF j(1)] by blast
        then show False using ids_unique(2) [OF assms k(1), of key' j] k dom [of key'] j by simp
      qed
      then show "map_of (rp_by_id rp) (d', cid) = Some i \<and> \<not> (\<exists>j. j \<in> set ?refs \<and> d' = d \<and> cid = cr_chunk_id (rp_objs rp ! j))"
        using repo_wf_id [OF assms k(1)] k(3,4) by blast
    qed
    also have "\<dots> \<longleftrightarrow> (\<exists>key. listed ?rp key i \<and> fst key = d' \<and> cr_chunk_id (rp_objs ?rp ! i) = cid)"
      unfolding delete_listed delete_objs by blast
    finally show ?thesis .
  qed
  moreover have "one_key ?rp"
  proof -
    have "one_key rp" using assms by (simp add: repo_wf_def)
    then show ?thesis
      unfolding one_key_def delete_listed delete_chunks delete_objs by (simp add: distinct_map_filter del: split_paired_All) blast
  qed
  ultimately show ?thesis unfolding repo_wf_def by blast
qed

end
