(* ===== verification/Documents.thy ===== *)
theory Documents
  imports Chunk_Repo Py_Text Py_Data
begin

text \<open>
  Documents and indexing jobs: \<open>DocumentRecord\<close> and \<open>IndexingJobRecord\<close> of
  \<open>rag_core/interfaces/chunk_repository.py\<close> with \<open>InMemoryDocumentRepository\<close> and
  \<open>InMemoryIndexingJobRepository\<close> of \<open>clients/in_memory.py\<close>. A document is the dictionary of its
  attributes, because the repository assigns them by name; it is stored under domain, identifier and
  version. The match of a version against \<open>v(\d+)$\<close> is a parameter.
\<close>

section \<open>Documents\<close>

type_synonym doc_key3 = "string \<times> string \<times> string"
type_synonym doc_repo = "(doc_key3 \<times> pydict) list"

definition doc_upsert :: "doc_key3 \<Rightarrow> pydict \<Rightarrow> doc_repo \<Rightarrow> doc_repo" where
  "doc_upsert key doc docs = assoc_put key doc docs"

definition doc_get :: "string \<Rightarrow> string \<Rightarrow> string \<Rightarrow> doc_repo \<Rightarrow> pydict option" where
  "doc_get domain_id doc_id version docs = map_of docs (domain_id, doc_id, version)"

definition version_key :: "(string \<Rightarrow> int option) \<Rightarrow> pyval \<Rightarrow> (int \<times> string option) res" where
  \<comment> \<open>\<open>None\<close> in the second place is the tuple of one element\<close>
  "version_key match_version v =
     bind_res (str_of_pyval (py_or v (PStr ''v1''))) (\<lambda>s.
       Inr (case match_version s of Some n \<Rightarrow> (n, None) | None \<Rightarrow> (0, Some (if truthy v then s else []))))"

fun key_greater :: "int \<times> string option \<Rightarrow> int \<times> string option \<Rightarrow> bool" where
  \<comment> \<open>\<open>>\<close> on tuples: a tuple is greater than its proper prefix\<close>
  "key_greater (a, x) (b, y) = (a > b \<or> a = b \<and>
     (case (x, y) of (Some s, Some t) \<Rightarrow> s > t | (Some _, None) \<Rightarrow> True | _ \<Rightarrow> False))"

definition keep_latest ::
  "(string \<Rightarrow> int option) \<Rightarrow> string \<Rightarrow> doc_key3 \<times> pydict \<Rightarrow> (string \<times> pydict) list \<Rightarrow> (string \<times> pydict) list res" where
  "keep_latest match_version domain_id entry latest =
     (case entry of ((tid, did, ver), doc) \<Rightarrow>
        if tid \<noteq> domain_id then Inr latest
        else case map_of latest did of
          None \<Rightarrow> Inr (assoc_put did doc latest)
        | Some old \<Rightarrow>
            bind_res (version_key match_version (dget doc ''version'' PNone)) (\<lambda>new_key.
            bind_res (version_key match_version (dget old ''version'' PNone)) (\<lambda>old_key.
              Inr (if key_greater new_key old_key then assoc_put did doc latest else latest))))"

fun lower_attr :: "pylib \<Rightarrow> pyval \<Rightarrow> string res" where
  \<comment> \<open>\<open>(v or "").lower()\<close>\<close>
  "lower_attr L (PStr s) = Inr (lower_of L s)"
| "lower_attr L v = (if truthy v then Inl AttributeError else Inr (lower_of L []))"

definition doc_has_keyword :: "pylib \<Rightarrow> string \<Rightarrow> pydict \<Rightarrow> bool res" where
  "doc_has_keyword L kw doc =
     bind_res (lower_attr L (dget doc ''title'' PNone)) (\<lambda>t.
       if contains kw t then Inr True
       else bind_res (lower_attr L (dget doc ''doc_id'' PNone)) (\<lambda>i. Inr (contains kw i)))"

definition list_documents ::
  "pylib \<Rightarrow> (string \<Rightarrow> int option) \<Rightarrow> string \<Rightarrow> string option \<Rightarrow> string option \<Rightarrow> int \<Rightarrow> int \<Rightarrow> doc_repo \<Rightarrow> pydict list res" where
  \<comment> \<open>\<open>list_by_tenant\<close>; identifiers that are not strings cannot be sorted with strings\<close>
  "list_documents L match_version domain_id keyword approval_status max_rows off docs =
     bind_res (fold_res (keep_latest match_version domain_id) docs []) (\<lambda>latest.
     bind_res (if truthy_str keyword then filter_res (doc_has_keyword L (lower_of L (the keyword))) (map snd latest)
               else Inr (map snd latest)) (\<lambda>found.
       let wanted = (if truthy_str approval_status
                     then filter (\<lambda>doc. dget doc ''approval_status'' PNone = PStr (the approval_status)) found else found)
       in bind_res (map_res (\<lambda>doc. bind_res (str_of_pyval (dget doc ''doc_id'' PNone)) (\<lambda>i. Inr (i, doc))) wanted) (\<lambda>keyed.
            Inr (py_slice off (off + max_rows) (map snd (sort_key fst keyed))))))"

definition doc_update_approval :: "string \<Rightarrow> string \<Rightarrow> string \<Rightarrow> string \<Rightarrow> doc_repo \<Rightarrow> pydict option \<times> doc_repo" where
  "doc_update_approval domain_id doc_id version approval_status docs =
     (let key = (domain_id, doc_id, version) in
      case map_of docs key of
        None \<Rightarrow> (None, docs)
      | Some doc \<Rightarrow> let doc' = dict_put ''approval_status'' (PStr approval_status) doc in
          (Some doc', assoc_modify key (\<lambda>_. doc') docs))"

definition doc_matches :: "string \<Rightarrow> string \<Rightarrow> string option \<Rightarrow> doc_key3 \<Rightarrow> bool" where
  "doc_matches domain_id doc_id version key =
     (case key of (tid, did, ver) \<Rightarrow> tid = domain_id \<and> did = doc_id \<and> (case version of None \<Rightarrow> True | Some v \<Rightarrow> ver = v))"

definition doc_delete :: "string \<Rightarrow> string \<Rightarrow> string option \<Rightarrow> doc_repo \<Rightarrow> nat \<times> doc_repo" where
  "doc_delete domain_id doc_id version docs =
     (let keys = filter (doc_matches domain_id doc_id version) (map fst docs)
      in (length keys, fold assoc_del keys docs))"

definition doc_update_partial :: "string \<Rightarrow> string \<Rightarrow> string \<Rightarrow> pydict \<Rightarrow> doc_repo \<Rightarrow> pydict option \<times> doc_repo" where
  "doc_update_partial domain_id doc_id version patch docs =
     (let key = (domain_id, doc_id, version) in
      case map_of docs key of
        None \<Rightarrow> (None, docs)
      | Some doc \<Rightarrow> let doc' = set_attrs patch doc in (Some doc', assoc_modify key (\<lambda>_. doc') docs))"

section \<open>Indexing jobs\<close>

record job =
  jb_job_id :: string
  jb_domain_id :: string
  jb_doc_id :: string
  jb_doc_version :: string
  jb_status :: string
  jb_step :: "string option"
  jb_progress :: int
  jb_total_chunks :: int
  jb_indexed_chunks :: int
  jb_failed_chunks :: "pydict list"
  jb_error_message :: "string option"
  jb_failure_rate :: "real option"
  jb_retry_count :: int
  jb_filename :: pyval

definition new_job :: "string \<Rightarrow> string \<Rightarrow> string \<Rightarrow> string \<Rightarrow> pyval \<Rightarrow> job" where
  "new_job job_id domain_id doc_id doc_version filename =
     \<lparr>jb_job_id = job_id, jb_domain_id = domain_id, jb_doc_id = doc_id, jb_doc_version = doc_version,
      jb_status = ''pending'', jb_step = None, jb_progress = 0, jb_total_chunks = 0, jb_indexed_chunks = 0,
      jb_failed_chunks = [], jb_error_message = None, jb_failure_rate = None, jb_retry_count = 0, jb_filename = filename\<rparr>"

type_synonym jobs = "(string \<times> job) list"

datatype index_error = IndexingConflict string | FileMissing | InvalidStatus | IndexRaised py_error

definition ACTIVE_STATES :: "string list" where
  "ACTIVE_STATES = [''pending'', ''parsing'', ''chunking'', ''embedding'', ''indexing'']"

definition is_active :: "job \<Rightarrow> bool" where
  "is_active j \<longleftrightarrow> jb_status j \<in> set ACTIVE_STATES"

definition same_document :: "job \<Rightarrow> job \<Rightarrow> bool" where
  "same_document a b \<longleftrightarrow> jb_domain_id a = jb_domain_id b \<and> jb_doc_id a = jb_doc_id b \<and> jb_doc_version a = jb_doc_version b"

definition create_job :: "job \<Rightarrow> jobs \<Rightarrow> (index_error + jobs)" where
  "create_job j js =
     (case find (\<lambda>e. same_document e j \<and> is_active e) (map snd js) of
        Some e \<Rightarrow> Inl (IndexingConflict (jb_job_id e))
      | None \<Rightarrow> Inr (assoc_put (jb_job_id j) j js))"

record job_update =
  up_status :: "string option"
  up_step :: "string option"
  up_progress :: "int option"
  up_total_chunks :: "int option"
  up_indexed_chunks :: "int option"
  up_failed_chunks :: "pydict list option"
  up_error_message :: "string option"
  up_failure_rate :: "real option"

definition no_update :: job_update where
  "no_update = \<lparr>up_status = None, up_step = None, up_progress = None, up_total_chunks = None, up_indexed_chunks = None,
     up_failed_chunks = None, up_error_message = None, up_failure_rate = None\<rparr>"

definition or_old :: "'a option \<Rightarrow> 'a \<Rightarrow> 'a" where
  "or_old new old = (case new of None \<Rightarrow> old | Some x \<Rightarrow> x)"

definition opt_or_old :: "'a option \<Rightarrow> 'a option \<Rightarrow> 'a option" where
  "opt_or_old new old = (case new of None \<Rightarrow> old | Some x \<Rightarrow> Some x)"

definition apply_update :: "job_update \<Rightarrow> job \<Rightarrow> job" where
  "apply_update up j =
     j\<lparr>jb_status := or_old (up_status up) (jb_status j), jb_step := opt_or_old (up_step up) (jb_step j),
       jb_progress := or_old (up_progress up) (jb_progress j),
       jb_total_chunks := or_old (up_total_chunks up) (jb_total_chunks j),
       jb_indexed_chunks := or_old (up_indexed_chunks up) (jb_indexed_chunks j),
       jb_failed_chunks := or_old (up_failed_chunks up) (jb_failed_chunks j),
       jb_error_message := opt_or_old (up_error_message up) (jb_error_message j),
       jb_failure_rate := opt_or_old (up_failure_rate up) (jb_failure_rate j)\<rparr>"

definition update_job :: "string \<Rightarrow> job_update \<Rightarrow> jobs \<Rightarrow> jobs res" where
  "update_job job_id up js =
     (if map_of js job_id = None then Inl KeyError else Inr (assoc_modify job_id (apply_update up) js))"

definition list_jobs :: "string \<Rightarrow> string option \<Rightarrow> int \<Rightarrow> int \<Rightarrow> jobs \<Rightarrow> job list" where
  "list_jobs domain_id status max_rows off js =
     py_slice off (off + max_rows) (rev (filter (\<lambda>j. jb_domain_id j = domain_id \<and>
       (case status of None \<Rightarrow> True | Some s \<Rightarrow> jb_status j = s)) (map snd js)))"

section \<open>Facts\<close>

text \<open>At most one job of a document version is active.\<close>

definition exclusive :: "jobs \<Rightarrow> bool" where
  "exclusive js \<longleftrightarrow> distinct (map fst js)
     \<and> (\<forall>i j a b. map_of js i = Some a \<longrightarrow> map_of js j = Some b \<longrightarrow> is_active a \<longrightarrow> is_active b \<longrightarrow> same_document a b \<longrightarrow> i = j)"

lemma apply_update_same [simp]:
  "jb_domain_id (apply_update up j) = jb_domain_id j" "jb_doc_id (apply_update up j) = jb_doc_id j"
  "jb_doc_version (apply_update up j) = jb_doc_version j" "jb_job_id (apply_update up j) = jb_job_id j"
  "jb_filename (apply_update up j) = jb_filename j" "jb_retry_count (apply_update up j) = jb_retry_count j"
  by (simp_all add: apply_update_def)

lemma create_exclusive:
  assumes "exclusive js" "create_job j js = Inr js'"
  shows "exclusive js'"
proof -
  have js': "js' = assoc_put (jb_job_id j) j js"
    and none: "\<And>i e. map_of js i = Some e \<Longrightarrow> \<not> (same_document e j \<and> is_active e)"
    using assms(2) by (auto simp: create_job_def find_None_iff dest!: map_of_SomeD split: option.splits)
  have sym: "same_document a b \<longleftrightarrow> same_document b a" for a b by (auto simp: same_document_def)
  show ?thesis
    unfolding exclusive_def js' map_of_assoc_put
    using assms(1) none sym by (auto simp: exclusive_def distinct_assoc_put split: if_splits)
qed

lemma update_exclusive:
  assumes "exclusive js" "update_job i up js = Inr js'" "map_of js i = Some j" "is_active j \<or> \<not> is_active (apply_update up j)"
  shows "exclusive js'"
proof -
  have js': "js' = assoc_modify i (apply_update up) js" using assms(2) by (simp add: update_job_def split: if_splits)
  have sd: "same_document (apply_update up a) b \<longleftrightarrow> same_document a b" "same_document b (apply_update up a) \<longleftrightarrow> same_document b a" for a b
    by (simp_all add: same_document_def)
  show ?thesis
    unfolding exclusive_def js'
    using assms(1,3,4) by (auto simp: exclusive_def map_of_assoc_modify sd split: if_splits) blast
qed

end
