(* ===== verification/Doc_Sync.thy ===== *)
theory Doc_Sync
  imports Chunk_Repo
begin

text \<open>
  The chunk table and the vector store hold the same metadata twice: retrieval reads the payload of a
  point, administration reads the row. This theory states what it means that the two agree, the contract
  of a chunk table as a locale, and what the operations of clients do to the agreement; the in-memory
  repository is shown to meet the contract.
\<close>

section \<open>Agreement of rows and payloads\<close>

definition SHARED :: "string list" where
  \<comment> \<open>the attributes that a row and its payload have under the same name\<close>
  "SHARED = [''domain_id'', ''doc_id'', ''doc_version'', ''parser_version'', ''chunk_strategy'', ''chunk_index'', ''title'',
     ''page_number'', ''section_title'', ''heading_path'', ''department'', ''doc_type'', ''security_level'', ''acl'',
     ''approval_status'', ''tags'', ''valid_from'', ''valid_until'', ''pii_warnings'']"

definition agrees :: "pydict \<Rightarrow> chunk_record \<Rightarrow> bool" where
  "agrees pl r \<longleftrightarrow> dget pl ''content'' PNone = PStr (cr_content r)
     \<and> (\<forall>k \<in> set SHARED. k \<in> fst ` set (cr_attrs r) \<and> dget pl k PNone = dget (cr_attrs r) k PNone)"

definition synced :: "vstore \<Rightarrow> (chunk_key \<times> chunk_record) set \<Rightarrow> string \<Rightarrow> bool" where
  \<comment> \<open>every row of the domain has a point whose payload agrees with it\<close>
  "synced st tab d \<longleftrightarrow> (\<forall>x \<in> tab. fst (fst x) = d \<longrightarrow>
     (\<exists>pl. payloads st d (cr_chunk_id (snd x)) = Some pl \<and> agrees pl (snd x)))"

definition no_orphans :: "vstore \<Rightarrow> (chunk_key \<times> chunk_record) set \<Rightarrow> string \<Rightarrow> bool" where
  \<comment> \<open>every point of the domain has a row\<close>
  "no_orphans st tab d \<longleftrightarrow> dom (payloads st d) \<subseteq> {cr_chunk_id (snd x) |x. x \<in> tab \<and> fst (fst x) = d}"

lemma keys_set_attrs [simp]: "fst ` set (set_attrs m a) = fst ` set a"
proof (induction m arbitrary: a)
  case (Cons kv m)
  have "fst ` set (if fst kv \<in> fst ` set a then dict_put (fst kv) (snd kv) a else a) = fst ` set a"
    by (simp add: keys_dict_put insert_absorb)
  with Cons show ?case by (simp add: set_attrs_def case_prod_beta)
qed (simp add: set_attrs_def)

lemma map_of_set_attrs:
  "map_of (set_attrs m a) k = (if k \<in> fst ` set a then (map_of a ++ map_of (rev m)) k else None)"
proof (induction m arbitrary: a)
  case Nil
  then show ?case by (auto simp: set_attrs_def map_of_eq_None_iff)
next
  case (Cons kv m)
  obtain k' v where kv: "kv = (k', v)" by (cases kv)
  let ?a = "if k' \<in> fst ` set a then dict_put k' v a else a"
  have "set_attrs (kv # m) a = set_attrs m ?a" by (simp add: set_attrs_def kv)
  moreover have "fst ` set ?a = fst ` set a" by (auto simp: keys_dict_put)
  moreover have "k \<in> fst ` set a \<Longrightarrow> (map_of ?a ++ map_of (rev m)) k = (map_of a ++ map_of (rev (kv # m))) k"
    by (auto simp: kv map_of_dict_put map_add_def split: option.splits)
  ultimately show ?case by (simp only: Cons.IH) auto
qed

lemma dget_update: "dget (dict_update a m) k v = (case map_of (rev m) k of Some x \<Rightarrow> x | None \<Rightarrow> dget a k v)"
  by (simp add: dget_def map_of_dict_update map_add_def split: option.splits)

lemma dget_set_attrs:
  "k \<in> fst ` set a \<Longrightarrow> dget (set_attrs m a) k v = (case map_of (rev m) k of Some x \<Rightarrow> x | None \<Rightarrow> dget a k v)"
  by (simp add: dget_def map_of_set_attrs map_add_def split: option.splits)

lemma agrees_update:
  assumes "agrees pl r" and "''content'' \<notin> fst ` set m"
  shows "agrees (dict_update pl m) (set_row m r)"
proof -
  have "map_of (rev m) ''content'' = None" using assms(2) by (simp add: map_of_eq_None_iff)
  then show ?thesis
    using assms(1) unfolding agrees_def set_row_def by (auto simp: dget_update dget_set_attrs split: option.splits)
qed

lemma agrees_private:
  assumes "agrees pl r" and "fst ` set m \<inter> set SHARED = {}"
  shows "agrees pl (set_row m r)"
proof -
  have "map_of (rev m) k = None" if "k \<in> set SHARED" for k using that assms(2) by (auto simp: map_of_eq_None_iff)
  then show ?thesis
    using assms(1) unfolding agrees_def set_row_def by (auto simp: dget_set_attrs)
qed

lemma payloads_set_payload:
  assumes "set_payload st d ids m = Inr st'" "distinct ids"
  shows "payloads st' d k = (if k \<in> set ids then map_option (\<lambda>pl. dict_update pl m) (payloads st d k) else payloads st d k)"
  using assms by (auto simp: store_defs payloads_def fold_update_map split: option.splits)

lemma payloads_delete: "payloads (delete_points st d ids) d = payloads st d |` (- set ids)"
  by (auto simp: payloads_def delete_points_def point_map_filter split: option.splits)

lemma payloads_upsert: "upsert_chunks st d pts = Inr st' \<Longrightarrow> payloads st' d = payloads st d ++ point_map (rev pts)"
  by (auto simp: store_defs payloads_def point_map_fold_put split: option.splits)

definition in_sync :: "vstore \<Rightarrow> (chunk_key \<times> chunk_record) set \<Rightarrow> bool" where
  "in_sync st tab \<longleftrightarrow> (\<forall>d. synced st tab d)"

lemma payloads_frame:
  "set_payload st d ids m = Inr st' \<Longrightarrow> e \<noteq> d \<Longrightarrow> payloads st' e = payloads st e"
  "upsert_chunks st d pts = Inr st' \<Longrightarrow> e \<noteq> d \<Longrightarrow> payloads st' e = payloads st e"
  "e \<noteq> d \<Longrightarrow> payloads (delete_points st d ids) e = payloads st e"
  by (auto simp: store_defs payloads_def split: option.splits)

lemma synced_frame:
  assumes "synced st tab e" and "payloads st' e = payloads st e" and "\<And>x. x \<in> tab' \<Longrightarrow> fst (fst x) = e \<Longrightarrow> x \<in> tab"
  shows "synced st' tab' e"
  using assms unfolding synced_def by simp

definition sync_payload :: "vstore \<Rightarrow> string \<Rightarrow> string list \<Rightarrow> pydict \<Rightarrow> vstore" where
  \<comment> \<open>\<open>set_payload\<close> in a block that only logs the exception\<close>
  "sync_payload st d ids m = (case set_payload st d ids m of Inl _ \<Rightarrow> st | Inr st' \<Rightarrow> st')"

lemma set_payload_Inl: "set_payload st d ids m = Inl e \<Longrightarrow> payloads st d = Map.empty"
  by (auto simp: store_defs payloads_def split: option.splits)

section \<open>The contract of a chunk table\<close>

locale chunk_table =
  fixes wf :: "'r \<Rightarrow> bool"
    and tab :: "'r \<Rightarrow> (chunk_key \<times> chunk_record) set"
    and replace :: "string \<Rightarrow> string \<Rightarrow> string \<Rightarrow> string \<Rightarrow> chunk_record list \<Rightarrow> 'r \<Rightarrow> 'r"
    and update :: "string \<Rightarrow> string list \<Rightarrow> pydict \<Rightarrow> 'r \<Rightarrow> 'r"
    and listing :: "string \<Rightarrow> string \<Rightarrow> string \<Rightarrow> string option \<Rightarrow> 'r \<Rightarrow> chunk_record list"
    and delete :: "string \<Rightarrow> string \<Rightarrow> string option \<Rightarrow> 'r \<Rightarrow> string list \<times> 'r"
  assumes unique: "wf rp \<Longrightarrow> x \<in> tab rp \<Longrightarrow> y \<in> tab rp \<Longrightarrow> fst (fst x) = fst (fst y)
      \<Longrightarrow> cr_chunk_id (snd x) = cr_chunk_id (snd y) \<Longrightarrow> x = y"
    and replace_tab: "wf rp \<Longrightarrow> tab (replace d doc ver pv cs rp)
      = {x \<in> tab rp. fst x \<noteq> (d, doc, ver, pv)} \<union> {(d, doc, ver, pv)} \<times> set cs"
    and replace_keeps: "wf rp \<Longrightarrow> distinct (map cr_chunk_id cs)
      \<Longrightarrow> (\<And>x. x \<in> tab rp \<Longrightarrow> fst (fst x) = d \<Longrightarrow> fst x \<noteq> (d, doc, ver, pv) \<Longrightarrow> cr_chunk_id (snd x) \<notin> cr_chunk_id ` set cs)
      \<Longrightarrow> wf (replace d doc ver pv cs rp)"
    and update_tab: "wf rp \<Longrightarrow> distinct ids \<Longrightarrow> tab (update d ids m rp) = patch_row d (set ids) m ` tab rp"
    and update_keeps: "wf rp \<Longrightarrow> distinct ids \<Longrightarrow> wf (update d ids m rp)"
    and listing_tab: "wf rp \<Longrightarrow> set (listing d doc ver p rp) = {snd x |x. x \<in> tab rp \<and> doc_key d doc ver p (fst x)}"
    and listing_ids: "wf rp \<Longrightarrow> distinct (map cr_chunk_id (listing d doc ver p rp))"
    and delete_tab: "wf rp \<Longrightarrow> tab (snd (delete d doc v rp)) = {x \<in> tab rp. \<not> in_doc d doc v (fst x)}"
    and delete_returns: "wf rp \<Longrightarrow> set (fst (delete d doc v rp)) = {cr_chunk_id (snd x) |x. x \<in> tab rp \<and> in_doc d doc v (fst x)}"
    and delete_keeps: "wf rp \<Longrightarrow> wf (snd (delete d doc v rp))"
begin

lemma synced_update:
  assumes "wf rp" "synced st (tab rp) d" "distinct ids" "''content'' \<notin> fst ` set m" "set_payload st d ids m = Inr st'"
  shows "synced st' (tab (update d ids m rp)) d"
  unfolding synced_def update_tab [OF assms(1,3)]
proof (intro ballI impI)
  fix y assume "y \<in> patch_row d (set ids) m ` tab rp" and d: "fst (fst y) = d"
  then obtain x where x: "x \<in> tab rp" "y = patch_row d (set ids) m x" by blast
  then have "fst (fst x) = d" using d by (simp add: patch_row_def)
  then obtain pl where pl: "payloads st d (cr_chunk_id (snd x)) = Some pl" "agrees pl (snd x)"
    using assms(2) x(1) unfolding synced_def by blast
  then show "\<exists>pl. payloads st' d (cr_chunk_id (snd y)) = Some pl \<and> agrees pl (snd y)"
    using x(2) \<open>fst (fst x) = d\<close> agrees_update [OF pl(2) assms(4)]
    by (simp add: payloads_set_payload [OF assms(5,3)] patch_row_def)
qed

lemma in_sync_update:
  assumes "wf rp" "in_sync st (tab rp)" "distinct ids" "''content'' \<notin> fst ` set m"
  shows "in_sync (sync_payload st d ids m) (tab (update d ids m rp))"
  unfolding in_sync_def
proof
  fix e
  have s: "synced st (tab rp) e" using assms(2) by (simp add: in_sync_def)
  show "synced (sync_payload st d ids m) (tab (update d ids m rp)) e"
  proof (cases "set_payload st d ids m")
    case (Inl x)
    have "synced st (tab (update d ids m rp)) d" if "synced st (tab rp) d"
      using that set_payload_Inl [OF Inl] by (auto simp: synced_def update_tab [OF assms(1,3)] patch_row_def)
    moreover have "synced st (tab (update d ids m rp)) e" if "e \<noteq> d"
      by (rule synced_frame [OF s refl]) (use that in \<open>auto simp: update_tab [OF assms(1,3)] patch_row_def\<close>)
    ultimately show ?thesis using s Inl by (cases "e = d") (auto simp: sync_payload_def)
  next
    case (Inr st')
    have "synced st' (tab (update d ids m rp)) e" if "e \<noteq> d"
      by (rule synced_frame [OF s payloads_frame(1) [OF Inr that]]) (use that in \<open>auto simp: update_tab [OF assms(1,3)] patch_row_def\<close>)
    with synced_update [OF assms(1) _ assms(3,4) Inr] s Inr show ?thesis
      by (cases "e = d") (auto simp: sync_payload_def)
  qed
qed

text \<open>New payloads that agree with their rows, and updates of attributes that only the table has.\<close>

lemma in_sync_overwrite:
  assumes "in_sync st (tab rp)" "payloads st' d = payloads st d ++ pm" "\<And>e. e \<noteq> d \<Longrightarrow> payloads st' e = payloads st e"
    and "\<And>x pl. x \<in> tab rp \<Longrightarrow> fst (fst x) = d \<Longrightarrow> pm (cr_chunk_id (snd x)) = Some pl \<Longrightarrow> agrees pl (snd x)"
  shows "in_sync st' (tab rp)"
  unfolding in_sync_def synced_def
proof (intro allI ballI impI)
  fix e x assume x: "x \<in> tab rp" "fst (fst x) = e"
  then obtain pl where pl: "payloads st e (cr_chunk_id (snd x)) = Some pl" "agrees pl (snd x)"
    using assms(1) unfolding in_sync_def synced_def by blast
  show "\<exists>pl. payloads st' e (cr_chunk_id (snd x)) = Some pl \<and> agrees pl (snd x)"
  proof (cases "e = d")
    case True
    then show ?thesis
      using pl assms(4) [OF x(1)] x(2) by (cases "pm (cr_chunk_id (snd x))") (auto simp: assms(2) map_add_def)
  qed (use pl assms(3) in simp)
qed

lemma in_sync_private:
  assumes "wf rp" "in_sync st (tab rp)" "distinct ids" "fst ` set m \<inter> set SHARED = {}"
  shows "in_sync st (tab (update d ids m rp))"
  unfolding in_sync_def synced_def update_tab [OF assms(1,3)]
proof (intro allI ballI impI)
  fix e y assume "y \<in> patch_row d (set ids) m ` tab rp" "fst (fst y) = e"
  then obtain x where x: "x \<in> tab rp" "y = patch_row d (set ids) m x" "fst (fst x) = e" by (auto simp: patch_row_def)
  then obtain pl where "payloads st e (cr_chunk_id (snd x)) = Some pl" "agrees pl (snd x)"
    using assms(2) unfolding in_sync_def synced_def by blast
  then show "\<exists>pl. payloads st e (cr_chunk_id (snd y)) = Some pl \<and> agrees pl (snd y)"
    using agrees_private [OF _ assms(4)] x(2) by (auto simp: patch_row_def)
qed

lemma synced_delete:
  assumes "wf rp" "synced st (tab rp) d"
  shows "synced (delete_points st d (fst (delete d doc v rp))) (tab (snd (delete d doc v rp))) d"
  unfolding synced_def delete_tab [OF assms(1)]
proof (intro ballI impI)
  fix x assume x: "x \<in> {x \<in> tab rp. \<not> in_doc d doc v (fst x)}" and d: "fst (fst x) = d"
  then obtain pl where pl: "payloads st d (cr_chunk_id (snd x)) = Some pl" "agrees pl (snd x)"
    using assms(2) unfolding synced_def by blast
  have "cr_chunk_id (snd x) \<notin> set (fst (delete d doc v rp))"
  proof
    assume "cr_chunk_id (snd x) \<in> set (fst (delete d doc v rp))"
    then obtain y where y: "y \<in> tab rp" "in_doc d doc v (fst y)" "cr_chunk_id (snd x) = cr_chunk_id (snd y)"
      unfolding delete_returns [OF assms(1)] by blast
    then have "fst (fst y) = d" by (auto simp: in_doc_def split: prod.splits)
    then have "x = y" using unique [OF assms(1), of x y] x y d by simp
    with x y(2) show False by simp
  qed
  with pl show "\<exists>pl. payloads (delete_points st d (fst (delete d doc v rp))) d (cr_chunk_id (snd x)) = Some pl \<and> agrees pl (snd x)"
    by (simp add: payloads_delete)
qed

lemma in_sync_delete:
  assumes "wf rp" "in_sync st (tab rp)"
  shows "in_sync (delete_points st d (fst (delete d doc v rp))) (tab (snd (delete d doc v rp)))"
  unfolding in_sync_def
proof
  fix e
  have s: "synced st (tab rp) e" using assms(2) by (simp add: in_sync_def)
  show "synced (delete_points st d (fst (delete d doc v rp))) (tab (snd (delete d doc v rp))) e"
  proof (cases "e = d")
    case False
    then show ?thesis by (intro synced_frame [OF s payloads_frame(3)]) (auto simp: delete_tab [OF assms(1)])
  qed (use synced_delete [OF assms(1)] s in simp)
qed

text \<open>Deleting what the table lists leaves nothing behind, if every point had a row.\<close>

lemma orphans_delete:
  assumes "wf rp" "no_orphans st (tab rp) d"
  shows "no_orphans (delete_points st d (fst (delete d doc v rp))) (tab (snd (delete d doc v rp))) d"
  unfolding no_orphans_def
proof
  fix k assume "k \<in> dom (payloads (delete_points st d (fst (delete d doc v rp))) d)"
  then have "k \<in> dom (payloads st d)" and kept: "k \<notin> set (fst (delete d doc v rp))"
    by (auto simp: payloads_delete restrict_map_def split: if_splits)
  then obtain x where x: "x \<in> tab rp" "fst (fst x) = d" "k = cr_chunk_id (snd x)"
    using assms(2) unfolding no_orphans_def by blast
  then have "\<not> in_doc d doc v (fst x)" using kept unfolding delete_returns [OF assms(1)] by blast
  then show "k \<in> {cr_chunk_id (snd x) |x. x \<in> tab (snd (delete d doc v rp)) \<and> fst (fst x) = d}"
    using x unfolding delete_tab [OF assms(1)] by blast
qed

lemma synced_replace:
  assumes "wf rp" "synced st (tab rp) d"
    and "\<And>x. x \<in> tab rp \<Longrightarrow> fst (fst x) = d \<Longrightarrow> fst x \<noteq> (d, doc, ver, pv) \<Longrightarrow> cr_chunk_id (snd x) \<notin> cr_chunk_id ` set cs"
    and "payloads st' d = payloads st d ++ pm" and "dom pm \<subseteq> cr_chunk_id ` set cs"
    and "\<And>r. r \<in> set cs \<Longrightarrow> \<exists>pl. pm (cr_chunk_id r) = Some pl \<and> agrees pl r"
  shows "synced st' (tab (replace d doc ver pv cs rp)) d"
  unfolding synced_def replace_tab [OF assms(1)]
proof (intro ballI impI)
  fix x assume x: "x \<in> {x \<in> tab rp. fst x \<noteq> (d, doc, ver, pv)} \<union> {(d, doc, ver, pv)} \<times> set cs" and d: "fst (fst x) = d"
  show "\<exists>pl. payloads st' d (cr_chunk_id (snd x)) = Some pl \<and> agrees pl (snd x)"
  proof (cases "x \<in> tab rp \<and> fst x \<noteq> (d, doc, ver, pv)")
    case True
    then have "pm (cr_chunk_id (snd x)) = None" using assms(3) [of x] assms(5) d by blast
    moreover obtain pl where "payloads st d (cr_chunk_id (snd x)) = Some pl" "agrees pl (snd x)"
      using True assms(2) d unfolding synced_def by blast
    ultimately show ?thesis by (simp add: assms(4) map_add_def)
  next
    case False
    then have "snd x \<in> set cs" using x by auto
    with assms(6) [of "snd x"] show ?thesis by (auto simp: assms(4))
  qed
qed

lemma in_sync_replace:
  assumes "wf rp" "in_sync st (tab rp)"
    and "\<And>x. x \<in> tab rp \<Longrightarrow> fst (fst x) = d \<Longrightarrow> fst x \<noteq> (d, doc, ver, pv) \<Longrightarrow> cr_chunk_id (snd x) \<notin> cr_chunk_id ` set cs"
    and "payloads st' d = payloads st d ++ pm" and "\<And>e. e \<noteq> d \<Longrightarrow> payloads st' e = payloads st e"
    and "dom pm \<subseteq> cr_chunk_id ` set cs" and "\<And>r. r \<in> set cs \<Longrightarrow> \<exists>pl. pm (cr_chunk_id r) = Some pl \<and> agrees pl r"
  shows "in_sync st' (tab (replace d doc ver pv cs rp))"
  unfolding in_sync_def
proof
  fix e
  have s: "synced st (tab rp) e" using assms(2) by (simp add: in_sync_def)
  show "synced st' (tab (replace d doc ver pv cs rp)) e"
  proof (cases "e = d")
    case True
    then show ?thesis using synced_replace [OF assms(1) _ assms(3,4,6,7)] s by simp
  next
    case False
    then show ?thesis by (intro synced_frame [OF s assms(5)]) (auto simp: replace_tab [OF assms(1)])
  qed
qed

end

interpretation mem_chunks: chunk_table repo_wf rows replace_chunks update_metadata list_by_doc delete_by_doc
proof unfold_locales
  show "x = y" if "repo_wf rp" "x \<in> rows rp" "y \<in> rows rp" "fst (fst x) = fst (fst y)" "cr_chunk_id (snd x) = cr_chunk_id (snd y)" for rp x y
    using rows_unique [OF that(1), of "fst x" "snd x" "fst y" "snd y"] that by (simp add: prod_eq_iff)
  show "repo_wf (replace_chunks d doc ver pv cs rp)" if "repo_wf rp" "distinct (map cr_chunk_id cs)"
    "\<And>x. x \<in> rows rp \<Longrightarrow> fst (fst x) = d \<Longrightarrow> fst x \<noteq> (d, doc, ver, pv) \<Longrightarrow> cr_chunk_id (snd x) \<notin> cr_chunk_id ` set cs"
    for rp d doc ver pv cs
    by (rule replace_wf [OF that(1,2)]) (use that(3) in fastforce)
  show "set (list_by_doc d doc ver pv rp) = {snd x |x. x \<in> rows rp \<and> doc_key d doc ver pv (fst x)}" for rp d doc ver pv
    unfolding set_list_by_doc
  proof (intro equalityI subsetI)
    fix r assume "r \<in> {r. \<exists>key. doc_key d doc ver pv key \<and> (key, r) \<in> rows rp}"
    then obtain key where "doc_key d doc ver pv key" "(key, r) \<in> rows rp" by blast
    then show "r \<in> {snd x |x. x \<in> rows rp \<and> doc_key d doc ver pv (fst x)}"
      by (intro CollectI exI [of _ "(key, r)"]) simp
  next
    fix r assume "r \<in> {snd x |x. x \<in> rows rp \<and> doc_key d doc ver pv (fst x)}"
    then obtain x where "r = snd x" "x \<in> rows rp" "doc_key d doc ver pv (fst x)" by blast
    then show "r \<in> {r. \<exists>key. doc_key d doc ver pv key \<and> (key, r) \<in> rows rp}"
      by (intro CollectI exI [of _ "fst x"]) simp
  qed
qed (simp_all add: rows_replace update_metadata_rows distinct_listing delete_rows delete_ids delete_wf)

end
