(* ===== verification/Chunking.thy ===== *)
theory Chunking
  imports Py_Text Py_Data
begin

text \<open>
  From a file to chunks: \<open>InMemoryParser\<close> and the fixed-window \<open>InMemoryChunker\<close> of
  \<open>rag_core/clients/in_memory.py\<close>, with the page and chunk types of \<open>interfaces/parser.py\<close> and
  \<open>interfaces/chunker.py\<close>. Reading a file is a parameter. A chunk that is rebuilt from a stored row
  takes its attributes from there, so those that are only passed on are Python values.
\<close>

section \<open>Parser and chunker\<close>

record parsed_page =
  pg_number :: int
  pg_text :: string
  pg_section_title :: pyval
  pg_heading_path :: "pyval list option"

definition plain_page :: "nat \<times> string \<Rightarrow> parsed_page" where
  "plain_page ib = \<lparr>pg_number = int (fst ib), pg_text = snd ib, pg_section_title = PNone, pg_heading_path = Some []\<rparr>"

definition mem_parse ::
  "(string \<times> string list) list \<Rightarrow> (string \<Rightarrow> string res) \<Rightarrow> pyval \<Rightarrow> parsed_page list res" where
  \<comment> \<open>the registered pages, or the file as one page; a path that is not a string is neither a key nor a path\<close>
  "mem_parse inline read_text file_path =
     (case file_path of
        PStr path \<Rightarrow>
          bind_res (case map_of inline path of Some ps \<Rightarrow> Inr ps | None \<Rightarrow> bind_res (read_text path) (\<lambda>t. Inr [t]))
            (\<lambda>pages. Inr (map plain_page (enumerate 1 pages)))
      | _ \<Rightarrow> Inl TypeError)"

record chunker =
  ck_strategy :: string
  ck_max_tokens :: int
  ck_overlap_tokens :: int

definition chunker_init :: "string \<Rightarrow> int \<Rightarrow> int \<Rightarrow> chunker" where
  "chunker_init strategy max_tokens overlap_tokens =
     \<lparr>ck_strategy = strategy, ck_max_tokens = max 1 max_tokens,
      ck_overlap_tokens = max 0 (min overlap_tokens (max_tokens - 1))\<rparr>"

record chunk =
  ch_id :: string
  ch_index :: pyval
  ch_content :: string
  ch_page_number :: pyval
  ch_section_title :: pyval
  ch_heading_path :: "pyval list"
  ch_start_char :: pyval
  ch_end_char :: pyval
  ch_token_count :: pyval

function windows_from :: "nat \<Rightarrow> nat \<Rightarrow> 'a list \<Rightarrow> nat \<Rightarrow> (nat \<times> 'a list) list" where
  \<comment> \<open>the inner loop: window size, step, the tokens of the page and the next start\<close>
  "windows_from m s tokens start =
     (if length tokens \<le> start then []
      else let window = take m (drop start tokens) in
        if window = [] then []
        else (start, window)
          # (if length tokens \<le> start + m then [] else windows_from m s tokens (start + max 1 s)))"
  by pat_completeness auto
termination
  by (relation "measure (\<lambda>(m, s, tokens, start). length tokens - start)") auto

declare windows_from.simps [simp del]

definition chunk_id_for :: "string \<Rightarrow> string \<Rightarrow> string \<Rightarrow> nat \<Rightarrow> string" where
  "chunk_id_for doc_id doc_version parser_version i =
     doc_id @ '':'' @ doc_version @ '':'' @ parser_version @ '':chunk:'' @ digits_of i"

definition char_count :: "string \<Rightarrow> nat" where
  "char_count s = length (utf8_chars s)"

definition window_chunk ::
  "string \<Rightarrow> string \<Rightarrow> string \<Rightarrow> parsed_page \<Rightarrow> string list \<Rightarrow> nat \<times> nat \<times> string list \<Rightarrow> chunk" where
  "window_chunk doc_id doc_version parser_version page tokens iw =
     (case iw of (i, start, window) \<Rightarrow>
        let content = py_join '' '' window;
            start_char = sum_list (map (\<lambda>t. char_count t + 1) (take start tokens))
        in \<lparr>ch_id = chunk_id_for doc_id doc_version parser_version i, ch_index = PInt (int i), ch_content = content,
            ch_page_number = PInt (pg_number page), ch_section_title = pg_section_title page,
            ch_heading_path = (case pg_heading_path page of None \<Rightarrow> [] | Some h \<Rightarrow> h),
            ch_start_char = PInt (int start_char), ch_end_char = PInt (int (start_char + char_count content)),
            ch_token_count = PInt (int (length window))\<rparr>)"

definition page_windows :: "chunker \<Rightarrow> parsed_page \<Rightarrow> (nat \<times> string list) list" where
  "page_windows ck page =
     windows_from (nat (ck_max_tokens ck)) (nat (max 1 (ck_max_tokens ck - ck_overlap_tokens ck))) (py_split (pg_text page)) 0"

primrec chunk_pages ::
  "chunker \<Rightarrow> string \<Rightarrow> string \<Rightarrow> string \<Rightarrow> nat \<Rightarrow> parsed_page list \<Rightarrow> chunk list" where
  "chunk_pages ck doc_id doc_version parser_version i [] = []"
| "chunk_pages ck doc_id doc_version parser_version i (page # pages) =
     (let windows = page_windows ck page in
      map (window_chunk doc_id doc_version parser_version page (py_split (pg_text page))) (enumerate i windows)
      @ chunk_pages ck doc_id doc_version parser_version (i + length windows) pages)"

definition mem_chunk :: "chunker \<Rightarrow> string \<Rightarrow> string \<Rightarrow> string \<Rightarrow> parsed_page list \<Rightarrow> chunk list" where
  "mem_chunk ck doc_id doc_version parser_version pages = chunk_pages ck doc_id doc_version parser_version 0 pages"

section \<open>Facts about chunks\<close>

definition text_ok :: "string \<Rightarrow> bool" where
  \<comment> \<open>UTF-8 text does not begin inside a code point\<close>
  "text_ok s \<longleftrightarrow> s = [] \<or> \<not> utf8_cont (hd s)"

lemma windows_slices:
  "(st, w) \<in> set (windows_from m s tokens start) \<Longrightarrow>
     start \<le> st \<and> st < length tokens \<and> w = take m (drop st tokens) \<and> w \<noteq> []"
proof (induction m s tokens start rule: windows_from.induct)
  case (1 m s tokens start)
  then show ?case
    by (subst (asm) windows_from.simps) (fastforce simp: Let_def split: if_splits)
qed

text \<open>Without overlap the windows partition the tokens.\<close>

lemma windows_partition:
  "0 < m \<Longrightarrow> start \<le> length tokens \<Longrightarrow> concat (map snd (windows_from m m tokens start)) = drop start tokens"
proof (induction "length tokens - start" arbitrary: start rule: less_induct)
  case less
  show ?case
  proof (cases "length tokens \<le> start + m")
    case True
    then show ?thesis using less.prems by (subst windows_from.simps) (auto simp: Let_def)
  next
    case False
    then have "concat (map snd (windows_from m m tokens (start + m))) = drop (start + m) tokens"
      using less by auto
    moreover have "drop (start + m) tokens = drop m (drop start tokens)" by (simp add: add.commute)
    ultimately have "concat (map snd (windows_from m m tokens start)) = take m (drop start tokens) @ drop m (drop start tokens)"
      using False less.prems by (subst windows_from.simps) (simp add: Let_def max_def)
    then show ?thesis by (simp only: append_take_drop_id)
  qed
qed

text \<open>With any overlap smaller than the window, every token is in some window.\<close>

lemma windows_cover:
  assumes "0 < s" "s \<le> m" "start \<le> i" "i < length tokens"
  shows "\<exists>st w. (st, w) \<in> set (windows_from m s tokens start) \<and> st \<le> i \<and> i < st + length w \<and> w ! (i - st) = tokens ! i"
  using assms(3,4)
proof (induction "length tokens - start" arbitrary: start rule: less_induct)
  case less
  have unfold: "windows_from m s tokens start = (start, take m (drop start tokens))
      # (if length tokens \<le> start + m then [] else windows_from m s tokens (start + s))"
    using less.prems assms(1,2) by (subst windows_from.simps) (auto simp: Let_def max_def)
  show ?case
  proof (cases "i < start + m")
    case True
    then show ?thesis
      using less.prems by (intro exI [of _ start] exI [of _ "take m (drop start tokens)"]) (auto simp: unfold)
  next
    case False
    then have "start + s \<le> i" using assms(2) by simp
    moreover have "length tokens - (start + s) < length tokens - start" using less.prems assms(1) by simp
    ultimately obtain st w where "(st, w) \<in> set (windows_from m s tokens (start + s))" "st \<le> i"
      "i < st + length w" "w ! (i - st) = tokens ! i"
      using less.hyps [of "start + s"] less.prems(2) by blast
    with False less.prems show ?thesis by (intro exI [of _ st] exI [of _ w]) (auto simp: unfold)
  qed
qed

lemma chunk_pages_ids:
  "map ch_id (chunk_pages ck doc ver pv i pages)
   = map (chunk_id_for doc ver pv) [i ..< i + length (chunk_pages ck doc ver pv i pages)]"
proof (induction pages arbitrary: i)
  case (Cons page pages)
  have "map ch_id (map (window_chunk doc ver pv page toks) (enumerate i ws)) = map (chunk_id_for doc ver pv) (map fst (enumerate i ws))" for toks ws
    unfolding map_map by (rule map_cong) (auto simp: window_chunk_def Let_def)
  with Cons [of "i + length (page_windows ck page)"] show ?case
    by (simp add: Let_def) (metis (no_types, lifting) add.assoc le_add1 map_append map_map upt_add_eq_append)
qed simp

lemma chunk_id_for_inj: "inj (chunk_id_for doc ver pv)"
  by (rule injI) (simp add: chunk_id_for_def)

lemma distinct_chunk_ids: "distinct (map ch_id (mem_chunk ck doc ver pv pages))"
  unfolding mem_chunk_def chunk_pages_ids by (simp add: distinct_map inj_on_subset [OF chunk_id_for_inj])

lemma window_words:
  assumes "text_ok (pg_text page)" and "(st, w) \<in> set (page_windows ck page)"
  shows "py_split (py_join '' '' w) = w"
proof -
  have "set w \<subseteq> set (py_split (pg_text page))"
    using windows_slices [OF assms(2) [unfolded page_windows_def]] by (metis set_drop_subset set_take_subset subset_trans)
  then show ?thesis using py_split_words [of "pg_text page"] assms(1) by (intro split_join_words) (auto simp: text_ok_def)
qed

lemma page_chunk_words:
  assumes "\<forall>x \<in> set ws. py_split (py_join '' '' (snd x)) = snd x"
  shows "concat (map (py_split \<circ> ch_content \<circ> window_chunk doc ver pv page toks) (enumerate i ws)) = concat (map snd ws)"
  using assms by (induction ws arbitrary: i) (auto simp: window_chunk_def Let_def)


lemma chunk_in_page:
  assumes "c \<in> set (chunk_pages ck doc ver pv i pages)"
  obtains page j st w where "page \<in> set pages" "(st, w) \<in> set (page_windows ck page)"
    "c = window_chunk doc ver pv page (py_split (pg_text page)) (j, st, w)"
  using assms
proof (induction pages arbitrary: i thesis)
  case (Cons page pages)
  consider "c \<in> set (map (window_chunk doc ver pv page (py_split (pg_text page))) (enumerate i (page_windows ck page)))"
    | "c \<in> set (chunk_pages ck doc ver pv (i + length (page_windows ck page)) pages)"
    using Cons.prems(2) by (auto simp: Let_def)
  then show ?case
  proof cases
    case 1
    then obtain j st w where x: "(j, st, w) \<in> set (enumerate i (page_windows ck page))"
      "c = window_chunk doc ver pv page (py_split (pg_text page)) (j, st, w)" by auto
    have "(st, w) \<in> set (page_windows ck page)" using imageI [OF x(1), of snd] by (metis map_snd_enumerate set_map snd_conv)
    then show ?thesis using Cons.prems(1) [of page] x(2) by simp
  next
    case 2
    show ?thesis by (rule Cons.IH [OF _ 2]) (use Cons.prems(1) in auto)
  qed
qed simp

lemma page_windows_in_chunks:
  assumes "page \<in> set pages" and "(st, w) \<in> set (page_windows ck page)"
  shows "\<exists>j. window_chunk doc ver pv page (py_split (pg_text page)) (j, st, w) \<in> set (chunk_pages ck doc ver pv i pages)"
  using assms(1)
proof (induction pages arbitrary: i)
  case (Cons p pages)
  show ?case
  proof (cases "page = p")
    case True
    obtain k where "k < length (page_windows ck page)" "page_windows ck page ! k = (st, w)"
      using assms(2) by (auto simp: in_set_conv_nth)
    then have "(i + k, st, w) \<in> set (enumerate i (page_windows ck page))" by (simp add: in_set_enumerate_eq)
    then show ?thesis using True by (auto simp: Let_def intro!: exI [of _ "i + k"])
  next
    case False
    with Cons show ?thesis by (fastforce simp: Let_def)
  qed
qed simp

text \<open>
  (C31) What the chunker promises: identifiers are distinct, every chunk holds at least one word and at most
  \<open>max_tokens\<close>, its token count is the number of words a reader finds in its text, and every word of every
  page is in a chunk of that page, whatever overlap is configured.
\<close>

theorem chunking_sound:
  assumes "ck = chunker_init strategy max_tokens overlap_tokens"
    and "\<forall>page \<in> set pages. text_ok (pg_text page)"
  shows "distinct (map ch_id (mem_chunk ck doc ver pv pages))
    \<and> (\<forall>c \<in> set (mem_chunk ck doc ver pv pages). py_split (ch_content c) \<noteq> []
        \<and> int (length (py_split (ch_content c))) \<le> max 1 max_tokens
        \<and> ch_token_count c = PInt (int (length (py_split (ch_content c)))))
    \<and> (\<forall>page \<in> set pages. \<forall>i < length (py_split (pg_text page)).
        \<exists>c \<in> set (mem_chunk ck doc ver pv pages). ch_page_number c = PInt (pg_number page)
          \<and> py_split (pg_text page) ! i \<in> set (py_split (ch_content c)))"
proof (intro conjI ballI allI impI)
  show "distinct (map ch_id (mem_chunk ck doc ver pv pages))" by (rule distinct_chunk_ids)
next
  fix c assume "c \<in> set (mem_chunk ck doc ver pv pages)"
  then obtain page j st w where p: "page \<in> set pages" "(st, w) \<in> set (page_windows ck page)"
    and c: "c = window_chunk doc ver pv page (py_split (pg_text page)) (j, st, w)"
    unfolding mem_chunk_def by (rule chunk_in_page)
  have "py_split (ch_content c) = w"
    using window_words [OF bspec [OF assms(2) p(1)] p(2)] c by (simp add: window_chunk_def Let_def)
  moreover have "w \<noteq> []" "length w \<le> nat (ck_max_tokens ck)"
    using windows_slices [OF p(2) [unfolded page_windows_def]] by auto
  ultimately show "py_split (ch_content c) \<noteq> []" "int (length (py_split (ch_content c))) \<le> max 1 max_tokens"
    "ch_token_count c = PInt (int (length (py_split (ch_content c))))"
    by (auto simp: assms(1) chunker_init_def c window_chunk_def Let_def)
next
  fix page i assume p: "page \<in> set pages" and i: "i < length (py_split (pg_text page))"
  have "0 < nat (max 1 (ck_max_tokens ck - ck_overlap_tokens ck))"
    "nat (max 1 (ck_max_tokens ck - ck_overlap_tokens ck)) \<le> nat (ck_max_tokens ck)"
    by (auto simp: assms(1) chunker_init_def)
  from windows_cover [OF this le0 i] obtain st w where w: "(st, w) \<in> set (page_windows ck page)"
    "st \<le> i" "i < st + length w" "w ! (i - st) = py_split (pg_text page) ! i"
    by (auto simp: page_windows_def)
  obtain j where "window_chunk doc ver pv page (py_split (pg_text page)) (j, st, w) \<in> set (mem_chunk ck doc ver pv pages)"
    using page_windows_in_chunks [OF p w(1), of doc ver pv 0] unfolding mem_chunk_def by blast
  moreover have "py_split (pg_text page) ! i \<in> set w"
    using w(2-4) by (metis less_diff_conv2 nth_mem add.commute)
  ultimately show "\<exists>c \<in> set (mem_chunk ck doc ver pv pages). ch_page_number c = PInt (pg_number page)
      \<and> py_split (pg_text page) ! i \<in> set (py_split (ch_content c))"
    using window_words [OF bspec [OF assms(2) p] w(1)]
    by (intro bexI [of _ "window_chunk doc ver pv page (py_split (pg_text page)) (j, st, w)"]) (simp_all add: window_chunk_def Let_def)
qed

text \<open>
  Without overlap nothing is lost, repeated or reordered: the words of the chunks, one after the other,
  are the words of the pages.
\<close>

theorem chunks_partition_the_text:
  assumes "\<forall>page \<in> set pages. text_ok (pg_text page)"
  shows "concat (map (py_split \<circ> ch_content) (mem_chunk (chunker_init strategy max_tokens 0) doc ver pv pages))
    = concat (map (py_split \<circ> pg_text) pages)"
proof -
  let ?ck = "chunker_init strategy max_tokens 0"
  let ?m = "nat (max 1 max_tokens)"
  have "concat (map (py_split \<circ> ch_content) (chunk_pages ?ck doc ver pv i pages)) = concat (map (py_split \<circ> pg_text) pages)" for i
    using assms
  proof (induction pages arbitrary: i)
    case (Cons page pages)
    have "\<forall>x \<in> set (page_windows ?ck page). py_split (py_join '' '' (snd x)) = snd x"
      using window_words [of page] Cons.prems by auto
    note words = page_chunk_words [OF this, of doc ver pv page "py_split (pg_text page)" i]
    have "page_windows ?ck page = windows_from ?m ?m (py_split (pg_text page)) 0"
      by (simp add: page_windows_def chunker_init_def)
    then have "concat (map snd (page_windows ?ck page)) = py_split (pg_text page)"
      using windows_partition [of ?m 0 "py_split (pg_text page)"] by simp
    with words Cons show ?case by (simp add: Let_def o_def)
  qed simp
  then show ?thesis by (simp add: mem_chunk_def)
qed

end
