(* ===== verification/Indexing.thy ===== *)
theory Indexing
  imports Documents Doc_Sync Chunking Pii Acl
begin

text \<open>
  Indexing a document: \<open>IndexingService\<close> of \<open>rag_core/services/indexing_service.py\<close> with its modes, over
  the repositories of \<open>Chunk_Repo\<close> and \<open>Documents\<close> and the in-memory vector store. The parser, the chunker
  and the embedder are the injected interfaces; hashing and the formatting of a number are parameters.
  A step that raises keeps what was written before it.
\<close>

section \<open>Requests, results and the service\<close>

datatype reindex_mode = ParserOnly | ChunkReSplit | EmbeddingOnly | FullIndex

record indexing_request =
  rq_domain_id :: string
  rq_doc_id :: string
  rq_doc_version :: string
  rq_file_path :: pyval
  rq_title :: pyval
  rq_mode :: reindex_mode
  rq_department :: pyval
  rq_doc_type :: pyval
  rq_input_type :: pyval
  rq_security_level :: pyval
  rq_acl :: "pyval list"
  rq_approval_status :: pyval
  rq_tags :: "pyval list"
  rq_valid_from :: pyval
  rq_valid_until :: pyval
  rq_object_storage_path :: pyval
  rq_owner :: pyval
  rq_metadata :: pydict

record indexing_result =
  ir_job_id :: string
  ir_status :: string
  ir_total_chunks :: nat
  ir_indexed_chunks :: int
  ir_failed_chunks :: "pydict list"
  ir_high_pii_chunks :: nat
  ir_failure_rate :: real

record indexing_service =
  sv_lib :: pylib
  sv_parse :: "pyval \<Rightarrow> parsed_page list res"
  sv_parser_version :: string
  sv_chunk :: "string \<Rightarrow> string \<Rightarrow> string \<Rightarrow> parsed_page list \<Rightarrow> chunk list res"
  sv_chunk_strategy :: string
  sv_embed_batch :: "string list \<Rightarrow> (real list \<times> sparse) list res"
  sv_model_name :: string
  sv_dense_dim :: nat
  sv_pii :: pii_detector
  sv_failure_threshold :: real
  sv_sha256 :: "string \<Rightarrow> string"
  sv_format :: "real \<Rightarrow> string"

record index_world =
  ix_store :: vstore
  ix_chunks :: chunk_repo
  ix_docs :: doc_repo
  ix_jobs :: jobs

definition job_step :: "string \<Rightarrow> job_update \<Rightarrow> index_world \<Rightarrow> unit res \<times> index_world" where
  "job_step job_id up w =
     (case update_job job_id up (ix_jobs w) of Inl e \<Rightarrow> (Inl e, w) | Inr js \<Rightarrow> (Inr (), w\<lparr>ix_jobs := js\<rparr>))"

definition at_step :: "string \<Rightarrow> string \<Rightarrow> int \<Rightarrow> job_update" where
  "at_step status step progress =
     no_update\<lparr>up_status := Some status, up_step := Some step, up_progress := Some progress\<rparr>"

section \<open>Scanning and embedding\<close>

type_synonym warnings = "(string \<times> chunk_pii_warning) list"

definition no_warning :: chunk_pii_warning where
  "no_warning = \<lparr>cw_pii_warnings = [], cw_has_high_severity = False, cw_block_indexing = False\<rparr>"

definition scan_pii :: "indexing_service \<Rightarrow> chunk list \<Rightarrow> pyval \<Rightarrow> warnings res" where
  "scan_pii sv chunks pii_config =
     fold_res (\<lambda>c ws. bind_res (check_chunk_pii (sv_lib sv) (sv_pii sv) (ch_content c) pii_config) (\<lambda>v.
       Inr (assoc_put (ch_id c) v ws))) chunks []"

definition warning_of :: "warnings \<Rightarrow> string \<Rightarrow> chunk_pii_warning" where
  "warning_of ws cid = (case map_of ws cid of None \<Rightarrow> no_warning | Some v \<Rightarrow> v)"

definition high_count :: "warnings \<Rightarrow> nat" where
  "high_count ws = length (filter (cw_has_high_severity \<circ> snd) ws)"

record embed_result =
  er_vectors :: "(string \<times> real list \<times> sparse) list"
  er_failed :: "pydict list"

definition embed_safely :: "indexing_service \<Rightarrow> chunk list \<Rightarrow> embed_result" where
  "embed_safely sv chunks =
     (if chunks = [] then \<lparr>er_vectors = [], er_failed = []\<rparr>
      else case sv_embed_batch sv (map ch_content chunks) of
        Inr pairs \<Rightarrow> \<lparr>er_vectors = fold (\<lambda>(c, pair). assoc_put (ch_id c) pair) (zip chunks pairs) [], er_failed = []\<rparr>
      | Inl e \<Rightarrow> \<lparr>er_vectors = [],
          er_failed = map (\<lambda>c. [(''chunk_id'', PStr (ch_id c)), (''step'', PStr ''embed''),
                                (''error'', PStr (exc_text (sv_lib sv) e))]) chunks\<rparr>)"

definition failure_rate_of :: "pydict list \<Rightarrow> nat \<Rightarrow> real" where
  "failure_rate_of failed n = (if n = 0 then 0 else of_nat (length failed) / of_nat (max 1 n))"

section \<open>Rows and points\<close>

definition request_attrs :: "indexing_request \<Rightarrow> pydict" where
  \<comment> \<open>what rows and points take from the request, under the same names\<close>
  "request_attrs rq =
     [(''department'', rq_department rq), (''doc_type'', rq_doc_type rq), (''security_level'', rq_security_level rq),
      (''acl'', PList (rq_acl rq)), (''approval_status'', rq_approval_status rq), (''tags'', PList (rq_tags rq)),
      (''valid_from'', rq_valid_from rq), (''valid_until'', rq_valid_until rq)]"

definition chunk_attrs :: "indexing_service \<Rightarrow> indexing_request \<Rightarrow> chunk \<Rightarrow> pydict" where
  "chunk_attrs sv rq c =
     [(''domain_id'', PStr (rq_domain_id rq)), (''doc_id'', PStr (rq_doc_id rq)), (''doc_version'', PStr (rq_doc_version rq)),
      (''parser_version'', PStr (sv_parser_version sv)), (''chunk_strategy'', PStr (sv_chunk_strategy sv)),
      (''chunk_index'', ch_index c), (''title'', rq_title rq), (''page_number'', ch_page_number c),
      (''section_title'', ch_section_title c), (''heading_path'', PList (ch_heading_path c))]"

definition build_record :: "indexing_service \<Rightarrow> indexing_request \<Rightarrow> warnings \<Rightarrow> chunk \<Rightarrow> chunk_record" where
  "build_record sv rq ws c =
     \<lparr>cr_chunk_id = ch_id c, cr_content = ch_content c,
      cr_attrs = chunk_attrs sv rq c
        @ [(''content_hash'', PStr (sv_sha256 sv (ch_content c))), (''start_char'', ch_start_char c),
           (''end_char'', ch_end_char c), (''token_count'', ch_token_count c)]
        @ request_attrs rq
        @ [(''embedding_model'', PStr (sv_model_name sv)), (''embedding_version'', PStr (sv_model_name sv)),
           (''vector_id'', PStr (ch_id c)), (''pii_warnings'', PList (cw_pii_warnings (warning_of ws (ch_id c))))]\<rparr>"

definition embedded :: "(string \<times> real list \<times> sparse) list \<Rightarrow> chunk \<Rightarrow> bool" where
  "embedded vectors c \<longleftrightarrow> map_of vectors (ch_id c) \<noteq> None"

definition build_records ::
  "indexing_service \<Rightarrow> indexing_request \<Rightarrow> chunk list \<Rightarrow> (string \<times> real list \<times> sparse) list \<Rightarrow> warnings \<Rightarrow> chunk_record list" where
  "build_records sv rq chunks vectors ws = map (build_record sv rq ws) (filter (embedded vectors) chunks)"

definition point_payload :: "indexing_service \<Rightarrow> indexing_request \<Rightarrow> warnings \<Rightarrow> chunk \<Rightarrow> pydict" where
  "point_payload sv rq ws c =
     chunk_attrs sv rq c @ [(''content'', PStr (ch_content c))] @ request_attrs rq
     @ [(''pii_warnings'', PList (cw_pii_warnings (warning_of ws (ch_id c))))]"

definition build_point ::
  "indexing_service \<Rightarrow> indexing_request \<Rightarrow> (string \<times> real list \<times> sparse) list \<Rightarrow> warnings \<Rightarrow> chunk \<Rightarrow> point" where
  "build_point sv rq vectors ws c =
     (case the (map_of vectors (ch_id c)) of (dense, sp) \<Rightarrow>
        \<lparr>pt_id = ch_id c, pt_dense = dense, pt_sparse = sp, pt_payload = point_payload sv rq ws c\<rparr>)"

definition upsert_to_qdrant ::
  "indexing_service \<Rightarrow> indexing_request \<Rightarrow> chunk list \<Rightarrow> (string \<times> real list \<times> sparse) list \<Rightarrow> warnings
   \<Rightarrow> index_world \<Rightarrow> unit res \<times> index_world" where
  "upsert_to_qdrant sv rq chunks vectors ws w =
     (let points = map (build_point sv rq vectors ws) (filter (embedded vectors) chunks) in
      if points = [] then (Inr (), w)
      else case upsert_chunks (ix_store w) (rq_domain_id rq) points of
        Inl e \<Rightarrow> (Inl e, w) | Inr st \<Rightarrow> (Inr (), w\<lparr>ix_store := st\<rparr>))"

definition document_record :: "indexing_service \<Rightarrow> indexing_request \<Rightarrow> pydict" where
  "document_record sv rq =
     [(''domain_id'', PStr (rq_domain_id rq)), (''doc_id'', PStr (rq_doc_id rq)), (''title'', rq_title rq),
      (''version'', PStr (rq_doc_version rq)), (''input_type'', rq_input_type rq), (''source_type'', PNone),
      (''source_path'', rq_file_path rq), (''object_storage_path'', rq_object_storage_path rq),
      (''department'', rq_department rq), (''doc_type'', rq_doc_type rq), (''security_level'', rq_security_level rq),
      (''owner'', rq_owner rq), (''tags'', PList (rq_tags rq)), (''language'', PStr ''ko''),
      (''valid_from'', rq_valid_from rq), (''valid_until'', rq_valid_until rq),
      (''approval_status'', rq_approval_status rq), (''file_hash'', PNone),
      (''parser_version'', PStr (sv_parser_version sv)), (''metadata'', PDict (rq_metadata rq))]"

definition write_chunks_and_document :: "indexing_service \<Rightarrow> indexing_request \<Rightarrow> chunk_record list \<Rightarrow> index_world \<Rightarrow> index_world" where
  "write_chunks_and_document sv rq records w =
     w\<lparr>ix_docs := doc_upsert (rq_domain_id rq, rq_doc_id rq, rq_doc_version rq) (document_record sv rq) (ix_docs w),
       ix_chunks := replace_chunks (rq_domain_id rq) (rq_doc_id rq) (rq_doc_version rq) (sv_parser_version sv) records (ix_chunks w)\<rparr>"

section \<open>The modes\<close>

definition result_of :: "string \<Rightarrow> string \<Rightarrow> nat \<Rightarrow> int \<Rightarrow> embed_result \<Rightarrow> warnings \<Rightarrow> real \<Rightarrow> indexing_result" where
  "result_of job_id status n indexed er ws rate =
     \<lparr>ir_job_id = job_id, ir_status = status, ir_total_chunks = n, ir_indexed_chunks = indexed,
      ir_failed_chunks = er_failed er, ir_high_pii_chunks = high_count ws, ir_failure_rate = rate\<rparr>"

definition fail_fast ::
  "string \<Rightarrow> nat \<Rightarrow> embed_result \<Rightarrow> warnings \<Rightarrow> real \<Rightarrow> string \<Rightarrow> index_world \<Rightarrow> indexing_result res \<times> index_world" where
  "fail_fast job_id n er ws rate msg w =
     bind_st (job_step job_id (no_update\<lparr>up_status := Some ''failed'', up_failed_chunks := Some (er_failed er),
                up_failure_rate := Some rate, up_error_message := Some msg\<rparr>) w) (\<lambda>_ w.
       (Inr (result_of job_id ''failed'' n 0 er ws rate), w))"

definition finish ::
  "string \<Rightarrow> nat \<Rightarrow> embed_result \<Rightarrow> warnings \<Rightarrow> real \<Rightarrow> index_world \<Rightarrow> indexing_result res \<times> index_world" where
  "finish job_id n er ws rate w =
     (let indexed = int n - int (length (er_failed er));
          status = (if er_failed er = [] then ''completed'' else ''partial'')
      in bind_st (job_step job_id ((at_step status ''done'' 100)\<lparr>up_indexed_chunks := Some indexed,
                     up_failed_chunks := Some (er_failed er), up_failure_rate := Some rate\<rparr>) w) (\<lambda>_ w.
           (Inr (result_of job_id status n indexed er ws rate), w)))"

definition index_full ::
  "indexing_service \<Rightarrow> indexing_request \<Rightarrow> string \<Rightarrow> pyval \<Rightarrow> index_world \<Rightarrow> indexing_result res \<times> index_world" where
  "index_full sv rq job_id pii_config w =
     bind_st (job_step job_id (at_step ''parsing'' ''parse'' 10) w) (\<lambda>_ w.
     bind_st (sv_parse sv (rq_file_path rq), w) (\<lambda>pages w.
     bind_st (job_step job_id (at_step ''chunking'' ''chunk'' 30) w) (\<lambda>_ w.
     bind_st (sv_chunk sv (rq_doc_id rq) (rq_doc_version rq) (sv_parser_version sv) pages, w) (\<lambda>chunks w.
     bind_st (scan_pii sv chunks pii_config, w) (\<lambda>ws w.
     bind_st (job_step job_id ((at_step ''embedding'' ''embed'' 60)\<lparr>up_total_chunks := Some (int (length chunks))\<rparr>) w) (\<lambda>_ w.
       let er = embed_safely sv chunks in
     bind_st (job_step job_id (at_step ''indexing'' ''upsert'' 80) w) (\<lambda>_ w.
       let records = build_records sv rq chunks (er_vectors er) ws;
           rate = failure_rate_of (er_failed er) (length chunks)
       in if rate > sv_failure_threshold sv
          then fail_fast job_id (length chunks) er ws rate
                 (''failure_rate '' @ sv_format sv rate @ '' > threshold '' @ py_str (sv_lib sv) (PFloat (sv_failure_threshold sv))) w
          else bind_st (upsert_to_qdrant sv rq chunks (er_vectors er) ws w) (\<lambda>_ w.
                 finish job_id (length chunks) er ws rate (write_chunks_and_document sv rq records w)))))))))"

definition page_meta :: "parsed_page \<Rightarrow> pydict" where
  "page_meta page = [(''section_title'', pg_section_title page),
     (''heading_path'', PList (case pg_heading_path page of None \<Rightarrow> [] | Some h \<Rightarrow> h))]"

definition sync_page :: "indexing_request \<Rightarrow> (int \<times> parsed_page) list \<Rightarrow> chunk_record \<Rightarrow> index_world \<Rightarrow> unit res \<times> index_world" where
  \<comment> \<open>the body of the loop; a failing \<open>set_payload\<close> is only logged\<close>
  "sync_page rq page_map c w =
     (case int_key (py_or (dget (cr_attrs c) ''page_number'' PNone) (PInt 1)) of
        Inl e \<Rightarrow> (Inl e, w)
      | Inr k \<Rightarrow>
          (case (case k of None \<Rightarrow> None | Some n \<Rightarrow> map_of page_map n) of
             None \<Rightarrow> (Inr (), w)
           | Some page \<Rightarrow>
               (Inr (), w\<lparr>ix_chunks := update_metadata (rq_domain_id rq) [cr_chunk_id c] (page_meta page) (ix_chunks w),
                          ix_store := sync_payload (ix_store w) (rq_domain_id rq) [cr_chunk_id c] (page_meta page)\<rparr>)))"

fun sync_pages :: "indexing_request \<Rightarrow> (int \<times> parsed_page) list \<Rightarrow> chunk_record list \<Rightarrow> index_world \<Rightarrow> unit res \<times> index_world" where
  "sync_pages rq page_map [] w = (Inr (), w)"
| "sync_pages rq page_map (c # cs) w = bind_st (sync_page rq page_map c w) (\<lambda>_ w. sync_pages rq page_map cs w)"

definition reindex_parser_only ::
  "indexing_service \<Rightarrow> indexing_request \<Rightarrow> string \<Rightarrow> pyval \<Rightarrow> index_world \<Rightarrow> indexing_result res \<times> index_world" where
  "reindex_parser_only sv rq job_id pii_config w =
     bind_st (job_step job_id (at_step ''parsing'' ''parse'' 20) w) (\<lambda>_ w.
     bind_st (sv_parse sv (rq_file_path rq), w) (\<lambda>pages w.
       let existing = list_by_doc (rq_domain_id rq) (rq_doc_id rq) (rq_doc_version rq) (Some (sv_parser_version sv)) (ix_chunks w)
       in if existing = [] then index_full sv rq job_id pii_config w
          else let page_map = rev (map (\<lambda>p. (pg_number p, p)) pages) in
     bind_st (job_step job_id (at_step ''indexing'' ''metadata_update'' 70) w) (\<lambda>_ w.
     bind_st (sync_pages rq page_map existing w) (\<lambda>_ w.
     bind_st (job_step job_id ((at_step ''completed'' ''done'' 100)\<lparr>up_total_chunks := Some (int (length existing)),
                up_indexed_chunks := Some (int (length existing)), up_failure_rate := Some 0\<rparr>) w) (\<lambda>_ w.
       (Inr (result_of job_id ''completed'' (length existing) (int (length existing)) \<lparr>er_vectors = [], er_failed = []\<rparr> [] 0), w))))))"

definition row_chunk :: "chunk_record \<Rightarrow> chunk res" where
  "row_chunk r =
     bind_res (py_iter (dget (cr_attrs r) ''heading_path'' PNone)) (\<lambda>path.
       Inr \<lparr>ch_id = cr_chunk_id r, ch_index = dget (cr_attrs r) ''chunk_index'' PNone, ch_content = cr_content r,
            ch_page_number = dget (cr_attrs r) ''page_number'' PNone, ch_section_title = dget (cr_attrs r) ''section_title'' PNone,
            ch_heading_path = path, ch_start_char = py_or (dget (cr_attrs r) ''start_char'' PNone) (PInt 0),
            ch_end_char = py_or (dget (cr_attrs r) ''end_char'' PNone) (PInt 0),
            ch_token_count = py_or (dget (cr_attrs r) ''token_count'' PNone) (PInt 0)\<rparr>)"

definition row_warning :: "chunk_record \<Rightarrow> chunk_pii_warning res" where
  "row_warning r =
     bind_res (py_iter (dget (cr_attrs r) ''pii_warnings'' PNone)) (\<lambda>found.
     bind_res (any_res (\<lambda>v. bind_res (as_dict v) (\<lambda>d. Inr (dget d ''severity'' PNone = PStr ''high''))) found) (\<lambda>high.
       Inr \<lparr>cw_pii_warnings = found, cw_has_high_severity = high, cw_block_indexing = False\<rparr>))"

definition row_warnings :: "chunk_record list \<Rightarrow> warnings res" where
  "row_warnings rs = fold_res (\<lambda>r ws. bind_res (row_warning r) (\<lambda>v. Inr (assoc_put (cr_chunk_id r) v ws))) rs []"

definition embedding_meta :: "indexing_service \<Rightarrow> pydict" where
  "embedding_meta sv = [(''embedding_model'', PStr (sv_model_name sv)), (''embedding_version'', PStr (sv_model_name sv))]"

definition failed_ids :: "pydict list \<Rightarrow> pyval set" where
  "failed_ids failed = (\<lambda>f. dget f ''chunk_id'' PNone) ` set failed"

definition reindex_embedding_only ::
  "indexing_service \<Rightarrow> indexing_request \<Rightarrow> string \<Rightarrow> pyval \<Rightarrow> index_world \<Rightarrow> indexing_result res \<times> index_world" where
  "reindex_embedding_only sv rq job_id pii_config w =
     (let existing = list_by_doc (rq_domain_id rq) (rq_doc_id rq) (rq_doc_version rq) None (ix_chunks w) in
      if existing = [] then index_full sv rq job_id pii_config w
      else
     bind_st (map_res row_chunk existing, w) (\<lambda>chunks w.
     bind_st (row_warnings existing, w) (\<lambda>ws w.
     bind_st (job_step job_id ((at_step ''embedding'' ''embed'' 40)\<lparr>up_total_chunks := Some (int (length existing))\<rparr>) w) (\<lambda>_ w.
       let er = embed_safely sv chunks;
           rate = of_nat (length (er_failed er)) / of_nat (max 1 (length existing))
       in if rate > sv_failure_threshold sv
          then fail_fast job_id (length existing) er ws rate (''failure_rate '' @ sv_format sv rate @ '' > threshold'') w
          else
     bind_st (upsert_to_qdrant sv rq chunks (er_vectors er) ws w) (\<lambda>_ w.
       finish job_id (length existing) er ws rate
         (w\<lparr>ix_chunks := update_metadata (rq_domain_id rq)
              (filter (\<lambda>cid. PStr cid \<notin> failed_ids (er_failed er)) (map ch_id chunks)) (embedding_meta sv) (ix_chunks w)\<rparr>))))))"

definition run_mode ::
  "indexing_service \<Rightarrow> indexing_request \<Rightarrow> string \<Rightarrow> pyval \<Rightarrow> index_world \<Rightarrow> indexing_result res \<times> index_world" where
  "run_mode sv rq job_id pii_config w =
     (case rq_mode rq of
        EmbeddingOnly \<Rightarrow> reindex_embedding_only sv rq job_id pii_config w
      | ParserOnly \<Rightarrow> reindex_parser_only sv rq job_id pii_config w
      | _ \<Rightarrow> index_full sv rq job_id pii_config w)"

definition run_with_existing_job ::
  "indexing_service \<Rightarrow> indexing_request \<Rightarrow> string \<Rightarrow> pyval \<Rightarrow> index_world \<Rightarrow> indexing_result res \<times> index_world" where
  "run_with_existing_job sv rq job_id pii_config w =
     (case run_mode sv rq job_id pii_config w of
        (Inr r, w) \<Rightarrow> (Inr r, w)
      | (Inl e, w) \<Rightarrow> bind_st (job_step job_id (no_update\<lparr>up_status := Some ''failed'',
                               up_error_message := Some (exc_text (sv_lib sv) e)\<rparr>) w) (\<lambda>_ w. (Inl e, w)))"

definition run_job ::
  "indexing_service \<Rightarrow> indexing_request \<Rightarrow> string \<Rightarrow> pyval \<Rightarrow> index_world \<Rightarrow> (index_error + indexing_result) \<times> index_world" where
  "run_job sv rq job_id pii_config w =
     (case create_job (new_job job_id (rq_domain_id rq) (rq_doc_id rq) (rq_doc_version rq) (rq_file_path rq)) (ix_jobs w) of
        Inl e \<Rightarrow> (Inl e, w)
      | Inr js \<Rightarrow> (case run_with_existing_job sv rq job_id pii_config (w\<lparr>ix_jobs := js\<rparr>) of
          (Inl e, w) \<Rightarrow> (Inl (IndexRaised e), w) | (Inr r, w) \<Rightarrow> (Inr r, w)))"

end
