(* ===== verification/Indexing_Facts.thy ===== *)
theory Indexing_Facts
  imports Indexing
begin

text \<open>
  What a run of the indexing service does: to its job, which it always settles, and to the three stores,
  whose agreement it keeps. The facts about a run are weakest preconditions (\<open>st_wp\<close>) of the steps it
  is made of.
\<close>

section \<open>Facts: jobs\<close>

definition tracks :: "string \<Rightarrow> jobs \<Rightarrow> jobs \<Rightarrow> bool" where
  \<comment> \<open>only the job changed, and it stayed the job of the same document\<close>
  "tracks j js js' \<longleftrightarrow> map fst js' = map fst js \<and> (\<forall>i. i \<noteq> j \<longrightarrow> map_of js' i = map_of js i)
     \<and> (\<exists>b b'. map_of js j = Some b \<and> map_of js' j = Some b' \<and> same_document b b')"

definition jobs_only :: "string \<Rightarrow> index_world \<Rightarrow> index_world \<Rightarrow> bool" where
  "jobs_only j w w' \<longleftrightarrow> ix_store w' = ix_store w \<and> ix_chunks w' = ix_chunks w \<and> ix_docs w' = ix_docs w
     \<and> tracks j (ix_jobs w) (ix_jobs w')"

definition status_of :: "index_world \<Rightarrow> string \<Rightarrow> string option" where
  "status_of w j = map_option jb_status (map_of (ix_jobs w) j)"

lemma tracks_trans: "tracks j a b \<Longrightarrow> tracks j b c \<Longrightarrow> tracks j a c"
  by (auto simp: tracks_def same_document_def)

lemma jobs_only_refl: "map_of (ix_jobs w) j \<noteq> None \<Longrightarrow> jobs_only j w w"
  by (auto simp: jobs_only_def tracks_def same_document_def)

lemma jobs_only_trans: "jobs_only j a b \<Longrightarrow> jobs_only j b c \<Longrightarrow> jobs_only j a c"
  by (auto simp: jobs_only_def dest: tracks_trans)

lemma jobs_only_stores:
  "jobs_only j w w' \<Longrightarrow> ix_store w' = ix_store w" "jobs_only j w w' \<Longrightarrow> ix_chunks w' = ix_chunks w"
  "jobs_only j w w' \<Longrightarrow> ix_docs w' = ix_docs w"
  by (auto simp: jobs_only_def)

lemma job_step_wp:
  assumes "jobs_only j w0 w"
    and "\<And>w1. jobs_only j w0 w1 \<Longrightarrow> jobs_only j w w1 \<Longrightarrow> \<forall>s. up_status up = Some s \<longrightarrow> status_of w1 j = Some s \<Longrightarrow> Q () w1"
  shows "st_wp (job_step j up w) Q E"
proof -
  obtain b where b: "map_of (ix_jobs w) j = Some b" using assms(1) by (auto simp: jobs_only_def tracks_def)
  let ?w1 = "w\<lparr>ix_jobs := assoc_modify j (apply_update up) (ix_jobs w)\<rparr>"
  have s: "jobs_only j w ?w1"
    by (auto simp: jobs_only_def tracks_def map_of_assoc_modify b same_document_def)
  moreover have "\<forall>s. up_status up = Some s \<longrightarrow> status_of ?w1 j = Some s"
    by (auto simp: status_of_def map_of_assoc_modify b apply_update_def or_old_def)
  ultimately have "Q () ?w1" using assms jobs_only_trans by blast
  then show ?thesis using b by (simp add: job_step_def update_job_def)
qed

lemma fail_fast_wp:
  assumes "jobs_only j w0 w"
  shows "st_wp (fail_fast j n er ws rate msg w) (\<lambda>r w'. ir_status r = ''failed'' \<and> status_of w' j = Some ''failed'' \<and> jobs_only j w0 w') E"
  unfolding fail_fast_def st_wp_bind by (rule job_step_wp [OF assms]) (simp add: result_of_def)

lemma finish_wp:
  assumes "jobs_only j w0 w"
  shows "st_wp (finish j n er ws rate w) (\<lambda>r w'. ir_status r = (if er_failed er = [] then ''completed'' else ''partial'')
      \<and> ir_failed_chunks r = er_failed er \<and> status_of w' j = Some (ir_status r) \<and> jobs_only j w0 w') E"
  unfolding finish_def Let_def st_wp_bind by (rule job_step_wp [OF assms]) (simp add: result_of_def at_step_def)

section \<open>Facts: what a run stores\<close>

definition stored ::
  "indexing_service \<Rightarrow> indexing_request \<Rightarrow> chunk list \<Rightarrow> (string \<times> real list \<times> sparse) list \<Rightarrow> warnings \<Rightarrow> vstore \<Rightarrow> vstore \<Rightarrow> bool" where
  \<comment> \<open>the store after the points of the embedded chunks have been written\<close>
  "stored sv rq chunks vectors ws st st' \<longleftrightarrow>
     (let points = map (build_point sv rq vectors ws) (filter (embedded vectors) chunks) in
      if points = [] then st' = st else upsert_chunks st (rq_domain_id rq) points = Inr st')"

lemma upsert_wp:
  assumes "\<And>st'. stored sv rq chunks vectors ws (ix_store w) st' \<Longrightarrow> Q () (w\<lparr>ix_store := st'\<rparr>)" and "\<And>e. E e w"
  shows "st_wp (upsert_to_qdrant sv rq chunks vectors ws w) Q E"
  using assms(1) [of "ix_store w"] assms(1) assms(2) by (auto simp: upsert_to_qdrant_def stored_def Let_def split: sum.splits)

definition indexed_full ::
  "indexing_service \<Rightarrow> indexing_request \<Rightarrow> pyval \<Rightarrow> index_world \<Rightarrow> index_world \<Rightarrow> bool" where
  \<comment> \<open>what a full run that does not fail has done to the three stores\<close>
  "indexed_full sv rq cfg w w' \<longleftrightarrow> (\<exists>pages chunks ws er.
     sv_parse sv (rq_file_path rq) = Inr pages
     \<and> sv_chunk sv (rq_doc_id rq) (rq_doc_version rq) (sv_parser_version sv) pages = Inr chunks
     \<and> scan_pii sv chunks cfg = Inr ws \<and> er = embed_safely sv chunks
     \<and> failure_rate_of (er_failed er) (length chunks) \<le> sv_failure_threshold sv
     \<and> stored sv rq chunks (er_vectors er) ws (ix_store w) (ix_store w')
     \<and> ix_chunks w' = replace_chunks (rq_domain_id rq) (rq_doc_id rq) (rq_doc_version rq) (sv_parser_version sv)
                        (build_records sv rq chunks (er_vectors er) ws) (ix_chunks w)
     \<and> ix_docs w' = doc_upsert (rq_domain_id rq, rq_doc_id rq, rq_doc_version rq) (document_record sv rq) (ix_docs w))"

definition jobs_track :: "string \<Rightarrow> index_world \<Rightarrow> index_world \<Rightarrow> bool" where
  "jobs_track j w w' \<longleftrightarrow> tracks j (ix_jobs w) (ix_jobs w')"

lemma index_full_wp:
  assumes "jobs_only j w0 w"
  shows "st_wp (index_full sv rq j cfg w)
     (\<lambda>r w'. status_of w' j = Some (ir_status r) \<and> jobs_track j w0 w'
        \<and> (ir_status r = ''failed'' \<and> jobs_only j w0 w' \<or> ir_status r \<in> {''completed'', ''partial''} \<and> indexed_full sv rq cfg w0 w'))
     (\<lambda>e w'. jobs_only j w0 w')"
  unfolding index_full_def st_wp_bind Let_def
proof (rule job_step_wp [OF assms], rule st_wp_pure, rule job_step_wp, assumption, rule st_wp_pure, rule st_wp_pure,
    rule job_step_wp, assumption, rule job_step_wp, assumption)
  fix w1 pages w2 chunks ws w3 w4
  assume pages: "sv_parse sv (rq_file_path rq) = Inr pages"
    and chunks: "sv_chunk sv (rq_doc_id rq) (rq_doc_version rq) (sv_parser_version sv) pages = Inr chunks"
    and ws: "scan_pii sv chunks cfg = Inr ws" and w4: "jobs_only j w0 w4"
  let ?er = "embed_safely sv chunks"
  let ?rate = "failure_rate_of (er_failed ?er) (length chunks)"
  let ?Q = "\<lambda>r w'. status_of w' j = Some (ir_status r) \<and> jobs_track j w0 w'
        \<and> (ir_status r = ''failed'' \<and> jobs_only j w0 w' \<or> ir_status r \<in> {''completed'', ''partial''} \<and> indexed_full sv rq cfg w0 w')"
  let ?E = "\<lambda>e w'. jobs_only j w0 w'"
  show "st_wp (if sv_failure_threshold sv < ?rate
          then fail_fast j (length chunks) ?er ws ?rate
                 (''failure_rate '' @ sv_format sv ?rate @ '' > threshold '' @ py_str (sv_lib sv) (PFloat (sv_failure_threshold sv))) w4
          else bind_st (upsert_to_qdrant sv rq chunks (er_vectors ?er) ws w4) (\<lambda>_ w.
                 finish j (length chunks) ?er ws ?rate
                   (write_chunks_and_document sv rq (build_records sv rq chunks (er_vectors ?er) ws) w))) ?Q ?E"
  proof (cases "sv_failure_threshold sv < ?rate")
    case True
    then show ?thesis
      by (simp, intro st_wp_mono [OF fail_fast_wp [OF w4]]) (auto simp: jobs_track_def jobs_only_def)
  next
    case False
    show ?thesis
      unfolding if_not_P [OF False] st_wp_bind
    proof (rule upsert_wp)
      fix st' assume st: "stored sv rq chunks (er_vectors ?er) ws (ix_store w4) st'"
      let ?w5 = "write_chunks_and_document sv rq (build_records sv rq chunks (er_vectors ?er) ws) (w4\<lparr>ix_store := st'\<rparr>)"
      have j5: "jobs_only j ?w5 ?w5"
        using w4 by (intro jobs_only_refl) (auto simp: write_chunks_and_document_def jobs_only_def tracks_def)
      show "st_wp (finish j (length chunks) ?er ws ?rate ?w5) ?Q ?E"
      proof (rule st_wp_mono [OF finish_wp [OF j5]])
        fix r w' assume r: "ir_status r = (if er_failed ?er = [] then ''completed'' else ''partial'')
          \<and> ir_failed_chunks r = er_failed ?er \<and> status_of w' j = Some (ir_status r) \<and> jobs_only j ?w5 w'"
        then have stores: "ix_store w' = st'"
          "ix_chunks w' = replace_chunks (rq_domain_id rq) (rq_doc_id rq) (rq_doc_version rq) (sv_parser_version sv)
              (build_records sv rq chunks (er_vectors ?er) ws) (ix_chunks w0)"
          "ix_docs w' = doc_upsert (rq_domain_id rq, rq_doc_id rq, rq_doc_version rq) (document_record sv rq) (ix_docs w0)"
          using w4 by (simp_all add: write_chunks_and_document_def jobs_only_def)
        have "ix_store w4 = ix_store w0" using w4 by (simp add: jobs_only_def)
        have "indexed_full sv rq cfg w0 w'"
          unfolding indexed_full_def using pages chunks ws st [unfolded \<open>ix_store w4 = ix_store w0\<close>] stores False
          by (intro exI [of _ pages] exI [of _ chunks] exI [of _ ws] exI [of _ ?er] conjI) simp_all
        moreover have "jobs_track j w0 w'"
          using r w4 tracks_trans [of j "ix_jobs w0" "ix_jobs w4" "ix_jobs w'"]
          by (simp add: jobs_track_def jobs_only_def write_chunks_and_document_def)
        ultimately show "?Q r w'" using r by auto
      qed auto
    qed (use w4 in simp)
  qed
qed (simp_all add: assms)


lemma point_agrees: "agrees (point_payload sv rq ws c) (build_record sv rq ws c)"
  unfolding agrees_def SHARED_def
  by (simp add: point_payload_def build_record_def chunk_attrs_def request_attrs_def dget_def)

lemma point_map_points:
  assumes "distinct (map ch_id cs)"
  shows "dom (point_map (rev (map (build_point sv rq vs ws) cs))) = ch_id ` set cs"
    and "c \<in> set cs \<Longrightarrow> point_map (rev (map (build_point sv rq vs ws) cs)) (ch_id c) = Some (point_payload sv rq ws c)"
proof -
  have id: "pt_id (build_point sv rq vs ws c) = ch_id c" "pt_payload (build_point sv rq vs ws c) = point_payload sv rq ws c" for c
    by (simp_all add: build_point_def split: prod.splits)
  show "dom (point_map (rev (map (build_point sv rq vs ws) cs))) = ch_id ` set cs"
    by (simp add: point_map_dom id image_image)
  show "point_map (rev (map (build_point sv rq vs ws) cs)) (ch_id c) = Some (point_payload sv rq ws c)" if "c \<in> set cs"
    unfolding point_map_def using assms that
    by (subst map_of_eq_Some_iff) (auto simp: id o_def distinct_map inj_on_def rev_map)
qed

definition ids_fresh :: "indexing_service \<Rightarrow> indexing_request \<Rightarrow> chunk_repo \<Rightarrow> bool" where
  \<comment> \<open>the chunker gives each chunk an identifier of its own, which no other document of the domain uses\<close>
  "ids_fresh sv rq rp \<longleftrightarrow> (\<forall>pages chunks. sv_parse sv (rq_file_path rq) = Inr pages \<longrightarrow>
     sv_chunk sv (rq_doc_id rq) (rq_doc_version rq) (sv_parser_version sv) pages = Inr chunks \<longrightarrow>
     distinct (map ch_id chunks) \<and> (\<forall>x \<in> rows rp. fst (fst x) = rq_domain_id rq \<longrightarrow>
       fst x \<noteq> (rq_domain_id rq, rq_doc_id rq, rq_doc_version rq, sv_parser_version sv) \<longrightarrow> cr_chunk_id (snd x) \<notin> ch_id ` set chunks))"

lemma stored_payloads:
  assumes "stored sv rq chunks vs ws st st'"
  shows "payloads st' (rq_domain_id rq) = payloads st (rq_domain_id rq) ++ point_map (rev (map (build_point sv rq vs ws) (filter (embedded vs) chunks)))"
    and "e \<noteq> rq_domain_id rq \<Longrightarrow> payloads st' e = payloads st e"
  using assms payloads_upsert payloads_frame(2) by (auto simp: stored_def Let_def split: if_splits)

lemma record_ids: "map cr_chunk_id (build_records sv rq chunks vs ws) = map ch_id (filter (embedded vs) chunks)"
  by (simp add: build_records_def build_record_def o_def)

lemma indexed_full_sync:
  assumes "indexed_full sv rq cfg w w'" "repo_wf (ix_chunks w)" "in_sync (ix_store w) (rows (ix_chunks w))" "ids_fresh sv rq (ix_chunks w)"
  shows "repo_wf (ix_chunks w') \<and> in_sync (ix_store w') (rows (ix_chunks w'))"
proof -
  obtain pages chunks ws and er :: embed_result where c: "sv_parse sv (rq_file_path rq) = Inr pages"
      "sv_chunk sv (rq_doc_id rq) (rq_doc_version rq) (sv_parser_version sv) pages = Inr chunks"
    and st: "stored sv rq chunks (er_vectors er) ws (ix_store w) (ix_store w')"
    and rp: "ix_chunks w' = replace_chunks (rq_domain_id rq) (rq_doc_id rq) (rq_doc_version rq) (sv_parser_version sv)
                        (build_records sv rq chunks (er_vectors er) ws) (ix_chunks w)"
    using assms(1) unfolding indexed_full_def by blast
  let ?kept = "filter (embedded (er_vectors er)) chunks" and ?rs = "build_records sv rq chunks (er_vectors er) ws"
  have dist: "distinct (map ch_id chunks)" and fresh: "\<And>x. x \<in> rows (ix_chunks w) \<Longrightarrow> fst (fst x) = rq_domain_id rq \<Longrightarrow>
       fst x \<noteq> (rq_domain_id rq, rq_doc_id rq, rq_doc_version rq, sv_parser_version sv) \<Longrightarrow> cr_chunk_id (snd x) \<notin> ch_id ` set chunks"
    using assms(4) c unfolding ids_fresh_def by blast+
  have dk: "distinct (map ch_id ?kept)" by (rule distinct_map_filter [OF dist])
  have ids: "cr_chunk_id ` set ?rs = ch_id ` set ?kept" using record_ids by (metis set_map)
  have fresh': "cr_chunk_id (snd x) \<notin> cr_chunk_id ` set ?rs" if "x \<in> rows (ix_chunks w)" "fst (fst x) = rq_domain_id rq"
    "fst x \<noteq> (rq_domain_id rq, rq_doc_id rq, rq_doc_version rq, sv_parser_version sv)" for x
    using fresh [OF that] ids by auto
  have "repo_wf (ix_chunks w')"
    unfolding rp by (rule mem_chunks.replace_keeps [OF assms(2)]) (use dk record_ids fresh' in auto)
  moreover have "in_sync (ix_store w') (rows (ix_chunks w'))"
    unfolding rp
  proof (rule mem_chunks.in_sync_replace [OF assms(2,3) fresh' stored_payloads(1) [OF st] stored_payloads(2) [OF st]])
    show "dom (point_map (rev (map (build_point sv rq (er_vectors er) ws) ?kept))) \<subseteq> cr_chunk_id ` set ?rs"
      using point_map_points(1) [OF dk] ids by auto
    show "\<exists>pl. point_map (rev (map (build_point sv rq (er_vectors er) ws) ?kept)) (cr_chunk_id r) = Some pl \<and> agrees pl r"
      if r: "r \<in> set ?rs" for r
    proof -
      obtain c where "c \<in> set ?kept" "r = build_record sv rq ws c" using r by (auto simp: build_records_def)
      then show ?thesis using point_map_points(2) [OF dk] point_agrees by (auto simp: build_record_def)
    qed
  qed
  ultimately show ?thesis ..
qed

section \<open>Facts: the other modes\<close>

definition sync_ok :: "index_world \<Rightarrow> bool" where
  "sync_ok w \<longleftrightarrow> repo_wf (ix_chunks w) \<and> in_sync (ix_store w) (rows (ix_chunks w))"

lemma page_meta_keys: "''content'' \<notin> fst ` set (page_meta page)"
  by (simp add: page_meta_def)

lemma sync_page_wp:
  assumes "\<And>w'. ix_jobs w' = ix_jobs w \<Longrightarrow> ix_docs w' = ix_docs w \<Longrightarrow> (sync_ok w \<longrightarrow> sync_ok w') \<Longrightarrow> Q () w'"
    and "\<And>e. E e w"
  shows "st_wp (sync_page rq pm c w) Q E"
proof -
  have ok: "sync_ok (w\<lparr>ix_chunks := update_metadata d [i] (page_meta p) (ix_chunks w), ix_store := sync_payload (ix_store w) d [i] (page_meta p)\<rparr>)"
    if "sync_ok w" for d i p
    using that mem_chunks.update_keeps [of "ix_chunks w" "[i]"] mem_chunks.in_sync_update [OF _ _ _ page_meta_keys, of "ix_chunks w" "ix_store w" "[i]"]
    by (simp add: sync_ok_def)
  show ?thesis
    unfolding sync_page_def
    by (auto split: sum.splits option.splits intro!: assms ok)
qed

lemma sync_pages_wp:
  assumes "\<And>w'. ix_jobs w' = ix_jobs w \<Longrightarrow> ix_docs w' = ix_docs w \<Longrightarrow> (sync_ok w \<longrightarrow> sync_ok w') \<Longrightarrow> Q () w'"
    and "\<And>e w'. ix_jobs w' = ix_jobs w \<Longrightarrow> ix_docs w' = ix_docs w \<Longrightarrow> (sync_ok w \<longrightarrow> sync_ok w') \<Longrightarrow> E e w'"
  shows "st_wp (sync_pages rq pm cs w) Q E"
  using assms
proof (induction cs arbitrary: w)
  case (Cons c cs)
  show ?case
    unfolding sync_pages.simps st_wp_bind
  proof (rule sync_page_wp)
    fix w' assume "ix_jobs w' = ix_jobs w" "ix_docs w' = ix_docs w" "sync_ok w \<longrightarrow> sync_ok w'"
    then show "st_wp (sync_pages rq pm cs w') Q E" by (intro Cons.IH) (auto intro: Cons.prems)
  qed (rule Cons.prems(2); simp)
qed (simp add: assms)


definition TERMINAL :: "string set" where
  "TERMINAL = {''completed'', ''partial'', ''failed''}"

lemma jobs_track_refl: "jobs_only j w0 w \<Longrightarrow> jobs_track j w0 w"
  by (simp add: jobs_only_def jobs_track_def)

lemma jobs_track_only: "jobs_track j a b \<Longrightarrow> jobs_only j b c \<Longrightarrow> jobs_track j a c"
  by (auto simp: jobs_only_def jobs_track_def intro: tracks_trans)

lemma jobs_track_present: "jobs_track j a b \<Longrightarrow> jobs_only j b b"
  by (intro jobs_only_refl) (auto simp: jobs_track_def tracks_def)

lemma sync_ok_jobs: "jobs_only j w w' \<Longrightarrow> sync_ok w' = sync_ok w"
  by (simp add: sync_ok_def jobs_only_def)

definition request_matches :: "indexing_service \<Rightarrow> indexing_request \<Rightarrow> chunk_record \<Rightarrow> bool" where
  \<comment> \<open>the request and the service say about the document what its row says\<close>
  "request_matches sv rq r \<longleftrightarrow> (\<forall>kv \<in> set ([(''domain_id'', PStr (rq_domain_id rq)), (''doc_id'', PStr (rq_doc_id rq)),
       (''doc_version'', PStr (rq_doc_version rq)), (''parser_version'', PStr (sv_parser_version sv)),
       (''chunk_strategy'', PStr (sv_chunk_strategy sv)), (''title'', rq_title rq)] @ request_attrs rq).
     dget (cr_attrs r) (fst kv) PNone = snd kv)
   \<and> (\<exists>xs. dget (cr_attrs r) ''heading_path'' PNone = PList xs) \<and> (\<exists>xs. dget (cr_attrs r) ''pii_warnings'' PNone = PList xs)"

definition admissible :: "indexing_service \<Rightarrow> indexing_request \<Rightarrow> chunk_repo \<Rightarrow> bool" where
  "admissible sv rq rp \<longleftrightarrow> ids_fresh sv rq rp \<and> (rq_mode rq = EmbeddingOnly \<longrightarrow>
     (\<forall>r \<in> set (list_by_doc (rq_domain_id rq) (rq_doc_id rq) (rq_doc_version rq) None rp). request_matches sv rq r))"

definition ends_well :: "indexing_service \<Rightarrow> indexing_request \<Rightarrow> string \<Rightarrow> index_world \<Rightarrow> indexing_result \<Rightarrow> index_world \<Rightarrow> bool" where
  "ends_well sv rq j w r w' \<longleftrightarrow> status_of w' j = Some (ir_status r) \<and> ir_status r \<in> TERMINAL \<and> jobs_track j w w'
     \<and> (admissible sv rq (ix_chunks w) \<longrightarrow> sync_ok w \<longrightarrow> sync_ok w')"

definition ends_badly :: "string \<Rightarrow> index_world \<Rightarrow> index_world \<Rightarrow> bool" where
  "ends_badly j w w' \<longleftrightarrow> jobs_track j w w' \<and> (sync_ok w \<longrightarrow> sync_ok w')"

lemma index_full_ends:
  assumes "jobs_only j w0 w"
  shows "st_wp (index_full sv rq j cfg w) (ends_well sv rq j w0) (\<lambda>e w'. ends_badly j w0 w')"
proof (rule st_wp_mono [OF index_full_wp [OF assms]])
  fix r :: indexing_result and w' assume a: "status_of w' j = Some (ir_status r) \<and> jobs_track j w0 w'
        \<and> (ir_status r = ''failed'' \<and> jobs_only j w0 w' \<or> ir_status r \<in> {''completed'', ''partial''} \<and> indexed_full sv rq cfg w0 w')"
  then have "sync_ok w'" if "admissible sv rq (ix_chunks w0)" "sync_ok w0"
    using that [unfolded admissible_def] indexed_full_sync [of sv rq cfg w0 w'] sync_ok_jobs [of j w0 w'] by (auto simp: sync_ok_def)
  then show "ends_well sv rq j w0 r w'" using a by (auto simp: ends_well_def TERMINAL_def)
next
  fix e w' assume "jobs_only j w0 w'"
  then show "ends_badly j w0 w'" by (simp add: ends_badly_def jobs_track_refl sync_ok_jobs)
qed

lemma parser_only_ends:
  assumes "jobs_only j w w"
  shows "st_wp (reindex_parser_only sv rq j cfg w) (ends_well sv rq j w) (\<lambda>e w'. ends_badly j w w')"
  unfolding reindex_parser_only_def st_wp_bind Let_def
proof (rule job_step_wp [OF assms], rule st_wp_pure)
  fix w1 pages assume w1: "jobs_only j w w1"
  let ?ex = "list_by_doc (rq_domain_id rq) (rq_doc_id rq) (rq_doc_version rq) (Some (sv_parser_version sv)) (ix_chunks w1)"
  let ?E = "\<lambda>e w'. ends_badly j w w'"
  show "st_wp (if ?ex = [] then index_full sv rq j cfg w1
     else bind_st (job_step j (at_step ''indexing'' ''metadata_update'' 70) w1) (\<lambda>_ w.
     bind_st (sync_pages rq (rev (map (\<lambda>p. (pg_number p, p)) pages)) ?ex w) (\<lambda>_ w.
     bind_st (job_step j ((at_step ''completed'' ''done'' 100)\<lparr>up_total_chunks := Some (int (length ?ex)),
                up_indexed_chunks := Some (int (length ?ex)), up_failure_rate := Some 0\<rparr>) w) (\<lambda>_ w.
       (Inr (result_of j ''completed'' (length ?ex) (int (length ?ex)) \<lparr>er_vectors = [], er_failed = []\<rparr> [] 0), w)))))
     (ends_well sv rq j w) ?E"
  proof (cases "?ex = []")
    case True
    then show ?thesis using index_full_ends [OF w1] by simp
  next
    case False
    show ?thesis
      unfolding if_not_P [OF False] st_wp_bind
    proof (rule job_step_wp [OF w1], rule sync_pages_wp)
      fix w2 w3 assume w2: "jobs_only j w w2" and w3: "ix_jobs w3 = ix_jobs w2" "sync_ok w2 \<longrightarrow> sync_ok w3"
      have t: "jobs_track j w w3" using w2 w3(1) by (simp add: jobs_track_def jobs_only_def)
      show "st_wp (job_step j ((at_step ''completed'' ''done'' 100)\<lparr>up_total_chunks := Some (int (length ?ex)),
                up_indexed_chunks := Some (int (length ?ex)), up_failure_rate := Some 0\<rparr>) w3)
          (\<lambda>x w'. st_wp (Inr (result_of j ''completed'' (length ?ex) (int (length ?ex)) \<lparr>er_vectors = [], er_failed = []\<rparr> [] 0), w')
             (ends_well sv rq j w) ?E) ?E"
        by (rule job_step_wp [OF jobs_track_present [OF t]])
          (use t w2 w3(2) in \<open>auto simp: ends_well_def TERMINAL_def result_of_def at_step_def sync_ok_jobs intro: jobs_track_only\<close>)
    next
      fix w2 w3 assume w2: "jobs_only j w w2" and w3: "ix_jobs w3 = ix_jobs w2" "sync_ok w2 \<longrightarrow> sync_ok w3"
      then show "ends_badly j w w3" by (simp add: ends_badly_def jobs_track_def jobs_only_def sync_ok_jobs [OF w2])
    qed
  qed
next
  fix w1 :: index_world assume "jobs_only j w w1"
  then show "ends_badly j w w1" by (simp add: ends_badly_def jobs_track_refl sync_ok_jobs)
qed


lemma row_chunk_id: "row_chunk r = Inr c \<Longrightarrow> ch_id c = cr_chunk_id r"
  by (auto simp: row_chunk_def)

lemma row_chunk_ids:
  assumes "map_res row_chunk rs = Inr chunks"
  shows "map ch_id chunks = map cr_chunk_id rs"
  using map_res_nth [OF assms] map_res_length [OF assms] row_chunk_id by (intro nth_equalityI) fastforce+

lemma row_warnings_lookup:
  assumes "row_warnings rs = Inr ws" "distinct (map cr_chunk_id rs)" "r \<in> set rs"
  shows "\<exists>v. row_warning r = Inr v \<and> map_of ws (cr_chunk_id r) = Some v"
proof -
  have "\<exists>v. row_warning r = Inr v \<and> map_of ws (cr_chunk_id r) = Some v"
    if "fold_res (\<lambda>r ws. bind_res (row_warning r) (\<lambda>v. Inr (assoc_put (cr_chunk_id r) v ws))) rs ws0 = Inr ws"
      "distinct (map cr_chunk_id rs)"
      "r \<in> set rs \<or> cr_chunk_id r \<notin> cr_chunk_id ` set rs \<and> (\<exists>v. row_warning r = Inr v \<and> map_of ws0 (cr_chunk_id r) = Some v)" for ws0
    using that
  proof (induction rs arbitrary: ws0)
    case (Cons q rs)
    obtain v where v: "row_warning q = Inr v"
      "fold_res (\<lambda>r ws. bind_res (row_warning r) (\<lambda>v. Inr (assoc_put (cr_chunk_id r) v ws))) rs (assoc_put (cr_chunk_id q) v ws0) = Inr ws"
      using Cons.prems(1) by auto
    show ?case
      by (rule Cons.IH [OF v(2)]) (use Cons.prems(2,3) v(1) in \<open>auto simp: map_of_assoc_put\<close>)
  qed auto
  from this [of "[]"] assms show ?thesis by (simp add: row_warnings_def)
qed

lemma row_point_agrees:
  assumes "row_chunk r = Inr c" "request_matches sv rq r" "row_warning r = Inr v" "map_of ws (cr_chunk_id r) = Some v"
    "set SHARED \<subseteq> fst ` set (cr_attrs r)"
  shows "agrees (point_payload sv rq ws c) r"
proof -
  obtain path found where p: "dget (cr_attrs r) ''heading_path'' PNone = PList path" "dget (cr_attrs r) ''pii_warnings'' PNone = PList found"
    using assms(2) by (auto simp: request_matches_def)
  have c: "ch_content c = cr_content r" "ch_index c = dget (cr_attrs r) ''chunk_index'' PNone"
    "ch_page_number c = dget (cr_attrs r) ''page_number'' PNone" "ch_section_title c = dget (cr_attrs r) ''section_title'' PNone"
    "ch_heading_path c = path" "ch_id c = cr_chunk_id r"
    using assms(1) p(1) by (auto simp: row_chunk_def)
  have v: "cw_pii_warnings v = found" using assms(3) p(2) by (auto simp: row_warning_def)
  have m: "dget (cr_attrs r) k PNone = x"
    if "(k, x) \<in> set ([(''domain_id'', PStr (rq_domain_id rq)), (''doc_id'', PStr (rq_doc_id rq)),
       (''doc_version'', PStr (rq_doc_version rq)), (''parser_version'', PStr (sv_parser_version sv)),
       (''chunk_strategy'', PStr (sv_chunk_strategy sv)), (''title'', rq_title rq)] @ request_attrs rq)" for k x
    using assms(2) that unfolding request_matches_def by fastforce
  have "dget (point_payload sv rq ws c) k PNone = dget (cr_attrs r) k PNone" if "k \<in> set SHARED" for k
    using that m p unfolding SHARED_def
    by (auto simp: point_payload_def chunk_attrs_def request_attrs_def dget_def [of "_ # _"] c v warning_of_def assms(4))
  then show ?thesis
    using assms(5) by (auto simp: agrees_def point_payload_def chunk_attrs_def dget_def [of "_ # _"] c)
qed


lemma embedding_sync:
  assumes "sync_ok w" "\<forall>r \<in> set ex. request_matches sv rq r"
    and ex: "ex = list_by_doc (rq_domain_id rq) (rq_doc_id rq) (rq_doc_version rq) None (ix_chunks w)"
    and chunks: "map_res row_chunk ex = Inr chunks" and ws: "row_warnings ex = Inr ws"
    and st: "stored sv rq chunks vs ws (ix_store w) st'" and ids: "distinct ids"
  shows "sync_ok (w\<lparr>ix_store := st', ix_chunks := update_metadata (rq_domain_id rq) ids (embedding_meta sv) (ix_chunks w)\<rparr>)"
proof -
  let ?rp = "ix_chunks w" and ?d = "rq_domain_id rq" and ?kept = "filter (embedded vs) chunks"
  let ?pm = "point_map (rev (map (build_point sv rq vs ws) ?kept))"
  have wf: "repo_wf ?rp" and sync: "in_sync (ix_store w) (rows ?rp)" using assms(1) by (auto simp: sync_ok_def)
  note cid = row_chunk_ids [OF chunks]
  have dist: "distinct (map cr_chunk_id ex)" unfolding ex by (rule distinct_listing [OF wf])
  have dk: "distinct (map ch_id ?kept)" by (rule distinct_map_filter) (simp add: cid dist)
  have "in_sync st' (rows ?rp)"
  proof (rule mem_chunks.in_sync_overwrite [OF sync stored_payloads(1) [OF st] stored_payloads(2) [OF st]])
    fix x pl assume x: "x \<in> rows ?rp" "fst (fst x) = ?d" and pl: "?pm (cr_chunk_id (snd x)) = Some pl"
    then have "cr_chunk_id (snd x) \<in> ch_id ` set ?kept" using point_map_points(1) [OF dk, of sv rq vs ws] by blast
    then obtain c where c: "c \<in> set ?kept" "cr_chunk_id (snd x) = ch_id c" by blast
    then have pl': "pl = point_payload sv rq ws c" using point_map_points(2) [OF dk c(1), of sv rq vs ws] pl by simp
    obtain r where r: "r \<in> set ex" "row_chunk r = Inr c" using map_res_in_set [OF chunks] c(1) by auto
    then obtain y where y: "r = snd y" "y \<in> rows ?rp" "doc_key ?d (rq_doc_id rq) (rq_doc_version rq) None (fst y)"
      using mem_chunks.listing_tab [OF wf] unfolding ex by blast
    then have "fst (fst y) = ?d" by (auto simp: doc_key_def split: prod.splits)
    then have xy: "x = y" using mem_chunks.unique [OF wf x(1) y(2)] x(2) c(2) row_chunk_id [OF r(2)] y(1) by simp
    obtain v where v: "row_warning r = Inr v" "map_of ws (cr_chunk_id r) = Some v"
      using row_warnings_lookup [OF ws dist r(1)] by blast
    have "set SHARED \<subseteq> fst ` set (cr_attrs (snd x))"
      using sync x unfolding in_sync_def synced_def agrees_def by blast
    then show "agrees pl (snd x)"
      using row_point_agrees [OF r(2) bspec [OF assms(2) r(1)] v] pl' xy y(1) by simp
  qed
  moreover have "fst ` set (embedding_meta sv) \<inter> set SHARED = {}" by (simp add: embedding_meta_def SHARED_def)
  ultimately show ?thesis
    using mem_chunks.in_sync_private [OF wf _ ids] mem_chunks.update_keeps [OF wf ids] by (simp add: sync_ok_def)
qed

lemma embedding_only_ends:
  assumes "jobs_only j w w" "rq_mode rq = EmbeddingOnly"
  shows "st_wp (reindex_embedding_only sv rq j cfg w)
     (\<lambda>r w'. ends_well sv rq j w r w' \<and> (ir_status r = ''failed'' \<longrightarrow> jobs_only j w w')) (\<lambda>e w'. jobs_only j w w')"
proof -
  let ?ex = "list_by_doc (rq_domain_id rq) (rq_doc_id rq) (rq_doc_version rq) None (ix_chunks w)"
  let ?Q = "\<lambda>r w'. ends_well sv rq j w r w' \<and> (ir_status r = ''failed'' \<longrightarrow> jobs_only j w w')" and ?E = "\<lambda>e w'. jobs_only j w w'"
  show ?thesis
  proof (cases "?ex = []")
    case True
    have "st_wp (index_full sv rq j cfg w) ?Q ?E"
      using index_full_wp [OF assms(1), of sv rq cfg] index_full_ends [OF assms(1), of sv rq cfg]
      by (auto simp: st_wp_def split: prod.splits sum.splits)
    with True show ?thesis by (simp add: reindex_embedding_only_def)
  next
    case False
    show ?thesis
      unfolding reindex_embedding_only_def Let_def if_not_P [OF False] st_wp_bind
    proof (rule st_wp_pure, rule st_wp_pure, rule job_step_wp [OF assms(1)])
      fix chunks ws w1
      assume chunks: "map_res row_chunk ?ex = Inr chunks" and ws: "row_warnings ?ex = Inr ws" and w1: "jobs_only j w w1"
      let ?er = "embed_safely sv chunks"
      let ?rate = "of_nat (length (er_failed ?er)) / of_nat (max 1 (length ?ex)) :: real"
      let ?ids = "filter (\<lambda>cid. PStr cid \<notin> failed_ids (er_failed ?er)) (map ch_id chunks)"
      let ?up = "\<lambda>w. w\<lparr>ix_chunks := update_metadata (rq_domain_id rq) ?ids (embedding_meta sv) (ix_chunks w)\<rparr>"
      show "st_wp (if sv_failure_threshold sv < ?rate
          then fail_fast j (length ?ex) ?er ws ?rate (''failure_rate '' @ sv_format sv ?rate @ '' > threshold'') w1
          else bind_st (upsert_to_qdrant sv rq chunks (er_vectors ?er) ws w1) (\<lambda>_ w. finish j (length ?ex) ?er ws ?rate (?up w))) ?Q ?E"
      proof (cases "sv_failure_threshold sv < ?rate")
        case True
        show ?thesis
          unfolding if_P [OF True]
          by (rule st_wp_mono [OF fail_fast_wp [OF w1]]) (auto simp: ends_well_def TERMINAL_def jobs_track_refl sync_ok_jobs)
      next
        case False
        show ?thesis
          unfolding if_not_P [OF False] st_wp_bind
        proof (rule upsert_wp)
          fix st' assume st: "stored sv rq chunks (er_vectors ?er) ws (ix_store w1) st'"
          let ?w2 = "?up (w1\<lparr>ix_store := st'\<rparr>)"
          have t: "jobs_track j w ?w2" using w1 by (simp add: jobs_only_def jobs_track_def)
          have sync: "sync_ok ?w2" if "admissible sv rq (ix_chunks w)" "sync_ok w"
          proof -
            have w1': "sync_ok w1" and ex: "?ex = list_by_doc (rq_domain_id rq) (rq_doc_id rq) (rq_doc_version rq) None (ix_chunks w1)"
              using that(2) sync_ok_jobs [OF w1] w1 by (auto simp: jobs_only_def)
            have ids: "distinct ?ids"
              using distinct_listing [of "ix_chunks w"] that(2) row_chunk_ids [OF chunks] by (simp add: sync_ok_def)
            have m: "\<forall>r \<in> set ?ex. request_matches sv rq r" using that(1) assms(2) unfolding admissible_def by blast
            have "ix_chunks (w1\<lparr>ix_store := st'\<rparr>) = ix_chunks w1" by simp
            with embedding_sync [OF w1' m ex chunks ws st ids] show ?thesis by (simp only:)
          qed
          show "st_wp (finish j (length ?ex) ?er ws ?rate ?w2) ?Q ?E"
          proof (rule st_wp_mono [OF finish_wp [where E = "\<lambda>_ _. False", OF jobs_track_present [OF t]]])
            fix r :: indexing_result and w' assume r: "ir_status r = (if er_failed ?er = [] then ''completed'' else ''partial'')
              \<and> ir_failed_chunks r = er_failed ?er \<and> status_of w' j = Some (ir_status r) \<and> jobs_only j ?w2 w'"
            have "jobs_track j w w'" using jobs_track_only [OF t] r by blast
            moreover have "sync_ok w' = sync_ok ?w2" using r sync_ok_jobs by blast
            ultimately show "?Q r w'" using r sync by (auto simp: ends_well_def TERMINAL_def)
          qed simp
        qed (rule w1)
      qed
    qed (simp_all add: assms)
  qed
qed


definition stores_same :: "index_world \<Rightarrow> index_world \<Rightarrow> bool" where
  "stores_same w w' \<longleftrightarrow> ix_store w' = ix_store w \<and> ix_chunks w' = ix_chunks w \<and> ix_docs w' = ix_docs w"

lemma run_mode_ends:
  assumes "jobs_only j w w"
  shows "st_wp (run_mode sv rq j cfg w)
     (\<lambda>r w'. ends_well sv rq j w r w' \<and> (rq_mode rq \<noteq> ParserOnly \<longrightarrow> ir_status r = ''failed'' \<longrightarrow> stores_same w w'))
     (\<lambda>e w'. ends_badly j w w' \<and> (rq_mode rq \<noteq> ParserOnly \<longrightarrow> stores_same w w'))"
proof -
  have full: "st_wp (index_full sv rq j cfg w) (\<lambda>r w'. ends_well sv rq j w r w' \<and> (ir_status r = ''failed'' \<longrightarrow> stores_same w w'))
      (\<lambda>e w'. ends_badly j w w' \<and> stores_same w w')"
    using index_full_wp [OF assms, of sv rq cfg] index_full_ends [OF assms, of sv rq cfg]
    by (auto simp: st_wp_def stores_same_def jobs_only_def split: prod.splits sum.splits)
  show ?thesis
  proof (cases "rq_mode rq")
    case ParserOnly
    then show ?thesis using parser_only_ends [OF assms] by (simp add: run_mode_def)
  next
    case EmbeddingOnly
    show ?thesis
      unfolding run_mode_def EmbeddingOnly reindex_mode.case
      by (rule st_wp_mono [OF embedding_only_ends [OF assms EmbeddingOnly]])
        (auto simp: stores_same_def ends_badly_def jobs_track_refl sync_ok_jobs jobs_only_stores)
  qed (use full in \<open>auto simp: run_mode_def elim!: st_wp_mono\<close>)
qed

lemma run_existing_cases:
  assumes "map_of (ix_jobs w) j \<noteq> None" and "run_with_existing_job sv rq j cfg w = (r, w')"
  obtains x where "r = Inr x" "ends_well sv rq j w x w'" "rq_mode rq \<noteq> ParserOnly \<Longrightarrow> ir_status x = ''failed'' \<Longrightarrow> stores_same w w'"
  | e where "r = Inl e" "ends_badly j w w'" "status_of w' j = Some ''failed''" "rq_mode rq \<noteq> ParserOnly \<Longrightarrow> stores_same w w'"
proof -
  have j: "jobs_only j w w" by (rule jobs_only_refl [OF assms(1)])
  obtain r1 w1 where m: "run_mode sv rq j cfg w = (r1, w1)" by (cases "run_mode sv rq j cfg w")
  show thesis
  proof (cases r1)
    case (Inr x)
    then have "r = Inr x" "w' = w1" using assms(2) m by (auto simp: run_with_existing_job_def)
    with that(1) st_wp_Inr [OF run_mode_ends [OF j] m [unfolded Inr]] show thesis by blast
  next
    case (Inl e)
    have bad: "ends_badly j w w1" "rq_mode rq \<noteq> ParserOnly \<Longrightarrow> stores_same w w1"
      using st_wp_Inl [OF run_mode_ends [OF j] m [unfolded Inl]] by auto
    let ?up = "no_update\<lparr>up_status := Some ''failed'', up_error_message := Some (exc_text (sv_lib sv) e)\<rparr>"
    have "st_wp (bind_st (job_step j ?up w1) (\<lambda>_ w. (Inl e :: indexing_result res, w)))
        (\<lambda>x w'. False) (\<lambda>x w'. x = e \<and> status_of w' j = Some ''failed'' \<and> jobs_only j w1 w')"
      unfolding st_wp_bind by (rule job_step_wp [OF jobs_track_present]) (use bad(1) in \<open>auto simp: ends_badly_def\<close>)
    moreover have "bind_st (job_step j ?up w1) (\<lambda>_ w. (Inl e :: indexing_result res, w)) = (r, w')"
      using assms(2) by (simp add: run_with_existing_job_def m Inl)
    ultimately have r: "r = Inl e" "status_of w' j = Some ''failed''" "jobs_only j w1 w'"
      by (auto simp: st_wp_def split: sum.splits)
    have "ends_badly j w w'"
      using bad(1) r(3) by (auto simp: ends_badly_def sync_ok_jobs intro: jobs_track_only)
    moreover have "rq_mode rq \<noteq> ParserOnly \<Longrightarrow> stores_same w w'"
      using bad(2) r(3) by (simp add: stores_same_def jobs_only_def)
    ultimately show thesis using that(2) r by blast
  qed
qed

section \<open>Properties\<close>

text \<open>
  (C28) A run settles its job: whatever the parser, the chunker, the embedder and the stores do, a run for a
  registered job leaves it completed, partial or failed (failed, if an exception escapes), reports the
  status it stored, and touches no other job.
\<close>

theorem indexing_settles:
  assumes "map_of (ix_jobs w) j \<noteq> None" and "run_with_existing_job sv rq j cfg w = (r, w')"
  shows "(case r of Inr x \<Rightarrow> status_of w' j = Some (ir_status x) \<and> ir_status x \<in> TERMINAL | Inl e \<Rightarrow> status_of w' j = Some ''failed'')
    \<and> (\<forall>i. i \<noteq> j \<longrightarrow> map_of (ix_jobs w') i = map_of (ix_jobs w) i)"
  using run_existing_cases [OF assms]
  by cases (auto simp: ends_well_def ends_badly_def jobs_track_def tracks_def)

text \<open>
  (C29) Rows and points stay in agreement: if every row of the chunk table has a point whose payload says the
  same, this is still so after a run in any mode, however it ends, provided the identifiers of new
  chunks are not used by another document of the domain and, for the embedding-only mode, the request
  repeats the metadata of the rows.
\<close>

theorem indexing_keeps_sync:
  assumes "map_of (ix_jobs w) j \<noteq> None" and "run_with_existing_job sv rq j cfg w = (r, w')"
    and "repo_wf (ix_chunks w)" and "in_sync (ix_store w) (rows (ix_chunks w))" and "admissible sv rq (ix_chunks w)"
  shows "repo_wf (ix_chunks w') \<and> in_sync (ix_store w') (rows (ix_chunks w'))"
proof -
  have ok: "sync_ok w" using assms(3,4) by (simp add: sync_ok_def)
  from assms(1,2) have "sync_ok w'"
    by (cases rule: run_existing_cases) (use ok assms(5) in \<open>auto simp: ends_well_def ends_badly_def\<close>)
  then show ?thesis by (simp add: sync_ok_def)
qed

text \<open>
  (C30) A run that fails changes nothing but its job: when a full, re-splitting or embedding-only run reports
  failure or raises, the vector store, the chunk table and the documents are as before.
\<close>

theorem failed_indexing_changes_nothing:
  assumes "map_of (ix_jobs w) j \<noteq> None" and "run_with_existing_job sv rq j cfg w = (r, w')"
    and "status_of w' j = Some ''failed''" and "rq_mode rq \<noteq> ParserOnly"
  shows "ix_store w' = ix_store w \<and> ix_chunks w' = ix_chunks w \<and> ix_docs w' = ix_docs w"
  using assms(1,2)
  by (cases rule: run_existing_cases) (use assms(3,4) in \<open>auto simp: ends_well_def stores_same_def\<close>)

end
