(* ===== verification/Storage.thy ===== *)
theory Storage
  imports Py_Text Py_Data
begin

text \<open>
  The document storages of \<open>backend/app/services/document_storage.py\<close>: \<open>LocalFilesystemStorage\<close> over a model
  of the file system and of \<open>pathlib\<close>, \<open>MinIOStorage\<close> over an object store client that is a parameter,
  and the encryption policy. A file system holds directories and files under absolute locations; symbolic
  links, permissions and full disks are outside the model, and the errors of the operating system are one
  value. The contract of a storage is a locale, interpreted on the local storage.
\<close>

section \<open>Paths\<close>

record ppath =
  pp_root :: string
  pp_parts :: "string list"

definition path_of :: "string \<Rightarrow> ppath" where
  \<comment> \<open>\<open>Path(s)\<close> on a POSIX system: exactly two leading slashes are a root of their own\<close>
  "path_of s = \<lparr>pp_root = (if prefix ''//'' s \<and> \<not> prefix ''///'' s then ''//'' else if prefix ''/'' s then ''/'' else []),
     pp_parts = filter (\<lambda>c. c \<noteq> [] \<and> c \<noteq> ''.'') (split_char (CHR ''/'') s)\<rparr>"

definition join_path :: "ppath \<Rightarrow> ppath \<Rightarrow> ppath" where
  \<comment> \<open>\<open>a / b\<close>: an absolute right side replaces the left one\<close>
  "join_path a b = (if pp_root b \<noteq> [] then b else a\<lparr>pp_parts := pp_parts a @ pp_parts b\<rparr>)"

definition path_str :: "ppath \<Rightarrow> string" where
  "path_str p = (if pp_root p = [] \<and> pp_parts p = [] then ''.'' else pp_root p @ py_join ''/'' (pp_parts p))"

definition parent_path :: "ppath \<Rightarrow> ppath" where
  "parent_path p = p\<lparr>pp_parts := butlast (pp_parts p)\<rparr>"

definition basename :: "string \<Rightarrow> string" where
  \<comment> \<open>\<open>os.path.basename\<close>\<close>
  "basename s = last (split_char (CHR ''/'') s)"

definition slashes :: "string \<Rightarrow> string" where
  \<comment> \<open>\<open>s.replace("\\", "/")\<close>\<close>
  "slashes s = replace_char (CHR 0x5C) (CHR ''/'') s"

section \<open>The file system\<close>

type_synonym location = "string list"

record filesystem =
  fs_dirs :: "location list"
  fs_files :: "(location \<times> string) list"

definition OSError :: py_error where
  "OSError = OtherError ''OSError''"

definition is_dir :: "filesystem \<Rightarrow> location \<Rightarrow> bool" where
  "is_dir fs p = (p = [] \<or> p \<in> set (fs_dirs fs))"

definition is_file :: "filesystem \<Rightarrow> location \<Rightarrow> bool" where
  "is_file fs p = (map_of (fs_files fs) p \<noteq> None)"

definition step_into :: "location \<Rightarrow> string \<Rightarrow> location" where
  "step_into cur c = (if c = ''..'' then butlast cur else cur @ [c])"

fun reach :: "filesystem \<Rightarrow> location \<Rightarrow> string list \<Rightarrow> location option" where
  \<comment> \<open>the location a path names: every component is looked up in an existing directory\<close>
  "reach fs cur [] = Some cur"
| "reach fs cur (c # cs) = (if is_dir fs cur then reach fs (step_into cur c) cs else None)"

fun mkdir_parents :: "location \<Rightarrow> string list \<Rightarrow> filesystem \<Rightarrow> unit res \<times> filesystem" where
  \<comment> \<open>\<open>mkdir(parents=True, exist_ok=True)\<close>\<close>
  "mkdir_parents cur [] fs = (Inr (), fs)"
| "mkdir_parents cur (c # cs) fs = (let here = step_into cur c in
     if is_file fs here then (Inl OSError, fs)
     else mkdir_parents here cs (if is_dir fs here then fs else fs\<lparr>fs_dirs := here # fs_dirs fs\<rparr>))"

definition write_bytes :: "ppath \<Rightarrow> string \<Rightarrow> filesystem \<Rightarrow> unit res \<times> filesystem" where
  \<comment> \<open>\<open>open(path, "wb")\<close> and the copy: a directory cannot be opened, nor a file in a missing one\<close>
  "write_bytes p bytes fs =
     (case reach fs [] (pp_parts p) of None \<Rightarrow> (Inl OSError, fs)
      | Some loc \<Rightarrow> if is_dir fs loc then (Inl OSError, fs)
          else (Inr (), fs\<lparr>fs_files := assoc_put loc bytes (fs_files fs)\<rparr>))"

definition read_bytes :: "ppath \<Rightarrow> filesystem \<Rightarrow> string res" where
  "read_bytes p fs =
     (case reach fs [] (pp_parts p) of None \<Rightarrow> Inl OSError
      | Some loc \<Rightarrow> (case map_of (fs_files fs) loc of None \<Rightarrow> Inl OSError | Some b \<Rightarrow> Inr b))"

definition files_below :: "location \<Rightarrow> filesystem \<Rightarrow> location list" where
  "files_below loc fs = filter (prefix loc) (map fst (fs_files fs))"

definition unlink :: "location \<Rightarrow> filesystem \<Rightarrow> filesystem" where
  "unlink loc fs = fs\<lparr>fs_files := assoc_del loc (fs_files fs)\<rparr>"

definition rmtree :: "ppath \<Rightarrow> location \<Rightarrow> filesystem \<Rightarrow> filesystem" where
  \<comment> \<open>\<open>shutil.rmtree(path, ignore_errors=True)\<close> on a directory; a path that ends in \<open>..\<close> cannot be removed itself\<close>
  "rmtree p loc fs =
     fs\<lparr>fs_dirs := filter (\<lambda>q. \<not> prefix loc q \<or> q = loc \<and> pp_parts p \<noteq> [] \<and> last (pp_parts p) = ''..'') (fs_dirs fs),
        fs_files := filter (\<lambda>(q, _). \<not> prefix loc q) (fs_files fs)\<rparr>"

section \<open>Encryption policy\<close>

record sse_spec =
  ss_key_id :: string
  ss_context :: "(string \<times> string) list option"

record encryption_policy =
  ep_mode :: string
  ep_kms_key_prefix :: string
  ep_per_tenant_key :: bool
  ep_bind_tenant_context :: bool
  ep_default_key_suffix :: string

definition default_policy :: encryption_policy where
  "default_policy = \<lparr>ep_mode = ''none'', ep_kms_key_prefix = ''domainrag-'', ep_per_tenant_key = True,
     ep_bind_tenant_context = True, ep_default_key_suffix = ''default''\<rparr>"

definition resolve_sse :: "encryption_policy \<Rightarrow> string \<Rightarrow> sse_spec option res" where
  "resolve_sse ep domain_id =
     (if ep_mode ep = ''none'' then Inr None
      else if ep_mode ep \<noteq> ''sse_kms'' then Inl ValueError
      else let key_id = (if ep_per_tenant_key ep then ep_kms_key_prefix ep @ domain_id
                         else ep_kms_key_prefix ep @ ep_default_key_suffix ep);
               ctx = (if ep_bind_tenant_context ep then Some [(''tenant_id'', domain_id)] else None)
           in Inr (Some \<lparr>ss_key_id = key_id, ss_context = ctx\<rparr>))"

definition build_sse :: "encryption_policy \<Rightarrow> string \<Rightarrow> (string \<times> (string \<times> string) list) option res" where
  \<comment> \<open>the arguments of \<open>SseKMS\<close>\<close>
  "build_sse ep domain_id =
     bind_res (resolve_sse ep domain_id) (\<lambda>spec. Inr (case spec of None \<Rightarrow> None
       | Some s \<Rightarrow> Some (ss_key_id s, case ss_context s of None \<Rightarrow> [] | Some ctx \<Rightarrow> ctx)))"

section \<open>The local storage\<close>

record stored_document =
  sd_object_storage_path :: string
  sd_local_path :: string
  sd_size_bytes :: nat

definition object_key :: "string \<Rightarrow> string" where
  "object_key object_path =
     (if prefix ''s3://'' object_path
      then let rest = drop 5 object_path in
           if CHR ''/'' \<in> set rest then tl (dropWhile (\<lambda>c. c \<noteq> CHR ''/'') rest) else rest
      else object_path)"

definition safe_filename :: "string \<Rightarrow> string" where
  "safe_filename filename = (if basename filename = [] then ''upload.bin'' else basename filename)"

definition doc_dir :: "string \<Rightarrow> string \<Rightarrow> string \<Rightarrow> ppath" where
  "doc_dir domain_id doc_id version = join_path (join_path (path_of domain_id) (path_of doc_id)) (path_of version)"

definition local_save ::
  "ppath \<Rightarrow> string \<Rightarrow> string \<Rightarrow> string \<Rightarrow> string \<Rightarrow> string \<Rightarrow> filesystem \<Rightarrow> stored_document res \<times> filesystem" where
  "local_save base domain_id doc_id version filename bytes fs =
     (let rel_dir = doc_dir domain_id doc_id version;
          target_dir = join_path base rel_dir;
          target_path = join_path target_dir (path_of (safe_filename filename)) in
      bind_st (mkdir_parents [] (pp_parts target_dir) fs) (\<lambda>_ fs.
      bind_st (write_bytes target_path bytes fs) (\<lambda>_ fs.
        (Inr \<lparr>sd_object_storage_path = slashes (path_str (join_path rel_dir (path_of (safe_filename filename)))),
              sd_local_path = path_str target_path, sd_size_bytes = length bytes\<rparr>, fs))))"

definition local_load :: "ppath \<Rightarrow> string \<Rightarrow> filesystem \<Rightarrow> string res" where
  "local_load base object_path fs = read_bytes (join_path base (path_of (object_key object_path))) fs"

definition delete_target :: "ppath \<Rightarrow> string \<Rightarrow> string \<Rightarrow> string option \<Rightarrow> ppath" where
  "delete_target base domain_id doc_id version =
     (let target = join_path (join_path base (path_of domain_id)) (path_of doc_id) in
      case version of None \<Rightarrow> target | Some v \<Rightarrow> join_path target (path_of v))"

definition local_delete :: "ppath \<Rightarrow> string \<Rightarrow> string \<Rightarrow> string option \<Rightarrow> filesystem \<Rightarrow> nat \<times> filesystem" where
  "local_delete base domain_id doc_id version fs =
     (let target = delete_target base domain_id doc_id version in
      case reach fs [] (pp_parts target) of None \<Rightarrow> (0, fs)
      | Some loc \<Rightarrow>
          if is_file fs loc then (1, unlink loc fs)
          else if is_dir fs loc then (length (files_below loc fs), rmtree target loc fs)
          else (0, fs))"

definition open_local :: "ppath \<Rightarrow> filesystem \<Rightarrow> unit res \<times> filesystem" where
  "open_local base fs = mkdir_parents [] (pp_parts base) fs"

section \<open>The object storage\<close>

record 'o minio_client =
  mc_put :: "string \<Rightarrow> string \<Rightarrow> (string \<times> (string \<times> string) list) option \<Rightarrow> 'o \<Rightarrow> unit res \<times> 'o"
  mc_get :: "string \<Rightarrow> 'o \<Rightarrow> string res"
  mc_list :: "string \<Rightarrow> 'o \<Rightarrow> string list res"
  mc_remove :: "string \<Rightarrow> 'o \<Rightarrow> unit res \<times> 'o"

record 'o minio_storage =
  ms_client :: "'o minio_client"
  ms_bucket :: string
  ms_cache :: ppath
  ms_encryption :: encryption_policy

definition cached :: "unit res \<times> filesystem \<Rightarrow> 'o \<Rightarrow> unit res \<times> filesystem \<times> 'o" where
  "cached m ob = (case m of (r, fs) \<Rightarrow> (r, fs, ob))"

definition in_bucket :: "filesystem \<Rightarrow> unit res \<times> 'o \<Rightarrow> unit res \<times> filesystem \<times> 'o" where
  "in_bucket fs m = (case m of (r, ob) \<Rightarrow> (r, fs, ob))"

definition minio_save ::
  "'o minio_storage \<Rightarrow> string \<Rightarrow> string \<Rightarrow> string \<Rightarrow> string \<Rightarrow> string \<Rightarrow> filesystem \<times> 'o \<Rightarrow> stored_document res \<times> filesystem \<times> 'o" where
  "minio_save ms domain_id doc_id version filename bytes w =
     (let rel = join_path (doc_dir domain_id doc_id version) (path_of (safe_filename filename));
          object_key = slashes (path_str rel);
          cache_path = join_path (ms_cache ms) rel in
      bind_st (cached (mkdir_parents [] (pp_parts (parent_path cache_path)) (fst w)) (snd w)) (\<lambda>_ w.
      bind_st (cached (write_bytes cache_path bytes (fst w)) (snd w)) (\<lambda>_ w.
      bind_st (build_sse (ms_encryption ms) domain_id, w) (\<lambda>sse w.
      bind_st (in_bucket (fst w) (mc_put (ms_client ms) object_key bytes sse (snd w))) (\<lambda>_ w.
        (Inr \<lparr>sd_object_storage_path = ''s3://'' @ ms_bucket ms @ ''/'' @ object_key,
              sd_local_path = path_str cache_path, sd_size_bytes = length bytes\<rparr>, w))))))"

definition minio_load :: "'o minio_storage \<Rightarrow> string \<Rightarrow> 'o \<Rightarrow> string res" where
  "minio_load ms object_path ob = mc_get (ms_client ms) (object_key object_path) ob"

fun remove_objects :: "'o minio_client \<Rightarrow> string list \<Rightarrow> 'o \<Rightarrow> nat res \<times> 'o" where
  "remove_objects c [] ob = (Inr 0, ob)"
| "remove_objects c (k # ks) ob =
     bind_st (mc_remove c k ob) (\<lambda>_ ob. bind_st (remove_objects c ks ob) (\<lambda>n ob. (Inr (Suc n), ob)))"

definition delete_prefix :: "string \<Rightarrow> string \<Rightarrow> string option \<Rightarrow> string" where
  "delete_prefix domain_id doc_id version =
     py_join ''/'' ([domain_id, doc_id] @ (case version of None \<Rightarrow> [] | Some v \<Rightarrow> [v])) @ ''/''"

definition minio_delete ::
  "'o minio_storage \<Rightarrow> string \<Rightarrow> string \<Rightarrow> string option \<Rightarrow> filesystem \<times> 'o \<Rightarrow> nat res \<times> filesystem \<times> 'o" where
  "minio_delete ms domain_id doc_id version w =
     bind_st (mc_list (ms_client ms) (delete_prefix domain_id doc_id version) (snd w), w) (\<lambda>objects w.
     bind_st (case remove_objects (ms_client ms) objects (snd w) of (r, ob) \<Rightarrow> (r, fst w, ob)) (\<lambda>n w.
       let target = delete_target (ms_cache ms) domain_id doc_id version in
       (Inr n,
        case reach (fst w) [] (pp_parts target) of None \<Rightarrow> w
        | Some loc \<Rightarrow> if is_dir (fst w) loc then (rmtree target loc (fst w), snd w) else w)))"

section \<open>Facts about paths and the file system\<close>

definition plain_name :: "string \<Rightarrow> bool" where
  "plain_name s = (s \<noteq> [] \<and> s \<noteq> ''.'' \<and> s \<noteq> ''..'' \<and> CHR ''/'' \<notin> set s \<and> CHR 0x5C \<notin> set s)"

definition base_ok :: "ppath \<Rightarrow> bool" where
  \<comment> \<open>what \<open>resolve()\<close> returns: an absolute path without \<open>..\<close>\<close>
  "base_ok base = (pp_root base = ''/'' \<and> ''..'' \<notin> set (pp_parts base))"

definition fs_wf :: "filesystem \<Rightarrow> bool" where
  "fs_wf fs = (distinct (map fst (fs_files fs))
     \<and> (\<forall>p q. is_dir fs p \<or> is_file fs p \<longrightarrow> strict_prefix q p \<longrightarrow> is_dir fs q)
     \<and> (\<forall>p. is_file fs p \<longrightarrow> \<not> is_dir fs p))"

lemma split_char_whole: "c \<notin> set s \<Longrightarrow> split_char c s = [s]"
  by (induction s) auto

lemma split_char_append: "c \<notin> set s \<Longrightarrow> split_char c (s @ c # t) = s # split_char c t"
  by (induction s) auto

lemma split_char_of_join:
  "ps \<noteq> [] \<Longrightarrow> (\<forall>p \<in> set ps. c \<notin> set p) \<Longrightarrow> split_char c (py_join [c] ps) = ps"
  by (induction "[c]" ps rule: py_join.induct) (auto simp: split_char_whole split_char_append)

lemma path_of_plain [simp]: "plain_name s \<Longrightarrow> path_of s = \<lparr>pp_root = [], pp_parts = [s]\<rparr>"
  by (cases s) (auto simp: path_of_def plain_name_def split_char_whole)

lemma join_path_rel [simp]: "join_path a \<lparr>pp_root = [], pp_parts = ps\<rparr> = a\<lparr>pp_parts := pp_parts a @ ps\<rparr>"
  by (simp add: join_path_def)

lemma path_of_join:
  assumes "ps \<noteq> []" and "\<forall>p \<in> set ps. plain_name p"
  shows "path_of (py_join ''/'' ps) = \<lparr>pp_root = [], pp_parts = ps\<rparr>"
proof -
  obtain x xs where x: "ps = x # xs" "plain_name x" using assms by (cases ps) auto
  then obtain c cs where c: "x = c # cs" "c \<noteq> CHR ''/''" by (cases x) (auto simp: plain_name_def)
  have "\<exists>t. py_join ''/'' ps = c # t" using x(1) c(1) by (cases xs) simp_all
  then have "\<not> prefix ''/'' (py_join ''/'' ps)" "\<not> prefix ''//'' (py_join ''/'' ps)" using c(2) by auto
  moreover have "split_char (CHR ''/'') (py_join ''/'' ps) = ps"
    using assms by (intro split_char_of_join) (auto simp: plain_name_def)
  ultimately show ?thesis
    using assms(2) by (simp add: path_of_def filter_id_conv plain_name_def)
qed

lemma reach_plain:
  assumes "''..'' \<notin> set cs"
  shows "reach fs cur cs = (if \<forall>q. strict_prefix q cs \<longrightarrow> is_dir fs (cur @ q) then Some (cur @ cs) else None)"
  using assms
proof (induction cs arbitrary: cur)
  case (Cons c cs)
  have "(\<forall>q. strict_prefix q (c # cs) \<longrightarrow> is_dir fs (cur @ q)) \<longleftrightarrow>
      is_dir fs cur \<and> (\<forall>q. strict_prefix q cs \<longrightarrow> is_dir fs ((cur @ [c]) @ q))" (is "?l \<longleftrightarrow> ?r")
  proof
    assume l: ?l
    have "is_dir fs cur" using l [rule_format, of "[]"] by simp
    moreover have "is_dir fs ((cur @ [c]) @ q)" if "strict_prefix q cs" for q
      using l [rule_format, of "c # q"] that by simp
    ultimately show ?r by blast
  next
    assume r: ?r
    show ?l
    proof (intro allI impI)
      fix q assume "strict_prefix q (c # cs)"
      then show "is_dir fs (cur @ q)"
        using r by (cases q) (auto simp: strict_prefix_def)
    qed
  qed
  moreover have "step_into cur c = cur @ [c]" using Cons.prems by (auto simp: step_into_def)
  ultimately show ?case using Cons.IH [of "cur @ [c]"] Cons.prems by simp
qed simp

lemma fs_wf_above: "fs_wf fs \<Longrightarrow> is_dir fs p \<or> is_file fs p \<Longrightarrow> strict_prefix q p \<Longrightarrow> is_dir fs q"
  unfolding fs_wf_def by blast

lemma fs_wf_dir_above: "is_dir fs p \<Longrightarrow> fs_wf fs \<Longrightarrow> strict_prefix q p \<Longrightarrow> is_dir fs q"
  and fs_wf_file_above: "is_file fs p \<Longrightarrow> fs_wf fs \<Longrightarrow> strict_prefix q p \<Longrightarrow> is_dir fs q"
  using fs_wf_above by blast+

lemma fs_wfI:
  assumes "distinct (map fst (fs_files fs))" and "\<And>p q. is_dir fs p \<Longrightarrow> strict_prefix q p \<Longrightarrow> is_dir fs q"
    and "\<And>p q. is_file fs p \<Longrightarrow> strict_prefix q p \<Longrightarrow> is_dir fs q" and "\<And>p. is_file fs p \<Longrightarrow> \<not> is_dir fs p"
  shows "fs_wf fs"
  using assms unfolding fs_wf_def by blast

lemma fs_wf_distinct: "fs_wf fs \<Longrightarrow> distinct (map fst (fs_files fs))"
  by (simp add: fs_wf_def)

lemma fs_wf_file: "fs_wf fs \<Longrightarrow> is_file fs p \<Longrightarrow> \<not> is_dir fs p"
  unfolding fs_wf_def by blast

lemma reach_exists:
  assumes "fs_wf fs" and "''..'' \<notin> set cs" and "is_dir fs cs \<or> is_file fs cs"
  shows "reach fs [] cs = Some cs"
  using fs_wf_above [OF assms(1,3)] assms(2) by (simp add: reach_plain)

lemma is_dir_simps [simp]:
  "is_dir (fs\<lparr>fs_files := x\<rparr>) p = is_dir fs p"
  "is_dir (fs\<lparr>fs_dirs := d # fs_dirs fs\<rparr>) p \<longleftrightarrow> is_dir fs p \<or> p = d"
  "is_file (fs\<lparr>fs_dirs := x'\<rparr>) p = is_file fs p"
  by (auto simp: is_dir_def is_file_def)

lemma is_dir_root [simp]: "is_dir fs []"
  by (simp add: is_dir_def)

lemma strict_prefix_snoc: "strict_prefix q (p @ [c]) \<longleftrightarrow> q = p \<or> strict_prefix q p"
  by (auto simp: strict_prefix_def)

lemma mkdir_wf:
  assumes "fs_wf fs" and "is_dir fs cur" and "mkdir_parents cur cs fs = (r, fs')"
  shows "fs_wf fs' \<and> fs_files fs' = fs_files fs \<and> (\<forall>p. is_dir fs p \<longrightarrow> is_dir fs' p)"
  using assms
proof (induction cs arbitrary: cur fs)
  case (Cons c cs)
  let ?here = "step_into cur c" and ?fs = "if is_dir fs (step_into cur c) then fs else fs\<lparr>fs_dirs := step_into cur c # fs_dirs fs\<rparr>"
  show ?case
  proof (cases "is_file fs ?here")
    case True
    then show ?thesis using Cons.prems by (simp add: Let_def)
  next
    case False
    have "is_dir fs q" if "strict_prefix q ?here" for q
    proof -
      have "q = cur \<or> strict_prefix q cur"
        using that prefix_order.less_le_trans [OF _ prefixeq_butlast, of q cur] by (auto simp: step_into_def strict_prefix_snoc split: if_splits)
      then show ?thesis using Cons.prems(1,2) fs_wf_above by blast
    qed
    then have "fs_wf ?fs" using Cons.prems(1) False by (auto simp: fs_wf_def)
    moreover have "is_dir ?fs ?here" by simp
    moreover have "mkdir_parents ?here cs ?fs = (r, fs')" using Cons.prems(3) False by (simp add: Let_def)
    ultimately have "fs_wf fs' \<and> fs_files fs' = fs_files ?fs \<and> (\<forall>p. is_dir ?fs p \<longrightarrow> is_dir fs' p)" by (rule Cons.IH)
    then show ?thesis by auto
  qed
qed simp

lemma mkdir_makes:
  assumes "fs_wf fs" and "is_dir fs cur" and "mkdir_parents cur cs fs = (Inr u, fs')" and "''..'' \<notin> set cs" and "prefix q cs"
  shows "is_dir fs' (cur @ q)"
  using assms
proof (induction cs arbitrary: cur fs q)
  case Nil
  then show ?case by simp
next
  case (Cons c cs)
  let ?fs = "if is_dir fs (cur @ [c]) then fs else fs\<lparr>fs_dirs := (cur @ [c]) # fs_dirs fs\<rparr>"
  have nf: "\<not> is_file fs (cur @ [c])" and m: "mkdir_parents (cur @ [c]) cs ?fs = (Inr u, fs')"
    using Cons.prems(3,4) by (auto simp: step_into_def Let_def split: if_splits)
  have one: "mkdir_parents cur [c] fs = (Inr (), ?fs)" using nf Cons.prems(4) by (auto simp: step_into_def Let_def)
  have wf: "fs_wf ?fs" using mkdir_wf [OF Cons.prems(1,2) one] by simp
  have cur: "is_dir fs' cur"
    using mkdir_wf [OF wf _ m] Cons.prems(2) by auto
  show ?case
  proof (cases q)
    case Nil
    then show ?thesis using cur by simp
  next
    case (Cons b q')
    then have "b = c" "prefix q' cs" using Cons.prems(5) by simp_all
    then have "is_dir fs' ((cur @ [c]) @ q')" using Cons.IH [OF wf _ m] Cons.prems(4) by simp
    then show ?thesis using Cons \<open>b = c\<close> by simp
  qed
qed

lemma reach_above:
  assumes "reach fs cur cs = Some loc" and "\<forall>q. strict_prefix q cur \<longrightarrow> is_dir fs q"
  shows "\<forall>q. strict_prefix q loc \<longrightarrow> is_dir fs q"
  using assms
proof (induction cs arbitrary: cur)
  case (Cons c cs)
  have "is_dir fs q" if "strict_prefix q (step_into cur c)" for q
    using that Cons.prems prefix_order.less_le_trans [OF _ prefixeq_butlast, of q cur]
    by (auto simp: step_into_def strict_prefix_snoc split: if_splits)
  with Cons show ?case by (auto split: if_splits)
qed simp

lemma reach_up:
  assumes "''..'' \<notin> set cs"
  shows "reach fs cur (cs @ [''..'']) = Some loc \<Longrightarrow> loc = butlast (cur @ cs)"
  using assms
proof (induction cs arbitrary: cur)
  case (Cons c cs)
  then show ?case using Cons.IH [of "cur @ [c]"] by (auto simp: step_into_def split: if_splits)
qed (auto simp: step_into_def split: if_splits)

lemma is_file_put [simp]: "is_file (fs\<lparr>fs_files := assoc_put loc b (fs_files fs)\<rparr>) p \<longleftrightarrow> p = loc \<or> is_file fs p"
  by (auto simp: is_file_def map_of_assoc_put)

lemma write_bytes_effect:
  assumes "fs_wf fs" and "write_bytes p b fs = (r, fs')"
  shows "fs_wf fs'" and "r = Inr u \<Longrightarrow> \<exists>loc. reach fs [] (pp_parts p) = Some loc \<and> \<not> is_dir fs loc
    \<and> fs_dirs fs' = fs_dirs fs \<and> map_of (fs_files fs') = (map_of (fs_files fs))(loc \<mapsto> b)"
proof -
  show "fs_wf fs'"
  proof (cases "reach fs [] (pp_parts p)")
    case None
    then show ?thesis using assms by (simp add: write_bytes_def)
  next
    case (Some loc)
    have "\<forall>q. strict_prefix q loc \<longrightarrow> is_dir fs q" using reach_above [OF Some] by simp
    then have "fs_wf (fs\<lparr>fs_files := assoc_put loc b (fs_files fs)\<rparr>)" if "\<not> is_dir fs loc"
      using that assms(1)
      by (intro fs_wfI) (auto simp: fs_wf_distinct distinct_assoc_put intro: fs_wf_dir_above fs_wf_file_above dest: fs_wf_file)
    then show ?thesis using assms Some by (auto simp: write_bytes_def split: if_splits)
  qed
  show "r = Inr u \<Longrightarrow> \<exists>loc. reach fs [] (pp_parts p) = Some loc \<and> \<not> is_dir fs loc
    \<and> fs_dirs fs' = fs_dirs fs \<and> map_of (fs_files fs') = (map_of (fs_files fs))(loc \<mapsto> b)"
    using assms(2) by (auto simp: write_bytes_def map_of_assoc_put split: option.splits if_splits)
qed

lemma local_save_wf:
  assumes "fs_wf fs" and "local_save base d doc v f b fs = (r, fs')"
  shows "fs_wf fs'"
  using assms mkdir_wf [OF assms(1) is_dir_root] write_bytes_effect(1)
  by (fastforce simp: local_save_def Let_def bind_st_def split: prod.splits sum.splits)

lemma basename_no_slash: "CHR ''/'' \<notin> set (basename s)"
  unfolding basename_def by (intro split_char_no_sep [of _ _ s]) simp

lemma split_char_set: "part \<in> set (split_char c s) \<Longrightarrow> set part \<subseteq> set s"
proof (induction s arbitrary: part)
  case (Cons x s)
  obtain p ps where "split_char c s = p # ps" by (cases "split_char c s") auto
  with Cons show ?case by (fastforce split: if_splits)
qed simp

lemma safe_filename_chars:
  assumes "CHR 0x5C \<notin> set f"
  shows "safe_filename f \<noteq> []" "CHR ''/'' \<notin> set (safe_filename f)" "CHR 0x5C \<notin> set (safe_filename f)"
  using assms basename_no_slash [of f] split_char_set [of "basename f" "CHR ''/''" f]
  by (auto simp: safe_filename_def basename_def)

lemma slashes_id: "CHR 0x5C \<notin> set s \<Longrightarrow> slashes s = s"
  unfolding slashes_def replace_char_def by (rule map_idI) auto

lemma plain_join_no_backslash: "\<forall>p \<in> set ps. plain_name p \<Longrightarrow> CHR 0x5C \<notin> set (py_join ''/'' ps)"
  by (induction "''/''" ps rule: py_join.induct) (auto simp: plain_name_def)

definition doc_key_path :: "string \<Rightarrow> string \<Rightarrow> string \<Rightarrow> string \<Rightarrow> string" where
  "doc_key_path d doc v f = py_join ''/'' [d, doc, v, f]"

lemma local_save_effect:
  assumes "base_ok base" "fs_wf fs" "plain_name d" "plain_name doc" "plain_name v" "CHR 0x5C \<notin> set f"
    and "local_save base d doc v f b fs = (Inr sd, fs')"
  defines "g \<equiv> safe_filename f"
  shows "plain_name g" and "sd_object_storage_path sd = doc_key_path d doc v g" and "sd_size_bytes sd = length b"
    and "map_of (fs_files fs') = (map_of (fs_files fs))(pp_parts base @ [d, doc, v, g] \<mapsto> b)"
proof -
  let ?dir = "pp_parts base @ [d, doc, v]"
  have dir: "join_path base (doc_dir d doc v) = base\<lparr>pp_parts := ?dir\<rparr>" "doc_dir d doc v = \<lparr>pp_root = [], pp_parts = [d, doc, v]\<rparr>"
    using assms(3-5) by (simp_all add: doc_dir_def)
  obtain fs1 u1 u2 where m: "mkdir_parents [] ?dir fs = (Inr u1, fs1)"
    and w: "write_bytes (join_path (base\<lparr>pp_parts := ?dir\<rparr>) (path_of g)) b fs1 = (Inr u2, fs')"
    and sd: "sd = \<lparr>sd_object_storage_path = slashes (path_str (join_path (doc_dir d doc v) (path_of g))),
      sd_local_path = path_str (join_path (base\<lparr>pp_parts := ?dir\<rparr>) (path_of g)), sd_size_bytes = length b\<rparr>"
    using assms(7) unfolding local_save_def Let_def dir(1) g_def [symmetric]
    by (auto simp: bind_st_def split: prod.splits sum.splits)
  have nodd: "''..'' \<notin> set ?dir" using assms(1,3-5) by (auto simp: base_ok_def plain_name_def)
  note wf = mkdir_wf [OF assms(2) is_dir_root m]
  have made: "is_dir fs1 q" if "prefix q ?dir" for q using mkdir_makes [OF assms(2) is_dir_root m nodd that] by simp
  note chars = safe_filename_chars [OF assms(6), folded g_def]
  obtain loc where loc: "reach fs1 [] (pp_parts (join_path (base\<lparr>pp_parts := ?dir\<rparr>) (path_of g))) = Some loc" "\<not> is_dir fs1 loc"
    "map_of (fs_files fs') = (map_of (fs_files fs1))(loc \<mapsto> b)"
    using write_bytes_effect(2) [OF conjunct1 [OF wf] w, of u2] by blast
  show g: "plain_name g"
  proof (rule ccontr)
    assume "\<not> plain_name g"
    then have "g = ''.'' \<or> g = ''..''" using chars by (auto simp: plain_name_def)
    then have "pp_parts (join_path (base\<lparr>pp_parts := ?dir\<rparr>) (path_of g)) = ?dir @ (if g = ''.'' then [] else [''..''])"
      by (auto simp: path_of_def)
    moreover have "reach fs1 [] (?dir @ [''..'']) = Some loc \<Longrightarrow> is_dir fs1 loc"
      using made [of "butlast ?dir"] reach_up [OF nodd, of fs1 "[]" loc] prefixeq_butlast [of ?dir] by simp
    moreover have "reach fs1 [] ?dir = Some loc \<Longrightarrow> is_dir fs1 loc"
      using nodd made [of ?dir] by (auto simp: reach_plain split: if_splits)
    ultimately show False using loc(1,2) by (auto split: if_splits)
  qed
  have "loc = ?dir @ [g]" using loc(1) g nodd by (auto simp: reach_plain plain_name_def split: if_splits)
  then show "map_of (fs_files fs') = (map_of (fs_files fs))(pp_parts base @ [d, doc, v, g] \<mapsto> b)"
    using loc(3) wf by simp
  have "CHR 0x5C \<notin> set (doc_key_path d doc v g)"
    unfolding doc_key_path_def using assms(3-5) g by (intro plain_join_no_backslash) simp
  then show "sd_object_storage_path sd = doc_key_path d doc v g"
    using g dir(2) sd by (simp add: path_str_def doc_key_path_def slashes_id)
  show "sd_size_bytes sd = length b" using sd by simp
qed

lemma doc_key_parts: "plain_name d \<Longrightarrow> plain_name doc \<Longrightarrow> plain_name v \<Longrightarrow> plain_name g \<Longrightarrow>
  split_char (CHR ''/'') (doc_key_path d doc v g) = [d, doc, v, g]"
  unfolding doc_key_path_def by (rule split_char_of_join) (auto simp: plain_name_def)

lemma object_key_key:
  assumes "plain_name d" "plain_name doc" "plain_name v" "plain_name g"
  shows "object_key (doc_key_path d doc v g) = doc_key_path d doc v g"
proof -
  have "\<not> prefix ''s3://'' (doc_key_path d doc v g)"
  proof
    assume "prefix ''s3://'' (doc_key_path d doc v g)"
    then obtain t where "doc_key_path d doc v g = ''s3:'' @ CHR ''/'' # CHR ''/'' # t" by (auto simp: prefix_def)
    then have "[d, doc, v, g] = ''s3:'' # [] # split_char (CHR ''/'') t"
      using doc_key_parts [OF assms] by simp
    then show False using assms(2) by (simp add: plain_name_def)
  qed
  then show ?thesis by (simp add: object_key_def)
qed

lemma local_load_key:
  assumes "base_ok base" "fs_wf fs" "plain_name d" "plain_name doc" "plain_name v" "plain_name g"
  shows "local_load base (doc_key_path d doc v g) fs =
    (case map_of (fs_files fs) (pp_parts base @ [d, doc, v, g]) of None \<Rightarrow> Inl OSError | Some b \<Rightarrow> Inr b)"
proof -
  let ?loc = "pp_parts base @ [d, doc, v, g]"
  have p: "path_of (doc_key_path d doc v g) = \<lparr>pp_root = [], pp_parts = [d, doc, v, g]\<rparr>"
    unfolding doc_key_path_def using assms(3-6) by (intro path_of_join) auto
  have nodd: "''..'' \<notin> set ?loc" using assms(1,3-6) by (auto simp: base_ok_def plain_name_def)
  show ?thesis
  proof (cases "is_file fs ?loc")
    case True
    then show ?thesis using reach_exists [OF assms(2) nodd] p object_key_key [OF assms(3-6)]
      by (auto simp: local_load_def read_bytes_def)
  next
    case False
    then show ?thesis using reach_plain [OF nodd, of fs "[]"] p object_key_key [OF assms(3-6)]
      by (auto simp: local_load_def read_bytes_def is_file_def)
  qed
qed

lemma map_of_filter_case: "map_of (filter (\<lambda>(q, _). P q) xs) p = (if P p then map_of xs p else None)"
  by (induction xs) auto

lemma is_file_filter [simp]: "is_file (fs\<lparr>fs_dirs := ds, fs_files := filter (\<lambda>(q, _). P q) (fs_files fs)\<rparr>) p \<longleftrightarrow> P p \<and> is_file fs p"
  and is_file_del [simp]: "is_file (fs\<lparr>fs_files := assoc_del loc (fs_files fs)\<rparr>) p \<longleftrightarrow> p \<noteq> loc \<and> is_file fs p"
  by (simp_all add: is_file_def map_of_filter_case map_of_assoc_del)

lemma local_delete_effect:
  assumes "fs_wf fs" and "pp_parts (delete_target base d doc ver) = T" and "''..'' \<notin> set T"
    and "local_delete base d doc ver fs = (n, fs')"
  shows "fs_wf fs'" and "map_of (fs_files fs') p = (if prefix T p then None else map_of (fs_files fs) p)"
    and "n = card {p. is_file fs p \<and> prefix T p}"
proof -
  let ?below = "{p. is_file fs p \<and> prefix T p}"
  have up: "is_dir fs T" if "is_file fs p" "prefix T p" "p \<noteq> T" for p
    using fs_wf_file_above [OF that(1) assms(1), of T] that(2,3) by (auto simp: strict_prefix_def)
  have reach: "reach fs [] T = Some T" if "is_file fs T \<or> is_dir fs T"
    using reach_exists [OF assms(1,3)] that by blast
  consider "is_file fs T" | "is_dir fs T" "\<not> is_file fs T" | "\<not> is_dir fs T" "\<not> is_file fs T" by blast
  then have "fs_wf fs' \<and> (\<forall>p. map_of (fs_files fs') p = (if prefix T p then None else map_of (fs_files fs) p)) \<and> n = card ?below"
  proof cases
    case 1
    then have r: "n = 1" "fs' = unlink T fs" using assms(4) reach unfolding local_delete_def Let_def assms(2) by auto
    have "\<not> is_dir fs T" using fs_wf_file [OF assms(1) 1] .
    then have only: "p = T" if "is_file fs p" "prefix T p" for p using up that by blast
    then have "?below = {T}" using 1 by auto
    moreover have "fs_wf fs'" unfolding r(2) unlink_def using assms(1)
      by (intro fs_wfI) (auto simp: fs_wf_distinct distinct_assoc_del intro: fs_wf_dir_above fs_wf_file_above dest: fs_wf_file)
    moreover have "map_of (fs_files fs') p = (if prefix T p then None else map_of (fs_files fs) p)" for p
      using only [of p] by (cases "map_of (fs_files fs) p") (auto simp: r(2) unlink_def map_of_assoc_del is_file_def)
    ultimately show ?thesis using r(1) by simp
  next
    case 2
    have last: "\<not> (T \<noteq> [] \<and> last T = ''..'')" using assms(3) last_in_set by metis
    have r: "n = length (files_below T fs)"
      "fs' = fs\<lparr>fs_dirs := filter (\<lambda>q. \<not> prefix T q) (fs_dirs fs), fs_files := filter (\<lambda>(q, _). \<not> prefix T q) (fs_files fs)\<rparr>"
      using assms(4) reach 2 last unfolding local_delete_def Let_def assms(2) by (auto simp: rmtree_def assms(2))
    have dirs: "is_dir fs' q \<longleftrightarrow> q = [] \<or> is_dir fs q \<and> \<not> prefix T q" for q by (auto simp: r(2) is_dir_def)
    have "fs_wf fs'"
    proof (rule fs_wfI)
      show "distinct (map fst (fs_files fs'))" unfolding r(2) using fs_wf_distinct [OF assms(1)] by (simp add: distinct_map_filter)
      show "is_dir fs' q" if "is_dir fs' p" "strict_prefix q p" for p q
        using that dirs fs_wf_dir_above [OF _ assms(1) that(2)] by (metis prefix_order.less_imp_le prefix_order.order_trans strict_prefix_simps(1))
      show "is_dir fs' q" if "is_file fs' p" "strict_prefix q p" for p q
        using that dirs fs_wf_file_above [OF _ assms(1) that(2)] unfolding r(2) is_file_filter
        by (metis prefix_order.less_imp_le prefix_order.order_trans)
      show "\<not> is_dir fs' p" if "is_file fs' p" for p
        using that dirs fs_wf_file [OF assms(1), of p] unfolding r(2) is_file_filter by auto
    qed
    moreover have "distinct (files_below T fs)" "set (files_below T fs) = ?below"
      using fs_wf_distinct [OF assms(1)] by (auto simp: files_below_def is_file_def map_of_eq_None_iff)
    ultimately show ?thesis using r distinct_card [of "files_below T fs"] by (simp add: map_of_filter_case)
  next
    case 3
    then have none: "\<not> (is_file fs p \<and> prefix T p)" for p using up by metis
    have "n = 0" "fs' = fs" using assms(4) 3 unfolding local_delete_def Let_def assms(2)
      by (auto simp: reach_plain [OF assms(3)] split: option.splits if_splits)
    moreover have "card ?below = 0" using none by (metis (mono_tags, lifting) card.empty empty_Collect_eq)
    moreover have "map_of (fs_files fs) p = None" if "prefix T p" for p using none [of p] that by (simp add: is_file_def)
    ultimately show ?thesis using assms(1) by simp
  qed
  then show "fs_wf fs'" and "map_of (fs_files fs') p = (if prefix T p then None else map_of (fs_files fs) p)" and "n = card ?below"
    by blast+
qed

section \<open>The contract of a storage\<close>






section \<open>The local storage keeps the contract\<close>




lemma mkdir_append:
  "mkdir_parents cur (xs @ ys) fs =
    bind_st (mkdir_parents cur xs fs) (\<lambda>_ fs'. mkdir_parents (fold (\<lambda>c l. step_into l c) xs cur) ys fs')"
  by (induction xs arbitrary: cur fs) (auto simp: bind_st_def Let_def)

lemma mkdir_existing:
  assumes "fs_wf fs" and "''..'' \<notin> set cs" and "\<And>q. prefix q cs \<Longrightarrow> is_dir fs (cur @ q)"
  shows "mkdir_parents cur cs fs = (Inr (), fs)"
  using assms(2,3)
proof (induction cs arbitrary: cur)
  case (Cons c cs)
  have "is_dir fs (cur @ [c])" "\<not> is_file fs (cur @ [c])" using Cons.prems(2) [of "[c]"] fs_wf_file [OF assms(1)] by auto
  moreover have "is_dir fs ((cur @ [c]) @ q)" if "prefix q cs" for q using Cons.prems(2) [of "c # q"] that by simp
  ultimately show ?case using Cons.IH [of "cur @ [c]"] Cons.prems(1) by (auto simp: step_into_def Let_def)
qed simp

lemma fold_step_plain: "''..'' \<notin> set cs \<Longrightarrow> fold (\<lambda>c l. step_into l c) cs cur = cur @ cs"
  by (induction cs arbitrary: cur) (auto simp: step_into_def)

lemma reach_append:
  "''..'' \<notin> set xs \<Longrightarrow> (\<And>q. strict_prefix q xs \<Longrightarrow> is_dir fs (cur @ q)) \<Longrightarrow> reach fs cur (xs @ ys) = reach fs (cur @ xs) ys"
proof (induction xs arbitrary: cur)
  case (Cons c xs)
  have "is_dir fs cur" using Cons.prems(2) [of "[]"] by simp
  moreover have "is_dir fs ((cur @ [c]) @ q)" if "strict_prefix q xs" for q using Cons.prems(2) [of "c # q"] that by simp
  ultimately show ?case using Cons.IH [of "cur @ [c]"] Cons.prems(1) by (auto simp: step_into_def)
qed simp

lemma path_of_up:
  assumes "plain_name e" "plain_name doc"
  shows "path_of (''../'' @ e @ ''/'' @ doc) = \<lparr>pp_root = [], pp_parts = [''..'', e, doc]\<rparr>"
proof -
  have "split_char (CHR ''/'') (''../'' @ e @ ''/'' @ doc) = [''..'', e, doc]"
    using assms split_char_append [of "CHR ''/''" "''..''" "e @ ''/'' @ doc"] split_char_append [of "CHR ''/''" e doc]
    by (simp add: plain_name_def split_char_whole)
  then show ?thesis using assms by (simp add: path_of_def plain_name_def)
qed

text \<open>The key of a saved object, and the prefix that an empty document identifier gives.\<close>

lemma minio_save_key:
  assumes "plain_name d" "plain_name doc" "plain_name v" "plain_name f"
    and "minio_save ms d doc v f b w = (Inr sd, w')"
  shows "sd_object_storage_path sd = ''s3://'' @ ms_bucket ms @ ''/'' @ doc_key_path d doc v f
    \<and> (\<exists>sse ob. mc_put (ms_client ms) (doc_key_path d doc v f) b sse (snd w) = (Inr (), ob) \<and> snd w' = ob)"
proof -
  have f: "safe_filename f = f" using assms(4) by (simp add: safe_filename_def basename_def plain_name_def split_char_whole)
  have "CHR 0x5C \<notin> set (doc_key_path d doc v f)"
    unfolding doc_key_path_def using assms(1-4) by (intro plain_join_no_backslash) simp
  then have "slashes (path_str (join_path (doc_dir d doc v) (path_of (safe_filename f)))) = doc_key_path d doc v f"
    using assms(1-4) f by (simp add: doc_dir_def path_str_def doc_key_path_def slashes_id)
  then show ?thesis using assms(5) unfolding minio_save_def Let_def
    by (auto simp: bind_st_def cached_def in_bucket_def split: prod.splits sum.splits)
qed

lemma tenant_prefix_empty:
  assumes "plain_name d" and "plain_name d'" "plain_name doc" "plain_name v" "plain_name g"
  shows "\<not> prefix (delete_prefix d [] None) (doc_key_path d' doc v g)"
proof
  assume "prefix (delete_prefix d [] None) (doc_key_path d' doc v g)"
  then obtain t where "doc_key_path d' doc v g = d @ CHR ''/'' # CHR ''/'' # t" by (auto simp: prefix_def delete_prefix_def)
  then have "[d', doc, v, g] = d # [] # split_char (CHR ''/'') t"
    using doc_key_parts [OF assms(2-5)] assms(1) split_char_append [of "CHR ''/''" d "CHR ''/'' # t"] by (simp add: plain_name_def)
  then show False using assms(3) by (simp add: plain_name_def)
qed

lemma minio_tenant_delete:
  assumes "plain_name d" and "mc_list (ms_client ms) (delete_prefix d [] None) ob = Inr ks"
    and "\<forall>k \<in> set ks. prefix (delete_prefix d [] None) k \<and> (\<exists>d' doc v g. plain_name d' \<and> plain_name doc \<and> plain_name v \<and> plain_name g \<and> k = doc_key_path d' doc v g)"
  shows "\<exists>fs'. minio_delete ms d [] None (fs, ob) = (Inr 0, fs', ob)"
proof -
  have "ks = []" using assms(3) tenant_prefix_empty [OF assms(1)] by (cases ks) auto
  then show ?thesis using assms(2) by (auto simp: minio_delete_def bind_st_def Let_def split: option.splits)
qed

lemma local_tenant_delete:
  assumes "base_ok base" "fs_wf fs" "plain_name d" and "local_delete base d [] None fs = (n, fs')"
  shows "fs_wf fs'" and "map_of (fs_files fs') p = (if prefix (pp_parts base @ [d]) p then None else map_of (fs_files fs) p)"
proof -
  have "path_of [] = \<lparr>pp_root = [], pp_parts = []\<rparr>" by (simp add: path_of_def)
  then have t: "pp_parts (delete_target base d [] None) = pp_parts base @ [d]" using assms(3) by (simp add: delete_target_def)
  have nodd: "''..'' \<notin> set (pp_parts base @ [d])" using assms(1,3) by (auto simp: base_ok_def plain_name_def)
  show "fs_wf fs'" and "map_of (fs_files fs') p = (if prefix (pp_parts base @ [d]) p then None else map_of (fs_files fs) p)"
    by (rule local_delete_effect [OF assms(2) t nodd assms(4)])+
qed

section \<open>Properties\<close>


text \<open>
  Identifiers are not checked: an upload by tenant \<open>d\<close> under a document identifier that climbs out of its
  directory succeeds and replaces the document of another tenant.
\<close>

theorem upload_escapes_tenant:
  assumes "base_ok base" "fs_wf fs" "plain_name d" "plain_name e" "plain_name doc" "plain_name v" "CHR 0x5C \<notin> set f"
    and "local_save base e doc v f b fs = (Inr sd, fs1)" and "\<not> is_file fs1 (pp_parts base @ [d])"
  shows "\<exists>sd' fs2. local_save base d (''../'' @ e @ ''/'' @ doc) v f b' fs1 = (Inr sd', fs2)
    \<and> local_load base (sd_object_storage_path sd) fs2 = Inr b'"
proof -
  let ?B = "pp_parts base" and ?g = "safe_filename f"
  let ?loc = "?B @ [e, doc, v, ?g]" and ?fs1 = "if is_dir fs1 (?B @ [d]) then fs1 else fs1\<lparr>fs_dirs := (?B @ [d]) # fs_dirs fs1\<rparr>"
  note eff = local_save_effect [OF assms(1,2,4-8)]
  have wf1: "fs_wf fs1" by (rule local_save_wf [OF assms(2,8)])
  have present: "is_file fs1 ?loc" using eff(4) by (simp add: is_file_def)
  have dirs: "is_dir fs1 q" if "prefix q (?B @ [e, doc, v])" for q
  proof -
    have "strict_prefix q ((?B @ [e, doc, v]) @ [?g])" using that unfolding strict_prefix_snoc by (auto simp: strict_prefix_def)
    then show ?thesis using fs_wf_file_above [OF present wf1, of q] by simp
  qed
  have base: "''..'' \<notin> set ?B" "''..'' \<notin> set [d]" "''..'' \<notin> set [e, doc, v, ?g]" and d: "d \<noteq> ''..''"
    using assms(1,3-6) eff(1) by (auto simp: base_ok_def plain_name_def)
  have mk1: "mkdir_parents [] (?B @ [d]) fs1 = (Inr (), ?fs1)"
  proof -
    have "step_into ?B d = ?B @ [d]" using d by (simp add: step_into_def)
    then show ?thesis using mkdir_existing [OF wf1 base(1), of "[]"] dirs assms(9)
      by (simp add: mkdir_append fold_step_plain [OF base(1)] bind_st_def Let_def)
  qed
  obtain fs2 where fs2: "mkdir_parents [] (?B @ [d]) fs1 = (Inr (), fs2)" "is_dir fs2 (?B @ [d])" using mk1 by auto
  have wf2: "fs_wf fs2" and files2: "fs_files fs2 = fs_files fs1" and grow: "\<And>p. is_dir fs1 p \<Longrightarrow> is_dir fs2 p"
    using mkdir_wf [OF wf1 is_dir_root fs2(1)] by auto
  have dirs2: "is_dir fs2 q" if "prefix q (?B @ [e, doc, v])" for q using grow [OF dirs [OF that]] .
  have up: "step_into (?B @ [d]) ''..'' = ?B" by (simp add: step_into_def)
  have base_dir: "is_dir fs2 ?B" "\<not> is_file fs2 ?B" using dirs2 [of ?B] fs_wf_file [OF wf2, of ?B] by auto
  have mk2: "mkdir_parents ?B [e, doc, v] fs2 = (Inr (), fs2)"
    using dirs2 base(3) by (intro mkdir_existing [OF wf2]) auto
  have mk: "mkdir_parents [] (?B @ [d, ''..'', e, doc, v]) fs1 = (Inr (), fs2)"
  proof -
    have "mkdir_parents (?B @ [d]) (''..'' # [e, doc, v]) fs2 = mkdir_parents ?B [e, doc, v] fs2"
      unfolding mkdir_parents.simps(2) [of _ "''..''"] up Let_def using base_dir by presburger
    moreover have "''..'' \<notin> set (?B @ [d])" using base(1,2) by simp
    note walked = fold_step_plain [OF this, of "[]", unfolded append_Nil]
    ultimately have "mkdir_parents [] ((?B @ [d]) @ [''..'', e, doc, v]) fs1 = (Inr (), fs2)"
      by (simp only: mkdir_append [of "[]" "?B @ [d]" "[''..'', e, doc, v]" fs1] fs2(1) walked bind_st_def prod.case sum.case mk2)
    then show ?thesis by simp
  qed
  have nd: "\<not> is_dir fs2 ?loc" using fs_wf_file [OF wf2, of ?loc] present files2 by (simp add: is_file_def)
  have "reach fs2 [] (?B @ [d, ''..'', e, doc, v, ?g]) = Some ?loc"
  proof -
    have "reach fs2 [] (?B @ [d, ''..'', e, doc, v, ?g]) = reach fs2 ?B [d, ''..'', e, doc, v, ?g]"
      using reach_append [OF base(1), of fs2 "[]"] dirs2 by (simp add: strict_prefix_def)
    also have "\<dots> = reach fs2 ?B [e, doc, v, ?g]" using fs2(2) base_dir(1) up d by (simp add: step_into_def)
    also have "\<dots> = Some ?loc" unfolding reach_plain [OF base(3)] using dirs2 by (auto simp: strict_prefix_def prefix_Cons)
    finally show ?thesis .
  qed
  then have wr: "write_bytes (base\<lparr>pp_parts := ?B @ [d, ''..'', e, doc, v, ?g]\<rparr>) b' fs2 = (Inr (), fs2\<lparr>fs_files := assoc_put ?loc b' (fs_files fs2)\<rparr>)"
    using nd by (simp add: write_bytes_def)
  have dir: "doc_dir d (''../'' @ e @ ''/'' @ doc) v = \<lparr>pp_root = [], pp_parts = [d, ''..'', e, doc, v]\<rparr>"
    using assms(3,6) path_of_up [OF assms(4,5)] by (simp add: doc_dir_def)
  obtain sd' where "local_save base d (''../'' @ e @ ''/'' @ doc) v f b' fs1 = (Inr sd', fs2\<lparr>fs_files := assoc_put ?loc b' (fs_files fs2)\<rparr>)"
    using mk wr eff(1) unfolding local_save_def Let_def dir by (simp add: bind_st_def)
  moreover have "fs_wf (fs2\<lparr>fs_files := assoc_put ?loc b' (fs_files fs2)\<rparr>)" using write_bytes_effect(1) [OF wf2 wr] .
  ultimately show ?thesis using local_load_key [OF assms(1) _ assms(4-6) eff(1)] eff(2) by (auto simp: map_of_assoc_put)
qed

section \<open>An example\<close>

definition ex_base_dir :: ppath where
  "ex_base_dir = \<lparr>pp_root = ''/'', pp_parts = [''srv'']\<rparr>"

definition ex_fs :: filesystem where
  "ex_fs = \<lparr>fs_dirs = [[''srv'']], fs_files = []\<rparr>"

lemma ex_fs_wf: "base_ok ex_base_dir" "fs_wf ex_fs"
  by (auto simp: base_ok_def ex_base_dir_def fs_wf_def ex_fs_def is_dir_def is_file_def strict_prefix_def prefix_Cons)

lemma ex_save:
  "local_save ex_base_dir ''a'' ''m'' ''v1'' ''f.txt'' ''hello'' ex_fs =
    (Inr \<lparr>sd_object_storage_path = ''a/m/v1/f.txt'', sd_local_path = ''/srv/a/m/v1/f.txt'', sd_size_bytes = 5\<rparr>,
     \<lparr>fs_dirs = [[''srv'', ''a'', ''m'', ''v1''], [''srv'', ''a'', ''m''], [''srv'', ''a''], [''srv'']],
      fs_files = [([''srv'', ''a'', ''m'', ''v1'', ''f.txt''], ''hello'')]\<rparr>)"
  by code_simp


theorem upload_escapes_tenant_witness:
  "\<exists>sd fs1 sd' fs2. local_save ex_base_dir ''a'' ''m'' ''v1'' ''f.txt'' ''hello'' ex_fs = (Inr sd, fs1)
    \<and> local_save ex_base_dir ''b'' ''../a/m'' ''v1'' ''f.txt'' ''forged'' fs1 = (Inr sd', fs2)
    \<and> local_load ex_base_dir (sd_object_storage_path sd) fs2 = Inr ''forged''"
proof -
  have names: "plain_name ''b''" "plain_name ''a''" "plain_name ''m''" "plain_name ''v1''" "CHR 0x5C \<notin> set ''f.txt''"
    by (simp_all add: plain_name_def)
  have "\<not> is_file (snd (local_save ex_base_dir ''a'' ''m'' ''v1'' ''f.txt'' ''hello'' ex_fs)) (pp_parts ex_base_dir @ [''b''])"
    unfolding ex_save by (simp add: is_file_def ex_base_dir_def)
  note nf = this [unfolded ex_save snd_conv]
  from upload_escapes_tenant [OF ex_fs_wf names ex_save nf, of "''forged''"] show ?thesis unfolding ex_save by auto
qed

end
