(* ===== verification/Orchestrator.thy ===== *)
theory Orchestrator
  imports Indexing_Facts Storage
begin

text \<open>
  \<open>IndexingOrchestrator\<close> of \<open>backend/app/services/indexing_orchestrator.py\<close>: the upload, re-index and retry
  requests register a job and keep the indexing request until the background task runs it. Storing the
  file and loading the tenant's configuration are parameters, the generated identifiers are arguments.
  Metadata comes from JSON, so it holds no date objects.
\<close>

section \<open>The orchestrator\<close>

record prepared =
  pi_job_id :: string
  pi_doc_id :: string
  pi_version :: string
  pi_stored :: "stored_document option"

record orchestrator =
  or_service :: indexing_service
  or_save :: "string \<Rightarrow> string \<Rightarrow> string \<Rightarrow> string \<Rightarrow> stored_document res"
  or_config_loader :: "string \<Rightarrow> pyval res"

record orch_world =
  ow_index :: index_world
  ow_pending :: "(string \<times> indexing_request) list"

definition to_iso_date :: "pylib \<Rightarrow> pyval \<Rightarrow> pyval" where
  "to_iso_date L v = (if v = PNone \<or> v = PStr [] then PNone else PStr (py_str L v))"

definition lift_index :: "'a res \<Rightarrow> index_error + 'a" where
  "lift_index r = (case r of Inl e \<Rightarrow> Inl (IndexRaised e) | Inr x \<Rightarrow> Inr x)"

definition register_job ::
  "string \<Rightarrow> string \<Rightarrow> string \<Rightarrow> string \<Rightarrow> pyval \<Rightarrow> orch_world \<Rightarrow> (index_error + unit) \<times> orch_world" where
  "register_job job_id domain_id doc_id version filename w =
     (case create_job (new_job job_id domain_id doc_id version filename) (ix_jobs (ow_index w)) of
        Inl e \<Rightarrow> (Inl e, w)
      | Inr js \<Rightarrow> (Inr (), w\<lparr>ow_index := (ow_index w)\<lparr>ix_jobs := js\<rparr>\<rparr>))"

definition COMMON_FIELDS :: "string list" where
  "COMMON_FIELDS = [''department'', ''doc_type'', ''security_level'', ''acl'', ''approval_status'', ''tags'', ''valid_from'',
     ''valid_until'', ''owner'', ''title'', ''input_type'']"

definition listed_value :: "pyval \<Rightarrow> pyval list res" where
  \<comment> \<open>\<open>list(v or [])\<close>\<close>
  "listed_value v = py_iter (py_or v (PList []))"

definition upload_request ::
  "pylib \<Rightarrow> string \<Rightarrow> string \<Rightarrow> string \<Rightarrow> string \<Rightarrow> pyval \<Rightarrow> stored_document \<Rightarrow> pydict \<Rightarrow> indexing_request res" where
  "upload_request L domain_id doc_id version title input_type kept_file meta =
     bind_res (listed_value (dget meta ''acl'' PNone)) (\<lambda>acl.
     bind_res (listed_value (dget meta ''tags'' PNone)) (\<lambda>tags.
       Inr \<lparr>rq_domain_id = domain_id, rq_doc_id = doc_id, rq_doc_version = version, rq_file_path = PStr (sd_local_path kept_file),
            rq_title = PStr title, rq_mode = FullIndex, rq_department = dget meta ''department'' PNone,
            rq_doc_type = py_or (dget meta ''doc_type'' PNone) input_type, rq_input_type = input_type,
            rq_security_level = dget meta ''security_level'' (PStr ''internal''), rq_acl = acl,
            rq_approval_status = dget meta ''approval_status'' (PStr ''draft''), rq_tags = tags,
            rq_valid_from = to_iso_date L (dget meta ''valid_from'' PNone),
            rq_valid_until = to_iso_date L (dget meta ''valid_until'' PNone),
            rq_object_storage_path = PStr (sd_object_storage_path kept_file), rq_owner = dget meta ''owner'' PNone,
            rq_metadata = filter (\<lambda>kv. fst kv \<notin> set COMMON_FIELDS) meta\<rparr>))"

definition await_run :: "string \<Rightarrow> indexing_request \<Rightarrow> orch_world \<Rightarrow> orch_world" where
  "await_run job_id rq w = w\<lparr>ow_pending := assoc_put job_id rq (ow_pending w)\<rparr>"

definition prepare_upload ::
  "orchestrator \<Rightarrow> string \<Rightarrow> string \<Rightarrow> string \<Rightarrow> string option \<Rightarrow> string \<Rightarrow> string \<Rightarrow> string \<Rightarrow> pyval \<Rightarrow> pydict
   \<Rightarrow> orch_world \<Rightarrow> (index_error + prepared) \<times> orch_world" where
  \<comment> \<open>the first two arguments after the orchestrator are the identifiers that are generated\<close>
  "prepare_upload orc fresh_doc job_id domain_id doc_id version title filename input_type meta w =
     (let effective_doc_id = (if truthy_str doc_id then the doc_id else fresh_doc) in
      bind_st (lift_index (or_save orc domain_id effective_doc_id version filename), w) (\<lambda>kept_file w.
      bind_st (register_job job_id domain_id effective_doc_id version (PStr (sd_local_path kept_file)) w) (\<lambda>_ w.
      bind_st (lift_index (upload_request (sv_lib (or_service orc)) domain_id effective_doc_id version title input_type kept_file meta), w) (\<lambda>rq w.
        (Inr \<lparr>pi_job_id = job_id, pi_doc_id = effective_doc_id, pi_version = version, pi_stored = Some kept_file\<rparr>,
         await_run job_id rq w)))))"

definition reindex_request ::
  "pylib \<Rightarrow> string \<Rightarrow> string \<Rightarrow> string \<Rightarrow> reindex_mode \<Rightarrow> pydict \<Rightarrow> pydict \<Rightarrow> indexing_request res" where
  \<comment> \<open>from the stored document and the metadata of the request\<close>
  "reindex_request L domain_id doc_id version mode doc meta =
     bind_res (listed_value (dget meta ''acl'' PNone)) (\<lambda>acl.
     bind_res (bind_res (if truthy (dget meta ''tags'' PNone) then Inr (dget meta ''tags'' PNone)
                         else bind_res (py_iter (dget doc ''tags'' PNone)) (\<lambda>ts. Inr (PList ts))) py_iter) (\<lambda>tags.
       Inr \<lparr>rq_domain_id = domain_id, rq_doc_id = doc_id, rq_doc_version = version,
            rq_file_path = py_or (dget doc ''source_path'' PNone) (PStr []), rq_title = dget doc ''title'' PNone, rq_mode = mode,
            rq_department = dget meta ''department'' (dget doc ''department'' PNone),
            rq_doc_type = dget meta ''doc_type'' (dget doc ''doc_type'' PNone), rq_input_type = PNone,
            rq_security_level = dget meta ''security_level'' (dget doc ''security_level'' PNone), rq_acl = acl,
            rq_approval_status = dget meta ''approval_status'' (dget doc ''approval_status'' PNone), rq_tags = tags,
            rq_valid_from = to_iso_date L (dget meta ''valid_from'' (dget doc ''valid_from'' PNone)),
            rq_valid_until = to_iso_date L (dget meta ''valid_until'' (dget doc ''valid_until'' PNone)),
            rq_object_storage_path = dget doc ''object_storage_path'' PNone,
            rq_owner = dget meta ''owner'' (dget doc ''owner'' PNone), rq_metadata = []\<rparr>))"

definition prepare_reindex ::
  "orchestrator \<Rightarrow> string \<Rightarrow> string \<Rightarrow> string \<Rightarrow> string \<Rightarrow> reindex_mode \<Rightarrow> pydict \<Rightarrow> orch_world \<Rightarrow> (index_error + prepared) \<times> orch_world" where
  "prepare_reindex orc job_id domain_id doc_id version mode meta w =
     (case doc_get domain_id doc_id version (ix_docs (ow_index w)) of
        None \<Rightarrow> (Inl FileMissing, w)
      | Some doc \<Rightarrow>
          bind_st (register_job job_id domain_id doc_id version (py_or (dget doc ''source_path'' PNone) (PStr [])) w) (\<lambda>_ w.
          bind_st (lift_index (reindex_request (sv_lib (or_service orc)) domain_id doc_id version mode doc meta), w) (\<lambda>rq w.
            (Inr \<lparr>pi_job_id = job_id, pi_doc_id = doc_id, pi_version = version, pi_stored = None\<rparr>, await_run job_id rq w))))"

definition retry_request :: "pylib \<Rightarrow> string \<Rightarrow> string \<Rightarrow> string \<Rightarrow> pydict \<Rightarrow> indexing_request res" where
  "retry_request L domain_id doc_id version doc =
     bind_res (py_iter (dget doc ''tags'' PNone)) (\<lambda>tags.
       Inr \<lparr>rq_domain_id = domain_id, rq_doc_id = doc_id, rq_doc_version = version,
            rq_file_path = py_or (dget doc ''source_path'' PNone) (PStr []), rq_title = dget doc ''title'' PNone, rq_mode = FullIndex,
            rq_department = dget doc ''department'' PNone, rq_doc_type = dget doc ''doc_type'' PNone, rq_input_type = PNone,
            rq_security_level = dget doc ''security_level'' PNone, rq_acl = [],
            rq_approval_status = dget doc ''approval_status'' PNone, rq_tags = tags,
            rq_valid_from = to_iso_date L (dget doc ''valid_from'' PNone),
            rq_valid_until = to_iso_date L (dget doc ''valid_until'' PNone),
            rq_object_storage_path = dget doc ''object_storage_path'' PNone, rq_owner = dget doc ''owner'' PNone, rq_metadata = []\<rparr>)"

definition retry_reset :: job_update where
  \<comment> \<open>\<open>error_message=None\<close> and \<open>step=None\<close> mean that these two are left as they are\<close>
  "retry_reset = no_update\<lparr>up_status := Some ''pending'', up_progress := Some 0, up_indexed_chunks := Some 0, up_failed_chunks := Some []\<rparr>"

definition job_index :: "string \<Rightarrow> job_update \<Rightarrow> orch_world \<Rightarrow> (index_error + unit) \<times> orch_world" where
  "job_index job_id up w =
     (case job_step job_id up (ow_index w) of (r, ix) \<Rightarrow> (lift_index r, w\<lparr>ow_index := ix\<rparr>))"

definition retry_job :: "orchestrator \<Rightarrow> string \<Rightarrow> string \<Rightarrow> orch_world \<Rightarrow> (index_error + prepared) \<times> orch_world" where
  "retry_job orc domain_id job_id w =
     (case map_of (ix_jobs (ow_index w)) job_id of
        None \<Rightarrow> (Inl FileMissing, w)
      | Some j \<Rightarrow>
          if jb_domain_id j \<noteq> domain_id then (Inl FileMissing, w)
          else if jb_status j \<notin> {''failed'', ''partial''} then (Inl InvalidStatus, w)
          else case doc_get domain_id (jb_doc_id j) (jb_doc_version j) (ix_docs (ow_index w)) of
            None \<Rightarrow> (Inl FileMissing, w)
          | Some doc \<Rightarrow>
              bind_st (lift_index (retry_request (sv_lib (or_service orc)) domain_id (jb_doc_id j) (jb_doc_version j) doc), w) (\<lambda>rq w.
              bind_st (job_index job_id retry_reset (await_run job_id rq w)) (\<lambda>_ w.
                (Inr \<lparr>pi_job_id = job_id, pi_doc_id = jb_doc_id j, pi_version = jb_doc_version j, pi_stored = None\<rparr>, w))))"

definition ensure_collection :: "orchestrator \<Rightarrow> string \<Rightarrow> index_world \<Rightarrow> index_world" where
  "ensure_collection orc domain_id ix =
     (case create_collection (ix_store ix) domain_id (sv_dense_dim (or_service orc)) True of
        Inl _ \<Rightarrow> ix | Inr st \<Rightarrow> ix\<lparr>ix_store := st\<rparr>)"

definition load_pii_config :: "orchestrator \<Rightarrow> string \<Rightarrow> pyval res" where
  "load_pii_config orc domain_id =
     bind_res (or_config_loader orc domain_id) (\<lambda>cfg.
       Inr (case cfg of PDict d \<Rightarrow> (case dget d ''pii'' PNone of PDict p \<Rightarrow> PDict p | _ \<Rightarrow> PNone) | _ \<Rightarrow> PNone))"

definition execute :: "orchestrator \<Rightarrow> string \<Rightarrow> orch_world \<Rightarrow> unit res \<times> orch_world" where
  "execute orc job_id w =
     (case map_of (ow_pending w) job_id of
        None \<Rightarrow> (Inr (), w)
      | Some rq \<Rightarrow>
          let w1 = w\<lparr>ow_pending := assoc_del job_id (ow_pending w),
                     ow_index := ensure_collection orc (rq_domain_id rq) (ow_index w)\<rparr>
          in bind_st (load_pii_config orc (rq_domain_id rq), w1) (\<lambda>cfg w.
               (Inr (), w\<lparr>ow_index := snd (run_with_existing_job (or_service orc) rq job_id cfg (ow_index w))\<rparr>)))"

section \<open>Facts\<close>

lemma ensure_collection_same [simp]:
  "ix_jobs (ensure_collection orc d ix) = ix_jobs ix" "ix_chunks (ensure_collection orc d ix) = ix_chunks ix"
  "ix_docs (ensure_collection orc d ix) = ix_docs ix"
  by (simp_all add: ensure_collection_def split: sum.splits)

lemma ensure_payloads [simp]: "payloads (ix_store (ensure_collection orc d ix)) e = payloads (ix_store ix) e"
  by (auto simp: ensure_collection_def create_collection_def payloads_def split: sum.splits if_splits option.splits)

lemma tracks_exclusive:
  assumes "exclusive js" "tracks j js js'" "map_of js j = Some b" "is_active b"
  shows "exclusive js'"
proof -
  obtain b' where b': "map_of js' j = Some b'" "same_document b b'" and o: "\<And>i. i \<noteq> j \<Longrightarrow> map_of js' i = map_of js i"
    using assms(2,3) unfolding tracks_def by auto
  have "i = k" if "map_of js' i = Some x" "map_of js' k = Some y" "is_active x" "is_active y" "same_document x y" for i k x y
  proof -
    have sd: "same_document b z \<longleftrightarrow> same_document b' z" "same_document z b \<longleftrightarrow> same_document z b'" for z
      using b'(2) by (auto simp: same_document_def)
    have ex: "\<And>i k x y. map_of js i = Some x \<Longrightarrow> map_of js k = Some y \<Longrightarrow> is_active x \<Longrightarrow> is_active y \<Longrightarrow> same_document x y \<Longrightarrow> i = k"
      using assms(1) unfolding exclusive_def by blast
    consider "i = j" "k = j" | "i = j" "k \<noteq> j" | "i \<noteq> j" "k = j" | "i \<noteq> j" "k \<noteq> j" by blast
    then show ?thesis
    proof cases
      case 2
      then have "map_of js k = Some y" "same_document b y" using that o b'(1) sd by auto
      then show ?thesis using ex [OF assms(3) _ assms(4) that(4)] 2(1) by simp
    next
      case 3
      then have "map_of js i = Some x" "same_document x b" using that o b'(1) sd by auto
      then show ?thesis using ex [OF _ assms(3) that(3) assms(4)] 3(2) by simp
    next
      case 4
      then show ?thesis using ex [OF _ _ that(3-5)] that(1,2) o by simp
    qed simp
  qed
  moreover have "distinct (map fst js')" using assms(1,2) by (simp add: exclusive_def tracks_def)
  ultimately show ?thesis unfolding exclusive_def by blast
qed

text \<open>What requests and background tasks do, one after the other; a retry is looked at separately.\<close>

inductive orch_step :: "orchestrator \<Rightarrow> orch_world \<Rightarrow> orch_world \<Rightarrow> bool" for orc where
  upload: "prepare_upload orc fresh_doc job_id d doc version title filename input_type meta w = (r, w') \<Longrightarrow> orch_step orc w w'"
| reindex: "prepare_reindex orc job_id d doc_id version mode meta w = (r', w') \<Longrightarrow> orch_step orc w w'"
| execute: "execute orc job_id w = (r'', w') \<Longrightarrow> orch_step orc w w'"

definition jobs_ok :: "orch_world \<Rightarrow> bool" where
  \<comment> \<open>at most one active job of a document version, and every waiting request belongs to an active job\<close>
  "jobs_ok w \<longleftrightarrow> exclusive (ix_jobs (ow_index w))
     \<and> (\<forall>j rq. map_of (ow_pending w) j = Some rq \<longrightarrow> (\<exists>b. map_of (ix_jobs (ow_index w)) j = Some b \<and> is_active b))"

lemma register_jobs_ok:
  assumes "jobs_ok w" "register_job j d doc ver f w = (Inr u, w')"
  shows "jobs_ok w' \<and> (\<exists>b. map_of (ix_jobs (ow_index w')) j = Some b \<and> is_active b) \<and> ow_pending w' = ow_pending w"
proof -
  let ?b = "new_job j d doc ver f"
  obtain js where c: "create_job ?b (ix_jobs (ow_index w)) = Inr js" and w': "w' = w\<lparr>ow_index := (ow_index w)\<lparr>ix_jobs := js\<rparr>\<rparr>"
    using assms(2) by (auto simp: register_job_def split: sum.splits)
  have js: "js = assoc_put j ?b (ix_jobs (ow_index w))"
    using c by (auto simp: create_job_def new_job_def split: option.splits)
  have "exclusive js" using create_exclusive [OF _ c] assms(1) by (simp add: jobs_ok_def)
  moreover have "is_active ?b" by (simp add: is_active_def new_job_def ACTIVE_STATES_def)
  ultimately show ?thesis
    using assms(1) by (auto simp: jobs_ok_def w' js map_of_assoc_put)
qed

lemma await_jobs_ok:
  "jobs_ok w \<Longrightarrow> map_of (ix_jobs (ow_index w)) j = Some b \<Longrightarrow> is_active b \<Longrightarrow> jobs_ok (await_run j rq w)"
  by (auto simp: jobs_ok_def await_run_def map_of_assoc_put)

lemma registered_wp:
  assumes "jobs_ok w"
    and "\<And>w1. jobs_ok w1 \<Longrightarrow> \<exists>b. map_of (ix_jobs (ow_index w1)) j = Some b \<and> is_active b \<Longrightarrow> Q () w1"
    and "\<And>e. E e w"
  shows "st_wp (register_job j d doc ver f w) Q E"
proof (cases "register_job j d doc ver f w")
  case (Pair r w1)
  show ?thesis
  proof (cases r)
    case (Inl e)
    then have "w1 = w" using Pair by (auto simp: register_job_def split: sum.splits)
    then show ?thesis using Pair Inl assms(3) by simp
  next
    case (Inr u)
    then show ?thesis using Pair register_jobs_ok [OF assms(1), of j d doc ver f u w1] assms(2) [of w1] by simp
  qed
qed

lemma upload_jobs_ok:
  assumes "jobs_ok w"
  shows "st_wp (prepare_upload orc fresh_doc j d doc ver title filename input_type meta w) (\<lambda>_ w'. jobs_ok w') (\<lambda>_ w'. jobs_ok w')"
  unfolding prepare_upload_def Let_def st_wp_bind
  by (rule st_wp_pure, rule registered_wp [OF assms], rule st_wp_pure) (auto intro: await_jobs_ok assms)

lemma reindex_jobs_ok:
  assumes "jobs_ok w"
  shows "st_wp (prepare_reindex orc j d doc ver mode meta w) (\<lambda>_ w'. jobs_ok w') (\<lambda>_ w'. jobs_ok w')"
proof (cases "doc_get d doc ver (ix_docs (ow_index w))")
  case (Some dc)
  show ?thesis
    unfolding prepare_reindex_def Some option.case st_wp_bind
    by (rule registered_wp [OF assms], rule st_wp_pure) (auto intro: await_jobs_ok assms)
qed (simp add: prepare_reindex_def assms)

lemma execute_jobs_ok:
  assumes "jobs_ok w" "execute orc j w = (r, w')"
  shows "jobs_ok w'"
proof (cases "map_of (ow_pending w) j")
  case None
  then show ?thesis using assms by (simp add: execute_def)
next
  case (Some rq)
  let ?ix = "ensure_collection orc (rq_domain_id rq) (ow_index w)"
  let ?w1 = "w\<lparr>ow_pending := assoc_del j (ow_pending w), ow_index := ?ix\<rparr>"
  obtain b where b: "map_of (ix_jobs (ow_index w)) j = Some b" "is_active b"
    using assms(1) Some unfolding jobs_ok_def by blast
  have ok1: "jobs_ok ?w1" using assms(1) by (auto simp: jobs_ok_def map_of_assoc_del)
  show ?thesis
  proof (cases "load_pii_config orc (rq_domain_id rq)")
    case (Inl e)
    then show ?thesis using assms(2) Some ok1 by (auto simp: execute_def bind_st_def)
  next
    case (Inr cfg)
    obtain x ix' where run: "run_with_existing_job (or_service orc) rq j cfg ?ix = (x, ix')" by (cases "run_with_existing_job (or_service orc) rq j cfg ?ix")
    have w': "w' = ?w1\<lparr>ow_index := ix'\<rparr>" using assms(2) Some Inr run by (auto simp: execute_def bind_st_def)
    have "jobs_track j ?ix ix'"
    proof -
      have "map_of (ix_jobs ?ix) j \<noteq> None" using b by simp
      from run_existing_cases [OF this run] show ?thesis by cases (auto simp: ends_well_def ends_badly_def)
    qed
    then have t: "tracks j (ix_jobs (ow_index w)) (ix_jobs ix')" by (simp add: jobs_track_def)
    then have "exclusive (ix_jobs ix')" using tracks_exclusive [OF _ t b] assms(1) by (simp add: jobs_ok_def)
    moreover have "\<exists>b. map_of (ix_jobs ix') i = Some b \<and> is_active b" if "map_of (assoc_del j (ow_pending w)) i = Some q" for i q
      using that assms(1) t unfolding jobs_ok_def tracks_def by (auto simp: map_of_assoc_del split: if_splits)
    ultimately show ?thesis by (simp add: w' jobs_ok_def)
  qed
qed

lemma orch_step_jobs_ok: "orch_step orc w w' \<Longrightarrow> jobs_ok w \<Longrightarrow> jobs_ok w'"
proof (induction rule: orch_step.induct)
  case (upload fresh_doc job_id d doc version title filename input_type meta w r w')
  then show ?case using upload_jobs_ok [of w orc fresh_doc job_id d doc version title filename input_type meta]
    by (cases r) auto
next
  case (reindex job_id d doc_id version mode meta w r' w')
  then show ?case using reindex_jobs_ok [of w orc job_id d doc_id version mode meta] by (cases r') auto
next
  case (execute job_id w r'' w')
  then show ?case by (rule execute_jobs_ok [rotated])
qed

definition no_jobs :: "orch_world \<Rightarrow> bool" where
  "no_jobs w \<longleftrightarrow> ix_jobs (ow_index w) = [] \<and> ow_pending w = []"

lemma no_jobs_ok: "no_jobs w \<Longrightarrow> jobs_ok w"
  by (simp add: no_jobs_def jobs_ok_def exclusive_def)

lemma orch_reach_jobs_ok: "(orch_step orc)\<^sup>*\<^sup>* w w' \<Longrightarrow> no_jobs w \<Longrightarrow> jobs_ok w'"
  by (induction rule: rtranclp_induct) (blast intro: no_jobs_ok orch_step_jobs_ok)+

lemma full_run_indexed:
  assumes "run_with_existing_job sv rq j cfg ix = (r, ix')" "rq_mode rq \<in> {FullIndex, ChunkReSplit}"
    "map_of (ix_jobs ix) j \<noteq> None" "status_of ix' j \<noteq> Some ''failed''"
  shows "indexed_full sv rq cfg ix ix'"
proof -
  have j: "jobs_only j ix ix" by (rule jobs_only_refl [OF assms(3)])
  obtain r1 w1 where m: "index_full sv rq j cfg ix = (r1, w1)" by (cases "index_full sv rq j cfg ix")
  have run: "run_mode sv rq j cfg ix = (r1, w1)" using assms(2) m by (auto simp: run_mode_def)
  show ?thesis
  proof (cases r1)
    case (Inr x)
    then have "ix' = w1" using assms(1) run by (simp add: run_with_existing_job_def)
    then show ?thesis using st_wp_Inr [OF index_full_wp [OF j] m [unfolded Inr]] assms(4) by auto
  next
    case (Inl e)
    then have False
      using assms(4) run_existing_cases [OF assms(3,1)] assms(1) run
      by (auto simp: run_with_existing_job_def bind_st_def split: prod.splits sum.splits)
    then show ?thesis ..
  qed
qed

lemma point_map_in: "point_map ps k = Some pl \<Longrightarrow> \<exists>p \<in> set ps. pt_id p = k \<and> pt_payload p = pl"
  unfolding point_map_def by (auto dest!: map_of_SomeD)

lemma indexed_payloads:
  assumes "indexed_full sv rq cfg w w'" "repo_wf (ix_chunks w)" "x \<in> rows (ix_chunks w')"
    and "fst x = (rq_domain_id rq, rq_doc_id rq, rq_doc_version rq, sv_parser_version sv)"
  shows "\<exists>ws c. payloads (ix_store w') (rq_domain_id rq) (cr_chunk_id (snd x)) = Some (point_payload sv rq ws c)"
proof -
  obtain pages chunks ws and er :: embed_result where st: "stored sv rq chunks (er_vectors er) ws (ix_store w) (ix_store w')"
    and rp: "ix_chunks w' = replace_chunks (rq_domain_id rq) (rq_doc_id rq) (rq_doc_version rq) (sv_parser_version sv)
                        (build_records sv rq chunks (er_vectors er) ws) (ix_chunks w)"
    using assms(1) unfolding indexed_full_def by blast
  let ?ps = "map (build_point sv rq (er_vectors er) ws) (filter (embedded (er_vectors er)) chunks)"
  have "snd x \<in> set (build_records sv rq chunks (er_vectors er) ws)"
    using assms(3,4) unfolding rp rows_replace [OF assms(2)] by (cases x) auto
  then have "cr_chunk_id (snd x) \<in> pt_id ` set ?ps"
    by (auto simp: build_records_def build_record_def build_point_def image_image split: prod.splits)
  then have "cr_chunk_id (snd x) \<in> dom (point_map (rev ?ps))" by (simp add: point_map_dom)
  then obtain pl where pl: "point_map (rev ?ps) (cr_chunk_id (snd x)) = Some pl" by blast
  then obtain c where "pl = point_payload sv rq ws c" using point_map_in [OF pl] by (auto simp: build_point_def split: prod.splits)
  with pl show ?thesis unfolding stored_payloads(1) [OF st] by (auto simp: map_add_def)
qed

lemma executed:
  assumes "map_of (ow_pending w) j = Some rq" "execute orc j w = (Inr u, w')"
  obtains cfg r where "run_with_existing_job (or_service orc) rq j cfg (ensure_collection orc (rq_domain_id rq) (ow_index w)) = (r, ow_index w')"
proof -
  obtain cfg where "load_pii_config orc (rq_domain_id rq) = Inr cfg"
    using assms by (cases "load_pii_config orc (rq_domain_id rq)") (auto simp: execute_def bind_st_def Let_def)
  then show thesis
    using assms that [of cfg "fst (run_with_existing_job (or_service orc) rq j cfg (ensure_collection orc (rq_domain_id rq) (ow_index w)))"]
    by (auto simp: execute_def bind_st_def)
qed

lemma reindex_pending:
  assumes "prepare_reindex orc j d doc ver mode meta w = (Inr p, w1)"
  obtains dc rq where "doc_get d doc ver (ix_docs (ow_index w)) = Some dc"
    "reindex_request (sv_lib (or_service orc)) d doc ver mode dc meta = Inr rq" "map_of (ow_pending w1) j = Some rq"
    "map_of (ix_jobs (ow_index w1)) j \<noteq> None" "ix_chunks (ow_index w1) = ix_chunks (ow_index w)"
proof -
  obtain dc where dc: "doc_get d doc ver (ix_docs (ow_index w)) = Some dc"
    using assms by (auto simp: prepare_reindex_def split: option.splits)
  obtain w2 rq where w2: "register_job j d doc ver (py_or (dget dc ''source_path'' PNone) (PStr [])) w = (Inr (), w2)"
    "reindex_request (sv_lib (or_service orc)) d doc ver mode dc meta = Inr rq" "w1 = await_run j rq w2"
    using assms dc by (auto simp: prepare_reindex_def bind_st_def lift_index_def split: prod.splits sum.splits)
  then have "map_of (ix_jobs (ow_index w2)) j \<noteq> None" "ix_chunks (ow_index w2) = ix_chunks (ow_index w)"
    by (auto simp: register_job_def create_job_def new_job_def map_of_assoc_put split: sum.splits option.splits)
  with that dc w2(2,3) show thesis by (auto simp: await_run_def map_of_assoc_put)
qed

section \<open>Properties\<close>

text \<open>
  (C32) One job at a time: after any sequence of uploads, re-index requests and background runs, a document
  version has at most one job that is not finished.
\<close>

theorem one_active_job:
  assumes "(orch_step orc)\<^sup>*\<^sup>* w w'" and "no_jobs w"
    and "map_of (ix_jobs (ow_index w')) i = Some a" and "map_of (ix_jobs (ow_index w')) j = Some b"
    and "is_active a" and "is_active b" and "same_document a b"
  shows "i = j"
  using orch_reach_jobs_ok [OF assms(1,2)] assms(3-7) unfolding jobs_ok_def exclusive_def by blast

text \<open>
  A retry is not checked against running jobs: if a job of a document has failed and another job of the
  same document version is active, the retry is accepted and both are active afterwards.
\<close>

theorem retry_ignores_active_job:
  assumes "map_of (ix_jobs (ow_index w)) j = Some b" and "jb_status b \<in> {''failed'', ''partial''}"
    and "doc_get (jb_domain_id b) (jb_doc_id b) (jb_doc_version b) (ix_docs (ow_index w)) = Some doc"
    and "dget doc ''tags'' PNone = PList tags"
    and "map_of (ix_jobs (ow_index w)) i = Some a" and "is_active a" and "same_document a b"
  shows "\<exists>p w' b'. retry_job orc (jb_domain_id b) j w = (Inr p, w')
    \<and> map_of (ix_jobs (ow_index w')) i = Some a \<and> map_of (ix_jobs (ow_index w')) j = Some b' \<and> is_active b' \<and> same_document a b'
    \<and> jb_error_message b' = jb_error_message b"
proof -
  obtain rq where rq: "retry_request (sv_lib (or_service orc)) (jb_domain_id b) (jb_doc_id b) (jb_doc_version b) doc = Inr rq"
    using assms(4) by (simp add: retry_request_def)
  have ij: "i \<noteq> j"
  proof
    assume "i = j"
    with assms(1,2,5,6) show False by (auto simp: is_active_def ACTIVE_STATES_def)
  qed
  let ?b = "apply_update retry_reset b"
  have "is_active ?b" "same_document a ?b" "jb_error_message ?b = jb_error_message b"
    using assms(7) by (simp_all add: is_active_def ACTIVE_STATES_def apply_update_def retry_reset_def no_update_def or_old_def
        opt_or_old_def same_document_def)
  moreover have "\<exists>p w'. retry_job orc (jb_domain_id b) j w = (Inr p, w')
      \<and> ix_jobs (ow_index w') = assoc_modify j (apply_update retry_reset) (ix_jobs (ow_index w))"
    using assms(1-3) rq
    by (auto simp: retry_job_def bind_st_def lift_index_def job_index_def job_step_def update_job_def await_run_def)
  ultimately show ?thesis
    using assms(1,5) ij by (auto simp: map_of_assoc_modify)
qed


text \<open>
  Re-indexing loses the access list: when an administrator re-indexes a document in the full or the re-split
  mode, without metadata, as the route does, and the run succeeds, the point of every row of the document
  under the current parser version has an empty access list, so that no reader may read it, whatever
  the list was; and the document's input type and domain metadata are gone. Rows of other parser versions,
  and points that have lost their row, are not touched and keep theirs.
\<close>

theorem reindex_hides_document:
  assumes "prepare_reindex orc j d doc ver mode [] w = (Inr p, w1)" and "mode \<in> {FullIndex, ChunkReSplit}"
    and "execute orc j w1 = (Inr (), w2)" and "status_of (ow_index w2) j \<noteq> Some ''failed''"
    and "repo_wf (ix_chunks (ow_index w))"
  shows "(\<forall>x \<in> rows (ix_chunks (ow_index w2)). fst x = (d, doc, ver, sv_parser_version (or_service orc)) \<longrightarrow>
      (\<exists>pl. payloads (ix_store (ow_index w2)) d (cr_chunk_id (snd x)) = Some pl
        \<and> (\<forall>m reader today excl. carries_meta pl m \<longrightarrow> \<not> may_read reader today excl m)))
    \<and> (\<exists>dc. doc_get d doc ver (ix_docs (ow_index w2)) = Some dc
        \<and> dget dc ''input_type'' PNone = PNone \<and> dget dc ''metadata'' PNone = PDict [])"
proof -
  let ?sv = "or_service orc"
  obtain dc rq where rq: "reindex_request (sv_lib ?sv) d doc ver mode dc [] = Inr rq" "map_of (ow_pending w1) j = Some rq"
    "map_of (ix_jobs (ow_index w1)) j \<noteq> None" "ix_chunks (ow_index w1) = ix_chunks (ow_index w)"
    by (rule reindex_pending [OF assms(1)])
  have f: "rq_domain_id rq = d" "rq_doc_id rq = doc" "rq_doc_version rq = ver" "rq_mode rq = mode" "rq_acl rq = []"
    "rq_input_type rq = PNone" "rq_metadata rq = []"
    using rq(1) by (auto simp: reindex_request_def listed_value_def dget_def py_or_def)
  let ?ix = "ensure_collection orc (rq_domain_id rq) (ow_index w1)"
  obtain cfg r where run: "run_with_existing_job ?sv rq j cfg ?ix = (r, ow_index w2)"
    by (rule executed [OF rq(2) assms(3)])
  have full: "indexed_full ?sv rq cfg ?ix (ow_index w2)"
    by (rule full_run_indexed [OF run]) (use assms(2,4) f(4) rq(3) in auto)
  have wf: "repo_wf (ix_chunks ?ix)" using assms(5) rq(4) by simp
  have "\<not> may_read reader today excl m" if "carries_meta (point_payload ?sv rq ws c) m" for ws c m reader today excl
  proof -
    have "dget (point_payload ?sv rq ws c) ''acl'' PNone = PList []"
      by (simp add: point_payload_def chunk_attrs_def request_attrs_def dget_def f(5))
    then show ?thesis using that by (simp add: carries_meta_def may_read_def)
  qed
  then have "\<forall>x \<in> rows (ix_chunks (ow_index w2)). fst x = (d, doc, ver, sv_parser_version ?sv) \<longrightarrow>
      (\<exists>pl. payloads (ix_store (ow_index w2)) d (cr_chunk_id (snd x)) = Some pl
        \<and> (\<forall>m reader today excl. carries_meta pl m \<longrightarrow> \<not> may_read reader today excl m))"
    using indexed_payloads [OF full wf] f(1-3) by metis
  moreover have "doc_get d doc ver (ix_docs (ow_index w2)) = Some (document_record ?sv rq)"
    using full unfolding indexed_full_def by (auto simp: doc_get_def doc_upsert_def map_of_assoc_put f)
  ultimately show ?thesis by (auto simp: document_record_def dget_def f)
qed

text \<open>
  A configuration that cannot be loaded blocks the document: the background task gives up before the
  service is called, the job stays active with nobody to run it, and every later upload or re-index
  request for that document version is refused.
\<close>

theorem lost_job_blocks_document:
  assumes "jobs_ok w" and "map_of (ow_pending w) j = Some rq" and "map_of (ix_jobs (ow_index w)) j = Some b"
    and "or_config_loader orc (rq_domain_id rq) = Inl e"
  shows "\<exists>w'. execute orc j w = (Inl e, w') \<and> execute orc j w' = (Inr (), w')
    \<and> (\<forall>k mode meta p. fst (prepare_reindex orc k (jb_domain_id b) (jb_doc_id b) (jb_doc_version b) mode meta w') \<noteq> Inr p)
    \<and> (\<forall>fresh_doc k title filename input_type meta p. jb_doc_id b \<noteq> [] \<longrightarrow>
         fst (prepare_upload orc fresh_doc k (jb_domain_id b) (Some (jb_doc_id b)) (jb_doc_version b) title filename input_type meta w') \<noteq> Inr p)"
proof -
  let ?w = "w\<lparr>ow_pending := assoc_del j (ow_pending w), ow_index := ensure_collection orc (rq_domain_id rq) (ow_index w)\<rparr>"
  have ex: "execute orc j w = (Inl e, ?w)" "execute orc j ?w = (Inr (), ?w)"
    using assms(2,4) by (simp_all add: execute_def bind_st_def load_pii_config_def map_of_assoc_del)
  have act: "is_active b" using assms(1-3) unfolding jobs_ok_def by fastforce
  have busy: "\<exists>c. create_job (new_job k (jb_domain_id b) (jb_doc_id b) (jb_doc_version b) f) (ix_jobs (ow_index w)) = Inl (IndexingConflict c)" for k f
  proof -
    have "b \<in> set (map snd (ix_jobs (ow_index w)))" using assms(3) by (force dest: map_of_SomeD)
    moreover have "same_document b (new_job k (jb_domain_id b) (jb_doc_id b) (jb_doc_version b) f)"
      by (simp add: same_document_def new_job_def)
    ultimately have "find (\<lambda>x. same_document x (new_job k (jb_domain_id b) (jb_doc_id b) (jb_doc_version b) f) \<and> is_active x)
        (map snd (ix_jobs (ow_index w))) \<noteq> None"
      using act unfolding find_None_iff by blast
    then show ?thesis by (auto simp: create_job_def)
  qed
  have reg: "\<exists>c. register_job k (jb_domain_id b) (jb_doc_id b) (jb_doc_version b) f ?w = (Inl (IndexingConflict c), ?w)" for k f
    using busy [of k f] by (auto simp: register_job_def)
  have "fst (prepare_reindex orc k (jb_domain_id b) (jb_doc_id b) (jb_doc_version b) mode meta ?w) \<noteq> Inr p" for k mode meta p
  proof (cases "doc_get (jb_domain_id b) (jb_doc_id b) (jb_doc_version b) (ix_docs (ow_index ?w))")
    case (Some dc)
    with reg [of k "py_or (dget dc ''source_path'' PNone) (PStr [])"] show ?thesis
      by (auto simp: prepare_reindex_def bind_st_def)
  qed (simp add: prepare_reindex_def)
  moreover have "fst (prepare_upload orc fresh_doc k (jb_domain_id b) (Some (jb_doc_id b)) (jb_doc_version b) title filename input_type meta ?w) \<noteq> Inr p"
    if "jb_doc_id b \<noteq> []" for fresh_doc k title filename input_type meta p
  proof (cases "or_save orc (jb_domain_id b) (jb_doc_id b) (jb_doc_version b) filename")
    case (Inr kf)
    with reg [of k "PStr (sd_local_path kf)"] that show ?thesis
      by (auto simp: prepare_upload_def bind_st_def lift_index_def truthy_str_def)
  qed (use that in \<open>simp add: prepare_upload_def bind_st_def lift_index_def truthy_str_def\<close>)
  ultimately show ?thesis using ex by blast
qed

end
