(* ===== verification/Indexing_Examples.thy ===== *)
theory Indexing_Examples
  imports Orchestrator
begin

text \<open>
  A small tenant: one file of three words, the in-memory parser and chunker with windows of two words, an
  embedder that gives every text the same vector, and the worlds before and after an upload. The theorems
  about chunking, indexing and the orchestrator are applied to them.
\<close>

section \<open>The service and its worlds\<close>

definition demo_page :: parsed_page where
  "demo_page = plain_page (1, ''alpha beta gamma'')"

definition demo_service :: indexing_service where
  "demo_service =
     \<lparr>sv_lib = ident_lib, sv_parse = mem_parse [(''f'', [''alpha beta gamma''])] (\<lambda>_. Inl (OtherError ''FileNotFoundError'')),
      sv_parser_version = ''p1'', sv_chunk = (\<lambda>d v p pages. Inr (mem_chunk (chunker_init ''fixed'' 2 0) d v p pages)),
      sv_chunk_strategy = ''fixed'', sv_embed_batch = (\<lambda>ts. Inr (map (\<lambda>_. ([1], [])) ts)), sv_model_name = ''m'',
      sv_dense_dim = 1, sv_pii = \<lparr>pd_scan = \<lambda>_. [], pd_mask = \<lambda>s. (s, [])\<rparr>, sv_failure_threshold = 1 / 20,
      sv_sha256 = (\<lambda>s. s), sv_format = (\<lambda>_. [])\<rparr>"

definition broken_service :: indexing_service where
  "broken_service = demo_service\<lparr>sv_embed_batch := (\<lambda>_. Inl (OtherError ''Timeout''))\<rparr>"

definition demo_orc :: orchestrator where
  "demo_orc = \<lparr>or_service = demo_service,
     or_save = (\<lambda>d doc v f. Inr \<lparr>sd_object_storage_path = f, sd_local_path = f, sd_size_bytes = 0\<rparr>), or_config_loader = (\<lambda>_. Inr PNone)\<rparr>"

definition empty_world :: orch_world where
  "empty_world = \<lparr>ow_index = \<lparr>ix_store = Map.empty, ix_chunks = no_chunks, ix_docs = [], ix_jobs = []\<rparr>, ow_pending = []\<rparr>"

definition demo_meta :: pydict where
  "demo_meta = [(''acl'', PList [PStr ''all'']), (''tags'', PList []), (''subject'', PStr ''os'')]"

definition uploaded :: orch_world where
  "uploaded = snd (prepare_upload demo_orc ''x'' ''j1'' ''a'' (Some ''doc'') ''v1'' ''T'' ''f'' (PStr ''manual'') demo_meta empty_world)"

definition indexed :: orch_world where
  "indexed = snd (execute demo_orc ''j1'' uploaded)"

lemma uploaded_step: "orch_step demo_orc empty_world uploaded"
  unfolding uploaded_def by (rule orch_step.upload) (rule prod.collapse [symmetric])

lemma indexed_step: "orch_step demo_orc uploaded indexed"
  unfolding indexed_def by (rule orch_step.execute) (rule prod.collapse [symmetric])

definition demo_request :: indexing_request where
  "demo_request = \<lparr>rq_domain_id = ''a'', rq_doc_id = ''doc'', rq_doc_version = ''v1'', rq_file_path = PStr ''f'', rq_title = PStr ''T'',
     rq_mode = FullIndex, rq_department = PNone, rq_doc_type = PStr ''manual'', rq_input_type = PStr ''manual'',
     rq_security_level = PStr ''internal'', rq_acl = [PStr ''all''], rq_approval_status = PStr ''draft'', rq_tags = [],
     rq_valid_from = PNone, rq_valid_until = PNone, rq_object_storage_path = PStr ''f'', rq_owner = PNone,
     rq_metadata = [(''subject'', PStr ''os'')]\<rparr>"

definition demo_job :: job where
  "demo_job = new_job ''j1'' ''a'' ''doc'' ''v1'' (PStr ''f'')"

lemma demo_request_built:
  "upload_request ident_lib ''a'' ''doc'' ''v1'' ''T'' (PStr ''manual'') \<lparr>sd_object_storage_path = ''f'', sd_local_path = ''f'', sd_size_bytes = 0\<rparr> demo_meta
   = Inr demo_request"
  by (simp add: upload_request_def demo_meta_def demo_request_def dget_def listed_value_def py_or_def COMMON_FIELDS_def to_iso_date_def)

lemma uploaded_eq:
  "uploaded = \<lparr>ow_index = \<lparr>ix_store = Map.empty, ix_chunks = no_chunks, ix_docs = [], ix_jobs = [(''j1'', demo_job)]\<rparr>,
     ow_pending = [(''j1'', demo_request)]\<rparr>"
  by (simp add: uploaded_def prepare_upload_def demo_orc_def empty_world_def demo_service_def bind_st_def lift_index_def truthy_str_def
      register_job_def create_job_def new_job_def demo_job_def demo_request_built await_run_def Let_def)

definition demo_chunks :: "chunk list" where
  "demo_chunks = mem_chunk (chunker_init ''fixed'' 2 0) ''doc'' ''v1'' ''p1'' [demo_page]"

lemma demo_tokens: "py_split ''alpha beta gamma'' = [''alpha'', ''beta'', ''gamma'']"
  by code_simp

definition demo_chunk :: "nat \<Rightarrow> string \<Rightarrow> nat \<Rightarrow> nat \<Rightarrow> nat \<Rightarrow> chunk" where
  "demo_chunk i content a b n =
     \<lparr>ch_id = chunk_id_for ''doc'' ''v1'' ''p1'' i, ch_index = PInt (int i), ch_content = content, ch_page_number = PInt 1,
      ch_section_title = PNone, ch_heading_path = [], ch_start_char = PInt (int a), ch_end_char = PInt (int b),
      ch_token_count = PInt (int n)\<rparr>"

lemma demo_lengths: "char_count ''alpha'' = 5" "char_count ''beta'' = 4" "char_count ''gamma'' = 5" "char_count ''alpha beta'' = 10"
  by code_simp+

lemma demo_chunks_eq: "demo_chunks = [demo_chunk 0 ''alpha beta'' 0 10 2, demo_chunk 1 ''gamma'' 11 16 1]"
  by (simp add: demo_chunks_def mem_chunk_def demo_page_def plain_page_def page_windows_def chunker_init_def demo_tokens
      windows_from.simps window_chunk_def Let_def demo_chunk_def demo_lengths)

lemma demo_ids: "distinct (map ch_id demo_chunks)"
  unfolding demo_chunks_def by (rule distinct_chunk_ids)

lemma demo_parse: "sv_parse demo_service (PStr ''f'') = Inr [demo_page]"
  by (simp add: demo_service_def mem_parse_def demo_page_def)

lemma demo_split: "sv_chunk demo_service ''doc'' ''v1'' ''p1'' [demo_page] = Inr demo_chunks"
  by (simp add: demo_service_def demo_chunks_def)

lemma demo_scan: "\<exists>ws. scan_pii demo_service demo_chunks PNone = Inr ws"
  by (simp add: scan_pii_def demo_chunks_eq demo_service_def check_chunk_pii_def opt_dict_def pyval_simps Let_def demo_chunk_def)

lemma demo_embed: "er_failed (embed_safely demo_service demo_chunks) = []" "map fst (er_vectors (embed_safely demo_service demo_chunks)) = map ch_id demo_chunks"
  by (simp_all add: embed_safely_def demo_service_def demo_chunks_eq demo_chunk_def chunk_id_for_def)

definition ready :: index_world where
  "ready = \<lparr>ix_store = [''a'' \<mapsto> \<lparr>co_dense_dim = 1, co_with_sparse = True, co_points = []\<rparr>], ix_chunks = no_chunks, ix_docs = [],
     ix_jobs = [(''j1'', demo_job)]\<rparr>"

lemma ready_eq: "ensure_collection demo_orc ''a'' (ow_index uploaded) = ready"
  by (simp add: ensure_collection_def uploaded_eq create_collection_def ready_def demo_orc_def demo_service_def)

lemmas run_defs = run_with_existing_job_def run_mode_def index_full_def bind_st_def job_step_def update_job_def Let_def

definition whole_file :: "indexing_request \<Rightarrow> bool" where
  "whole_file rq \<longleftrightarrow> rq_file_path rq = PStr ''f'' \<and> rq_doc_id rq = ''doc'' \<and> rq_doc_version rq = ''v1'' \<and> rq_domain_id rq = ''a'' \<and> rq_mode rq = FullIndex"

lemma demo_whole: "whole_file demo_request"
  by (simp add: whole_file_def demo_request_def)

lemma demo_completes:
  assumes "whole_file rq"
  shows "status_of (snd (run_with_existing_job demo_service rq j PNone (ready\<lparr>ix_docs := ds, ix_jobs := [(j, b)]\<rparr>))) j = Some ''completed''"
    and "fst (run_with_existing_job demo_service rq j PNone (ready\<lparr>ix_docs := ds, ix_jobs := [(j, b)]\<rparr>)) \<noteq> Inl e"
proof -
  obtain ws where ws: "scan_pii demo_service demo_chunks PNone = Inr ws" using demo_scan by blast
  have pv: "sv_parser_version demo_service = ''p1''" "sv_failure_threshold demo_service = 1 / 20" by (simp_all add: demo_service_def)
  note rq = assms [unfolded whole_file_def]
  show "status_of (snd (run_with_existing_job demo_service rq j PNone (ready\<lparr>ix_docs := ds, ix_jobs := [(j, b)]\<rparr>))) j = Some ''completed''"
    "fst (run_with_existing_job demo_service rq j PNone (ready\<lparr>ix_docs := ds, ix_jobs := [(j, b)]\<rparr>)) \<noteq> Inl e"
    by (simp_all add: run_defs ready_def pv rq demo_parse demo_split ws demo_embed failure_rate_of_def upsert_to_qdrant_def finish_def
        upsert_chunks_def status_of_def write_chunks_and_document_def apply_update_def at_step_def no_update_def or_old_def
        map_of_assoc_modify coll_def del: map_option_eq_Some)
qed

lemma ready_alt: "ready\<lparr>ix_docs := [], ix_jobs := [(''j1'', demo_job)]\<rparr> = ready"
  by (simp add: ready_def)

lemmas ready_completes = demo_completes [OF demo_whole, where j = "''j1''" and ds = "[]" and b = demo_job, unfolded ready_alt]

lemma demo_admissible: "admissible demo_service demo_request no_chunks"
  using distinct_chunk_ids by (auto simp: admissible_def ids_fresh_def demo_service_def repo_wf_empty demo_request_def)

lemma executed_eq: "execute demo_orc ''j1'' uploaded = (Inr (), \<lparr>ow_index = snd (run_with_existing_job demo_service demo_request ''j1'' PNone ready), ow_pending = []\<rparr>)"
proof -
  have "or_service demo_orc = demo_service" "load_pii_config demo_orc ''a'' = Inr PNone" "rq_domain_id demo_request = ''a''"
    by (simp_all add: demo_orc_def load_pii_config_def demo_request_def)
  then show ?thesis using ready_eq by (simp add: execute_def uploaded_eq bind_st_def assoc_del_def)
qed

section \<open>Chunking\<close>

theorem chunking_sound_witness:
  "text_ok ''alpha beta gamma'' \<and> (\<exists>c \<in> set demo_chunks. ''gamma'' \<in> set (py_split (ch_content c))) \<and> distinct (map ch_id demo_chunks)"
proof -
  have ok: "text_ok ''alpha beta gamma''" by code_simp
  have pages: "\<forall>page \<in> set [demo_page]. text_ok (pg_text page)" using ok by (simp add: demo_page_def plain_page_def)
  have "pg_text demo_page = ''alpha beta gamma''" by (simp add: demo_page_def plain_page_def)
  then have "\<exists>c \<in> set demo_chunks. py_split ''alpha beta gamma'' ! 2 \<in> set (py_split (ch_content c))"
    using conjunct2 [OF conjunct2 [OF chunking_sound [OF refl pages, of "''fixed''" 2 0 "''doc''" "''v1''" "''p1''"]]] unfolding demo_chunks_def
    by (metis demo_tokens length_Cons lessI list.set_intros(1) list.size(3) numeral_2_eq_2)
  with ok demo_ids show ?thesis by (simp add: demo_tokens)
qed

theorem chunks_partition_the_text_witness:
  "concat (map (py_split \<circ> ch_content) demo_chunks) = [''alpha'', ''beta'', ''gamma'']"
proof -
  have pages: "\<forall>page \<in> set [demo_page]. text_ok (pg_text page)" unfolding demo_page_def plain_page_def by code_simp
  show ?thesis
    using chunks_partition_the_text [OF pages, of "''fixed''" 2 "''doc''" "''v1''" "''p1''"] demo_tokens
    by (simp add: demo_chunks_def demo_page_def plain_page_def)
qed

section \<open>Indexing\<close>

theorem indexing_settles_witness:
  "\<exists>r w'. run_with_existing_job demo_service demo_request ''j1'' PNone ready = (Inr r, w')
     \<and> status_of w' ''j1'' = Some (ir_status r) \<and> ir_status r \<in> TERMINAL \<and> ir_status r = ''completed''"
proof -
  obtain x w' where run: "run_with_existing_job demo_service demo_request ''j1'' PNone ready = (x, w')" by (cases "run_with_existing_job demo_service demo_request ''j1'' PNone ready")
  then obtain r where r: "x = Inr r" using ready_completes(2) by (cases x) auto
  have j: "map_of (ix_jobs ready) ''j1'' \<noteq> None" by (simp add: ready_def)
  show ?thesis using indexing_settles [OF j run] r run ready_completes(1) by auto
qed

theorem indexing_keeps_sync_witness:
  "repo_wf (ix_chunks ready) \<and> in_sync (ix_store ready) (rows (ix_chunks ready))
   \<and> in_sync (ix_store (ow_index indexed)) (rows (ix_chunks (ow_index indexed)))"
proof -
  have j: "map_of (ix_jobs ready) ''j1'' \<noteq> None" by (simp add: ready_def)
  have wf: "repo_wf (ix_chunks ready)" "rows (ix_chunks ready) = {}" by (simp_all add: ready_def repo_wf_empty)
  have sync: "in_sync (ix_store ready) (rows (ix_chunks ready))" by (simp add: wf(2) in_sync_def synced_def)
  have adm: "admissible demo_service demo_request (ix_chunks ready)" using demo_admissible by (simp add: ready_def)
  show ?thesis
    using indexing_keeps_sync [OF j prod.collapse [symmetric] wf(1) sync adm, of PNone] wf(1) sync by (simp add: indexed_def executed_eq)
qed

theorem failed_indexing_changes_nothing_witness:
  "status_of (snd (run_with_existing_job broken_service demo_request ''j1'' PNone ready)) ''j1'' = Some ''failed''
   \<and> ix_chunks (snd (run_with_existing_job broken_service demo_request ''j1'' PNone ready)) = no_chunks"
proof -
  obtain ws where ws: "scan_pii demo_service demo_chunks PNone = Inr ws" using demo_scan by blast
  have b: "sv_parse broken_service = sv_parse demo_service" "sv_chunk broken_service = sv_chunk demo_service"
    "scan_pii broken_service = scan_pii demo_service" "sv_parser_version broken_service = ''p1''" "sv_failure_threshold broken_service = 1 / 20"
    by (simp_all add: broken_service_def demo_service_def scan_pii_def [abs_def])
  have er: "length (er_failed (embed_safely broken_service demo_chunks)) = length demo_chunks" "length demo_chunks = 2" "demo_chunks \<noteq> []"
    by (simp_all add: embed_safely_def broken_service_def demo_chunks_eq)
  have rq: "rq_file_path demo_request = PStr ''f''" "rq_doc_id demo_request = ''doc''" "rq_doc_version demo_request = ''v1''"
    "rq_mode demo_request = FullIndex" by (simp_all add: demo_request_def)
  have failed: "status_of (snd (run_with_existing_job broken_service demo_request ''j1'' PNone ready)) ''j1'' = Some ''failed''"
    by (simp add: run_defs ready_def b rq demo_parse demo_split ws er failure_rate_of_def fail_fast_def status_of_def
        apply_update_def at_step_def no_update_def or_old_def map_of_assoc_modify del: map_option_eq_Some)
  have j: "map_of (ix_jobs ready) ''j1'' \<noteq> None" by (simp add: ready_def)
  show ?thesis
    using failed_indexing_changes_nothing [OF j prod.collapse [symmetric] failed] failed by (simp add: rq ready_def)
qed

section \<open>The orchestrator\<close>

lemma uploaded_job: "map_of (ix_jobs (ow_index uploaded)) ''j1'' = Some demo_job" "is_active demo_job"
  by (simp_all add: uploaded_eq demo_job_def new_job_def is_active_def ACTIVE_STATES_def)

theorem one_active_job_witness:
  "\<not> (\<exists>i a. i \<noteq> ''j1'' \<and> map_of (ix_jobs (ow_index uploaded)) i = Some a \<and> is_active a \<and> same_document a demo_job)"
proof -
  have "(orch_step demo_orc)\<^sup>*\<^sup>* empty_world uploaded" using uploaded_step by blast
  moreover have "no_jobs empty_world" by (simp add: no_jobs_def empty_world_def)
  ultimately show ?thesis using one_active_job [of demo_orc empty_world uploaded _ _ "''j1''" demo_job] uploaded_job by blast
qed

definition two_jobs :: orch_world where
  "two_jobs = \<lparr>ow_index = ready\<lparr>ix_docs := [((''a'', ''doc'', ''v1''), document_record demo_service demo_request)],
     ix_jobs := [(''j1'', demo_job), (''j0'', demo_job\<lparr>jb_job_id := ''j0'', jb_status := ''failed'', jb_error_message := Some ''Timeout''\<rparr>)]\<rparr>,
     ow_pending = []\<rparr>"

theorem retry_ignores_active_job_witness:
  "\<exists>p w' b. retry_job demo_orc ''a'' ''j0'' two_jobs = (Inr p, w') \<and> map_of (ix_jobs (ow_index w')) ''j0'' = Some b
     \<and> is_active b \<and> same_document demo_job b \<and> jb_error_message b = Some ''Timeout''"
proof -
  let ?b = "demo_job\<lparr>jb_job_id := ''j0'', jb_status := ''failed'', jb_error_message := Some ''Timeout''\<rparr>"
  have d: "jb_domain_id ?b = ''a''" "jb_doc_id ?b = ''doc''" "jb_doc_version ?b = ''v1''" by (simp_all add: demo_job_def new_job_def)
  have doc: "doc_get (jb_domain_id ?b) (jb_doc_id ?b) (jb_doc_version ?b) (ix_docs (ow_index two_jobs)) = Some (document_record demo_service demo_request)"
    unfolding d by (simp add: two_jobs_def doc_get_def)
  have tags: "dget (document_record demo_service demo_request) ''tags'' PNone = PList []"
    by (simp add: document_record_def dget_def demo_request_def)
  have jobs: "map_of (ix_jobs (ow_index two_jobs)) ''j0'' = Some ?b" "map_of (ix_jobs (ow_index two_jobs)) ''j1'' = Some demo_job"
    by (simp_all add: two_jobs_def)
  have failed: "jb_status ?b \<in> {''failed'', ''partial''}" by simp
  have same: "same_document demo_job ?b" by (simp add: same_document_def)
  from retry_ignores_active_job [OF jobs(1) failed doc tags jobs(2) uploaded_job(2) same, of demo_orc] d(1)
  show ?thesis by simp blast
qed

definition stored_world :: orch_world where
  "stored_world = \<lparr>ow_index = ready\<lparr>ix_docs := [((''a'', ''doc'', ''v1''), document_record demo_service demo_request)], ix_jobs := []\<rparr>,
     ow_pending = []\<rparr>"

theorem reindex_hides_document_witness:
  "\<exists>p w1 w2. prepare_reindex demo_orc ''j2'' ''a'' ''doc'' ''v1'' FullIndex [] stored_world = (Inr p, w1)
     \<and> execute demo_orc ''j2'' w1 = (Inr (), w2) \<and> status_of (ow_index w2) ''j2'' = Some ''completed''
     \<and> (\<exists>dc. doc_get ''a'' ''doc'' ''v1'' (ix_docs (ow_index w2)) = Some dc \<and> dget dc ''metadata'' PNone = PDict [])"
proof -
  let ?dc = "document_record demo_service demo_request"
  let ?b = "new_job ''j2'' ''a'' ''doc'' ''v1'' (PStr ''f'')"
  have path: "py_or (dget ?dc ''source_path'' PNone) (PStr []) = PStr ''f''" "dget ?dc ''tags'' PNone = PList []"
    by (simp_all add: document_record_def dget_def demo_request_def py_or_def)
  obtain rq where rq: "reindex_request ident_lib ''a'' ''doc'' ''v1'' FullIndex ?dc [] = Inr rq" and whole: "whole_file rq"
    using path by (auto simp: reindex_request_def listed_value_def dget_def [of "[]"] py_or_def whole_file_def)
  let ?w1 = "\<lparr>ow_index = ready\<lparr>ix_docs := [((''a'', ''doc'', ''v1''), ?dc)], ix_jobs := [(''j2'', ?b)]\<rparr>, ow_pending = [(''j2'', rq)]\<rparr>"
  have orc: "or_service demo_orc = demo_service" "load_pii_config demo_orc ''a'' = Inr PNone" "sv_lib demo_service = ident_lib"
    by (simp_all add: demo_orc_def load_pii_config_def demo_service_def)
  have w1: "\<exists>p. prepare_reindex demo_orc ''j2'' ''a'' ''doc'' ''v1'' FullIndex [] stored_world = (Inr p, ?w1)"
    by (simp add: prepare_reindex_def stored_world_def doc_get_def path register_job_def create_job_def bind_st_def rq orc lift_index_def
        await_run_def new_job_def)
  have ens: "ensure_collection demo_orc ''a'' (ow_index ?w1) = ow_index ?w1"
    by (simp add: ensure_collection_def create_collection_def ready_def demo_orc_def demo_service_def)
  obtain w2 where w2: "execute demo_orc ''j2'' ?w1 = (Inr (), w2)"
    and ix: "ow_index w2 = snd (run_with_existing_job demo_service rq ''j2'' PNone (ow_index ?w1))"
    using whole ens by (simp add: execute_def bind_st_def orc whole_file_def)
  have finished: "status_of (ow_index w2) ''j2'' = Some ''completed''" using demo_completes(1) [OF whole] by (simp add: ix)
  have wf: "repo_wf (ix_chunks (ow_index stored_world))" by (simp add: stored_world_def ready_def repo_wf_empty)
  from w1 obtain p where p: "prepare_reindex demo_orc ''j2'' ''a'' ''doc'' ''v1'' FullIndex [] stored_world = (Inr p, ?w1)" by blast
  show ?thesis
    using reindex_hides_document [OF p _ w2 _ wf] finished p w2 by auto
qed

definition lost_orc :: orchestrator where
  "lost_orc = demo_orc\<lparr>or_config_loader := (\<lambda>_. Inl (OtherError ''YAMLError''))\<rparr>"

theorem lost_job_blocks_document_witness:
  "\<exists>w'. execute lost_orc ''j1'' uploaded = (Inl (OtherError ''YAMLError''), w')
     \<and> (\<forall>k mode meta p. fst (prepare_reindex lost_orc k ''a'' ''doc'' ''v1'' mode meta w') \<noteq> Inr p)"
proof -
  have ok: "jobs_ok uploaded" by (rule orch_step_jobs_ok [OF uploaded_step no_jobs_ok]) (simp add: no_jobs_def empty_world_def)
  have p: "map_of (ow_pending uploaded) ''j1'' = Some demo_request" by (simp add: uploaded_eq)
  have d: "jb_domain_id demo_job = ''a''" "jb_doc_id demo_job = ''doc''" "jb_doc_version demo_job = ''v1''" by (simp_all add: demo_job_def new_job_def)
  have l: "or_config_loader lost_orc (rq_domain_id demo_request) = Inl (OtherError ''YAMLError'')" by (simp add: lost_orc_def)
  show ?thesis using lost_job_blocks_document [OF ok p uploaded_job(1) l] unfolding d by blast
qed

end
