(* ===== verification/Input_Schema.thy ===== *)
theory Input_Schema
  imports Vector_Store Py_Text Py_Data Conflict
begin

text \<open>
  What metadata a document of a tenant must have: the schema loader and the validator of
  \<open>backend/app/core/input_schema.py\<close>, the schema editor of
  \<open>backend/app/services/schema_editor_service.py\<close> and the in-memory repository of
  \<open>rag_core/interfaces/tenant_input_schema_repository.py\<close>.

  The two YAML files are parameters (\<open>None\<close> is a file that does not exist, \<open>Inl\<close> one that does not
  parse), and so are the two parsers of ISO dates. A field error is its path and code; the message for
  the reader and the times of a schema record are left out.

  Against these, \<open>conforms\<close> says when a value fits a field definition, and the schema history is an
  invariant of the editor: versions count up, one record is active, no input type disappears.
\<close>

section \<open>The validator\<close>

record field_error =
  fe_path :: string
  fe_code :: string

record iso_lib =
  iso_date_ok :: "string \<Rightarrow> bool"
  iso_datetime_ok :: "string \<Rightarrow> bool"

fun type_match :: "pyval \<Rightarrow> pyval \<Rightarrow> bool" where
  "type_match v (PList es) = list_ex (\<lambda>e. e = PStr ''null'' \<and> v = PNone \<or> type_match v e) es"
| "type_match v (PStr t) =
     (if t = ''string'' then (case v of PStr _ \<Rightarrow> True | _ \<Rightarrow> False)
      else if t = ''integer'' then (case v of PInt _ \<Rightarrow> True | _ \<Rightarrow> False)
      else if t = ''number'' then (case v of PInt _ \<Rightarrow> True | PFloat _ \<Rightarrow> True | _ \<Rightarrow> False)
      else if t = ''boolean'' then (case v of PBool _ \<Rightarrow> True | _ \<Rightarrow> False)
      else if t = ''array'' then (case v of PList _ \<Rightarrow> True | _ \<Rightarrow> False)
      else if t = ''object'' then (case v of PDict _ \<Rightarrow> True | _ \<Rightarrow> False)
      else if t = ''null'' then v = PNone
      else True)"
| "type_match v e = True"

fun after_at :: "string \<Rightarrow> string" where
  \<comment> \<open>\<open>value.split("@", 1)[-1]\<close>\<close>
  "after_at [] = []"
| "after_at (c # cs) = (if c = CHR ''@'' then cs else if CHR ''@'' \<in> set cs then after_at cs else c # cs)"

definition replace_Z :: "string \<Rightarrow> string" where
  "replace_Z s = concat (map (\<lambda>c. if c = CHR ''Z'' then ''+00:00'' else [c]) s)"

definition format_ok :: "iso_lib \<Rightarrow> string \<Rightarrow> pyval \<Rightarrow> bool" where
  "format_ok I value fmt =
     (if fmt = PStr ''date'' then iso_date_ok I value
      else if fmt = PStr ''date-time'' \<or> fmt = PStr ''datetime'' then iso_datetime_ok I (replace_Z value)
      else if fmt = PStr ''email'' then CHR ''@'' \<in> set value \<and> CHR ''.'' \<in> set (after_at value)
      else True)"

definition enum_contains :: "pyval \<Rightarrow> pyval \<Rightarrow> bool res" where
  \<comment> \<open>\<open>value in fdef["enum"]\<close>\<close>
  "enum_contains v e =
     (case e of
        PList xs \<Rightarrow> Inr (py_in v xs)
      | PDict d \<Rightarrow> (case v of PStr s \<Rightarrow> Inr (s \<in> fst ` set d) | PList _ \<Rightarrow> Inl TypeError | PDict _ \<Rightarrow> Inl TypeError | _ \<Rightarrow> Inr False)
      | PStr s \<Rightarrow> (case v of PStr t \<Rightarrow> Inr (contains t s) | _ \<Rightarrow> Inl TypeError)
      | _ \<Rightarrow> Inl TypeError)"

definition fails :: "string \<Rightarrow> string \<Rightarrow> bool \<Rightarrow> field_error list" where
  "fails path code bad = (if bad then [\<lparr>fe_path = path, fe_code = code\<rparr>] else [])"

definition enum_errors :: "string \<Rightarrow> pyval \<Rightarrow> pydict \<Rightarrow> field_error list res" where
  "enum_errors path v fdef =
     (case map_of fdef ''enum'' of
        None \<Rightarrow> Inr []
      | Some e \<Rightarrow> bind_res (enum_contains v e) (\<lambda>b. Inr (fails path ''enum'' (\<not> b))))"

definition pattern_errors :: "pylib \<Rightarrow> string \<Rightarrow> pyval \<Rightarrow> pydict \<Rightarrow> field_error list res" where
  "pattern_errors L path v fdef =
     (case (map_of fdef ''pattern'', v) of
        (Some p, PStr s) \<Rightarrow>
          bind_res (str_of_pyval p) (\<lambda>pat.
            case re_search L pat s of None \<Rightarrow> Inl (OtherError ''error'') | Some b \<Rightarrow> Inr (fails path ''pattern'' (\<not> b)))
      | _ \<Rightarrow> Inr [])"

definition bound_errors :: "string \<Rightarrow> string \<Rightarrow> (real \<Rightarrow> real \<Rightarrow> bool) \<Rightarrow> int \<Rightarrow> pyval \<Rightarrow> field_error list res" where
  \<comment> \<open>\<open>if bound is not None and n < bound\<close> and its kin; a bound that is no number cannot be compared\<close>
  "bound_errors path code beyond n bound =
     (if bound = PNone then Inr []
      else case num_val bound of None \<Rightarrow> Inl TypeError | Some b \<Rightarrow> Inr (fails path code (beyond (of_int n) b)))"

definition range_errors :: "string \<Rightarrow> pyval \<Rightarrow> pydict \<Rightarrow> field_error list res" where
  "range_errors path v fdef =
     (case v of
        PInt n \<Rightarrow> bind_res (bound_errors path ''range'' (<) n (dget fdef ''minimum'' PNone)) (\<lambda>a.
                  bind_res (bound_errors path ''range'' (>) n (dget fdef ''maximum'' PNone)) (\<lambda>b. Inr (a @ b)))
      | _ \<Rightarrow> Inr [])"

definition text_errors :: "iso_lib \<Rightarrow> string \<Rightarrow> pyval \<Rightarrow> pydict \<Rightarrow> field_error list res" where
  "text_errors I path v fdef =
     (case v of
        PStr s \<Rightarrow>
          let n = int (length (utf8_chars s)); fmt = dget fdef ''format'' PNone in
          bind_res (bound_errors path ''length'' (<) n (py_or (dget fdef ''min_length'' PNone) (dget fdef ''minLength'' PNone))) (\<lambda>a.
          bind_res (bound_errors path ''length'' (>) n (py_or (dget fdef ''max_length'' PNone) (dget fdef ''maxLength'' PNone))) (\<lambda>b.
            Inr (a @ b @ fails path ''format'' (truthy fmt \<and> \<not> format_ok I s fmt))))
      | _ \<Rightarrow> Inr [])"

definition value_errors :: "pylib \<Rightarrow> iso_lib \<Rightarrow> string \<Rightarrow> pyval \<Rightarrow> pydict \<Rightarrow> field_error list res" where
  \<comment> \<open>the checks of a value that has the right type\<close>
  "value_errors L I path v fdef =
     bind_res (enum_errors path v fdef) (\<lambda>a.
     bind_res (pattern_errors L path v fdef) (\<lambda>b.
     bind_res (range_errors path v fdef) (\<lambda>c.
     bind_res (text_errors I path v fdef) (\<lambda>d. Inr (a @ b @ c @ d)))))"

definition wrong_type :: "pyval \<Rightarrow> pydict \<Rightarrow> bool" where
  "wrong_type v fdef \<longleftrightarrow> truthy (dget fdef ''type'' PNone) \<and> \<not> type_match v (dget fdef ''type'' PNone)"

fun validate_field :: "pylib \<Rightarrow> iso_lib \<Rightarrow> string \<Rightarrow> pyval \<Rightarrow> pydict \<Rightarrow> field_error list res"
  and validate_items :: "pylib \<Rightarrow> iso_lib \<Rightarrow> string \<Rightarrow> nat \<Rightarrow> pyval list \<Rightarrow> pydict \<Rightarrow> field_error list res" where
  "validate_field L I fname (PList xs) fdef =
     (let path = ''metadata.'' @ fname in
      if wrong_type (PList xs) fdef then Inr (fails path ''type'' True)
      else bind_res (value_errors L I path (PList xs) fdef) (\<lambda>a.
           bind_res (case dget fdef ''items'' PNone of PDict items_def \<Rightarrow> validate_items L I fname 0 xs items_def | _ \<Rightarrow> Inr []) (\<lambda>b.
           bind_res (bound_errors path ''length'' (<) (int (length xs))
                       (py_or (dget fdef ''min_items'' PNone) (dget fdef ''minItems'' PNone))) (\<lambda>c. Inr (a @ b @ c)))))"
| "validate_field L I fname v fdef =
     (let path = ''metadata.'' @ fname in
      if wrong_type v fdef then Inr (fails path ''type'' True) else value_errors L I path v fdef)"
| "validate_items L I fname i [] items_def = Inr []"
| "validate_items L I fname i (x # xs) items_def =
     bind_res (validate_field L I (fname @ ''['' @ digits_of i @ '']'') x items_def) (\<lambda>a.
     bind_res (validate_items L I fname (Suc i) xs items_def) (\<lambda>b. Inr (a @ b)))"

section \<open>The loader\<close>

record input_type_schema =
  ts_name :: string
  ts_display_name :: pyval
  ts_required :: "pyval list"
  ts_fields :: pydict

type_synonym schemas = "(string \<times> input_type_schema) list"

definition to_json_schema :: "input_type_schema \<Rightarrow> pydict" where
  "to_json_schema s =
     [(''$schema'', PStr ''https://json-schema.org/draft/2020-12/schema''), (''title'', py_or (ts_display_name s) (PStr (ts_name s))),
      (''type'', PStr ''object''), (''required'', PList (ts_required s)), (''properties'', PDict (ts_fields s))]"

record schema_files =
  sf_common :: "pyval res option"
  sf_tenant :: "string \<Rightarrow> pyval res option"

record schema_loader =
  sl_cache :: "(string \<times> schemas) list"
  sl_runtime :: "(string \<times> pydict) list"

definition no_schemas :: schema_loader where
  "no_schemas = \<lparr>sl_cache = [], sl_runtime = []\<rparr>"

definition read_schema_yaml :: "pyval res \<Rightarrow> pyval res" where
  \<comment> \<open>\<open>yaml.safe_load(f) or {}\<close>\<close>
  "read_schema_yaml r = bind_res r (\<lambda>v. Inr (py_or v (PDict [])))"

definition named_type :: "pylib \<Rightarrow> pyval \<Rightarrow> pydict \<Rightarrow> pydict" where
  \<comment> \<open>one item of the list format under its name\<close>
  "named_type L it acc =
     (case it of
        PDict d \<Rightarrow> if truthy (dget d ''name'' PNone)
                   then dict_put (py_str L (dget d ''name'' PNone)) (PDict (filter (\<lambda>kv. fst kv \<noteq> ''name'') d)) acc else acc
      | _ \<Rightarrow> acc)"

definition normalize_schema :: "pylib \<Rightarrow> pydict \<Rightarrow> pydict" where
  "normalize_schema L schema_yaml =
     (case dget schema_yaml ''input_types'' PNone of
        PList xs \<Rightarrow> dict_put ''input_types'' (PDict (fold (named_type L) xs [])) schema_yaml
      | _ \<Rightarrow> schema_yaml)"

definition apply_schema_override :: "pylib \<Rightarrow> string \<Rightarrow> pydict \<Rightarrow> schema_loader \<Rightarrow> schema_loader" where
  "apply_schema_override L domain_id schema_yaml ld =
     \<lparr>sl_cache = assoc_del domain_id (sl_cache ld),
      sl_runtime = assoc_put domain_id (normalize_schema L schema_yaml) (sl_runtime ld)\<rparr>"

definition clear_schema_override :: "string option \<Rightarrow> schema_loader \<Rightarrow> schema_loader" where
  "clear_schema_override d ld =
     \<lparr>sl_cache = (if truthy_str d then assoc_del (the d) (sl_cache ld) else []),
      sl_runtime = (case d of None \<Rightarrow> [] | Some x \<Rightarrow> assoc_del x (sl_runtime ld))\<rparr>"

definition reset_schemas :: "string option \<Rightarrow> schema_loader \<Rightarrow> schema_loader" where
  "reset_schemas d ld = ld\<lparr>sl_cache := (case d of None \<Rightarrow> [] | Some x \<Rightarrow> assoc_del x (sl_cache ld))\<rparr>"

fun fromkeys :: "pyval list \<Rightarrow> pyval list \<Rightarrow> pyval list res" where
  \<comment> \<open>\<open>list(dict.fromkeys(xs))\<close>: first occurrences, and unhashable values raise\<close>
  "fromkeys acc [] = Inr acc"
| "fromkeys acc (x # xs) =
     (case x of PList _ \<Rightarrow> Inl TypeError | PDict _ \<Rightarrow> Inl TypeError | _ \<Rightarrow> fromkeys (if py_in x acc then acc else acc @ [x]) xs)"

definition type_schema :: "pyval list \<Rightarrow> pydict \<Rightarrow> string \<times> pyval \<Rightarrow> (string \<times> input_type_schema) res" where
  "type_schema common_required common_fields entry =
     bind_res (as_dict (snd entry)) (\<lambda>type_def.
     bind_res (py_dict (py_or (dget type_def ''domain_fields'' PNone) (PDict []))) (\<lambda>domain_fields.
     bind_res (fromkeys [] (common_required
         @ map (PStr \<circ> fst) (filter (\<lambda>kv. case snd kv of PDict f \<Rightarrow> dget f ''required'' PNone = PBool True | _ \<Rightarrow> False) domain_fields))) (\<lambda>required.
       Inr (fst entry, \<lparr>ts_name = fst entry, ts_display_name = dget type_def ''display_name'' PNone, ts_required = required,
                        ts_fields = dict_update common_fields domain_fields\<rparr>))))"

definition drop_keys :: "string list \<Rightarrow> pydict \<Rightarrow> pydict" where
  "drop_keys ks d = filter (\<lambda>kv. fst kv \<notin> set ks) d"

definition compose_schemas :: "pyval \<Rightarrow> pyval \<Rightarrow> schemas res" where
  \<comment> \<open>from the common file and the tenant's schema\<close>
  "compose_schemas common tenant =
     bind_res (as_dict common) (\<lambda>common.
     bind_res (py_iter (py_or (dget common ''common_required'' PNone) (PList []))) (\<lambda>required.
     bind_res (py_dict (py_or (dget common ''common_field_definitions'' PNone) (PDict []))) (\<lambda>fields.
     bind_res (as_dict tenant) (\<lambda>tenant.
     bind_res (as_dict (py_or (dget tenant ''input_types'' PNone) (PDict []))) (\<lambda>types.
     bind_res (map_res (type_schema (filter (\<lambda>r. r \<noteq> PStr ''domain_id'' \<and> r \<noteq> PStr ''input_type'') required)
                 (drop_keys [''domain_id'', ''input_type''] fields)) types) Inr)))))"

definition load_schemas_fresh :: "schema_files \<Rightarrow> (string \<times> pydict) list \<Rightarrow> string \<Rightarrow> schemas res" where
  "load_schemas_fresh files runtime domain_id =
     bind_res (case sf_common files of None \<Rightarrow> Inr (PDict []) | Some y \<Rightarrow> read_schema_yaml y) (\<lambda>common.
       case map_of runtime domain_id of
         Some tenant \<Rightarrow> compose_schemas common (PDict tenant)
       | None \<Rightarrow> (case sf_tenant files domain_id of
           None \<Rightarrow> Inr []
         | Some y \<Rightarrow> bind_res (read_schema_yaml y) (compose_schemas common)))"

definition load_schemas :: "schema_files \<Rightarrow> string \<Rightarrow> schema_loader \<Rightarrow> schemas res \<times> schema_loader" where
  "load_schemas files domain_id ld =
     (case map_of (sl_cache ld) domain_id of
        Some s \<Rightarrow> (Inr s, ld)
      | None \<Rightarrow> (case load_schemas_fresh files (sl_runtime ld) domain_id of
          Inl e \<Rightarrow> (Inl e, ld)
        | Inr s \<Rightarrow> (Inr s, ld\<lparr>sl_cache := assoc_put domain_id s (sl_cache ld)\<rparr>)))"

definition list_input_types :: "schema_files \<Rightarrow> string \<Rightarrow> schema_loader \<Rightarrow> input_type_schema list res \<times> schema_loader" where
  "list_input_types files domain_id ld = bind_st (load_schemas files domain_id ld) (\<lambda>s ld. (Inr (map snd s), ld))"

definition get_schema :: "schema_files \<Rightarrow> string \<Rightarrow> string \<Rightarrow> schema_loader \<Rightarrow> input_type_schema option res \<times> schema_loader" where
  "get_schema files domain_id input_type ld = bind_st (load_schemas files domain_id ld) (\<lambda>s ld. (Inr (map_of s input_type), ld))"

definition lookup_key :: "pydict \<Rightarrow> pyval \<Rightarrow> pyval res" where
  \<comment> \<open>\<open>metadata.get(r)\<close> for a value that may be no string\<close>
  "lookup_key d k = (case k of PStr s \<Rightarrow> Inr (dget d s PNone) | PList _ \<Rightarrow> Inl TypeError | PDict _ \<Rightarrow> Inl TypeError | _ \<Rightarrow> Inr PNone)"

fun required_errors :: "pylib \<Rightarrow> pydict \<Rightarrow> pyval list \<Rightarrow> field_error list res" where
  "required_errors L metadata [] = Inr []"
| "required_errors L metadata (r # rs) =
     bind_res (lookup_key metadata r) (\<lambda>v.
     bind_res (required_errors L metadata rs) (\<lambda>es.
       Inr (fails (''metadata.'' @ py_str L r) ''missing'' (py_in v [PNone, PStr [], PList []]) @ es)))"

fun field_errors :: "pylib \<Rightarrow> iso_lib \<Rightarrow> pydict \<Rightarrow> pydict \<Rightarrow> field_error list res" where
  "field_errors L I metadata [] = Inr []"
| "field_errors L I metadata ((fname, fdef) # fs) =
     bind_res (case fdef of
         PDict def \<Rightarrow> if py_in (dget metadata fname PNone) [PNone, PStr []] then Inr []
                      else validate_field L I fname (dget metadata fname PNone) def
       | _ \<Rightarrow> Inr []) (\<lambda>a.
     bind_res (field_errors L I metadata fs) (\<lambda>b. Inr (a @ b)))"

definition validate_with :: "pylib \<Rightarrow> iso_lib \<Rightarrow> schemas \<Rightarrow> pyval \<Rightarrow> pydict \<Rightarrow> field_error list res" where
  "validate_with L I schemas input_type metadata =
     (case input_type of
        PList _ \<Rightarrow> Inl TypeError | PDict _ \<Rightarrow> Inl TypeError
      | _ \<Rightarrow> (case (case input_type of PStr t \<Rightarrow> map_of schemas t | _ \<Rightarrow> None) of
          None \<Rightarrow> Inr (fails ''input_type'' ''unknown_input_type'' True)
        | Some s \<Rightarrow> bind_res (required_errors L metadata (ts_required s)) (\<lambda>a.
                    bind_res (field_errors L I metadata (ts_fields s)) (\<lambda>b. Inr (a @ b)))))"

definition validate_metadata :: "pylib \<Rightarrow> iso_lib \<Rightarrow> schema_files \<Rightarrow> string \<Rightarrow> pyval \<Rightarrow> pydict \<Rightarrow> schema_loader \<Rightarrow> field_error list res \<times> schema_loader" where
  \<comment> \<open>a non-empty list is the \<open>InputSchemaValidationError\<close> that is raised\<close>
  "validate_metadata L I files domain_id input_type metadata ld =
     (if input_type = PNone then (Inr [], ld)
      else bind_st (load_schemas files domain_id ld) (\<lambda>schemas ld. (validate_with L I schemas input_type metadata, ld)))"

section \<open>The schema editor\<close>

record schema_record =
  sr_schema_id :: string
  sr_domain_id :: string
  sr_version :: int
  sr_status :: string
  sr_schema :: pydict
  sr_ui_schema :: pydict

record schema_repo =
  sp_records :: "(string \<times> schema_record list) list"
  sp_id_counter :: nat

datatype schema_error = SchemaVersionConflict "int option" "int option" | BackwardCompat "string list" | SchemaRaised py_error

definition no_schema_records :: schema_repo where
  "no_schema_records = \<lparr>sp_records = [], sp_id_counter = 0\<rparr>"

definition schema_rows :: "string \<Rightarrow> schema_repo \<Rightarrow> schema_record list" where
  "schema_rows domain_id rp = (case map_of (sp_records rp) domain_id of None \<Rightarrow> [] | Some rs \<Rightarrow> rs)"

definition get_active :: "string \<Rightarrow> schema_repo \<Rightarrow> schema_record option" where
  "get_active domain_id rp = find (\<lambda>r. sr_status r = ''active'') (rev (schema_rows domain_id rp))"

definition list_schema_history :: "string \<Rightarrow> int \<Rightarrow> int \<Rightarrow> schema_repo \<Rightarrow> schema_record list" where
  \<comment> \<open>a descending sort that keeps the order of equals\<close>
  "list_schema_history domain_id max_rows off rp = py_slice off (off + max_rows) (sort_key (\<lambda>r. - sr_version r) (schema_rows domain_id rp))"

fun deprecate_first :: "schema_record list \<Rightarrow> schema_record list" where
  "deprecate_first [] = []"
| "deprecate_first (r # rs) = (if sr_status r = ''active'' then r\<lparr>sr_status := ''deprecated''\<rparr> # rs else r # deprecate_first rs)"

definition insert_new_active ::
  "string \<Rightarrow> int option \<Rightarrow> pydict \<Rightarrow> pydict \<Rightarrow> schema_repo \<Rightarrow> (schema_error + schema_record) \<times> schema_repo" where
  "insert_new_active domain_id base_version schema ui rp =
     (let current_version = map_option sr_version (get_active domain_id rp) in
      if current_version \<noteq> base_version then (Inl (SchemaVersionConflict current_version base_version), rp)
      else let n = Suc (sp_id_counter rp);
               r = \<lparr>sr_schema_id = ''schema-'' @ zero_pad 8 (int n), sr_domain_id = domain_id,
                    sr_version = (case current_version of None \<Rightarrow> 0 | Some v \<Rightarrow> v) + 1, sr_status = ''active'',
                    sr_schema = schema, sr_ui_schema = ui\<rparr>
           in (Inr r, \<lparr>sp_records = assoc_put domain_id (rev (deprecate_first (rev (schema_rows domain_id rp))) @ [r]) (sp_records rp),
                       sp_id_counter = n\<rparr>))"

definition item_errors :: "nat \<times> pyval \<Rightarrow> string list" where
  "item_errors ix =
     (case snd ix of
        PDict d \<Rightarrow> if truthy (dget d ''name'' PNone) then [] else [''input_types['' @ digits_of (fst ix) @ '']_missing_name'']
      | _ \<Rightarrow> [''input_types['' @ digits_of (fst ix) @ '']_not_dict''])"

definition validate_structure :: "pyval \<Rightarrow> string list" where
  "validate_structure v =
     (case v of
        PDict d \<Rightarrow> (case dget d ''input_types'' PNone of
            PNone \<Rightarrow> [''input_types_missing'']
          | PList xs \<Rightarrow> concat (map item_errors (enumerate 0 xs))
          | _ \<Rightarrow> [''input_types_not_list''])
      | _ \<Rightarrow> [''schema_yaml_not_dict''])"

definition item_name :: "pylib \<Rightarrow> pyval \<Rightarrow> string option" where
  "item_name L it = (case it of PDict d \<Rightarrow> if truthy (dget d ''name'' PNone) then Some (py_str L (dget d ''name'' PNone)) else None | _ \<Rightarrow> None)"

definition collect_names :: "pylib \<Rightarrow> pydict \<Rightarrow> string list res" where
  \<comment> \<open>the set as a list\<close>
  "collect_names L d = bind_res (py_iter (py_or (dget d ''input_types'' PNone) (PList []))) (\<lambda>items. Inr (List.map_filter (item_name L) items))"

definition removed_input_types :: "pylib \<Rightarrow> pydict \<Rightarrow> pydict \<Rightarrow> string list res" where
  "removed_input_types L old new =
     bind_res (collect_names L old) (\<lambda>old_names.
     bind_res (collect_names L new) (\<lambda>new_names.
       Inr (sort (remdups (filter (\<lambda>n. n \<notin> set new_names) old_names)))))"

record schema_world =
  sw_repo :: schema_repo
  sw_loader :: schema_loader

definition check_removed :: "pylib \<Rightarrow> string \<Rightarrow> pydict \<Rightarrow> schema_repo \<Rightarrow> schema_error + unit" where
  "check_removed L domain_id schema rp =
     (case get_active domain_id rp of
        None \<Rightarrow> Inr ()
      | Some cur \<Rightarrow> (case removed_input_types L (sr_schema cur) schema of
          Inl e \<Rightarrow> Inl (SchemaRaised e)
        | Inr removed \<Rightarrow> if removed = [] then Inr () else Inl (BackwardCompat (map (\<lambda>n. ''input_type_removed: '' @ n) removed))))"

definition put_schema ::
  "pylib \<Rightarrow> (string \<Rightarrow> pydict \<Rightarrow> schema_loader \<Rightarrow> schema_loader res) option \<Rightarrow> string \<Rightarrow> int option \<Rightarrow> pyval \<Rightarrow> pydict option
   \<Rightarrow> schema_world \<Rightarrow> (schema_error + schema_record \<times> int option) \<times> schema_world" where
  \<comment> \<open>the hook applies the schema to the loader; what it raises is ignored\<close>
  "put_schema L runtime_apply domain_id base_version schema_yaml ui w =
     (case validate_structure schema_yaml of
        e # es \<Rightarrow> (Inl (BackwardCompat (e # es)), w)
      | [] \<Rightarrow> (case schema_yaml of PDict schema \<Rightarrow>
          bind_st (check_removed L domain_id schema (sw_repo w), w) (\<lambda>_ w.
          let current = get_active domain_id (sw_repo w) in
          case insert_new_active domain_id base_version schema (case ui of None \<Rightarrow> [] | Some u \<Rightarrow> u) (sw_repo w) of
            (Inl e, rp) \<Rightarrow> (Inl e, w\<lparr>sw_repo := rp\<rparr>)
          | (Inr r, rp) \<Rightarrow>
              (Inr (r, map_option sr_version current),
               \<lparr>sw_repo = rp, sw_loader = (case runtime_apply of None \<Rightarrow> sw_loader w
                  | Some f \<Rightarrow> (case f domain_id schema (sw_loader w) of Inl _ \<Rightarrow> sw_loader w | Inr ld \<Rightarrow> ld))\<rparr>))
        | _ \<Rightarrow> (Inl (SchemaRaised AttributeError), w)))"

definition apply_hook :: "pylib \<Rightarrow> string \<Rightarrow> pydict \<Rightarrow> schema_loader \<Rightarrow> schema_loader res" where
  \<comment> \<open>the hook that the application passes\<close>
  "apply_hook L domain_id schema ld = Inr (apply_schema_override L domain_id schema ld)"

section \<open>Facts: what a value of a field must be\<close>

definition at_least :: "int \<Rightarrow> pyval \<Rightarrow> bool" where
  "at_least n bound \<longleftrightarrow> (\<forall>b. num_val bound = Some b \<longrightarrow> b \<le> of_int n)"

definition at_most :: "int \<Rightarrow> pyval \<Rightarrow> bool" where
  "at_most n bound \<longleftrightarrow> (\<forall>b. num_val bound = Some b \<longrightarrow> of_int n \<le> b)"

definition alt :: "pydict \<Rightarrow> string \<Rightarrow> string \<Rightarrow> pyval" where
  \<comment> \<open>an option under its first name, else under its second\<close>
  "alt fdef a b = (if truthy (dget fdef a PNone) then dget fdef a PNone else dget fdef b PNone)"

definition scalar_conforms :: "pylib \<Rightarrow> iso_lib \<Rightarrow> pyval \<Rightarrow> pydict \<Rightarrow> bool" where
  \<comment> \<open>type, enumeration, range, pattern, length and format\<close>
  "scalar_conforms L I v fdef \<longleftrightarrow>
     (truthy (dget fdef ''type'' PNone) \<longrightarrow> type_match v (dget fdef ''type'' PNone))
     \<and> (\<forall>e. map_of fdef ''enum'' = Some e \<longrightarrow> enum_contains v e = Inr True)
     \<and> (\<forall>n. v = PInt n \<longrightarrow> at_least n (dget fdef ''minimum'' PNone) \<and> at_most n (dget fdef ''maximum'' PNone))
     \<and> (\<forall>s. v = PStr s \<longrightarrow>
          (\<forall>p. map_of fdef ''pattern'' = Some (PStr p) \<longrightarrow> re_search L p s = Some True)
          \<and> at_least (int (length (utf8_chars s))) (alt fdef ''min_length'' ''minLength'')
          \<and> at_most (int (length (utf8_chars s))) (alt fdef ''max_length'' ''maxLength'')
          \<and> (truthy (dget fdef ''format'' PNone) \<longrightarrow> format_ok I s (dget fdef ''format'' PNone)))"

fun conforms :: "pylib \<Rightarrow> iso_lib \<Rightarrow> pyval \<Rightarrow> pydict \<Rightarrow> bool" where
  "conforms L I (PList xs) fdef \<longleftrightarrow> scalar_conforms L I (PList xs) fdef
     \<and> (case dget fdef ''items'' PNone of PDict items_def \<Rightarrow> list_all (\<lambda>x. conforms L I x items_def) xs | _ \<Rightarrow> True)
     \<and> at_least (int (length xs)) (alt fdef ''min_items'' ''minItems'')"
| "conforms L I v fdef \<longleftrightarrow> scalar_conforms L I v fdef"

lemma fails_Nil [simp]: "fails path code bad = [] \<longleftrightarrow> \<not> bad"
  by (simp add: fails_def)

lemma alt_or: "py_or (dget fdef a PNone) (dget fdef b PNone) = alt fdef a b"
  by (simp add: alt_def py_or_def)

lemma bound_errors_lower: "bound_errors path code (<) n bound = Inr es \<Longrightarrow> es = [] \<longleftrightarrow> at_least n bound"
  by (cases bound) (auto simp: bound_errors_def at_least_def split: if_splits)

lemma bound_errors_upper: "bound_errors path code (>) n bound = Inr es \<Longrightarrow> es = [] \<longleftrightarrow> at_most n bound"
  by (cases bound) (auto simp: bound_errors_def at_most_def split: if_splits)

lemma value_errors_iff:
  assumes "value_errors L I path v fdef = Inr es" "\<not> wrong_type v fdef"
  shows "es = [] \<longleftrightarrow> scalar_conforms L I v fdef"
proof -
  obtain a b c d where p: "enum_errors path v fdef = Inr a" "pattern_errors L path v fdef = Inr b" "range_errors path v fdef = Inr c"
    "text_errors I path v fdef = Inr d" "es = a @ b @ c @ d"
    using assms(1) by (auto simp: value_errors_def)
  have "a = [] \<longleftrightarrow> (\<forall>e. map_of fdef ''enum'' = Some e \<longrightarrow> enum_contains v e = Inr True)"
    using p(1) by (auto simp: enum_errors_def split: option.splits)
  moreover have "b = [] \<longleftrightarrow> (\<forall>s p. v = PStr s \<longrightarrow> map_of fdef ''pattern'' = Some (PStr p) \<longrightarrow> re_search L p s = Some True)"
    using p(2) by (auto simp: pattern_errors_def split: option.splits pyval.splits elim!: str_of_pyval.elims)
  moreover have "c = [] \<longleftrightarrow> (\<forall>n. v = PInt n \<longrightarrow> at_least n (dget fdef ''minimum'' PNone) \<and> at_most n (dget fdef ''maximum'' PNone))"
    using p(3) by (auto simp: range_errors_def split: pyval.splits dest: bound_errors_lower bound_errors_upper)
  moreover have "d = [] \<longleftrightarrow> (\<forall>s. v = PStr s \<longrightarrow> at_least (int (length (utf8_chars s))) (alt fdef ''min_length'' ''minLength'')
          \<and> at_most (int (length (utf8_chars s))) (alt fdef ''max_length'' ''maxLength'')
          \<and> (truthy (dget fdef ''format'' PNone) \<longrightarrow> format_ok I s (dget fdef ''format'' PNone)))"
    using p(4) by (auto simp: text_errors_def alt_or Let_def split: pyval.splits dest: bound_errors_lower bound_errors_upper)
  ultimately show ?thesis using assms(2) p(5) unfolding scalar_conforms_def wrong_type_def by auto
qed

lemma wrong_scalar: "wrong_type v fdef \<Longrightarrow> \<not> scalar_conforms L I v fdef"
  by (simp add: wrong_type_def scalar_conforms_def)

lemma validate_field_iff:
  "validate_field L I fname v fdef = Inr es \<Longrightarrow> es = [] \<longleftrightarrow> conforms L I v fdef"
  "validate_items L I fname i xs items_def = Inr fs \<Longrightarrow> fs = [] \<longleftrightarrow> list_all (\<lambda>x. conforms L I x items_def) xs"
proof (induction L I fname v fdef and L I fname i xs items_def arbitrary: es and fs rule: validate_field_validate_items.induct)
  case (1 L I fname xs fdef)
  show ?case
  proof (cases "wrong_type (PList xs) fdef")
    case False
    let ?path = "''metadata.'' @ fname"
    obtain a b c where p: "value_errors L I ?path (PList xs) fdef = Inr a"
      "(case dget fdef ''items'' PNone of PDict items_def \<Rightarrow> validate_items L I fname 0 xs items_def | _ \<Rightarrow> Inr []) = Inr b"
      "bound_errors ?path ''length'' (<) (int (length xs)) (alt fdef ''min_items'' ''minItems'') = Inr c" "es = a @ b @ c"
      using 1(2) False by (auto simp: Let_def alt_or)
    have "b = [] \<longleftrightarrow> (case dget fdef ''items'' PNone of PDict items_def \<Rightarrow> list_all (\<lambda>x. conforms L I x items_def) xs | _ \<Rightarrow> True)"
      using p(2) 1(1) [OF refl False] by (cases "dget fdef ''items'' PNone") auto
    then show ?thesis using value_errors_iff [OF p(1) False] bound_errors_lower [OF p(3)] p(4) by simp
  qed (use 1(2) wrong_scalar in \<open>auto simp: fails_def\<close>)
qed (auto simp: Let_def wrong_scalar fails_def dest: value_errors_iff split: if_splits)

definition blank :: "pyval \<Rightarrow> bool" where
  "blank v \<longleftrightarrow> v = PNone \<or> v = PStr []"

definition metadata_ok :: "pylib \<Rightarrow> iso_lib \<Rightarrow> input_type_schema \<Rightarrow> pydict \<Rightarrow> bool" where
  \<comment> \<open>every required field has a value, and every value of a defined field fits its definition\<close>
  "metadata_ok L I s metadata \<longleftrightarrow>
     (\<forall>r \<in> set (ts_required s). \<exists>k. r = PStr k \<and> \<not> blank (dget metadata k PNone) \<and> dget metadata k PNone \<noteq> PList [])
     \<and> (\<forall>k fdef. (k, PDict fdef) \<in> set (ts_fields s) \<longrightarrow> \<not> blank (dget metadata k PNone) \<longrightarrow> conforms L I (dget metadata k PNone) fdef)"

lemma py_eq_blank [simp]: "py_eq v PNone \<longleftrightarrow> v = PNone" "py_eq v (PStr s) \<longleftrightarrow> v = PStr s" "py_eq v (PList []) \<longleftrightarrow> v = PList []"
  by (cases v; simp)+

lemma required_errors_iff:
  "required_errors L metadata rs = Inr es \<Longrightarrow>
     es = [] \<longleftrightarrow> (\<forall>r \<in> set rs. \<exists>k. r = PStr k \<and> \<not> blank (dget metadata k PNone) \<and> dget metadata k PNone \<noteq> PList [])"
proof (induction rs arbitrary: es)
  case (Cons r rs)
  then show ?case by (cases r) (auto simp: lookup_key_def py_in_def blank_def)
qed simp

lemma field_errors_iff:
  "field_errors L I metadata fs = Inr es \<Longrightarrow>
     es = [] \<longleftrightarrow> (\<forall>k fdef. (k, PDict fdef) \<in> set fs \<longrightarrow> \<not> blank (dget metadata k PNone) \<longrightarrow> conforms L I (dget metadata k PNone) fdef)"
proof (induction L I metadata fs arbitrary: es rule: field_errors.induct)
  case (2 L I metadata fname fdef fs)
  obtain a b where p: "(case fdef of
         PDict def \<Rightarrow> if py_in (dget metadata fname PNone) [PNone, PStr []] then Inr []
                      else validate_field L I fname (dget metadata fname PNone) def
       | _ \<Rightarrow> Inr []) = Inr a" "field_errors L I metadata fs = Inr b" "es = a @ b"
    using 2(2) by auto
  have "a = [] \<longleftrightarrow> (\<forall>d. fdef = PDict d \<longrightarrow> \<not> blank (dget metadata fname PNone) \<longrightarrow> conforms L I (dget metadata fname PNone) d)"
    using p(1) by (cases fdef) (auto simp: py_in_def blank_def dest: validate_field_iff split: if_splits)
  with 2(1) [OF p(2)] p(3) show ?case by auto
qed simp

section \<open>Facts: the loader\<close>

definition coherent :: "schema_files \<Rightarrow> schema_loader \<Rightarrow> bool" where
  "coherent files ld \<longleftrightarrow> (\<forall>d s. map_of (sl_cache ld) d = Some s \<longrightarrow> load_schemas_fresh files (sl_runtime ld) d = Inr s)"

lemma load_fresh_cong: "map_of rt d = map_of rt' d \<Longrightarrow> load_schemas_fresh files rt d = load_schemas_fresh files rt' d"
  by (simp add: load_schemas_fresh_def)

lemma coherent_shrink:
  assumes "coherent files ld"
    and "\<And>d s. map_of (sl_cache ld') d = Some s \<Longrightarrow> map_of (sl_cache ld) d = Some s \<and> map_of (sl_runtime ld') d = map_of (sl_runtime ld) d"
  shows "coherent files ld'"
  unfolding coherent_def
proof (intro allI impI)
  fix d s assume "map_of (sl_cache ld') d = Some s"
  from assms(2) [OF this] show "load_schemas_fresh files (sl_runtime ld') d = Inr s"
    using assms(1) load_fresh_cong [of "sl_runtime ld'" d "sl_runtime ld"] by (simp add: coherent_def)
qed

lemma coherent_apply: "coherent files ld \<Longrightarrow> coherent files (apply_schema_override L d sch ld)"
  by (erule coherent_shrink) (simp add: apply_schema_override_def map_of_assoc_del map_of_assoc_put split: if_splits)

lemma coherent_clear: "coherent files ld \<Longrightarrow> coherent files (clear_schema_override x ld)"
  by (erule coherent_shrink) (cases x; simp add: clear_schema_override_def truthy_str_def map_of_assoc_del split: if_splits)

lemma coherent_reset: "coherent files ld \<Longrightarrow> coherent files (reset_schemas x ld)"
  by (erule coherent_shrink) (cases x; simp add: reset_schemas_def map_of_assoc_del split: if_splits)

lemma coherent_loaded: "coherent files ld \<Longrightarrow> coherent files (snd (load_schemas files d ld))"
  by (simp add: coherent_def load_schemas_def map_of_assoc_put split: option.splits sum.splits)

lemma coherent_load: "coherent files ld \<Longrightarrow> fst (load_schemas files d ld) = load_schemas_fresh files (sl_runtime ld) d"
  by (auto simp: coherent_def load_schemas_def split: option.splits sum.splits)

lemma validate_coherent:
  assumes "coherent files ld" "validate_metadata L I files d (PStr t) metadata ld = (Inr es, ld')"
  shows "\<exists>ss. load_schemas_fresh files (sl_runtime ld) d = Inr ss \<and> validate_with L I ss (PStr t) metadata = Inr es"
  using assms(2) coherent_load [OF assms(1), of d]
  by (cases "load_schemas files d ld"; cases "fst (load_schemas files d ld)") (auto simp: validate_metadata_def bind_st_def)

section \<open>Facts: the schema history\<close>

definition type_names :: "pylib \<Rightarrow> schema_record \<Rightarrow> string set" where
  "type_names L r = (case collect_names L (sr_schema r) of Inl _ \<Rightarrow> {} | Inr ns \<Rightarrow> set ns)"

definition schema_history_ok :: "pylib \<Rightarrow> schema_record list \<Rightarrow> bool" where
  \<comment> \<open>versions count up, the last record alone is active, and names are only added\<close>
  "schema_history_ok L rs \<longleftrightarrow> map sr_version rs = [1..int (length rs)]
     \<and> (\<forall>r \<in> set (butlast rs). sr_status r \<noteq> ''active'') \<and> (rs \<noteq> [] \<longrightarrow> sr_status (last rs) = ''active'')
     \<and> sorted_wrt (\<lambda>r r'. type_names L r \<subseteq> type_names L r') rs
     \<and> (\<forall>r \<in> set rs. \<exists>ns. collect_names L (sr_schema r) = Inr ns)"

inductive schema_step :: "pylib \<Rightarrow> schema_files \<Rightarrow> schema_world \<Rightarrow> schema_world \<Rightarrow> bool" for L files where
  put: "put_schema L (Some (apply_hook L)) d base schema ui w = (r, w') \<Longrightarrow> schema_step L files w w'"
| load: "schema_step L files w (w\<lparr>sw_loader := snd (load_schemas files d (sw_loader w))\<rparr>)"
| clear: "schema_step L files w (w\<lparr>sw_loader := clear_schema_override x (sw_loader w)\<rparr>)"
| reset: "schema_step L files w (w\<lparr>sw_loader := reset_schemas x (sw_loader w)\<rparr>)"

definition schema_start :: "schema_world \<Rightarrow> bool" where
  "schema_start w \<longleftrightarrow> sw_repo w = no_schema_records \<and> sw_loader w = no_schemas"

lemma get_active_rows:
  assumes "schema_history_ok L (schema_rows d rp)"
  shows "get_active d rp = (if schema_rows d rp = [] then None else Some (last (schema_rows d rp)))"
  using assms by (cases "schema_rows d rp" rule: rev_cases) (auto simp: get_active_def schema_history_ok_def)

lemma structure_names:
  assumes "validate_structure v = []"
  obtains d xs where "v = PDict d" "dget d ''input_types'' PNone = PList xs" "collect_names L d = Inr (List.map_filter (item_name L) xs)"
proof -
  obtain d xs where v: "v = PDict d" "dget d ''input_types'' PNone = PList xs"
    using assms by (auto simp: validate_structure_def split: pyval.splits)
  moreover have "collect_names L d = Inr (List.map_filter (item_name L) xs)"
    using v(2) by (cases xs) (simp_all add: collect_names_def py_or_def)
  ultimately show thesis by (rule that)
qed

lemma history_extend:
  assumes h: "schema_history_ok L rs" and a: "r = \<lparr>sr_schema_id = i, sr_domain_id = d,
      sr_version = (case (if rs = [] then None else Some (sr_version (last rs))) of None \<Rightarrow> 0 | Some v \<Rightarrow> v) + 1,
      sr_status = ''active'', sr_schema = schema, sr_ui_schema = ui\<rparr>"
    and n: "collect_names L schema = Inr ns" "rs \<noteq> [] \<Longrightarrow> type_names L (last rs) \<subseteq> set ns"
  shows "schema_history_ok L (rev (deprecate_first (rev rs)) @ [r])"
proof (cases rs rule: rev_cases)
  case Nil
  then show ?thesis using a n(1) by (simp add: schema_history_ok_def)
next
  case (snoc ds c)
  let ?c = "c\<lparr>sr_status := ''deprecated''\<rparr>"
  have act: "sr_status c = ''active''" using h snoc by (simp add: schema_history_ok_def)
  have ver: "map sr_version ds @ [sr_version c] = [1..int (length ds) + 1]" using h snoc by (simp add: schema_history_ok_def add.commute)
  moreover have "[1..int (length ds) + 1] = [1..int (length ds)] @ [int (length ds) + 1]" by (subst upto_rec2) simp_all
  ultimately have vc: "map sr_version ds = [1..int (length ds)]" "sr_version c = int (length ds) + 1" by auto
  have names: "type_names L r = set ns" "type_names L ?c = type_names L c" using a n(1) by (simp_all add: type_names_def)
  have sub: "type_names L x \<subseteq> type_names L c" if "x \<in> set ds" for x
    using h snoc that by (auto simp: schema_history_ok_def sorted_wrt_append)
  have dep: "rev (deprecate_first (rev rs)) @ [r] = ds @ [?c, r]" using snoc act by simp
  have "[1..int (length ds) + 2] = [1..int (length ds)] @ [int (length ds) + 1, int (length ds) + 2]"
    by (subst upto_rec2, simp, subst upto_rec2) simp_all
  then have "map sr_version (ds @ [?c, r]) = [1..int (length (ds @ [?c, r]))]"
    using vc a snoc by (simp add: add.commute)
  moreover have "sorted_wrt (\<lambda>r r'. type_names L r \<subseteq> type_names L r') (ds @ [?c, r])"
    using h snoc sub n(2) names by (auto simp: schema_history_ok_def sorted_wrt_append)
  moreover have "\<forall>x \<in> set (ds @ [?c, r]). \<exists>ns. collect_names L (sr_schema x) = Inr ns"
    using h snoc a n(1) by (auto simp: schema_history_ok_def)
  moreover have "\<forall>x \<in> set (butlast (ds @ [?c, r])). sr_status x \<noteq> ''active''" "sr_status (last (ds @ [?c, r])) = ''active''"
    using h snoc a by (auto simp: schema_history_ok_def butlast_append)
  ultimately show ?thesis unfolding dep schema_history_ok_def by blast
qed

lemma put_schema_ok:
  assumes inv: "\<forall>e. schema_history_ok L (schema_rows e (sw_repo w))"
    and "put_schema L hook d base v ui w = (Inr (r, old), w')"
  obtains schema ns where "v = PDict schema" "collect_names L schema = Inr ns" "sr_schema r = schema"
    "get_active d (sw_repo w') = Some r" "\<forall>e. schema_history_ok L (schema_rows e (sw_repo w'))"
    "sw_loader w' = (case hook of None \<Rightarrow> sw_loader w | Some f \<Rightarrow> (case f d schema (sw_loader w) of Inl _ \<Rightarrow> sw_loader w | Inr ld \<Rightarrow> ld))"
proof -
  have st: "validate_structure v = []" using assms(2) by (auto simp: put_schema_def split: list.splits)
  obtain schema xs where v: "v = PDict schema" and ns: "collect_names L schema = Inr (List.map_filter (item_name L) xs)"
    by (rule structure_names [OF st, of L])
  let ?ns = "List.map_filter (item_name L) xs" and ?rs = "schema_rows d (sw_repo w)"
  let ?u = "case ui of None \<Rightarrow> [] | Some u \<Rightarrow> u"
  obtain rp where chk: "check_removed L d schema (sw_repo w) = Inr ()" and ins: "insert_new_active d base schema ?u (sw_repo w) = (Inr r, rp)"
    and w': "w' = \<lparr>sw_repo = rp, sw_loader = (case hook of None \<Rightarrow> sw_loader w | Some f \<Rightarrow> (case f d schema (sw_loader w) of Inl _ \<Rightarrow> sw_loader w | Inr ld \<Rightarrow> ld))\<rparr>"
    using assms(2) st v by (auto simp: put_schema_def bind_st_def Let_def split: sum.splits prod.splits)
  have h: "schema_history_ok L ?rs" using inv by blast
  have act: "map_option sr_version (get_active d (sw_repo w)) = (if ?rs = [] then None else Some (sr_version (last ?rs)))"
    using get_active_rows [OF h] by simp
  have r: "r = \<lparr>sr_schema_id = ''schema-'' @ zero_pad 8 (int (Suc (sp_id_counter (sw_repo w)))), sr_domain_id = d,
      sr_version = (case (if ?rs = [] then None else Some (sr_version (last ?rs))) of None \<Rightarrow> 0 | Some v \<Rightarrow> v) + 1,
      sr_status = ''active'', sr_schema = schema, sr_ui_schema = ?u\<rparr>"
    and rows: "sp_records rp = assoc_put d (rev (deprecate_first (rev ?rs)) @ [r]) (sp_records (sw_repo w))"
    using ins unfolding insert_new_active_def Let_def act by (auto split: if_splits)
  have sub: "type_names L (last ?rs) \<subseteq> set ?ns" if "?rs \<noteq> []"
    using chk get_active_rows [OF h] that ns
    by (auto simp: check_removed_def removed_input_types_def type_names_def filter_empty_conv split: sum.splits if_splits dest!: arg_cong [of "sort _" "[]" set])
  have new: "schema_history_ok L (rev (deprecate_first (rev ?rs)) @ [r])" by (rule history_extend [OF h r ns sub])
  have at: "schema_rows e rp = (if e = d then rev (deprecate_first (rev ?rs)) @ [r] else schema_rows e (sw_repo w))" for e
    by (simp add: schema_rows_def rows map_of_assoc_put)
  show thesis
  proof (rule that [OF v ns])
    show "sr_schema r = schema" by (simp add: r)
    show "\<forall>e. schema_history_ok L (schema_rows e (sw_repo w'))" using inv new by (simp add: w' at)
    show "get_active d (sw_repo w') = Some r" using get_active_rows [of L d rp] at [of d] new by (simp add: w')
  qed (simp add: w')
qed

lemma put_schema_rejected: "put_schema L hook d base v ui w = (Inl e, w') \<Longrightarrow> w' = w"
  by (auto simp: put_schema_def insert_new_active_def bind_st_def Let_def split: list.splits pyval.splits sum.splits if_splits)

definition schema_inv :: "pylib \<Rightarrow> schema_files \<Rightarrow> schema_world \<Rightarrow> bool" where
  "schema_inv L files w \<longleftrightarrow> (\<forall>d. schema_history_ok L (schema_rows d (sw_repo w))) \<and> coherent files (sw_loader w)"

lemma schema_inv_step: "schema_step L files w w' \<Longrightarrow> schema_inv L files w \<Longrightarrow> schema_inv L files w'"
proof (induction rule: schema_step.induct)
  case (put d base v ui w r w')
  show ?case
  proof (cases r)
    case (Inl e)
    then show ?thesis using put put_schema_rejected by blast
  next
    case (Inr x)
    obtain r0 old where x: "x = (r0, old)" by (cases x)
    have h: "\<forall>e. schema_history_ok L (schema_rows e (sw_repo w))" using put(2) by (simp add: schema_inv_def)
    show ?thesis
      by (rule put_schema_ok [OF h put(1) [unfolded Inr x]])
        (use put(2) coherent_apply in \<open>auto simp: schema_inv_def apply_hook_def\<close>)
  qed
qed (simp_all add: schema_inv_def coherent_loaded coherent_clear coherent_reset)

lemma schema_inv_reach: "(schema_step L files)\<^sup>*\<^sup>* w w' \<Longrightarrow> schema_start w \<Longrightarrow> schema_inv L files w'"
proof (induction rule: rtranclp_induct)
  case base
  then show ?case by (simp add: schema_inv_def schema_start_def no_schema_records_def no_schemas_def schema_rows_def schema_history_ok_def coherent_def)
qed (blast intro: schema_inv_step)

lemma named_type_keys: "fst ` set (fold (named_type L) xs acc) = fst ` set acc \<union> set (List.map_filter (item_name L) xs)"
proof (induction xs arbitrary: acc)
  case (Cons x xs)
  then show ?case by (cases x) (auto simp: named_type_def item_name_def keys_dict_put map_filter_simps)
qed (simp add: map_filter_simps)

lemma type_schema_name: "type_schema f g entry = Inr x \<Longrightarrow> fst x = fst entry"
  by (auto simp: type_schema_def)

lemma composed_names:
  assumes "compose_schemas common (PDict (normalize_schema L schema)) = Inr ss" "dget schema ''input_types'' PNone = PList xs"
  shows "fst ` set ss = set (List.map_filter (item_name L) xs)"
proof -
  let ?types = "fold (named_type L) xs []"
  have n: "dget (normalize_schema L schema) ''input_types'' PNone = PDict ?types"
    using assms(2) by (simp add: normalize_schema_def dget_def map_of_dict_put)
  have "as_dict (py_or (PDict ?types) (PDict [])) = Inr ?types" by (simp add: py_or_def)
  with assms(1) n obtain f g where ss: "map_res (type_schema f g) ?types = Inr ss" by (auto simp: compose_schemas_def)
  have "map fst ss = map fst ?types"
  proof (rule nth_equalityI)
    fix i assume "i < length (map fst ss)"
    then have i: "i < length ?types" "i < length ss" using map_res_length [OF ss] by simp_all
    show "map fst ss ! i = map fst ?types ! i"
      using type_schema_name [OF map_res_nth [OF ss i(1)]] i by simp
  qed (simp add: map_res_length [OF ss])
  then have "fst ` set ss = fst ` set ?types" by (metis set_map)
  then show ?thesis by (simp add: named_type_keys)
qed

section \<open>Properties\<close>

text \<open>
  (C37) The schema history of a tenant: after any sequence of edits, loads, resets and clears, the versions of
  a tenant are 1, 2, 3 and so on, exactly the last one is active, and an input type that some version
  defines is defined by every later one, so documents that refer to it stay valid.
\<close>

theorem schema_history_grows:
  assumes "(schema_step L files)\<^sup>*\<^sup>* w w'" and "schema_start w" and "rs = schema_rows d (sw_repo w')"
  shows "map sr_version rs = [1..int (length rs)]
    \<and> (\<forall>i < length rs. sr_status (rs ! i) = ''active'' \<longleftrightarrow> Suc i = length rs)
    \<and> (\<forall>i j. i < j \<longrightarrow> j < length rs \<longrightarrow> type_names L (rs ! i) \<subseteq> type_names L (rs ! j))"
proof -
  have h: "schema_history_ok L rs" using schema_inv_reach [OF assms(1,2)] assms(3) by (simp add: schema_inv_def)
  have "sr_status (rs ! i) = ''active'' \<longleftrightarrow> Suc i = length rs" if "i < length rs" for i
  proof (cases "Suc i = length rs")
    case True
    then have "rs ! i = last rs" using that by (metis diff_Suc_1 last_conv_nth list.size(3) not_less_zero)
    then show ?thesis using h True that by (auto simp: schema_history_ok_def)
  next
    case False
    then have "rs ! i \<in> set (butlast rs)" using that by (metis Suc_lessI in_set_conv_nth length_butlast less_diff_conv nth_butlast Suc_eq_plus1)
    then show ?thesis using h False by (auto simp: schema_history_ok_def)
  qed
  then show ?thesis using h by (auto simp: schema_history_ok_def sorted_wrt_iff_nth_less)
qed

text \<open>
  (C38) An edited schema is in force at once: when an edit is accepted, the next load of the tenant's schemas
  knows exactly the input types of the new version, and with them those of all earlier versions.
\<close>

theorem schema_put_in_force:
  assumes "(schema_step L files)\<^sup>*\<^sup>* w0 w" and "schema_start w0"
    and "put_schema L (Some (apply_hook L)) d base v ui w = (Inr (r, old), w')"
    and "load_schemas files d (sw_loader w') = (Inr ss, ld)"
  shows "fst ` set ss = type_names L r \<and> (\<forall>r' \<in> set (schema_rows d (sw_repo w')). type_names L r' \<subseteq> fst ` set ss)"
proof -
  have inv: "schema_inv L files w" by (rule schema_inv_reach [OF assms(1,2)])
  then have h: "\<forall>e. schema_history_ok L (schema_rows e (sw_repo w))" by (simp add: schema_inv_def)
  obtain schema ns where s: "v = PDict schema" "collect_names L schema = Inr ns" "sr_schema r = schema" "get_active d (sw_repo w') = Some r"
    "\<forall>e. schema_history_ok L (schema_rows e (sw_repo w'))"
    and ld: "sw_loader w' = apply_schema_override L d schema (sw_loader w)"
    by (rule put_schema_ok [OF h assms(3)]) (auto simp: apply_hook_def)
  have st: "validate_structure (PDict schema) = []" using assms(3) s(1) by (auto simp: put_schema_def split: list.splits)
  obtain sc xs where "PDict schema = PDict sc" "dget sc ''input_types'' PNone = PList xs" "collect_names L sc = Inr (List.map_filter (item_name L) xs)"
    by (rule structure_names [OF st, of L])
  then have xs: "dget schema ''input_types'' PNone = PList xs" "type_names L r = set (List.map_filter (item_name L) xs)"
    using s(3) by (auto simp: type_names_def)
  have "coherent files (sw_loader w')" using inv ld coherent_apply by (simp add: schema_inv_def)
  then have "load_schemas_fresh files (sl_runtime (sw_loader w')) d = Inr ss" using coherent_load [of files "sw_loader w'" d] assms(4) by simp
  then obtain common where "compose_schemas common (PDict (normalize_schema L schema)) = Inr ss"
    by (auto simp: load_schemas_fresh_def ld apply_schema_override_def map_of_assoc_put)
  from composed_names [OF this xs(1)] have names: "fst ` set ss = type_names L r" using xs(2) by simp
  have "type_names L r' \<subseteq> type_names L r" if "r' \<in> set (schema_rows d (sw_repo w'))" for r'
  proof -
    have hr: "schema_history_ok L (schema_rows d (sw_repo w'))" using s(5) by blast
    then have "last (schema_rows d (sw_repo w')) = r" using get_active_rows [OF hr] s(4) by (auto split: if_splits)
    then show ?thesis
      using hr that by (cases "schema_rows d (sw_repo w')" rule: rev_cases) (auto simp: schema_history_ok_def sorted_wrt_append)
  qed
  with names show ?thesis by simp
qed

text \<open>
  (C39) The validator decides conformance, whatever the cache holds: metadata is accepted exactly when the input
  type is one of the tenant's current schemas, every required field has a value, and every value, nested
  lists included, passes the checks of the validator: type, enumeration, range of integers, pattern,
  length and format of texts and least length of lists. A largest length of lists and bounds on other numbers,
  which the documentation of the module lists too, are not checked.
\<close>

theorem accepted_metadata_conforms:
  assumes "(schema_step L files)\<^sup>*\<^sup>* w0 w" and "schema_start w0"
    and "validate_metadata L I files d (PStr t) metadata (sw_loader w) = (Inr es, ld)"
  shows "\<exists>ss. load_schemas_fresh files (sl_runtime (sw_loader w)) d = Inr ss
    \<and> (es = [] \<longleftrightarrow> (\<exists>s. map_of ss t = Some s \<and> metadata_ok L I s metadata))"
proof -
  have "coherent files (sw_loader w)" using schema_inv_reach [OF assms(1,2)] by (simp add: schema_inv_def)
  from validate_coherent [OF this assms(3)] obtain ss where
    ss: "load_schemas_fresh files (sl_runtime (sw_loader w)) d = Inr ss" "validate_with L I ss (PStr t) metadata = Inr es" by blast
  have "es = [] \<longleftrightarrow> (\<exists>s. map_of ss t = Some s \<and> metadata_ok L I s metadata)"
    using ss(2) by (auto simp: validate_with_def metadata_ok_def fails_def split: option.splits dest: required_errors_iff field_errors_iff)
  with ss(1) show ?thesis by blast
qed

section \<open>An example\<close>

definition schema_lib :: pylib where
  "schema_lib = \<lparr>float_of_text = \<lambda>_. None, int_of_text = \<lambda>_. None, repr_of = \<lambda>_. [], lower_of = \<lambda>s. s,
     json_loads = \<lambda>_. Inl [], re_search = \<lambda>_ _. Some True, exc_text = exc_name\<rparr>"

definition manual_schema :: pydict where
  "manual_schema = [(''input_types'', PList [PDict [(''name'', PStr ''manual''), (''domain_fields'',
     PDict [(''pages'', PDict [(''type'', PStr ''integer''), (''minimum'', PInt 1), (''required'', PBool True)])])]])]"

definition no_files :: schema_files where
  "no_files = \<lparr>sf_common = None, sf_tenant = \<lambda>_. None\<rparr>"

definition any_iso :: iso_lib where
  "any_iso = \<lparr>iso_date_ok = \<lambda>_. True, iso_datetime_ok = \<lambda>_. True\<rparr>"

definition blank_world :: schema_world where
  "blank_world = \<lparr>sw_repo = no_schema_records, sw_loader = no_schemas\<rparr>"

definition edited_world :: schema_world where
  "edited_world = snd (put_schema schema_lib (Some (apply_hook schema_lib)) ''a'' None (PDict manual_schema) None blank_world)"

lemma blank_start: "schema_start blank_world"
  by (simp add: schema_start_def blank_world_def)

lemma edited_step: "schema_step schema_lib no_files blank_world edited_world"
  unfolding edited_world_def by (rule schema_step.put) (rule prod.collapse [symmetric])

lemma edited_reach: "(schema_step schema_lib no_files)\<^sup>*\<^sup>* blank_world edited_world"
  using edited_step by blast

lemma edit_accepted:
  "\<exists>r old. put_schema schema_lib (Some (apply_hook schema_lib)) ''a'' None (PDict manual_schema) None blank_world = (Inr (r, old), edited_world)"
  "length (schema_rows ''a'' (sw_repo edited_world)) = 1"
proof -
  have "case fst (put_schema schema_lib (Some (apply_hook schema_lib)) ''a'' None (PDict manual_schema) None blank_world) of Inl _ \<Rightarrow> False | Inr _ \<Rightarrow> True"
    by code_simp
  then show "\<exists>r old. put_schema schema_lib (Some (apply_hook schema_lib)) ''a'' None (PDict manual_schema) None blank_world = (Inr (r, old), edited_world)"
    by (auto simp: edited_world_def prod_eq_iff split: sum.splits)
  show "length (schema_rows ''a'' (sw_repo edited_world)) = 1" by code_simp
qed

lemma edited_load: "\<exists>ss ld. load_schemas no_files ''a'' (sw_loader edited_world) = (Inr ss, ld)"
proof -
  have "case fst (load_schemas no_files ''a'' (sw_loader edited_world)) of Inl _ \<Rightarrow> False | Inr ss \<Rightarrow> map fst ss = [''manual'']" by code_simp
  then show ?thesis by (cases "load_schemas no_files ''a'' (sw_loader edited_world)") (auto split: sum.splits)
qed

lemma edited_validate:
  "fst (validate_metadata schema_lib any_iso no_files ''a'' (PStr ''manual'') [(''pages'', PInt 3)] (sw_loader edited_world)) = Inr []"
  "fst (validate_metadata schema_lib any_iso no_files ''a'' (PStr ''manual'') [(''pages'', PInt 0)] (sw_loader edited_world)) = Inr [\<lparr>fe_path = ''metadata.pages'', fe_code = ''range''\<rparr>]"
  by code_simp+

theorem schema_history_grows_witness:
  "map sr_version (schema_rows ''a'' (sw_repo edited_world)) = [1]
   \<and> sr_status (schema_rows ''a'' (sw_repo edited_world) ! 0) = ''active''"
  using schema_history_grows [OF edited_reach blank_start refl, of "''a''"] edit_accepted(2) by simp

theorem schema_put_in_force_witness:
  "\<exists>r old ss ld. put_schema schema_lib (Some (apply_hook schema_lib)) ''a'' None (PDict manual_schema) None blank_world = (Inr (r, old), edited_world)
     \<and> load_schemas no_files ''a'' (sw_loader edited_world) = (Inr ss, ld) \<and> fst ` set ss = type_names schema_lib r"
proof -
  obtain r old where r: "put_schema schema_lib (Some (apply_hook schema_lib)) ''a'' None (PDict manual_schema) None blank_world = (Inr (r, old), edited_world)"
    using edit_accepted(1) by blast
  obtain ss ld where "load_schemas no_files ''a'' (sw_loader edited_world) = (Inr ss, ld)" using edited_load by blast
  with schema_put_in_force [OF rtranclp.rtrancl_refl blank_start r this] r show ?thesis by blast
qed

theorem accepted_metadata_conforms_witness:
  "\<exists>ss s. load_schemas_fresh no_files (sl_runtime (sw_loader edited_world)) ''a'' = Inr ss \<and> map_of ss ''manual'' = Some s
     \<and> metadata_ok schema_lib any_iso s [(''pages'', PInt 3)] \<and> \<not> metadata_ok schema_lib any_iso s [(''pages'', PInt 0)]"
proof -
  let ?v = "\<lambda>n. validate_metadata schema_lib any_iso no_files ''a'' (PStr ''manual'') [(''pages'', PInt n)] (sw_loader edited_world)"
  have "?v 3 = (Inr [], snd (?v 3))" "?v 0 = (Inr [\<lparr>fe_path = ''metadata.pages'', fe_code = ''range''\<rparr>], snd (?v 0))"
    using edited_validate by (simp_all add: prod_eq_iff)
  note both = this [THEN accepted_metadata_conforms [OF edited_reach blank_start]]
  then show ?thesis by fastforce
qed

end
