(* ===== verification/Doc_Services.thy ===== *)
theory Doc_Services
  imports Indexing_Facts Input_Schema Rag_State
begin

text \<open>
  Administration of indexed documents: \<open>document_approval_service.py\<close>, \<open>document_metadata_service.py\<close> and
  \<open>hard_delete_service.py\<close> of \<open>backend/app/services\<close>, over the stores of \<open>Indexing\<close>, the validator of
  \<open>Input_Schema\<close> and the records of the chat log. The file storage and the deletion of points are
  parameters of the hard deletion, because their failures are caught and reported; rows for the
  lifecycle log and events for the ledger are collected. Documents and patches come from JSON, so they
  hold no date objects.
\<close>

section \<open>Stores and audit\<close>

record audit_row =
  au_domain_id :: string
  au_action :: string
  au_to_state :: pyval
  au_actor :: string
  au_reason :: pyval
  au_details :: pydict

record doc_world =
  dw_index :: index_world
  dw_loader :: schema_loader
  dw_log :: "chat_log_payload list"
  dw_audit :: "audit_row list"
  dw_ledger :: "pydict list"

definition str_or_none :: "string option \<Rightarrow> pyval" where
  "str_or_none s = (case s of None \<Rightarrow> PNone | Some x \<Rightarrow> PStr x)"

definition audit :: "bool \<Rightarrow> audit_row \<Rightarrow> doc_world \<Rightarrow> doc_world" where
  \<comment> \<open>nothing is written without an administrator session\<close>
  "audit admin row w = (if admin then w\<lparr>dw_audit := dw_audit w @ [row]\<rparr> else w)"

section \<open>Approval\<close>

definition doc_chunk_ids :: "string \<Rightarrow> string \<Rightarrow> string \<Rightarrow> index_world \<Rightarrow> string list" where
  "doc_chunk_ids domain_id doc_id version ix = map cr_chunk_id (list_by_doc domain_id doc_id version None (ix_chunks ix))"

definition sync_meta :: "string \<Rightarrow> string list \<Rightarrow> pydict \<Rightarrow> index_world \<Rightarrow> index_world" where
  \<comment> \<open>rows first, then payloads; an error of the vector store is only logged\<close>
  "sync_meta domain_id chunk_ids m ix =
     (if chunk_ids = [] then ix
      else ix\<lparr>ix_chunks := update_metadata domain_id chunk_ids m (ix_chunks ix),
              ix_store := sync_payload (ix_store ix) domain_id chunk_ids m\<rparr>)"

definition set_approval ::
  "bool \<Rightarrow> string \<Rightarrow> string \<Rightarrow> string \<Rightarrow> string \<Rightarrow> string \<Rightarrow> string option \<Rightarrow> doc_world \<Rightarrow> (pydict \<times> nat) option \<times> doc_world" where
  "set_approval admin domain_id doc_id version approval_status actor reason w =
     (case doc_update_approval domain_id doc_id version approval_status (ix_docs (dw_index w)) of
        (None, _) \<Rightarrow> (None, w)
      | (Some doc, docs) \<Rightarrow>
          let ids = doc_chunk_ids domain_id doc_id version (dw_index w);
              ix = sync_meta domain_id ids [(''approval_status'', PStr approval_status)] ((dw_index w)\<lparr>ix_docs := docs\<rparr>)
          in (Some (doc, length ids),
              audit admin \<lparr>au_domain_id = domain_id, au_action = ''document_approval_changed'', au_to_state = PStr approval_status,
                au_actor = actor, au_reason = py_or (str_or_none reason) (PStr ''approval_status_changed''),
                au_details = [(''doc_id'', PStr doc_id), (''version'', PStr version), (''approval_status'', PStr approval_status),
                  (''affected_chunks'', PInt (int (length ids))), (''reason'', str_or_none reason)]\<rparr>
                (w\<lparr>dw_index := ix\<rparr>)))"

section \<open>Metadata\<close>

definition CHUNK_SYNC_KEYS :: "string list" where
  "CHUNK_SYNC_KEYS = [''title'', ''department'', ''doc_type'', ''security_level'', ''tags'', ''valid_from'', ''valid_until'']"

definition merge_for_validation :: "pydict \<Rightarrow> pydict \<Rightarrow> pyval list \<Rightarrow> pydict res" where
  "merge_for_validation existing patch existing_acl =
     bind_res (py_iter (py_or (dget existing ''tags'' PNone) (PList []))) (\<lambda>tags.
       let base = [(''title'', dget existing ''title'' PNone), (''security_level'', dget existing ''security_level'' PNone),
                   (''owner'', dget existing ''owner'' PNone), (''acl'', PList existing_acl), (''tags'', PList tags),
                   (''valid_from'', dget existing ''valid_from'' PNone), (''valid_until'', dget existing ''valid_until'' PNone),
                   (''department'', dget existing ''department'' PNone), (''doc_type'', dget existing ''doc_type'' PNone),
                   (''input_type'', dget existing ''input_type'' PNone)]
       in bind_res (if truthy (dget existing ''metadata'' PNone) then py_dict (dget existing ''metadata'' PNone) else Inr []) (\<lambda>old_meta.
          let flat = dict_update (dict_update base old_meta) (filter (\<lambda>kv. fst kv \<noteq> ''metadata'') patch)
          in Inr (case py_or (dget patch ''metadata'' PNone) (PDict []) of
                    PDict patch_meta \<Rightarrow> dict_update flat patch_meta | _ \<Rightarrow> flat)))"

datatype meta_error = InvalidMetadata "field_error list" | MetaRaised py_error

record meta_service =
  ms_lib :: pylib
  ms_iso :: iso_lib
  ms_files :: schema_files
  ms_admin :: bool

definition lift_meta :: "'a res \<Rightarrow> meta_error + 'a" where
  "lift_meta r = (case r of Inl e \<Rightarrow> Inl (MetaRaised e) | Inr x \<Rightarrow> Inr x)"

definition first_acl :: "chunk_record list \<Rightarrow> pyval list res" where
  "first_acl rs = (case rs of [] \<Rightarrow> Inr [] | r # _ \<Rightarrow> py_iter (dget (cr_attrs r) ''acl'' PNone))"

definition check_metadata :: "meta_service \<Rightarrow> string \<Rightarrow> pydict \<Rightarrow> pydict \<Rightarrow> doc_world \<Rightarrow> (meta_error + unit) \<times> doc_world" where
  \<comment> \<open>the schema is only asked when there is an input type\<close>
  "check_metadata ms domain_id existing merged w =
     (let input_type = py_or (dget merged ''input_type'' PNone) (dget existing ''input_type'' PNone) in
      if \<not> truthy input_type then (Inr (), w)
      else case validate_metadata (ms_lib ms) (ms_iso ms) (ms_files ms) domain_id input_type merged (dw_loader w) of
        (Inl e, ld) \<Rightarrow> (Inl (MetaRaised e), w\<lparr>dw_loader := ld\<rparr>)
      | (Inr es, ld) \<Rightarrow> (if es = [] then Inr () else Inl (InvalidMetadata es), w\<lparr>dw_loader := ld\<rparr>))"

definition synced_part :: "pydict \<Rightarrow> pydict" where
  "synced_part patch = filter (\<lambda>kv. fst kv \<in> set CHUNK_SYNC_KEYS) patch"

definition update_document ::
  "meta_service \<Rightarrow> string \<Rightarrow> string \<Rightarrow> string \<Rightarrow> pydict \<Rightarrow> string \<Rightarrow> string option \<Rightarrow> doc_world
   \<Rightarrow> (meta_error + (pydict \<times> nat \<times> string list) option) \<times> doc_world" where
  "update_document ms domain_id doc_id version patch actor reason w =
     (case doc_get domain_id doc_id version (ix_docs (dw_index w)) of
        None \<Rightarrow> (Inr None, w)
      | Some existing \<Rightarrow>
          bind_st (lift_meta (first_acl (list_by_doc domain_id doc_id version None (ix_chunks (dw_index w)))), w) (\<lambda>acl w.
          bind_st (lift_meta (merge_for_validation existing patch acl), w) (\<lambda>merged w.
          bind_st (check_metadata ms domain_id existing merged w) (\<lambda>_ w.
            case doc_update_partial domain_id doc_id version patch (ix_docs (dw_index w)) of
              (None, _) \<Rightarrow> (Inr None, w)
            | (Some updated, docs) \<Rightarrow>
                let payload = synced_part patch;
                    ids = (if payload = [] then [] else doc_chunk_ids domain_id doc_id version (dw_index w));
                    keys = sort (map fst payload)
                in (Inr (Some (updated, length ids, keys)),
                    audit (ms_admin ms) \<lparr>au_domain_id = domain_id, au_action = ''document_metadata_updated'', au_to_state = PNone,
                      au_actor = actor, au_reason = py_or (str_or_none reason) (PStr ''metadata_patch''),
                      au_details = [(''doc_id'', PStr doc_id), (''version'', PStr version),
                        (''patched_keys'', PList (map PStr (sort (map fst patch)))), (''synced_keys'', PList (map PStr keys)),
                        (''affected_chunks'', PInt (int (length ids))), (''reason'', str_or_none reason)]\<rparr>
                      (w\<lparr>dw_index := sync_meta domain_id ids payload ((dw_index w)\<lparr>ix_docs := docs\<rparr>)\<rparr>))))))"

section \<open>Hard deletion\<close>

















section \<open>Facts: synchronised updates\<close>

lemma sync_payload_at:
  assumes "distinct ids"
  shows "payloads (sync_payload st d ids m) e k
    = (if e = d \<and> k \<in> set ids then map_option (\<lambda>pl. dict_update pl m) (payloads st e k) else payloads st e k)"
proof (cases "set_payload st d ids m")
  case (Inl x)
  then show ?thesis using set_payload_Inl [OF Inl] by (auto simp: sync_payload_def)
next
  case (Inr st')
  then show ?thesis using payloads_set_payload [OF Inr assms] payloads_frame(1) [OF Inr] by (cases "e = d") (auto simp: sync_payload_def)
qed

lemma doc_ids:
  assumes "repo_wf (ix_chunks ix)"
  shows "distinct (doc_chunk_ids d doc ver ix)"
    "set (doc_chunk_ids d doc ver ix) = {cr_chunk_id (snd x) |x. x \<in> rows (ix_chunks ix) \<and> doc_key d doc ver None (fst x)}"
proof -
  show "distinct (doc_chunk_ids d doc ver ix)" unfolding doc_chunk_ids_def by (rule mem_chunks.listing_ids [OF assms])
  show "set (doc_chunk_ids d doc ver ix) = {cr_chunk_id (snd x) |x. x \<in> rows (ix_chunks ix) \<and> doc_key d doc ver None (fst x)}"
    unfolding doc_chunk_ids_def set_map mem_chunks.listing_tab [OF assms] by blast
qed

lemma sync_meta_same [simp]: "ix_docs (sync_meta d ids m ix) = ix_docs ix" "ix_jobs (sync_meta d ids m ix) = ix_jobs ix"
  by (simp_all add: sync_meta_def)

lemma sync_meta_rows:
  assumes "repo_wf (ix_chunks ix)" "distinct ids"
  shows "rows (ix_chunks (sync_meta d ids m ix)) = patch_row d (set ids) m ` rows (ix_chunks ix)"
  using mem_chunks.update_tab [OF assms, of d m] by (simp add: sync_meta_def patch_row_def)

lemma sync_meta_payloads:
  assumes "distinct ids"
  shows "payloads (ix_store (sync_meta d ids m ix)) e k
    = (if e = d \<and> k \<in> set ids then map_option (\<lambda>pl. dict_update pl m) (payloads (ix_store ix) e k) else payloads (ix_store ix) e k)"
  using sync_payload_at [OF assms] by (simp add: sync_meta_def)

lemma sync_meta_ok:
  assumes "sync_ok ix" "distinct ids" "''content'' \<notin> fst ` set m"
  shows "sync_ok (sync_meta d ids m ix)"
  using assms mem_chunks.update_keeps [of "ix_chunks ix" ids d m] mem_chunks.in_sync_update [of "ix_chunks ix" "ix_store ix" ids m d]
  by (simp add: sync_ok_def sync_meta_def)

lemma doc_key_iff:
  assumes "repo_wf rp" "x \<in> rows rp" "ids = {cr_chunk_id (snd y) |y. y \<in> rows rp \<and> doc_key d doc ver None (fst y)}"
  shows "fst (fst x) = d \<and> cr_chunk_id (snd x) \<in> ids \<longleftrightarrow> doc_key d doc ver None (fst x)"
proof
  assume a: "fst (fst x) = d \<and> cr_chunk_id (snd x) \<in> ids"
  then obtain y where y: "y \<in> rows rp" "doc_key d doc ver None (fst y)" "cr_chunk_id (snd x) = cr_chunk_id (snd y)" using assms(3) by blast
  then have "fst (fst y) = d" by (auto simp: doc_key_def split: prod.splits)
  then show "doc_key d doc ver None (fst x)" using mem_chunks.unique [OF assms(1,2) y(1)] a y(2,3) by simp
next
  assume a: "doc_key d doc ver None (fst x)"
  then have "fst (fst x) = d" by (auto simp: doc_key_def split: prod.splits)
  moreover have "cr_chunk_id (snd x) \<in> ids" using a assms(2,3) by blast
  ultimately show "fst (fst x) = d \<and> cr_chunk_id (snd x) \<in> ids" ..
qed

lemma sync_doc_effect:
  \<comment> \<open>what an update of all chunks of a document version does to rows and payloads\<close>
  assumes "sync_ok ix" "''content'' \<notin> fst ` set m" "ix' = sync_meta d (doc_chunk_ids d doc ver ix) m (ix\<lparr>ix_docs := docs\<rparr>)"
  shows "sync_ok ix'"
    and "rows (ix_chunks ix') = (\<lambda>x. if doc_key d doc ver None (fst x) then (fst x, set_row m (snd x)) else x) ` rows (ix_chunks ix)"
    and "\<And>x. x \<in> rows (ix_chunks ix) \<Longrightarrow> \<exists>pl. payloads (ix_store ix) (fst (fst x)) (cr_chunk_id (snd x)) = Some pl
        \<and> payloads (ix_store ix') (fst (fst x)) (cr_chunk_id (snd x)) = Some (if doc_key d doc ver None (fst x) then dict_update pl m else pl)"
proof -
  let ?ids = "doc_chunk_ids d doc ver ix"
  have wf: "repo_wf (ix_chunks ix)" and sync: "in_sync (ix_store ix) (rows (ix_chunks ix))" using assms(1) by (auto simp: sync_ok_def)
  note ids = doc_ids [OF wf, of d doc ver]
  have ok: "sync_ok (ix\<lparr>ix_docs := docs\<rparr>)" using assms(1) by (simp add: sync_ok_def)
  show "sync_ok ix'" unfolding assms(3) by (rule sync_meta_ok [OF ok ids(1) assms(2)])
  show "rows (ix_chunks ix') = (\<lambda>x. if doc_key d doc ver None (fst x) then (fst x, set_row m (snd x)) else x) ` rows (ix_chunks ix)"
  proof -
    have "patch_row d (set ?ids) m x = (if doc_key d doc ver None (fst x) then (fst x, set_row m (snd x)) else x)"
      if "x \<in> rows (ix_chunks ix)" for x
      using doc_key_iff [OF wf that ids(2)] by (simp add: patch_row_def)
    then show ?thesis using sync_meta_rows [of "ix\<lparr>ix_docs := docs\<rparr>" ?ids d m] wf ids(1) unfolding assms(3) by simp
  qed
  fix x assume x: "x \<in> rows (ix_chunks ix)"
  then obtain pl where pl: "payloads (ix_store ix) (fst (fst x)) (cr_chunk_id (snd x)) = Some pl"
    using sync unfolding in_sync_def synced_def by blast
  have "fst (fst x) = d \<and> cr_chunk_id (snd x) \<in> set ?ids \<longleftrightarrow> doc_key d doc ver None (fst x)" by (rule doc_key_iff [OF wf x ids(2)])
  with pl show "\<exists>pl. payloads (ix_store ix) (fst (fst x)) (cr_chunk_id (snd x)) = Some pl
        \<and> payloads (ix_store ix') (fst (fst x)) (cr_chunk_id (snd x)) = Some (if doc_key d doc ver None (fst x) then dict_update pl m else pl)"
    using sync_meta_payloads [OF ids(1)] unfolding assms(3) by auto
qed

lemma audit_index [simp]: "dw_index (audit a row w) = dw_index w" "dw_log (audit a row w) = dw_log w"
  by (simp_all add: audit_def)



section \<open>Properties\<close>

text \<open>
  (C33) Approval reaches retrieval: when the approval of a document version is set, its row, the rows of its
  chunks and the payloads of their points carry the new status, so unless the status is \<open>approved\<close> no
  reader finds any of its chunks; the rows and payloads of other documents are as before.
\<close>

theorem approval_takes_effect:
  assumes "repo_wf (ix_chunks (dw_index w))" and "in_sync (ix_store (dw_index w)) (rows (ix_chunks (dw_index w)))"
    and "set_approval admin d doc ver status actor reason w = (Some (dc, n), w')"
  shows "repo_wf (ix_chunks (dw_index w')) \<and> in_sync (ix_store (dw_index w')) (rows (ix_chunks (dw_index w')))
    \<and> (\<exists>dc. doc_get d doc ver (ix_docs (dw_index w')) = Some dc \<and> dget dc ''approval_status'' PNone = PStr status)
    \<and> (\<forall>x \<in> rows (ix_chunks (dw_index w')). doc_key d doc ver None (fst x) \<longrightarrow>
        (\<exists>pl. payloads (ix_store (dw_index w')) d (cr_chunk_id (snd x)) = Some pl \<and> dget pl ''approval_status'' PNone = PStr status
          \<and> (status \<noteq> ''approved'' \<longrightarrow> (\<forall>m reader today excl. carries_meta pl m \<longrightarrow> \<not> may_read reader today excl m))))
    \<and> (\<forall>x \<in> rows (ix_chunks (dw_index w)). \<not> doc_key d doc ver None (fst x) \<longrightarrow> x \<in> rows (ix_chunks (dw_index w'))
        \<and> payloads (ix_store (dw_index w')) (fst (fst x)) (cr_chunk_id (snd x)) = payloads (ix_store (dw_index w)) (fst (fst x)) (cr_chunk_id (snd x)))"
proof -
  let ?ix = "dw_index w" and ?ix' = "dw_index w'" and ?m = "[(''approval_status'', PStr status)]"
  obtain docs where docs: "doc_update_approval d doc ver status (ix_docs ?ix) = (Some dc, docs)"
    and ix': "?ix' = sync_meta d (doc_chunk_ids d doc ver ?ix) ?m (?ix\<lparr>ix_docs := docs\<rparr>)"
    using assms(3) by (auto simp: set_approval_def Let_def split: prod.splits option.splits)
  have ok: "sync_ok ?ix" using assms(1,2) by (simp add: sync_ok_def)
  have c: "''content'' \<notin> fst ` set ?m" by simp
  note eff = sync_doc_effect [OF ok c ix']
  have doc: "doc_get d doc ver (ix_docs ?ix') = Some dc" "dget dc ''approval_status'' PNone = PStr status"
    using docs by (auto simp: ix' doc_get_def doc_update_approval_def Let_def map_of_assoc_modify dget_def map_of_dict_put split: option.splits)
  have new: "\<exists>pl. payloads (ix_store ?ix') d (cr_chunk_id (snd x)) = Some pl \<and> dget pl ''approval_status'' PNone = PStr status
      \<and> (status \<noteq> ''approved'' \<longrightarrow> (\<forall>m reader today excl. carries_meta pl m \<longrightarrow> \<not> may_read reader today excl m))"
    if "x \<in> rows (ix_chunks ?ix')" "doc_key d doc ver None (fst x)" for x
  proof -
    note listed = that(1) [unfolded eff(2)]
    obtain y where y: "y \<in> rows (ix_chunks ?ix)" "x = (if doc_key d doc ver None (fst y) then (fst y, set_row ?m (snd y)) else y)"
      using listed by (elim imageE) (rule that)
    then have k: "fst x = fst y" "cr_chunk_id (snd x) = cr_chunk_id (snd y)" by auto
    have d: "fst (fst x) = d" using that(2) by (auto simp: doc_key_def split: prod.splits)
    from eff(3) [OF y(1)] k d that(2) obtain pl where pl: "payloads (ix_store ?ix') d (cr_chunk_id (snd x)) = Some (dict_update pl ?m)"
      by auto
    have s: "dget (dict_update pl ?m) ''approval_status'' PNone = PStr status" by (simp add: dget_update)
    then have "\<not> may_read reader today excl m" if "status \<noteq> ''approved''" "carries_meta (dict_update pl ?m) m" for m reader today excl
      using that by (auto simp: carries_meta_def may_read_def)
    with pl s show ?thesis by blast
  qed
  have others: "x \<in> rows (ix_chunks ?ix') \<and> payloads (ix_store ?ix') (fst (fst x)) (cr_chunk_id (snd x)) = payloads (ix_store ?ix) (fst (fst x)) (cr_chunk_id (snd x))"
    if "x \<in> rows (ix_chunks ?ix)" "\<not> doc_key d doc ver None (fst x)" for x
  proof
    show "x \<in> rows (ix_chunks ?ix')" unfolding eff(2) by (rule rev_image_eqI [OF that(1)]) (simp add: that(2))
    show "payloads (ix_store ?ix') (fst (fst x)) (cr_chunk_id (snd x)) = payloads (ix_store ?ix) (fst (fst x)) (cr_chunk_id (snd x))"
      using eff(3) [OF that(1)] that(2) by auto
  qed
  from doc have "\<exists>dc. doc_get d doc ver (ix_docs ?ix') = Some dc \<and> dget dc ''approval_status'' PNone = PStr status" by blast
  moreover note eff(1) [unfolded sync_ok_def]
  ultimately show ?thesis
    by (intro conjI) (elim conjE, assumption | intro ballI impI, rule new others, assumption+)+
qed








lemma check_metadata_index:
  assumes "check_metadata ms d existing merged w = (r, w1)"
  shows "dw_index w1 = dw_index w \<and> dw_log w1 = dw_log w"
  using assms by (auto simp: check_metadata_def Let_def split: if_splits prod.splits sum.splits)

lemma update_document_cases:
  assumes "update_document ms d doc ver patch actor reason w = (r, w')"
  obtains "dw_index w' = dw_index w" "\<forall>x. r \<noteq> Inr (Some x)"
  | u n keys docs where "r = Inr (Some (u, n, keys))" "map_of docs (d, doc, ver) = Some u" "\<And>k. k \<noteq> (d, doc, ver) \<Longrightarrow> map_of docs k = map_of (ix_docs (dw_index w)) k"
      "dw_index w' = sync_meta d (if synced_part patch = [] then [] else doc_chunk_ids d doc ver (dw_index w)) (synced_part patch) ((dw_index w)\<lparr>ix_docs := docs\<rparr>)"
proof (cases "doc_get d doc ver (ix_docs (dw_index w))")
  case None
  then show thesis using assms that(1) by (auto simp: update_document_def)
next
  case (Some dc)
  show thesis
  proof (cases "bind_res (first_acl (list_by_doc d doc ver None (ix_chunks (dw_index w)))) (merge_for_validation dc patch)")
    case (Inl e)
    then have "w' = w \<and> (\<exists>e. r = Inl e)"
      using assms Some by (auto simp: update_document_def bind_st_def lift_meta_def split: sum.splits)
    then show thesis using that(1) by auto
  next
    case (Inr merged)
    then obtain acl where acl: "first_acl (list_by_doc d doc ver None (ix_chunks (dw_index w))) = Inr acl" "merge_for_validation dc patch acl = Inr merged"
      by auto
    obtain c w1 where c: "check_metadata ms d dc merged w = (c, w1)" by (cases "check_metadata ms d dc merged w")
    note same = check_metadata_index [OF c]
    show thesis
    proof (cases c)
      case (Inl e)
      then show thesis using that(1) assms Some acl c same by (auto simp: update_document_def bind_st_def lift_meta_def)
    next
      case (Inr u)
      obtain dc' docs where p: "doc_update_partial d doc ver patch (ix_docs (dw_index w1)) = (Some dc', docs)" "map_of docs (d, doc, ver) = Some dc'"
        "\<And>k. k \<noteq> (d, doc, ver) \<Longrightarrow> map_of docs k = map_of (ix_docs (dw_index w)) k"
        using Some same by (auto simp: doc_update_partial_def doc_get_def Let_def map_of_assoc_modify)
      show thesis
      proof (rule that(2) [OF _ p(2,3)])
        show "r = Inr (Some (dc', length (if synced_part patch = [] then [] else doc_chunk_ids d doc ver (dw_index w1)), sort (map fst (synced_part patch))))"
          using assms Some acl c Inr p(1) by (auto simp: update_document_def bind_st_def lift_meta_def Let_def)
        show "dw_index w' = sync_meta d (if synced_part patch = [] then [] else doc_chunk_ids d doc ver (dw_index w)) (synced_part patch) ((dw_index w)\<lparr>ix_docs := docs\<rparr>)"
          using assms Some acl c Inr p(1) same by (auto simp: update_document_def bind_st_def lift_meta_def Let_def)
      qed
    qed
  qed
qed

lemma map_of_filter_keys: "map_of (filter (\<lambda>kv. P (fst kv)) d) k = (if P k then map_of d k else None)"
  by (induction d) auto

lemma synced_part_lookup: "map_of (rev (synced_part patch)) k = (if k \<in> set CHUNK_SYNC_KEYS then map_of (rev patch) k else None)"
  unfolding synced_part_def rev_filter by (rule map_of_filter_keys)

lemma edit_effect:
  assumes ok: "sync_ok ix" and m: "''content'' \<notin> fst ` set m"
    and ix': "ix' = sync_meta d (if m = [] then [] else doc_chunk_ids d doc ver ix) m (ix\<lparr>ix_docs := docs\<rparr>)"
  shows "sync_ok ix'"
    and "x \<in> rows (ix_chunks ix) \<Longrightarrow> \<exists>pl. payloads (ix_store ix) (fst (fst x)) (cr_chunk_id (snd x)) = Some pl
        \<and> payloads (ix_store ix') (fst (fst x)) (cr_chunk_id (snd x)) = Some (if doc_key d doc ver None (fst x) then dict_update pl m else pl)"
proof -
  have "sync_ok ix' \<and> (x \<in> rows (ix_chunks ix) \<longrightarrow> (\<exists>pl. payloads (ix_store ix) (fst (fst x)) (cr_chunk_id (snd x)) = Some pl
        \<and> payloads (ix_store ix') (fst (fst x)) (cr_chunk_id (snd x)) = Some (if doc_key d doc ver None (fst x) then dict_update pl m else pl)))"
  proof (cases "m = []")
    case True
    then have same: "ix_store ix' = ix_store ix" "ix_chunks ix' = ix_chunks ix" using ix' by (simp_all add: sync_meta_def)
    have "\<exists>pl. payloads (ix_store ix) (fst (fst x)) (cr_chunk_id (snd x)) = Some pl" if "x \<in> rows (ix_chunks ix)"
      using ok that unfolding sync_ok_def in_sync_def synced_def by blast
    with ok same True show ?thesis by (auto simp: sync_ok_def dict_update_def)
  next
    case False
    then have "ix' = sync_meta d (doc_chunk_ids d doc ver ix) m (ix\<lparr>ix_docs := docs\<rparr>)" using ix' by simp
    from sync_doc_effect(1,3) [OF ok m this] show ?thesis by blast
  qed
  then show "sync_ok ix'" and "x \<in> rows (ix_chunks ix) \<Longrightarrow> \<exists>pl. payloads (ix_store ix) (fst (fst x)) (cr_chunk_id (snd x)) = Some pl
        \<and> payloads (ix_store ix') (fst (fst x)) (cr_chunk_id (snd x)) = Some (if doc_key d doc ver None (fst x) then dict_update pl m else pl)"
    by blast+
qed

text \<open>
  (C35) Editing metadata is safe for access control: an edit keeps rows and points in agreement, a rejected edit
  changes neither the documents nor the chunks, and an accepted one changes in the payloads exactly the
  seven synchronised attributes of the edited version, so approval status and access list stay.
\<close>

theorem metadata_edit_is_contained:
  assumes "repo_wf (ix_chunks (dw_index w))" and "in_sync (ix_store (dw_index w)) (rows (ix_chunks (dw_index w)))"
    and "update_document ms d doc ver patch actor reason w = (r, w')"
  shows "repo_wf (ix_chunks (dw_index w')) \<and> in_sync (ix_store (dw_index w')) (rows (ix_chunks (dw_index w')))
    \<and> (\<forall>e. r = Inl e \<longrightarrow> dw_index w' = dw_index w)
    \<and> (\<forall>x \<in> rows (ix_chunks (dw_index w)). \<exists>pl pl'. payloads (ix_store (dw_index w)) (fst (fst x)) (cr_chunk_id (snd x)) = Some pl
        \<and> payloads (ix_store (dw_index w')) (fst (fst x)) (cr_chunk_id (snd x)) = Some pl'
        \<and> (\<forall>k. dget pl' k PNone = (if r \<noteq> Inr None \<and> (\<forall>e. r \<noteq> Inl e) \<and> doc_key d doc ver None (fst x) \<and> k \<in> set CHUNK_SYNC_KEYS
              then (case map_of (rev patch) k of Some v \<Rightarrow> v | None \<Rightarrow> dget pl k PNone) else dget pl k PNone)))"
    (is "_ \<and> _ \<and> _ \<and> ?eff")
proof -
  have ok: "sync_ok (dw_index w)" using assms(1,2) by (simp add: sync_ok_def)
  have content: "''content'' \<notin> fst ` set (synced_part patch)" by (auto simp: synced_part_def CHUNK_SYNC_KEYS_def)
  from assms(3) show ?thesis
  proof (cases rule: update_document_cases)
    case 1
    have "\<exists>pl. payloads (ix_store (dw_index w)) (fst (fst x)) (cr_chunk_id (snd x)) = Some pl" if "x \<in> rows (ix_chunks (dw_index w))" for x
      using assms(2) that unfolding in_sync_def synced_def by blast
    moreover have "r = Inr None \<or> (\<exists>e. r = Inl e)" using 1(2) by (metis not_None_eq sum.exhaust)
    ultimately show ?thesis using assms(1,2) 1(1) by metis
  next
    case (2 u n keys docs)
    have acc: "r \<noteq> Inr None" "\<forall>e. r \<noteq> Inl e" using 2(1) by simp_all
    note eff = edit_effect [OF ok content 2(4)]
    have ?eff
    proof
      fix x assume "x \<in> rows (ix_chunks (dw_index w))"
      from eff(2) [OF this] obtain pl where pl: "payloads (ix_store (dw_index w)) (fst (fst x)) (cr_chunk_id (snd x)) = Some pl"
        "payloads (ix_store (dw_index w')) (fst (fst x)) (cr_chunk_id (snd x)) = Some (if doc_key d doc ver None (fst x) then dict_update pl (synced_part patch) else pl)"
        by blast
      then show "\<exists>pl pl'. payloads (ix_store (dw_index w)) (fst (fst x)) (cr_chunk_id (snd x)) = Some pl
        \<and> payloads (ix_store (dw_index w')) (fst (fst x)) (cr_chunk_id (snd x)) = Some pl'
        \<and> (\<forall>k. dget pl' k PNone = (if r \<noteq> Inr None \<and> (\<forall>e. r \<noteq> Inl e) \<and> doc_key d doc ver None (fst x) \<and> k \<in> set CHUNK_SYNC_KEYS
              then (case map_of (rev patch) k of Some v \<Rightarrow> v | None \<Rightarrow> dget pl k PNone) else dget pl k PNone))"
        using acc by - (intro exI conjI, assumption, assumption, auto simp: dget_update synced_part_lookup)
    qed
    then show ?thesis using eff(1) acc(2) unfolding sync_ok_def by auto
  qed
qed

end
