(* ===== verification/Doc_Examples.thy ===== *)
theory Doc_Examples
  imports Indexing_Examples Doc_Services Nodes
begin

text \<open>A tenant with one indexed chunk, to which the theorems about document administration are applied.\<close>

definition only_chunk :: chunk where
  "only_chunk = demo_chunk 0 ''alpha beta'' 0 10 2"

definition only_row :: chunk_record where
  "only_row = build_record demo_service demo_request [] only_chunk"

definition only_point :: point where
  "only_point = \<lparr>pt_id = ch_id only_chunk, pt_dense = [1], pt_sparse = [], pt_payload = point_payload demo_service demo_request [] only_chunk\<rparr>"

definition only_docs :: index_world where
  "only_docs = \<lparr>ix_store = [''a'' \<mapsto> \<lparr>co_dense_dim = 1, co_with_sparse = True, co_points = [only_point]\<rparr>],
     ix_chunks = replace_chunks ''a'' ''doc'' ''v1'' ''p1'' [only_row] no_chunks,
     ix_docs = [((''a'', ''doc'', ''v1''), document_record demo_service demo_request)], ix_jobs = []\<rparr>"

definition only_world :: doc_world where
  "only_world = \<lparr>dw_index = only_docs, dw_loader = no_schemas, dw_log = [], dw_audit = [], dw_ledger = []\<rparr>"

lemma only_rows: "repo_wf (ix_chunks only_docs)" "rows (ix_chunks only_docs) = {((''a'', ''doc'', ''v1'', ''p1''), only_row)}"
proof -
  show "repo_wf (ix_chunks only_docs)"
    unfolding only_docs_def index_world.simps
    by (rule mem_chunks.replace_keeps [OF repo_wf_empty(1)]) (simp_all add: repo_wf_empty(2))
  show "rows (ix_chunks only_docs) = {((''a'', ''doc'', ''v1'', ''p1''), only_row)}"
    using mem_chunks.replace_tab [OF repo_wf_empty(1), of "''a''" "''doc''" "''v1''" "''p1''" "[only_row]"]
    by (simp add: only_docs_def repo_wf_empty(2))
qed

lemma only_payloads: "payloads (ix_store only_docs) ''a'' = [ch_id only_chunk \<mapsto> point_payload demo_service demo_request [] only_chunk]"
  by (simp add: payloads_def only_docs_def point_map_def only_point_def)

lemma only_id: "cr_chunk_id only_row = ch_id only_chunk"
  by (simp add: only_row_def build_record_def)

lemma only_sync: "in_sync (ix_store only_docs) (rows (ix_chunks only_docs))" "no_orphans (ix_store only_docs) (rows (ix_chunks only_docs)) ''a''"
  using point_agrees [of demo_service demo_request "[]" only_chunk, folded only_row_def]
  by (auto simp: in_sync_def synced_def no_orphans_def only_rows(2) only_payloads only_id)

lemma only_key: "doc_key ''a'' ''doc'' ''v1'' None (''a'', ''doc'', ''v1'', ''p1'')" "in_doc ''a'' ''doc'' None (''a'', ''doc'', ''v1'', ''p1'')"
  by (simp_all add: doc_key_def in_doc_def truthy_str_def)

theorem approval_takes_effect_witness:
  "\<exists>dc n w' pl. set_approval True ''a'' ''doc'' ''v1'' ''rejected'' ''kim'' None only_world = (Some (dc, n), w')
     \<and> payloads (ix_store (dw_index w')) ''a'' (cr_chunk_id only_row) = Some pl \<and> dget pl ''approval_status'' PNone = PStr ''rejected''"
proof -
  have "fst (set_approval True ''a'' ''doc'' ''v1'' ''rejected'' ''kim'' None only_world) \<noteq> None"
    by (simp add: set_approval_def only_world_def only_docs_def doc_update_approval_def Let_def)
  then obtain dc n w' where w': "set_approval True ''a'' ''doc'' ''v1'' ''rejected'' ''kim'' None only_world = (Some (dc, n), w')"
    by (cases "set_approval True ''a'' ''doc'' ''v1'' ''rejected'' ''kim'' None only_world") auto
  have ix: "dw_index only_world = only_docs" by (simp add: only_world_def)
  have keep: "x \<in> rows (ix_chunks (dw_index w')) \<Longrightarrow> doc_key ''a'' ''doc'' ''v1'' None (fst x) \<Longrightarrow>
      \<exists>pl. payloads (ix_store (dw_index w')) ''a'' (cr_chunk_id (snd x)) = Some pl \<and> dget pl ''approval_status'' PNone = PStr ''rejected''" for x
    using approval_takes_effect [OF _ _ w', unfolded ix, OF only_rows(1) only_sync(1)] by blast
  have "dw_index w' = sync_meta ''a'' (doc_chunk_ids ''a'' ''doc'' ''v1'' only_docs) [(''approval_status'', PStr ''rejected'')]
      (only_docs\<lparr>ix_docs := ix_docs (dw_index w')\<rparr>)"
    using w' by (auto simp: set_approval_def Let_def ix split: prod.splits option.splits)
  from sync_doc_effect(2) [OF _ _ this] only_rows only_sync(1)
  have "((''a'', ''doc'', ''v1'', ''p1''), set_row [(''approval_status'', PStr ''rejected'')] only_row) \<in> rows (ix_chunks (dw_index w'))"
    by (simp add: sync_ok_def only_key)
  from keep [OF this] w' show ?thesis by (auto simp: only_key)
qed




text \<open>Metadata edits under the schema of \<open>edited_world\<close>, which asks for a positive number of pages.\<close>

definition schema_meta :: meta_service where
  "schema_meta = \<lparr>ms_lib = schema_lib, ms_iso = any_iso, ms_files = no_files, ms_admin = False\<rparr>"

definition schema_docs_world :: doc_world where
  "schema_docs_world = only_world\<lparr>dw_loader := sw_loader edited_world\<rparr>"

definition page_edit :: "int \<Rightarrow> pydict" where
  "page_edit n = [(''title'', PStr ''New''), (''metadata'', PDict [(''pages'', PInt n)])]"

lemma page_edits:
  "case fst (update_document schema_meta ''a'' ''doc'' ''v1'' (page_edit 3) ''kim'' None schema_docs_world) of
     Inr (Some (_, n, keys)) \<Rightarrow> n = 1 \<and> keys = [''title''] | _ \<Rightarrow> False"
  "case fst (update_document schema_meta ''a'' ''doc'' ''v1'' (page_edit 0) ''kim'' None schema_docs_world) of
     Inl (InvalidMetadata es) \<Rightarrow> map fe_code es = [''range''] | _ \<Rightarrow> False"
  by code_simp+

theorem metadata_edit_is_contained_witness:
  "(\<exists>u w' pl. update_document schema_meta ''a'' ''doc'' ''v1'' (page_edit 3) ''kim'' None schema_docs_world = (Inr (Some (u, 1, [''title''])), w')
     \<and> payloads (ix_store (dw_index w')) ''a'' (cr_chunk_id only_row) = Some pl
     \<and> dget pl ''title'' PNone = PStr ''New'' \<and> dget pl ''acl'' PNone = PList [PStr ''all''])
   \<and> (\<exists>e w'. update_document schema_meta ''a'' ''doc'' ''v1'' (page_edit 0) ''kim'' None schema_docs_world = (Inl e, w')
     \<and> dw_index w' = only_docs)"
proof -
  obtain u w1 where w1: "update_document schema_meta ''a'' ''doc'' ''v1'' (page_edit 3) ''kim'' None schema_docs_world = (Inr (Some (u, 1, [''title''])), w1)"
    using page_edits(1) by (cases "update_document schema_meta ''a'' ''doc'' ''v1'' (page_edit 3) ''kim'' None schema_docs_world")
      (auto split: sum.splits option.splits prod.splits)
  obtain e w2 where w2: "update_document schema_meta ''a'' ''doc'' ''v1'' (page_edit 0) ''kim'' None schema_docs_world = (Inl e, w2)"
    using page_edits(2) by (cases "update_document schema_meta ''a'' ''doc'' ''v1'' (page_edit 0) ''kim'' None schema_docs_world")
      (auto split: sum.splits option.splits prod.splits)
  have ix: "dw_index schema_docs_world = only_docs" by (simp add: schema_docs_world_def only_world_def)
  have acl: "dget (point_payload demo_service demo_request [] only_chunk) ''acl'' PNone = PList [PStr ''all'']"
    "''acl'' \<notin> set CHUNK_SYNC_KEYS" "''title'' \<in> set CHUNK_SYNC_KEYS" "map_of (rev (page_edit 3)) ''title'' = Some (PStr ''New'')"
    by (simp_all add: point_payload_def chunk_attrs_def request_attrs_def dget_def demo_request_def CHUNK_SYNC_KEYS_def page_edit_def)
  have row: "((''a'', ''doc'', ''v1'', ''p1''), only_row) \<in> rows (ix_chunks only_docs)" by (simp add: only_rows(2))
  note kept = metadata_edit_is_contained [OF _ _ w1, unfolded ix, OF only_rows(1) only_sync(1), THEN conjunct2, THEN conjunct2, THEN conjunct2]
  obtain pl pl' where pl: "payloads (ix_store only_docs) ''a'' (cr_chunk_id only_row) = Some pl"
    "payloads (ix_store (dw_index w1)) ''a'' (cr_chunk_id only_row) = Some pl'"
    "dget pl' ''acl'' PNone = dget pl ''acl'' PNone" "dget pl' ''title'' PNone = PStr ''New''"
    using bspec [OF kept row] acl(2-4) only_key(1) unfolding fst_conv snd_conv by auto
  have "pl = point_payload demo_service demo_request [] only_chunk" using pl(1) by (simp add: only_payloads only_id)
  moreover have "dw_index w2 = only_docs"
    using metadata_edit_is_contained [OF _ _ w2, unfolded ix, OF only_rows(1) only_sync(1), THEN conjunct2, THEN conjunct2, THEN conjunct1] by simp
  ultimately show ?thesis using pl acl(1) w1 w2 by auto
qed

section \<open>Re-embedding without the metadata\<close>

definition reembed_request :: indexing_request where
  "reembed_request = demo_request\<lparr>rq_mode := EmbeddingOnly, rq_acl := []\<rparr>"

definition reembed_world :: index_world where
  "reembed_world = only_docs\<lparr>ix_jobs := [(''j1'', demo_job)]\<rparr>"

definition reembedded :: index_world where
  "reembedded = snd (run_with_existing_job demo_service reembed_request ''j1'' PNone reembed_world)"

lemma reembed_run:
  "Indexing_Facts.status_of reembedded ''j1'' = Some ''completed''"
  "map_option (\<lambda>pl. dget pl ''acl'' PNone) (payloads (ix_store reembedded) ''a'' (ch_id only_chunk)) = Some (PList [])"
  "ix_chunks reembedded = ix_chunks only_docs"
  by code_simp+

text \<open>
  An embedding-only run is not harmless when its request does not repeat the metadata of the document, and
  the re-index request of the API does not. The run completes and writes the access list of the request, an
  empty one, into the payload of the point, while the row keeps its own: rows and points, which agreed
  before, no longer do.
\<close>

theorem embedding_only_breaks_sync:
  "in_sync (ix_store reembed_world) (rows (ix_chunks reembed_world)) \<and> Indexing_Facts.status_of reembedded ''j1'' = Some ''completed''
   \<and> \<not> in_sync (ix_store reembedded) (rows (ix_chunks reembedded))"
proof -
  have acl: "dget (cr_attrs only_row) ''acl'' PNone = PList [PStr ''all'']"
    by (simp add: only_row_def build_record_def chunk_attrs_def request_attrs_def dget_def demo_request_def)
  have "\<not> agrees pl only_row" if "dget pl ''acl'' PNone = PList []" for pl
    using that acl by (auto simp: agrees_def SHARED_def)
  moreover have "((''a'', ''doc'', ''v1'', ''p1''), only_row) \<in> rows (ix_chunks reembedded)"
    by (simp add: reembed_run(3) only_rows(2))
  ultimately have "\<not> in_sync (ix_store reembedded) (rows (ix_chunks reembedded))"
    using reembed_run(2) by (force simp: in_sync_def synced_def only_id)
  then show ?thesis using only_sync(1) reembed_run(1) by (simp add: reembed_world_def)
qed

end
