(* ===== verification/Spec2Isabelle.thy ===== *)
theory Spec2Isabelle
  imports Item_Properties Assessment_Properties Api_Examples Doc_Examples
begin

text \<open>
  A verification library for domainrag-ops, a multi-tenant platform for question answering over a
  tenant's own documents. Paths below are relative to \<open>src/\<close>; \<open>rag_core\<close> stands for
  \<open>packages/rag_core/rag_core\<close> and \<open>app\<close> for \<open>backend/app\<close>.

  \<^bold>\<open>The program.\<close> A request reaches an endpoint of \<open>app/api\<close>. The token is verified, its client is
  mapped to a tenant and the user's membership row gives clearance, department and groups
  (\<open>app/core/auth_adapter.py\<close>); the path's tenant is checked again (\<open>tenant_guard.py\<close>). The chat service
  (\<open>app/services/rag_service.py\<close>) loads the tenant's configuration (defaults, file, runtime overrides,
  behind a cache), writes a stored approval into it, collects the recent turns from the chat log and runs
  a graph of nodes (\<open>rag_core/workflows\<close>): input check for personal data, access filter, classification,
  routing, query rewriting, retrieval with reranking, Gate 1, structured or conversational generation,
  citation verification in three tiers with a judge, a conflict detector, confidence, Gate 2, output
  masking and the chat log. An assessment branch composes exams from a bank of items, generating,
  validating and reusing questions. The same service streams unverified chat. Conversations and feedback
  are views of the chat log. Documents come in through the indexing orchestrator
  (\<open>app/services/indexing_orchestrator.py\<close>), which registers a job and runs the indexing service in the
  background: parse, split, scan, embed, write points to the vector store and rows to the chunk table.

  \<^bold>\<open>Theories and sources.\<close>
  \<^item> \<open>Prelude\<close>, \<open>Py_Text\<close>, \<open>Py_Data\<close>: Python values (\<open>pyval\<close>), exceptions as values of a sum type (\<open>res\<close>),
    truthiness, \<open>get\<close>, iteration, conversions, string methods on UTF-8 text, insertion-ordered
    dictionaries and slices, with the lemma collections that the components share.
  \<^item> \<open>Enums\<close> (\<open>enums.py\<close>): each enumeration is a datatype; one locale gives decode/encode for all.
  \<^item> \<open>Verifier\<close> (\<open>services/verifier_service.py\<close>, \<open>citation/verifier.py\<close>): thresholds, the tiers, judge
    verdicts, assembly, confidence, Gate 2 and \<open>run\<close>.
  \<^item> \<open>Vector_Store\<close> (\<open>clients/in_memory.py\<close>, \<open>clients/qdrant_store.py\<close>): the payload filter and the store;
    the locale \<open>tenant_store\<close> is its contract. \<open>Acl\<close> (\<open>services/acl_builder.py\<close>): the filter that the user
    gets, against the access rule \<open>may_read\<close> over typed metadata. \<open>Retrieval\<close>
    (\<open>services/retrieval_service.py\<close>, the rerankers): locales \<open>ranking\<close> and \<open>tenant_retrieval\<close>.
  \<^item> \<open>Routing\<close> (\<open>query_classifier.py\<close>, \<open>model_router.py\<close>), \<open>Conflict\<close> (\<open>conflict_detector.py\<close>), \<open>Pii\<close>
    (\<open>pii/detector.py\<close>, \<open>services/pii_service.py\<close>), \<open>Llm_Services\<close> (\<open>generation_service.py\<close>,
    \<open>judge_service.py\<close>, \<open>query_rewriter.py\<close>).
  \<^item> \<open>Rag_State\<close>, \<open>Nodes\<close>, \<open>Graph\<close> (\<open>workflows/nodes.py\<close>, \<open>workflows/rag_graph.py\<close>,
    \<open>services/chat_log_writer.py\<close>): the state record, one definition per node and router, the compiled
    graph as a total function; the locale \<open>graph_invariant\<close> carries an invariant from the nodes to the
    runs and is interpreted once per invariant. \<open>Graph_Examples\<close> evaluates concrete runs.
  \<^item> \<open>Item_Bank\<close>, \<open>Item_Services\<close>, \<open>Item_Properties\<close> (\<open>interfaces/assessment_item_repository.py\<close> and the
    \<open>services/assessment_*\<close> modules for similarity, validation, extraction, generation, figure reuse, the
    hybrid mode and the duplicate key); \<open>Assessment_Chat\<close>, \<open>Assessment_Properties\<close>: the exam branch of the
    nodes.
  \<^item> \<open>Tenant_Config\<close> (\<open>app/core/tenant_config_service.py\<close>, \<open>app/services/tenant_config_service.py\<close>,
    \<open>startup_preload.py\<close>), \<open>Approvals\<close> (\<open>pii_storage_approval_service.py\<close>).
  \<^item> \<open>Auth\<close> (\<open>app/core/auth_adapter.py\<close>, \<open>auth_config.py\<close>, \<open>jwks_client.py\<close>, \<open>tenant_guard.py\<close>,
    \<open>app/services/membership_service.py\<close>).
  \<^item> \<open>Chat_Service\<close> (\<open>app/services/rag_service.py\<close>, \<open>interfaces/chat_log_reader.py\<close>), \<open>Streaming\<close>
    (\<open>services/streaming_chat_service.py\<close>), \<open>Conversations\<close> (\<open>interfaces/conversation_repository.py\<close>,
    \<open>interfaces/feedback_writer.py\<close>), \<open>Chat_Api\<close> (\<open>app/api/tenant_chat.py\<close>); \<open>Chat_Examples\<close> and
    \<open>Api_Examples\<close> hold concrete requests.
  \<^item> \<open>Chunking\<close> (parser and chunker of \<open>clients/in_memory.py\<close>), \<open>Chunk_Repo\<close> and \<open>Documents\<close> (the chunk,
    document and job repositories there and the records of \<open>interfaces/chunk_repository.py\<close>), \<open>Doc_Sync\<close>
    (the agreement of rows and points; the locale \<open>chunk_table\<close> is the contract of a chunk table),
    \<open>Storage\<close> (\<open>app/services/document_storage.py\<close>: paths, the file system, the local storage and the object
    storage with its encryption policy; the locale \<open>document_storage\<close> is the contract of a storage),
    \<open>Indexing\<close> and \<open>Indexing_Facts\<close> (\<open>services/indexing_service.py\<close>), \<open>Orchestrator\<close>
    (\<open>app/services/indexing_orchestrator.py\<close>); \<open>Indexing_Examples\<close> indexes a small file.
  \<^item> \<open>Input_Schema\<close> (\<open>app/core/input_schema.py\<close>, \<open>schema_editor_service.py\<close>,
    \<open>interfaces/tenant_input_schema_repository.py\<close>): validator, loader with its cache, and editor.
    \<open>Doc_Services\<close> (\<open>document_approval_service.py\<close>, \<open>document_metadata_service.py\<close>,
    \<open>hard_delete_service.py\<close> of \<open>app/services\<close>) with \<open>Doc_Examples\<close>.

  \<^bold>\<open>How state and effects are modelled.\<close> A class that keeps state is a record or an association list, its
  methods take and return it. A dictionary from JSON or YAML is a \<open>pyval\<close>, and every access that can raise
  returns an \<open>Inl\<close> error; an HTTP refusal is an error of \<open>Auth\<close>'s type \<open>api\<close>, which keeps the changed world
  beside the error. Text is UTF-8 bytes. Floating point is \<open>real\<close>, without rounding,
  infinities and \<open>NaN\<close>. Clocks, identifiers, latencies, the
  language model, embedders, regular-expression matches, templates, the JWT library, the key endpoint and
  YAML files are parameters; a model that may answer the same prompt differently gets the number of the
  call too. A failing audit ledger is ignored by the code, so what is handed to it is collected.

  \<^bold>\<open>What is shown.\<close>
  \<^item> Access: the filter decides exactly the access rule; every chunk put before the model is readable by
    the user's membership and stored in the tenant of the token (\<open>Acl\<close>, \<open>Vector_Store\<close>, \<open>Retrieval\<close>,
    \<open>Graph\<close>, \<open>Auth\<close>, \<open>Chat_Api\<close>); operations of one tenant do not change another.
  \<^item> Grounding: a successful grounded answer has passed every tier; kept citations meet the threshold of
    their kind; batch similarity equals the one-by-one definition; confidence is the stated weighted sum.
  \<^item> Runs: every run ends, is logged exactly once and keeps its identity; a blocked question reaches no
    model; the response is what the run produced; a stream that is read ends with one final event.
  \<^item> Personal data: masking replaces each match, and the cases where it does not; what storage approvals
    allow.
  \<^item> Assessment: items are approved by explicit approval only, validation fails closed, exams are traceable
    to guarded or approved items, batches cover the plan.
  \<^item> Configuration and approvals: the cache is transparent, preloading agrees with reloading, and the
    override history and the approval table refine event-log specifications.
  \<^item> Indexing: chunks cover the text and partition it without overlap; a run settles its job, keeps rows and
    points in agreement and changes nothing else when it fails; a document version has one active job.
  \<^item> Documents: the validator decides conformance to the tenant's schema, schema versions grow and take effect
    at once; setting an approval reaches the payloads that retrieval filters on; editing metadata stays
    within the synchronised attributes; a hard deletion that reports no dead letter leaves nothing behind;
    what is saved is what is loaded until it is deleted.
  \<^item> Error behaviour: theorems that show where the code does less than its documentation says, such as empty
    access lists that hide a document, re-embedding that parts rows and points, overlapping matches, segments that escape masking, revocations that do not last, keys that bypass a
    restriction and conversations that are shared by identifier.

  \<^bold>\<open>Bounds and fuel.\<close> The graph is acyclic: runs recurse on the rank of a node, so no fuel is needed. A
  generator is read for \<open>n\<close> steps; \<open>stream_ends\<close> shows that one step more than the number of tokens is
  enough. Batch sizes, page sizes and thresholds are those of the code or of the configuration.

  \<^bold>\<open>Not modelled.\<close> The web frontend, database migrations, the Postgres and HTTP forms of repositories and
  clients (SQL and network; their in-process forms are modelled), the wiring of \<open>app/deps.py\<close> and
  \<open>app/main.py\<close>, the administration, platform and assessment routers, tenant lifecycle, archival, evaluation, prompt editing, LoRA training
  and the dashboards. The manifest lists each with its reason.
\<close>

end
